(* ===== verification/Prelude.thy ===== *)
theory Prelude
  imports Complex_Main "HOL-Library.AList"
begin

text \<open>
  Shared notions of the development: the result type of code that may raise, the laws of a
  Python dictionary kept as an association list in insertion order, and the retention contract of
  the bounded logs the program keeps in SQLite.
\<close>

named_theorems res_simps \<open>facts that take apart a computation that may raise\<close>
named_theorems dict_simps \<open>laws of the dictionary operations\<close>

subsection \<open>Computations that may raise\<close>

text \<open>
  A Python computation that returns a value or raises is a value of \<open>'e + 'a\<close>: \<open>Inl\<close> holds the
  exception, \<open>Inr\<close> the returned value. Sequencing stops at the first exception.
\<close>

definition rbind :: "'e + 'a \<Rightarrow> ('a \<Rightarrow> 'e + 'b) \<Rightarrow> 'e + 'b" where
  "rbind m f = (case m of Inl e \<Rightarrow> Inl e | Inr a \<Rightarrow> f a)"

definition guard_raise :: "bool \<Rightarrow> 'e \<Rightarrow> 'e + unit" where
  "guard_raise ok e = (if ok then Inr () else Inl e)"

definition is_ok :: "'e + 'a \<Rightarrow> bool" where
  "is_ok m = (case m of Inl _ \<Rightarrow> False | Inr _ \<Rightarrow> True)"

lemma rbind_simps [simp]:
  "rbind (Inl e) f = Inl e"
  "rbind (Inr a) f = f a"
  by (simp_all add: rbind_def)

lemma rbind_eq_Inr [res_simps]: "rbind m f = Inr b \<longleftrightarrow> (\<exists>a. m = Inr a \<and> f a = Inr b)"
  by (cases m) auto

lemma rbind_eq_Inl [res_simps]:
  "rbind m f = Inl e \<longleftrightarrow> m = Inl e \<or> (\<exists>a. m = Inr a \<and> f a = Inl e)"
  by (cases m) auto

lemma rbind_assoc: "rbind (rbind m f) g = rbind m (\<lambda>a. rbind (f a) g)"
  by (cases m) auto

lemma rbind_cong [fundef_cong]:
  "m = m' \<Longrightarrow> (\<And>a. m' = Inr a \<Longrightarrow> f a = f' a) \<Longrightarrow> rbind m f = rbind m' f'"
  by (cases m') auto

lemma guard_raise_eq [res_simps]:
  "guard_raise ok e = Inr u \<longleftrightarrow> ok"
  "guard_raise ok e = Inl e' \<longleftrightarrow> \<not> ok \<and> e' = e"
  by (auto simp: guard_raise_def)

lemma is_ok_simps [simp]: "is_ok (Inl e) = False" "is_ok (Inr a) = True"
  by (simp_all add: is_ok_def)

lemma is_ok_iff [res_simps]: "is_ok m \<longleftrightarrow> (\<exists>a. m = Inr a)"
  by (cases m) auto

subsection \<open>Dictionaries\<close>

text \<open>
  A Python dictionary keeps its insertion order: storing under a present key replaces the value in
  place, storing under a new key appends. \<open>AList.update\<close> does exactly that; \<open>AList.delete\<close> is
  \<open>dict.pop\<close>. The laws the code relies on are stated once, as an interface.
\<close>

locale dictionary =
  fixes lookup :: "'d \<Rightarrow> 'k \<Rightarrow> 'v option"
    and store :: "'k \<Rightarrow> 'v \<Rightarrow> 'd \<Rightarrow> 'd"
    and remove :: "'k \<Rightarrow> 'd \<Rightarrow> 'd"
    and keys :: "'d \<Rightarrow> 'k set"
  assumes lookup_store: "lookup (store k v d) k' = (if k' = k then Some v else lookup d k')"
    and lookup_remove: "lookup (remove k d) k' = (if k' = k then None else lookup d k')"
    and keys_lookup: "k \<in> keys d \<longleftrightarrow> lookup d k \<noteq> None"
begin

lemma lookup_store_same [simp]: "lookup (store k v d) k = Some v"
  by (simp add: lookup_store)

lemma lookup_store_other: "k' \<noteq> k \<Longrightarrow> lookup (store k v d) k' = lookup d k'"
  by (simp add: lookup_store)

lemma lookup_remove_same [simp]: "lookup (remove k d) k = None"
  by (simp add: lookup_remove)

lemma keys_store: "keys (store k v d) = insert k (keys d)"
  by (auto simp: keys_lookup lookup_store split: if_splits)

lemma keys_remove: "keys (remove k d) = keys d - {k}"
  by (auto simp: keys_lookup lookup_remove split: if_splits)

lemma store_remove_lookup: "lookup (remove k (store k v d)) k' = lookup (remove k d) k'"
  by (simp add: lookup_store lookup_remove)

end

interpretation alist: dictionary map_of AList.update AList.delete "\<lambda>d. fst ` set d"
  by unfold_locales (auto simp: update_conv' delete_conv' map_of_eq_None_iff image_iff)

lemmas alist_laws [dict_simps] = alist.lookup_store alist.lookup_remove alist.keys_store
  alist.keys_remove

lemma update_keys_list:
  "map fst (AList.update k v d) = (if k \<in> fst ` set d then map fst d else map fst d @ [k])"
  by (induction d) auto

lemma distinct_keys_update: "distinct (map fst d) \<Longrightarrow> distinct (map fst (AList.update k v d))"
  by (simp add: distinct_update)

lemma distinct_keys_delete: "distinct (map fst d) \<Longrightarrow> distinct (map fst (AList.delete k d))"
  by (simp add: distinct_delete)

lemma update_same: "map_of d k = Some v \<Longrightarrow> AList.update k v d = d"
  by (induction d) (auto split: if_splits)

subsection \<open>Bounded logs\<close>

text \<open>
  Revisions, audit entries and logins are rows of a table with an increasing primary key; after
  each insert the code deletes every row but the newest \<open>n\<close>. A log keeps its rows newest first.
  The contract: a new row is at the front, nothing else is added, and the size stays bounded.
\<close>

locale bounded_log =
  fixes push :: "'r \<Rightarrow> 'r list \<Rightarrow> 'r list" and bound :: nat
  assumes push_take: "push r rs = take bound (r # rs)"
    and bound_pos: "0 < bound"
begin

lemma push_length: "length (push r rs) \<le> bound"
  by (simp add: push_take)

lemma push_newest: "hd (push r rs) = r \<and> r \<in> set (push r rs)"
  using bound_pos by (cases bound) (auto simp: push_take)

lemma push_old: "x \<in> set (push r rs) \<Longrightarrow> x = r \<or> x \<in> set rs"
  by (auto simp: push_take dest!: in_set_takeD)

lemma push_keeps: "length rs < bound \<Longrightarrow> push r rs = r # rs"
  by (simp add: push_take)

lemma push_prefix: "\<exists>n. tl (push r rs) = take n rs"
  using bound_pos by (cases bound) (auto simp: push_take)

lemma push_sorted:
  assumes "sorted_wrt (>) (map key rs)" and "\<forall>x \<in> set rs. key x < (key r :: nat)"
  shows "sorted_wrt (>) (map key (push r rs))"
proof -
  have "sorted_wrt (>) (map key (r # rs))" using assms by auto
  then show ?thesis
    unfolding push_take take_map [symmetric] by (rule sorted_wrt_take)
qed

end

definition keep_newest :: "nat \<Rightarrow> 'r \<Rightarrow> 'r list \<Rightarrow> 'r list" where
  "keep_newest n r rs = take n (r # rs)"

lemma bounded_log_keep_newest: "0 < n \<Longrightarrow> bounded_log (keep_newest n) n"
  by unfold_locales (simp_all add: keep_newest_def)

subsection \<open>Lists\<close>

lemma sorted_wrt_filter_map: "sorted_wrt R xs \<Longrightarrow> sorted_wrt R (filter P xs)"
  by (induction xs) auto

text \<open>\<open>len(xs) == 1\<close> and then \<open>xs[0]\<close>.\<close>

fun sole :: "'a list \<Rightarrow> 'a option" where
  "sole [x] = Some x"
| "sole _ = None"

lemma sole_eq [simp]: "sole xs = Some x \<longleftrightarrow> xs = [x]"
  by (cases xs rule: sole.cases) auto

lemma sorted_wrt_short: "length xs \<le> 1 \<Longrightarrow> sorted_wrt R xs"
  by (cases xs) auto

lemma fst_image_mem: "(a, b) \<in> set xs \<Longrightarrow> a \<in> fst ` set xs"
  by force

lemma take_Suc_hd: "xs \<noteq> [] \<Longrightarrow> take (Suc 0) xs = [hd xs]"
  by (cases xs) auto

end
