(* ===== verification/PyStr.thy ===== *)
theory PyStr
  imports Prelude "HOL-Library.Char_ord" "HOL-Library.List_Lexorder"
begin

text \<open>
  The operations of Python's \<open>str\<close> the program uses. A Python string is modelled as the list of its
  characters, each a code point up to U+00FF (a HOL \<open>char\<close>), which covers ASCII and Latin-1.
  The character classes are those of Python's Unicode tables restricted to that range.
\<close>

definition code :: "char \<Rightarrow> int" where
  "code c = of_char c"

definition chr :: "int \<Rightarrow> char" where
  "chr n = char_of n"

definition in_range :: "int \<Rightarrow> int \<Rightarrow> char \<Rightarrow> bool" where
  "in_range lo hi c \<longleftrightarrow> lo \<le> code c \<and> code c \<le> hi"

definition newline :: char where
  "newline = chr 10"

definition carriage_return :: char where
  "carriage_return = chr 13"

definition is_digit_ascii :: "char \<Rightarrow> bool" where
  "is_digit_ascii c = in_range 48 57 c"

definition is_lower_ascii :: "char \<Rightarrow> bool" where
  "is_lower_ascii c = in_range 97 122 c"

definition is_upper_ascii :: "char \<Rightarrow> bool" where
  "is_upper_ascii c = in_range 65 90 c"

definition is_alnum_ascii :: "char \<Rightarrow> bool" where
  "is_alnum_ascii c = (is_digit_ascii c \<or> is_lower_ascii c \<or> is_upper_ascii c)"

definition is_hex_lower :: "char \<Rightarrow> bool" where
  "is_hex_lower c = (is_digit_ascii c \<or> in_range 97 102 c)"

definition is_hex :: "char \<Rightarrow> bool" where
  "is_hex c = (is_hex_lower c \<or> in_range 65 70 c)"

text \<open>\<open>str.islower\<close>, \<open>isupper\<close>, \<open>isdigit\<close>, \<open>isalnum\<close> and \<open>isspace\<close> on one character.\<close>

definition py_islower :: "char \<Rightarrow> bool" where
  "py_islower c = (is_lower_ascii c \<or> code c \<in> {170, 181, 186} \<or> in_range 223 246 c
     \<or> in_range 248 255 c)"

definition py_isupper :: "char \<Rightarrow> bool" where
  "py_isupper c = (is_upper_ascii c \<or> in_range 192 214 c \<or> in_range 216 222 c)"

definition py_isdigit :: "char \<Rightarrow> bool" where
  "py_isdigit c = (is_digit_ascii c \<or> code c \<in> {178, 179, 185})"

definition py_isalnum :: "char \<Rightarrow> bool" where
  "py_isalnum c = (py_islower c \<or> py_isupper c \<or> py_isdigit c \<or> code c \<in> {188, 189, 190})"

definition py_isspace :: "char \<Rightarrow> bool" where
  "py_isspace c = (in_range 9 13 c \<or> in_range 28 32 c \<or> code c \<in> {133, 160})"

definition lower_char :: "char \<Rightarrow> char" where
  "lower_char c = (if py_isupper c then chr (code c + 32) else c)"

definition py_lower :: "string \<Rightarrow> string" where
  "py_lower s = map lower_char s"

definition py_strip :: "string \<Rightarrow> string" where
  "py_strip s = rev (dropWhile py_isspace (rev (dropWhile py_isspace s)))"

definition py_rstrip_char :: "char \<Rightarrow> string \<Rightarrow> string" where
  "py_rstrip_char c s = rev (dropWhile (\<lambda>x. x = c) (rev s))"

definition py_replace_char :: "char \<Rightarrow> char \<Rightarrow> string \<Rightarrow> string" where
  "py_replace_char a b s = map (\<lambda>c. if c = a then b else c) s"

definition startswith :: "string \<Rightarrow> string \<Rightarrow> bool" where
  "startswith s pre = (take (length pre) s = pre)"

fun has_infix :: "string \<Rightarrow> string \<Rightarrow> bool" where
  "has_infix pat [] = (pat = [])"
| "has_infix pat (c # s) = (startswith (c # s) pat \<or> has_infix pat s)"

text \<open>\<open>s.split(c)\<close> for a one-character separator: always at least one part.\<close>

fun py_split :: "char \<Rightarrow> string \<Rightarrow> string list" where
  "py_split d [] = [[]]"
| "py_split d (c # s) =
     (if c = d then [] # py_split d s
      else (case py_split d s of [] \<Rightarrow> [[c]] | p # ps \<Rightarrow> (c # p) # ps))"

fun py_join :: "string \<Rightarrow> string list \<Rightarrow> string" where
  "py_join sep [] = []"
| "py_join sep [x] = x"
| "py_join sep (x # xs) = x @ sep @ py_join sep xs"

text \<open>\<open>s.partition(c)\<close>: the part before the first separator, whether it occurs, the rest.\<close>

fun py_partition :: "char \<Rightarrow> string \<Rightarrow> string \<times> bool \<times> string" where
  "py_partition d [] = ([], False, [])"
| "py_partition d (c # s) =
     (if c = d then ([], True, s)
      else (case py_partition d s of (a, f, b) \<Rightarrow> (c # a, f, b)))"

definition py_rsplit_last :: "char \<Rightarrow> string \<Rightarrow> string" where
  "py_rsplit_last d s = last (py_split d s)"

text \<open>\<open>str(n)\<close> for an integer, and \<open>int(s)\<close> for a decimal string with Python's leniencies:
  surrounding white space, a sign, single underscores between digits.\<close>

function show_nat :: "int \<Rightarrow> string" where
  "show_nat n = (if n < 10 then [chr (48 + n)] else show_nat (n div 10) @ [chr (48 + n mod 10)])"
  by pat_completeness auto
termination by (relation "measure nat") auto

declare show_nat.simps [simp del]

definition show_int :: "int \<Rightarrow> string" where
  "show_int i = (if i < 0 then ''-'' @ show_nat (- i) else show_nat i)"

definition digit_val :: "char \<Rightarrow> int" where
  "digit_val c = code c - 48"

definition int_of_digits :: "string \<Rightarrow> int" where
  "int_of_digits s = foldl (\<lambda>n c. 10 * n + digit_val c) 0 s"

fun digit_groups :: "string list \<Rightarrow> bool" where
  "digit_groups ps = (list_all (\<lambda>p. p \<noteq> [] \<and> list_all is_digit_ascii p) ps)"

definition py_int_of_string :: "string \<Rightarrow> int option" where
  "py_int_of_string s0 =
     (let s = py_strip s0;
          neg = startswith s ''-'';
          body = (if startswith s ''-'' \<or> startswith s ''+'' then tl s else s);
          gs = py_split CHR ''_'' body
      in if digit_groups gs
         then Some (let n = int_of_digits (concat gs) in if neg then - n else n)
         else None)"

definition hex_val :: "char \<Rightarrow> int" where
  "hex_val c = (if is_digit_ascii c then code c - 48
                else if in_range 97 102 c then code c - 87 else code c - 55)"

definition int_of_hex :: "string \<Rightarrow> int" where
  "int_of_hex s = foldl (\<lambda>n c. 16 * n + hex_val c) 0 s"

definition hex_digit :: "int \<Rightarrow> char" where
  "hex_digit n = (if n < 10 then chr (48 + n) else chr (87 + n))"

text \<open>\<open>f"{o:02x}"\<close> for \<open>o\<close> below 256, and \<open>'%x' % n\<close>.\<close>

definition hex2 :: "int \<Rightarrow> string" where
  "hex2 n = [hex_digit (n div 16 mod 16), hex_digit (n mod 16)]"

function show_hex :: "int \<Rightarrow> string" where
  "show_hex n = (if n < 16 then [hex_digit n] else show_hex (n div 16) @ [hex_digit (n mod 16)])"
  by pat_completeness auto
termination by (relation "measure nat") auto

declare show_hex.simps [simp del]

text \<open>\<open>len(s.encode("utf-8"))\<close> for code points below U+0100.\<close>

definition utf8_length :: "string \<Rightarrow> nat" where
  "utf8_length s = sum_list (map (\<lambda>c. if code c < 128 then 1 else 2) s)"

text \<open>
  \<open>re.match\<close> with a pattern that ends in \<open>$\<close>: in Python \<open>$\<close> also matches just before one trailing
  newline, so the pattern accepts the text itself and the text followed by a newline.
\<close>

definition re_dollar :: "(string \<Rightarrow> bool) \<Rightarrow> string \<Rightarrow> bool" where
  "re_dollar p s = (p s \<or> (s \<noteq> [] \<and> last s = newline \<and> p (butlast s)))"

subsection \<open>Lemmas\<close>

lemma code_int: "code c = int (of_char c)"
  by (simp add: code_def of_nat_of_char)

lemma code_bounds [simp]: "0 \<le> code c" "code c < 256"
  using nat_of_char_less_256 [of c] by (simp_all add: code_int)

lemma code_chr [simp]: "0 \<le> n \<Longrightarrow> n < 256 \<Longrightarrow> code (chr n) = n"
  by (simp add: code_def chr_def)

lemma chr_code [simp]: "chr (code c) = c"
  by (simp add: code_def chr_def)

lemma code_inject: "code c = code d \<longleftrightarrow> c = d"
  by (metis chr_code)

lemma py_split_not_Nil [simp]: "py_split d s \<noteq> []"
  by (induction s) (auto split: list.splits)

lemma py_split_no_sep: "p \<in> set (py_split d s) \<Longrightarrow> d \<notin> set p"
  by (induction s arbitrary: p) (auto split: list.splits if_splits)

lemma py_split_single: "d \<notin> set s \<Longrightarrow> py_split d s = [s]"
  by (induction s) auto

lemma py_split_append_sep:
  "d \<notin> set s \<Longrightarrow> py_split d (s @ d # t) = s # py_split d t"
  by (induction s) auto

lemma py_split_join:
  "ps \<noteq> [] \<Longrightarrow> (\<forall>p \<in> set ps. d \<notin> set p) \<Longrightarrow> py_split d (py_join [d] ps) = ps"
proof (induction ps)
  case (Cons p ps)
  then show ?case
    by (cases ps) (auto simp: py_split_single py_split_append_sep)
qed simp

lemma py_join_split: "py_join [d] (py_split d s) = s"
proof (induction s)
  case (Cons c s)
  obtain p ps where s: "py_split d s = p # ps" by (cases "py_split d s") auto
  have j: "py_join [d] (p # ps) = s" using Cons s by simp
  have push: "py_join [d] ((c # p) # ps) = c # py_join [d] (p # ps)" by (cases ps) auto
  have sep: "py_join [d] ([] # p # ps) = d # py_join [d] (p # ps)" by simp
  show ?case by (simp only: py_split.simps s list.case push sep j split: if_split) simp
qed simp

lemma hex_val_digit: "0 \<le> n \<Longrightarrow> n < 16 \<Longrightarrow> hex_val (hex_digit n) = n"
  by (auto simp: hex_val_def hex_digit_def is_digit_ascii_def in_range_def)

lemma is_hex_digit: "0 \<le> n \<Longrightarrow> n < 16 \<Longrightarrow> is_hex_lower (hex_digit n)"
  by (auto simp: hex_digit_def is_hex_lower_def is_digit_ascii_def in_range_def)

lemma hex_char_neq:
  "is_hex_lower c \<Longrightarrow> c \<noteq> CHR '':''" "is_hex_lower c \<Longrightarrow> c \<noteq> CHR ''.''"
  by (auto simp: is_hex_lower_def is_digit_ascii_def in_range_def code_def)

lemma int_of_hex_hex2: "0 \<le> n \<Longrightarrow> n < 256 \<Longrightarrow> int_of_hex (hex2 n) = n"
  by (simp add: int_of_hex_def hex2_def hex_val_digit)

lemma is_digit_chr [simp]: "0 \<le> n \<Longrightarrow> n < 10 \<Longrightarrow> is_digit_ascii (chr (48 + n))"
  by (simp add: is_digit_ascii_def in_range_def)

lemma digit_val_chr [simp]: "0 \<le> n \<Longrightarrow> n < 10 \<Longrightarrow> digit_val (chr (48 + n)) = n"
  by (simp add: digit_val_def)

lemma show_nat_digits: "0 \<le> n \<Longrightarrow> list_all is_digit_ascii (show_nat n)"
proof (induction n rule: show_nat.induct)
  case (1 n)
  then show ?case by (subst show_nat.simps) auto
qed

lemma show_nat_not_Nil [simp]: "show_nat n \<noteq> []"
  by (subst show_nat.simps) simp

lemma int_of_digits_snoc: "int_of_digits (s @ [c]) = 10 * int_of_digits s + digit_val c"
  by (simp add: int_of_digits_def)

lemma int_of_digits_show: "0 \<le> n \<Longrightarrow> int_of_digits (show_nat n) = n"
proof (induction n rule: show_nat.induct)
  case (1 n)
  then show ?case
    by (subst show_nat.simps) (auto simp: int_of_digits_snoc, auto simp: int_of_digits_def)
qed

lemma show_nat_inj: "0 \<le> m \<Longrightarrow> 0 \<le> n \<Longrightarrow> show_nat m = show_nat n \<Longrightarrow> m = n"
  by (metis int_of_digits_show)

lemma re_dollar_base: "p s \<Longrightarrow> re_dollar p s"
  by (simp add: re_dollar_def)

lemma startswith_append [simp]: "startswith (pre @ s) pre"
  by (simp add: startswith_def)

lemma startswith_iff: "startswith s pre \<longleftrightarrow> (\<exists>t. s = pre @ t)"
  by (auto simp: startswith_def) (metis append_take_drop_id)

end
