(* ===== verification/Json.thy ===== *)
theory Json
  imports PyStr
begin

text \<open>
  The configuration is one JSON document that the program handles as nested Python dictionaries
  and lists. This theory models the document, Python's operations on it (truth value, equality,
  \<open>get\<close>, \<open>setdefault\<close>, subscription, the \<open>in\<close> operator) with the exceptions they raise, and the two
  shapes all validators share: a sequence of statements that fill in and check fields of one
  object, and a loop over the items of a dictionary or list.
\<close>

datatype json =
    JNull
  | JBool bool
  | JInt int
  | JFloat rat
  | JStr string
  | JList "json list"
  | JObj "(string \<times> json) list"

type_synonym obj = "(string \<times> json) list"

text \<open>\<open>ValidationError\<close> carries the field path; the built-in exceptions carry no data here.\<close>

datatype pyexc = TypeError | KeyError | AttributeError | IndexError | ValueError

datatype verr = ValidationError string | Raised pyexc

subsection \<open>Truth value and equality\<close>

fun truthy :: "json \<Rightarrow> bool" where
  "truthy JNull = False"
| "truthy (JBool b) = b"
| "truthy (JInt i) = (i \<noteq> 0)"
| "truthy (JFloat q) = (q \<noteq> 0)"
| "truthy (JStr s) = (s \<noteq> [])"
| "truthy (JList xs) = (xs \<noteq> [])"
| "truthy (JObj d) = (d \<noteq> [])"

text \<open>\<open>bool\<close> is a subclass of \<open>int\<close> in Python and compares equal to 0 and 1; integers and floats
  compare by value.\<close>

fun num_of :: "json \<Rightarrow> rat option" where
  "num_of (JBool b) = Some (if b then 1 else 0)"
| "num_of (JInt i) = Some (of_int i)"
| "num_of (JFloat q) = Some q"
| "num_of _ = None"

fun py_eq :: "json \<Rightarrow> json \<Rightarrow> bool"
  and py_eq_list :: "json list \<Rightarrow> json list \<Rightarrow> bool"
  and py_eq_items :: "obj \<Rightarrow> obj \<Rightarrow> bool" where
  "py_eq (JStr s) b = (case b of JStr t \<Rightarrow> s = t | _ \<Rightarrow> False)"
| "py_eq (JList xs) b = (case b of JList ys \<Rightarrow> py_eq_list xs ys | _ \<Rightarrow> False)"
| "py_eq (JObj d) b =
     (case b of JObj e \<Rightarrow> length d = length e \<and> py_eq_items d e | _ \<Rightarrow> False)"
| "py_eq a b = (num_of a = num_of b \<and> (num_of a = None \<longrightarrow> a = b))"
| "py_eq_list [] ys = (ys = [])"
| "py_eq_list (x # xs) ys = (case ys of [] \<Rightarrow> False | y # ys' \<Rightarrow> py_eq x y \<and> py_eq_list xs ys')"
| "py_eq_items [] e = True"
| "py_eq_items ((k, v) # d) e =
     ((case map_of e k of None \<Rightarrow> False | Some w \<Rightarrow> py_eq v w) \<and> py_eq_items d e)"

text \<open>Every dictionary of a document has distinct keys.\<close>

fun wf_json :: "json \<Rightarrow> bool" where
  "wf_json (JList xs) = list_all wf_json xs"
| "wf_json (JObj d) = (distinct (map fst d) \<and> list_all (\<lambda>p. wf_json (snd p)) d)"
| "wf_json _ = True"

subsection \<open>Dictionary operations on objects\<close>

definition dget :: "string \<Rightarrow> obj \<Rightarrow> json option" where
  "dget k d = map_of d k"

definition get_or :: "json \<Rightarrow> string \<Rightarrow> obj \<Rightarrow> json" where
  "get_or v k d = (case map_of d k of None \<Rightarrow> v | Some w \<Rightarrow> w)"

definition get_null :: "string \<Rightarrow> obj \<Rightarrow> json" where
  "get_null k d = get_or JNull k d"

definition dset :: "string \<Rightarrow> json \<Rightarrow> obj \<Rightarrow> obj" where
  "dset k v d = AList.update k v d"

definition setdefault :: "string \<Rightarrow> json \<Rightarrow> obj \<Rightarrow> obj" where
  "setdefault k v d = (case map_of d k of None \<Rightarrow> d @ [(k, v)] | Some _ \<Rightarrow> d)"

text \<open>\<open>x.get\<close>, \<open>x.items\<close>, \<open>x.setdefault\<close> on anything but a dictionary is an AttributeError.\<close>

definition as_dict :: "json \<Rightarrow> verr + obj" where
  "as_dict j = (case j of JObj d \<Rightarrow> Inr d | _ \<Rightarrow> Inl (Raised AttributeError))"

text \<open>\<open>x[k]\<close> with a string \<open>k\<close>.\<close>

definition subscript :: "json \<Rightarrow> string \<Rightarrow> verr + json" where
  "subscript j k =
     (case j of JObj d \<Rightarrow> (case map_of d k of None \<Rightarrow> Inl (Raised KeyError) | Some v \<Rightarrow> Inr v)
      | _ \<Rightarrow> Inl (Raised TypeError))"

definition hashable :: "json \<Rightarrow> bool" where
  "hashable j = (case j of JList _ \<Rightarrow> False | JObj _ \<Rightarrow> False | _ \<Rightarrow> True)"

text \<open>\<open>x in c\<close>: keys of a dictionary, elements of a list, substrings of a string.\<close>

definition py_in :: "json \<Rightarrow> json \<Rightarrow> verr + bool" where
  "py_in x c =
     (case c of
        JObj d \<Rightarrow> (if \<not> hashable x then Inl (Raised TypeError)
                  else Inr (case x of JStr k \<Rightarrow> k \<in> fst ` set d | _ \<Rightarrow> False))
      | JList ys \<Rightarrow> Inr (list_ex (py_eq x) ys)
      | JStr t \<Rightarrow> (case x of JStr s \<Rightarrow> Inr (has_infix s t) | _ \<Rightarrow> Inl (Raised TypeError))
      | _ \<Rightarrow> Inl (Raised TypeError))"

lemma map_of_setdefault [dict_simps]:
  "map_of (setdefault k v d) k' =
     (if k' = k \<and> map_of d k = None then Some v else map_of d k')"
  by (auto simp: setdefault_def map_add_def split: option.splits)

lemma setdefault_present [simp]: "map_of d k = Some v \<Longrightarrow> setdefault k w d = d"
  by (simp add: setdefault_def)

lemma setdefault_get: "map_of (setdefault k v d) k = Some (get_or v k d)"
  by (auto simp: map_of_setdefault get_or_def split: option.splits)

lemma distinct_setdefault: "distinct (map fst d) \<Longrightarrow> distinct (map fst (setdefault k v d))"
  by (auto simp: setdefault_def map_of_eq_None_iff split: option.splits)

lemma map_of_dset [dict_simps]:
  "map_of (dset k v d) k' = (if k' = k then Some v else map_of d k')"
  by (simp add: dset_def alist.lookup_store)

lemma as_dict_eq [res_simps]: "as_dict j = Inr d \<longleftrightarrow> j = JObj d"
  by (auto simp: as_dict_def split: json.splits)

lemma subscript_eq [res_simps]:
  "subscript j k = Inr v \<longleftrightarrow> (\<exists>d. j = JObj d \<and> map_of d k = Some v)"
  by (auto simp: subscript_def split: json.splits option.splits)

subsection \<open>Equality is an equivalence on well-formed documents\<close>

lemma py_eq_items_iff:
  "py_eq_items d e \<longleftrightarrow> (\<forall>(k, v) \<in> set d. \<exists>w. map_of e k = Some w \<and> py_eq v w)"
  by (induction d) (auto split: option.splits)

lemma py_eq_list_iff: "py_eq_list xs ys \<longleftrightarrow> list_all2 py_eq xs ys"
proof (induction xs arbitrary: ys)
  case Nil
  then show ?case by simp
next
  case (Cons x xs)
  then show ?case by (cases ys) auto
qed

lemma py_eq_refl: "wf_json j \<Longrightarrow> py_eq j j"
proof (induction j)
  case (JList xs)
  then show ?case by (auto simp: py_eq_list_iff list_all_iff list_all2_conv_all_nth)
next
  case (JObj d)
  then have "\<forall>(k, v) \<in> set d. map_of d k = Some v \<and> py_eq v v"
    by (fastforce simp: list_all_iff snds.simps)
  then show ?case by (fastforce simp: py_eq_items_iff)
qed auto

subsection \<open>Statements on one object\<close>

text \<open>
  A validator is a sequence of statements that fill in and check the fields of one dictionary. A
  statement takes the dictionary and returns it updated with the warnings it adds, or raises.
\<close>

type_synonym 'w step = "obj \<Rightarrow> verr + (obj \<times> 'w list)"

fun steps :: "'w step list \<Rightarrow> 'w step" where
  "steps [] d = Inr (d, [])"
| "steps (s # ss) d =
     rbind (s d) (\<lambda>(d1, w1). rbind (steps ss d1) (\<lambda>(d2, w2). Inr (d2, w1 @ w2)))"

text \<open>\<open>check(obj.setdefault(k, v))\<close>: the most frequent statement.\<close>

definition field :: "string \<Rightarrow> json \<Rightarrow> (json \<Rightarrow> verr + 'a) \<Rightarrow> 'w step" where
  "field k v chk = (\<lambda>d. rbind (chk (get_or v k d)) (\<lambda>_. Inr (setdefault k v d, [])))"

text \<open>\<open>check(obj.get(k))\<close> and other checks that change nothing.\<close>

definition check :: "(obj \<Rightarrow> verr + 'a) \<Rightarrow> 'w step" where
  "check chk = (\<lambda>d. rbind (chk d) (\<lambda>_. Inr (d, [])))"

definition warn_when :: "(obj \<Rightarrow> bool) \<Rightarrow> 'w \<Rightarrow> 'w step" where
  "warn_when c w = (\<lambda>d. Inr (d, if c d then [w] else []))"

text \<open>\<open>obj[k] = f(obj)\<close> where the right-hand side may raise.\<close>

definition assign :: "string \<Rightarrow> (obj \<Rightarrow> verr + json) \<Rightarrow> 'w step" where
  "assign k f = (\<lambda>d. rbind (f d) (\<lambda>v. Inr (dset k v d, [])))"

text \<open>A step that validates the sub-document under \<open>k\<close> (filled in with \<open>v\<close> when missing) and stores
  the result back; in the code the sub-document is mutated in place.\<close>

definition nested :: "string \<Rightarrow> json \<Rightarrow> (json \<Rightarrow> verr + (json \<times> 'w list)) \<Rightarrow> 'w step" where
  "nested k v f = (\<lambda>d. rbind (f (get_or v k d))
     (\<lambda>(j, w). Inr (dset k j (setdefault k v d), w)))"

definition when_step :: "(obj \<Rightarrow> bool) \<Rightarrow> 'w step \<Rightarrow> 'w step" where
  "when_step c s = (\<lambda>d. if c d then s d else Inr (d, []))"

text \<open>A document is extended when no binding is lost or changed. Most statements only extend, so a
  field checked early still has its checked value at the end.\<close>

definition extends :: "obj \<Rightarrow> obj \<Rightarrow> bool" where
  "extends d d' \<longleftrightarrow> (\<forall>k v. map_of d k = Some v \<longrightarrow> map_of d' k = Some v)"

definition extending :: "'w step \<Rightarrow> bool" where
  "extending s \<longleftrightarrow> (\<forall>d d' w. s d = Inr (d', w) \<longrightarrow> extends d d')"

definition keeping :: "string \<Rightarrow> 'w step \<Rightarrow> bool" where
  "keeping k s \<longleftrightarrow> (\<forall>d d' w v. s d = Inr (d', w) \<longrightarrow> map_of d k = Some v \<longrightarrow> map_of d' k = Some v)"

definition leaving :: "string \<Rightarrow> 'w step \<Rightarrow> bool" where
  "leaving k s \<longleftrightarrow> (\<forall>d d' w. s d = Inr (d', w) \<longrightarrow> map_of d' k = map_of d k)"

named_theorems ext_intros \<open>statements that only extend the document\<close>

lemma extends_refl [simp]: "extends d d"
  by (simp add: extends_def)

lemma extends_trans: "extends d e \<Longrightarrow> extends e f \<Longrightarrow> extends d f"
  by (simp add: extends_def)

lemma extends_setdefault [simp]: "extends d (setdefault k v d)"
  by (auto simp: extends_def map_of_setdefault)

lemma extending_keeping: "extending s \<Longrightarrow> keeping k s"
  by (auto simp: extending_def keeping_def extends_def)

lemma extending_field [ext_intros]: "extending (field k v chk)"
  by (auto simp: extending_def field_def res_simps)

lemma extending_check [ext_intros]: "extending (check chk)"
  by (auto simp: extending_def check_def res_simps)

lemma extending_warn [ext_intros]: "extending (warn_when c w)"
  by (auto simp: extending_def warn_when_def)

lemma extending_when [ext_intros]: "extending s \<Longrightarrow> extending (when_step c s)"
  by (auto simp: extending_def when_step_def)

lemma keeping_field [ext_intros]: "keeping k (field k' v chk)"
  by (intro extending_keeping ext_intros)

lemma keeping_check [ext_intros]: "keeping k (check chk)"
  by (intro extending_keeping ext_intros)

lemma keeping_warn [ext_intros]: "keeping k (warn_when c w)"
  by (intro extending_keeping ext_intros)

lemma keeping_assign [ext_intros]: "k \<noteq> k' \<Longrightarrow> keeping k (assign k' f)"
  by (auto simp: keeping_def assign_def res_simps map_of_dset)

lemma keeping_nested [ext_intros]: "k \<noteq> k' \<Longrightarrow> keeping k (nested k' v f)"
  by (auto simp: keeping_def nested_def res_simps map_of_dset map_of_setdefault)

lemma keeping_when [ext_intros]: "keeping k s \<Longrightarrow> keeping k (when_step c s)"
  by (auto simp: keeping_def when_step_def)

lemma leaving_field [ext_intros]: "k \<noteq> k' \<Longrightarrow> leaving k (field k' v chk)"
  by (auto simp: leaving_def field_def res_simps map_of_setdefault)

lemma leaving_check [ext_intros]: "leaving k (check chk)"
  by (auto simp: leaving_def check_def res_simps)

lemma leaving_warn [ext_intros]: "leaving k (warn_when c w)"
  by (auto simp: leaving_def warn_when_def)

lemma leaving_assign [ext_intros]: "k \<noteq> k' \<Longrightarrow> leaving k (assign k' f)"
  by (auto simp: leaving_def assign_def res_simps map_of_dset)

lemma leaving_nested [ext_intros]: "k \<noteq> k' \<Longrightarrow> leaving k (nested k' v f)"
  by (auto simp: leaving_def nested_def res_simps map_of_dset map_of_setdefault)

lemma leaving_when [ext_intros]: "leaving k s \<Longrightarrow> leaving k (when_step c s)"
  by (auto simp: leaving_def when_step_def)

lemma leaving_keeping: "leaving k s \<Longrightarrow> keeping k s"
  by (auto simp: keeping_def leaving_def)

lemma leavingD: "leaving k s \<Longrightarrow> s d = Inr (d', w) \<Longrightarrow> map_of d' k = map_of d k"
  by (auto simp: leaving_def)

lemma leaving_get: "leaving k s \<Longrightarrow> s d = Inr (d', w) \<Longrightarrow> get_null k d' = get_null k d"
  by (simp add: get_null_def get_or_def leavingD)

lemma steps_append:
  "steps (ss @ ts) d =
     rbind (steps ss d) (\<lambda>(d1, w1). rbind (steps ts d1) (\<lambda>(d2, w2). Inr (d2, w1 @ w2)))"
proof (induction ss arbitrary: d)
  case Nil
  then show ?case by (cases "steps ts d") auto
next
  case (Cons s ss)
  then show ?case
    by (cases "s d") (auto simp: rbind_def split: sum.splits)
qed

lemma steps_append_eq [res_simps]:
  "steps (ss @ ts) d = Inr (d', w) \<longleftrightarrow>
     (\<exists>d1 w1 w2. steps ss d = Inr (d1, w1) \<and> steps ts d1 = Inr (d', w2) \<and> w = w1 @ w2)"
  by (auto simp: steps_append rbind_eq_Inr)

lemma steps_Cons_eq:
  "steps (s # ss) d = Inr (d', w) \<longleftrightarrow>
     (\<exists>d1 w1 w2. s d = Inr (d1, w1) \<and> steps ss d1 = Inr (d', w2) \<and> w = w1 @ w2)"
  by (auto simp: rbind_eq_Inr)

lemma steps_extends:
  "steps ss d = Inr (d', w) \<Longrightarrow> list_all extending ss \<Longrightarrow> extends d d'"
proof (induction ss arbitrary: d w)
  case (Cons s ss)
  then obtain d1 w1 w2 where s: "s d = Inr (d1, w1)" and ss: "steps ss d1 = Inr (d', w2)"
    by (auto simp: steps_Cons_eq simp del: steps.simps)
  from s Cons.prems(2) have "extends d d1" by (auto simp: extending_def)
  moreover from Cons.IH [OF ss] Cons.prems(2) have "extends d1 d'" by simp
  ultimately show ?case by (rule extends_trans)
qed simp

lemma steps_keeping:
  "steps ss d = Inr (d', w) \<Longrightarrow> list_all (keeping k) ss \<Longrightarrow> map_of d k = Some v
   \<Longrightarrow> map_of d' k = Some v"
proof (induction ss arbitrary: d w)
  case (Cons s ss)
  then obtain d1 w1 w2 where s: "s d = Inr (d1, w1)" and ss: "steps ss d1 = Inr (d', w2)"
    by (auto simp: steps_Cons_eq simp del: steps.simps)
  from s Cons.prems(2,3) have "map_of d1 k = Some v" by (auto simp: keeping_def)
  with Cons.IH [OF ss] Cons.prems(2) show ?case by simp
qed simp

lemma steps_leaving: "list_all (leaving k) ss \<Longrightarrow> leaving k (steps ss)"
proof (induction ss)
  case (Cons s ss)
  then have "leaving k s" "leaving k (steps ss)" by simp_all
  then show ?case
    unfolding leaving_def steps_Cons_eq by metis
qed (simp add: leaving_def)

lemma steps_keeping_step: "list_all (keeping k) ss \<Longrightarrow> keeping k (steps ss)"
  by (auto simp: keeping_def dest: steps_keeping)

text \<open>The workhorse: a field checked by any statement of the sequence is present and checked at
  the end, provided no statement overwrites it.\<close>

lemma field_established:
  fixes ss :: "'w step list"
  assumes "steps ss d = Inr (d', w)" and "list_all (keeping k) ss"
    and "field k v chk \<in> set ss"
  shows "\<exists>x. map_of d' k = Some x \<and> is_ok (chk x)"
proof -
  from assms(3) obtain xs ys where ss: "ss = xs @ field k v chk # ys"
    by (auto simp: in_set_conv_decomp)
  from assms(1) obtain d1 d2 w2 and w1 :: "'w list" where f: "field k v chk d1 = Inr (d2, w1)"
    and ys: "steps ys d2 = Inr (d', w2)"
    unfolding ss steps_append_eq steps_Cons_eq by blast
  from f have "map_of d2 k = Some (get_or v k d1)" and "is_ok (chk (get_or v k d1))"
    by (auto simp: field_def res_simps setdefault_get)
  moreover from ss assms(2) have "list_all (keeping k) ys" by simp
  ultimately show ?thesis using steps_keeping [OF ys] by blast
qed

lemma field_get:
  "steps ss d = Inr (d', w) \<Longrightarrow> list_all (keeping k) ss \<Longrightarrow> field k v chk \<in> set ss
   \<Longrightarrow> is_ok (chk (get_null k d'))"
  by (drule (2) field_established) (auto simp: get_null_def get_or_def)

subsection \<open>Loops over items\<close>

text \<open>
  \<open>for key, value in d.items(): body\<close> and \<open>for i, value in enumerate(xs): body\<close>: the body may update
  the value in place, carries an accumulator (the \<open>seen\<close> sets of the code) and adds warnings.
\<close>

fun py_for :: "('i \<Rightarrow> json \<Rightarrow> 's \<Rightarrow> verr + (json \<times> 's \<times> 'w list)) \<Rightarrow> ('i \<times> json) list \<Rightarrow> 's
    \<Rightarrow> verr + (('i \<times> json) list \<times> 's \<times> 'w list)" where
  "py_for f [] s = Inr ([], s, [])"
| "py_for f ((i, j) # xs) s =
     rbind (f i j s) (\<lambda>(j', s1, w1).
     rbind (py_for f xs s1) (\<lambda>(xs', s2, w2). Inr ((i, j') # xs', s2, w1 @ w2)))"

definition enumerate_list :: "json list \<Rightarrow> (nat \<times> json) list" where
  "enumerate_list xs = zip [0..<length xs] xs"

text \<open>What every loop of a validator gives: each item it returns satisfies the body's check, and
  the keys are those it started with.\<close>

locale checked_loop =
  fixes body :: "'i \<Rightarrow> json \<Rightarrow> 's \<Rightarrow> verr + (json \<times> 's \<times> 'w list)"
    and good :: "'i \<Rightarrow> json \<Rightarrow> bool"
  assumes body_good: "body i j s = Inr (j', s', w) \<Longrightarrow> good i j'"
begin

lemma loop_good: "py_for body xs s = Inr (ys, s', w) \<Longrightarrow> list_all (\<lambda>(i, j). good i j) ys"
proof (induction xs arbitrary: s ys s' w)
  case (Cons x xs)
  then show ?case by (cases x) (fastforce simp: rbind_eq_Inr dest: body_good)
qed simp

lemma loop_keys: "py_for body xs s = Inr (ys, s', w) \<Longrightarrow> map fst ys = map fst xs"
proof (induction xs arbitrary: s ys s' w)
  case (Cons x xs)
  then show ?case by (cases x) (fastforce simp: rbind_eq_Inr)
qed simp

lemma loop_good_item: "py_for body xs s = Inr (ys, s', w) \<Longrightarrow> (i, j) \<in> set ys \<Longrightarrow> good i j"
  by (drule loop_good) (auto simp: list_all_iff)

end

text \<open>
  A loop that additionally lets every item claim a key and refuses a key that clashes with one
  claimed before: VLAN ids, subnets, ports, rule ids, forwarded ports, records, MLD links.
\<close>

locale seen_loop = checked_loop body good
  for body :: "'i \<Rightarrow> json \<Rightarrow> 's \<Rightarrow> verr + (json \<times> 's \<times> 'w list)"
    and good :: "'i \<Rightarrow> json \<Rightarrow> bool" +
  fixes claim :: "'i \<Rightarrow> json \<Rightarrow> 'k list"
    and seen :: "'s \<Rightarrow> 'k set"
    and clash :: "'k \<Rightarrow> 'k \<Rightarrow> bool"
  assumes body_claims: "body i j s = Inr (j', s', w) \<Longrightarrow>
      sorted_wrt (\<lambda>x y. \<not> clash y x) (claim i j') \<and>
      (\<forall>k \<in> set (claim i j'). \<forall>x \<in> seen s. \<not> clash k x) \<and> seen s' = seen s \<union> set (claim i j')"
begin

definition claims :: "('i \<times> json) list \<Rightarrow> 'k list" where
  "claims xs = concat (map (\<lambda>(i, j). claim i j) xs)"

lemma claims_simps [simp]: "claims [] = []" "claims ((i, j) # xs) = claim i j @ claims xs"
  by (simp_all add: claims_def)

lemma loop_claims:
  "py_for body xs s = Inr (ys, s', w) \<Longrightarrow>
     sorted_wrt (\<lambda>x y. \<not> clash y x) (claims ys) \<and>
     (\<forall>k \<in> set (claims ys). \<forall>x \<in> seen s. \<not> clash k x)"
proof (induction xs arbitrary: s ys s' w)
  case Nil
  then show ?case by simp
next
  case (Cons x xs)
  obtain i j where x: "x = (i, j)" by (cases x)
  with Cons.prems obtain j' s1 w1 ys1 w2 where
    b: "body i j s = Inr (j', s1, w1)" and l: "py_for body xs s1 = Inr (ys1, s', w2)"
    and ys: "ys = (i, j') # ys1"
    by (auto simp: rbind_eq_Inr)
  note c = body_claims [OF b] and h = Cons.IH [OF l]
  show ?case
    using c h unfolding ys claims_simps sorted_wrt_append set_append by blast
qed

text \<open>With equality as the clash no two items claim the same key.\<close>

lemma loop_distinct:
  assumes "clash = (=)" and "py_for body xs s = Inr (ys, s', w)"
  shows "distinct (claims ys)"
  using loop_claims [OF assms(2)] unfolding assms(1)
  by (simp add: distinct_conv_nth sorted_wrt_iff_nth_less) (metis linorder_neqE_nat)

end

text \<open>The usual shape: a list of claimed keys, and every item claims exactly one.\<close>

lemma seen_loop_single:
  assumes "\<And>i j s j' s' w. body i j s = Inr (j', s', w) \<Longrightarrow>
    good i j' \<and> (\<exists>k. claim i j' = [k] \<and> k \<notin> set s \<and> s' = k # s)"
  shows "seen_loop body good claim set (=)"
proof unfold_locales
  fix i j s j' s' w assume b: "body i j s = Inr (j', s', w)"
  from assms [OF b] show "good i j'" by blast
  from assms [OF b] show "sorted_wrt (\<lambda>x y. y \<noteq> x) (claim i j') \<and>
      (\<forall>k \<in> set (claim i j'). \<forall>x \<in> set s. k \<noteq> x) \<and> set s' = set s \<union> set (claim i j')"
    by auto
qed

end
