(* ===== verification/IpAddr.thy ===== *)
theory IpAddr
  imports Json
begin

text \<open>
  The part of Python's standard module \<open>ipaddress\<close> the program relies on: strict dotted-quad IPv4
  parsing, IPv6 parsing with \<open>::\<close>, embedded IPv4 and scope ids, prefixes and netmasks, the canonical
  text form, membership in a network and overlap of two networks.
\<close>

subsection \<open>IPv4\<close>

definition ipv4_octet :: "string \<Rightarrow> int option" where
  "ipv4_octet s =
     (if s = [] \<or> \<not> list_all is_digit_ascii s \<or> 3 < length s then None
      else if s \<noteq> ''0'' \<and> hd s = CHR ''0'' then None
      else if 255 < int_of_digits s then None else Some (int_of_digits s))"

fun ipv4_value :: "int list \<Rightarrow> int" where
  "ipv4_value os = foldl (\<lambda>n x. n * 256 + x) 0 os"

definition parse_ipv4 :: "string \<Rightarrow> int option" where
  "parse_ipv4 s =
     (case map ipv4_octet (py_split CHR ''.'' s) of
        [Some a, Some b, Some c, Some d] \<Rightarrow> Some (ipv4_value [a, b, c, d])
      | _ \<Rightarrow> None)"

definition show_ipv4 :: "int \<Rightarrow> string" where
  "show_ipv4 n = py_join ''.'' (map show_nat
     [n div 2 ^ 24 mod 256, n div 2 ^ 16 mod 256, n div 2 ^ 8 mod 256, n mod 256])"

text \<open>An IPv4 interface or network: an address and the length of its prefix.\<close>

type_synonym ipv4_net = "int \<times> nat"

definition net_index :: "ipv4_net \<Rightarrow> int" where
  "net_index net = fst net div 2 ^ (32 - snd net)"

definition network_address :: "ipv4_net \<Rightarrow> int" where
  "network_address net = net_index net * 2 ^ (32 - snd net)"

definition broadcast_address :: "ipv4_net \<Rightarrow> int" where
  "broadcast_address net = network_address net + (2 ^ (32 - snd net) - 1)"

definition in_network :: "int \<Rightarrow> ipv4_net \<Rightarrow> bool" where
  "in_network a net = (a div 2 ^ (32 - snd net) = net_index net)"

definition net_overlaps :: "ipv4_net \<Rightarrow> ipv4_net \<Rightarrow> bool" where
  "net_overlaps m n =
     (in_network (network_address n) m \<or> in_network (broadcast_address n) m \<or>
      in_network (network_address m) n \<or> in_network (broadcast_address m) n)"

text \<open>A prefix is a number up to 32, or a netmask or hostmask in dotted form.\<close>

definition prefix_of_mask :: "int \<Rightarrow> nat option" where
  "prefix_of_mask m = find (\<lambda>p. m = 2 ^ 32 - 2 ^ (32 - p)) [0..<33]"

definition ipv4_prefix :: "string \<Rightarrow> nat option" where
  "ipv4_prefix s =
     (if s \<noteq> [] \<and> list_all is_digit_ascii s \<and> int_of_digits s \<le> 32
      then Some (nat (int_of_digits s))
      else (case parse_ipv4 s of None \<Rightarrow> None
            | Some m \<Rightarrow> (case prefix_of_mask m of Some p \<Rightarrow> Some p
                         | None \<Rightarrow> prefix_of_mask (2 ^ 32 - 1 - m))))"

definition parse_ipv4_net :: "string \<Rightarrow> ipv4_net option" where
  "parse_ipv4_net s =
     (case py_split CHR ''/'' s of
        [a] \<Rightarrow> map_option (\<lambda>n. (n, 32)) (parse_ipv4 a)
      | [a, m] \<Rightarrow> (case (parse_ipv4 a, ipv4_prefix m) of
                     (Some n, Some p) \<Rightarrow> Some (n, p) | _ \<Rightarrow> None)
      | _ \<Rightarrow> None)"

definition show_ipv4_interface :: "ipv4_net \<Rightarrow> string" where
  "show_ipv4_interface net = show_ipv4 (fst net) @ ''/'' @ show_nat (int (snd net))"

subsection \<open>IPv6\<close>

definition parse_hextet :: "string \<Rightarrow> int option" where
  "parse_hextet s = (if s = [] \<or> \<not> list_all is_hex s \<or> 4 < length s then None
                     else Some (int_of_hex s))"

definition all_some :: "'a option list \<Rightarrow> 'a list option" where
  "all_some xs = (if list_all (\<lambda>x. x \<noteq> None) xs then Some (map the xs) else None)"

text \<open>The parts around \<open>::\<close>: indices of empty parts that are neither first nor last.\<close>

definition inner_empty :: "string list \<Rightarrow> nat list" where
  "inner_empty ps = filter (\<lambda>i. ps ! i = []) [1..<length ps - 1]"

text \<open>The low part of an embedded IPv4 address becomes two hexadecimal parts.\<close>

definition expand_embedded :: "string list \<Rightarrow> string list option" where
  "expand_embedded ps =
     (if CHR ''.'' \<in> set (last ps)
      then (case parse_ipv4 (last ps) of None \<Rightarrow> None
            | Some n \<Rightarrow> Some (butlast ps @ [show_hex (n div 2 ^ 16 mod 2 ^ 16), show_hex (n mod 2 ^ 16)]))
      else Some ps)"

definition ipv6_of_parts :: "string list \<Rightarrow> int list option" where
  "ipv6_of_parts ps =
     (if 9 < length ps then None
      else case inner_empty ps of
        [] \<Rightarrow> (if length ps = 8 then all_some (map parse_hextet ps) else None)
      | [k] \<Rightarrow>
          (let n = length ps;
               hi = (if ps ! 0 = [] then k - 1 else k);
               lo = (if last ps = [] then n - k - 2 else n - k - 1)
           in if ps ! 0 = [] \<and> hi \<noteq> 0 then None
              else if last ps = [] \<and> lo \<noteq> 0 then None
              else if 8 < hi + lo + 1 then None
              else (case (all_some (map parse_hextet (take hi ps)),
                          all_some (map parse_hextet (drop (n - lo) ps))) of
                      (Some h, Some l) \<Rightarrow> Some (h @ replicate (8 - (hi + lo)) 0 @ l)
                    | _ \<Rightarrow> None))
      | _ \<Rightarrow> None)"

definition parse_ipv6 :: "string \<Rightarrow> (int list \<times> string option) option" where
  "parse_ipv6 s =
     (case py_partition CHR ''%'' s of (addr, found, scope) \<Rightarrow>
        if found \<and> (scope = [] \<or> CHR ''%'' \<in> set scope) then None
        else if CHR ''/'' \<in> set s then None
        else (let ps = py_split CHR '':'' addr in
              if addr = [] \<or> length ps < 3 then None
              else (case expand_embedded ps of None \<Rightarrow> None
                    | Some qs \<Rightarrow> map_option (\<lambda>hs. (hs, if found then Some scope else None))
                                  (ipv6_of_parts qs))))"

text \<open>The longest run of zero parts, the first one on a tie: start and length.\<close>

fun zero_runs :: "int list \<Rightarrow> nat \<Rightarrow> (nat \<times> nat) \<Rightarrow> (nat \<times> nat) \<Rightarrow> nat \<times> nat" where
  "zero_runs [] i cur best = best"
| "zero_runs (h # hs) i (start, len) best =
     (if h = 0 then
        (let start' = (if len = 0 then i else start); cur = (start', len + 1)
         in zero_runs hs (i + 1) cur (if snd best < len + 1 then cur else best))
      else zero_runs hs (i + 1) (0, 0) best)"

definition show_ipv6_parts :: "int list \<Rightarrow> string" where
  "show_ipv6_parts hs =
     (case zero_runs hs 0 (0, 0) (0, 0) of (start, len) \<Rightarrow>
        if 1 < len then
          py_join '':'' ((if start = 0 then [[]] else []) @ map show_hex (take start hs) @ [[]] @
            map show_hex (drop (start + len) hs) @
            (if start + len = length hs then [[]] else []))
        else py_join '':'' (map show_hex hs))"

definition show_ipv6 :: "int list \<times> string option \<Rightarrow> string" where
  "show_ipv6 a = show_ipv6_parts (fst a) @
     (case snd a of None \<Rightarrow> [] | Some sc \<Rightarrow> ''%'' @ sc)"

subsection \<open>Either version\<close>

datatype ipaddr = IP4 int | IP6 "int list \<times> string option"

fun ip_version :: "ipaddr \<Rightarrow> nat" where
  "ip_version (IP4 _) = 4"
| "ip_version (IP6 _) = 6"

definition ip_address :: "string \<Rightarrow> ipaddr option" where
  "ip_address s = (case parse_ipv4 s of Some n \<Rightarrow> Some (IP4 n)
                   | None \<Rightarrow> map_option IP6 (parse_ipv6 s))"

fun show_ip :: "ipaddr \<Rightarrow> string" where
  "show_ip (IP4 n) = show_ipv4 n"
| "show_ip (IP6 a) = show_ipv6 a"

text \<open>\<open>ip_network(value, strict=False)\<close> on a string: the version of the network, if it is one.\<close>

definition ip_network_version :: "string \<Rightarrow> nat option" where
  "ip_network_version s =
     (case parse_ipv4_net s of Some _ \<Rightarrow> Some 4
      | None \<Rightarrow>
        (case py_split CHR ''/'' s of
           [a] \<Rightarrow> map_option (\<lambda>_. 6) (parse_ipv6 a)
         | [a, m] \<Rightarrow> (if m \<noteq> [] \<and> list_all is_digit_ascii m \<and> int_of_digits m \<le> 128
                      then map_option (\<lambda>_. 6) (parse_ipv6 a) else None)
         | _ \<Rightarrow> None))"

subsection \<open>Lemmas\<close>

lemma show_nat_octet: "0 \<le> n \<Longrightarrow> n < 256 \<Longrightarrow> ipv4_octet (show_nat n) = Some n"
proof -
  assume n0: "0 \<le> n" and n: "n < 256"
  have d: "list_all is_digit_ascii (show_nat n)" using n0 by (rule show_nat_digits)
  have "length (show_nat n) \<le> 3"
    using n by (auto simp: show_nat.simps [of n] show_nat.simps [of "n div 10"]
        show_nat.simps [of "n div 10 div 10"] split: if_splits)
  moreover have "hd (show_nat n) = CHR ''0'' \<Longrightarrow> n = 0"
  proof -
    assume h: "hd (show_nat n) = CHR ''0''"
    have hd_pos: "0 < m \<Longrightarrow> 48 < code (hd (show_nat m))" for m
    proof (induction m rule: show_nat.induct)
      case (1 m)
      then show ?case by (subst show_nat.simps) (auto simp: hd_append)
    qed
    have "code (CHR ''0'') = 48" by (simp add: code_def)
    with h hd_pos [of n] have "\<not> 0 < n" by auto
    with n0 show "n = 0" by simp
  qed
  moreover have "show_nat 0 = ''0''"
  proof -
    have "chr 48 = chr (code (CHR ''0''))" by (simp add: code_def)
    then show ?thesis by (simp only: chr_code) (simp add: show_nat.simps)
  qed
  ultimately show ?thesis
    using n0 n d by (auto simp: ipv4_octet_def int_of_digits_show)
qed

lemma int_of_digits_nonneg: "list_all is_digit_ascii s \<Longrightarrow> 0 \<le> int_of_digits s"
  by (induction s rule: rev_induct)
    (auto simp: int_of_digits_snoc int_of_digits_def digit_val_def is_digit_ascii_def in_range_def)

lemma ipv4_value_less:
  "ipv4_octet s = Some n \<Longrightarrow> 0 \<le> n \<and> n < 256"
  by (auto simp: ipv4_octet_def int_of_digits_nonneg split: if_splits)

lemma show_nat_no_dot: "0 \<le> n \<Longrightarrow> CHR ''.'' \<notin> set (show_nat n)"
  using show_nat_digits [of n]
  by (auto simp: list_all_iff is_digit_ascii_def in_range_def code_def)

lemma octets_value:
  fixes n :: int
  assumes "0 \<le> n" "n < 2 ^ 32"
  shows "ipv4_value [n div 2 ^ 24 mod 256, n div 2 ^ 16 mod 256, n div 2 ^ 8 mod 256, n mod 256] = n"
proof -
  have "n div 2 ^ 16 = n div 2 ^ 8 div 256" "n div 2 ^ 24 = n div 2 ^ 8 div 256 div 256"
    by (simp_all add: zdiv_zmult2_eq [symmetric])
  moreover have "n div 2 ^ 8 div 256 div 256 mod 256 = n div 2 ^ 8 div 256 div 256"
    using assms by (simp add: zdiv_zmult2_eq [symmetric])
  ultimately show ?thesis by (simp add: algebra_simps)
qed

lemma parse_show_ipv4: "0 \<le> n \<Longrightarrow> n < 2 ^ 32 \<Longrightarrow> parse_ipv4 (show_ipv4 n) = Some n"
proof -
  assume n: "0 \<le> n" "n < 2 ^ 32"
  let ?os = "[n div 2 ^ 24 mod 256, n div 2 ^ 16 mod 256, n div 2 ^ 8 mod 256, n mod 256]"
  have "py_split CHR ''.'' (show_ipv4 n) = map show_nat ?os"
    unfolding show_ipv4_def by (rule py_split_join) (auto simp: show_nat_no_dot)
  then have "parse_ipv4 (show_ipv4 n) = Some (ipv4_value ?os)"
    by (simp only: parse_ipv4_def list.map) (simp add: show_nat_octet del: ipv4_value.simps)
  then show ?thesis by (simp only: octets_value [OF n])
qed

lemma parse_ipv4_bound: "parse_ipv4 s = Some n \<Longrightarrow> 0 \<le> n \<and> n < 2 ^ 32"
  by (auto simp: parse_ipv4_def split: list.splits option.splits dest!: ipv4_value_less)

lemma prefix_of_mask_le: "prefix_of_mask m = Some p \<Longrightarrow> p \<le> 32"
  by (auto simp: prefix_of_mask_def find_Some_iff)

lemma ipv4_prefix_le: "ipv4_prefix s = Some p \<Longrightarrow> p \<le> 32"
  by (auto simp: ipv4_prefix_def split: if_splits option.splits dest: prefix_of_mask_le)

lemma parse_ipv4_net_bounds:
  "parse_ipv4_net s = Some (n, p) \<Longrightarrow> 0 \<le> n \<and> n < 2 ^ 32 \<and> p \<le> 32"
  unfolding parse_ipv4_net_def
  by (auto split: list.splits option.splits dest: parse_ipv4_bound ipv4_prefix_le)

lemma in_network_range:
  "in_network a net \<longleftrightarrow> network_address net \<le> a \<and> a \<le> broadcast_address net"
proof -
  let ?w = "2 ^ (32 - snd net) :: int"
  have w: "0 < ?w" by simp
  have "a div ?w = k \<longleftrightarrow> k * ?w \<le> a \<and> a \<le> k * ?w + (?w - 1)" for k
  proof
    assume "a div ?w = k"
    then have "a = k * ?w + a mod ?w" by (metis mult_div_mod_eq mult.commute)
    with pos_mod_bound [OF w, of a] pos_mod_sign [OF w, of a]
    show "k * ?w \<le> a \<and> a \<le> k * ?w + (?w - 1)" by linarith
  next
    assume "k * ?w \<le> a \<and> a \<le> k * ?w + (?w - 1)"
    then show "a div ?w = k"
      by (intro int_div_pos_eq [where r = "a - k * ?w"]) (auto simp: algebra_simps)
  qed
  then show ?thesis
    by (simp add: in_network_def network_address_def broadcast_address_def)
qed

text \<open>The overlap test decides whether the two address ranges have a common address.\<close>

lemma net_overlaps_iff: "net_overlaps m n \<longleftrightarrow> (\<exists>a. in_network a m \<and> in_network a n)"
proof
  assume "net_overlaps m n"
  moreover have "in_network (network_address k) k" "in_network (broadcast_address k) k" for k
    by (auto simp: in_network_range broadcast_address_def)
  ultimately show "\<exists>a. in_network a m \<and> in_network a n"
    unfolding net_overlaps_def by blast
next
  assume "\<exists>a. in_network a m \<and> in_network a n"
  then obtain a where "in_network a m" "in_network a n" by blast
  then have "network_address m \<le> broadcast_address n" "network_address n \<le> broadcast_address m"
    by (auto simp: in_network_range)
  moreover have "network_address k \<le> broadcast_address k" for k
    by (simp add: broadcast_address_def)
  ultimately show "net_overlaps m n"
    by (auto simp: net_overlaps_def in_network_range)
qed

lemma net_overlaps_sym: "net_overlaps m n \<longleftrightarrow> net_overlaps n m"
  by (auto simp: net_overlaps_iff)

end
