(* ===== verification/SchemaPrim.thy ===== *)
theory SchemaPrim
  imports IpAddr
begin

text \<open>
  The primitive validators of \<open>schema.py\<close> (\<open>v_id\<close>, \<open>v_name\<close>, \<open>v_enum\<close>, \<open>v_int\<close>, ...), its regular
  expressions as predicates on strings, and the warnings the document validators return. A
  validator returns the value it accepts or raises \<open>ValidationError\<close> with the path of the field; the
  human-readable text of the message is not modelled. A float has no modelled text form, so where
  the code applies \<open>str\<close> to a value a float is treated as not matching.
\<close>

subsection \<open>Constants\<close>

definition SCHEMA_VERSION :: int where
  "SCHEMA_VERSION = 4"

definition PORT_ROLES :: "string list" where
  "PORT_ROLES = [''lan'', ''wan'', ''disabled'']"

definition NETWORK_PURPOSES :: "string list" where
  "NETWORK_PURPOSES =
     [''corporate'', ''guest'', ''iot'', ''voice'', ''management'', ''dmz'', ''vpn'']"

definition ZONES :: "string list" where
  "ZONES = [''wan'', ''lan'', ''gateway'', ''vpn'', ''guest'', ''iot'', ''dmz'', ''management'',
     ''containers'']"

definition WAN_MODES :: "string list" where
  "WAN_MODES = [''dhcp'', ''static'', ''pppoe'', ''disabled'']"

definition WAN_IPV6_MODES :: "string list" where
  "WAN_IPV6_MODES = [''disabled'', ''dhcpv6'', ''dhcpv6-pd'', ''slaac'', ''static'']"

definition FW_ACTIONS :: "string list" where
  "FW_ACTIONS = [''allow'', ''reject'', ''drop'']"

definition BANDS :: "string list" where
  "BANDS = [''2g'', ''5g'', ''6g'']"

definition WIDTHS :: "int list" where
  "WIDTHS = [20, 40, 80, 160, 240, 320]"

definition SECURITY_MODES :: "string list" where
  "SECURITY_MODES = [''open'', ''wpa2'', ''wpa2-wpa3'', ''wpa3'', ''wpa2-enterprise'',
     ''wpa3-enterprise'']"

definition APPLICATIONS :: "string list" where
  "APPLICATIONS = [''standard'', ''hotspot'', ''iot'']"

definition BROADCASTING_APS :: "string list" where
  "BROADCASTING_APS = [''all'', ''group'', ''specific'']"

definition ADVANCED_MODES :: "string list" where
  "ADVANCED_MODES = [''auto'', ''manual'']"

definition MULTICAST_FILTERING :: "string list" where
  "MULTICAST_FILTERING = [''off'', ''auto'', ''custom'']"

definition RF_ENVIRONMENTS :: "string list" where
  "RF_ENVIRONMENTS = [''indoor'', ''outdoor'', ''any'']"

definition SIX_GHZ_POWER_MODES :: "string list" where
  "SIX_GHZ_POWER_MODES = [''lpi'', ''sp'', ''vlp'']"

definition ROLES :: "string list" where
  "ROLES = [''owner'', ''super-admin'', ''network-admin'', ''security-admin'', ''helpdesk'',
     ''read-only'']"

definition DEVICE_MODES :: "string list" where
  "DEVICE_MODES = [''gateway'', ''ap'']"

definition SSID_UPLINKS :: "string list" where
  "SSID_UPLINKS = [''lan'', ''wan'']"

definition FAN_MODES :: "string list" where
  "FAN_MODES = [''auto'', ''quiet'', ''balanced'', ''cool'', ''max'', ''manual'']"

definition LED_MODES :: "string list" where
  "LED_MODES = [''status'', ''identify'', ''off'']"

subsection \<open>Regular expressions\<close>

text \<open>\<open>[A][B]{0,n}\<close>: one character of a class, then up to \<open>n\<close> of another.\<close>

fun head_tail :: "(char \<Rightarrow> bool) \<Rightarrow> (char \<Rightarrow> bool) \<Rightarrow> nat \<Rightarrow> string \<Rightarrow> bool" where
  "head_tail h t n [] = False"
| "head_tail h t n (c # s) = (h c \<and> list_all t s \<and> length s \<le> n)"

definition MAC_RE :: "string \<Rightarrow> bool" where
  "MAC_RE = re_dollar (\<lambda>s. let ps = py_split CHR '':'' s in
     length ps = 6 \<and> list_all (\<lambda>p. length p = 2 \<and> list_all is_hex_lower p) ps)"

definition NAME_RE :: "string \<Rightarrow> bool" where
  "NAME_RE = re_dollar (head_tail is_alnum_ascii
     (\<lambda>c. is_alnum_ascii c \<or> c \<in> set '' ._()/+-'') 62)"

definition ID_RE :: "string \<Rightarrow> bool" where
  "ID_RE = re_dollar (head_tail (\<lambda>c. is_lower_ascii c \<or> is_digit_ascii c)
     (\<lambda>c. is_lower_ascii c \<or> is_digit_ascii c \<or> c = CHR ''-'') 38)"

definition HOSTNAME_RE :: "string \<Rightarrow> bool" where
  "HOSTNAME_RE = re_dollar (head_tail is_alnum_ascii (\<lambda>c. is_alnum_ascii c \<or> c = CHR ''-'') 62)"

subsection \<open>Primitive validators\<close>

definition sub_path :: "string \<Rightarrow> string \<Rightarrow> string" where
  "sub_path base s = base @ ''.'' @ s"

definition idx_path :: "string \<Rightarrow> nat \<Rightarrow> string" where
  "idx_path base i = base @ ''['' @ show_int (int i) @ '']''"

definition verr_at :: "string \<Rightarrow> verr + 'a" where
  "verr_at path = Inl (ValidationError path)"

definition need_dict :: "json \<Rightarrow> string \<Rightarrow> verr + obj" where
  "need_dict v path = (case v of JObj d \<Rightarrow> Inr d | _ \<Rightarrow> verr_at path)"

definition need_list :: "json \<Rightarrow> string \<Rightarrow> verr + json list" where
  "need_list v path = (case v of JList xs \<Rightarrow> Inr xs | _ \<Rightarrow> verr_at path)"

definition need_str :: "json \<Rightarrow> string \<Rightarrow> verr + string" where
  "need_str v path = (case v of JStr s \<Rightarrow> Inr s | _ \<Rightarrow> verr_at path)"

definition v_id :: "json \<Rightarrow> string \<Rightarrow> verr + string" where
  "v_id v path = rbind (need_str v path) (\<lambda>s. if ID_RE s then Inr s else verr_at path)"

definition v_name :: "json \<Rightarrow> string \<Rightarrow> verr + string" where
  "v_name v path = rbind (need_str v path) (\<lambda>s. if NAME_RE s then Inr s else verr_at path)"

definition v_enum :: "json \<Rightarrow> string \<Rightarrow> string list \<Rightarrow> verr + string" where
  "v_enum v path allowed =
     (case v of JStr s \<Rightarrow> (if s \<in> set allowed then Inr s else verr_at path)
      | _ \<Rightarrow> verr_at path)"

definition v_int :: "json \<Rightarrow> string \<Rightarrow> int \<Rightarrow> int \<Rightarrow> verr + int" where
  "v_int v path low high =
     (case v of JInt i \<Rightarrow> (if low \<le> i \<and> i \<le> high then Inr i else verr_at path)
      | _ \<Rightarrow> verr_at path)"

definition v_bool :: "json \<Rightarrow> string \<Rightarrow> verr + bool" where
  "v_bool v path = (case v of JBool b \<Rightarrow> Inr b | _ \<Rightarrow> verr_at path)"

definition v_vlan :: "json \<Rightarrow> string \<Rightarrow> verr + int option" where
  "v_vlan v path = (if v = JNull then Inr None
     else rbind (v_int v path 1 4094) (\<lambda>i. Inr (Some i)))"

definition v_mac :: "json \<Rightarrow> string \<Rightarrow> verr + string" where
  "v_mac v path = rbind (need_str v path) (\<lambda>s.
     let mac = py_replace_char CHR ''-'' CHR '':'' (py_lower (py_strip s))
     in if MAC_RE mac then Inr mac else verr_at path)"

definition v_ip :: "json \<Rightarrow> string \<Rightarrow> nat option \<Rightarrow> verr + string" where
  "v_ip v path version = rbind (need_str v path) (\<lambda>s.
     case ip_address s of None \<Rightarrow> verr_at path
     | Some a \<Rightarrow> (case version of
           None \<Rightarrow> Inr (show_ip a)
         | Some n \<Rightarrow> (if ip_version a = n then Inr (show_ip a) else verr_at path)))"

text \<open>\<open>v_cidr\<close> is only ever called for version 4.\<close>

definition v_cidr :: "json \<Rightarrow> string \<Rightarrow> verr + string" where
  "v_cidr v path = rbind (need_str v path) (\<lambda>s.
     case parse_ipv4_net s of None \<Rightarrow> verr_at path
     | Some net \<Rightarrow> (if snd net = 32 then verr_at path else Inr (show_ipv4_interface net)))"

text \<open>\<open>str(value)\<close> of a scalar other than a float.\<close>

fun str_scalar :: "json \<Rightarrow> string option" where
  "str_scalar JNull = Some ''None''"
| "str_scalar (JBool b) = Some (if b then ''True'' else ''False'')"
| "str_scalar (JInt i) = Some (show_int i)"
| "str_scalar (JStr s) = Some s"
| "str_scalar _ = None"

definition port_numbers :: "string \<Rightarrow> int option list" where
  "port_numbers text = map py_int_of_string (py_split CHR ''-'' text)"

definition v_port_range :: "json \<Rightarrow> string \<Rightarrow> verr + string" where
  "v_port_range v path =
     (case str_scalar v of None \<Rightarrow> verr_at path
      | Some raw \<Rightarrow>
         (let text = py_strip raw; parts = port_numbers text in
          if 2 < length parts then verr_at path
          else (case all_some parts of None \<Rightarrow> verr_at path
                | Some nums \<Rightarrow>
                    if \<not> list_all (\<lambda>n. 1 \<le> n \<and> n \<le> 65535) nums then verr_at path
                    else if length nums = 2 \<and> nums ! 1 < nums ! 0 then verr_at path
                    else Inr text)))"

definition v_psk :: "json \<Rightarrow> string \<Rightarrow> verr + string" where
  "v_psk v path = rbind (need_str v path) (\<lambda>s.
     if 8 \<le> length s \<and> length s \<le> 63 then Inr s else verr_at path)"

definition v_ssid :: "json \<Rightarrow> string \<Rightarrow> verr + string" where
  "v_ssid v path = rbind (need_str v path) (\<lambda>s.
     if 1 \<le> utf8_length s \<and> utf8_length s \<le> 32 then Inr s else verr_at path)"

text \<open>Iterating a value: elements of a list, characters of a string, keys of a dictionary.\<close>

definition py_iter :: "json \<Rightarrow> verr + json list" where
  "py_iter v = (case v of JList xs \<Rightarrow> Inr xs | JStr s \<Rightarrow> Inr (map (\<lambda>c. JStr [c]) s)
     | JObj d \<Rightarrow> Inr (map (\<lambda>p. JStr (fst p)) d) | _ \<Rightarrow> Inl (Raised TypeError))"

fun check_each :: "(nat \<Rightarrow> json \<Rightarrow> verr + 'a) \<Rightarrow> nat \<Rightarrow> json list \<Rightarrow> verr + 'a list" where
  "check_each f i [] = Inr []"
| "check_each f i (x # xs) =
     rbind (f i x) (\<lambda>y. rbind (check_each f (Suc i) xs) (\<lambda>ys. Inr (y # ys)))"

text \<open>A dictionary validated by a sequence of statements; the first form raises AttributeError on
  anything else, the second reports the path.\<close>

definition dict_steps :: "'w step list \<Rightarrow> json \<Rightarrow> verr + (json \<times> 'w list)" where
  "dict_steps ss j = rbind (as_dict j) (\<lambda>d. rbind (steps ss d) (\<lambda>(d', w). Inr (JObj d', w)))"

definition object_steps :: "string \<Rightarrow> 'w step list \<Rightarrow> json \<Rightarrow> verr + (json \<times> 'w list)" where
  "object_steps path ss j =
     rbind (need_dict j path) (\<lambda>d. rbind (steps ss d) (\<lambda>(d', w). Inr (JObj d', w)))"

text \<open>\<open>for i, x in enumerate(d.setdefault(k, [])): body\<close> where the body updates dictionaries in
  place: the list under \<open>k\<close> is stored back. Iterating a string or a dictionary gives strings, which
  every such body rejects or leaves alone, so nothing is stored back then.\<close>

definition for_list :: "(nat \<Rightarrow> json \<Rightarrow> 's \<Rightarrow> verr + (json \<times> 's \<times> 'w list)) \<Rightarrow> 's \<Rightarrow> json
    \<Rightarrow> verr + (json \<times> 'w list)" where
  "for_list body s v = rbind (py_iter v) (\<lambda>xs.
     rbind (py_for body (enumerate_list xs) s) (\<lambda>(ys, _, w).
       Inr (case v of JList _ \<Rightarrow> JList (map snd ys) | _ \<Rightarrow> v, w)))"

definition for_dict :: "(string \<Rightarrow> json \<Rightarrow> 's \<Rightarrow> verr + (json \<times> 's \<times> 'w list)) \<Rightarrow> 's \<Rightarrow> json
    \<Rightarrow> verr + (json \<times> 'w list)" where
  "for_dict body s v = rbind (as_dict v) (\<lambda>d.
     rbind (py_for body d s) (\<lambda>(d', _, w). Inr (JObj d', w)))"

subsection \<open>Warnings\<close>

datatype warning =
    ApModeNotice
  | FanBelowFloor int
  | WanMoved string string string
  | UnusedWanPorts "string list"
  | DpiOffload
  | WidthAboveHardware string
  | WanBridgedSsid string
  | NoRadioForBands string
  | NotMlo string
  | PmfForced string
  | LpiOutdoor
  | StandardPower
  | Wide2g string
  | Wide5g string
  | MldRadioDisabled string string
  | MldPmfForced string

subsection \<open>Lemmas\<close>

lemma verr_at_eq [simp]: "verr_at p \<noteq> Inr a" "Inr a \<noteq> verr_at p"
  "verr_at p = Inl e \<longleftrightarrow> e = ValidationError p"
  by (auto simp: verr_at_def)

lemma need_eq [res_simps]:
  "need_dict v p = Inr d \<longleftrightarrow> v = JObj d"
  "need_list v p = Inr xs \<longleftrightarrow> v = JList xs"
  "need_str v p = Inr s \<longleftrightarrow> v = JStr s"
  by (auto simp: need_dict_def need_list_def need_str_def split: json.splits)

lemma v_id_eq [res_simps]: "v_id v p = Inr s \<longleftrightarrow> v = JStr s \<and> ID_RE s"
  by (auto simp: v_id_def res_simps)

lemma v_name_eq [res_simps]: "v_name v p = Inr s \<longleftrightarrow> v = JStr s \<and> NAME_RE s"
  by (auto simp: v_name_def res_simps)

lemma v_enum_eq [res_simps]: "v_enum v p al = Inr s \<longleftrightarrow> v = JStr s \<and> s \<in> set al"
  by (auto simp: v_enum_def split: json.splits)

lemma v_int_eq [res_simps]: "v_int v p lo hi = Inr i \<longleftrightarrow> v = JInt i \<and> lo \<le> i \<and> i \<le> hi"
  by (auto simp: v_int_def split: json.splits)

lemma v_bool_eq [res_simps]: "v_bool v p = Inr b \<longleftrightarrow> v = JBool b"
  by (auto simp: v_bool_def split: json.splits)

lemma v_vlan_eq [res_simps]:
  "v_vlan v p = Inr r \<longleftrightarrow>
     (v = JNull \<and> r = None) \<or> (\<exists>i. v = JInt i \<and> r = Some i \<and> 1 \<le> i \<and> i \<le> 4094)"
  by (auto simp: v_vlan_def res_simps)

lemma v_psk_eq [res_simps]: "v_psk v p = Inr s \<longleftrightarrow> v = JStr s \<and> 8 \<le> length s \<and> length s \<le> 63"
  by (auto simp: v_psk_def res_simps)

lemma v_ssid_eq [res_simps]:
  "v_ssid v p = Inr s \<longleftrightarrow> v = JStr s \<and> 1 \<le> utf8_length s \<and> utf8_length s \<le> 32"
  by (auto simp: v_ssid_def res_simps)

text \<open>Every refusal of a primitive validator names the field it was given.\<close>

lemma v_errors_at_path:
  "v_id v p = Inl e \<Longrightarrow> e = ValidationError p"
  "v_name v p = Inl e \<Longrightarrow> e = ValidationError p"
  "v_enum v p al = Inl e \<Longrightarrow> e = ValidationError p"
  "v_int v p lo hi = Inl e \<Longrightarrow> e = ValidationError p"
  "v_bool v p = Inl e \<Longrightarrow> e = ValidationError p"
  "v_vlan v p = Inl e \<Longrightarrow> e = ValidationError p"
  "v_mac v p = Inl e \<Longrightarrow> e = ValidationError p"
  "v_ip v p ver = Inl e \<Longrightarrow> e = ValidationError p"
  "v_cidr v p = Inl e \<Longrightarrow> e = ValidationError p"
  "v_port_range v p = Inl e \<Longrightarrow> e = ValidationError p"
  "v_psk v p = Inl e \<Longrightarrow> e = ValidationError p"
  "v_ssid v p = Inl e \<Longrightarrow> e = ValidationError p"
  by (auto simp: v_id_def v_name_def v_enum_def v_int_def v_bool_def v_vlan_def v_mac_def
      v_ip_def v_cidr_def v_port_range_def v_psk_def v_ssid_def need_str_def rbind_def Let_def
      split: json.splits sum.splits option.splits if_splits)

lemma check_each_eq [res_simps]:
  "check_each f i xs = Inr ys \<longleftrightarrow>
     length ys = length xs \<and> (\<forall>k < length xs. f (i + k) (xs ! k) = Inr (ys ! k))"
proof (induction xs arbitrary: i ys)
  case (Cons x xs)
  show ?case
  proof (cases ys)
    case (Cons y ys')
    have split: "(\<forall>k < Suc n. P k) \<longleftrightarrow> P 0 \<and> (\<forall>k < n. P (Suc k))" for P and n :: nat
      by (auto simp: less_Suc_eq_0_disj)
    show ?thesis by (auto simp: Cons rbind_eq_Inr Cons.IH split)
  qed (auto simp: rbind_eq_Inr)
qed auto

lemma object_steps_eq [res_simps]:
  "object_steps p ss j = Inr (j', w) \<longleftrightarrow>
     (\<exists>d d'. j = JObj d \<and> j' = JObj d' \<and> steps ss d = Inr (d', w))"
  by (auto simp: object_steps_def res_simps)

lemma dict_steps_eq [res_simps]:
  "dict_steps ss j = Inr (j', w) \<longleftrightarrow>
     (\<exists>d d'. j = JObj d \<and> j' = JObj d' \<and> steps ss d = Inr (d', w))"
  by (auto simp: dict_steps_def res_simps)

lemma for_dict_eq [res_simps]:
  "for_dict body s v = Inr (v', w) \<longleftrightarrow>
     (\<exists>d d' s'. v = JObj d \<and> v' = JObj d' \<and> py_for body d s = Inr (d', s', w))"
  by (auto simp: for_dict_def res_simps)

lemma parse_show_interface:
  assumes "0 \<le> n" "n < 2 ^ 32" "p \<le> 32"
  shows "parse_ipv4_net (show_ipv4_interface (n, p)) = Some (n, p)"
proof -
  have slash: "CHR ''/'' \<notin> set (show_nat m)" if "0 \<le> m" for m
    using show_nat_digits [OF that]
    by (auto simp: list_all_iff is_digit_ascii_def in_range_def code_def)
  have join: "CHR ''/'' \<notin> set (show_ipv4 n)"
    using assms(1) by (simp add: show_ipv4_def slash)
  have "py_split CHR ''/'' (show_ipv4_interface (n, p)) = [show_ipv4 n, show_nat (int p)]"
    using join slash [of "int p"]
    by (simp add: show_ipv4_interface_def py_split_append_sep py_split_single)
  moreover have "ipv4_prefix (show_nat (int p)) = Some p"
    using assms(3) by (simp add: ipv4_prefix_def show_nat_digits int_of_digits_show)
  ultimately show ?thesis
    using parse_show_ipv4 [OF assms(1,2)] by (simp add: parse_ipv4_net_def)
qed

lemma v_cidr_eq:
  assumes "v_cidr v p = Inr s"
  shows "\<exists>t n q. v = JStr t \<and> parse_ipv4_net t = Some (n, q) \<and>
    parse_ipv4_net s = Some (n, q) \<and> q < 32 \<and> 0 \<le> n \<and> n < 2 ^ 32"
proof -
  from assms obtain t where v: "v = JStr t" by (auto simp: v_cidr_def res_simps)
  with assms obtain n q where net: "parse_ipv4_net t = Some (n, q)"
    by (cases "parse_ipv4_net t") (auto simp: v_cidr_def res_simps)
  with assms v have q: "q \<noteq> 32" and s: "s = show_ipv4_interface (n, q)"
    by (auto simp: v_cidr_def res_simps split: if_splits)
  note b = parse_ipv4_net_bounds [OF net]
  then have "parse_ipv4_net s = Some (n, q)" unfolding s by (intro parse_show_interface) auto
  with b q v net show ?thesis by (intro exI [of _ t] exI [of _ n] exI [of _ q]) simp
qed

lemma v_ip4_eq:
  assumes "v_ip v p (Some 4) = Inr s"
  shows "\<exists>t n. v = JStr t \<and> parse_ipv4 t = Some n \<and> parse_ipv4 s = Some n"
proof -
  from assms obtain t where v: "v = JStr t" by (auto simp: v_ip_def res_simps)
  with assms obtain n where t: "parse_ipv4 t = Some n"
    by (cases "parse_ipv4 t")
      (auto simp: v_ip_def res_simps ip_address_def split: option.splits if_splits)
  with assms v have "s = show_ipv4 n"
    by (auto simp: v_ip_def res_simps ip_address_def)
  with v t parse_ipv4_bound [OF t] show ?thesis by (simp add: parse_show_ipv4)
qed

end
