(* ===== verification/SchemaCore.thy ===== *)
theory SchemaCore
  imports SchemaPrim
begin

text \<open>
  The validators of the system, port, network, DHCP and WAN sections (\<open>_validate_system\<close>,
  \<open>_validate_ports\<close>, \<open>_validate_networks\<close>, \<open>_validate_dhcp\<close>, \<open>_validate_wans\<close>). Each takes the
  section and, where the code reads other sections, the whole document; it returns the section with
  its defaults filled in and the warnings, or the exception.
\<close>

subsection \<open>System\<close>

definition v_hostname :: "json \<Rightarrow> verr + unit" where
  "v_hostname v = guard_raise
     (case str_scalar v of None \<Rightarrow> False | Some s \<Rightarrow> HOSTNAME_RE s)
     (ValidationError ''system.hostname'')"

definition ntp_steps :: "warning step list" where
  "ntp_steps =
     [field ''enabled'' (JBool True) (\<lambda>v. v_bool v ''system.ntp.enabled''),
      field ''servers'' (JList []) (\<lambda>v. rbind (py_iter v)
        (check_each (\<lambda>i x. need_str x (idx_path ''system.ntp.servers'' i)) 0))]"

definition fan_steps :: "warning step list" where
  "fan_steps =
     [field ''mode'' (JStr ''auto'') (\<lambda>v. v_enum v ''system.fan.mode'' FAN_MODES),
      field ''manual_percent'' (JInt 50) (\<lambda>v. v_int v ''system.fan.manual_percent'' 0 100),
      (\<lambda>d. Inr (d, case (get_null ''mode'' d, get_null ''manual_percent'' d) of
            (JStr m, JInt n) \<Rightarrow>
              (if m = ''manual'' \<and> 0 < n \<and> n < 14 then [FanBelowFloor n] else [])
          | _ \<Rightarrow> []))]"

definition led_steps :: "warning step list" where
  "led_steps =
     [field ''mode'' (JStr ''status'') (\<lambda>v. v_enum v ''system.leds.mode'' LED_MODES),
      field ''brightness'' (JInt 100) (\<lambda>v. v_int v ''system.leds.brightness'' 0 100)]"

definition ntp_default :: json where
  "ntp_default = JObj [(''enabled'', JBool True), (''servers'', JList [])]"

definition validate_system :: "json \<Rightarrow> verr + (json \<times> warning list)" where
  "validate_system = dict_steps
     [field ''mode'' (JStr ''gateway'') (\<lambda>v. v_enum v ''system.mode'' DEVICE_MODES),
      warn_when (\<lambda>d. get_null ''mode'' d = JStr ''ap'') ApModeNotice,
      field ''hostname'' (JStr ''sbe1v1k'') v_hostname,
      nested ''ntp'' ntp_default (dict_steps ntp_steps),
      nested ''fan'' (JObj []) (object_steps ''system.fan'' fan_steps),
      nested ''leds'' (JObj []) (object_steps ''system.leds'' led_steps)]"

subsection \<open>Ports\<close>

definition port_network_check :: "obj \<Rightarrow> string \<Rightarrow> obj \<Rightarrow> verr + unit" where
  "port_network_check cfg base port =
     (if get_null ''role'' port = JStr ''lan'' \<and> get_null ''network'' port \<noteq> JNull
      then rbind (py_in (get_null ''network'' port) (get_or (JObj []) ''networks'' cfg))
             (\<lambda>known. guard_raise known (ValidationError (sub_path base ''network'')))
      else Inr ())"

definition optional :: "string \<Rightarrow> (json \<Rightarrow> verr + 'a) \<Rightarrow> obj \<Rightarrow> verr + unit" where
  "optional k chk d = (if truthy (get_null k d) then rbind (chk (get_null k d)) (\<lambda>_. Inr ())
     else Inr ())"

definition port_steps :: "obj \<Rightarrow> string \<Rightarrow> warning step list" where
  "port_steps cfg base =
     [field ''role'' (JStr ''lan'') (\<lambda>v. v_enum v (sub_path base ''role'') PORT_ROLES),
      field ''enabled'' (JBool True) (\<lambda>v. v_bool v (sub_path base ''enabled'')),
      field ''mtu'' (JInt 1500) (\<lambda>v. v_int v (sub_path base ''mtu'') 576 9216),
      check (optional ''name'' (\<lambda>v. v_name v (sub_path base ''name''))),
      check (port_network_check cfg base),
      field ''tagged_vlans'' (JList []) (\<lambda>v.
        rbind (need_list v (sub_path base ''tagged_vlans''))
          (check_each (\<lambda>i x. v_vlan x (idx_path (sub_path base ''tagged_vlans'') i)) 0))]"

definition port_body :: "obj \<Rightarrow> string \<Rightarrow> json \<Rightarrow> unit \<Rightarrow> verr + (json \<times> unit \<times> warning list)" where
  "port_body cfg pid port u =
     rbind (object_steps (sub_path ''ports'' pid) (port_steps cfg (sub_path ''ports'' pid)) port)
       (\<lambda>(p, w). Inr (p, (), w))"

definition validate_ports :: "obj \<Rightarrow> json \<Rightarrow> verr + (json \<times> warning list)" where
  "validate_ports cfg = for_dict (port_body cfg) ()"

subsection \<open>DHCP\<close>

definition ipv4_of :: "string \<Rightarrow> verr + int" where
  "ipv4_of s = (case parse_ipv4 s of Some n \<Rightarrow> Inr n | None \<Rightarrow> Inl (Raised ValueError))"

definition optional_ip4 :: "string \<Rightarrow> string \<Rightarrow> obj \<Rightarrow> verr + string option" where
  "optional_ip4 k path d = (if truthy (get_null k d)
     then rbind (v_ip (get_null k d) path (Some 4)) (\<lambda>s. Inr (Some s)) else Inr None)"

definition reservation_check :: "ipv4_net \<Rightarrow> string \<Rightarrow> nat \<Rightarrow> json \<Rightarrow> verr + unit" where
  "reservation_check net base i res =
     (let rbase = idx_path (sub_path base ''reservations'') i in
      rbind (subscript res ''mac'') (\<lambda>m.
      rbind (v_mac m (sub_path rbase ''mac'')) (\<lambda>_.
      rbind (subscript res ''address'') (\<lambda>a.
      rbind (v_ip a (sub_path rbase ''address'') (Some 4)) (\<lambda>s.
      rbind (ipv4_of s) (\<lambda>addr.
        guard_raise (in_network addr net) (ValidationError (sub_path rbase ''address''))))))))"

text \<open>The pool of an enabled server: both ends inside the network, in order, gateway excluded.\<close>

definition dhcp_pool_check :: "ipv4_net \<Rightarrow> string \<Rightarrow> obj \<Rightarrow> verr + unit" where
  "dhcp_pool_check iface base dhcp =
     rbind (optional_ip4 ''start'' (sub_path base ''start'') dhcp) (\<lambda>start.
     rbind (optional_ip4 ''end'' (sub_path base ''end'') dhcp) (\<lambda>stop.
       case (start, stop) of
         (Some s, Some e) \<Rightarrow>
           rbind (ipv4_of s) (\<lambda>s_addr. rbind (ipv4_of e) (\<lambda>e_addr.
           rbind (guard_raise (in_network s_addr iface)
                    (ValidationError (sub_path base ''start''))) (\<lambda>_.
           rbind (guard_raise (in_network e_addr iface)
                    (ValidationError (sub_path base ''end''))) (\<lambda>_.
           rbind (guard_raise (s_addr \<le> e_addr) (ValidationError base)) (\<lambda>_.
             guard_raise (\<not> (fst iface = s_addr \<or> fst iface = e_addr \<or>
                 (s_addr \<le> fst iface \<and> fst iface \<le> e_addr))) (ValidationError base))))))
       | _ \<Rightarrow> verr_at base))"

definition dhcp_rest_steps :: "ipv4_net \<Rightarrow> string \<Rightarrow> warning step list" where
  "dhcp_rest_steps iface base =
     [check (dhcp_pool_check iface base),
      field ''lease_seconds'' (JInt 86400)
        (\<lambda>v. v_int v (sub_path base ''lease_seconds'') 120 (30 * 86400)),
      field ''reservations'' (JList []) (\<lambda>v. rbind (py_iter v)
        (check_each (reservation_check iface base) 0))]"

definition validate_dhcp :: "ipv4_net \<Rightarrow> string \<Rightarrow> json \<Rightarrow> verr + (json \<times> warning list)" where
  "validate_dhcp iface base = object_steps base
     [field ''enabled'' (JBool False) (\<lambda>v. v_bool v (sub_path base ''enabled'')),
      when_step (\<lambda>d. get_null ''enabled'' d = JBool True) (steps (dhcp_rest_steps iface base))]"

subsection \<open>Networks\<close>

text \<open>The accumulator of the loop: the VLAN ids and the subnets seen so far with their owners.\<close>

record net_seen =
  seen_vlans :: "(int \<times> string) list"
  seen_subnets :: "(ipv4_net \<times> string) list"

definition network_wan_check :: "obj \<Rightarrow> string \<Rightarrow> json \<Rightarrow> verr + unit" where
  "network_wan_check cfg base wan =
     (if wan = JStr ''auto'' \<or> wan = JNull then Inr ()
      else rbind (py_in wan (get_or (JObj []) ''wans'' cfg))
             (\<lambda>known. guard_raise known (ValidationError (sub_path base ''wan''))))"

definition claim_vlan :: "string \<Rightarrow> string \<Rightarrow> obj \<Rightarrow> net_seen \<Rightarrow> verr + net_seen" where
  "claim_vlan base nid net s =
     rbind (v_vlan (get_null ''vlan'' net) (sub_path base ''vlan'')) (\<lambda>vlan.
       case vlan of None \<Rightarrow> Inr s
       | Some v \<Rightarrow> (if v \<in> fst ` set (seen_vlans s) then verr_at (sub_path base ''vlan'')
                   else Inr (s\<lparr>seen_vlans := (v, nid) # seen_vlans s\<rparr>)))"

definition subnet_of :: "string \<Rightarrow> obj \<Rightarrow> verr + ipv4_net option" where
  "subnet_of base net =
     (if truthy (get_null ''subnet'' net)
      then rbind (v_cidr (get_null ''subnet'' net) (sub_path base ''subnet''))
        (\<lambda>s. case parse_ipv4_net s of None \<Rightarrow> Inl (Raised ValueError)
             | Some iface \<Rightarrow> Inr (Some iface))
      else Inr None)"

definition claim_subnet :: "string \<Rightarrow> string \<Rightarrow> obj \<Rightarrow> net_seen
    \<Rightarrow> verr + (obj \<times> net_seen \<times> warning list)" where
  "claim_subnet base nid net s =
     rbind (subnet_of base net) (\<lambda>subnet.
       case subnet of None \<Rightarrow> Inr (net, s, [])
       | Some iface \<Rightarrow>
           (if list_ex (\<lambda>(other, _). net_overlaps iface other) (seen_subnets s)
            then verr_at (sub_path base ''subnet'')
            else rbind (nested ''dhcp'' (JObj [(''enabled'', JBool False)])
                          (validate_dhcp iface (sub_path base ''dhcp'')) net)
                   (\<lambda>(net', w). Inr (net', s\<lparr>seen_subnets := (iface, nid) # seen_subnets s\<rparr>, w))))"

definition network_head_steps :: "string \<Rightarrow> string \<Rightarrow> warning step list" where
  "network_head_steps base nid =
     [field ''name'' (JStr nid) (\<lambda>v. v_name v (sub_path base ''name'')),
      field ''purpose'' (JStr ''corporate'')
        (\<lambda>v. v_enum v (sub_path base ''purpose'') NETWORK_PURPOSES),
      field ''zone'' (JStr ''lan'') (\<lambda>v. v_enum v (sub_path base ''zone'') ZONES)]"

definition network_tail_steps :: "obj \<Rightarrow> string \<Rightarrow> warning step list" where
  "network_tail_steps cfg base =
     [field ''isolation'' (JBool False) (\<lambda>v. v_bool v (sub_path base ''isolation'')),
      field ''internet_access'' (JBool True) (\<lambda>v. v_bool v (sub_path base ''internet_access'')),
      field ''wan'' (JStr ''auto'') (network_wan_check cfg base)]"

definition network_body :: "obj \<Rightarrow> string \<Rightarrow> json \<Rightarrow> net_seen
    \<Rightarrow> verr + (json \<times> net_seen \<times> warning list)" where
  "network_body cfg nid net s =
     (let base = sub_path ''networks'' nid in
      rbind (v_id (JStr nid) base) (\<lambda>_.
      rbind (need_dict net base) (\<lambda>d0.
      rbind (steps (network_head_steps base nid) d0) (\<lambda>(d1, w1).
      rbind (claim_vlan base nid d1 s) (\<lambda>s1.
      rbind (claim_subnet base nid d1 s1) (\<lambda>(d2, s2, w2).
      rbind (steps (network_tail_steps cfg base) d2) (\<lambda>(d3, w3).
        Inr (JObj d3, s2, w1 @ w2 @ w3))))))))"

definition validate_networks :: "obj \<Rightarrow> json \<Rightarrow> verr + (json \<times> warning list)" where
  "validate_networks cfg v =
     (if \<not> truthy v then verr_at ''networks''
      else for_dict (network_body cfg) \<lparr>seen_vlans = [], seen_subnets = []\<rparr> v)"

subsection \<open>WANs\<close>

definition role_is_wan :: "json \<Rightarrow> verr + bool" where
  "role_is_wan port = rbind (as_dict port) (\<lambda>d. Inr (get_null ''role'' d = JStr ''wan''))"

definition wan_role_ports :: "obj \<Rightarrow> string list" where
  "wan_role_ports ports =
     filter (\<lambda>p. case map_of ports p of
         Some (JObj c) \<Rightarrow> get_null ''role'' c = JStr ''wan'' \<and> truthy (get_or (JBool True) ''enabled'' c)
       | _ \<Rightarrow> False) (sort (map fst ports))"

text \<open>The set comprehension over the ports of the selected, enabled WANs. Later WANs have not been
  validated yet, so \<open>w.get\<close> may fail, and a port that is a list or dictionary cannot be in a set.\<close>

fun enabled_wan_ports :: "(string \<Rightarrow> bool) \<Rightarrow> obj \<Rightarrow> verr + json list" where
  "enabled_wan_ports sel [] = Inr []"
| "enabled_wan_ports sel ((wid, w) # ws) =
     (if \<not> sel wid then enabled_wan_ports sel ws
      else rbind (as_dict w) (\<lambda>d.
        if \<not> truthy (get_or (JBool True) ''enabled'' d) then enabled_wan_ports sel ws
        else if \<not> hashable (get_null ''port'' d) then Inl (Raised TypeError)
        else rbind (enabled_wan_ports sel ws) (\<lambda>ps. Inr (get_null ''port'' d # ps))))"

text \<open>
  The port of an enabled WAN must have role \<open>wan\<close>. When it has not and exactly one enabled
  WAN-role port is unclaimed, the WAN follows that port. \<open>wans\<close> is the section with the WANs
  validated so far already updated; \<open>used\<close> lists their ports.
\<close>

definition follow_wan_port :: "obj \<Rightarrow> obj \<Rightarrow> string list \<Rightarrow> string \<Rightarrow> string \<Rightarrow> obj
    \<Rightarrow> verr + (obj \<times> string \<times> warning list)" where
  "follow_wan_port ports wans used wid base wan =
     (let port = get_null ''port'' wan in
      rbind (py_in port (JObj ports)) (\<lambda>known.
      rbind (guard_raise known (ValidationError (sub_path base ''port''))) (\<lambda>_.
        case port of JStr p \<Rightarrow>
          rbind (guard_raise (p \<notin> set used) (ValidationError (sub_path base ''port''))) (\<lambda>_.
          rbind (if get_null ''enabled'' wan = JBool True
                 then rbind (role_is_wan (get_null p ports)) (\<lambda>b. Inr (\<not> b)) else Inr False)
            (\<lambda>moved. if \<not> moved then Inr (wan, p, [])
              else rbind (enabled_wan_ports (\<lambda>w2. w2 \<noteq> wid) wans) (\<lambda>others.
                case sole (filter (\<lambda>q. q \<notin> set used \<and> JStr q \<notin> set others) (wan_role_ports ports)) of
                  Some q \<Rightarrow> Inr (dset ''port'' (JStr q) wan, q, [WanMoved wid p q])
                | None \<Rightarrow> verr_at (sub_path base ''port''))))
        | _ \<Rightarrow> Inl (Raised KeyError))))"

definition wan_head_steps :: "string \<Rightarrow> string \<Rightarrow> warning step list" where
  "wan_head_steps base wid =
     [field ''name'' (JStr wid) (\<lambda>v. v_name v (sub_path base ''name'')),
      field ''mode'' (JStr ''dhcp'') (\<lambda>v. v_enum v (sub_path base ''mode'') WAN_MODES),
      field ''enabled'' (JBool True) (\<lambda>v. v_bool v (sub_path base ''enabled'')),
      field ''priority'' (JInt 1) (\<lambda>v. v_int v (sub_path base ''priority'') 1 32),
      field ''weight'' (JInt 1) (\<lambda>v. v_int v (sub_path base ''weight'') 1 256),
      field ''mtu'' (JInt 1500) (\<lambda>v. v_int v (sub_path base ''mtu'') 576 9216),
      check (\<lambda>d. v_vlan (get_null ''vlan'' d) (sub_path base ''vlan''))]"

definition static_check :: "string \<Rightarrow> obj \<Rightarrow> verr + string" where
  "static_check base st =
     rbind (v_cidr (get_null ''address'' st) (sub_path base ''static.address''))
       (\<lambda>_. v_ip (get_null ''gateway'' st) (sub_path base ''static.gateway'') (Some 4))"

definition wan_tail_steps :: "string \<Rightarrow> warning step list" where
  "wan_tail_steps base =
     [when_step (\<lambda>d. get_null ''mode'' d = JStr ''static'')
        (nested ''static'' (JObj []) (dict_steps [check (static_check base)])),
      when_step (\<lambda>d. get_null ''mode'' d = JStr ''pppoe'')
        (nested ''pppoe'' (JObj []) (dict_steps
          [check (\<lambda>pp. guard_raise (truthy (get_null ''username'' pp))
             (ValidationError (sub_path base ''pppoe.username''))),
           field ''mru'' (JInt 1492) (\<lambda>v. v_int v (sub_path base ''pppoe.mru'') 576 1500)])),
      check (optional ''mac_clone'' (\<lambda>v. v_mac v (sub_path base ''mac_clone''))),
      nested ''ipv6'' (JObj []) (dict_steps
        [field ''mode'' (JStr ''dhcpv6-pd'')
           (\<lambda>v. v_enum v (sub_path base ''ipv6.mode'') WAN_IPV6_MODES)]),
      field ''dns'' (JList []) (\<lambda>v. rbind (py_iter v)
        (check_each (\<lambda>i x. v_ip x (idx_path (sub_path base ''dns'') i) None) 0))]"

text \<open>The accumulator: the section as mutated so far, and the ports used so far.\<close>

definition wan_body :: "obj \<Rightarrow> string \<Rightarrow> json \<Rightarrow> (obj \<times> string list)
    \<Rightarrow> verr + (json \<times> (obj \<times> string list) \<times> warning list)" where
  "wan_body ports wid wan = (\<lambda>(wans, used).
     (let base = sub_path ''wans'' wid in
      rbind (v_id (JStr wid) base) (\<lambda>_.
      rbind (need_dict wan base) (\<lambda>d0.
      rbind (steps (wan_head_steps base wid) d0) (\<lambda>(d1, w1).
      rbind (follow_wan_port ports wans used wid base d1) (\<lambda>(d2, port, w2).
      rbind (steps (wan_tail_steps base) d2) (\<lambda>(d3, w3).
        Inr (JObj d3, (dset wid (JObj d3) wans, port # used), w1 @ w2 @ w3))))))))"

definition warn_unused_wan_ports :: "obj \<Rightarrow> obj \<Rightarrow> verr + warning list" where
  "warn_unused_wan_ports ports wans =
     rbind (enabled_wan_ports (\<lambda>_. True) wans) (\<lambda>used.
       let orphans = filter (\<lambda>p. JStr p \<notin> set used) (wan_role_ports ports)
       in Inr (if orphans = [] then [] else [UnusedWanPorts orphans]))"

definition validate_wans :: "obj \<Rightarrow> json \<Rightarrow> verr + (json \<times> warning list)" where
  "validate_wans cfg v =
     rbind (as_dict (get_or (JObj []) ''ports'' cfg)) (\<lambda>ports.
     rbind (as_dict v) (\<lambda>wans.
     rbind (py_for (wan_body ports) wans (wans, [])) (\<lambda>(wans', _, w).
     rbind (warn_unused_wan_ports ports wans') (\<lambda>w'. Inr (JObj wans', w @ w')))))"

subsection \<open>What an accepted network section guarantees\<close>

definition obj_of :: "json \<Rightarrow> obj" where
  "obj_of j = (case j of JObj d \<Rightarrow> d | _ \<Rightarrow> [])"

definition network_vlan :: "json \<Rightarrow> int list" where
  "network_vlan j = (case get_null ''vlan'' (obj_of j) of JInt v \<Rightarrow> [v] | _ \<Rightarrow> [])"

definition network_subnet :: "json \<Rightarrow> ipv4_net list" where
  "network_subnet j = (case get_null ''subnet'' (obj_of j) of
     JStr s \<Rightarrow> (case parse_ipv4_net s of Some n \<Rightarrow> [n] | None \<Rightarrow> []) | _ \<Rightarrow> [])"

text \<open>The address pool of an enabled DHCP server.\<close>

definition pool_ok :: "ipv4_net \<Rightarrow> obj \<Rightarrow> bool" where
  "pool_ok iface dh =
     (case (get_null ''start'' dh, get_null ''end'' dh) of
        (JStr s, JStr e) \<Rightarrow>
          (case (parse_ipv4 s, parse_ipv4 e) of
             (Some a, Some b) \<Rightarrow> in_network a iface \<and> in_network b iface \<and> a \<le> b \<and>
                \<not> (a \<le> fst iface \<and> fst iface \<le> b)
           | _ \<Rightarrow> False)
      | _ \<Rightarrow> False)"

definition dhcp_ok :: "ipv4_net \<Rightarrow> json \<Rightarrow> bool" where
  "dhcp_ok iface net =
     (let dh = obj_of (get_null ''dhcp'' (obj_of net)) in
      case get_null ''enabled'' dh of JBool b \<Rightarrow> (b \<longrightarrow> pool_ok iface dh) | _ \<Rightarrow> False)"

definition network_ok :: "string \<Rightarrow> json \<Rightarrow> bool" where
  "network_ok nid net \<longleftrightarrow> ID_RE nid \<and>
     is_ok (v_enum (get_null ''purpose'' (obj_of net)) [] NETWORK_PURPOSES) \<and>
     is_ok (v_enum (get_null ''zone'' (obj_of net)) [] ZONES) \<and>
     list_all (\<lambda>v. 1 \<le> v \<and> v \<le> 4094) (network_vlan net) \<and>
     list_all (\<lambda>iface. snd iface < 32 \<and> dhcp_ok iface net) (network_subnet net)"

lemma dhcp_pool_check_ok:
  assumes "dhcp_pool_check iface base dh = Inr u"
  shows "pool_ok iface dh"
proof -
  have ip4: "\<exists>t n. get_null k dh = JStr t \<and> parse_ipv4 t = Some n \<and> parse_ipv4 s = Some n"
    if "optional_ip4 k p dh = Inr (Some s)" for k p s
    using that by (auto simp: optional_ip4_def res_simps split: if_splits dest: v_ip4_eq)
  from assms obtain start stop where
    st: "optional_ip4 ''start'' (sub_path base ''start'') dh = Inr start" and
    en: "optional_ip4 ''end'' (sub_path base ''end'') dh = Inr stop"
    by (auto simp: dhcp_pool_check_def rbind_eq_Inr)
  note r = assms [unfolded dhcp_pool_check_def st en rbind_simps]
  from r obtain s e where se: "start = Some s" "stop = Some e"
    by (cases start; cases stop) auto
  from ip4 [OF st [unfolded se(1)]] ip4 [OF en [unfolded se(2)]] obtain t a t' b where
    "get_null ''start'' dh = JStr t" "parse_ipv4 t = Some a" "parse_ipv4 s = Some a"
    "get_null ''end'' dh = JStr t'" "parse_ipv4 t' = Some b" "parse_ipv4 e = Some b" by blast
  with r show ?thesis by (auto simp: se ipv4_of_def res_simps pool_ok_def)
qed

lemma validate_dhcp_ok:
  assumes "validate_dhcp iface base j = Inr (j', w)"
  shows "\<exists>dh b. j' = JObj dh \<and> map_of dh ''enabled'' = Some (JBool b) \<and> (b \<longrightarrow> pool_ok iface dh)"
proof -
  let ?en = "\<lambda>d. get_null ''enabled'' d = JBool True"
  from assms obtain d dh where j': "j' = JObj dh" and s: "steps
     [field ''enabled'' (JBool False) (\<lambda>v. v_bool v (sub_path base ''enabled'')),
      when_step ?en (steps (dhcp_rest_steps iface base))] d = Inr (dh, w)"
    by (auto simp: validate_dhcp_def object_steps_eq simp del: steps.simps)
  have keep: "keeping ''enabled'' (steps (dhcp_rest_steps iface base))"
    by (rule steps_keeping_step) (simp add: dhcp_rest_steps_def ext_intros)
  from field_established [OF s, where k = "''enabled''" and v = "JBool False"
      and chk = "\<lambda>v. v_bool v (sub_path base ''enabled'')"] keep obtain b where
    b: "map_of dh ''enabled'' = Some (JBool b)"
    by (auto simp: ext_intros res_simps)
  from s obtain d1 w1 where w: "when_step ?en (steps (dhcp_rest_steps iface base)) d1 = Inr (dh, w1)"
    by (auto simp: steps_Cons_eq simp del: steps.simps(2))
  have "pool_ok iface dh" if b1: "b = True"
  proof -
    from w b b1 keep have en: "?en d1"
      by (cases "?en d1") (auto simp: when_step_def get_null_def get_or_def)
    with w have r: "steps (dhcp_rest_steps iface base) d1 = Inr (dh, w1)"
      by (simp add: when_step_def)
    then obtain u where "dhcp_pool_check iface base d1 = Inr u"
      by (auto simp: dhcp_rest_steps_def steps_Cons_eq check_def res_simps simp del: steps.simps)
    then have "pool_ok iface d1" by (rule dhcp_pool_check_ok)
    moreover have same: "get_null k dh = get_null k d1" if "k \<in> {''start'', ''end''}" for k
      using that
      by (intro leaving_get [where s = "steps (dhcp_rest_steps iface base)", OF _ r] steps_leaving)
        (auto simp: dhcp_rest_steps_def ext_intros)
    have "pool_ok iface dh = pool_ok iface d1"
      unfolding pool_ok_def same [of "''start''", simplified] same [of "''end''", simplified] ..
    ultimately show ?thesis by simp
  qed
  with j' b show ?thesis by blast
qed

text \<open>The pieces of one successful turn of the loop over the networks.\<close>

lemma network_bodyE:
  assumes "network_body cfg nid net s = Inr (net', s', w)"
  obtains d1 s1 d2 d3 w1 w2 w3 d0 where
    "ID_RE nid" "net = JObj d0" "net' = JObj d3"
    "steps (network_head_steps (sub_path ''networks'' nid) nid) d0 = Inr (d1, w1)"
    "claim_vlan (sub_path ''networks'' nid) nid d1 s = Inr s1"
    "claim_subnet (sub_path ''networks'' nid) nid d1 s1 = Inr (d2, s', w2)"
    "steps (network_tail_steps cfg (sub_path ''networks'' nid)) d2 = Inr (d3, w3)"
  using assms unfolding network_body_def Let_def
  by (auto simp: rbind_eq_Inr v_id_eq need_eq)

lemma claim_vlan_spec:
  assumes "claim_vlan base nid net s = Inr s'"
  shows "seen_subnets s' = seen_subnets s \<and>
    ((network_vlan (JObj net) = [] \<and> seen_vlans s' = seen_vlans s) \<or>
     (\<exists>v. network_vlan (JObj net) = [v] \<and> 1 \<le> v \<and> v \<le> 4094 \<and>
        v \<notin> fst ` set (seen_vlans s) \<and> seen_vlans s' = (v, nid) # seen_vlans s))"
  using assms
  by (auto simp: claim_vlan_def res_simps network_vlan_def obj_of_def split: if_splits)

lemma parse_ipv4_net_Nil [simp]: "parse_ipv4_net [] = None"
  by (simp add: parse_ipv4_net_def parse_ipv4_def ipv4_octet_def)

lemma subnet_of_spec:
  assumes "subnet_of base net = Inr r"
  shows "network_subnet (JObj net) = (case r of None \<Rightarrow> [] | Some iface \<Rightarrow> [iface]) \<and>
    (\<forall>iface. r = Some iface \<longrightarrow> snd iface < 32)"
  using assms
  by (auto simp: subnet_of_def res_simps network_subnet_def obj_of_def
      split: if_splits option.splits json.splits dest!: v_cidr_eq)

lemma claim_subnet_spec:
  assumes "claim_subnet base nid net s = Inr (net', s', w)"
  shows "seen_vlans s' = seen_vlans s \<and> (\<forall>k. k \<noteq> ''dhcp'' \<longrightarrow> get_null k net' = get_null k net) \<and>
    ((network_subnet (JObj net) = [] \<and> s' = s) \<or>
     (\<exists>iface. network_subnet (JObj net) = [iface] \<and> snd iface < 32 \<and> dhcp_ok iface (JObj net') \<and>
        (\<forall>x \<in> fst ` set (seen_subnets s). \<not> net_overlaps iface x) \<and>
        seen_subnets s' = (iface, nid) # seen_subnets s))"
proof -
  from assms obtain r where r: "subnet_of base net = Inr r"
    by (auto simp: claim_subnet_def rbind_eq_Inr)
  note sp = subnet_of_spec [OF r]
  show ?thesis
  proof (cases r)
    case None
    with assms r sp show ?thesis by (auto simp: claim_subnet_def)
  next
    case (Some iface)
    let ?n = "nested ''dhcp'' (JObj [(''enabled'', JBool False)])
      (validate_dhcp iface (sub_path base ''dhcp''))"
    from assms r Some obtain w1 where n: "?n net = Inr (net', w1)"
      and s': "s' = s\<lparr>seen_subnets := (iface, nid) # seen_subnets s\<rparr>"
      and free: "\<not> list_ex (\<lambda>(other, _). net_overlaps iface other) (seen_subnets s)"
      by (auto simp: claim_subnet_def rbind_eq_Inr split: if_splits)
    from n obtain j' where v: "validate_dhcp iface (sub_path base ''dhcp'')
        (get_or (JObj [(''enabled'', JBool False)]) ''dhcp'' net) = Inr (j', w1)"
      and net': "net' = dset ''dhcp'' j' (setdefault ''dhcp'' (JObj [(''enabled'', JBool False)]) net)"
      by (auto simp: nested_def rbind_eq_Inr)
    from validate_dhcp_ok [OF v] have "dhcp_ok iface (JObj net')"
      by (auto simp: dhcp_ok_def obj_of_def net' get_null_def get_or_def map_of_dset)
    moreover have "get_null k net' = get_null k net" if "k \<noteq> ''dhcp''" for k
      using that by (simp add: net' get_null_def get_or_def map_of_dset map_of_setdefault)
    ultimately show ?thesis
      using sp Some s' free by (auto simp: list_ex_iff)
  qed
qed

lemma network_keys_kept:
  assumes "steps (network_tail_steps cfg base) d2 = Inr (d3, w)"
    and "k \<in> {''vlan'', ''subnet'', ''dhcp'', ''purpose'', ''zone''}"
  shows "get_null k d3 = get_null k d2"
  using assms(2)
  by (intro leaving_get [where s = "steps (network_tail_steps cfg base)", OF _ assms(1)]
      steps_leaving) (auto simp: network_tail_steps_def ext_intros)

lemma network_fields_cong:
  assumes "\<And>k. k \<in> {''vlan'', ''subnet'', ''dhcp''} \<Longrightarrow> get_null k d = get_null k e"
  shows "network_vlan (JObj d) = network_vlan (JObj e)"
    "network_subnet (JObj d) = network_subnet (JObj e)"
    "dhcp_ok iface (JObj d) = dhcp_ok iface (JObj e)"
  using assms [of "''vlan''"] assms [of "''subnet''"] assms [of "''dhcp''"]
  by (simp_all add: network_vlan_def network_subnet_def dhcp_ok_def obj_of_def)

text \<open>One turn of the loop: the network it returns is acceptable, and it claims its VLAN and its
  subnet only when they do not clash with those seen before.\<close>

lemma network_body_spec:
  assumes "network_body cfg nid net s = Inr (net', s', w)"
  shows "network_ok nid net' \<and>
    (\<forall>v \<in> set (network_vlan net'). v \<notin> fst ` set (seen_vlans s)) \<and>
    fst ` set (seen_vlans s') = fst ` set (seen_vlans s) \<union> set (network_vlan net') \<and>
    (\<forall>n \<in> set (network_subnet net'). \<forall>x \<in> fst ` set (seen_subnets s). \<not> net_overlaps n x) \<and>
    fst ` set (seen_subnets s') = fst ` set (seen_subnets s) \<union> set (network_subnet net') \<and>
    length (network_vlan net') \<le> 1 \<and> length (network_subnet net') \<le> 1"
  using assms
proof (rule network_bodyE)
  fix d1 s1 d2 d3 w1 w2 w3 d0
  let ?b = "sub_path ''networks'' nid"
  assume id: "ID_RE nid" and net': "net' = JObj d3"
    and head: "steps (network_head_steps ?b nid) d0 = Inr (d1, w1)"
    and vl: "claim_vlan ?b nid d1 s = Inr s1"
    and sn: "claim_subnet ?b nid d1 s1 = Inr (d2, s', w2)"
    and tail: "steps (network_tail_steps cfg ?b) d2 = Inr (d3, w3)"
  note cs = claim_subnet_spec [OF sn]
  have keep: "list_all (keeping k) (network_head_steps ?b nid)" for k
    by (simp add: network_head_steps_def ext_intros)
  have en: "is_ok (v_enum (get_null k d1) p al)"
    if "field k v (\<lambda>v. v_enum v p al) \<in> set (network_head_steps ?b nid)" for k v p al
    using field_get [OF head keep that] .
  have d3: "get_null k d3 = get_null k d2"
    if "k \<in> {''vlan'', ''subnet'', ''dhcp'', ''purpose'', ''zone''}" for k
    using network_keys_kept [OF tail that] .
  have d2: "get_null k d2 = get_null k d1" if "k \<noteq> ''dhcp''" for k using cs that by blast
  have "is_ok (v_enum (get_null ''purpose'' d3) [] NETWORK_PURPOSES)"
    "is_ok (v_enum (get_null ''zone'' d3) [] ZONES)"
    using en [of "''purpose''" "JStr ''corporate''" "sub_path ?b ''purpose''" NETWORK_PURPOSES]
      en [of "''zone''" "JStr ''lan''" "sub_path ?b ''zone''" ZONES]
    by (auto simp: network_head_steps_def d3 d2 res_simps)
  moreover have "network_vlan net' = network_vlan (JObj d1)"
    "network_subnet net' = network_subnet (JObj d1)"
    by (simp_all add: net' network_vlan_def network_subnet_def obj_of_def d3 d2)
  moreover have "dhcp_ok iface net' = dhcp_ok iface (JObj d2)" for iface
    unfolding net' by (rule network_fields_cong) (auto intro: d3)
  ultimately show ?thesis
    using id claim_vlan_spec [OF vl] cs 
    by (auto simp: network_ok_def net' obj_of_def dest: fst_image_mem)
qed

lemma network_body_vlans:
  "network_body cfg nid net s = Inr (net', s', w) \<Longrightarrow>
     sorted_wrt (\<lambda>x y. y \<noteq> x) (network_vlan net') \<and>
     (\<forall>k \<in> set (network_vlan net'). \<forall>x \<in> fst ` set (seen_vlans s). k \<noteq> x) \<and>
     fst ` set (seen_vlans s') = fst ` set (seen_vlans s) \<union> set (network_vlan net')"
  by (drule network_body_spec, elim conjE, intro conjI sorted_wrt_short) (assumption | metis)+

lemma network_body_subnets:
  "network_body cfg nid net s = Inr (net', s', w) \<Longrightarrow>
     sorted_wrt (\<lambda>x y. \<not> net_overlaps y x) (network_subnet net') \<and>
     (\<forall>k \<in> set (network_subnet net'). \<forall>x \<in> fst ` set (seen_subnets s). \<not> net_overlaps k x) \<and>
     fst ` set (seen_subnets s') = fst ` set (seen_subnets s) \<union> set (network_subnet net')"
  by (drule network_body_spec, elim conjE, intro conjI sorted_wrt_short) assumption+

interpretation vlans: seen_loop "network_body cfg" network_ok
    "\<lambda>_. network_vlan" "\<lambda>s. fst ` set (seen_vlans s)" "(=)" for cfg
  by unfold_locales (blast dest: network_body_spec, blast dest: network_body_vlans)

interpretation subnets: seen_loop "network_body cfg" network_ok
    "\<lambda>_. network_subnet" "\<lambda>s. fst ` set (seen_subnets s)" net_overlaps for cfg
  by unfold_locales (blast dest: network_body_subnets)

subsection \<open>What an accepted WAN section guarantees\<close>

definition wan_port :: "json \<Rightarrow> string list" where
  "wan_port j = (case get_null ''port'' (obj_of j) of JStr p \<Rightarrow> [p] | _ \<Rightarrow> [])"

definition wan_enabled :: "json \<Rightarrow> bool" where
  "wan_enabled j = (get_null ''enabled'' (obj_of j) = JBool True)"

text \<open>The WAN names a port of the ports section, and one of role \<open>wan\<close> when it is enabled.\<close>

definition wan_ok :: "obj \<Rightarrow> string \<Rightarrow> json \<Rightarrow> bool" where
  "wan_ok ports wid wan \<longleftrightarrow> ID_RE wid \<and>
     is_ok (v_enum (get_null ''mode'' (obj_of wan)) [] WAN_MODES) \<and>
     (case wan_port wan of
        [p] \<Rightarrow> p \<in> fst ` set ports \<and>
          (wan_enabled wan \<longrightarrow> get_null ''role'' (obj_of (get_null p ports)) = JStr ''wan'')
      | _ \<Rightarrow> False)"

lemma wan_role_portsD:
  "q \<in> set (wan_role_ports ports) \<Longrightarrow>
     q \<in> fst ` set ports \<and> get_null ''role'' (obj_of (get_null q ports)) = JStr ''wan''"
  by (auto simp: wan_role_ports_def obj_of_def get_null_def get_or_def
      split: option.splits json.splits)

lemma follow_wan_port_spec:
  assumes "follow_wan_port ports wans used wid base wan = Inr (wan', p, w)"
  shows "get_null ''port'' wan' = JStr p \<and> p \<notin> set used \<and> p \<in> fst ` set ports \<and>
    (get_null ''enabled'' wan' = JBool True \<longrightarrow>
       get_null ''role'' (obj_of (get_null p ports)) = JStr ''wan'') \<and>
    (\<forall>k. k \<noteq> ''port'' \<longrightarrow> get_null k wan' = get_null k wan)"
proof -
  from assms have kn: "py_in (get_null ''port'' wan) (JObj ports) = Inr True"
    by (auto simp: follow_wan_port_def Let_def rbind_eq_Inr guard_raise_eq)
  note r = assms [unfolded follow_wan_port_def Let_def kn rbind_simps guard_raise_def if_True]
  from r obtain p0 where p0: "get_null ''port'' wan = JStr p0" by (auto split: json.splits)
  from kn p0 have mem: "p0 \<in> fst ` set ports" by (auto simp: py_in_def hashable_def)
  from r p0 have nu: "p0 \<notin> set used" by (auto simp: rbind_eq_Inr split: if_splits)
  note r2 = r [unfolded p0 json.case]
  from r2 obtain moved where
    m: "(if get_null ''enabled'' wan = JBool True
         then rbind (role_is_wan (get_null p0 ports)) (\<lambda>b. Inr (\<not> b)) else Inr False) = Inr moved"
    by (auto simp: rbind_eq_Inr split: if_splits)
  note r3 = r2 [unfolded m rbind_simps]
  show ?thesis
  proof (cases moved)
    case False
    with r3 have "wan' = wan" "p = p0" by (auto simp: rbind_eq_Inr split: if_splits)
    moreover from m False have "get_null ''enabled'' wan = JBool True \<longrightarrow>
        get_null ''role'' (obj_of (get_null p0 ports)) = JStr ''wan''"
      by (auto simp: role_is_wan_def res_simps obj_of_def split: if_splits)
    ultimately show ?thesis using p0 mem nu by simp
  next
    case True
    with r3 obtain others where
      f: "filter (\<lambda>q. q \<notin> set used \<and> JStr q \<notin> set others) (wan_role_ports ports) = [p]"
      and wan': "wan' = dset ''port'' (JStr p) wan"
      by (auto simp: rbind_eq_Inr split: if_splits option.splits)
    from f have "p \<in> set (filter (\<lambda>q. q \<notin> set used \<and> JStr q \<notin> set others) (wan_role_ports ports))"
      by simp
    then have "p \<notin> set used" "p \<in> set (wan_role_ports ports)" by auto
    with wan_role_portsD [of p ports] show ?thesis
      by (auto simp: wan' get_null_def get_or_def map_of_dset)
  qed
qed

lemma wan_bodyE:
  assumes "wan_body ports wid wan (wans, used) = Inr (wan', s', w)"
  obtains d0 d1 d2 d3 p w1 w2 w3 where
    "ID_RE wid" "wan = JObj d0" "wan' = JObj d3" "snd s' = p # used"
    "steps (wan_head_steps (sub_path ''wans'' wid) wid) d0 = Inr (d1, w1)"
    "follow_wan_port ports wans used wid (sub_path ''wans'' wid) d1 = Inr (d2, p, w2)"
    "steps (wan_tail_steps (sub_path ''wans'' wid)) d2 = Inr (d3, w3)"
  using assms unfolding wan_body_def Let_def
  by (auto simp: rbind_eq_Inr v_id_eq need_eq)

lemma wan_body_spec:
  assumes "wan_body ports wid wan s = Inr (wan', s', w)"
  shows "wan_ok ports wid wan' \<and> (\<forall>p \<in> set (wan_port wan'). p \<notin> set (snd s)) \<and>
    set (snd s') = set (snd s) \<union> set (wan_port wan') \<and> length (wan_port wan') = 1"
proof -
  obtain wans used where s: "s = (wans, used)" by (cases s)
  from assms [unfolded s] show ?thesis
  proof (rule wan_bodyE)
    fix d0 d1 d2 d3 p w1 w2 w3
    let ?b = "sub_path ''wans'' wid"
    assume id: "ID_RE wid" and wan': "wan' = JObj d3" and s': "snd s' = p # used"
      and head: "steps (wan_head_steps ?b wid) d0 = Inr (d1, w1)"
      and fw: "follow_wan_port ports wans used wid ?b d1 = Inr (d2, p, w2)"
      and tail: "steps (wan_tail_steps ?b) d2 = Inr (d3, w3)"
    note f = follow_wan_port_spec [OF fw]
    have tk: "get_null k d3 = get_null k d2" if "k \<in> {''port'', ''enabled'', ''mode''}" for k
      using that
      by (intro leaving_get [where s = "steps (wan_tail_steps ?b)", OF _ tail] steps_leaving)
        (auto simp: wan_tail_steps_def ext_intros)
    have "list_all (keeping ''mode'') (wan_head_steps ?b wid)"
      by (simp add: wan_head_steps_def ext_intros)
    from field_get [OF head this, where v = "JStr ''dhcp''"
        and chk = "\<lambda>v. v_enum v (sub_path ?b ''mode'') WAN_MODES"]
    have "is_ok (v_enum (get_null ''mode'' d3) [] WAN_MODES)"
      using f by (auto simp: wan_head_steps_def tk res_simps)
    with f id s' show ?thesis
      by (simp add: wan_ok_def wan' obj_of_def wan_port_def wan_enabled_def tk s)
  qed
qed

interpretation wan_ports: seen_loop "wan_body ports" "wan_ok ports"
    "\<lambda>_. wan_port" "\<lambda>s. set (snd s)" "(=)" for ports
proof unfold_locales
  fix i j s j' s' w assume b: "wan_body ports i j s = Inr (j', s', w)"
  from wan_body_spec [OF b] show "wan_ok ports i j'" by blast
  from wan_body_spec [OF b] show "sorted_wrt (\<lambda>x y. y \<noteq> x) (wan_port j') \<and>
      (\<forall>k \<in> set (wan_port j'). \<forall>x \<in> set (snd s). k \<noteq> x) \<and>
      set (snd s') = set (snd s) \<union> set (wan_port j')"
    by (metis order_refl sorted_wrt_short)
qed

end
