(* ===== verification/SchemaPolicy.thy ===== *)
theory SchemaPolicy
  imports SchemaCore
begin

text \<open>
  The validators of the firewall, NAT, routing, QoS, DNS, DPI, controller and user sections of
  \<open>schema.py\<close>, with the uniqueness each of their loops enforces.
\<close>

subsection \<open>Firewall\<close>

fun split_arrow :: "string \<Rightarrow> (string \<times> string) option" where
  "split_arrow (a # b # s) =
     (if a = CHR ''-'' \<and> b = CHR ''>'' then Some ([], s)
      else map_option (\<lambda>(x, y). (a # x, y)) (split_arrow (b # s)))"
| "split_arrow _ = None"

definition tunnel_check :: "nat \<Rightarrow> json \<Rightarrow> verr + unit" where
  "tunnel_check i pattern =
     (let base = idx_path ''firewall.tunnel_interfaces'' i in
      rbind (need_str pattern base) (\<lambda>p.
        guard_raise (p \<noteq> [] \<and> p \<noteq> ''*'' \<and> chr 34 \<notin> set p) (ValidationError base)))"

definition tunnel_default :: json where
  "tunnel_default = JList [JStr ''tun*'', JStr ''utun*'', JStr ''wg*'', JStr ''tailscale*'']"

definition policy_check :: "string \<times> json \<Rightarrow> verr + unit" where
  "policy_check = (\<lambda>(key, action).
     (let path = sub_path ''firewall.default_policies'' key in
      case split_arrow key of None \<Rightarrow> verr_at path
      | Some (src, dst) \<Rightarrow>
          rbind (v_enum (JStr src) path ZONES) (\<lambda>_.
          rbind (v_enum (JStr dst) path ZONES) (\<lambda>_.
          rbind (v_enum action path FW_ACTIONS) (\<lambda>_. Inr ())))))"

fun check_items :: "(string \<times> json \<Rightarrow> verr + unit) \<Rightarrow> obj \<Rightarrow> verr + unit" where
  "check_items f [] = Inr ()"
| "check_items f (p # ps) = rbind (f p) (\<lambda>_. check_items f ps)"

definition address_spec_check :: "json \<Rightarrow> string \<Rightarrow> verr + unit" where
  "address_spec_check v path = rbind (need_str v path) (\<lambda>s.
     guard_raise (startswith s ''group:'' \<or> ip_network_version s \<noteq> None) (ValidationError path))"

definition rule_port_check :: "string \<Rightarrow> string \<Rightarrow> obj \<Rightarrow> verr + unit" where
  "rule_port_check base k rule =
     (if truthy (get_null k rule)
      then (if get_null ''protocol'' rule \<in> {JStr ''tcp'', JStr ''udp'', JStr ''tcp-udp''}
            then rbind (v_port_range (get_null k rule) (sub_path base k)) (\<lambda>_. Inr ())
            else verr_at (sub_path base k))
      else Inr ())"

definition schedule_check :: "json \<Rightarrow> string \<Rightarrow> obj \<Rightarrow> verr + unit" where
  "schedule_check schedules base rule =
     (let sched = get_null ''schedule'' rule in
      if truthy sched
      then rbind (py_in sched schedules)
             (\<lambda>known. guard_raise known (ValidationError (sub_path base ''schedule'')))
      else Inr ())"

definition PROTOCOLS :: "string list" where
  "PROTOCOLS = [''any'', ''tcp'', ''udp'', ''tcp-udp'', ''icmp'', ''icmpv6'', ''esp'', ''gre'']"

definition rule_steps :: "json \<Rightarrow> string \<Rightarrow> nat \<Rightarrow> string \<Rightarrow> warning step list" where
  "rule_steps schedules base i rid =
     [field ''name'' (JStr rid) (\<lambda>v. v_name v (sub_path base ''name'')),
      field ''action'' (JStr ''drop'') (\<lambda>v. v_enum v (sub_path base ''action'') FW_ACTIONS),
      field ''enabled'' (JBool True) (\<lambda>v. v_bool v (sub_path base ''enabled'')),
      field ''log'' (JBool False) (\<lambda>v. v_bool v (sub_path base ''log'')),
      field ''index'' (JInt (int i + 1)) (\<lambda>v. v_int v (sub_path base ''index'') 1 100000),
      field ''family'' (JStr ''both'')
        (\<lambda>v. v_enum v (sub_path base ''family'') [''ipv4'', ''ipv6'', ''both'']),
      field ''src_zone'' (JStr ''lan'') (\<lambda>v. v_enum v (sub_path base ''src_zone'') ZONES),
      field ''dst_zone'' (JStr ''wan'') (\<lambda>v. v_enum v (sub_path base ''dst_zone'') ZONES),
      field ''protocol'' (JStr ''any'') (\<lambda>v. v_enum v (sub_path base ''protocol'') PROTOCOLS)] @
     [check (optional ''src_address'' (\<lambda>v. address_spec_check v (sub_path base ''src_address''))),
      check (optional ''dst_address'' (\<lambda>v. address_spec_check v (sub_path base ''dst_address''))),
      check (rule_port_check base ''src_port''),
      check (rule_port_check base ''dst_port''),
      check (schedule_check schedules base)]"

definition rule_body :: "json \<Rightarrow> nat \<Rightarrow> json \<Rightarrow> string list
    \<Rightarrow> verr + (json \<times> string list \<times> warning list)" where
  "rule_body schedules i rule seen =
     (let base = idx_path ''firewall.rules'' i;
          fresh = JStr (''rule-'' @ show_int (int i + 1)) in
      rbind (need_dict rule base) (\<lambda>d0.
      rbind (v_id (get_or fresh ''id'' d0) (sub_path base ''id'')) (\<lambda>rid.
      rbind (guard_raise (rid \<notin> set seen) (ValidationError (sub_path base ''id''))) (\<lambda>_.
      rbind (steps (rule_steps schedules base i rid) (setdefault ''id'' fresh d0)) (\<lambda>(d1, w).
        Inr (JObj d1, rid # seen, w))))))"

definition validate_firewall :: "json \<Rightarrow> verr + (json \<times> warning list)" where
  "validate_firewall = dict_steps
     [field ''hardware_offload'' (JBool False) (\<lambda>v. v_bool v ''firewall.hardware_offload''),
      field ''tunnel_interfaces'' tunnel_default (\<lambda>v.
        rbind (need_list v ''firewall.tunnel_interfaces'') (check_each tunnel_check 0)),
      field ''default_policies'' (JObj []) (\<lambda>v. rbind (as_dict v) (check_items policy_check)),
      (\<lambda>fw. nested ''rules'' (JList [])
         (for_list (rule_body (get_or (JObj []) ''schedules'' fw)) []) fw)]"

subsection \<open>NAT\<close>

definition range_bounds :: "string \<Rightarrow> (int \<times> int) option" where
  "range_bounds s = (case port_numbers s of [Some lo, Some hi] \<Rightarrow> Some (lo, hi) | _ \<Rightarrow> None)"

definition same_size_check :: "string \<Rightarrow> string \<Rightarrow> string \<Rightarrow> verr + unit" where
  "same_size_check base ext internal =
     rbind (guard_raise ((CHR ''-'' \<in> set ext) = (CHR ''-'' \<in> set internal)) (ValidationError base))
       (\<lambda>_. if CHR ''-'' \<in> set ext
            then (case (range_bounds ext, range_bounds internal) of
                (Some (el, eh), Some (il, ih)) \<Rightarrow>
                  guard_raise (eh - el = ih - il) (ValidationError base)
              | _ \<Rightarrow> Inl (Raised ValueError))
            else Inr ())"

definition forward_wan_check :: "obj \<Rightarrow> string \<Rightarrow> json \<Rightarrow> verr + unit" where
  "forward_wan_check cfg base wan =
     (if wan = JStr ''any'' then Inr ()
      else rbind (py_in wan (get_or (JObj []) ''wans'' cfg))
             (\<lambda>known. guard_raise known (ValidationError (sub_path base ''wan''))))"

definition forward_head_steps :: "string \<Rightarrow> nat \<Rightarrow> warning step list" where
  "forward_head_steps base i =
     [field ''id'' (JStr (''pf-'' @ show_int (int i + 1))) (\<lambda>v. v_id v (sub_path base ''id'')),
      (\<lambda>d. field ''name'' (get_null ''id'' d) (\<lambda>v. v_name v (sub_path base ''name'')) d),
      field ''enabled'' (JBool True) (\<lambda>v. v_bool v (sub_path base ''enabled'')),
      field ''protocol'' (JStr ''tcp'')
        (\<lambda>v. v_enum v (sub_path base ''protocol'') [''tcp'', ''udp'', ''tcp-udp''])]"

text \<open>What a forward claims: its protocol, its external port text and its WAN.\<close>

type_synonym forward_key = "json \<times> string \<times> json"

definition forward_body :: "obj \<Rightarrow> nat \<Rightarrow> json \<Rightarrow> forward_key list
    \<Rightarrow> verr + (json \<times> forward_key list \<times> warning list)" where
  "forward_body cfg i fwd seen =
     (let base = idx_path ''nat.port_forwards'' i in
      rbind (need_dict fwd base) (\<lambda>d0.
      rbind (steps (forward_head_steps base i) d0) (\<lambda>(d1, w).
      rbind (subscript (JObj d1) ''external_port'') (\<lambda>ep.
      rbind (v_port_range ep (sub_path base ''external_port'')) (\<lambda>ext.
      rbind (subscript (JObj d1) ''internal_address'') (\<lambda>ia.
      rbind (v_ip ia (sub_path base ''internal_address'') (Some 4)) (\<lambda>_.
      rbind (v_port_range (get_or (JStr ext) ''internal_port'' d1)
               (sub_path base ''internal_port'')) (\<lambda>internal.
      rbind (same_size_check base ext internal) (\<lambda>_.
      let d2 = setdefault ''internal_port'' (JStr ext) d1;
          d3 = setdefault ''wan'' (JStr ''any'') d2;
          wan = get_null ''wan'' d3;
          key = (get_null ''protocol'' d3, ext, wan)
      in rbind (forward_wan_check cfg base wan) (\<lambda>_.
         rbind (guard_raise (key \<notin> set seen) (ValidationError base)) (\<lambda>_.
           Inr (JObj d3, key # seen, w))))))))))))"

definition validate_nat :: "obj \<Rightarrow> json \<Rightarrow> verr + (json \<times> warning list)" where
  "validate_nat cfg = dict_steps
     [field ''masquerade'' (JBool True) (\<lambda>v. v_bool v ''nat.masquerade''),
      field ''hairpin'' (JBool True) (\<lambda>v. v_bool v ''nat.hairpin''),
      nested ''port_forwards'' (JList []) (for_list (forward_body cfg) [])]"

subsection \<open>Static routes\<close>

text \<open>\<open>ip_network(dest, strict=False)\<close> on any value: a number is an address of the smallest version
  it fits.\<close>

definition destination_version :: "json \<Rightarrow> nat option" where
  "destination_version v =
     (let of_number = (\<lambda>n. if n < 0 then None else if n < 2 ^ 32 then Some 4
                          else if n < 2 ^ 128 then Some 6 else None) in
      case v of JStr s \<Rightarrow> ip_network_version s
      | JInt n \<Rightarrow> of_number n
      | JBool b \<Rightarrow> of_number (if b then 1 else 0)
      | _ \<Rightarrow> None)"

definition gateway_check :: "nat \<Rightarrow> string \<Rightarrow> obj \<Rightarrow> verr + unit" where
  "gateway_check version base route =
     rbind (v_ip (get_null ''via'' route) (sub_path base ''via'') None) (\<lambda>gw.
       case ip_address gw of None \<Rightarrow> Inl (Raised ValueError)
       | Some a \<Rightarrow> guard_raise (ip_version a = version) (ValidationError (sub_path base ''via'')))"

definition route_steps :: "nat \<Rightarrow> string \<Rightarrow> warning step list" where
  "route_steps version base =
     [field ''type'' (JStr ''gateway'') (\<lambda>v. v_enum v (sub_path base ''type'')
        [''gateway'', ''interface'', ''blackhole'', ''unreachable'']),
      when_step (\<lambda>d. get_null ''type'' d = JStr ''gateway'') (check (gateway_check version base)),
      when_step (\<lambda>d. get_null ''type'' d = JStr ''interface'')
        (check (\<lambda>d. guard_raise (truthy (get_null ''interface'' d))
           (ValidationError (sub_path base ''interface'')))),
      field ''metric'' (JInt 100) (\<lambda>v. v_int v (sub_path base ''metric'') 0 4294967295)]"

definition route_body :: "nat \<Rightarrow> json \<Rightarrow> unit \<Rightarrow> verr + (json \<times> unit \<times> warning list)" where
  "route_body i route u =
     (let base = idx_path ''routing.static'' i in
      rbind (need_dict route base) (\<lambda>d0.
      case destination_version (get_null ''destination'' d0) of
        None \<Rightarrow> verr_at (sub_path base ''destination'')
      | Some version \<Rightarrow>
          rbind (steps (route_steps version base) d0) (\<lambda>(d1, w). Inr (JObj d1, (), w))))"

definition validate_routing :: "json \<Rightarrow> verr + (json \<times> warning list)" where
  "validate_routing = dict_steps [nested ''static'' (JList []) (for_list route_body ())]"

subsection \<open>QoS\<close>

definition limit_key :: "string list \<Rightarrow> string \<Rightarrow> obj \<Rightarrow> verr + string" where
  "limit_key network_ids base limit =
     (if truthy (get_null ''mac'' limit)
      then rbind (v_mac (get_null ''mac'' limit) (sub_path base ''mac'')) (\<lambda>m. Inr (''mac:'' @ m))
      else if truthy (get_null ''network'' limit)
      then (if \<not> hashable (get_null ''network'' limit) then Inl (Raised TypeError)
            else case get_null ''network'' limit of
              JStr n \<Rightarrow> (if n \<in> set network_ids then Inr (''network:'' @ n)
                        else verr_at (sub_path base ''network''))
            | _ \<Rightarrow> verr_at (sub_path base ''network''))
      else verr_at base)"

definition limit_body :: "string list \<Rightarrow> nat \<Rightarrow> json \<Rightarrow> string list
    \<Rightarrow> verr + (json \<times> string list \<times> warning list)" where
  "limit_body network_ids i limit seen =
     (let base = idx_path ''qos.per_client_limits'' i in
      rbind (need_dict limit base) (\<lambda>d0.
      rbind (limit_key network_ids base d0) (\<lambda>key.
      rbind (guard_raise (key \<notin> set seen) (ValidationError base)) (\<lambda>_.
      rbind (steps
        [field ''download_kbps'' (JInt 0)
           (\<lambda>v. v_int v (sub_path base ''download_kbps'') 0 10000000),
         field ''upload_kbps'' (JInt 0)
           (\<lambda>v. v_int v (sub_path base ''upload_kbps'') 0 10000000)] d0) (\<lambda>(d1, w).
        Inr (JObj d1, key # seen, w))))))"

definition dict_keys :: "json \<Rightarrow> string list" where
  "dict_keys j = map fst (obj_of j)"

definition qos_rate_check :: "obj \<Rightarrow> verr + unit" where
  "qos_rate_check d = guard_raise
     (get_null ''enabled'' d \<noteq> JBool True \<or> truthy (get_null ''download_kbps'' d)
        \<or> truthy (get_null ''upload_kbps'' d)) (ValidationError ''qos'')"

text \<open>The per-client limits are a list by the statement before the loop.\<close>

definition validate_qos :: "obj \<Rightarrow> json \<Rightarrow> verr + (json \<times> warning list)" where
  "validate_qos cfg = object_steps ''qos''
     [field ''enabled'' (JBool False) (\<lambda>v. v_bool v ''qos.enabled''),
      field ''engine'' (JStr ''cake'') (\<lambda>v. v_enum v ''qos.engine'' [''cake'']),
      field ''download_kbps'' (JInt 0) (\<lambda>v. v_int v ''qos.download_kbps'' 0 10000000),
      field ''upload_kbps'' (JInt 0) (\<lambda>v. v_int v ''qos.upload_kbps'' 0 10000000),
      check qos_rate_check,
      field ''per_client_limits'' (JList []) (\<lambda>v. need_list v ''qos.per_client_limits''),
      nested ''per_client_limits'' (JList [])
        (for_list (limit_body (dict_keys (get_or (JObj []) ''networks'' cfg))) [])]"

subsection \<open>DNS\<close>

definition label_ok :: "(char \<Rightarrow> bool) \<Rightarrow> (char \<Rightarrow> bool) \<Rightarrow> string \<Rightarrow> bool" where
  "label_ok edge mid l = (l \<noteq> [] \<and> length l \<le> 63 \<and> edge (hd l) \<and> edge (last l) \<and> list_all mid l)"

definition DOMAIN_RE :: "string \<Rightarrow> bool" where
  "DOMAIN_RE = re_dollar (\<lambda>s.
     let t = (if s \<noteq> [] \<and> last s = CHR ''.'' then butlast s else s);
         ls = py_split CHR ''.'' t
     in t \<noteq> [] \<and> length t \<le> 253 \<and>
        list_all (label_ok (\<lambda>c. is_alnum_ascii c \<or> c = CHR ''_'')
                    (\<lambda>c. is_alnum_ascii c \<or> c = CHR ''_'' \<or> c = CHR ''-'')) (butlast ls) \<and>
        label_ok is_alnum_ascii (\<lambda>c. is_alnum_ascii c \<or> c = CHR ''-'') (last ls))"

definition domain :: "json \<Rightarrow> string \<Rightarrow> verr + string" where
  "domain v path = rbind (need_str v path) (\<lambda>s.
     let name = py_rstrip_char CHR ''.'' (py_lower (py_strip s))
     in if DOMAIN_RE name then Inr name else verr_at path)"

definition domain_list :: "string \<Rightarrow> string \<Rightarrow> warning step" where
  "domain_list base k = (\<lambda>d.
     rbind (need_list (get_or (JList []) k d) (sub_path base k)) (\<lambda>xs.
     rbind (check_each (\<lambda>i x. domain x (idx_path (sub_path base k) i)) 0 xs) (\<lambda>names.
     rbind (guard_raise (distinct names) (ValidationError (sub_path base k))) (\<lambda>_.
       Inr (dset k (JList (map JStr names)) (setdefault k (JList []) d), [])))))"

definition filtering_steps :: "warning step list" where
  "filtering_steps =
     [field ''enabled'' (JBool False) (\<lambda>v. v_bool v ''dns.filtering.enabled''),
      field ''block_malware'' (JBool True) (\<lambda>v. v_bool v ''dns.filtering.block_malware''),
      field ''block_ads'' (JBool False) (\<lambda>v. v_bool v ''dns.filtering.block_ads''),
      domain_list ''dns.filtering'' ''allowlist'',
      domain_list ''dns.filtering'' ''blocklist'']"

definition forwarder_body :: "nat \<Rightarrow> json \<Rightarrow> unit \<Rightarrow> verr + (json \<times> unit \<times> warning list)" where
  "forwarder_body i entry u =
     (let base = idx_path ''dns.conditional_forwarders'' i in
      rbind (object_steps base
        [assign ''domain'' (\<lambda>d. rbind (domain (get_null ''domain'' d) (sub_path base ''domain''))
           (\<lambda>s. Inr (JStr s))),
         assign ''server'' (\<lambda>d. rbind (v_ip (get_null ''server'' d) (sub_path base ''server'') None)
           (\<lambda>s. Inr (JStr s)))] entry) (\<lambda>(j, w). Inr (j, (), w)))"

definition record_value :: "string \<Rightarrow> string \<Rightarrow> string \<Rightarrow> verr + string" where
  "record_value kind path value =
     (if kind = ''A'' then v_ip (JStr value) path (Some 4)
      else if kind = ''AAAA'' then v_ip (JStr value) path (Some 6)
      else if kind = ''CNAME'' then domain (JStr value) path
      else if py_strip value = [] \<or> 255 < length value then verr_at path
      else Inr value)"

definition record_body :: "nat \<Rightarrow> json \<Rightarrow> (string \<times> string) list
    \<Rightarrow> verr + (json \<times> (string \<times> string) list \<times> warning list)" where
  "record_body i entry seen =
     (let base = idx_path ''dns.records'' i in
      rbind (need_dict entry base) (\<lambda>d0.
      rbind (v_enum (get_or (JStr ''A'') ''type'' d0) (sub_path base ''type'')
               [''A'', ''AAAA'', ''CNAME'', ''SRV'', ''TXT'']) (\<lambda>kind.
      let d1 = setdefault ''type'' (JStr ''A'') d0 in
      rbind (domain (get_null ''name'' d1) (sub_path base ''name'')) (\<lambda>name.
      rbind (need_str (get_null ''value'' d1) (sub_path base ''value'')) (\<lambda>value.
      rbind (guard_raise (newline \<notin> set value \<and> carriage_return \<notin> set value)
               (ValidationError (sub_path base ''value''))) (\<lambda>_.
      rbind (record_value kind (sub_path base ''value'') value) (\<lambda>value'.
      rbind (guard_raise ((kind, name) \<notin> set seen) (ValidationError base)) (\<lambda>_.
        Inr (JObj (dset ''value'' (JStr value') (dset ''name'' (JStr name) d1)),
             (kind, name) # seen, [])))))))))"

definition upstream_check :: "json \<Rightarrow> verr + unit" where
  "upstream_check v =
     rbind (need_list v ''dns.upstream'') (\<lambda>xs.
     rbind (guard_raise (xs \<noteq> []) (ValidationError ''dns.upstream'')) (\<lambda>_.
     rbind (check_each (\<lambda>i x. v_ip x (idx_path ''dns.upstream'' i) None) 0 xs) (\<lambda>_. Inr ())))"

definition validate_dns :: "json \<Rightarrow> verr + (json \<times> warning list)" where
  "validate_dns = object_steps ''dns''
     [field ''upstream'' (JList [JStr ''1.1.1.1'', JStr ''8.8.8.8'']) upstream_check,
      field ''cache_size'' (JInt 4096) (\<lambda>v. v_int v ''dns.cache_size'' 0 100000),
      field ''dnssec'' (JBool False) (\<lambda>v. v_bool v ''dns.dnssec''),
      field ''query_log'' (JBool False) (\<lambda>v. v_bool v ''dns.query_log''),
      nested ''filtering'' (JObj []) (object_steps ''dns.filtering'' filtering_steps),
      field ''conditional_forwarders'' (JList []) (\<lambda>v. need_list v ''dns.conditional_forwarders''),
      nested ''conditional_forwarders'' (JList []) (for_list forwarder_body ()),
      field ''records'' (JList []) (\<lambda>v. need_list v ''dns.records''),
      nested ''records'' (JList []) (for_list record_body [])]"

subsection \<open>DPI, controller, users\<close>

definition validate_dpi :: "obj \<Rightarrow> json \<Rightarrow> verr + (json \<times> warning list)" where
  "validate_dpi cfg v =
     rbind (object_steps ''dpi''
       [field ''enabled'' (JBool False) (\<lambda>v. v_bool v ''dpi.enabled''),
        field ''engine'' (JStr ''suricata'') (\<lambda>v. v_enum v ''dpi.engine'' [''suricata'']),
        field ''retention_hours'' (JInt 24) (\<lambda>v. v_int v ''dpi.retention_hours'' 1 720),
        field ''include_ipv6'' (JBool True) (\<lambda>v. v_bool v ''dpi.include_ipv6'')] v) (\<lambda>(j, w).
     if get_null ''enabled'' (obj_of j) = JBool True
     then rbind (as_dict (get_or (JObj []) ''firewall'' cfg)) (\<lambda>fw.
       Inr (j, w @ (if truthy (get_null ''hardware_offload'' fw) then [DpiOffload] else [])))
     else Inr (j, w))"

definition http_rest :: "string \<Rightarrow> string option" where
  "http_rest s = (if startswith s ''http://'' then Some (drop 7 s)
                  else if startswith s ''https://'' then Some (drop 8 s) else None)"

text \<open>\<open>^https?://[^\s/]+(?::[0-9]{1,5})?/inform/?$\<close>: the optional port is itself matched by the class
  before it.\<close>

definition INFORM_RE :: "string \<Rightarrow> bool" where
  "INFORM_RE s = (case http_rest s of None \<Rightarrow> False
     | Some r \<Rightarrow> (case py_split CHR ''/'' r of
          [h, p] \<Rightarrow> h \<noteq> [] \<and> list_all (\<lambda>c. \<not> py_isspace c) h \<and> p = ''inform''
        | [h, p, e] \<Rightarrow> h \<noteq> [] \<and> list_all (\<lambda>c. \<not> py_isspace c) h \<and> p = ''inform'' \<and> e = []
        | _ \<Rightarrow> False))"

definition API_SUFFIX :: string where
  "API_SUFFIX = ''/proxy/network/integration/v1''"

definition API_RE :: "string \<Rightarrow> bool" where
  "API_RE s = (case http_rest s of None \<Rightarrow> False
     | Some r \<Rightarrow> length API_SUFFIX < length r \<and>
         drop (length r - length API_SUFFIX) r = API_SUFFIX \<and> list_all (\<lambda>c. \<not> py_isspace c) r)"

definition SITE_RE :: "string \<Rightarrow> bool" where
  "SITE_RE s = (16 \<le> length s \<and> length s \<le> 64 \<and> list_all (\<lambda>c. is_hex c \<or> c = CHR ''-'') s)"

definition controller_text :: "string \<Rightarrow> warning step" where
  "controller_text k = field k (JStr []) (\<lambda>v.
     let path = sub_path ''controller'' k in
     rbind (need_str v path) (\<lambda>s.
       guard_raise (newline \<notin> set s \<and> carriage_return \<notin> set s \<and> length s \<le> 2048)
         (ValidationError path)))"

definition str_at :: "string \<Rightarrow> obj \<Rightarrow> string" where
  "str_at k d = (case get_null k d of JStr s \<Rightarrow> s | _ \<Rightarrow> [])"

definition inform_assign :: "obj \<Rightarrow> verr + json" where
  "inform_assign d =
     (let inform = py_strip (str_at ''inform_url'' d) in
      if INFORM_RE inform then Inr (JStr (py_rstrip_char CHR ''/'' inform))
      else verr_at ''controller.inform_url'')"

definition api_assign :: "obj \<Rightarrow> verr + json" where
  "api_assign d =
     (let api_url = py_rstrip_char CHR ''/'' (py_strip (str_at ''api_url'' d)) in
      if \<not> API_RE api_url then verr_at ''controller.api_url''
      else if py_strip (str_at ''api_key'' d) = [] then verr_at ''controller.api_key''
      else if \<not> SITE_RE (py_strip (str_at ''site_id'' d)) then verr_at ''controller.site_id''
      else Inr (JStr api_url))"

definition validate_controller :: "json \<Rightarrow> verr + (json \<times> warning list)" where
  "validate_controller = object_steps ''controller''
     [field ''enabled'' (JBool False) (\<lambda>v. v_bool v ''controller.enabled''),
      field ''discovery'' (JBool True) (\<lambda>v. v_bool v ''controller.discovery''),
      field ''sync_enabled'' (JBool False) (\<lambda>v. v_bool v ''controller.sync_enabled''),
      field ''verify_tls'' (JBool True) (\<lambda>v. v_bool v ''controller.verify_tls''),
      field ''interval_seconds'' (JInt 10) (\<lambda>v. v_int v ''controller.interval_seconds'' 5 300),
      controller_text ''inform_url'', controller_text ''api_url'', controller_text ''api_key'',
      controller_text ''site_id'',
      when_step (\<lambda>d. get_null ''enabled'' d = JBool True) (assign ''inform_url'' inform_assign),
      when_step (\<lambda>d. get_null ''sync_enabled'' d = JBool True) (assign ''api_url'' api_assign)]"

definition user_body :: "string \<Rightarrow> json \<Rightarrow> unit \<Rightarrow> verr + (json \<times> unit \<times> warning list)" where
  "user_body username user u =
     (let base = sub_path ''users'' username in
      rbind (object_steps base
        [field ''role'' (JStr ''read-only'') (\<lambda>v. v_enum v (sub_path base ''role'') ROLES),
         check (\<lambda>d. guard_raise (truthy (get_null ''password_hash'' d))
           (ValidationError (sub_path base ''password_hash'')))] user) (\<lambda>(j, w). Inr (j, (), w)))"

definition validate_users :: "json \<Rightarrow> verr + (json \<times> warning list)" where
  "validate_users = for_dict user_body ()"

subsection \<open>What the loops of the policy sections guarantee\<close>

definition enum_at :: "string \<Rightarrow> string list \<Rightarrow> obj \<Rightarrow> bool" where
  "enum_at k al d = (case get_null k d of JStr s \<Rightarrow> s \<in> set al | _ \<Rightarrow> False)"

lemma enum_at_iff: "enum_at k al d \<longleftrightarrow> is_ok (v_enum (get_null k d) p al)"
  by (auto simp: enum_at_def v_enum_def verr_at_def split: json.splits)

lemma port_range_path: "v_port_range v p = Inr s \<longleftrightarrow> v_port_range v q = Inr s"
  by (auto simp: v_port_range_def verr_at_def Let_def split: option.splits if_splits)

definition rule_id :: "json \<Rightarrow> string list" where
  "rule_id j = (case get_null ''id'' (obj_of j) of JStr s \<Rightarrow> [s] | _ \<Rightarrow> [])"

definition rule_port_ok :: "obj \<Rightarrow> string \<Rightarrow> bool" where
  "rule_port_ok d k \<longleftrightarrow> (truthy (get_null k d) \<longrightarrow>
     enum_at ''protocol'' [''tcp'', ''udp'', ''tcp-udp''] d \<and> is_ok (v_port_range (get_null k d) []))"

definition rule_ok :: "json \<Rightarrow> bool" where
  "rule_ok j = (let d = obj_of j in
     enum_at ''action'' FW_ACTIONS d \<and> enum_at ''src_zone'' ZONES d \<and> enum_at ''dst_zone'' ZONES d \<and>
     enum_at ''protocol'' PROTOCOLS d \<and> rule_port_ok d ''src_port'' \<and> rule_port_ok d ''dst_port'')"

lemma rule_port_check_ok:
  assumes "rule_port_check base k d = Inr u" shows "rule_port_ok d k"
proof (cases "truthy (get_null k d)")
  case True
  with assms have "enum_at ''protocol'' [''tcp'', ''udp'', ''tcp-udp''] d"
    and "is_ok (v_port_range (get_null k d) (sub_path base k))"
    by (auto simp: rule_port_check_def res_simps enum_at_def verr_at_def split: if_splits)
  then show ?thesis
    using port_range_path by (fastforce simp: rule_port_ok_def is_ok_iff)
qed (simp add: rule_port_ok_def)

lemma rule_body_spec:
  assumes "rule_body sch i j s = Inr (j', s', w)"
  shows "rule_ok j' \<and> (\<exists>rid. rule_id j' = [rid] \<and> rid \<notin> set s \<and> s' = rid # s)"
proof -
  let ?b = "idx_path ''firewall.rules'' i"
  from assms obtain d0 rid d1 where r: "v_id (get_or (JStr (''rule-'' @ show_int (int i + 1))) ''id'' d0)
      (sub_path ?b ''id'') = Inr rid" and n: "rid \<notin> set s" and s': "s' = rid # s" and j': "j' = JObj d1"
    and st: "steps (rule_steps sch ?b i rid)
      (setdefault ''id'' (JStr (''rule-'' @ show_int (int i + 1))) d0) = Inr (d1, w)"
    unfolding rule_body_def Let_def by (auto simp: rbind_eq_Inr guard_raise_eq)
  have k: "list_all (keeping k) (rule_steps sch ?b i rid)" for k
    by (simp add: rule_steps_def ext_intros)
  from r have "map_of (setdefault ''id'' (JStr (''rule-'' @ show_int (int i + 1))) d0) ''id'' =
      Some (JStr rid)"
    by (simp add: setdefault_get v_id_eq)
  from steps_keeping [OF st k this] have id: "rule_id j' = [rid]"
    by (simp add: rule_id_def j' obj_of_def get_null_def get_or_def)
  have en: "enum_at k al d1"
    if "field k v (\<lambda>v. v_enum v p al) \<in> set (rule_steps sch ?b i rid)" for k v p al
    unfolding enum_at_iff [where p = p] using field_get [OF st k that] .
  have "enum_at ''action'' FW_ACTIONS d1" "enum_at ''src_zone'' ZONES d1"
    "enum_at ''dst_zone'' ZONES d1" "enum_at ''protocol'' PROTOCOLS d1"
    by (rule en, simp add: rule_steps_def, blast)+
  moreover from st have "rule_port_check ?b ''src_port'' d1 = Inr ()" "rule_port_check ?b ''dst_port'' d1 = Inr ()"
    unfolding rule_steps_def steps_append_eq by (auto simp: check_def rbind_eq_Inr)
  ultimately have "rule_ok j'"
    by (auto simp: rule_ok_def j' obj_of_def Let_def dest: rule_port_check_ok)
  with id n s' show ?thesis by blast
qed

interpretation rules: seen_loop "rule_body sch" "\<lambda>_. rule_ok" "\<lambda>_. rule_id" set "(=)" for sch
  by (rule seen_loop_single) (rule rule_body_spec)

text \<open>The number of extra ports of a range; a single port has none.\<close>

definition range_span :: "string \<Rightarrow> int option" where
  "range_span s = map_option (\<lambda>(lo, hi). hi - lo) (range_bounds s)"

definition forward_claim :: "json \<Rightarrow> forward_key list" where
  "forward_claim j = (let d = obj_of j in
     case v_port_range (get_null ''external_port'' d) [] of
       Inr ext \<Rightarrow> [(get_null ''protocol'' d, ext, get_null ''wan'' d)] | Inl _ \<Rightarrow> [])"

definition forward_ok :: "json \<Rightarrow> bool" where
  "forward_ok j = (let d = obj_of j in
     case (v_port_range (get_null ''external_port'' d) [], v_port_range (get_null ''internal_port'' d) []) of
       (Inr ext, Inr internal) \<Rightarrow> range_span ext = range_span internal \<and>
          enum_at ''protocol'' [''tcp'', ''udp'', ''tcp-udp''] d \<and>
          is_ok (v_ip (get_null ''internal_address'' d) [] (Some 4))
     | _ \<Rightarrow> False)"

lemma range_bounds_single: "CHR ''-'' \<notin> set s \<Longrightarrow> range_bounds s = None"
  by (simp add: range_bounds_def port_numbers_def py_split_single split: option.splits)

lemma same_size_span:
  "same_size_check base ext internal = Inr u \<Longrightarrow> range_span ext = range_span internal"
  by (auto simp: same_size_check_def res_simps range_span_def range_bounds_single
      split: if_splits option.splits)

lemma v_ip_path: "v_ip v p ver = Inr s \<longleftrightarrow> v_ip v q ver = Inr s"
  by (auto simp: v_ip_def res_simps verr_at_def split: option.splits if_splits)

lemma forward_bodyE:
  assumes "forward_body cfg i fwd s = Inr (j', s', w)"
  obtains d0 d1 ext internal d3 where
    "steps (forward_head_steps (idx_path ''nat.port_forwards'' i) i) d0 = Inr (d1, w)"
    "v_port_range (get_null ''external_port'' d1) [] = Inr ext"
    "v_port_range (get_or (JStr ext) ''internal_port'' d1) [] = Inr internal"
    "is_ok (v_ip (get_null ''internal_address'' d1) [] (Some 4))"
    "range_span ext = range_span internal" "j' = JObj d3"
    "d3 = setdefault ''wan'' (JStr ''any'') (setdefault ''internal_port'' (JStr ext) d1)"
    "(get_null ''protocol'' d3, ext, get_null ''wan'' d3) \<notin> set s"
    "s' = (get_null ''protocol'' d3, ext, get_null ''wan'' d3) # s"
proof -
  let ?b = "idx_path ''nat.port_forwards'' i"
  from assms obtain d0 d1 ep ext ia x internal d3 u where h:
    "steps (forward_head_steps ?b i) d0 = Inr (d1, w)"
    "subscript (JObj d1) ''external_port'' = Inr ep" "v_port_range ep (sub_path ?b ''external_port'') = Inr ext"
    "subscript (JObj d1) ''internal_address'' = Inr ia"
    "v_ip ia (sub_path ?b ''internal_address'') (Some 4) = Inr x"
    "v_port_range (get_or (JStr ext) ''internal_port'' d1) (sub_path ?b ''internal_port'') = Inr internal"
    "same_size_check ?b ext internal = Inr u" "j' = JObj d3"
    "d3 = setdefault ''wan'' (JStr ''any'') (setdefault ''internal_port'' (JStr ext) d1)"
    "(get_null ''protocol'' d3, ext, get_null ''wan'' d3) \<notin> set s"
    "s' = (get_null ''protocol'' d3, ext, get_null ''wan'' d3) # s"
    unfolding forward_body_def Let_def by (auto simp: rbind_eq_Inr guard_raise_eq)
  have "v_port_range (get_null ''external_port'' d1) [] = Inr ext"
    using h(2) port_range_path [THEN iffD1, OF h(3)]
    by (auto simp: subscript_eq get_null_def get_or_def)
  moreover have "is_ok (v_ip (get_null ''internal_address'' d1) [] (Some 4))"
    using h(4) v_ip_path [THEN iffD1, OF h(5)]
    by (auto simp: subscript_eq get_null_def get_or_def is_ok_iff)
  ultimately show thesis
    using that [OF h(1)] port_range_path [THEN iffD1, OF h(6)] same_size_span [OF h(7)] h(8-11)
    by blast
qed

lemma forward_body_spec:
  assumes "forward_body cfg i fwd s = Inr (j', s', w)"
  shows "forward_ok j' \<and> (\<exists>k. forward_claim j' = [k] \<and> k \<notin> set s \<and> s' = k # s)"
  using assms
proof (rule forward_bodyE)
  fix d0 d1 ext internal d3
  let ?b = "idx_path ''nat.port_forwards'' i"
  assume st: "steps (forward_head_steps ?b i) d0 = Inr (d1, w)"
    and e: "v_port_range (get_null ''external_port'' d1) [] = Inr ext"
    and n: "v_port_range (get_or (JStr ext) ''internal_port'' d1) [] = Inr internal"
    and a: "is_ok (v_ip (get_null ''internal_address'' d1) [] (Some 4))"
    and sp: "range_span ext = range_span internal" and j': "j' = JObj d3"
    and d3: "d3 = setdefault ''wan'' (JStr ''any'') (setdefault ''internal_port'' (JStr ext) d1)"
    and seen: "(get_null ''protocol'' d3, ext, get_null ''wan'' d3) \<notin> set s"
      "s' = (get_null ''protocol'' d3, ext, get_null ''wan'' d3) # s"
  have same: "get_null k d3 = get_null k d1" if "k \<notin> {''wan'', ''internal_port''}" for k
    using that by (simp add: d3 get_null_def get_or_def map_of_setdefault)
  have i3: "get_null ''internal_port'' d3 = get_or (JStr ext) ''internal_port'' d1"
    by (simp add: d3 get_null_def get_or_def map_of_setdefault split: option.splits)
  have "list_all (keeping ''protocol'') (forward_head_steps ?b i)"
    by (simp add: forward_head_steps_def ext_intros) (auto simp: keeping_def field_def res_simps map_of_setdefault)
  from field_get [OF st this, where v = "JStr ''tcp''" and chk = "\<lambda>v. v_enum v (sub_path ?b ''protocol'')
      [''tcp'', ''udp'', ''tcp-udp'']"]
  have "enum_at ''protocol'' [''tcp'', ''udp'', ''tcp-udp''] d1"
    by (simp add: forward_head_steps_def enum_at_iff [where p = "sub_path ?b ''protocol''"])
  then have "enum_at ''protocol'' [''tcp'', ''udp'', ''tcp-udp''] d3"
    by (simp add: enum_at_def same)
  with e n a sp have "forward_ok j'"
    by (simp add: forward_ok_def j' obj_of_def Let_def same i3)
  moreover from e have "forward_claim j' = [(get_null ''protocol'' d3, ext, get_null ''wan'' d3)]"
    by (simp add: forward_claim_def j' obj_of_def Let_def same)
  ultimately show ?thesis using seen by blast
qed

interpretation forwards: seen_loop "forward_body cfg" "\<lambda>_. forward_ok" "\<lambda>_. forward_claim" set "(=)"
  for cfg
  by (rule seen_loop_single) (rule forward_body_spec)

text \<open>A client limit claims its client or its network.\<close>

definition limit_claim :: "string list \<Rightarrow> json \<Rightarrow> string list" where
  "limit_claim ids j = (case limit_key ids [] (obj_of j) of Inr k \<Rightarrow> [k] | Inl _ \<Rightarrow> [])"

definition rate_ok :: "string \<Rightarrow> obj \<Rightarrow> bool" where
  "rate_ok k d = (case get_null k d of JInt n \<Rightarrow> 0 \<le> n \<and> n \<le> 10000000 | _ \<Rightarrow> False)"

definition limit_ok :: "json \<Rightarrow> bool" where
  "limit_ok j \<longleftrightarrow> rate_ok ''download_kbps'' (obj_of j) \<and> rate_ok ''upload_kbps'' (obj_of j)"

lemma v_mac_path: "v_mac v p = Inr s \<longleftrightarrow> v_mac v q = Inr s"
  by (auto simp: v_mac_def res_simps verr_at_def Let_def)

lemma limit_key_cong:
  assumes "limit_key ids p d = Inr k"
    and "get_null ''mac'' e = get_null ''mac'' d" "get_null ''network'' e = get_null ''network'' d"
  shows "limit_key ids q e = Inr k"
  using assms v_mac_path
  by (fastforce simp: limit_key_def rbind_eq_Inr verr_at_def split: if_splits json.splits)

lemma rate_ok_iff: "rate_ok k d \<longleftrightarrow> is_ok (v_int (get_null k d) p 0 10000000)"
  by (auto simp: rate_ok_def v_int_def verr_at_def split: json.splits)

lemma limit_body_spec:
  assumes "limit_body ids i j s = Inr (j', s', w)"
  shows "limit_ok j' \<and> (\<exists>k. limit_claim ids j' = [k] \<and> k \<notin> set s \<and> s' = k # s)"
proof -
  let ?b = "idx_path ''qos.per_client_limits'' i"
  let ?ss = "[field ''download_kbps'' (JInt 0) (\<lambda>v. v_int v (sub_path ?b ''download_kbps'') 0 10000000),
    field ''upload_kbps'' (JInt 0) (\<lambda>v. v_int v (sub_path ?b ''upload_kbps'') 0 10000000)] :: warning step list"
  from assms obtain d0 key d1 where k: "limit_key ids ?b d0 = Inr key" and n: "key \<notin> set s"
    and st: "steps ?ss d0 = Inr (d1, w)" and r: "j' = JObj d1" "s' = key # s"
    unfolding limit_body_def Let_def by (auto simp: rbind_eq_Inr guard_raise_eq simp del: steps.simps)
  have "leaving k (steps ?ss)" if "k \<in> {''mac'', ''network''}" for k
    using that by (intro steps_leaving) (auto intro!: ext_intros)
  from leaving_get [OF this st] have "get_null k d1 = get_null k d0"
    if "k \<in> {''mac'', ''network''}" for k using that by blast
  with k have "limit_key ids [] d1 = Inr key" by (intro limit_key_cong [OF k]) auto
  moreover have "list_all (keeping k) ?ss" for k by (simp add: ext_intros)
  have "rate_ok k d1" if "field k v (\<lambda>v. v_int v p 0 10000000) \<in> set ?ss" for k v p
    unfolding rate_ok_iff [where p = p] by (rule field_get [OF st _ that]) (simp add: ext_intros)
  then have "rate_ok ''download_kbps'' d1" "rate_ok ''upload_kbps'' d1"
    by (meson list.set_intros)+
  ultimately show ?thesis using n r by (simp add: limit_claim_def limit_ok_def obj_of_def)
qed

interpretation limits: seen_loop "limit_body ids" "\<lambda>_. limit_ok" "\<lambda>_. limit_claim ids" set "(=)" for ids
  by (rule seen_loop_single) (rule limit_body_spec)

text \<open>A local DNS record claims its type and name; the name is in normal form, and the value of an
  \<open>A\<close> record is an IPv4 address.\<close>

definition record_claim :: "json \<Rightarrow> (string \<times> string) list" where
  "record_claim j = (case (get_null ''type'' (obj_of j), get_null ''name'' (obj_of j)) of
     (JStr t, JStr n) \<Rightarrow> [(t, n)] | _ \<Rightarrow> [])"

definition record_ok :: "json \<Rightarrow> bool" where
  "record_ok j = (case (get_null ''type'' (obj_of j), get_null ''name'' (obj_of j),
       get_null ''value'' (obj_of j)) of
     (JStr t, JStr n, JStr v) \<Rightarrow> t \<in> set [''A'', ''AAAA'', ''CNAME'', ''SRV'', ''TXT''] \<and>
        DOMAIN_RE n \<and> (t = ''A'' \<longrightarrow> parse_ipv4 v \<noteq> None)
     | _ \<Rightarrow> False)"

lemma domain_eq: "domain v p = Inr s \<Longrightarrow> DOMAIN_RE s"
  by (auto simp: domain_def res_simps Let_def verr_at_def split: if_splits)

lemma v_ip4_address:
  assumes "v_ip v p (Some 4) = Inr s" shows "parse_ipv4 s \<noteq> None"
proof -
  from assms obtain t a where "ip_address t = Some a" "ip_version a = 4" and s: "s = show_ip a"
    by (auto simp: v_ip_def res_simps verr_at_def split: option.splits if_splits)
  then obtain n where "parse_ipv4 t = Some n" "a = IP4 n"
    by (auto simp: ip_address_def split: option.splits)
  with s parse_ipv4_bound parse_show_ipv4 show ?thesis by auto
qed

lemma record_body_spec:
  assumes "record_body i j s = Inr (j', s', w)"
  shows "record_ok j' \<and> (\<exists>k. record_claim j' = [k] \<and> k \<notin> set s \<and> s' = k # s)"
proof -
  let ?b = "idx_path ''dns.records'' i"
  from assms obtain d0 d1 kind name vl val' where
    k: "v_enum (get_or (JStr ''A'') ''type'' d0) (sub_path ?b ''type'')
      [''A'', ''AAAA'', ''CNAME'', ''SRV'', ''TXT''] = Inr kind"
    and d1: "d1 = setdefault ''type'' (JStr ''A'') d0"
    and nm: "domain (get_null ''name'' d1) (sub_path ?b ''name'') = Inr name"
    and v: "record_value kind (sub_path ?b ''value'') vl = Inr val'"
    and j': "j' = JObj (dset ''value'' (JStr val') (dset ''name'' (JStr name) d1))"
    and n: "(kind, name) \<notin> set s" "s' = (kind, name) # s"
    unfolding record_body_def Let_def by (auto simp: rbind_eq_Inr guard_raise_eq)
  from k have "get_null ''type'' d1 = JStr kind"
    by (simp add: d1 get_null_def get_or_def map_of_setdefault v_enum_eq split: option.splits)
  then have "get_null ''type'' (obj_of j') = JStr kind" "get_null ''name'' (obj_of j') = JStr name"
    "get_null ''value'' (obj_of j') = JStr val'"
    by (simp_all add: j' obj_of_def get_null_def get_or_def map_of_dset)
  moreover from v have "kind = ''A'' \<longrightarrow> parse_ipv4 val' \<noteq> None"
    by (auto simp: record_value_def dest!: v_ip4_address)
  moreover from nm have "DOMAIN_RE name" by (rule domain_eq)
  ultimately show ?thesis using k n by (auto simp: record_ok_def record_claim_def v_enum_eq)
qed

interpretation records: seen_loop record_body "\<lambda>_. record_ok" "\<lambda>_. record_claim" set "(=)"
  by (rule seen_loop_single) (rule record_body_spec)

end
