(* ===== verification/RfChannels.thy ===== *)
theory RfChannels
  imports Json
begin

text \<open>
  Channel arithmetic of \<open>rf.py\<close>: channel numbers and frequencies of the three bands, the channels a
  transmission covers (\<open>occupied_channels\<close>) and the channels that must be permitted for it
  (\<open>bonded_channels\<close>). Channels, widths and frequencies are integers; bands are the strings of the
  source.
\<close>

definition PSC_CHANNELS :: "int list" where
  "PSC_CHANNELS = [5, 21, 37, 53, 69, 85, 101, 117, 133, 149, 165, 181, 197, 213, 229]"

definition NON_OVERLAPPING_2G :: "int list" where
  "NON_OVERLAPPING_2G = [1, 6, 11]"

definition WIDTH_SUBCHANNELS :: "int \<Rightarrow> int option" where
  "WIDTH_SUBCHANNELS w = map_of [(20, 1), (40, 2), (80, 4), (160, 8), (240, 12), (320, 16)] w"

definition channel_to_freq :: "int \<Rightarrow> string \<Rightarrow> int option" where
  "channel_to_freq channel band =
     (if band = ''2g'' then
        (if channel = 14 then Some 2484
         else if 1 \<le> channel \<and> channel \<le> 13 then Some (2407 + channel * 5) else None)
      else if band = ''5g'' then Some (5000 + channel * 5)
      else if band = ''6g'' then Some (5950 + channel * 5)
      else None)"

definition band_for_frequency :: "rat \<Rightarrow> string option" where
  "band_for_frequency freq =
     (if 2400 \<le> freq \<and> freq \<le> 2500 then Some ''2g''
      else if 5100 \<le> freq \<and> freq < 5925 then Some ''5g''
      else if 5925 \<le> freq \<and> freq \<le> 7125 then Some ''6g''
      else None)"

definition freq_to_channel :: "int \<Rightarrow> int option" where
  "freq_to_channel freq =
     (if 2412 \<le> freq \<and> freq \<le> 2484 then
        Some (if freq = 2484 then 14 else (freq - 2407) div 5)
      else if 5150 \<le> freq \<and> freq \<le> 5895 then Some ((freq - 5000) div 5)
      else if 5925 \<le> freq \<and> freq \<le> 7125 then Some ((freq - 5950) div 5)
      else None)"

definition blocks_5g :: "int \<Rightarrow> int list list" where
  "blocks_5g width =
     (if width = 40 then
        [[36, 40], [44, 48], [52, 56], [60, 64], [100, 104], [108, 112], [116, 120], [124, 128],
         [132, 136], [140, 144], [149, 153], [157, 161], [165, 169]]
      else if width = 80 then
        [[36, 40, 44, 48], [52, 56, 60, 64], [100, 104, 108, 112], [116, 120, 124, 128],
         [132, 136, 140, 144], [149, 153, 157, 161]]
      else if width = 160 then
        [[36, 40, 44, 48, 52, 56, 60, 64], [100, 104, 108, 112, 116, 120, 124, 128]]
      else if width = 240 then
        [[36, 40, 44, 48, 52, 56, 60, 64, 100, 104, 108, 112],
         [100, 104, 108, 112, 116, 120, 124, 128, 132, 136, 140, 144]]
      else if width = 320 then
        [[36, 40, 44, 48, 52, 56, 60, 64, 100, 104, 108, 112, 116, 120, 124, 128]]
      else [])"

definition block_of_5g :: "int \<Rightarrow> int \<Rightarrow> int list option" where
  "block_of_5g channel width = find (\<lambda>b. channel \<in> set b) (blocks_5g width)"

text \<open>6 GHz channels are 1, 5, 9, ...; blocks of \<open>count\<close> channels are aligned from channel 1.\<close>

definition block_6g :: "int \<Rightarrow> int \<Rightarrow> int list" where
  "block_6g channel width =
     (let count = (case WIDTH_SUBCHANNELS width of None \<Rightarrow> 1 | Some n \<Rightarrow> n);
          index = (channel - 1) div 4;
          start_index = (index div count) * count
      in map (\<lambda>i. start_index * 4 + 1 + i * 4) [0..count - 1])"

definition occupied_channels :: "int \<Rightarrow> int \<Rightarrow> string \<Rightarrow> int list" where
  "occupied_channels channel width band =
     (if band = ''2g'' then
        (let spread = (if width \<le> 20 then 2 else 4)
         in filter (\<lambda>c. 1 \<le> c \<and> c \<le> 14) [channel - spread..channel + spread])
      else if width \<le> 20 then [channel]
      else if band = ''5g'' then
        (case block_of_5g channel width of Some b \<Rightarrow> b | None \<Rightarrow> [channel])
      else block_6g channel width)"

definition bonded_channels :: "int \<Rightarrow> int \<Rightarrow> string \<Rightarrow> int list" where
  "bonded_channels channel width band =
     (if band = ''2g'' then
        (if width \<le> 20 then [channel]
         else if channel + 4 \<le> 14 then [channel, channel + 4] else [])
      else if width \<le> 20 then [channel]
      else if band = ''5g'' then
        (case block_of_5g channel width of Some b \<Rightarrow> b | None \<Rightarrow> [])
      else (let covered = occupied_channels channel width band
            in if channel \<in> set covered then covered else []))"

subsection \<open>Lemmas\<close>

lemma WIDTH_SUBCHANNELS_pos: "WIDTH_SUBCHANNELS w = Some n \<Longrightarrow> 0 < n"
  by (auto simp: WIDTH_SUBCHANNELS_def split: if_splits)

lemma blocks_5g_length:
  "b \<in> set (blocks_5g w) \<Longrightarrow> WIDTH_SUBCHANNELS w = Some (int (length b))"
  by (auto simp: blocks_5g_def WIDTH_SUBCHANNELS_def split: if_splits)

lemma block_of_5g_Some:
  "block_of_5g c w = Some b \<Longrightarrow> c \<in> set b \<and> b \<in> set (blocks_5g w)"
  by (auto simp: block_of_5g_def find_Some_iff)

lemma length_block_6g: "WIDTH_SUBCHANNELS w = Some n \<Longrightarrow> length (block_6g c w) = nat n"
  by (simp add: block_6g_def Let_def)

lemma mem_block_6g:
  assumes "WIDTH_SUBCHANNELS w = Some n"
  shows "x \<in> set (block_6g c w) \<longleftrightarrow> (x - 1) mod 4 = 0 \<and> (x - 1) div 4 div n = (c - 1) div 4 div n"
proof -
  let ?k = "(c - 1) div 4 div n"
  have n: "0 < n" using assms by (rule WIDTH_SUBCHANNELS_pos)
  have mem: "x \<in> set (block_6g c w) \<longleftrightarrow> (\<exists>i. 0 \<le> i \<and> i < n \<and> x = ?k * n * 4 + 1 + i * 4)"
    using assms by (auto simp: block_6g_def Let_def image_iff)
  show ?thesis
  proof
    assume "x \<in> set (block_6g c w)"
    then obtain i where i: "0 \<le> i" "i < n" and x: "x = ?k * n * 4 + 1 + i * 4"
      unfolding mem by blast
    have "x - 1 = (?k * n + i) * 4" using x by (simp add: algebra_simps)
    then have "(x - 1) mod 4 = 0" "(x - 1) div 4 = ?k * n + i" by simp_all
    moreover have "(?k * n + i) div n = ?k"
      using i n by (intro int_div_pos_eq [where r = i]) (auto simp: algebra_simps)
    ultimately show "(x - 1) mod 4 = 0 \<and> (x - 1) div 4 div n = ?k" by simp
  next
    assume r: "(x - 1) mod 4 = 0 \<and> (x - 1) div 4 div n = ?k"
    let ?y = "(x - 1) div 4" and ?i = "(x - 1) div 4 mod n"
    have "?y = ?k * n + ?i" using r by (metis div_mult_mod_eq)
    moreover have "x - 1 = ?y * 4" using r by (simp add: minus_mod_eq_div_mult [symmetric])
    ultimately have "x = ?k * n * 4 + 1 + ?i * 4" by (simp add: algebra_simps)
    moreover have "0 \<le> ?i" "?i < n" using n by simp_all
    ultimately show "x \<in> set (block_6g c w)" unfolding mem by blast
  qed
qed

lemma bonded_6g:
  "20 < w \<Longrightarrow> band \<noteq> ''2g'' \<Longrightarrow> band \<noteq> ''5g'' \<Longrightarrow> bonded_channels c w band =
     (if c \<in> set (block_6g c w) then block_6g c w else [])"
  by (simp add: bonded_channels_def occupied_channels_def)

lemma bonded_self: "c \<notin> set (bonded_channels c w band) \<Longrightarrow> bonded_channels c w band = []"
  by (auto simp: bonded_channels_def Let_def split: option.splits if_splits
      dest: block_of_5g_Some)

text \<open>The permitted set never reaches outside the interference footprint.\<close>

lemma bonded_subset_occupied:
  "1 \<le> c \<Longrightarrow> c \<le> 14 \<or> band \<noteq> ''2g'' \<Longrightarrow>
     set (bonded_channels c w band) \<subseteq> set (occupied_channels c w band)"
  by (auto simp: bonded_channels_def occupied_channels_def Let_def split: option.splits if_splits)

end
