(* ===== verification/SchemaWifi.thy ===== *)
theory SchemaWifi
  imports SchemaPolicy RfChannels
begin

text \<open>
  The Wi-Fi section of \<open>schema.py\<close>: radios (\<open>_validate_wifi\<close>, first loop), wireless networks (second
  loop), the regulatory and channel-optimisation objects, and the multi-link devices
  (\<open>_validate_mlds\<close>). The hardware capabilities are what the probe reports; they are typed data of
  the program, so they are records here, and \<open>None\<close> is the empty dictionary before the first probe.
\<close>

record radio_cap =
  cap_band :: string
  cap_widths :: "int list"
  cap_channels :: "int list"
  cap_eht240 :: bool

record wifi_caps =
  cap_radios :: "(string \<times> radio_cap) list"
  cap_mlo :: bool

type_synonym capabilities = "wifi_caps option"

definition radios_of :: "capabilities \<Rightarrow> (string \<times> radio_cap) list" where
  "radios_of caps = (case caps of None \<Rightarrow> [] | Some c \<Rightarrow> cap_radios c)"

definition mlo_supported :: "capabilities \<Rightarrow> bool" where
  "mlo_supported caps = (case caps of None \<Rightarrow> False | Some c \<Rightarrow> cap_mlo c)"

subsection \<open>Radios\<close>

text \<open>\<open>width in WIDTHS\<close> compares by value, so a float such as 80.0 is accepted too.\<close>

definition width_of :: "json \<Rightarrow> int option" where
  "width_of v = (case num_of v of None \<Rightarrow> None
     | Some q \<Rightarrow> find (\<lambda>w. of_int w = q) WIDTHS)"

definition width_check :: "string \<Rightarrow> string \<Rightarrow> json \<Rightarrow> verr + int" where
  "width_check base band v =
     (let path = sub_path base ''channel_width'' in
      case width_of v of None \<Rightarrow> verr_at path
      | Some w \<Rightarrow>
          if w = 320 \<and> band \<noteq> ''6g'' then verr_at path
          else if w = 240 \<and> band \<noteq> ''5g'' then verr_at path
          else if band = ''2g'' \<and> 40 < w then verr_at path
          else Inr w)"

definition auto_or_int :: "string \<Rightarrow> int \<Rightarrow> int \<Rightarrow> json \<Rightarrow> verr + int option" where
  "auto_or_int path lo hi v = (if v = JStr ''auto'' then Inr None
     else rbind (v_int v path lo hi) (\<lambda>i. Inr (Some i)))"

definition bitmap_check :: "string \<Rightarrow> obj \<Rightarrow> verr + unit" where
  "bitmap_check base radio =
     (let bitmap = get_null ''punct_bitmap'' radio in
      if bitmap = JNull \<or> bitmap = JStr ''auto'' then Inr ()
      else rbind (v_int bitmap (sub_path base ''punct_bitmap'') 0 65535) (\<lambda>_. Inr ()))"

text \<open>A fixed channel must be permitted, and so must the whole bonded block of the width.\<close>

definition channel_feasible :: "radio_cap \<Rightarrow> string \<Rightarrow> int \<Rightarrow> int \<Rightarrow> bool" where
  "channel_feasible cap band width channel =
     (cap_channels cap = [] \<or>
      (channel \<in> set (cap_channels cap) \<and>
       (width \<le> 20 \<or>
        (let bonded = bonded_channels channel width band;
             missing = filter (\<lambda>c. c \<notin> set (cap_channels cap)) bonded
         in bonded \<noteq> [] \<and> missing = []))))"

definition radio_hw_check :: "string \<Rightarrow> string \<Rightarrow> string \<Rightarrow> int \<Rightarrow> int option \<Rightarrow> radio_cap option
    \<Rightarrow> verr + warning list" where
  "radio_hw_check base rid band width channel cap =
     (case cap of None \<Rightarrow> Inr []
      | Some c \<Rightarrow>
          (let w = (if cap_widths c \<noteq> [] \<and> Max (set (cap_widths c)) < width
                    then [WidthAboveHardware rid] else []) in
           case channel of None \<Rightarrow> Inr w
           | Some ch \<Rightarrow> (if channel_feasible c band width ch then Inr w
                        else verr_at (sub_path base ''channel''))))"

definition radio_body :: "capabilities \<Rightarrow> string \<Rightarrow> json \<Rightarrow> unit
    \<Rightarrow> verr + (json \<times> unit \<times> warning list)" where
  "radio_body caps rid radio u =
     (let base = sub_path ''wifi.radios'' rid;
          cap = map_of (radios_of caps) rid in
      rbind (need_dict radio base) (\<lambda>d0.
      rbind (v_bool (get_or (JBool True) ''enabled'' d0) (sub_path base ''enabled'')) (\<lambda>_.
      let d1 = setdefault ''enabled'' (JBool True) d0 in
      rbind (v_enum (get_or (JStr ''5g'') ''band'' d1) (sub_path base ''band'') BANDS) (\<lambda>band.
      let d2 = setdefault ''band'' (JStr ''5g'') d1;
          wdef = JInt (if band = ''5g'' then 80 else 20) in
      rbind (width_check base band (get_or wdef ''channel_width'' d2)) (\<lambda>width.
      let d3 = setdefault ''channel_width'' wdef d2 in
      rbind (auto_or_int (sub_path base ''channel'') 1 233 (get_or (JStr ''auto'') ''channel'' d3))
        (\<lambda>channel.
      let d4 = setdefault ''channel'' (JStr ''auto'') d3 in
      rbind (auto_or_int (sub_path base ''tx_power'') 1 30 (get_or (JStr ''auto'') ''tx_power'' d4))
        (\<lambda>_.
      let d5 = setdefault ''tx_power'' (JStr ''auto'') d4 in
      rbind (guard_raise (\<not> (width = 240 \<and> (case cap of None \<Rightarrow> False | Some c \<Rightarrow> \<not> cap_eht240 c)))
               (ValidationError (sub_path base ''channel_width''))) (\<lambda>_.
      rbind (bitmap_check base d5) (\<lambda>_.
      rbind (radio_hw_check base rid band width channel cap) (\<lambda>w.
        Inr (JObj d5, (), w)))))))))))"

subsection \<open>Wireless networks\<close>

definition network_ref_check :: "obj \<Rightarrow> string \<Rightarrow> json \<Rightarrow> verr + unit" where
  "network_ref_check cfg base network =
     rbind (py_in network (JObj (obj_of (get_or (JObj []) ''networks'' cfg))))
       (\<lambda>known. guard_raise known (ValidationError (sub_path base ''network'')))"

definition bands_default :: json where
  "bands_default = JList [JStr ''2g'', JStr ''5g'']"

definition bands_check :: "string \<Rightarrow> json \<Rightarrow> verr + string list" where
  "bands_check base v =
     (let path = sub_path base ''bands'' in
      rbind (need_list v path) (\<lambda>xs.
      rbind (guard_raise (xs \<noteq> []) (ValidationError path)) (\<lambda>_.
        check_each (\<lambda>i x. v_enum x (idx_path path i) BANDS) 0 xs)))"

definition wnet_head_steps :: "obj \<Rightarrow> string \<Rightarrow> string \<Rightarrow> warning step list" where
  "wnet_head_steps cfg base wnid =
     [check (\<lambda>d. v_ssid (get_null ''ssid'' d) (sub_path base ''ssid'')),
      field ''enabled'' (JBool True) (\<lambda>v. v_bool v (sub_path base ''enabled'')),
      field ''hidden'' (JBool False) (\<lambda>v. v_bool v (sub_path base ''hidden'')),
      field ''uplink'' (JStr ''lan'') (\<lambda>v. v_enum v (sub_path base ''uplink'') SSID_UPLINKS),
      warn_when (\<lambda>d. get_null ''uplink'' d = JStr ''wan'') (WanBridgedSsid wnid),
      field ''client_isolation'' (JBool False) (\<lambda>v. v_bool v (sub_path base ''client_isolation'')),
      field ''network'' (JStr ''default'') (network_ref_check cfg base),
      field ''bands'' bands_default (bands_check base)]"

definition bands_of :: "obj \<Rightarrow> string list" where
  "bands_of d = (case get_null ''bands'' d of
     JList xs \<Rightarrow> map (\<lambda>x. case x of JStr s \<Rightarrow> s | _ \<Rightarrow> []) xs | _ \<Rightarrow> [])"

text \<open>\<open>any(m.get("wireless_network") == wnid and m.get("enabled", True) for m in mlds.values())\<close>; the
  MLDs are not validated yet, so \<open>m.get\<close> may fail.\<close>

fun mld_binds :: "string \<Rightarrow> obj \<Rightarrow> verr + bool" where
  "mld_binds wnid [] = Inr False"
| "mld_binds wnid ((mid, m) # ms) = rbind (as_dict m) (\<lambda>d.
     if get_null ''wireless_network'' d = JStr wnid \<and> truthy (get_or (JBool True) ''enabled'' d)
     then Inr True else mld_binds wnid ms)"

definition band_warnings :: "obj \<Rightarrow> capabilities \<Rightarrow> string \<Rightarrow> obj \<Rightarrow> verr + (obj \<times> warning list)" where
  "band_warnings wifi caps wnid d =
     (let bands = bands_of d;
          present = map (\<lambda>(_, r). cap_band r) (radios_of caps);
          w1 = (if present \<noteq> [] \<and> list_ex (\<lambda>b. b \<notin> set present) bands
                then [NoRadioForBands wnid] else []) in
      if 2 \<le> length bands \<and> \<not> truthy (get_null ''mlo'' d) \<and> mlo_supported caps
      then rbind (if truthy (get_null ''mlds'' wifi) then as_dict (get_null ''mlds'' wifi) else Inr [])
        (\<lambda>mlds. rbind (mld_binds wnid mlds) (\<lambda>bound.
           Inr (d, w1 @ (if bound then [] else [NotMlo wnid]))))
      else Inr (d, w1))"

subsection \<open>Wireless security\<close>

definition psk_check :: "string \<Rightarrow> string \<Rightarrow> obj \<Rightarrow> verr + unit" where
  "psk_check base mode sec =
     (if mode \<in> {''wpa2'', ''wpa2-wpa3'', ''wpa3''}
      then rbind (v_psk (get_null ''passphrase'' sec) (sub_path base ''security.passphrase''))
             (\<lambda>_. Inr ())
      else Inr ())"

definition radius_check :: "obj \<Rightarrow> string \<Rightarrow> string \<Rightarrow> obj \<Rightarrow> verr + unit" where
  "radius_check wifi base mode sec =
     (if mode \<in> {''wpa2-enterprise'', ''wpa3-enterprise''}
      then rbind (py_in (get_null ''radius_profile'' sec) (get_or (JObj []) ''radius'' wifi))
        (\<lambda>known. guard_raise known (ValidationError (sub_path base ''security.radius_profile'')))
      else Inr ())"

text \<open>6 GHz: WPA3 or OWE with PMF. A weaker PMF setting is raised to required, with a warning; the
  check after it still looks at the setting as it was given.\<close>

definition six_ghz_rule :: "string \<Rightarrow> string \<Rightarrow> string list \<Rightarrow> string \<Rightarrow> string \<Rightarrow> warning step" where
  "six_ghz_rule base wnid bands mode pmf = (\<lambda>sec.
     if ''6g'' \<in> set bands then
       rbind (guard_raise (mode \<in> {''wpa3'', ''wpa3-enterprise'', ''open''})
                (ValidationError (sub_path base ''security.mode''))) (\<lambda>_.
       rbind (guard_raise (mode \<noteq> ''open'' \<or> truthy (get_null ''owe'' sec))
                (ValidationError (sub_path base ''security.owe''))) (\<lambda>_.
       if pmf \<noteq> ''required''
       then Inr (dset ''pmf'' (JStr ''required'') sec, [PmfForced wnid])
       else Inr (sec, [])))
     else Inr (sec, []))"

definition security_tail_steps :: "string \<Rightarrow> warning step list" where
  "security_tail_steps base =
     [field ''private_preshared_keys'' (JBool False)
        (\<lambda>v. v_bool v (sub_path base ''security.private_preshared_keys'')),
      field ''sae_anti_clogging_threshold'' (JInt 5)
        (\<lambda>v. v_int v (sub_path base ''security.sae_anti_clogging_threshold'') 1 100),
      field ''sae_sync'' (JInt 5) (\<lambda>v. v_int v (sub_path base ''security.sae_sync'') 1 100)]"

definition PMF_MODES :: "string list" where
  "PMF_MODES = [''disabled'', ''optional'', ''required'']"

definition security_body :: "obj \<Rightarrow> string \<Rightarrow> string \<Rightarrow> string list \<Rightarrow> json
    \<Rightarrow> verr + (json \<times> warning list)" where
  "security_body wifi base wnid bands sec =
     rbind (as_dict sec) (\<lambda>s0.
     rbind (v_enum (get_or (JStr ''wpa2-wpa3'') ''mode'' s0) (sub_path base ''security.mode'')
              SECURITY_MODES) (\<lambda>mode.
     let s1 = setdefault ''mode'' (JStr ''wpa2-wpa3'') s0 in
     rbind (v_enum (get_or (JStr ''optional'') ''pmf'' s1) (sub_path base ''security.pmf'') PMF_MODES)
       (\<lambda>pmf.
     let s2 = setdefault ''pmf'' (JStr ''optional'') s1 in
     rbind (psk_check base mode s2) (\<lambda>_.
     rbind (radius_check wifi base mode s2) (\<lambda>_.
     rbind (six_ghz_rule base wnid bands mode pmf s2) (\<lambda>(s3, w3).
     rbind (guard_raise (\<not> (mode = ''wpa3'' \<and> pmf = ''disabled''))
              (ValidationError (sub_path base ''security.pmf''))) (\<lambda>_.
     rbind (steps (security_tail_steps base) s3) (\<lambda>(s4, w4). Inr (JObj s4, w3 @ w4)))))))))"

subsection \<open>Wireless network options\<close>

definition flag :: "string \<Rightarrow> string \<Rightarrow> bool \<Rightarrow> warning step" where
  "flag base k b = field k (JBool b) (\<lambda>v. v_bool v (sub_path base k))"

definition wnet_scope_steps :: "string \<Rightarrow> warning step list" where
  "wnet_scope_steps base =
     [flag base ''fast_roaming'' False, flag base ''bss_transition'' True,
      flag base ''neighbor_report'' True,
      field ''application'' (JStr ''standard'')
        (\<lambda>v. v_enum v (sub_path base ''application'') APPLICATIONS),
      field ''broadcasting_aps'' (JStr ''all'')
        (\<lambda>v. v_enum v (sub_path base ''broadcasting_aps'') BROADCASTING_APS),
      field ''advanced_mode'' (JStr ''auto'')
        (\<lambda>v. v_enum v (sub_path base ''advanced_mode'') ADVANCED_MODES),
      flag base ''minimum_data_rate'' False,
      field ''multicast_filtering'' (JStr ''off'')
        (\<lambda>v. v_enum v (sub_path base ''multicast_filtering'') MULTICAST_FILTERING),
      flag base ''multicast_broadcast_blocker'' False,
      flag base ''multicast_to_unicast'' False]"

definition mlo_check :: "capabilities \<Rightarrow> string \<Rightarrow> obj \<Rightarrow> verr + unit" where
  "mlo_check caps base d =
     guard_raise (get_null ''mlo'' d = JBool True \<longrightarrow> 2 \<le> length (bands_of d) \<and> mlo_supported caps)
       (ValidationError (sub_path base ''mlo''))"

definition radius_mac_check :: "string \<Rightarrow> obj \<Rightarrow> verr + unit" where
  "radius_mac_check base d =
     guard_raise (get_null ''radius_mac_auth'' d = JBool True \<longrightarrow>
        truthy (get_null ''radius_profile'' (obj_of (get_null ''security'' d))))
       (ValidationError (sub_path base ''radius_mac_auth''))"

definition wnet_option_steps :: "string \<Rightarrow> warning step list" where
  "wnet_option_steps base =
     [flag base ''band_steering'' True, flag base ''proxy_arp'' False, flag base ''uapsd'' False,
      flag base ''mac_filter'' False, flag base ''radius_mac_auth'' False,
      check (radius_mac_check base),
      flag base ''speed_limit'' False, flag base ''auto_dtim'' True,
      field ''dtim_period'' (JInt 2) (\<lambda>v. v_int v (sub_path base ''dtim_period'') 1 255),
      flag base ''group_rekey_interval'' False,
      field ''group_rekey_seconds'' (JInt 3600)
        (\<lambda>v. v_int v (sub_path base ''group_rekey_seconds'') 30 86400),
      flag base ''show_ap_name_in_beacon'' False]"

definition wnet_behaviour_steps :: "capabilities \<Rightarrow> string \<Rightarrow> warning step list" where
  "wnet_behaviour_steps caps base =
     [flag base ''mlo'' False, check (mlo_check caps base)] @ wnet_option_steps base"

definition blackout_default :: json where
  "blackout_default = JObj [(''enabled'', JBool False), (''start'', JNull), (''end'', JNull)]"

definition min_rssi_check :: "string \<Rightarrow> obj \<Rightarrow> verr + unit" where
  "min_rssi_check base d =
     (if get_null ''min_rssi'' d = JNull then Inr ()
      else rbind (v_int (get_null ''min_rssi'' d) (sub_path base ''min_rssi'') (-95) (-40))
             (\<lambda>_. Inr ()))"

definition wnet_limit_steps :: "string \<Rightarrow> warning step list" where
  "wnet_limit_steps base =
     [nested ''blackout_schedule'' blackout_default
        (object_steps (sub_path base ''blackout_schedule'')
          [field ''enabled'' (JBool False)
             (\<lambda>v. v_bool v (sub_path base ''blackout_schedule.enabled''))]),
      field ''mac_filter_list'' (JList []) (\<lambda>v. rbind (need_list v (sub_path base ''mac_filter_list''))
        (check_each (\<lambda>i x. v_mac x (idx_path (sub_path base ''mac_filter_list'') i)) 0)),
      field ''mac_filter_policy'' (JStr ''deny'')
        (\<lambda>v. v_enum v (sub_path base ''mac_filter_policy'') [''allow'', ''deny'']),
      check (min_rssi_check base),
      nested ''bandwidth'' (JObj [(''download_kbps'', JInt 0), (''upload_kbps'', JInt 0)])
        (dict_steps
          [field ''download_kbps'' (JInt 0)
             (\<lambda>v. v_int v (sub_path base ''bandwidth.download_kbps'') 0 10000000),
           field ''upload_kbps'' (JInt 0)
             (\<lambda>v. v_int v (sub_path base ''bandwidth.upload_kbps'') 0 10000000)])]"

definition wnet_body :: "obj \<Rightarrow> obj \<Rightarrow> capabilities \<Rightarrow> string \<Rightarrow> json \<Rightarrow> unit
    \<Rightarrow> verr + (json \<times> unit \<times> warning list)" where
  "wnet_body wifi cfg caps wnid wnet u =
     (let base = sub_path ''wifi.networks'' wnid in
      rbind (v_id (JStr wnid) base) (\<lambda>_.
      rbind (need_dict wnet base) (\<lambda>d0.
      rbind (steps (wnet_head_steps cfg base wnid) d0) (\<lambda>(d1, w1).
      rbind (band_warnings wifi caps wnid d1) (\<lambda>(d2, w2).
      rbind (nested ''security'' (JObj []) (security_body wifi base wnid (bands_of d2)) d2)
        (\<lambda>(d3, w3).
      rbind (steps (wnet_scope_steps base @ wnet_behaviour_steps caps base @ wnet_limit_steps base) d3)
        (\<lambda>(d4, w4).
        Inr (JObj d4, (), w1 @ w2 @ w3 @ w4))))))))"

subsection \<open>Multi-link devices\<close>

text \<open>Every radio an MLD may name: band and whether it is enabled. The probe is the authority on the
  band of a radio it found.\<close>

definition configured_enabled :: "obj \<Rightarrow> bool" where
  "configured_enabled c = truthy (get_or (JBool True) ''enabled'' c)"

definition mld_radios :: "capabilities \<Rightarrow> obj \<Rightarrow> (string \<times> (json \<times> bool)) list" where
  "mld_radios caps configured =
     foldl (\<lambda>rs (rid, c). AList.update rid
         (case map_of (radios_of caps) rid of
            Some p \<Rightarrow> JStr (cap_band p) | None \<Rightarrow> get_null ''band'' (obj_of c),
          configured_enabled (obj_of c)) rs)
       (map (\<lambda>(rid, p). (rid, (JStr (cap_band p), True))) (radios_of caps)) configured"

fun py_distinct :: "json list \<Rightarrow> bool" where
  "py_distinct [] = True"
| "py_distinct (x # xs) = (\<not> list_ex (py_eq x) xs \<and> py_distinct xs)"

text \<open>The accumulator of the link loop: the bands of this MLD so far and the (radio, network) pairs
  claimed by any MLD so far.\<close>

fun link_loop :: "(string \<times> (json \<times> bool)) list \<Rightarrow> string \<Rightarrow> string \<Rightarrow> string \<Rightarrow> json \<Rightarrow> bool
    \<Rightarrow> nat \<Rightarrow> json list \<Rightarrow> json list \<Rightarrow> (string \<times> string) list
    \<Rightarrow> verr + ((string \<times> string) list \<times> warning list)" where
  "link_loop radios base mid wnid wbands enabled i bands [] claimed = Inr (claimed, [])"
| "link_loop radios base mid wnid wbands enabled i bands (link # links) claimed =
     (let lpath = idx_path (sub_path base ''links'') i in
      case link of JStr rid \<Rightarrow>
        (case map_of radios rid of None \<Rightarrow> verr_at lpath
         | Some (band, up) \<Rightarrow>
             if band \<in> set bands then verr_at lpath
             else rbind (py_in band wbands) (\<lambda>on.
               if \<not> on then verr_at lpath
               else if (rid, wnid) \<in> set claimed then verr_at lpath
               else rbind (link_loop radios base mid wnid wbands enabled (Suc i) (band # bands) links
                        ((rid, wnid) # claimed))
                    (\<lambda>(claimed', w). Inr (claimed',
                       (if enabled \<and> \<not> up then [MldRadioDisabled mid rid] else []) @ w))))
      | _ \<Rightarrow> verr_at lpath)"

definition mld_security :: "string \<Rightarrow> string \<Rightarrow> bool \<Rightarrow> obj \<Rightarrow> verr + (obj \<times> warning list)" where
  "mld_security base mid enabled wnet =
     rbind (as_dict (get_or (JObj []) ''security'' wnet)) (\<lambda>sec.
     rbind (guard_raise (enabled \<longrightarrow>
              get_null ''mode'' sec \<in> {JStr ''wpa3'', JStr ''wpa3-enterprise''})
              (ValidationError (sub_path base ''wireless_network''))) (\<lambda>_.
     if enabled \<and> get_null ''pmf'' sec \<noteq> JStr ''required''
     then Inr (dset ''security'' (JObj (dset ''pmf'' (JStr ''required'') sec)) wnet, [MldPmfForced mid])
     else Inr (wnet, [])))"

definition mld_tail_steps :: "string \<Rightarrow> warning step list" where
  "mld_tail_steps base =
     [check (optional ''mld_mac'' (\<lambda>v. v_mac v (sub_path base ''mld_mac''))),
      field ''link_steering'' (JStr ''auto'')
        (\<lambda>v. v_enum v (sub_path base ''link_steering'') [''auto'', ''static'', ''disabled''])]"

definition links_check :: "string \<Rightarrow> bool \<Rightarrow> json \<Rightarrow> verr + json list" where
  "links_check base enabled v =
     (let path = sub_path base ''links'' in
      rbind (need_list v path) (\<lambda>links.
      rbind (guard_raise (enabled \<longrightarrow> 2 \<le> length links) (ValidationError path)) (\<lambda>_.
      rbind (guard_raise (list_all hashable links) (Raised TypeError)) (\<lambda>_.
      rbind (guard_raise (py_distinct links) (ValidationError path)) (\<lambda>_. Inr links)))))"

text \<open>State of the loop over the MLDs: the wireless networks (PMF may be forced) and the claims.\<close>

definition mld_body :: "(string \<times> (json \<times> bool)) list \<Rightarrow> string \<Rightarrow> json
    \<Rightarrow> (obj \<times> (string \<times> string) list)
    \<Rightarrow> verr + (json \<times> (obj \<times> (string \<times> string) list) \<times> warning list)" where
  "mld_body radios mid mld = (\<lambda>(networks, claimed).
     (let base = sub_path ''wifi.mlds'' mid in
      rbind (v_id (JStr mid) base) (\<lambda>_.
      rbind (need_dict mld base) (\<lambda>d0.
      rbind (v_name (get_or (JStr mid) ''name'' d0) (sub_path base ''name'')) (\<lambda>_.
      let d1 = setdefault ''name'' (JStr mid) d0 in
      rbind (v_bool (get_or (JBool True) ''enabled'' d1) (sub_path base ''enabled'')) (\<lambda>enabled.
      let d2 = setdefault ''enabled'' (JBool True) d1 in
      rbind (py_in (get_null ''wireless_network'' d2) (JObj networks)) (\<lambda>known.
      rbind (guard_raise known (ValidationError (sub_path base ''wireless_network''))) (\<lambda>_.
      let wnid = str_at ''wireless_network'' d2;
          wnet = obj_of (get_null wnid networks) in
      rbind (links_check base enabled (get_or (JList []) ''links'' d2)) (\<lambda>links.
      let d3 = setdefault ''links'' (JList []) d2 in
      rbind (link_loop radios base mid wnid (get_or (JList []) ''bands'' wnet) enabled 0 [] links
               claimed) (\<lambda>(claimed', w1).
      rbind (mld_security base mid enabled wnet) (\<lambda>(wnet', w2).
      rbind (steps (mld_tail_steps base) d3) (\<lambda>(d4, w3).
        Inr (JObj d4, (dset wnid (JObj wnet') networks, claimed'), w1 @ w2 @ w3)))))))))))))"

definition validate_mlds :: "capabilities \<Rightarrow> obj \<Rightarrow> verr + (obj \<times> warning list)" where
  "validate_mlds caps wifi =
     rbind (as_dict (get_or (JObj []) ''mlds'' wifi)) (\<lambda>mlds.
     let networks = obj_of (get_or (JObj []) ''networks'' wifi);
         radios = mld_radios caps (obj_of (get_null ''radios'' wifi)) in
     rbind (py_for (mld_body radios) mlds (networks, [])) (\<lambda>(mlds', (networks', _), w).
       Inr (dset ''networks'' (JObj networks')
              (dset ''mlds'' (JObj mlds') (setdefault ''mlds'' (JObj []) wifi)), w)))"

subsection \<open>The whole section\<close>

definition country_check :: "json \<Rightarrow> verr + unit" where
  "country_check v = guard_raise
     (case str_scalar v of None \<Rightarrow> False
      | Some s \<Rightarrow> re_dollar (\<lambda>t. length t = 2 \<and> list_all is_upper_ascii t) s)
     (ValidationError ''wifi.country'')"

definition regulatory_steps :: "warning step list" where
  "regulatory_steps =
     [field ''environment'' (JStr ''indoor'')
        (\<lambda>v. v_enum v ''wifi.regulatory.environment'' RF_ENVIRONMENTS),
      field ''six_ghz_power'' (JStr ''lpi'')
        (\<lambda>v. v_enum v ''wifi.regulatory.six_ghz_power'' SIX_GHZ_POWER_MODES),
      warn_when (\<lambda>d. get_null ''environment'' d = JStr ''outdoor'' \<and>
        get_null ''six_ghz_power'' d = JStr ''lpi'') LpiOutdoor,
      warn_when (\<lambda>d. get_null ''six_ghz_power'' d = JStr ''sp'') StandardPower]"

definition radio_width :: "obj \<Rightarrow> int" where
  "radio_width radio = (case width_of (get_null ''channel_width'' radio) of None \<Rightarrow> 20 | Some w \<Rightarrow> w)"

definition width_warnings :: "obj \<Rightarrow> warning list" where
  "width_warnings radios =
     map (\<lambda>(rid, _). Wide2g rid) (filter (\<lambda>(_, r). get_null ''band'' (obj_of r) = JStr ''2g'' \<and>
        40 \<le> radio_width (obj_of r)) radios) @
     map (\<lambda>(rid, _). Wide5g rid) (filter (\<lambda>(_, r). get_null ''band'' (obj_of r) = JStr ''5g'' \<and>
        radio_width (obj_of r) = 240) radios)"

definition improvement_check :: "json \<Rightarrow> verr + unit" where
  "improvement_check v = guard_raise
     (case num_of v of None \<Rightarrow> False | Some q \<Rightarrow> 0 \<le> q \<and> q \<le> 100)
     (ValidationError ''wifi.channel_optimisation.min_improvement'')"

definition optimisation_steps :: "warning step list" where
  "optimisation_steps =
     [field ''enabled'' (JBool False) (\<lambda>v. v_bool v ''wifi.channel_optimisation.enabled''),
      field ''min_interval_seconds'' (JInt 21600)
        (\<lambda>v. v_int v ''wifi.channel_optimisation.min_interval_seconds'' 300 (7 * 86400)),
      field ''min_improvement'' (JFloat 15) improvement_check,
      field ''avoid_dfs'' (JBool False) (\<lambda>v. v_bool v ''wifi.channel_optimisation.avoid_dfs''),
      field ''prefer_psc'' (JBool True) (\<lambda>v. v_bool v ''wifi.channel_optimisation.prefer_psc''),
      field ''schedule_hour'' (JInt 4)
        (\<lambda>v. v_int v ''wifi.channel_optimisation.schedule_hour'' 0 23)]"

definition validate_wifi :: "obj \<Rightarrow> capabilities \<Rightarrow> json \<Rightarrow> verr + (json \<times> warning list)" where
  "validate_wifi cfg caps = dict_steps
     [field ''country'' (JStr ''US'') country_check,
      nested ''radios'' (JObj []) (for_dict (radio_body caps) ()),
      (\<lambda>wifi. nested ''networks'' (JObj []) (for_dict (wnet_body wifi cfg caps) ()) wifi),
      nested ''regulatory'' (JObj []) (object_steps ''wifi.regulatory'' regulatory_steps),
      (\<lambda>wifi. Inr (wifi, width_warnings (obj_of (get_null ''radios'' wifi)))),
      nested ''channel_optimisation'' (JObj [])
        (object_steps ''wifi.channel_optimisation'' optimisation_steps),
      validate_mlds caps]"

subsection \<open>What an accepted radio guarantees\<close>

definition band_of :: "obj \<Rightarrow> string" where
  "band_of d = (case get_null ''band'' d of JStr s \<Rightarrow> s | _ \<Rightarrow> [])"

definition width_allowed :: "string \<Rightarrow> int \<Rightarrow> bool" where
  "width_allowed band w = (if band = ''2g'' then w \<in> {20, 40}
     else if band = ''5g'' then w \<in> {20, 40, 80, 160, 240} else w \<in> {20, 40, 80, 160, 320})"

definition radio_ok :: "capabilities \<Rightarrow> string \<Rightarrow> json \<Rightarrow> bool" where
  "radio_ok caps rid radio = (let d = obj_of radio in
     enum_at ''band'' BANDS d \<and>
     (case width_of (get_null ''channel_width'' d) of None \<Rightarrow> False
      | Some w \<Rightarrow> width_allowed (band_of d) w \<and>
          (case map_of (radios_of caps) rid of None \<Rightarrow> True
           | Some c \<Rightarrow> (w = 240 \<longrightarrow> cap_eht240 c) \<and>
              (case get_null ''channel'' d of JInt ch \<Rightarrow> channel_feasible c (band_of d) w ch
               | _ \<Rightarrow> True))))"

lemma width_check_eq:
  assumes "width_check base band v = Inr w" and "band \<in> set BANDS"
  shows "width_of v = Some w \<and> width_allowed band w"
proof -
  from assms(1) have w: "width_of v = Some w" and r: "\<not> (w = 320 \<and> band \<noteq> ''6g'')"
    "\<not> (w = 240 \<and> band \<noteq> ''5g'')" "\<not> (band = ''2g'' \<and> 40 < w)"
    by (auto simp: width_check_def verr_at_def Let_def split: option.splits if_splits)
  from w have "w \<in> set WIDTHS"
    by (auto simp: width_of_def find_Some_iff split: option.splits)
  with r assms(2) w show ?thesis by (auto simp: width_allowed_def WIDTHS_def BANDS_def)
qed

lemma radio_hw_check_eq:
  "radio_hw_check base rid band w ch (Some c) = Inr x \<Longrightarrow> ch = Some n \<Longrightarrow> channel_feasible c band w n"
  by (auto simp: radio_hw_check_def verr_at_def Let_def split: if_splits)

lemma auto_or_int_eq: "auto_or_int p lo hi v = Inr r \<Longrightarrow> v = JInt n \<Longrightarrow> r = Some n"
  by (auto simp: auto_or_int_def res_simps)

lemma radio_body_spec:
  assumes "radio_body caps rid j u = Inr (j', u', w)"
  shows "radio_ok caps rid j'"
proof -
  let ?b = "sub_path ''wifi.radios'' rid" and ?cap = "map_of (radios_of caps) rid"
  from assms obtain d0 band width channel d1 d2 d3 d4 d5 where
    band: "v_enum (get_or (JStr ''5g'') ''band'' d1) (sub_path ?b ''band'') BANDS = Inr band"
    and d2: "d2 = setdefault ''band'' (JStr ''5g'') d1"
    and width: "width_check ?b band
      (get_or (JInt (if band = ''5g'' then 80 else 20)) ''channel_width'' d2) = Inr width"
    and d3: "d3 = setdefault ''channel_width'' (JInt (if band = ''5g'' then 80 else 20)) d2"
    and ch: "auto_or_int (sub_path ?b ''channel'') 1 233 (get_or (JStr ''auto'') ''channel'' d3) = Inr channel"
    and d5: "d5 = setdefault ''tx_power'' (JStr ''auto'') (setdefault ''channel'' (JStr ''auto'') d3)"
    and eht: "\<not> (width = 240 \<and> (case ?cap of None \<Rightarrow> False | Some c \<Rightarrow> \<not> cap_eht240 c))"
    and hw: "radio_hw_check ?b rid band width channel ?cap = Inr w" and j': "j' = JObj d5"
    unfolding radio_body_def Let_def rbind_eq_Inr guard_raise_eq sum.inject prod.inject
    by (elim exE conjE) (rule that, assumption, rule refl, assumption, rule refl, assumption,
      rule refl, assumption, simp only:, rule sym, assumption)
  have "get_null ''band'' d5 = get_or (JStr ''5g'') ''band'' d1"
    "get_null ''channel_width'' d5 =
       get_or (JInt (if band = ''5g'' then 80 else 20)) ''channel_width'' d2"
    "get_null ''channel'' d5 = get_or (JStr ''auto'') ''channel'' d3"
    by (simp_all add: d5 d3 d2 get_null_def get_or_def map_of_setdefault split: option.splits)
  moreover from band have b: "get_or (JStr ''5g'') ''band'' d1 = JStr band" "band \<in> set BANDS"
    by (simp_all add: v_enum_eq)
  ultimately show ?thesis
    using width_check_eq [OF width b(2)] eht hw auto_or_int_eq [OF ch] radio_hw_check_eq
    by (fastforce simp: radio_ok_def j' obj_of_def Let_def enum_at_def band_of_def
        split: option.splits json.splits)
qed

interpretation radios: checked_loop "radio_body caps" "radio_ok caps" for caps
  by unfold_locales (rule radio_body_spec)

subsection \<open>What an accepted wireless network guarantees\<close>

definition security_of :: "json \<Rightarrow> obj" where
  "security_of wnet = obj_of (get_null ''security'' (obj_of wnet))"

text \<open>WPA3, or OWE on an open network, always with PMF required.\<close>

definition six_ghz_secure :: "obj \<Rightarrow> bool" where
  "six_ghz_secure sec \<longleftrightarrow> enum_at ''mode'' [''wpa3'', ''wpa3-enterprise'', ''open''] sec \<and>
     get_null ''pmf'' sec = JStr ''required'' \<and>
     (get_null ''mode'' sec = JStr ''open'' \<longrightarrow> truthy (get_null ''owe'' sec))"

definition passphrase_ok :: "obj \<Rightarrow> bool" where
  "passphrase_ok sec \<longleftrightarrow> (enum_at ''mode'' [''wpa2'', ''wpa2-wpa3'', ''wpa3''] sec \<longrightarrow>
     is_ok (v_psk (get_null ''passphrase'' sec) []))"

definition wnet_ok :: "capabilities \<Rightarrow> json \<Rightarrow> bool" where
  "wnet_ok caps wnet = (let d = obj_of wnet; bands = bands_of d; sec = security_of wnet in
     bands \<noteq> [] \<and> list_all (\<lambda>b. b \<in> set BANDS) bands \<and> enum_at ''mode'' SECURITY_MODES sec \<and>
     passphrase_ok sec \<and> (''6g'' \<in> set bands \<longrightarrow> six_ghz_secure sec) \<and>
     (get_null ''mlo'' d = JBool True \<longrightarrow> 2 \<le> length bands \<and> mlo_supported caps))"

lemma v_psk_path: "is_ok (v_psk v p) \<longleftrightarrow> is_ok (v_psk v q)"
  by (simp add: is_ok_iff v_psk_eq)

lemma six_ghz_rule_eq:
  assumes "six_ghz_rule base wnid bands mode pmf sec = Inr (sec', w)"
    and "get_null ''mode'' sec = JStr mode" "get_null ''pmf'' sec = JStr pmf"
  shows "(''6g'' \<in> set bands \<longrightarrow> six_ghz_secure sec') \<and>
    (\<forall>k. k \<noteq> ''pmf'' \<longrightarrow> get_null k sec' = get_null k sec)"
  using assms
  by (auto simp: six_ghz_rule_def res_simps six_ghz_secure_def enum_at_def get_null_def get_or_def
      map_of_dset split: if_splits)

lemma six_ghz_secure_cong:
  assumes "\<And>k. k \<in> {''mode'', ''pmf'', ''owe''} \<Longrightarrow> get_null k d = get_null k e"
  shows "six_ghz_secure d = six_ghz_secure e"
  using assms [of "''mode''"] assms [of "''pmf''"] assms [of "''owe''"]
  by (simp add: six_ghz_secure_def enum_at_def)

lemma security_body_spec:
  assumes "security_body wifi base wnid bands sec = Inr (sec', w)"
  shows "\<exists>d. sec' = JObj d \<and> enum_at ''mode'' SECURITY_MODES d \<and> passphrase_ok d \<and>
    (''6g'' \<in> set bands \<longrightarrow> six_ghz_secure d)"
proof -
  from assms obtain s0 mode s1 pmf s2 u u1 s3 w3 s4 w4 where
    m: "v_enum (get_or (JStr ''wpa2-wpa3'') ''mode'' s0) (sub_path base ''security.mode'')
      SECURITY_MODES = Inr mode"
    and s1: "s1 = setdefault ''mode'' (JStr ''wpa2-wpa3'') s0"
    and p: "v_enum (get_or (JStr ''optional'') ''pmf'' s1) (sub_path base ''security.pmf'') PMF_MODES =
      Inr pmf"
    and s2: "s2 = setdefault ''pmf'' (JStr ''optional'') s1"
    and psk: "psk_check base mode s2 = Inr u"
    and six: "six_ghz_rule base wnid bands mode pmf s2 = Inr (s3, w3)"
    and tail: "steps (security_tail_steps base) s3 = Inr (s4, w4)" and r: "sec' = JObj s4"
    unfolding security_body_def Let_def rbind_eq_Inr
    by (elim exE conjE) (fastforce split: prod.splits simp: rbind_eq_Inr)
  from m p have mode: "get_null ''mode'' s2 = JStr mode" "mode \<in> set SECURITY_MODES"
    and pmf: "get_null ''pmf'' s2 = JStr pmf"
    by (simp_all add: s1 s2 v_enum_eq get_null_def get_or_def map_of_setdefault split: option.splits)
  note six' = six_ghz_rule_eq [OF six mode(1) pmf]
  have tl: "get_null k s4 = get_null k s3" if "k \<in> {''mode'', ''pmf'', ''owe'', ''passphrase''}" for k
    using that by (intro leaving_get [OF steps_leaving tail])
      (auto simp: security_tail_steps_def intro!: ext_intros)
  have "get_null ''mode'' s4 = JStr mode" "get_null ''passphrase'' s4 = get_null ''passphrase'' s2"
    using six' mode(1) by (simp_all add: tl)
  moreover from psk have "mode \<in> {''wpa2'', ''wpa2-wpa3'', ''wpa3''} \<longrightarrow>
      is_ok (v_psk (get_null ''passphrase'' s2) (sub_path base ''security.passphrase''))"
    by (auto simp: psk_check_def res_simps split: if_splits)
  ultimately have "passphrase_ok s4"
    using v_psk_path by (auto simp: passphrase_ok_def enum_at_def)
  moreover have "six_ghz_secure s4 = six_ghz_secure s3" by (rule six_ghz_secure_cong) (auto intro: tl)
  ultimately show ?thesis using r six' mode(2) \<open>get_null ''mode'' s4 = JStr mode\<close>
    by (simp add: enum_at_def)
qed

lemma wnet_bodyE:
  assumes "wnet_body wifi cfg caps wnid wnet u = Inr (wnet', u', w)"
  obtains d0 d1 sec d3 d4 w1 w2 w3 w4 where
    "steps (wnet_head_steps cfg (sub_path ''wifi.networks'' wnid) wnid) d0 = Inr (d1, w1)"
    "security_body wifi (sub_path ''wifi.networks'' wnid) wnid (bands_of d1)
      (get_or (JObj []) ''security'' d1) = Inr (sec, w3)"
    "d3 = dset ''security'' sec (setdefault ''security'' (JObj []) d1)"
    "steps (wnet_scope_steps (sub_path ''wifi.networks'' wnid) @
      wnet_behaviour_steps caps (sub_path ''wifi.networks'' wnid) @
      wnet_limit_steps (sub_path ''wifi.networks'' wnid)) d3 = Inr (d4, w4)"
    "wnet' = JObj d4"
proof -
  have "d2 = d1" if "band_warnings wifi caps wnid d1 = Inr (d2, w)" for d1 d2 w
    using that by (auto simp: band_warnings_def Let_def rbind_eq_Inr split: if_splits)
  then show thesis
    using assms that unfolding wnet_body_def Let_def rbind_eq_Inr nested_def
    by (elim exE conjE) (fastforce split: prod.splits simp: rbind_eq_Inr)
qed

lemma bands_check_eq:
  assumes "is_ok (bands_check base (get_null ''bands'' d))"
  shows "bands_of d \<noteq> [] \<and> list_all (\<lambda>b. b \<in> set BANDS) (bands_of d)"
proof -
  from assms obtain xs ys where x: "get_null ''bands'' d = JList xs" "xs \<noteq> []" "length ys = length xs"
    and y: "\<forall>k < length xs. v_enum (xs ! k) (idx_path (sub_path base ''bands'') k) BANDS = Inr (ys ! k)"
    by (auto simp: is_ok_iff bands_check_def Let_def rbind_eq_Inr need_eq guard_raise_eq check_each_eq)
  then show ?thesis
    by (auto simp: bands_of_def list_all_length v_enum_eq)
qed

lemma bands_of_cong: "get_null ''bands'' d = get_null ''bands'' e \<Longrightarrow> bands_of d = bands_of e"
  by (simp add: bands_of_def)

text \<open>The statements after the security rules leave the bands and the security alone.\<close>

lemma wnet_tail_leaves:
  assumes "k \<in> {''bands'', ''security''}"
  shows "list_all (leaving k) (wnet_scope_steps base @ wnet_behaviour_steps caps base @
    wnet_limit_steps base)"
  using assms
  by (auto simp: wnet_scope_steps_def wnet_behaviour_steps_def wnet_option_steps_def wnet_limit_steps_def flag_def
      intro!: ext_intros)

lemma wnet_mlo_checked:
  assumes "steps (wnet_scope_steps base @ wnet_behaviour_steps caps base @ wnet_limit_steps base) d3 =
    Inr (d4, w)"
  shows "is_ok (mlo_check caps base d4)"
proof -
  let ?rest = "wnet_option_steps base @ wnet_limit_steps base"
  have b: "wnet_behaviour_steps caps base @ wnet_limit_steps base =
      flag base ''mlo'' False # check (mlo_check caps base) # ?rest"
    by (simp add: wnet_behaviour_steps_def)
  from assms obtain e e' and w1 w2 :: "warning list" where c: "check (mlo_check caps base) e = Inr (e', w1)"
    and r: "steps ?rest e' = Inr (d4, w2)"
    unfolding b steps_append_eq [of "wnet_scope_steps base"] steps_Cons_eq by blast
  from c have e: "e' = e" "is_ok (mlo_check caps base e)"
    by (auto simp: check_def rbind_eq_Inr is_ok_iff)
  have "list_all (leaving k) ?rest" if "k \<in> {''mlo'', ''bands''}" for k
    using that by (auto simp: wnet_option_steps_def wnet_limit_steps_def flag_def intro!: ext_intros)
  then have same: "get_null k d4 = get_null k e" if "k \<in> {''mlo'', ''bands''}" for k
    using leaving_get [OF steps_leaving r [unfolded e(1)]] that by blast
  then have "mlo_check caps base d4 = mlo_check caps base e"
    using bands_of_cong [OF same] by (simp add: mlo_check_def)
  with e(2) show ?thesis by simp
qed

lemma wnet_body_spec:
  assumes "wnet_body wifi cfg caps wnid wnet u = Inr (wnet', u', w)"
  shows "wnet_ok caps wnet' \<and> (\<exists>d sec. wnet' = JObj d \<and> map_of d ''security'' = Some (JObj sec))"
  using assms
proof (rule wnet_bodyE)
  fix d0 d1 sec d3 d4 w1 w2 w3 w4
  let ?b = "sub_path ''wifi.networks'' wnid"
  assume head: "steps (wnet_head_steps cfg ?b wnid) d0 = Inr (d1, w1)"
    and sec: "security_body wifi ?b wnid (bands_of d1) (get_or (JObj []) ''security'' d1) = Inr (sec, w3)"
    and d3: "d3 = dset ''security'' sec (setdefault ''security'' (JObj []) d1)"
    and tail: "steps (wnet_scope_steps ?b @ wnet_behaviour_steps caps ?b @ wnet_limit_steps ?b) d3 =
      Inr (d4, w4)" and w': "wnet' = JObj d4"
  have "list_all (keeping ''bands'') (wnet_head_steps cfg ?b wnid)"
    by (simp add: wnet_head_steps_def ext_intros)
  from field_get [OF head this, where v = bands_default and chk = "bands_check ?b"]
  have bands: "bands_of d1 \<noteq> []" "list_all (\<lambda>b. b \<in> set BANDS) (bands_of d1)"
    using bands_check_eq by (auto simp: wnet_head_steps_def)
  have lv: "leaving k (steps (wnet_scope_steps ?b @ wnet_behaviour_steps caps ?b @ wnet_limit_steps ?b))"
    if "k \<in> {''bands'', ''security''}" for k
    using wnet_tail_leaves [OF that] by (rule steps_leaving)
  have "get_null ''bands'' d4 = get_null ''bands'' d1"
    using leaving_get [OF lv tail, of "''bands''"]
    by (simp add: d3 get_null_def get_or_def map_of_dset map_of_setdefault)
  then have b4: "bands_of d4 = bands_of d1" by (rule bands_of_cong)
  have s4: "map_of d4 ''security'' = Some sec"
    using leavingD [OF lv tail, of "''security''"] by (simp add: d3 map_of_dset)
  then have "security_of wnet' = obj_of sec"
    by (simp add: security_of_def w' obj_of_def get_null_def get_or_def)
  with security_body_spec [OF sec] bands b4 wnet_mlo_checked [OF tail] s4 show ?thesis
    by (auto simp: wnet_ok_def w' obj_of_def Let_def mlo_check_def is_ok_iff guard_raise_eq)
qed

interpretation wnets: checked_loop "wnet_body wifi cfg caps" "\<lambda>_. wnet_ok caps" for wifi cfg caps
  by unfold_locales (blast dest: wnet_body_spec)

subsection \<open>What accepted multi-link devices guarantee\<close>

definition str_of :: "json \<Rightarrow> string" where
  "str_of j = (case j of JStr s \<Rightarrow> s | _ \<Rightarrow> [])"

definition mld_links :: "json \<Rightarrow> string list" where
  "mld_links j = (case get_null ''links'' (obj_of j) of JList xs \<Rightarrow> map str_of xs | _ \<Rightarrow> [])"

definition mld_enabled :: "json \<Rightarrow> bool" where
  "mld_enabled j \<longleftrightarrow> get_null ''enabled'' (obj_of j) = JBool True"

definition mld_network :: "json \<Rightarrow> string" where
  "mld_network j = str_at ''wireless_network'' (obj_of j)"

text \<open>An MLD claims each of its radios for its wireless network.\<close>

definition mld_claim :: "json \<Rightarrow> (string \<times> string) list" where
  "mld_claim j = map (\<lambda>r. (r, mld_network j)) (mld_links j)"

definition radio_band :: "(string \<times> (json \<times> bool)) list \<Rightarrow> string \<Rightarrow> json" where
  "radio_band radios r = (case map_of radios r of None \<Rightarrow> JNull | Some (b, _) \<Rightarrow> b)"

text \<open>Every link is a known radio, no two links are on one band, and an enabled MLD has two.\<close>

definition mld_ok :: "(string \<times> (json \<times> bool)) list \<Rightarrow> json \<Rightarrow> bool" where
  "mld_ok radios j \<longleftrightarrow> list_all (\<lambda>r. r \<in> fst ` set radios) (mld_links j) \<and>
     distinct (map (radio_band radios) (mld_links j)) \<and>
     (mld_enabled j \<longrightarrow> 2 \<le> length (mld_links j))"

lemma link_loop_spec:
  assumes "link_loop radios base mid wnid wbands en i bands links claimed = Inr (claimed', w)"
  shows "list_all (\<lambda>r. r \<in> fst ` set radios \<and> py_in (radio_band radios r) wbands = Inr True)
      (map str_of links) \<and>
    distinct (map (radio_band radios) (map str_of links)) \<and>
    set (map (radio_band radios) (map str_of links)) \<inter> set bands = {} \<and>
    distinct (map (\<lambda>r. (r, wnid)) (map str_of links)) \<and>
    set (map (\<lambda>r. (r, wnid)) (map str_of links)) \<inter> set claimed = {} \<and>
    set claimed' = set claimed \<union> set (map (\<lambda>r. (r, wnid)) (map str_of links))"
  using assms
proof (induction links arbitrary: i bands claimed claimed' w)
  case (Cons link links)
  from Cons.prems obtain rid band up w' where l: "link = JStr rid" "map_of radios rid = Some (band, up)"
    and b: "band \<notin> set bands" "py_in band wbands = Inr True" "(rid, wnid) \<notin> set claimed"
    and r: "link_loop radios base mid wnid wbands en (Suc i) (band # bands) links
      ((rid, wnid) # claimed) = Inr (claimed', w')"
    by (auto simp: verr_at_def Let_def rbind_eq_Inr split: json.splits option.splits if_splits)
  from l have "rid \<in> fst ` set radios" "radio_band radios rid = band" "str_of link = rid"
    by (auto simp: radio_band_def str_of_def dest: map_of_SomeD fst_image_mem)
  with Cons.IH [OF r] b show ?case by (auto simp: list_all_iff)
qed simp

lemma mld_bodyE:
  assumes "mld_body radios mid mld (nets, claimed) = Inr (mld', s', w)"
  obtains enabled d1 wnid links d3 claimed' w1 wnet' w2 d4 w3 where
    "v_bool (get_or (JBool True) ''enabled'' d1) (sub_path (sub_path ''wifi.mlds'' mid) ''enabled'') =
      Inr enabled"
    "get_null ''wireless_network'' d3 = JStr wnid" "wnid \<in> fst ` set nets"
    "links_check (sub_path ''wifi.mlds'' mid) enabled (get_null ''links'' d3) = Inr links"
    "get_null ''enabled'' d3 = JBool enabled"
    "link_loop radios (sub_path ''wifi.mlds'' mid) mid wnid
      (get_or (JList []) ''bands'' (obj_of (get_null wnid nets))) enabled 0 [] links claimed =
      Inr (claimed', w1)"
    "mld_security (sub_path ''wifi.mlds'' mid) mid enabled (obj_of (get_null wnid nets)) = Inr (wnet', w2)"
    "steps (mld_tail_steps (sub_path ''wifi.mlds'' mid)) d3 = Inr (d4, w3)"
    "mld' = JObj d4" "s' = (dset wnid (JObj wnet') nets, claimed')"
proof -
  let ?b = "sub_path ''wifi.mlds'' mid"
  from assms obtain d1 enabled d2 links claimed' w1 wnet' w2 d4 w3 where e:
    "v_bool (get_or (JBool True) ''enabled'' d1) (sub_path ?b ''enabled'') = Inr enabled"
    and d2: "d2 = setdefault ''enabled'' (JBool True) d1"
    and k: "py_in (get_null ''wireless_network'' d2) (JObj nets) = Inr True"
    and l: "links_check ?b enabled (get_or (JList []) ''links'' d2) = Inr links"
    and lp: "link_loop radios ?b mid (str_at ''wireless_network'' d2) (get_or (JList []) ''bands''
        (obj_of (get_null (str_at ''wireless_network'' d2) nets))) enabled 0 [] links claimed =
      Inr (claimed', w1)"
    and sec: "mld_security ?b mid enabled (obj_of (get_null (str_at ''wireless_network'' d2) nets)) =
      Inr (wnet', w2)"
    and tl: "steps (mld_tail_steps ?b) (setdefault ''links'' (JList []) d2) = Inr (d4, w3)"
    and r: "mld' = JObj d4"
      "s' = (dset (str_at ''wireless_network'' d2) (JObj wnet') nets, claimed')"
    unfolding mld_body_def Let_def prod.case rbind_eq_Inr guard_raise_eq
    by (elim exE conjE) (fastforce split: prod.splits simp: rbind_eq_Inr)
  from k obtain wnid where wn: "get_null ''wireless_network'' d2 = JStr wnid" "wnid \<in> fst ` set nets"
    by (auto simp: py_in_def split: json.splits if_splits)
  then have st: "str_at ''wireless_network'' d2 = wnid" by (simp add: str_at_def)
  let ?d3 = "setdefault ''links'' (JList []) d2"
  have "get_null ''wireless_network'' ?d3 = JStr wnid" "get_null ''enabled'' ?d3 = JBool enabled"
    "get_null ''links'' ?d3 = get_or (JList []) ''links'' d2"
    using wn(1) e by (simp_all add: d2 get_null_def get_or_def map_of_setdefault v_bool_eq
        split: option.splits)
  with that [OF e _ wn(2) _ _ lp [unfolded st] sec [unfolded st] tl r(1) r(2) [unfolded st]] l
  show thesis by simp
qed

lemma links_check_eq:
  "links_check base en v = Inr links \<Longrightarrow> v = JList links \<and> (en \<longrightarrow> 2 \<le> length links)"
  by (auto simp: links_check_def Let_def res_simps)

text \<open>Forcing PMF changes nothing else of a wireless network.\<close>

definition hardened :: "json \<Rightarrow> json \<Rightarrow> bool" where
  "hardened n n' \<longleftrightarrow> (\<forall>k. k \<noteq> ''security'' \<longrightarrow> get_null k (obj_of n') = get_null k (obj_of n)) \<and>
     (\<forall>k. k \<noteq> ''pmf'' \<longrightarrow> get_null k (security_of n') = get_null k (security_of n)) \<and>
     (get_null ''pmf'' (security_of n') = get_null ''pmf'' (security_of n) \<or>
      get_null ''pmf'' (security_of n') = JStr ''required'')"

definition wnet_mlo_secure :: "json \<Rightarrow> bool" where
  "wnet_mlo_secure n \<longleftrightarrow> enum_at ''mode'' [''wpa3'', ''wpa3-enterprise''] (security_of n) \<and>
     get_null ''pmf'' (security_of n) = JStr ''required''"

lemma hardened_refl [simp]: "hardened n n"
  by (simp add: hardened_def)

lemma hardenedD:
  assumes "hardened n n'"
  shows "k \<noteq> ''security'' \<Longrightarrow> get_null k (obj_of n') = get_null k (obj_of n)"
    and "k \<noteq> ''pmf'' \<Longrightarrow> get_null k (security_of n') = get_null k (security_of n)"
    and "get_null ''pmf'' (security_of n) = JStr ''required'' \<Longrightarrow>
      get_null ''pmf'' (security_of n') = JStr ''required''"
  using assms unfolding hardened_def by metis+

lemma hardened_trans:
  assumes "hardened m n" "hardened n p" shows "hardened m p"
  unfolding hardened_def
proof (intro conjI allI impI)
  show "get_null ''pmf'' (security_of p) = get_null ''pmf'' (security_of m) \<or>
    get_null ''pmf'' (security_of p) = JStr ''required''"
    using assms unfolding hardened_def by argo
qed (simp_all add: hardenedD [OF assms(1)] hardenedD [OF assms(2)])

lemma hardened_secure: "hardened n n' \<Longrightarrow> wnet_mlo_secure n \<Longrightarrow> wnet_mlo_secure n'"
  by (simp add: wnet_mlo_secure_def enum_at_def hardenedD)

lemma hardened_wnet_ok:
  assumes "hardened n n'" "wnet_ok caps n" shows "wnet_ok caps n'"
proof -
  have b: "bands_of (obj_of n') = bands_of (obj_of n)"
    by (rule bands_of_cong) (simp add: hardenedD(1) [OF assms(1)])
  show ?thesis
    using assms(2) hardenedD [OF assms(1)] unfolding wnet_ok_def Let_def b
    by (simp add: six_ghz_secure_def passphrase_ok_def enum_at_def)
qed

lemma mld_security_spec:
  assumes "mld_security base mid en d = Inr (d', w)"
  shows "hardened (JObj d) (JObj d') \<and> (en \<longrightarrow> wnet_mlo_secure (JObj d'))"
proof (cases "en \<and> get_null ''pmf'' (security_of (JObj d)) \<noteq> JStr ''required''")
  case True
  with assms obtain sec where s: "get_or (JObj []) ''security'' d = JObj sec"
    and m: "get_null ''mode'' sec \<in> {JStr ''wpa3'', JStr ''wpa3-enterprise''}"
    and d': "d' = d \<or> d' = dset ''security'' (JObj (dset ''pmf'' (JStr ''required'') sec)) d"
    and nr: "get_null ''pmf'' sec \<noteq> JStr ''required'' \<longrightarrow>
      d' = dset ''security'' (JObj (dset ''pmf'' (JStr ''required'') sec)) d"
    by (auto simp: mld_security_def res_simps split: if_splits)
  from s m have ms: "map_of d ''security'' = Some (JObj sec)"
    by (auto simp: get_or_def get_null_def split: option.splits)
  then have "security_of (JObj d) = sec"
    by (simp add: security_of_def obj_of_def get_null_def get_or_def)
  with True nr have "d' = dset ''security'' (JObj (dset ''pmf'' (JStr ''required'') sec)) d" by simp
  then have "security_of (JObj d') = dset ''pmf'' (JStr ''required'') sec"
    "\<forall>k. k \<noteq> ''security'' \<longrightarrow> get_null k d' = get_null k d"
    by (simp_all add: security_of_def obj_of_def get_null_def get_or_def map_of_dset)
  with m \<open>security_of (JObj d) = sec\<close> show ?thesis
    by (auto simp: hardened_def wnet_mlo_secure_def enum_at_def obj_of_def get_null_def get_or_def
        map_of_dset)
next
  case False
  with assms obtain sec where s: "get_or (JObj []) ''security'' d = JObj sec"
    and m: "en \<longrightarrow> get_null ''mode'' sec \<in> {JStr ''wpa3'', JStr ''wpa3-enterprise''}"
    by (auto simp: mld_security_def res_simps split: if_splits)
  then have "security_of (JObj d) = sec"
    by (auto simp: security_of_def obj_of_def get_null_def get_or_def split: option.splits)
  moreover from this assms False s have "d' = d"
    by (auto simp: mld_security_def res_simps split: if_splits)
  ultimately show ?thesis using False m
    by (auto simp: wnet_mlo_secure_def enum_at_def)
qed

definition mld_secured :: "obj \<Rightarrow> json \<Rightarrow> bool" where
  "mld_secured nets j \<longleftrightarrow> (\<exists>n. map_of nets (mld_network j) = Some n \<and>
     (mld_enabled j \<longrightarrow> wnet_mlo_secure n))"

text \<open>The wireless networks of two states: the same names, each at most hardened.\<close>

definition nets_hardened :: "obj \<Rightarrow> obj \<Rightarrow> bool" where
  "nets_hardened nets nets' \<longleftrightarrow>
     list_all2 (\<lambda>(k, n) (k', n'). k' = k \<and> hardened n n') nets nets'"

lemma nets_hardened_refl [simp]: "nets_hardened nets nets"
  by (auto simp: nets_hardened_def intro: list_all2_refl)

lemma nets_hardened_trans: "nets_hardened a b \<Longrightarrow> nets_hardened b c \<Longrightarrow> nets_hardened a c"
  unfolding nets_hardened_def
  by (erule (1) list_all2_trans [rotated]) (auto intro: hardened_trans)

lemma nets_hardened_dset:
  "map_of nets k = Some n \<Longrightarrow> hardened n n' \<Longrightarrow> nets_hardened nets (dset k n' nets)"
  by (induction nets) (auto simp: nets_hardened_def dset_def intro!: list_all2_refl)

lemma nets_hardened_lookup:
  "nets_hardened nets nets' \<Longrightarrow> map_of nets k = Some n \<Longrightarrow> \<exists>n'. map_of nets' k = Some n' \<and> hardened n n'"
  unfolding nets_hardened_def by (induction rule: list_all2_induct) (auto split: if_splits)

lemma mld_secured_mono: "nets_hardened nets nets' \<Longrightarrow> mld_secured nets j \<Longrightarrow> mld_secured nets' j"
  using hardened_secure by (fastforce simp: mld_secured_def dest: nets_hardened_lookup)

lemma mld_body_spec:
  assumes "mld_body radios mid mld s = Inr (mld', s', w)"
  shows "mld_ok radios mld' \<and> distinct (mld_claim mld') \<and> set (mld_claim mld') \<inter> set (snd s) = {} \<and>
    set (snd s') = set (snd s) \<union> set (mld_claim mld') \<and>
    nets_hardened (fst s) (fst s') \<and> mld_secured (fst s') mld'"
proof -
  obtain nets claimed where s: "s = (nets, claimed)" by (cases s)
  from assms [unfolded s] show ?thesis
  proof (rule mld_bodyE)
    fix enabled d1 wnid links d3 claimed' w1 wnet' w2 d4 w3
    let ?b = "sub_path ''wifi.mlds'' mid" and ?n = "get_null wnid nets"
    assume wn: "get_null ''wireless_network'' d3 = JStr wnid" "wnid \<in> fst ` set nets"
      and lc: "links_check ?b enabled (get_null ''links'' d3) = Inr links"
      and en: "get_null ''enabled'' d3 = JBool enabled"
      and lp: "link_loop radios ?b mid wnid (get_or (JList []) ''bands'' (obj_of ?n)) enabled 0 []
        links claimed = Inr (claimed', w1)"
      and sec: "mld_security ?b mid enabled (obj_of ?n) = Inr (wnet', w2)"
      and tl: "steps (mld_tail_steps ?b) d3 = Inr (d4, w3)"
      and r: "mld' = JObj d4" "s' = (dset wnid (JObj wnet') nets, claimed')"
    have "list_all (leaving k) (mld_tail_steps ?b)"
      if "k \<in> {''links'', ''wireless_network'', ''enabled''}" for k
      using that by (auto simp: mld_tail_steps_def intro!: ext_intros)
    from leaving_get [OF steps_leaving [OF this] tl]
    have same: "get_null k d4 = get_null k d3"
      if "k \<in> {''links'', ''wireless_network'', ''enabled''}" for k using that by blast
    from links_check_eq [OF lc] have links: "get_null ''links'' d3 = JList links"
      "enabled \<longrightarrow> 2 \<le> length links" by auto
    have m: "mld_links mld' = map str_of links" "mld_network mld' = wnid" "mld_enabled mld' = enabled"
      using wn(1) links(1) en
      by (simp_all add: mld_links_def mld_network_def mld_enabled_def r obj_of_def str_at_def same)
    note L = link_loop_spec [OF lp]
    from wn(2) obtain n where n: "map_of nets wnid = Some n" "?n = n"
      by (metis get_null_def get_or_def map_of_eq_None_iff not_None_eq option.simps(5))
    from mld_security_spec [OF sec] have "hardened n (JObj wnet')" "enabled \<longrightarrow> wnet_mlo_secure (JObj wnet')"
      unfolding n(2) hardened_def security_of_def obj_of_def by (auto split: json.splits)
    then have "nets_hardened nets (fst s')" "mld_secured (fst s') mld'"
      using nets_hardened_dset [OF n(1)] m by (auto simp: r mld_secured_def map_of_dset)
    with L links(2) m show ?thesis
      by (auto simp: s r mld_ok_def mld_claim_def list_all_iff)
  qed
qed

interpretation mlds: seen_loop "mld_body radios" "\<lambda>_. mld_ok radios" "\<lambda>_. mld_claim"
    "\<lambda>s. set (snd s)" "(=)" for radios
proof unfold_locales
  fix i j s j' s' w assume b: "mld_body radios i j s = Inr (j', s', w)"
  from mld_body_spec [OF b] show "mld_ok radios j'" by blast
  from mld_body_spec [OF b] show "sorted_wrt (\<lambda>x y. y \<noteq> x) (mld_claim j') \<and>
      (\<forall>k \<in> set (mld_claim j'). \<forall>x \<in> set (snd s). k \<noteq> x) \<and>
      set (snd s') = set (snd s) \<union> set (mld_claim j')"
    by (auto simp: distinct_conv_nth sorted_wrt_iff_nth_less)
qed

lemma mld_loop_secured:
  "py_for (mld_body radios) ms s = Inr (ms', s', w) \<Longrightarrow>
     nets_hardened (fst s) (fst s') \<and> list_all (\<lambda>(_, m). mld_secured (fst s') m) ms'"
proof (induction ms arbitrary: s ms' w)
  case (Cons x ms)
  obtain i j where x: "x = (i, j)" by (cases x)
  with Cons.prems obtain j' s1 w1 ms1 w2 where b: "mld_body radios i j s = Inr (j', s1, w1)"
    and l: "py_for (mld_body radios) ms s1 = Inr (ms1, s', w2)" and ms': "ms' = (i, j') # ms1"
    by (auto simp: rbind_eq_Inr)
  from mld_body_spec [OF b] Cons.IH [OF l] show ?case
    unfolding ms' by (auto intro: nets_hardened_trans mld_secured_mono)
qed simp

end
