(* ===== verification/Schema.thy ===== *)
theory Schema
  imports SchemaWifi
begin

text \<open>
  The default configuration document and \<open>validate\<close>, the only gate between a request and the
  candidate configuration: it runs every section validator in order over one document.
\<close>

subsection \<open>The default document\<close>

definition default_system :: json where
  "default_system = JObj
     [(''mode'', JStr ''gateway''),
      (''fan'', JObj [(''mode'', JStr ''auto''), (''manual_percent'', JInt 50)]),
      (''leds'', JObj [(''mode'', JStr ''status''), (''brightness'', JInt 100)]),
      (''hostname'', JStr ''sbe1v1k''),
      (''timezone'', JStr ''UTC''),
      (''ntp'', JObj [(''enabled'', JBool True),
         (''servers'', JList [JStr ''pool.ntp.org'', JStr ''time.cloudflare.com''])]),
      (''led'', JObj [(''enabled'', JBool True), (''brightness'', JInt 100)]),
      (''setup_complete'', JBool False)]"

definition default_port :: "string \<Rightarrow> string \<Rightarrow> json \<Rightarrow> json" where
  "default_port role name network = JObj
     [(''role'', JStr role), (''name'', JStr name), (''enabled'', JBool True), (''mtu'', JInt 1500),
      (''speed'', JStr ''auto''), (''duplex'', JStr ''auto''), (''flow_control'', JBool True),
      (''network'', network), (''tagged_vlans'', JList [])]"

definition default_ports :: json where
  "default_ports = JObj
     [(''eth0'', default_port ''lan'' ''LAN 1'' (JStr ''default'')),
      (''eth1'', default_port ''lan'' ''LAN 2'' (JStr ''default'')),
      (''eth2'', default_port ''lan'' ''LAN 3 (2.5G)'' (JStr ''default'')),
      (''eth3'', default_port ''wan'' ''WAN (10G)'' JNull)]"

definition default_networks :: json where
  "default_networks = JObj
     [(''default'', JObj
        [(''name'', JStr ''Default''), (''purpose'', JStr ''corporate''), (''vlan'', JNull),
         (''zone'', JStr ''lan''), (''subnet'', JStr ''192.168.2.1/24''),
         (''ipv6'', JObj [(''mode'', JStr ''dhcpv6-pd''), (''prefix_id'', JInt 0), (''ra'', JBool True),
            (''dhcpv6'', JBool True)]),
         (''dhcp'', JObj [(''enabled'', JBool True), (''start'', JStr ''192.168.2.100''),
            (''end'', JStr ''192.168.2.250''), (''lease_seconds'', JInt 86400), (''dns'', JList []),
            (''domain'', JStr ''lan''), (''options'', JList []), (''reservations'', JList [])]),
         (''isolation'', JBool False), (''igmp_snooping'', JBool True), (''mdns'', JBool True),
         (''internet_access'', JBool True), (''wan'', JStr ''auto'')])]"

definition default_wans :: json where
  "default_wans = JObj
     [(''wan1'', JObj
        [(''name'', JStr ''WAN 1''), (''port'', JStr ''eth3''), (''mode'', JStr ''dhcp''),
         (''vlan'', JNull), (''priority'', JInt 1), (''weight'', JInt 1), (''enabled'', JBool True),
         (''mtu'', JInt 1500), (''mss_clamp'', JBool True), (''mac_clone'', JNull),
         (''static'', JObj [(''address'', JNull), (''gateway'', JNull), (''dns'', JList [])]),
         (''pppoe'', JObj [(''username'', JNull), (''password'', JNull), (''service'', JNull),
            (''mru'', JInt 1492)]),
         (''ipv6'', JObj [(''mode'', JStr ''dhcpv6-pd''), (''prefix_hint'', JNull)]),
         (''dns'', JList []),
         (''health'', JObj [(''enabled'', JBool True),
            (''targets'', JList [JStr ''1.1.1.1'', JStr ''8.8.8.8'']),
            (''dns_target'', JStr ''one.one.one.one''), (''interval'', JInt 5),
            (''loss_threshold'', JInt 40), (''latency_threshold_ms'', JInt 400)])])]"

definition default_firewall :: json where
  "default_firewall = JObj
     [(''hardware_offload'', JBool False),
      (''tunnel_interfaces'', tunnel_default),
      (''default_policies'', JObj
         [(''lan->wan'', JStr ''allow''), (''lan->gateway'', JStr ''allow''),
          (''lan->lan'', JStr ''allow''), (''guest->wan'', JStr ''allow''),
          (''guest->lan'', JStr ''drop''), (''guest->gateway'', JStr ''reject''),
          (''iot->wan'', JStr ''allow''), (''iot->lan'', JStr ''drop''),
          (''iot->gateway'', JStr ''reject''), (''wan->lan'', JStr ''drop''),
          (''wan->gateway'', JStr ''drop''), (''containers->wan'', JStr ''allow''),
          (''containers->lan'', JStr ''drop''), (''containers->gateway'', JStr ''reject'')]),
      (''rules'', JList []),
      (''groups'', JObj [(''address'', JObj []), (''port'', JObj []), (''mac'', JObj []),
         (''domain'', JObj [])]),
      (''schedules'', JObj [])]"

definition default_services :: obj where
  "default_services =
     [(''nat'', JObj [(''masquerade'', JBool True), (''hairpin'', JBool True),
         (''port_forwards'', JList []), (''one_to_one'', JList [])]),
      (''routing'', JObj [(''static'', JList []), (''ecmp'', JBool False),
         (''frr'', JObj [(''enabled'', JBool False), (''ospf'', JObj []), (''bgp'', JObj [])])]),
      (''policy_routes'', JList []),
      (''qos'', JObj [(''enabled'', JBool False), (''engine'', JStr ''cake''),
         (''download_kbps'', JInt 0), (''upload_kbps'', JInt 0), (''per_client_limits'', JList [])]),
      (''dns'', JObj [(''upstream'', JList [JStr ''1.1.1.1'', JStr ''8.8.8.8'']),
         (''cache_size'', JInt 4096), (''dnssec'', JBool False),
         (''filtering'', JObj [(''enabled'', JBool False), (''block_malware'', JBool True),
            (''block_ads'', JBool False), (''allowlist'', JList []), (''blocklist'', JList [])]),
         (''records'', JList []), (''conditional_forwarders'', JList []),
         (''query_log'', JBool False)]),
      (''dpi'', JObj [(''enabled'', JBool False), (''engine'', JStr ''suricata''),
         (''retention_hours'', JInt 24), (''include_ipv6'', JBool True)]),
      (''controller'', JObj [(''enabled'', JBool False), (''inform_url'', JStr []),
         (''discovery'', JBool True), (''sync_enabled'', JBool False), (''api_url'', JStr []),
         (''api_key'', JStr []), (''site_id'', JStr []), (''verify_tls'', JBool True),
         (''interval_seconds'', JInt 10)]),
      (''services'', JObj [(''mdns'', JObj [(''enabled'', JBool False), (''networks'', JList [])]),
         (''upnp'', JObj [(''enabled'', JBool False), (''networks'', JList [])]),
         (''igmp_proxy'', JObj [(''enabled'', JBool False), (''upstream'', JNull)]),
         (''ssh'', JObj [(''enabled'', JBool True), (''port'', JInt 22)])])]"

definition default_wifi :: json where
  "default_wifi = JObj
     [(''country'', JStr ''US''), (''radios'', JObj []), (''networks'', JObj []), (''mlds'', JObj []),
      (''rf_profiles'', JObj [(''default'', JObj
         [(''name'', JStr ''Default''),
          (''channel_width'', JObj [(''2g'', JInt 20), (''5g'', JInt 80), (''6g'', JInt 160)]),
          (''tx_power'', JObj [(''2g'', JStr ''auto''), (''5g'', JStr ''auto''), (''6g'', JStr ''auto'')]),
          (''min_rssi'', JNull), (''band_steering'', JStr ''balanced''), (''dfs'', JBool True),
          (''client_limit'', JNull)])]),
      (''radius'', JObj []), (''ppsk'', JObj []),
      (''regulatory'', JObj [(''environment'', JStr ''indoor''), (''six_ghz_power'', JStr ''lpi'')]),
      (''channel_optimisation'', JObj
         [(''enabled'', JBool False), (''min_interval_seconds'', JInt 21600),
          (''min_improvement'', JFloat 15), (''avoid_dfs'', JBool False), (''prefer_psc'', JBool True),
          (''schedule_hour'', JInt 4)])]"

definition default_config :: obj where
  "default_config =
     [(''schema_version'', JInt SCHEMA_VERSION), (''system'', default_system),
      (''ports'', default_ports), (''networks'', default_networks), (''wans'', default_wans),
      (''multiwan'', JObj [(''mode'', JStr ''failover''), (''sticky_sessions'', JBool True)]),
      (''firewall'', default_firewall)] @ default_services @
     [(''wifi'', default_wifi),
      (''vpn'', JObj [(''wireguard'', JObj []), (''ipsec'', JObj []), (''openvpn'', JObj [])]),
      (''users'', JObj []), (''api_tokens'', JObj [])]"

subsection \<open>Validation of a document\<close>

text \<open>Each section is filled in when missing, validated against the document as it stands, and
  stored back.\<close>

definition section_step :: "string \<times> (obj \<Rightarrow> json \<Rightarrow> verr + (json \<times> warning list)) \<Rightarrow> warning step"
  where
  "section_step = (\<lambda>(k, f) cfg. nested k (JObj []) (f cfg) cfg)"

definition sections ::
    "capabilities \<Rightarrow> (string \<times> (obj \<Rightarrow> json \<Rightarrow> verr + (json \<times> warning list))) list" where
  "sections caps =
     [(''system'', \<lambda>_. validate_system), (''ports'', validate_ports),
      (''networks'', validate_networks), (''wans'', validate_wans),
      (''firewall'', \<lambda>_. validate_firewall), (''nat'', validate_nat),
      (''routing'', \<lambda>_. validate_routing), (''qos'', validate_qos),
      (''dns'', \<lambda>_. validate_dns), (''dpi'', validate_dpi),
      (''controller'', \<lambda>_. validate_controller),
      (''wifi'', \<lambda>cfg. validate_wifi cfg caps), (''users'', \<lambda>_. validate_users)]"

definition validate :: "capabilities \<Rightarrow> json \<Rightarrow> verr + (json \<times> warning list)" where
  "validate caps = object_steps ''config'' (map section_step (sections caps))"

subsection \<open>What each section of an accepted document went through\<close>

lemma leaving_section: "k \<noteq> fst p \<Longrightarrow> leaving k (section_step p)"
  by (cases p) (auto simp: leaving_def section_step_def nested_def res_simps map_of_dset
      map_of_setdefault)

lemma steps_leave_section:
  "k \<notin> fst ` set ps \<Longrightarrow> steps (map section_step ps) d = Inr (d', w) \<Longrightarrow> map_of d' k = map_of d k"
  by (rule leavingD [where s = "steps (map section_step ps)"])
    (auto intro!: steps_leaving leaving_section simp: list_all_iff)

text \<open>Every section of the result is what its validator returned, and that validator saw the final
  value of the sections before it.\<close>

lemma section_result:
  assumes "steps (map section_step (ps @ (k, f) # qs)) d = Inr (d', w)"
    and "distinct (map fst (ps @ (k, f) # qs))"
  shows "\<exists>cfg v j w1. f cfg v = Inr (j, w1) \<and> map_of d' k = Some j \<and>
    v = get_or (JObj []) k cfg \<and> (\<forall>k' \<in> fst ` set ps. map_of cfg k' = map_of d' k')"
proof -
  from assms(1) obtain d1 d2 w1 w2 w3 where s: "section_step (k, f) d1 = Inr (d2, w2)"
    and q: "steps (map section_step qs) d2 = Inr (d', w3)"
    and p: "steps (map section_step ps) d = Inr (d1, w1)"
    by (auto simp: steps_append_eq steps_Cons_eq simp del: steps.simps)
  from s obtain j where f: "f d1 (get_or (JObj []) k d1) = Inr (j, w2)"
    and d2: "d2 = dset k j (setdefault k (JObj []) d1)"
    by (auto simp: section_step_def nested_def res_simps)
  from assms(2) have "k \<notin> fst ` set qs" by auto
  with q have "map_of d' k = Some j"
    using steps_leave_section d2 by (fastforce simp: map_of_dset)
  moreover have "map_of d1 k' = map_of d' k'" if "k' \<in> fst ` set ps" for k'
  proof -
    from that assms(2) have "k' \<notin> fst ` set qs" "k' \<noteq> k" by auto
    with q show ?thesis
      using steps_leave_section d2 by (fastforce simp: map_of_dset map_of_setdefault)
  qed
  ultimately show ?thesis using f by blast
qed

lemma distinct_sections: "distinct (map fst (sections caps))"
  by (simp add: sections_def)

lemma validate_section:
  assumes "validate caps (JObj cfg) = Inr (JObj out, w)"
    and "sections caps = ps @ (k, f) # qs"
  shows "\<exists>cfg1 v j w1. f cfg1 v = Inr (j, w1) \<and> map_of out k = Some j \<and>
    v = get_or (JObj []) k cfg1 \<and> (\<forall>k' \<in> fst ` set ps. map_of cfg1 k' = map_of out k')"
  using section_result [of ps k f qs cfg out w] assms distinct_sections [of caps]
  by (auto simp: validate_def object_steps_eq)

lemma validate_result: "validate caps j = Inr (j', w) \<Longrightarrow> \<exists>cfg out. j = JObj cfg \<and> j' = JObj out"
  by (auto simp: validate_def object_steps_eq)

lemma validate_default: "validate None (JObj default_config) = Inr (JObj default_config, [])"
  by code_simp

end
