(* ===== verification/ConfigDiff.thy ===== *)
theory ConfigDiff
  imports Json "HOL-Library.List_Lexorder" "HOL-Library.Char_ord"
begin

text \<open>
  The change list of \<open>configd.py\<close>: \<open>diff_config\<close> compares two documents, \<open>_redact\<close> masks secrets in
  the result before it reaches the audit log.
\<close>

subsection \<open>The difference of two documents\<close>

record change =
  ch_path :: string
  ch_old :: json
  ch_new :: json

definition join_path :: "string \<Rightarrow> string \<Rightarrow> string" where
  "join_path path key = (if path \<noteq> [] then path @ ''.'' @ key else key)"

definition sorted_keys :: "obj \<Rightarrow> obj \<Rightarrow> string list" where
  "sorted_keys d e = sort (remdups (map fst d @ map fst e))"

lemma size_map_of: "map_of d k = Some v \<Longrightarrow> size v < size_list (size_prod (\<lambda>_. 0) size) d"
  by (induction d) (auto split: if_splits)

function diff_config :: "json \<Rightarrow> json \<Rightarrow> string \<Rightarrow> change list" where
  "diff_config a b path = (case (a, b) of
     (JObj d, JObj e) \<Rightarrow> concat (map (\<lambda>k. case map_of d k of
         None \<Rightarrow> [\<lparr>ch_path = join_path path k, ch_old = JNull, ch_new = get_null k e\<rparr>]
       | Some v \<Rightarrow> (case map_of e k of
             None \<Rightarrow> [\<lparr>ch_path = join_path path k, ch_old = v, ch_new = JNull\<rparr>]
           | Some w \<Rightarrow> diff_config v w (join_path path k))) (sorted_keys d e))
   | _ \<Rightarrow> (if py_eq a b then [] else [\<lparr>ch_path = path, ch_old = a, ch_new = b\<rparr>]))"
  by pat_completeness auto
termination
  by (relation "measure (\<lambda>(a, _, _). size a)") (auto dest: size_map_of)

declare diff_config.simps [simp del]

lemma set_sorted_keys [simp]: "set (sorted_keys d e) = fst ` set d \<union> fst ` set e"
  by (simp add: sorted_keys_def)

lemma diff_scalar:
  "\<not> (\<exists>d e. a = JObj d \<and> b = JObj e) \<Longrightarrow> diff_config a b path =
     (if py_eq a b then [] else [\<lparr>ch_path = path, ch_old = a, ch_new = b\<rparr>])"
  by (subst diff_config.simps) (auto split: json.splits)

text \<open>What one key of two objects contributes.\<close>

definition key_changes :: "obj \<Rightarrow> obj \<Rightarrow> string \<Rightarrow> string \<Rightarrow> change list" where
  "key_changes d e path k = (case map_of d k of
         None \<Rightarrow> [\<lparr>ch_path = join_path path k, ch_old = JNull, ch_new = get_null k e\<rparr>]
       | Some v \<Rightarrow> (case map_of e k of
             None \<Rightarrow> [\<lparr>ch_path = join_path path k, ch_old = v, ch_new = JNull\<rparr>]
           | Some w \<Rightarrow> diff_config v w (join_path path k)))"

lemma diff_objects:
  "diff_config (JObj d) (JObj e) path = concat (map (key_changes d e path) (sorted_keys d e))"
  by (subst diff_config.simps) (simp add: key_changes_def [abs_def])

text \<open>Induction over the pairs of sub-documents the comparison visits.\<close>

lemma diff_induct [case_names scalar objects]:
  assumes scalar: "\<And>a b path. \<not> (\<exists>d e. a = JObj d \<and> b = JObj e) \<Longrightarrow> P a b path"
    and objects: "\<And>d e path. (\<And>k v w. map_of d k = Some v \<Longrightarrow> map_of e k = Some w \<Longrightarrow>
      P v w (join_path path k)) \<Longrightarrow> P (JObj d) (JObj e) path"
  shows "P a b path"
proof (induction "size a" arbitrary: a b path rule: less_induct)
  case less
  show ?case
  proof (cases "\<exists>d e. a = JObj d \<and> b = JObj e")
    case True
    then obtain d e where o: "a = JObj d" "b = JObj e" by blast
    show ?thesis unfolding o
      by (rule objects, rule less) (use o size_map_of in fastforce)
  qed (rule scalar)
qed

lemma wf_lookup: "wf_json (JObj d) \<Longrightarrow> map_of d k = Some v \<Longrightarrow> wf_json v"
  by (auto simp: list_all_iff dest!: map_of_SomeD)

lemma py_eq_items_lookup:
  "distinct (map fst d) \<Longrightarrow>
     py_eq_items d e \<longleftrightarrow> (\<forall>k v. map_of d k = Some v \<longrightarrow> (\<exists>w. map_of e k = Some w \<and> py_eq v w))"
  unfolding py_eq_items_iff by (auto simp: map_of_eq_Some_iff)

text \<open>Two objects are equal when they have the same keys with equal values.\<close>

definition agree :: "obj \<Rightarrow> obj \<Rightarrow> string \<Rightarrow> bool" where
  "agree d e k \<longleftrightarrow> (\<exists>v w. map_of d k = Some v \<and> map_of e k = Some w \<and> py_eq v w)"

lemma py_eq_obj:
  assumes "distinct (map fst d)" "distinct (map fst e)"
  shows "py_eq (JObj d) (JObj e) \<longleftrightarrow> (\<forall>k \<in> fst ` set d \<union> fst ` set e. agree d e k)"
proof -
  have len: "length d = card (fst ` set d)" "length e = card (fst ` set e)"
    using distinct_card [OF assms(1)] distinct_card [OF assms(2)] by simp_all
  have dom: "k \<in> fst ` set d \<longleftrightarrow> (\<exists>v. map_of d k = Some v)" for k and d :: obj
    using map_of_eq_None_iff [of d k] by fastforce
  have items: "py_eq_items d e \<longleftrightarrow> (\<forall>k \<in> fst ` set d. agree d e k)"
    unfolding py_eq_items_lookup [OF assms(1)] agree_def Ball_def dom
    by (intro iffI allI impI) (blast, fastforce)
  have sub: "fst ` set d \<subseteq> fst ` set e" if "\<forall>k \<in> fst ` set d. agree d e k"
    using that dom by (auto simp: agree_def)
  have eq: "length d = length e \<longleftrightarrow> fst ` set d = fst ` set e" if "\<forall>k \<in> fst ` set d. agree d e k"
    unfolding len using card_subset_eq [OF _ sub [OF that]] by auto
  have sup: "fst ` set e \<subseteq> fst ` set d" if "\<forall>k \<in> fst ` set e. agree d e k"
    using that dom by (auto simp: agree_def)
  show ?thesis
    unfolding py_eq.simps json.case items ball_Un using eq sup sub by (metis subset_antisym)
qed

lemma key_changes_empty:
  assumes "\<And>v w. map_of d k = Some v \<Longrightarrow> map_of e k = Some w \<Longrightarrow>
    diff_config v w (join_path path k) = [] \<longleftrightarrow> py_eq v w"
  shows "key_changes d e path k = [] \<longleftrightarrow> agree d e k"
  using assms by (auto simp: key_changes_def agree_def split: option.splits)

lemma diff_empty: "wf_json a \<Longrightarrow> wf_json b \<Longrightarrow> diff_config a b path = [] \<longleftrightarrow> py_eq a b"
proof (induction a b path rule: diff_induct)
  case (objects d e path)
  have "key_changes d e path k = [] \<longleftrightarrow> agree d e k" for k
    by (rule key_changes_empty, rule objects.IH)
      (auto intro: wf_lookup [OF objects.prems(1)] wf_lookup [OF objects.prems(2)])
  with objects.prems show ?case
    unfolding diff_objects by (subst py_eq_obj) auto
qed (simp add: diff_scalar)

subsection \<open>The entries\<close>

text \<open>The value at a place, a list of keys from the root, and the name of the place in a change list.\<close>

fun value_at :: "string list \<Rightarrow> json \<Rightarrow> json option" where
  "value_at [] j = Some j"
| "value_at (k # ks) (JObj d) = (case map_of d k of None \<Rightarrow> None | Some v \<Rightarrow> value_at ks v)"
| "value_at (k # ks) _ = None"

definition place_name :: "string \<Rightarrow> string list \<Rightarrow> string" where
  "place_name path ks = foldl join_path path ks"

fun is_obj :: "json \<Rightarrow> bool" where
  "is_obj (JObj d) = True"
| "is_obj _ = False"

text \<open>Where two documents part: both have a value there and the values differ, not both being objects; or one
  of them lacks the last key in an object the other has too.\<close>

definition parts_at :: "json \<Rightarrow> json \<Rightarrow> string list \<Rightarrow> bool" where
  "parts_at a b ks = (case (value_at ks a, value_at ks b) of
     (Some v, Some w) \<Rightarrow> \<not> (is_obj v \<and> is_obj w) \<and> \<not> py_eq v w
   | (None, None) \<Rightarrow> False
   | _ \<Rightarrow> (case (value_at (butlast ks) a, value_at (butlast ks) b) of
        (Some v, Some w) \<Rightarrow> is_obj v \<and> is_obj w | _ \<Rightarrow> False))"

definition change_at :: "string \<Rightarrow> json \<Rightarrow> json \<Rightarrow> string list \<Rightarrow> change" where
  "change_at path a b ks = \<lparr>ch_path = place_name path ks,
     ch_old = (case value_at ks a of None \<Rightarrow> JNull | Some v \<Rightarrow> v),
     ch_new = (case value_at ks b of None \<Rightarrow> JNull | Some w \<Rightarrow> w)\<rparr>"

lemma is_obj_iff: "is_obj j \<longleftrightarrow> (\<exists>d. j = JObj d)"
  by (cases j) auto

lemma value_below_scalar: "\<not> is_obj j \<Longrightarrow> value_at (k # ks) j = None"
  by (cases j) auto

lemma parts_scalar: "\<not> (is_obj a \<and> is_obj b) \<Longrightarrow> parts_at a b ks \<longleftrightarrow> ks = [] \<and> \<not> py_eq a b"
proof (cases ks)
  case (Cons k ls)
  assume n: "\<not> (is_obj a \<and> is_obj b)"
  show ?thesis
  proof (cases ls)
    case Nil
    then show ?thesis using n Cons value_below_scalar [of a] value_below_scalar [of b]
      by (auto simp: parts_at_def split: option.splits)
  next
    case (Cons l ms)
    then show ?thesis using n \<open>ks = k # ls\<close> value_below_scalar [of a] value_below_scalar [of b]
      by (auto simp: parts_at_def split: option.splits)
  qed
qed (simp add: parts_at_def)

lemma parts_objects:
  "parts_at (JObj d) (JObj e) (k # ks) \<longleftrightarrow> (case (map_of d k, map_of e k) of
     (Some v, Some w) \<Rightarrow> parts_at v w ks | (None, None) \<Rightarrow> False | _ \<Rightarrow> ks = [])"
  by (cases ks) (auto simp: parts_at_def split: option.splits)

lemma parts_objects_root: "\<not> parts_at (JObj d) (JObj e) []"
  by (simp add: parts_at_def)

text \<open>Every entry is such a place with its two values, and every such place has its entry.\<close>

lemma diff_places: "set (diff_config a b path) = change_at path a b ` {ks. parts_at a b ks}"
proof (induction a b path rule: diff_induct)
  case (scalar a b path)
  then have "\<not> (is_obj a \<and> is_obj b)" by (auto simp: is_obj_iff)
  then have "{ks. parts_at a b ks} = (if py_eq a b then {} else {[]})" by (auto simp: parts_scalar)
  with scalar show ?case by (simp add: diff_scalar change_at_def place_name_def)
next
  case (objects d e path)
  have one: "set (key_changes d e path k) = (\<lambda>ks. change_at path (JObj d) (JObj e) (k # ks)) ` {ks. parts_at (JObj d) (JObj e) (k # ks)}"
    if "k \<in> fst ` set d \<union> fst ` set e" for k
  proof (cases "map_of d k")
    case None
    then have "k \<in> fst ` set e" using that by (simp add: map_of_eq_None_iff)
    then obtain w where "map_of e k = Some w" using map_of_eq_None_iff [of e k] by blast
    with None show ?thesis
      by (auto simp: key_changes_def parts_objects change_at_def place_name_def get_null_def get_or_def)
  next
    case (Some v)
    show ?thesis
    proof (cases "map_of e k")
      case None
      with Some show ?thesis by (auto simp: key_changes_def parts_objects change_at_def place_name_def)
    next
      case (Some w)
      with \<open>map_of d k = Some v\<close> objects.IH [OF \<open>map_of d k = Some v\<close> Some] show ?thesis
        by (simp add: key_changes_def parts_objects change_at_def place_name_def)
    qed
  qed
  define K where "K = fst ` set d \<union> fst ` set e"
  have out: "k \<in> K" if "parts_at (JObj d) (JObj e) (k # ks)" for k ks
    using that map_of_eq_None_iff [of d k] map_of_eq_None_iff [of e k] unfolding K_def parts_objects
    by (cases "map_of d k"; cases "map_of e k") auto
  have places: "{ks. parts_at (JObj d) (JObj e) ks} =
      (\<Union>k \<in> K. (#) k ` {ks. parts_at (JObj d) (JObj e) (k # ks)})" (is "?l = ?r")
  proof (rule set_eqI)
    fix ks
    show "ks \<in> ?l \<longleftrightarrow> ks \<in> ?r"
    proof (cases ks)
      case (Cons k ls)
      then show ?thesis using out [of k ls] by blast
    qed (simp add: parts_objects_root image_iff)
  qed
  have "set (diff_config (JObj d) (JObj e) path) = (\<Union>k \<in> K. set (key_changes d e path k))"
    by (simp add: diff_objects K_def)
  also have "\<dots> = (\<Union>k \<in> K. (\<lambda>ks. change_at path (JObj d) (JObj e) (k # ks)) ` {ks. parts_at (JObj d) (JObj e) (k # ks)})"
    using one by (simp add: K_def)
  finally show ?case unfolding places image_UN image_image .
qed

subsection \<open>Redaction\<close>

definition SECRET_KEYS :: "string list" where
  "SECRET_KEYS = [''passphrase'', ''password'', ''psk'', ''secret'', ''private_key'', ''preshared'',
     ''token'', ''totp'', ''hash'', ''api_key'']"

definition is_secret_key :: "string \<Rightarrow> bool" where
  "is_secret_key key = list_ex (\<lambda>s. has_infix s (py_lower key)) SECRET_KEYS"

definition masked :: json where
  "masked = JStr ''***''"

fun redact_value :: "json \<Rightarrow> json" where
  "redact_value (JObj d) =
     JObj (map (\<lambda>(k, v). (k, if is_secret_key k then masked else redact_value v)) d)"
| "redact_value (JList xs) = JList (map redact_value xs)"
| "redact_value v = v"

definition redact_change :: "change \<Rightarrow> change" where
  "redact_change c =
     (let leaf = py_rsplit_last CHR ''.'' (ch_path c) in
      if is_secret_key leaf \<or> is_secret_key (ch_path c)
      then \<lparr>ch_path = ch_path c, ch_old = masked, ch_new = masked\<rparr>
      else \<lparr>ch_path = ch_path c, ch_old = redact_value (ch_old c),
            ch_new = redact_value (ch_new c)\<rparr>)"

definition redact :: "change list \<Rightarrow> change list" where
  "redact changes = map redact_change changes"

text \<open>No value stands under a secret-looking key, at any depth.\<close>

fun secret_free :: "json \<Rightarrow> bool" where
  "secret_free (JObj d) = list_all (\<lambda>(k, v). if is_secret_key k then v = masked else secret_free v) d"
| "secret_free (JList xs) = list_all secret_free xs"
| "secret_free _ = True"

definition change_secret_free :: "change \<Rightarrow> bool" where
  "change_secret_free c \<longleftrightarrow> (if is_secret_key (ch_path c) then ch_old c = masked \<and> ch_new c = masked
     else secret_free (ch_old c) \<and> secret_free (ch_new c))"

lemma secret_free_masked [simp]: "secret_free masked"
  by (simp add: masked_def)

lemma secret_free_redact: "secret_free (redact_value v)"
  by (induction v rule: redact_value.induct) (auto simp: list_all_iff split: if_splits)

lemma redact_secret_free: "secret_free v \<Longrightarrow> redact_value v = v"
  by (induction v rule: redact_value.induct)
    (auto simp: list_all_iff intro!: map_idI split: if_splits)

lemma redact_change_secret_free: "change_secret_free (redact_change c)"
  by (simp add: change_secret_free_def redact_change_def Let_def secret_free_redact)

lemma redact_secret_free_all: "list_all change_secret_free (redact changes)"
  by (simp add: redact_def list_all_iff redact_change_secret_free)

subsection \<open>Properties\<close>

text \<open>C36. The change list of two documents is exact: it is empty when and only when the documents are equal
  as Python values; and its entries are exactly the places where the documents part, each with the dotted
  name of the place, the old document's value there and the new document's, a missing one standing as null.\<close>

theorem diff_exact:
  assumes "wf_json a" and "wf_json b"
  shows "(diff_config a b path = [] \<longleftrightarrow> py_eq a b) \<and>
    set (diff_config a b path) = change_at path a b ` {ks. parts_at a b ks}"
  using diff_empty [OF assms] diff_places by blast

lemma diff_exact_witness:
  "diff_config (JObj [(''a'', JInt 1), (''b'', JBool True)]) (JObj [(''b'', JFloat 1), (''a'', JInt 2)]) [] \<noteq> [] \<and>
   \<lparr>ch_path = ''a'', ch_old = JInt 1, ch_new = JInt 2\<rparr> \<in>
     set (diff_config (JObj [(''a'', JInt 1), (''b'', JBool True)]) (JObj [(''b'', JFloat 1), (''a'', JInt 2)]) [])"
  (is "diff_config ?a ?b [] \<noteq> [] \<and> ?c \<in> _")
proof -
  have d: "wf_json ?a" "wf_json ?b" by simp_all
  have "change_at [] ?a ?b [''a''] \<in> change_at [] ?a ?b ` {ks. parts_at ?a ?b ks}"
    by (rule imageI) (simp add: parts_at_def)
  moreover have "change_at [] ?a ?b [''a''] = ?c"
    by (simp add: change_at_def place_name_def join_path_def)
  ultimately have "?c \<in> set (diff_config ?a ?b [])"
    unfolding diff_exact [OF d, of "[]", THEN conjunct2] by metis
  then show ?thesis by (intro conjI) (auto simp del: diff_config.simps dest: arg_cong [where f = set])
qed

text \<open>Redaction leaves no secret in the audit diff: in every redacted entry an entry whose path
  looks secret has both values masked, in every other no secret-looking key at any depth of either
  value keeps its value; the path of every entry is kept, and values without secrets are not
  changed.\<close>

theorem redaction_hides_secrets:
  "list_all change_secret_free (redact changes) \<and>
   map ch_path (redact changes) = map ch_path changes \<and>
   (secret_free v \<longleftrightarrow> redact_value v = v)"
  using redact_secret_free_all redact_secret_free [of v] secret_free_redact [of v]
  by (auto simp: redact_def redact_change_def Let_def)

end
