(* ===== verification/ConfigStore.thy ===== *)
theory ConfigStore
  imports Schema ConfigDiff
begin

text \<open>
  The configuration store of \<open>configd.py\<close>: a running and a candidate document, the commit pipeline
  (validate, preflight, checkpoint, apply, health check, commit or wait for confirmation), automatic
  rollback, the revision history and the audit log. What the appliers and health checks do to the
  system is a parameter: each acts on a world of any type and may raise.
\<close>

subsection \<open>State\<close>

text \<open>\<open>time.time()\<close> is a float: seconds as a rational.\<close>

type_synonym time = rat

record apply_result =
  ar_ok :: bool
  ar_messages :: "string list"
  ar_confirm :: bool

text \<open>A callback that raises returns the text of the exception on the left.\<close>

record 'w applier =
  ap_name :: string
  ap_preflight :: "(json \<Rightarrow> json \<Rightarrow> 'w \<Rightarrow> (string + bool \<times> string list) \<times> 'w) option"
  ap_run :: "json \<Rightarrow> json \<Rightarrow> 'w \<Rightarrow> (string + apply_result) \<times> 'w"

record 'w health_check =
  hc_name :: string
  hc_run :: "json \<Rightarrow> 'w \<Rightarrow> (string + bool \<times> string list) \<times> 'w"

record 'w env =
  appliers :: "'w applier list"
  health_checks :: "'w health_check list"
  env_caps :: capabilities

record revision =
  rv_id :: nat
  rv_txid :: string
  rv_ts :: time
  rv_user :: string
  rv_source :: string
  rv_summary :: string
  rv_config :: json

record audit_row =
  au_id :: nat
  au_txid :: string
  au_ts :: time
  au_user :: string
  au_ip :: string
  au_action :: string
  au_resource :: string
  au_success :: bool
  au_detail :: string
  au_diff :: "change list"

record pending =
  pd_txid :: string
  pd_previous :: json
  pd_revision :: nat
  pd_deadline :: time
  pd_user :: string

datatype store_event =
    RolledBack string string
  | Committed string nat nat bool

record 'w store =
  running :: json
  candidate :: json
  running_file :: json
  candidate_file :: "json option"
  st_pending :: "pending option"
  st_timer :: "string option"
  st_revisions :: "revision list"
  next_revision :: nat
  st_audit :: "audit_row list"
  next_audit :: nat
  st_events :: "store_event list"
  world :: 'w

datatype commit_error =
    CommitError string string "string list"
  | Uncaught pyexc

record commit_result =
  cr_txid :: string
  cr_revision :: "nat option"
  cr_changes :: "change list"
  cr_warnings :: "warning list"
  cr_messages :: "string list"
  cr_confirm_pending :: bool
  cr_deadline :: "time option"

subsection \<open>History and audit\<close>

definition str_join :: "string \<Rightarrow> string list \<Rightarrow> string" where
  "str_join sep xs = (case xs of [] \<Rightarrow> [] | y # ys \<Rightarrow> foldl (\<lambda>s x. s @ sep @ x) y ys)"

definition change_heads :: "change list \<Rightarrow> string list" where
  "change_heads changes = sort (remdups (map (\<lambda>c. hd (py_split CHR ''.'' (ch_path c))) changes))"

definition summarise :: "change list \<Rightarrow> string" where
  "summarise changes = (if changes = [] then ''no changes''
     else show_int (int (length changes)) @ '' change(s) in '' @
       str_join '', '' (take 5 (change_heads changes)))"

text \<open>\<open>INSERT\<close> and then \<open>DELETE\<close> all but the newest rows; the key is auto-incremented.\<close>

definition max_revisions :: nat where "max_revisions = 60"

definition max_audit :: nat where "max_audit = 5000"

definition save_revision :: "string \<Rightarrow> string \<Rightarrow> string \<Rightarrow> string \<Rightarrow> json \<Rightarrow> time \<Rightarrow> 'w store
    \<Rightarrow> nat \<times> 'w store" where
  "save_revision txid user source summary config t st =
     (let r = \<lparr>rv_id = next_revision st, rv_txid = txid, rv_ts = t, rv_user = user,
               rv_source = source, rv_summary = summary, rv_config = config\<rparr>
      in (next_revision st,
          st\<lparr>st_revisions := keep_newest max_revisions r (st_revisions st),
             next_revision := Suc (next_revision st)\<rparr>))"

definition latest_revision :: "'w store \<Rightarrow> nat" where
  "latest_revision st = fold max (map rv_id (st_revisions st)) 0"

definition audit :: "string \<Rightarrow> string \<Rightarrow> string \<Rightarrow> string \<Rightarrow> bool \<Rightarrow> string \<Rightarrow> change list \<Rightarrow> time
    \<Rightarrow> 'w store \<Rightarrow> 'w store" where
  "audit txid user ip action success detail changes t st =
     (let r = \<lparr>au_id = next_audit st, au_txid = txid, au_ts = t, au_user = user, au_ip = ip,
               au_action = action, au_resource = ''config'', au_success = success,
               au_detail = detail, au_diff = redact changes\<rparr>
      in st\<lparr>st_audit := keep_newest max_audit r (st_audit st), next_audit := Suc (next_audit st)\<rparr>)"

definition emit_event :: "store_event \<Rightarrow> 'w store \<Rightarrow> 'w store" where
  "emit_event e st = st\<lparr>st_events := st_events st @ [e]\<rparr>"

definition audit_log :: "nat \<Rightarrow> nat \<Rightarrow> 'w store \<Rightarrow> audit_row list" where
  "audit_log limit offset st = take limit (drop offset (st_audit st))"

definition revision_list :: "nat \<Rightarrow> 'w store \<Rightarrow> revision list" where
  "revision_list limit st = take limit (st_revisions st)"

definition find_revision :: "nat \<Rightarrow> 'w store \<Rightarrow> json option" where
  "find_revision rid st = map_option rv_config (find (\<lambda>r. rv_id r = rid) (st_revisions st))"

definition revision_diff :: "nat \<Rightarrow> 'w store \<Rightarrow> change list" where
  "revision_diff rid st = (case find_revision rid st of None \<Rightarrow> []
     | Some config \<Rightarrow> redact (diff_config config (running st) []))"

subsection \<open>Loading\<close>

text \<open>\<open>_migrate\<close>: keys the document lacks are filled in from the defaults, at every depth.\<close>

fun merge_defaults :: "obj \<Rightarrow> obj \<Rightarrow> obj" where
  "merge_defaults dst [] = dst"
| "merge_defaults dst ((k, v) # src) = merge_defaults
     (case map_of dst k of
        None \<Rightarrow> dst @ [(k, v)]
      | Some (JObj d) \<Rightarrow> (case v of JObj e \<Rightarrow> dset k (JObj (merge_defaults d e)) dst | _ \<Rightarrow> dst)
      | Some _ \<Rightarrow> dst) src"

definition migrate :: "obj \<Rightarrow> obj" where
  "migrate cfg =
     (let version = get_or (JInt 0) ''schema_version'' cfg;
          merged = merge_defaults cfg default_config
      in if py_eq version (JInt SCHEMA_VERSION) then merged
         else dset ''schema_version'' (JInt SCHEMA_VERSION) merged)"

text \<open>\<open>_load_running\<close>: \<open>None\<close> stands for a missing or unreadable file. The stored document is an
  object, because only the store writes it.\<close>

definition load_running :: "obj option \<Rightarrow> json \<times> json" where
  "load_running file = (case file of
     None \<Rightarrow> (JObj default_config, JObj default_config)
   | Some cfg \<Rightarrow> (JObj (migrate cfg), JObj cfg))"

definition init_store :: "obj option \<Rightarrow> json option \<Rightarrow> 'w \<Rightarrow> 'w store" where
  "init_store file cand w = (let (cfg, on_disk) = load_running file in
     \<lparr>running = cfg, candidate = cfg, running_file = on_disk, candidate_file = cand,
      st_pending = None, st_timer = None, st_revisions = [], next_revision = 1,
      st_audit = [], next_audit = 1, st_events = [], world = w\<rparr>)"

subsection \<open>Candidate\<close>

definition discard_candidate :: "'w store \<Rightarrow> 'w store" where
  "discard_candidate st = st\<lparr>candidate := running st, candidate_file := None\<rparr>"

text \<open>The mutation is a parameter; it may raise. A refused candidate leaves the state alone.\<close>

definition stage :: "'w env \<Rightarrow> (json \<Rightarrow> verr + json) \<Rightarrow> 'w store \<Rightarrow> (verr + warning list) \<times> 'w store"
  where
  "stage env mutate st =
     (case rbind (mutate (candidate st)) (validate (env_caps env)) of
        Inl e \<Rightarrow> (Inl e, st)
      | Inr (trial, w) \<Rightarrow> (Inr w, st\<lparr>candidate := trial, candidate_file := Some trial\<rparr>))"

definition pending_changes :: "'w store \<Rightarrow> change list" where
  "pending_changes st = diff_config (running st) (candidate st) []"

definition pending_commit :: "'w store \<Rightarrow> (string \<times> time) option" where
  "pending_commit st = map_option (\<lambda>p. (pd_txid p, pd_deadline p)) (st_pending st)"

subsection \<open>The stages of a commit\<close>

text \<open>Every applier is asked; one that refuses adds its messages to the problems.\<close>

fun preflight :: "'w applier list \<Rightarrow> json \<Rightarrow> json \<Rightarrow> 'w \<Rightarrow> string list \<times> 'w" where
  "preflight [] old new w = ([], w)"
| "preflight (a # as) old new w =
     (case ap_preflight a of
        None \<Rightarrow> preflight as old new w
      | Some chk \<Rightarrow>
          (let (r, w1) = chk old new w;
               msgs = (case r of Inl exc \<Rightarrow> [ap_name a @ '' preflight raised: '' @ exc]
                       | Inr (ok, msgs) \<Rightarrow> if ok then [] else msgs);
               (rest, w2) = preflight as old new w1
           in (msgs @ rest, w2)))"

text \<open>Appliers run in order until one fails: the messages so far, whether confirmation is needed,
  and the name of the one that failed.\<close>

fun apply_all :: "'w applier list \<Rightarrow> json \<Rightarrow> json \<Rightarrow> 'w \<Rightarrow> (string list \<times> bool \<times> string option) \<times> 'w"
  where
  "apply_all [] old new w = (([], False, None), w)"
| "apply_all (a # as) old new w =
     (let (r, w1) = ap_run a old new w;
          res = (case r of Inl exc \<Rightarrow> \<lparr>ar_ok = False, ar_messages = [ap_name a @ '': '' @ exc],
                    ar_confirm = False\<rparr> | Inr x \<Rightarrow> x)
      in if \<not> ar_ok res then ((ar_messages res, ar_confirm res, Some (ap_name a)), w1)
         else let ((msgs, conf, failed), w2) = apply_all as old new w1
              in ((ar_messages res @ msgs, ar_confirm res \<or> conf, failed), w2))"

fun check_health :: "'w health_check list \<Rightarrow> json \<Rightarrow> 'w \<Rightarrow> string list \<times> 'w" where
  "check_health [] new w = ([], w)"
| "check_health (h # hs) new w =
     (let (r, w1) = hc_run h new w;
          msgs = (case r of Inl exc \<Rightarrow> [hc_name h @ '' health check raised: '' @ exc]
                  | Inr (ok, msgs) \<Rightarrow> if ok then [] else msgs);
          (rest, w2) = check_health hs new w1
      in (msgs @ rest, w2))"

text \<open>\<open>_rollback_to\<close>: the state first, then every applier, whatever the others do.\<close>

fun reapply :: "'w applier list \<Rightarrow> json \<Rightarrow> json \<Rightarrow> 'w \<Rightarrow> 'w" where
  "reapply [] current config w = w"
| "reapply (a # as) current config w = reapply as current config (snd (ap_run a current config w))"

definition rollback_to :: "'w env \<Rightarrow> json \<Rightarrow> 'w store \<Rightarrow> 'w store" where
  "rollback_to env config st =
     (let current = running st
      in st\<lparr>running := config, candidate := config, running_file := config,
            world := reapply (appliers env) current config (world st)\<rparr>)"

record commit_args =
  ca_user :: string
  ca_ip :: string
  ca_summary :: string
  ca_rollback_seconds :: int
  ca_confirm :: "bool option"
  ca_force :: bool

definition DEFAULT_ROLLBACK_SECONDS :: int where "DEFAULT_ROLLBACK_SECONDS = 120"

definition or_else :: "string \<Rightarrow> string \<Rightarrow> string" where
  "or_else s d = (if s = [] then d else s)"

definition checkpoint :: "commit_args \<Rightarrow> string \<Rightarrow> time \<Rightarrow> change list \<Rightarrow> 'w store \<Rightarrow> nat \<times> 'w store" where
  "checkpoint args txid t changes st =
     (if changes \<noteq> []
      then save_revision txid (ca_user args) ''checkpoint''
             (or_else (ca_summary args) ''pre-apply checkpoint'') (running st) t st
      else (latest_revision st, st))"

definition fail_commit :: "commit_args \<Rightarrow> string \<Rightarrow> time \<Rightarrow> change list \<Rightarrow> string \<Rightarrow> string \<Rightarrow> string list
    \<Rightarrow> 'w store \<Rightarrow> (commit_error + commit_result) \<times> 'w store" where
  "fail_commit args txid t changes stg detail details st =
     (Inl (CommitError stg txid details),
      audit txid (ca_user args) (ca_ip args) ''commit'' False detail changes t st)"

text \<open>A failure after the system was touched: roll back, audit, tell the event sink.\<close>

definition abort_commit :: "'w env \<Rightarrow> commit_args \<Rightarrow> string \<Rightarrow> time \<Rightarrow> change list \<Rightarrow> json \<Rightarrow> string
    \<Rightarrow> string \<Rightarrow> string list \<Rightarrow> 'w store \<Rightarrow> (commit_error + commit_result) \<times> 'w store" where
  "abort_commit env args txid t changes old stg detail details st =
     (let (r, st1) = fail_commit args txid t changes stg detail details (rollback_to env old st)
      in (r, emit_event (RolledBack txid stg) st1))"

definition finish_commit :: "commit_args \<Rightarrow> string \<Rightarrow> time \<Rightarrow> change list \<Rightarrow> json \<Rightarrow> warning list
    \<Rightarrow> string list \<Rightarrow> bool \<Rightarrow> nat \<Rightarrow> json \<Rightarrow> 'w store \<Rightarrow> (commit_error + commit_result) \<times> 'w store" where
  "finish_commit args txid t changes old warnings messages needs_confirm checkpoint_id new st =
     (let st1 = st\<lparr>running := new, running_file := new, candidate := new\<rparr>;
          label = or_else (ca_summary args) (summarise changes);
          (rev, st2) = (if changes \<noteq> []
             then save_revision txid (ca_user args) ''commit'' label new t st1
             else (checkpoint_id, st1));
          confirm = (case ca_confirm args of None \<Rightarrow> needs_confirm | Some b \<Rightarrow> b);
          st3 = (if confirm \<and> 0 < ca_rollback_seconds args
             then st2\<lparr>st_pending := Some \<lparr>pd_txid = txid, pd_previous = old, pd_revision = rev,
                        pd_deadline = t + of_int (ca_rollback_seconds args), pd_user = ca_user args\<rparr>,
                      st_timer := Some txid\<rparr>
             else st2);
          st4 = audit txid (ca_user args) (ca_ip args) ''commit'' True label changes t st3;
          st5 = emit_event (Committed txid rev (length changes) (st_pending st4 \<noteq> None)) st4
      in (Inr \<lparr>cr_txid = txid, cr_revision = Some rev, cr_changes = changes, cr_warnings = warnings,
               cr_messages = messages, cr_confirm_pending = (st_pending st5 \<noteq> None),
               cr_deadline = map_option pd_deadline (st_pending st5)\<rparr>, st5))"

definition apply_commit :: "'w env \<Rightarrow> commit_args \<Rightarrow> string \<Rightarrow> time \<Rightarrow> change list \<Rightarrow> json \<Rightarrow> json
    \<Rightarrow> warning list \<Rightarrow> 'w store \<Rightarrow> (commit_error + commit_result) \<times> 'w store" where
  "apply_commit env args txid t changes old new warnings st =
     (let (checkpoint_id, st1) = checkpoint args txid t changes st;
          ((messages, needs_confirm, failed), w1) = apply_all (appliers env) old new (world st1);
          st2 = st1\<lparr>world := w1\<rparr>
      in case failed of
           Some name \<Rightarrow> abort_commit env args txid t changes old ''apply''
             (''apply failed in '' @ name) messages st2
         | None \<Rightarrow>
             (let (unhealthy, w2) = check_health (health_checks env) new w1;
                  st3 = st2\<lparr>world := w2\<rparr>
              in if unhealthy \<noteq> []
                 then abort_commit env args txid t changes old ''health''
                        (str_join ''; '' unhealthy) unhealthy st3
                 else finish_commit args txid t changes old warnings messages needs_confirm
                        checkpoint_id new st3))"

text \<open>\<open>ConfigStore.commit\<close>. The transaction id and the time are arguments; the text of a
  \<open>ValidationError\<close> is its path here.\<close>

definition commit :: "'w env \<Rightarrow> commit_args \<Rightarrow> string \<Rightarrow> time \<Rightarrow> 'w store
    \<Rightarrow> (commit_error + commit_result) \<times> 'w store" where
  "commit env args txid t st =
     (case st_pending st of
        Some p \<Rightarrow> (Inl (CommitError ''lock'' (pd_txid p) []), st)
      | None \<Rightarrow>
          (let old = running st; changes = diff_config old (candidate st) [] in
           if changes = [] \<and> \<not> ca_force args
           then (Inr \<lparr>cr_txid = txid, cr_revision = None, cr_changes = [], cr_warnings = [],
                      cr_messages = [''no changes to commit''], cr_confirm_pending = False,
                      cr_deadline = None\<rparr>, st)
           else case validate (env_caps env) (candidate st) of
               Inl (Raised e) \<Rightarrow> (Inl (Uncaught e), st)
             | Inl (ValidationError path) \<Rightarrow> fail_commit args txid t changes ''validate''
                 (''validation failed: '' @ path) [] st
             | Inr (new, warnings) \<Rightarrow>
                 (let (problems, w1) = preflight (appliers env) old new (world st);
                      st1 = st\<lparr>world := w1\<rparr>
                  in if problems \<noteq> []
                     then fail_commit args txid t changes ''preflight''
                            (str_join ''; '' problems) problems st1
                     else apply_commit env args txid t changes old new warnings st1)))"

subsection \<open>Confirmation and rollback\<close>

definition confirm :: "string \<Rightarrow> string \<Rightarrow> time \<Rightarrow> 'w store \<Rightarrow> bool \<times> 'w store" where
  "confirm txid user t st =
     (case st_pending st of
        None \<Rightarrow> (False, st)
      | Some p \<Rightarrow>
          if pd_txid p \<noteq> txid then (False, st)
          else (True, audit txid user ''local'' ''confirm'' True ''commit confirmed'' [] t
                  (st\<lparr>st_timer := None, st_pending := None\<rparr>)))"

text \<open>\<open>_rollback_timeout\<close> holds the lock only while it clears the pending commit; the rollback itself
  is a second critical section, and other threads may run in between.\<close>

definition timeout_begin :: "string \<Rightarrow> 'w store \<Rightarrow> json option \<times> 'w store" where
  "timeout_begin txid st =
     (case st_pending st of
        None \<Rightarrow> (None, st)
      | Some p \<Rightarrow> if pd_txid p \<noteq> txid then (None, st)
                  else (Some (pd_previous p), st\<lparr>st_pending := None, st_timer := None\<rparr>))"

definition timeout_finish :: "'w env \<Rightarrow> string \<Rightarrow> time \<Rightarrow> json \<Rightarrow> 'w store \<Rightarrow> 'w store" where
  "timeout_finish env txid t previous st =
     emit_event (RolledBack txid ''confirm-timeout'')
       (audit txid ''system'' ''local'' ''rollback'' True ''rollback timer expired'' [] t
         (rollback_to env previous st))"

definition rollback_args :: "string \<Rightarrow> string \<Rightarrow> nat \<Rightarrow> commit_args" where
  "rollback_args user ip rid =
     \<lparr>ca_user = user, ca_ip = ip, ca_summary = ''rollback to revision '' @ show_int (int rid),
      ca_rollback_seconds = DEFAULT_ROLLBACK_SECONDS, ca_confirm = None, ca_force = False\<rparr>"

definition rollback_to_revision :: "'w env \<Rightarrow> nat \<Rightarrow> string \<Rightarrow> string \<Rightarrow> string \<Rightarrow> time \<Rightarrow> 'w store
    \<Rightarrow> (commit_error + commit_result) \<times> 'w store" where
  "rollback_to_revision env rid user ip txid t st =
     (case find_revision rid st of
        None \<Rightarrow> (Inl (CommitError ''revision'' ''-'' []), st)
      | Some config \<Rightarrow>
          commit env (rollback_args user ip rid) txid t
            (st\<lparr>candidate := JObj (migrate (obj_of config))\<rparr>))"

end
