(* ===== verification/Migration.thy ===== *)
theory Migration
  imports ConfigStore
begin

text \<open>
  The migration of a stored document to the current schema (\<open>ConfigStore._migrate\<close>) keeps what the
  user set and leaves nothing of the defaults out.
\<close>

text \<open>Nothing the user set is lost, and nothing of the defaults is missing, at any depth.\<close>

fun preserved :: "json \<Rightarrow> json \<Rightarrow> bool" where
  "preserved (JObj d) j = (case j of
     JObj e \<Rightarrow> list_all (\<lambda>(k, v). case map_of e k of None \<Rightarrow> False | Some w \<Rightarrow> preserved v w) d
   | _ \<Rightarrow> False)"
| "preserved v j = (v = j)"

text \<open>Where both sides are objects, every key of the second is in the first.\<close>

fun completed :: "json \<Rightarrow> json \<Rightarrow> bool" where
  "completed (JObj e) j = (case j of
     JObj d \<Rightarrow> list_all (\<lambda>(k, v). case map_of d k of None \<Rightarrow> False | Some w \<Rightarrow> completed v w) e
   | _ \<Rightarrow> True)"
| "completed _ j = True"

lemma preservedI:
  "(\<And>k v. (k, v) \<in> set d \<Longrightarrow> \<exists>w. map_of e k = Some w \<and> preserved v w) \<Longrightarrow>
     preserved (JObj d) (JObj e)"
  by (fastforce simp: list_all_iff)

lemma preservedD:
  "preserved (JObj d) (JObj e) \<Longrightarrow> map_of d k = Some v \<Longrightarrow> \<exists>w. map_of e k = Some w \<and> preserved v w"
  by (drule map_of_SomeD) (fastforce simp: list_all_iff split: option.splits)

lemma completedI:
  "(\<And>k v. (k, v) \<in> set e \<Longrightarrow> \<exists>w. map_of d k = Some w \<and> completed v w) \<Longrightarrow>
     completed (JObj e) (JObj d)"
  by (fastforce simp: list_all_iff)

lemma completedD:
  "completed (JObj e) (JObj d) \<Longrightarrow> (k, v) \<in> set e \<Longrightarrow> \<exists>w. map_of d k = Some w \<and> completed v w"
  by (fastforce simp: list_all_iff split: option.splits)

lemma preserved_refl: "wf_json j \<Longrightarrow> preserved j j"
proof (induction j)
  case (JObj d)
  then have "map_of d k = Some v \<and> preserved v v" if "(k, v) \<in> set d" for k v
    using that by (fastforce simp: list_all_iff snds.simps)
  then show ?case by (fastforce simp: list_all_iff)
qed auto

lemma completed_refl: "wf_json j \<Longrightarrow> completed j j"
proof (induction j)
  case (JObj d)
  then have "map_of d k = Some v \<and> completed v v" if "(k, v) \<in> set d" for k v
    using that by (fastforce simp: list_all_iff snds.simps)
  then show ?case by (fastforce simp: list_all_iff)
qed auto

lemma preserved_trans: "preserved a b \<Longrightarrow> preserved b c \<Longrightarrow> preserved a c"
proof (induction a arbitrary: b c)
  case (JObj d)
  then obtain e where b: "b = JObj e" by (auto split: json.splits)
  with JObj.prems obtain f where c: "c = JObj f" by (auto split: json.splits)
  have "\<exists>x. map_of f k = Some x \<and> preserved v x" if kv: "(k, v) \<in> set d" for k v
  proof -
    from JObj.prems(1) kv obtain w where w: "map_of e k = Some w" "preserved v w"
      unfolding b by (fastforce simp: list_all_iff split: option.splits)
    then obtain x where x: "map_of f k = Some x" "preserved w x"
      using JObj.prems(2) map_of_SomeD [OF w(1)] unfolding b c
      by (fastforce simp: list_all_iff split: option.splits)
    from JObj.IH [OF kv _ w(2) x(2)] x(1) show ?thesis by auto
  qed
  then show ?case unfolding c by (fastforce simp: list_all_iff)
qed auto

lemma completed_mono: "completed v w \<Longrightarrow> preserved w w' \<Longrightarrow> completed v w'"
proof (induction v arbitrary: w w')
  case (JObj e)
  show ?case
  proof (cases "\<exists>d. w = JObj d")
    case True
    then obtain d where w: "w = JObj d" by blast
    with JObj.prems(2) obtain d' where w': "w' = JObj d'" by (auto split: json.splits)
    have "\<exists>y. map_of d' k = Some y \<and> completed v y" if kv: "(k, v) \<in> set e" for k v
    proof -
      from JObj.prems(1) kv obtain x where x: "map_of d k = Some x" "completed v x"
        unfolding w by (fastforce simp: list_all_iff split: option.splits)
      then obtain y where y: "map_of d' k = Some y" "preserved x y"
        using JObj.prems(2) map_of_SomeD [OF x(1)] unfolding w w'
        by (fastforce simp: list_all_iff split: option.splits)
      from JObj.IH [OF kv _ x(2) y(2)] y(1) show ?thesis by auto
    qed
    then show ?thesis unfolding w' by (fastforce simp: list_all_iff)
  next
    case False
    with JObj.prems(2) have "w' = w" by (cases w) auto
    with JObj.prems(1) show ?thesis by simp
  qed
qed auto

lemma wf_map_of: "wf_json (JObj d) \<Longrightarrow> map_of d k = Some v \<Longrightarrow> wf_json v"
  by (rule wf_lookup)

lemma wf_obj_iff:
  "wf_json (JObj d) \<longleftrightarrow> distinct (map fst d) \<and> (\<forall>k v. map_of d k = Some v \<longrightarrow> wf_json v)"
  by (fastforce simp: list_all_iff map_of_eq_Some_iff)

lemma wf_dset: "wf_json (JObj d) \<Longrightarrow> wf_json v \<Longrightarrow> wf_json (JObj (dset k v d))"
  unfolding wf_obj_iff map_of_dset by (auto simp: dset_def distinct_update)

lemma preserved_dset:
  assumes "wf_json (JObj d)" and "\<And>w. map_of d k = Some w \<Longrightarrow> preserved w v"
  shows "preserved (JObj d) (JObj (dset k v d))"
proof -
  have "\<exists>y. map_of (dset k v d) k' = Some y \<and> preserved w y" if "(k', w) \<in> set d" for k' w
    using that assms preserved_refl wf_map_of [OF assms(1)]
    by (auto simp: map_of_dset)
  then show ?thesis by (rule preservedI)
qed

lemma merge_spec:
  "wf_json (JObj dst) \<Longrightarrow> wf_json (JObj src) \<Longrightarrow>
     wf_json (JObj (merge_defaults dst src)) \<and>
     preserved (JObj dst) (JObj (merge_defaults dst src)) \<and>
     completed (JObj src) (JObj (merge_defaults dst src))"
proof (induction dst src rule: merge_defaults.induct)
  case (1 dst)
  then show ?case using preserved_refl [OF "1.prems"(1)] by simp
next
  case (2 dst k v src)
  let ?dst1 = "case map_of dst k of None \<Rightarrow> dst @ [(k, v)]
      | Some (JObj d) \<Rightarrow> (case v of JObj e \<Rightarrow> dset k (JObj (merge_defaults d e)) dst | _ \<Rightarrow> dst)
      | Some _ \<Rightarrow> dst"
  from "2.prems"(2) have v: "wf_json v" and src: "wf_json (JObj src)" by simp_all
  have one: "wf_json (JObj ?dst1) \<and> preserved (JObj dst) (JObj ?dst1) \<and>
    (\<exists>w. map_of ?dst1 k = Some w \<and> completed v w)"
  proof (cases "map_of dst k")
    case None
    then have "\<exists>y. map_of (dst @ [(k, v)]) k' = Some y \<and> preserved w y" if "(k', w) \<in> set dst" for k' w
      using that "2.prems"(1) preserved_refl
      by (auto simp: map_add_def list_all_iff map_of_eq_None_iff split: option.splits)
    then have "preserved (JObj dst) (JObj (dst @ [(k, v)]))" by (rule preservedI)
    moreover have "wf_json (JObj (dst @ [(k, v)]))"
      using "2.prems"(1) v None map_of_eq_None_iff [of dst k] by simp
    moreover have "map_of (dst @ [(k, v)]) k = Some v" using None by (simp add: map_add_def)
    moreover have "?dst1 = dst @ [(k, v)]" using None by simp
    ultimately show ?thesis using completed_refl [OF v] by metis
  next
    case (Some w)
    show ?thesis
    proof (cases "\<exists>d e. w = JObj d \<and> v = JObj e")
      case True
      then obtain d e where de: "w = JObj d" "v = JObj e" by blast
      with Some have dst1: "?dst1 = dset k (JObj (merge_defaults d e)) dst" by simp
      from "2.IH"(1) [OF Some de] Some de v wf_map_of [OF "2.prems"(1) Some]
      have h: "wf_json (JObj (merge_defaults d e))" "preserved (JObj d) (JObj (merge_defaults d e))"
        "completed (JObj e) (JObj (merge_defaults d e))" by auto
      have "preserved (JObj dst) (JObj (dset k (JObj (merge_defaults d e)) dst))"
        by (rule preserved_dset [OF "2.prems"(1)]) (use Some de h(2) in simp)
      with wf_dset [OF "2.prems"(1) h(1)] h(3) de(2) show ?thesis
        unfolding dst1 map_of_dset by simp
    next
      case False
      then have "?dst1 = dst" using Some by (auto split: json.splits)
      moreover from False have "completed v w" by (cases v; cases w) auto
      ultimately show ?thesis using Some "2.prems"(1) preserved_refl [OF "2.prems"(1)] by metis
    qed
  qed
  then obtain w where w: "map_of ?dst1 k = Some w" "completed v w" by blast
  from "2.IH"(2) one src have ih: "wf_json (JObj (merge_defaults ?dst1 src))"
    "preserved (JObj ?dst1) (JObj (merge_defaults ?dst1 src))"
    "completed (JObj src) (JObj (merge_defaults ?dst1 src))" by blast+
  obtain w' where "map_of (merge_defaults ?dst1 src) k = Some w'" "preserved w w'"
    using preservedD [OF ih(2) w(1)] by blast
  with w(2) completed_mono ih one preserved_trans show ?case by (simp del: preserved.simps) blast
qed

text \<open>C37. Migrating a stored document keeps everything the user set except the schema version, which
  becomes the current one: every other value stays in place, at every depth, and every key of the
  default document that the stored one lacks is filled in, at every depth.\<close>

theorem migration_complete:
  assumes "wf_json (JObj cfg)"
  shows "map_of (migrate cfg) ''schema_version'' \<noteq> None \<and>
    py_eq (get_null ''schema_version'' (migrate cfg)) (JInt SCHEMA_VERSION) \<and>
    preserved (JObj (AList.delete ''schema_version'' cfg)) (JObj (migrate cfg)) \<and>
    completed (JObj (AList.delete ''schema_version'' default_config)) (JObj (migrate cfg))"
proof -
  have wd: "wf_json (JObj default_config)" by code_simp
  from merge_spec [OF assms wd] have m: "preserved (JObj cfg) (JObj (merge_defaults cfg default_config))"
    "completed (JObj default_config) (JObj (merge_defaults cfg default_config))" by auto
  let ?m = "merge_defaults cfg default_config"
  have other: "map_of (migrate cfg) k = map_of ?m k" if "k \<noteq> ''schema_version''" for k
    using that by (simp add: migrate_def Let_def map_of_dset)
  have "preserved (JObj (AList.delete ''schema_version'' cfg)) (JObj (migrate cfg))"
  proof (rule preservedI)
    fix k v assume "(k, v) \<in> set (AList.delete ''schema_version'' cfg)"
    then have "k \<noteq> ''schema_version''" "map_of cfg k = Some v"
      using assms by (auto simp: AList.delete_eq intro: map_of_is_SomeI)
    with preservedD [OF m(1)] other show "\<exists>w. map_of (migrate cfg) k = Some w \<and> preserved v w"
      by metis
  qed
  moreover have "completed (JObj (AList.delete ''schema_version'' default_config)) (JObj (migrate cfg))"
  proof (rule completedI)
    fix k v assume "(k, v) \<in> set (AList.delete ''schema_version'' default_config)"
    then have "k \<noteq> ''schema_version''" "(k, v) \<in> set default_config" by (auto simp: AList.delete_eq)
    with completedD [OF m(2)] other show "\<exists>w. map_of (migrate cfg) k = Some w \<and> completed v w"
      by metis
  qed
  moreover have "map_of (migrate cfg) ''schema_version'' \<noteq> None \<and>
      py_eq (get_null ''schema_version'' (migrate cfg)) (JInt SCHEMA_VERSION)"
  proof (cases "py_eq (get_or (JInt 0) ''schema_version'' cfg) (JInt SCHEMA_VERSION)")
    case True
    then obtain v where v: "map_of cfg ''schema_version'' = Some v" "py_eq v (JInt SCHEMA_VERSION)"
      by (auto simp: get_or_def SCHEMA_VERSION_def split: option.splits)
    then have "\<not> (\<exists>d. v = JObj d)" by auto
    with preservedD [OF m(1) v(1)] have "map_of ?m ''schema_version'' = Some v" by (cases v) auto
    with True v(2) show ?thesis by (simp add: migrate_def Let_def get_null_def get_or_def)
  next
    case False
    then show ?thesis by (simp add: migrate_def Let_def get_null_def get_or_def map_of_dset)
  qed
  ultimately show ?thesis by blast
qed

lemma migration_complete_witness:
  "preserved (JObj (AList.delete ''schema_version'' [(''schema_version'', JInt 2), (''users'', JObj [])]))
    (JObj (migrate [(''schema_version'', JInt 2), (''users'', JObj [])]))"
  using migration_complete [of "[(''schema_version'', JInt 2), (''users'', JObj [])]"] by simp

end
