(* ===== verification/Doc.thy ===== *)
theory Doc
  imports SchemaPolicy
begin

text \<open>
  How the parts that act on a running configuration read it. The document has passed \<open>validate\<close>, so
  a field that the validators check has its type; the accessors below are Python's \<open>get\<close> with a
  default on such a document, \<open>str\<close> as an f-string applies it, and iteration over a list. Where the
  code subscripts a key no validator guarantees, \<open>need_text\<close> raises the \<open>KeyError\<close>. A float or a
  container has no modelled text form.
\<close>

subsection \<open>Reading fields\<close>

definition the_default :: "'a \<Rightarrow> 'a option \<Rightarrow> 'a" where
  "the_default d v = (case v of None \<Rightarrow> d | Some x \<Rightarrow> x)"

definition list_of :: "json \<Rightarrow> json list" where
  "list_of j = (case j of JList xs \<Rightarrow> xs | _ \<Rightarrow> [])"

definition text_of :: "json \<Rightarrow> string" where
  "text_of j = the_default [] (str_scalar j)"

definition sub :: "string \<Rightarrow> obj \<Rightarrow> obj" where
  "sub k d = obj_of (get_null k d)"

definition arr :: "string \<Rightarrow> obj \<Rightarrow> json list" where
  "arr k d = list_of (get_null k d)"

definition text_or :: "string \<Rightarrow> string \<Rightarrow> obj \<Rightarrow> string" where
  "text_or dflt k d = text_of (get_or (JStr dflt) k d)"

definition is_set :: "string \<Rightarrow> obj \<Rightarrow> bool" where
  "is_set k d = truthy (get_null k d)"

definition on_by_default :: "string \<Rightarrow> obj \<Rightarrow> bool" where
  "on_by_default k d = truthy (get_or (JBool True) k d)"

definition need_text :: "string \<Rightarrow> obj \<Rightarrow> verr + string" where
  "need_text k d = (case map_of d k of None \<Rightarrow> Inl (Raised KeyError) | Some v \<Rightarrow> Inr (text_of v))"

subsection \<open>Loops that may raise, and text\<close>

fun rmap :: "('a \<Rightarrow> 'e + 'b) \<Rightarrow> 'a list \<Rightarrow> 'e + 'b list" where
  "rmap f [] = Inr []"
| "rmap f (x # xs) = rbind (f x) (\<lambda>y. rbind (rmap f xs) (\<lambda>ys. Inr (y # ys)))"

definition rconcat :: "('e + 'b list list) \<Rightarrow> 'e + 'b list" where
  "rconcat m = rbind m (\<lambda>xs. Inr (concat xs))"

text \<open>\<open>sorted(d.items())\<close>: the keys of a dictionary are distinct, so only they are compared.\<close>

definition sorted_items :: "(string \<times> 'a) list \<Rightarrow> (string \<times> 'a) list" where
  "sorted_items d = sort_key fst d"

definition dquote :: char where "dquote = chr 34"

definition quoted :: "string \<Rightarrow> string" where
  "quoted s = dquote # s @ [dquote]"

definition py_strip_char :: "char \<Rightarrow> string \<Rightarrow> string" where
  "py_strip_char c s = py_rstrip_char c (dropWhile (\<lambda>x. x = c) s)"

text \<open>\<open>key.partition("->")\<close> without the separator.\<close>

definition arrow_ends :: "string \<Rightarrow> string \<times> string" where
  "arrow_ends key = the_default (key, []) (split_arrow key)"

definition py_hex :: "int \<Rightarrow> string" where
  "py_hex n = (if n < 0 then ''-0x'' @ show_hex (- n) else ''0x'' @ show_hex n)"

lemma rmap_eq [res_simps]:
  "rmap f xs = Inr ys \<longleftrightarrow> length ys = length xs \<and> (\<forall>i < length xs. f (xs ! i) = Inr (ys ! i))"
proof (induction xs arbitrary: ys)
  case (Cons x xs)
  have split: "(\<forall>k < Suc n. P k) \<longleftrightarrow> P 0 \<and> (\<forall>k < n. P (Suc k))" for P and n :: nat
    by (auto simp: less_Suc_eq_0_disj)
  show ?case by (cases ys) (auto simp: rbind_eq_Inr Cons.IH split)
qed auto

lemma rmap_mem: "rmap f xs = Inr ys \<Longrightarrow> y \<in> set ys \<Longrightarrow> \<exists>x \<in> set xs. f x = Inr y"
  by (fastforce simp: rmap_eq in_set_conv_nth)

lemma rmap_image: "rmap f xs = Inr ys \<Longrightarrow> x \<in> set xs \<Longrightarrow> \<exists>y \<in> set ys. f x = Inr y"
  by (induction xs arbitrary: ys) (auto simp: rbind_eq_Inr)

lemma rmap_total: "(\<And>x. x \<in> set xs \<Longrightarrow> \<exists>y. f x = Inr y) \<Longrightarrow> \<exists>ys. rmap f xs = Inr ys"
proof (induction xs)
  case (Cons x xs)
  then obtain y ys where "f x = Inr y" and "rmap f xs = Inr ys" by fastforce
  then show ?case by simp
qed simp

lemma set_sorted_items [simp]: "set (sorted_items d) = set d"
  by (simp add: sorted_items_def)

subsection \<open>Words and lines\<close>

text \<open>A non-empty rest starts with a character that the next word takes.\<close>

lemma py_words_shorter:
  assumes "dropWhile py_isspace s \<noteq> []"
  shows "length (dropWhile (\<lambda>c. \<not> py_isspace c) (dropWhile py_isspace s)) < length s"
proof -
  let ?t = "dropWhile py_isspace s"
  from assms obtain c cs where t: "?t = c # cs" by (cases ?t) auto
  then have "\<not> py_isspace c" using hd_dropWhile [OF assms] by simp
  then have "length (dropWhile (\<lambda>c. \<not> py_isspace c) ?t) \<le> length cs"
    by (simp add: t length_dropWhile_le)
  also have "length cs < length ?t" by (simp add: t)
  also have "length ?t \<le> length s" by (rule length_dropWhile_le)
  finally show ?thesis .
qed

text \<open>\<open>line.split()\<close>: the words between runs of white space.\<close>

function py_words :: "string \<Rightarrow> string list" where
  "py_words s = (let t = dropWhile py_isspace s in
     if t = [] then []
     else takeWhile (\<lambda>c. \<not> py_isspace c) t # py_words (dropWhile (\<lambda>c. \<not> py_isspace c) t))"
  by pat_completeness auto
termination
  by (relation "measure length") (auto simp: py_words_shorter simp del: dropWhile_eq_Nil_conv)

declare py_words.simps [simp del]

text \<open>\<open>splitlines\<close> for the line boundaries up to U+00FF;
  the model also gives an empty line between a carriage return and a newline and after the last
  newline, which no caller tells from none.\<close>

definition line_break :: "char \<Rightarrow> bool" where
  "line_break c = (in_range 10 13 c \<or> in_range 28 30 c \<or> code c = 133)"

fun split_lines :: "string \<Rightarrow> string list" where
  "split_lines [] = [[]]"
| "split_lines (c # s) = (case split_lines s of [] \<Rightarrow> [] | l # ls \<Rightarrow>
     if line_break c then [] # l # ls else (c # l) # ls)"

text \<open>\<open>int(v)\<close> of a configuration value; a float is cut off towards zero.\<close>

definition py_int :: "json \<Rightarrow> verr + int" where
  "py_int v = (case v of
     JInt n \<Rightarrow> Inr n
   | JBool b \<Rightarrow> Inr (if b then 1 else 0)
   | JFloat q \<Rightarrow> Inr (if q < 0 then - \<lfloor>- q\<rfloor> else \<lfloor>q\<rfloor>)
   | JStr s \<Rightarrow> (case py_int_of_string s of None \<Rightarrow> Inl (Raised ValueError) | Some n \<Rightarrow> Inr n)
   | _ \<Rightarrow> Inl (Raised TypeError))"

text \<open>The \<open>key=value\<close> lines of a report, as a dictionary; a later line replaces an earlier one.\<close>

definition key_values :: "string \<Rightarrow> (string \<times> string) list" where
  "key_values txt = fold (\<lambda>line d. case py_partition CHR ''='' line of
       (k, found, v) \<Rightarrow> if found then AList.update (py_strip k) (py_strip v) d else d)
     (split_lines txt) []"

end
