(* ===== verification/Auth.thy ===== *)
theory Auth
  imports ConfigStore Doc
begin

text \<open>
  Local accounts, sessions, API tokens and role permissions: \<open>auth.py\<close>. The hash functions are
  parameters (\<open>crypto\<close>); random values and the time are arguments. Accounts live in the
  configuration, so every change of an account goes through the store's \<open>stage\<close> and \<open>commit\<close>.
\<close>

subsection \<open>Constants and permissions\<close>

definition SESSION_TTL :: time where "SESSION_TTL = 8 * 3600"
definition SESSION_IDLE_TTL :: time where "SESSION_IDLE_TTL = 60 * 60"
definition LOGIN_WINDOW :: time where "LOGIN_WINDOW = 300"
definition LOGIN_MAX_FAILURES :: nat where "LOGIN_MAX_FAILURES = 8"

definition ROLE_PERMISSIONS :: "(string \<times> string list) list" where
  "ROLE_PERMISSIONS =
     [(''owner'', [''*'']), (''super-admin'', [''*'']),
      (''network-admin'', [''network.read'', ''network.write'', ''routing.read'', ''routing.write'',
         ''system.read'', ''audit.read'', ''vpn.read'']),
      (''security-admin'', [''security.read'', ''security.write'', ''network.read'', ''vpn.read'',
         ''vpn.write'', ''system.read'', ''audit.read'']),
      (''helpdesk'', [''network.read'', ''security.read'', ''system.read'', ''clients.write'']),
      (''read-only'', [''network.read'', ''security.read'', ''routing.read'', ''vpn.read'',
         ''system.read'', ''audit.read''])]"

definition ALL_PERMISSIONS :: "string list" where
  "ALL_PERMISSIONS = sort
     [''network.read'', ''network.write'', ''security.read'', ''security.write'', ''routing.read'',
      ''routing.write'', ''vpn.read'', ''vpn.write'', ''system.read'', ''system.write'',
      ''firmware.update'', ''backup.manage'', ''users.manage'', ''audit.read'', ''clients.write'']"

definition role_permissions :: "string \<Rightarrow> string list" where
  "role_permissions role = (case map_of ROLE_PERMISSIONS role of None \<Rightarrow> [] | Some ps \<Rightarrow> ps)"

record principal =
  pr_name :: string
  pr_role :: string
  pr_kind :: string
  pr_permissions :: "string list"

definition new_principal :: "string \<Rightarrow> string \<Rightarrow> string list option \<Rightarrow> string \<Rightarrow> principal" where
  "new_principal name role permissions kind =
     \<lparr>pr_name = name, pr_role = role, pr_kind = kind,
      pr_permissions = (case permissions of Some ps \<Rightarrow> ps | None \<Rightarrow> role_permissions role)\<rparr>"

text \<open>A write permission implies the matching read permission.\<close>

definition can :: "principal \<Rightarrow> string \<Rightarrow> bool" where
  "can p permission =
     (if ''*'' \<in> set (pr_permissions p) then True
      else if permission \<in> set (pr_permissions p) then True
      else let (area, _, action) = py_partition CHR ''.'' permission
           in action = ''read'' \<and> area @ ''.write'' \<in> set (pr_permissions p))"

text \<open>\<open>as_dict\<close>; the permissions are a set, so they are sorted without repetition.\<close>

definition principal_dict :: "principal \<Rightarrow> obj" where
  "principal_dict p =
     [(''name'', JStr (pr_name p)), (''role'', JStr (pr_role p)), (''kind'', JStr (pr_kind p)),
      (''permissions'', JList (map JStr (sort (remdups (pr_permissions p)))))]"

subsection \<open>Passwords\<close>

record crypto =
  scrypt :: "string \<Rightarrow> int list \<Rightarrow> int \<Rightarrow> int \<Rightarrow> int \<Rightarrow> int list option"
  hmac_sha1 :: "int list \<Rightarrow> int list \<Rightarrow> int list"
  sha256_hex :: "string \<Rightarrow> string"

definition SCRYPT_N :: int where "SCRYPT_N = 2 ^ 14"
definition SCRYPT_R :: int where "SCRYPT_R = 8"
definition SCRYPT_P :: int where "SCRYPT_P = 1"

text \<open>\<open>bytes.hex\<close> and \<open>bytes.fromhex\<close>, which skips white space between bytes.\<close>

definition to_hex :: "int list \<Rightarrow> string" where
  "to_hex bs = concat (map hex2 bs)"

fun from_hex :: "string \<Rightarrow> int list option" where
  "from_hex [] = Some []"
| "from_hex [c] = (if py_isspace c then Some [] else None)"
| "from_hex (a # b # s) =
     (if py_isspace a then from_hex (b # s)
      else if is_hex a \<and> is_hex b
      then map_option (\<lambda>bs. (16 * int_of_hex [a] + int_of_hex [b]) # bs) (from_hex s)
      else None)"

text \<open>\<open>hash_password\<close> with the salt it drew; scrypt with the fixed parameters always succeeds.\<close>

definition hash_password :: "crypto \<Rightarrow> int list \<Rightarrow> string \<Rightarrow> string" where
  "hash_password cy salt password =
     (case scrypt cy password salt SCRYPT_N SCRYPT_R SCRYPT_P of
        None \<Rightarrow> []
      | Some digest \<Rightarrow>
          py_join ''$'' [''scrypt'', show_int SCRYPT_N, show_int SCRYPT_R, show_int SCRYPT_P,
            to_hex salt, to_hex digest])"

text \<open>\<open>compare_digest\<close> is string equality.\<close>

definition verify_password :: "crypto \<Rightarrow> string \<Rightarrow> string \<Rightarrow> bool" where
  "verify_password cy password stored =
     (case py_split CHR ''$'' stored of
        [algorithm, n, r, p, salt_hex, digest_hex] \<Rightarrow>
          (if algorithm \<noteq> ''scrypt'' then False
           else case (from_hex salt_hex, py_int_of_string n, py_int_of_string r, py_int_of_string p) of
               (Some salt, Some n', Some r', Some p') \<Rightarrow>
                 (case scrypt cy password salt n' r' p' of
                    None \<Rightarrow> False | Some digest \<Rightarrow> to_hex digest = digest_hex)
             | _ \<Rightarrow> False)
      | _ \<Rightarrow> False)"

definition password_classes :: "string \<Rightarrow> nat" where
  "password_classes p = length (filter id
     [list_ex py_islower p, list_ex py_isupper p, list_ex py_isdigit p,
      list_ex (\<lambda>c. \<not> py_isalnum c) p])"

definition password_ok :: "string \<Rightarrow> bool" where
  "password_ok p \<longleftrightarrow> 10 \<le> length p \<and> 3 \<le> password_classes p"

subsection \<open>TOTP\<close>

definition base32_value :: "char \<Rightarrow> int option" where
  "base32_value c = (if is_upper_ascii c then Some (code c - 65)
     else if 50 \<le> code c \<and> code c \<le> 55 then Some (code c - 24) else None)"

definition py_upper_ascii :: "string \<Rightarrow> string" where
  "py_upper_ascii s = map (\<lambda>c. if is_lower_ascii c then chr (code c - 32) else c) s"

text \<open>The bytes of a big-endian number.\<close>

fun be_bytes :: "nat \<Rightarrow> int \<Rightarrow> int list" where
  "be_bytes 0 n = []"
| "be_bytes (Suc k) n = be_bytes k (n div 256) @ [n mod 256]"

fun chunks :: "nat \<Rightarrow> 'a list \<Rightarrow> 'a list list" where
  "chunks n [] = []"
| "chunks n (x # xs) = (if n = 0 then [x # xs] else take n (x # xs) # chunks n (drop n (x # xs)))"

definition quantum :: "int list \<Rightarrow> int list" where
  "quantum ds = be_bytes 5 (foldl (\<lambda>acc d. acc * 32 + d) 0 (take 8 (ds @ replicate 8 0)))"

text \<open>\<open>b32decode\<close> of the secret padded to a multiple of eight: the number of padding characters must
  be 0, 1, 3, 4 or 6, and the bytes they stand for are cut off. \<open>None\<close> is \<open>binascii.Error\<close>.\<close>

definition b32_decode :: "string \<Rightarrow> int list option" where
  "b32_decode s =
     (let t = py_rstrip_char CHR ''='' (py_upper_ascii s);
          padded = length s + (8 - length s mod 8) mod 8;
          pad = padded - length t
      in if pad \<notin> {0, 1, 3, 4, 6} then None
         else map_option (\<lambda>ds. let bs = concat (map quantum (chunks 8 ds))
              in take (length bs - (if pad = 0 then 0 else 5 - (43 - 5 * pad) div 8)) bs)
            (all_some (map base32_value t)))"

definition totp_counter :: "time \<Rightarrow> int" where
  "totp_counter ts = \<lfloor>ts / 30\<rfloor>"

definition zfill6 :: "string \<Rightarrow> string" where
  "zfill6 s = replicate (6 - length s) CHR ''0'' @ s"

text \<open>Dynamic truncation of the 20-byte digest.\<close>

definition totp_code :: "crypto \<Rightarrow> int list \<Rightarrow> int \<Rightarrow> string" where
  "totp_code cy key counter =
     (let digest = hmac_sha1 cy key (be_bytes 8 counter);
          offset = nat (last digest mod 16);
          word = foldl (\<lambda>acc b. acc * 256 + b) 0 (take 4 (drop offset digest)) mod 2 ^ 31
      in zfill6 (show_int (word mod 10 ^ 6)))"

definition totp_now :: "crypto \<Rightarrow> string \<Rightarrow> time \<Rightarrow> string option" where
  "totp_now cy secret ts = map_option (\<lambda>key. totp_code cy key (totp_counter ts)) (b32_decode secret)"

text \<open>\<open>None\<close> is an undecodable secret, which raises.\<close>

definition totp_verify :: "crypto \<Rightarrow> string \<Rightarrow> string \<Rightarrow> time \<Rightarrow> bool option" where
  "totp_verify cy secret given ts =
     (case b32_decode secret of None \<Rightarrow> None
      | Some key \<Rightarrow> Some (list_ex (\<lambda>drift. totp_code cy key (totp_counter (ts + drift * 30)) = py_strip given)
           [-1, 0, 1]))"

subsection \<open>State\<close>

record session =
  se_csrf :: string
  se_username :: string
  se_role :: string
  se_created :: time
  se_last_seen :: time
  se_ip :: string
  se_agent :: string

record login_row =
  lg_id :: nat
  lg_ts :: time
  lg_username :: string
  lg_ip :: string
  lg_success :: bool
  lg_reason :: string
  lg_agent :: string

text \<open>Sessions by token, in the order they were created; failure times by key.\<close>

record auth =
  au_sessions :: "(string \<times> session) list"
  au_failures :: "(string \<times> time list) list"
  au_logins :: "login_row list"
  next_login :: nat
  au_alerts :: "(string \<times> string) list"

datatype auth_error =
    PermissionError string
  | AuthValueError
  | StageError verr
  | CommitFailed commit_error

definition max_logins :: nat where "max_logins = 2000"

definition log_login :: "string \<Rightarrow> string \<Rightarrow> bool \<Rightarrow> string \<Rightarrow> string \<Rightarrow> time \<Rightarrow> auth \<Rightarrow> auth" where
  "log_login username ip success reason agent t a =
     (let r = \<lparr>lg_id = next_login a, lg_ts = t, lg_username = username, lg_ip = ip,
               lg_success = success, lg_reason = reason, lg_agent = take 200 agent\<rparr>
      in a\<lparr>au_logins := keep_newest max_logins r (au_logins a), next_login := Suc (next_login a)\<rparr>)"

definition login_history :: "nat \<Rightarrow> auth \<Rightarrow> login_row list" where
  "login_history limit a = take limit (au_logins a)"

subsection \<open>Rate limit\<close>

definition attempts_of :: "string \<Rightarrow> auth \<Rightarrow> time list" where
  "attempts_of key a = (case map_of (au_failures a) key of None \<Rightarrow> [] | Some ts \<Rightarrow> ts)"

definition rate_limited :: "string \<Rightarrow> time \<Rightarrow> auth \<Rightarrow> bool \<times> auth" where
  "rate_limited key t a =
     (let attempts = filter (\<lambda>x. x > t - LOGIN_WINDOW) (attempts_of key a)
      in (LOGIN_MAX_FAILURES \<le> length attempts,
          a\<lparr>au_failures := AList.update key attempts (au_failures a)\<rparr>))"

definition record_failure :: "string \<Rightarrow> time \<Rightarrow> auth \<Rightarrow> auth" where
  "record_failure key t a =
     a\<lparr>au_failures := AList.update key (attempts_of key a @ [t]) (au_failures a)\<rparr>"

subsection \<open>Login\<close>

definition users_of :: "json \<Rightarrow> json" where
  "users_of cfg = get_or (JObj []) ''users'' (obj_of cfg)"

definition find_user :: "json \<Rightarrow> string \<Rightarrow> obj option" where
  "find_user cfg username = map_option obj_of (map_of (obj_of (users_of cfg)) username)"

definition str_or :: "string \<Rightarrow> string \<Rightarrow> obj \<Rightarrow> string" where
  "str_or dflt k d = (case get_or (JStr dflt) k d of JStr s \<Rightarrow> s | _ \<Rightarrow> [])"

record login_request =
  lr_username :: string
  lr_password :: string
  lr_ip :: string
  lr_agent :: string
  lr_totp :: "string option"

text \<open>The random values of a login: the hash a missing user is compared with, the token, the CSRF
  token.\<close>

record login_random =
  rd_decoy :: string
  rd_token :: string
  rd_csrf :: string

definition ip_key :: "string \<Rightarrow> string" where "ip_key ip = ''ip:'' @ ip"
definition user_key :: "string \<Rightarrow> string" where "user_key u = ''user:'' @ u"

definition stored_hash :: "obj option \<Rightarrow> string \<Rightarrow> json" where
  "stored_hash user decoy =
     (let h = (case user of None \<Rightarrow> JNull | Some u \<Rightarrow> get_null ''password_hash'' u)
      in if truthy h then h else JStr decoy)"

text \<open>The password step: \<open>Inl\<close> is an exception (a stored hash that is no string).\<close>

definition password_matches :: "crypto \<Rightarrow> obj option \<Rightarrow> string \<Rightarrow> string \<Rightarrow> pyexc + bool" where
  "password_matches cy user password decoy =
     (case stored_hash user decoy of
        JStr s \<Rightarrow> Inr (verify_password cy password s \<and> user \<noteq> None)
      | _ \<Rightarrow> Inl AttributeError)"

text \<open>The MFA step: nothing to do without a secret.\<close>

definition mfa_ok :: "crypto \<Rightarrow> obj \<Rightarrow> string option \<Rightarrow> time \<Rightarrow> pyexc + bool" where
  "mfa_ok cy user totp t =
     (if \<not> truthy (get_null ''totp_secret'' user) then Inr True
      else case totp of None \<Rightarrow> Inr False
        | Some given \<Rightarrow>
            if given = [] then Inr False
            else case get_null ''totp_secret'' user of
                JStr s \<Rightarrow> (case totp_verify cy s given t of None \<Rightarrow> Inl ValueError | Some b \<Rightarrow> Inr b)
              | _ \<Rightarrow> Inl AttributeError)"

definition refuse_login :: "login_request \<Rightarrow> string \<Rightarrow> time \<Rightarrow> auth \<Rightarrow> (auth_error + session) \<times> auth"
  where
  "refuse_login q reason t a =
     (Inl (PermissionError reason), log_login (lr_username q) (lr_ip q) False reason (lr_agent q) t a)"

definition open_session :: "login_request \<Rightarrow> login_random \<Rightarrow> obj \<Rightarrow> time \<Rightarrow> auth
    \<Rightarrow> (auth_error + session) \<times> auth" where
  "open_session q rnd user t a =
     (let s = \<lparr>se_csrf = rd_csrf rnd, se_username = lr_username q,
               se_role = str_or ''read-only'' ''role'' user, se_created = t, se_last_seen = t,
               se_ip = lr_ip q, se_agent = lr_agent q\<rparr>
      in (Inr s, log_login (lr_username q) (lr_ip q) True [] (lr_agent q) t
            (a\<lparr>au_sessions := AList.update (rd_token rnd) s (au_sessions a)\<rparr>)))"

definition check_credentials :: "crypto \<Rightarrow> json \<Rightarrow> login_request \<Rightarrow> login_random \<Rightarrow> time \<Rightarrow> auth
    \<Rightarrow> (auth_error + session) \<times> auth" where
  "check_credentials cy cfg q rnd t a =
     (let user = find_user cfg (lr_username q) in
      case password_matches cy user (lr_password q) (rd_decoy rnd) of
        Inl e \<Rightarrow> (Inl (StageError (Raised e)), a)
      | Inr False \<Rightarrow>
          (let a1 = record_failure (user_key (lr_username q)) t
                      (record_failure (ip_key (lr_ip q)) t a);
               (r, a2) = refuse_login q ''invalid credentials'' t a1
           in (r, a2\<lparr>au_alerts := au_alerts a2 @ [(lr_username q, lr_ip q)]\<rparr>))
      | Inr True \<Rightarrow>
          (case mfa_ok cy (the_default [] user) (lr_totp q) t of
             Inl e \<Rightarrow> (Inl (StageError (Raised e)), a)
           | Inr False \<Rightarrow>
               refuse_login q ''MFA failed'' t (record_failure (user_key (lr_username q)) t a)
           | Inr True \<Rightarrow> open_session q rnd (the_default [] user) t a))"

definition login :: "crypto \<Rightarrow> json \<Rightarrow> login_request \<Rightarrow> login_random \<Rightarrow> time \<Rightarrow> auth
    \<Rightarrow> (auth_error + session) \<times> auth" where
  "login cy cfg q rnd t a =
     (let (limited, a1) = rate_limited (ip_key (lr_ip q)) t a in
      if limited then refuse_login q ''rate limited'' t a1
      else let (limited2, a2) = rate_limited (user_key (lr_username q)) t a1 in
        if limited2 then refuse_login q ''rate limited'' t a2
        else check_credentials cy cfg q rnd t a2)"

subsection \<open>Sessions\<close>

definition logout :: "string \<Rightarrow> auth \<Rightarrow> bool \<times> auth" where
  "logout token a = (map_of (au_sessions a) token \<noteq> None,
     a\<lparr>au_sessions := AList.delete token (au_sessions a)\<rparr>)"

definition revoke_user_sessions :: "string \<Rightarrow> auth \<Rightarrow> nat \<times> auth" where
  "revoke_user_sessions username a =
     (length (filter (\<lambda>(_, s). se_username s = username) (au_sessions a)),
      a\<lparr>au_sessions := filter (\<lambda>(_, s). se_username s \<noteq> username) (au_sessions a)\<rparr>)"

text \<open>What the list of sessions shows: everything but the token, of which eight characters are the id,
  and the CSRF token.\<close>

record session_view =
  sv_id :: string
  sv_username :: string
  sv_role :: string
  sv_created :: time
  sv_last_seen :: time
  sv_ip :: string
  sv_agent :: string

definition session_list :: "auth \<Rightarrow> session_view list" where
  "session_list a = map (\<lambda>(t, s).
     \<lparr>sv_id = take 8 t, sv_username = se_username s, sv_role = se_role s, sv_created = se_created s,
      sv_last_seen = se_last_seen s, sv_ip = se_ip s, sv_agent = se_agent s\<rparr>) (au_sessions a)"

text \<open>The first session whose token starts with the id.\<close>

definition revoke_session :: "string \<Rightarrow> auth \<Rightarrow> bool \<times> auth" where
  "revoke_session sid a =
     (case find (\<lambda>(t, _). startswith t sid) (au_sessions a) of
        None \<Rightarrow> (False, a)
      | Some (t, _) \<Rightarrow> (True, a\<lparr>au_sessions := AList.delete t (au_sessions a)\<rparr>))"

definition session_expired :: "time \<Rightarrow> session \<Rightarrow> bool" where
  "session_expired t s \<longleftrightarrow> t - se_created s > SESSION_TTL \<or> t - se_last_seen s > SESSION_IDLE_TTL"

definition principal_for_session :: "string \<Rightarrow> time \<Rightarrow> auth \<Rightarrow> principal option \<times> auth" where
  "principal_for_session token t a =
     (case map_of (au_sessions a) token of
        None \<Rightarrow> (None, a)
      | Some s \<Rightarrow>
          if session_expired t s then (None, a\<lparr>au_sessions := AList.delete token (au_sessions a)\<rparr>)
          else (Some (new_principal (se_username s) (se_role s) None ''session''),
                a\<lparr>au_sessions := AList.update token (s\<lparr>se_last_seen := t\<rparr>) (au_sessions a)\<rparr>))"

definition csrf_for_session :: "string \<Rightarrow> auth \<Rightarrow> string option" where
  "csrf_for_session token a = map_option se_csrf (map_of (au_sessions a) token)"

subsection \<open>Accounts in the configuration\<close>

definition needs_setup :: "'w store \<Rightarrow> bool" where
  "needs_setup st = (\<not> truthy (get_null ''users'' (obj_of (running st))))"

text \<open>\<open>config["users"]\<close> updated by a function of the dictionary.\<close>

definition with_users :: "(obj \<Rightarrow> verr + obj) \<Rightarrow> json \<Rightarrow> verr + json" where
  "with_users f cfg =
     rbind (subscript cfg ''users'') (\<lambda>us.
       case us of JObj d \<Rightarrow> rbind (f d) (\<lambda>d'. Inr (JObj (dset ''users'' (JObj d') (obj_of cfg))))
       | _ \<Rightarrow> Inl (Raised TypeError))"

definition user_entry :: "string \<Rightarrow> string \<Rightarrow> time \<Rightarrow> json" where
  "user_entry role pw_hash t = JObj
     [(''role'', JStr role), (''password_hash'', JStr pw_hash), (''created'', JFloat t),
      (''totp_secret'', JNull)]"

definition no_confirm :: "string \<Rightarrow> string \<Rightarrow> commit_args" where
  "no_confirm user summary =
     \<lparr>ca_user = user, ca_ip = ''local'', ca_summary = summary,
      ca_rollback_seconds = DEFAULT_ROLLBACK_SECONDS, ca_confirm = Some False, ca_force = False\<rparr>"

text \<open>Every account operation: stage the change, then commit whatever the candidate now is.\<close>

definition stage_commit :: "'w env \<Rightarrow> (json \<Rightarrow> verr + json) \<Rightarrow> commit_args \<Rightarrow> string \<Rightarrow> time \<Rightarrow> 'w store
    \<Rightarrow> (auth_error + unit) \<times> 'w store" where
  "stage_commit env mutate args txid t st =
     (case stage env mutate st of
        (Inl e, st1) \<Rightarrow> (Inl (StageError e), st1)
      | (Inr _, st1) \<Rightarrow>
          (case commit env args txid t st1 of
             (Inl e, st2) \<Rightarrow> (Inl (CommitFailed e), st2)
           | (Inr _, st2) \<Rightarrow> (Inr (), st2)))"

definition setup_mutate :: "string \<Rightarrow> string \<Rightarrow> time \<Rightarrow> json \<Rightarrow> verr + json" where
  "setup_mutate username pw_hash t cfg =
     rbind (with_users (\<lambda>d. Inr (dset username (user_entry ''owner'' pw_hash t) d)) cfg) (\<lambda>cfg1.
     rbind (subscript cfg1 ''system'') (\<lambda>sys.
       case sys of JObj d \<Rightarrow> Inr (JObj (dset ''system''
           (JObj (dset ''setup_complete'' (JBool True) d)) (obj_of cfg1)))
       | _ \<Rightarrow> Inl (Raised TypeError)))"

definition create_owner :: "crypto \<Rightarrow> 'w env \<Rightarrow> string \<Rightarrow> string \<Rightarrow> int list \<Rightarrow> string \<Rightarrow> time \<Rightarrow> 'w store
    \<Rightarrow> (auth_error + unit) \<times> 'w store" where
  "create_owner cy env username password salt txid t st =
     (if \<not> needs_setup st then (Inl (PermissionError ''setup completed''), st)
      else if \<not> password_ok password then (Inl AuthValueError, st)
      else stage_commit env (setup_mutate username (hash_password cy salt password) t)
             (no_confirm username ''initial setup'') txid t st)"

definition create_user :: "crypto \<Rightarrow> 'w env \<Rightarrow> string \<Rightarrow> string \<Rightarrow> string \<Rightarrow> string \<Rightarrow> int list \<Rightarrow> string
    \<Rightarrow> time \<Rightarrow> 'w store \<Rightarrow> (auth_error + unit) \<times> 'w store" where
  "create_user cy env actor username password role salt txid t st =
     (if role \<notin> fst ` set ROLE_PERMISSIONS then (Inl AuthValueError, st)
      else if \<not> password_ok password then (Inl AuthValueError, st)
      else if username \<in> fst ` set (obj_of (users_of (running st))) then (Inl AuthValueError, st)
      else stage_commit env
             (with_users (\<lambda>d. Inr (dset username (user_entry role (hash_password cy salt password) t) d)))
             (no_confirm actor (''create user '' @ username)) txid t st)"

definition password_mutate :: "string \<Rightarrow> string \<Rightarrow> json \<Rightarrow> verr + json" where
  "password_mutate username pw_hash =
     with_users (\<lambda>d. case map_of d username of
         None \<Rightarrow> Inl (Raised ValueError)
       | Some (JObj u) \<Rightarrow> Inr (dset username (JObj (dset ''password_hash'' (JStr pw_hash) u)) d)
       | Some _ \<Rightarrow> Inl (Raised TypeError))"

text \<open>The operations that also end the user's sessions work on the accounts and the sessions.\<close>

definition set_password :: "crypto \<Rightarrow> 'w env \<Rightarrow> string \<Rightarrow> string \<Rightarrow> string \<Rightarrow> int list \<Rightarrow> string \<Rightarrow> time
    \<Rightarrow> 'w store \<times> auth \<Rightarrow> (auth_error + unit) \<times> 'w store \<times> auth" where
  "set_password cy env actor username password salt txid t = (\<lambda>(st, a).
     if \<not> password_ok password then (Inl AuthValueError, st, a)
     else case stage_commit env (password_mutate username (hash_password cy salt password))
            (no_confirm actor (''password change for '' @ username)) txid t st of
          (Inl e, st1) \<Rightarrow> (Inl e, st1, a)
        | (Inr _, st1) \<Rightarrow> (Inr (), st1, snd (revoke_user_sessions username a)))"

definition owners_of :: "json \<Rightarrow> string list" where
  "owners_of cfg = map fst (filter (\<lambda>(_, d). get_null ''role'' (obj_of d) = JStr ''owner'')
     (obj_of (users_of cfg)))"

definition delete_user :: "'w env \<Rightarrow> string \<Rightarrow> string \<Rightarrow> string \<Rightarrow> time
    \<Rightarrow> 'w store \<times> auth \<Rightarrow> (auth_error + unit) \<times> 'w store \<times> auth" where
  "delete_user env actor username txid t = (\<lambda>(st, a).
     case map_of (obj_of (users_of (running st))) username of
       None \<Rightarrow> (Inl AuthValueError, st, a)
     | Some d \<Rightarrow>
         if get_null ''role'' (obj_of d) = JStr ''owner'' \<and> length (owners_of (running st)) \<le> 1
         then (Inl (PermissionError ''only owner''), st, a)
         else case stage_commit env (with_users (\<lambda>us. Inr (AList.delete username us)))
                (no_confirm actor (''delete user '' @ username)) txid t st of
              (Inl e, st1) \<Rightarrow> (Inl e, st1, a)
            | (Inr _, st1) \<Rightarrow> (Inr (), st1, snd (revoke_user_sessions username a)))"

definition enable_totp :: "'w env \<Rightarrow> string \<Rightarrow> string \<Rightarrow> string \<Rightarrow> string \<Rightarrow> time \<Rightarrow> 'w store
    \<Rightarrow> (auth_error + unit) \<times> 'w store" where
  "enable_totp env actor username secret txid t st =
     stage_commit env (with_users (\<lambda>d. case map_of d username of
         None \<Rightarrow> Inl (Raised KeyError)
       | Some (JObj u) \<Rightarrow> Inr (dset username (JObj (dset ''totp_secret'' (JStr secret) u)) d)
       | Some _ \<Rightarrow> Inl (Raised TypeError)))
       (no_confirm actor (''enable MFA for '' @ username)) txid t st"

subsection \<open>API tokens\<close>

definition token_entry :: "crypto \<Rightarrow> string \<Rightarrow> string \<Rightarrow> string list option \<Rightarrow> time \<Rightarrow> json" where
  "token_entry cy secret role permissions t =
     (let given = (case permissions of None \<Rightarrow> [] | Some ps \<Rightarrow> ps);
          ps = (if given \<noteq> [] then given else sort (role_permissions role))
      in JObj [(''hash'', JStr (sha256_hex cy secret)), (''role'', JStr role), (''created'', JFloat t),
           (''permissions'', JList (map JStr ps))])"

definition tokens_mutate :: "(obj \<Rightarrow> obj) \<Rightarrow> json \<Rightarrow> verr + json" where
  "tokens_mutate f cfg = rbind (as_dict cfg) (\<lambda>d.
     case get_or (JObj []) ''api_tokens'' d of
       JObj ts \<Rightarrow> Inr (JObj (dset ''api_tokens'' (JObj (f ts)) d))
     | _ \<Rightarrow> Inl (Raised TypeError))"

definition create_token :: "crypto \<Rightarrow> 'w env \<Rightarrow> string \<Rightarrow> string \<Rightarrow> string \<Rightarrow> string list option \<Rightarrow> string
    \<Rightarrow> string \<Rightarrow> time \<Rightarrow> 'w store \<Rightarrow> (auth_error + unit) \<times> 'w store" where
  "create_token cy env actor name role permissions secret txid t st =
     stage_commit env (tokens_mutate (dset name (token_entry cy secret role permissions t)))
       (no_confirm actor (''create API token '' @ name)) txid t st"

definition delete_token :: "'w env \<Rightarrow> string \<Rightarrow> string \<Rightarrow> string \<Rightarrow> time \<Rightarrow> 'w store
    \<Rightarrow> (auth_error + unit) \<times> 'w store" where
  "delete_token env actor name txid t st =
     stage_commit env
       (\<lambda>cfg. if map_of (obj_of cfg) ''api_tokens'' = None then Inr cfg
          else tokens_mutate (AList.delete name) cfg)
       (no_confirm actor (''delete API token '' @ name)) txid t st"

definition strings_of :: "json \<Rightarrow> string list" where
  "strings_of j = (case j of JList xs \<Rightarrow> concat (map (\<lambda>x. case x of JStr s \<Rightarrow> [s] | _ \<Rightarrow> []) xs) | _ \<Rightarrow> [])"

definition principal_for_token :: "crypto \<Rightarrow> json \<Rightarrow> string \<Rightarrow> principal option" where
  "principal_for_token cy cfg secret =
     (let digest = sha256_hex cy secret in
      case find (\<lambda>(_, d). str_or [] ''hash'' (obj_of d) = digest)
             (obj_of (get_or (JObj []) ''api_tokens'' (obj_of cfg))) of
        None \<Rightarrow> None
      | Some (name, d) \<Rightarrow> Some (new_principal name (str_or ''read-only'' ''role'' (obj_of d))
          (Some (strings_of (get_null ''permissions'' (obj_of d)))) ''token''))"

end
