(* ===== verification/AuthSafety.thy ===== *)
theory AuthSafety
  imports Auth
begin

text \<open>
  What \<open>auth.py\<close> guarantees: who may do what, when a password or a one-time code is accepted, how
  many guesses an attacker has, how long a session lives and what ends it.
\<close>

interpretation login_log: bounded_log "keep_newest max_logins" max_logins
  by (rule bounded_log_keep_newest) (simp add: max_logins_def)

subsection \<open>Permissions\<close>

lemma partition_dot:
  "CHR ''.'' \<notin> set area \<Longrightarrow> py_partition CHR ''.'' (area @ CHR ''.'' # rest) = (area, True, rest)"
  by (induction area) auto

lemma role_permissions_cases:
  "role_permissions role = [] \<or> (\<exists>ps. (role, ps) \<in> set ROLE_PERMISSIONS \<and> role_permissions role = ps)"
  by (auto simp: role_permissions_def split: option.splits dest: map_of_SomeD)

text \<open>The permissions no role below super-admin has, directly or by implication.\<close>

definition privileged :: "string list" where
  "privileged = [''users.manage'', ''firmware.update'', ''backup.manage'', ''system.write'']"

lemma role_table:
  "list_all (\<lambda>(role, ps). role \<in> {''owner'', ''super-admin''} \<or>
     (''*'' \<notin> set ps \<and> list_all (\<lambda>p. \<not> can \<lparr>pr_name = [], pr_role = role, pr_kind = [],
        pr_permissions = ps\<rparr> p) privileged)) ROLE_PERMISSIONS"
  by code_simp

lemma can_cong: "pr_permissions p = pr_permissions q \<Longrightarrow> can p perm = can q perm"
  by (simp add: can_def)

text \<open>Only an owner or a super-admin can manage users, update the firmware, manage backups or write
  to the system; and whoever may write an area may read it.\<close>

theorem roles_are_limited:
  assumes "can (new_principal name role None kind) p" and "p \<in> set privileged"
  shows "role \<in> {''owner'', ''super-admin''}"
proof (rule ccontr)
  assume r: "role \<notin> {''owner'', ''super-admin''}"
  let ?q = "\<lparr>pr_name = [], pr_role = role, pr_kind = [], pr_permissions = role_permissions role\<rparr>"
  have "can (new_principal name role None kind) p = can ?q p"
    by (rule can_cong) (simp add: new_principal_def)
  with assms(1) have c: "can ?q p" by simp
  consider "role_permissions role = []" | ps where "(role, ps) \<in> set ROLE_PERMISSIONS"
    "role_permissions role = ps" using role_permissions_cases by blast
  then show False
  proof cases
    case 1
    with c show False by (simp add: can_def)
  next
    case 2
    with role_table r assms(2) c show False by (auto simp: list_all_iff)
  qed
qed

lemma roles_are_limited_witness: "can (new_principal ''ann'' ''owner'' None ''session'') ''users.manage'' \<and>
    ''owner'' \<in> {''owner'', ''super-admin''}"
proof
  show c: "can (new_principal ''ann'' ''owner'' None ''session'') ''users.manage''" by code_simp
  show "''owner'' \<in> {''owner'', ''super-admin''}"
    by (rule roles_are_limited [OF c]) (simp add: privileged_def)
qed

text \<open>A principal that may write an area may read it, whatever the area.\<close>

theorem write_implies_read:
  assumes "CHR ''.'' \<notin> set area" and "can p (area @ ''.write'')"
  shows "can p (area @ ''.read'')"
  using assms partition_dot [OF assms(1), of "''read''"] partition_dot [OF assms(1), of "''write''"]
  by (auto simp: can_def split: if_splits)

lemma write_implies_read_witness: "can (new_principal ''ann'' ''helpdesk'' None ''session'') ''clients.read''"
proof -
  have "can (new_principal ''ann'' ''helpdesk'' None ''session'') (''clients'' @ ''.write'')" by code_simp
  from write_implies_read [OF _ this] show ?thesis by simp
qed

subsection \<open>Passwords\<close>

definition bytes :: "int list \<Rightarrow> bool" where
  "bytes bs \<longleftrightarrow> list_all (\<lambda>b. 0 \<le> b \<and> b < 256) bs"

lemma hex_digit_class:
  assumes "0 \<le> n" "n < 16"
  shows "is_hex (hex_digit n)" "\<not> py_isspace (hex_digit n)" "hex_digit n \<noteq> CHR ''$''"
    "int_of_hex [hex_digit n] = n"
proof -
  have c: "code (hex_digit n) = (if n < 10 then 48 + n else 87 + n)"
    using assms by (simp add: hex_digit_def)
  show "is_hex (hex_digit n)" "\<not> py_isspace (hex_digit n)"
    using assms by (auto simp: is_hex_def is_hex_lower_def is_digit_ascii_def py_isspace_def
        in_range_def c split: if_splits)
  show "hex_digit n \<noteq> CHR ''$''"
  proof
    assume "hex_digit n = CHR ''$''"
    then have "code (hex_digit n) = code (CHR ''$'')" by simp
    then show False unfolding c using assms by (simp add: code_def split: if_splits)
  qed
  show "int_of_hex [hex_digit n] = n" using hex_val_digit [OF assms] by (simp add: int_of_hex_def)
qed

lemma from_hex_to_hex: "bytes bs \<Longrightarrow> from_hex (to_hex bs) = Some bs"
  by (induction bs)
    (auto simp: bytes_def to_hex_def hex2_def hex_digit_class pos_mod_sign)

lemma to_hex_inject: "bytes as \<Longrightarrow> bytes bs \<Longrightarrow> to_hex as = to_hex bs \<longleftrightarrow> as = bs"
  by (metis from_hex_to_hex option.inject)

lemma to_hex_no_dollar: "bytes bs \<Longrightarrow> CHR ''$'' \<notin> set (to_hex bs)"
  by (induction bs) (auto simp: bytes_def to_hex_def hex2_def hex_digit_class(3) [symmetric])

lemma cost_text:
  "py_int_of_string (show_int SCRYPT_N) = Some SCRYPT_N" "py_int_of_string (show_int SCRYPT_R) = Some SCRYPT_R"
  "py_int_of_string (show_int SCRYPT_P) = Some SCRYPT_P"
  "CHR ''$'' \<notin> set (show_int SCRYPT_N)" "CHR ''$'' \<notin> set (show_int SCRYPT_R)"
  "CHR ''$'' \<notin> set (show_int SCRYPT_P)"
  by code_simp+

lemma hash_fields:
  assumes "bytes salt" "bytes digest" "scrypt cy pw salt SCRYPT_N SCRYPT_R SCRYPT_P = Some digest"
  shows "py_split CHR ''$'' (hash_password cy salt pw) =
    [''scrypt'', show_int SCRYPT_N, show_int SCRYPT_R, show_int SCRYPT_P, to_hex salt, to_hex digest]"
  unfolding hash_password_def assms(3) option.case
  by (rule py_split_join) (simp_all add: cost_text to_hex_no_dollar assms)

text \<open>A stored password hash verifies exactly the passwords with the same scrypt digest under its
  salt: the password it was made from, and no other unless scrypt collides.\<close>

theorem password_roundtrip:
  assumes "bytes salt" and "bytes digest" and "scrypt cy pw salt SCRYPT_N SCRYPT_R SCRYPT_P = Some digest"
    and "scrypt cy pw' salt SCRYPT_N SCRYPT_R SCRYPT_P = Some digest'" and "bytes digest'"
  shows "verify_password cy pw (hash_password cy salt pw) \<and>
    (verify_password cy pw' (hash_password cy salt pw) \<longleftrightarrow> digest' = digest)"
  using assms by (auto simp: verify_password_def hash_fields [OF assms(1-3)] from_hex_to_hex cost_text
      to_hex_inject)

definition toy_crypto :: crypto where
  "toy_crypto = \<lparr>scrypt = \<lambda>pw salt n r p. Some (map code pw @ salt),
     hmac_sha1 = \<lambda>key msg. replicate 20 (last msg), sha256_hex = \<lambda>s. s\<rparr>"

lemma password_roundtrip_witness:
  "verify_password toy_crypto ''Correct-Horse'' (hash_password toy_crypto [7, 255] ''Correct-Horse'') \<and>
   \<not> verify_password toy_crypto ''wrong'' (hash_password toy_crypto [7, 255] ''Correct-Horse'')"
proof -
  have b: "bytes [7, 255]" "bytes (map code s @ [7, 255])" for s
    by (auto simp: bytes_def list_all_iff)
  have toy: "scrypt toy_crypto pw salt n r p = Some (map code pw @ salt)" for pw salt n r p
    by (simp add: toy_crypto_def)
  have "map code ''wrong'' @ [7, 255] \<noteq> map code ''Correct-Horse'' @ [7, 255]" by simp
  with password_roundtrip [OF b(1) b(2) toy toy b(2)] show ?thesis by blast
qed

subsection \<open>One-time codes\<close>

lemma zfill6_digits: "list_all is_digit_ascii s \<Longrightarrow> list_all is_digit_ascii (zfill6 s)"
  by (auto simp: zfill6_def list_all_iff is_digit_ascii_def in_range_def code_def set_replicate_conv_if
      split: if_splits)

lemma digit_not_space: "is_digit_ascii c \<Longrightarrow> \<not> py_isspace c"
  by (auto simp: is_digit_ascii_def py_isspace_def in_range_def)

lemma py_strip_digits: "list_all is_digit_ascii s \<Longrightarrow> py_strip s = s"
proof -
  assume "list_all is_digit_ascii s"
  then have "dropWhile py_isspace s = s" "dropWhile py_isspace (rev s) = rev s"
    unfolding dropWhile_eq_self_iff using digit_not_space
    by (auto simp: list_all_iff hd_rev)
  then show "py_strip s = s" by (simp add: py_strip_def)
qed

lemma show_nat_length: "0 \<le> n \<Longrightarrow> n < 10 ^ k \<Longrightarrow> 0 < k \<Longrightarrow> length (show_nat n) \<le> k"
proof (induction k arbitrary: n)
  case (Suc k)
  show ?case
  proof (cases "n < 10")
    case False
    with Suc.prems have "n div 10 < 10 ^ k" "0 < k" by (auto intro: gr0I)
    with Suc.IH [of "n div 10"] Suc.prems False show ?thesis
      by (subst show_nat.simps) simp
  qed (subst show_nat.simps, simp)
qed simp

lemma totp_code_shape: "length (totp_code cy key k) = 6 \<and> list_all is_digit_ascii (totp_code cy key k)"
proof -
  define w where "w = foldl (\<lambda>acc b. acc * 256 + b) 0
    (take 4 (drop (nat (last (hmac_sha1 cy key (be_bytes 8 k)) mod 16)) (hmac_sha1 cy key (be_bytes 8 k))))
    mod 2 ^ 31 mod 10 ^ 6"
  have w: "0 \<le> w" "w < 10 ^ 6" by (simp_all add: w_def)
  then have l: "length (show_int w) \<le> 6" and d: "list_all is_digit_ascii (show_int w)"
    using show_nat_length [of w 6] show_nat_digits [of w] by (simp_all add: show_int_def)
  have "totp_code cy key k = zfill6 (show_int w)" by (simp add: totp_code_def Let_def w_def)
  with l zfill6_digits [OF d] show ?thesis by (simp add: zfill6_def)
qed

text \<open>A one-time code is six digits, and the code of a 30-second step is accepted at any time in
  that step, the one before and the one after, however often it was used already: nothing marks a
  code as spent.\<close>

theorem totp_window:
  assumes "b32_decode secret = Some key" and "\<bar>totp_counter ts - k\<bar> \<le> 1"
  shows "totp_verify cy secret (totp_code cy key k) ts = Some True \<and> length (totp_code cy key k) = 6"
proof -
  have c: "totp_counter (ts + of_int d * 30) = totp_counter ts + d" for d
    by (simp add: totp_counter_def add_divide_distrib)
  from assms(2) have "k - totp_counter ts \<in> {-1, 0, 1}" by auto
  then have "k = totp_counter (ts + -1 * 30) \<or> k = totp_counter (ts + 0 * 30) \<or>
      k = totp_counter (ts + 1 * 30)"
    using c [of "-1"] c [of 0] c [of 1] by auto
  then show ?thesis
    using totp_code_shape [of cy key k] py_strip_digits
    by (auto simp: totp_verify_def assms(1))
qed

lemma totp_window_witness:
  "totp_verify toy_crypto ''MFRGGZDF'' (totp_code toy_crypto [97, 98, 99, 100, 101] 2) 95 = Some True"
proof -
  have "b32_decode ''MFRGGZDF'' = Some [97, 98, 99, 100, 101]" by code_simp
  moreover have "\<bar>totp_counter 95 - 2\<bar> \<le> 1" by code_simp
  ultimately show ?thesis using totp_window by blast
qed

subsection \<open>Login\<close>

text \<open>Failures within the last five minutes.\<close>

definition recent :: "string \<Rightarrow> time \<Rightarrow> auth \<Rightarrow> nat" where
  "recent key t a = length (filter (\<lambda>x. x > t - LOGIN_WINDOW) (attempts_of key a))"

lemma attempts_update:
  "attempts_of key (a\<lparr>au_failures := AList.update k xs (au_failures a)\<rparr>) =
     (if key = k then xs else attempts_of key a)"
  by (simp add: attempts_of_def alist.lookup_store)

lemma rate_limited_fst [simp]: "fst (rate_limited key t a) \<longleftrightarrow> LOGIN_MAX_FAILURES \<le> recent key t a"
  by (simp add: rate_limited_def recent_def Let_def)

lemma attempts_limited:
  "attempts_of key (snd (rate_limited k t a)) =
     (if key = k then filter (\<lambda>x. x > t - LOGIN_WINDOW) (attempts_of key a) else attempts_of key a)"
  by (simp add: rate_limited_def Let_def attempts_update)

lemma recent_limited [simp]: "recent key t (snd (rate_limited k t a)) = recent key t a"
  by (simp add: recent_def attempts_limited)

lemma sessions_limited [simp]: "au_sessions (snd (rate_limited k t a)) = au_sessions a"
  by (simp add: rate_limited_def Let_def)

lemma sessions_logged [simp]: "au_sessions (log_login u ip ok r ag t a) = au_sessions a"
  "attempts_of key (log_login u ip ok r ag t a) = attempts_of key a"
  by (simp_all add: log_login_def Let_def attempts_of_def)

lemma sessions_failure [simp]: "au_sessions (record_failure k t a) = au_sessions a"
  by (simp add: record_failure_def)

lemma key_neq [simp]: "user_key u \<noteq> ip_key ip" "ip_key ip \<noteq> user_key u"
  by (simp_all add: ip_key_def user_key_def)

definition login_locked :: "login_request \<Rightarrow> time \<Rightarrow> auth \<Rightarrow> bool" where
  "login_locked q t a \<longleftrightarrow> LOGIN_MAX_FAILURES \<le> recent (ip_key (lr_ip q)) t a \<or>
     LOGIN_MAX_FAILURES \<le> recent (user_key (lr_username q)) t a"

text \<open>The state the credentials are checked in: both windows pruned.\<close>

definition pruned :: "login_request \<Rightarrow> time \<Rightarrow> auth \<Rightarrow> auth" where
  "pruned q t a = snd (rate_limited (user_key (lr_username q)) t (snd (rate_limited (ip_key (lr_ip q)) t a)))"

lemma login_cases:
  "login cy cfg q rnd t a =
     (if LOGIN_MAX_FAILURES \<le> recent (ip_key (lr_ip q)) t a
      then refuse_login q ''rate limited'' t (snd (rate_limited (ip_key (lr_ip q)) t a))
      else if LOGIN_MAX_FAILURES \<le> recent (user_key (lr_username q)) t a
      then refuse_login q ''rate limited'' t (pruned q t a)
      else check_credentials cy cfg q rnd t (pruned q t a))"
proof -
  obtain l1 a1 where 1: "rate_limited (ip_key (lr_ip q)) t a = (l1, a1)" by fastforce
  obtain l2 a2 where 2: "rate_limited (user_key (lr_username q)) t a1 = (l2, a2)" by fastforce
  have "l1 \<longleftrightarrow> LOGIN_MAX_FAILURES \<le> recent (ip_key (lr_ip q)) t a"
    "l2 \<longleftrightarrow> LOGIN_MAX_FAILURES \<le> recent (user_key (lr_username q)) t a"
    using rate_limited_fst [of "ip_key (lr_ip q)" t a] rate_limited_fst [of "user_key (lr_username q)" t a1]
      recent_limited [of "user_key (lr_username q)" t "ip_key (lr_ip q)" a] 1 2 by simp_all
  then show ?thesis by (simp add: login_def pruned_def 1 2)
qed

lemma pruned_sessions [simp]: "au_sessions (pruned q t a) = au_sessions a"
  by (simp add: pruned_def)

lemma check_credentials_session:
  assumes "check_credentials cy cfg q rnd t a = (Inr s, a')"
  shows "\<exists>user. find_user cfg (lr_username q) = Some user \<and>
    password_matches cy (Some user) (lr_password q) (rd_decoy rnd) = Inr True \<and>
    mfa_ok cy user (lr_totp q) t = Inr True \<and>
    open_session q rnd user t a = (Inr s, a')"
proof -
  from assms have "password_matches cy (find_user cfg (lr_username q)) (lr_password q) (rd_decoy rnd) =
      Inr True"
    and m: "mfa_ok cy (the_default [] (find_user cfg (lr_username q))) (lr_totp q) t = Inr True"
    and o: "open_session q rnd (the_default [] (find_user cfg (lr_username q))) t a = (Inr s, a')"
    by (auto simp: check_credentials_def Let_def refuse_login_def split: sum.splits bool.splits prod.splits)
  moreover from this(1) obtain user where "find_user cfg (lr_username q) = Some user"
    by (auto simp: password_matches_def split: json.splits)
  ultimately show ?thesis by (auto simp: the_default_def)
qed

text \<open>C11. A login opens a session only when neither the address nor the user has eight failures in the
  last five minutes, the user exists, the password verifies against the stored hash and, where the
  user has a second factor, a code was given that verifies; the session then has the user's role and
  is the only session that changes.\<close>

theorem login_is_guarded:
  assumes "login cy cfg q rnd t a = (Inr s, a')"
  shows "\<not> login_locked q t a \<and>
    (\<exists>user. find_user cfg (lr_username q) = Some user \<and>
      password_matches cy (Some user) (lr_password q) (rd_decoy rnd) = Inr True \<and>
      mfa_ok cy user (lr_totp q) t = Inr True \<and>
      se_role s = str_or ''read-only'' ''role'' user) \<and>
    se_username s = lr_username q \<and> se_created s = t \<and>
    au_sessions a' = AList.update (rd_token rnd) s (au_sessions a)"
proof -
  from assms have l: "\<not> login_locked q t a" and
    c: "check_credentials cy cfg q rnd t (pruned q t a) = (Inr s, a')"
    unfolding login_cases login_locked_def by (auto simp: refuse_login_def split: if_splits)
  from check_credentials_session [OF c] obtain user where
    "find_user cfg (lr_username q) = Some user"
    "password_matches cy (Some user) (lr_password q) (rd_decoy rnd) = Inr True"
    "mfa_ok cy user (lr_totp q) t = Inr True"
    "open_session q rnd user t (pruned q t a) = (Inr s, a')" by blast
  with l show ?thesis by (auto simp: open_session_def Let_def)
qed

definition ann_config :: json where
  "ann_config = JObj [(''users'', JObj [(''ann'', JObj [(''role'', JStr ''helpdesk''),
     (''password_hash'', JStr (hash_password toy_crypto [7, 255] ''Correct-Horse''))])])]"

definition ann_login :: login_request where
  "ann_login = \<lparr>lr_username = ''ann'', lr_password = ''Correct-Horse'', lr_ip = ''10.0.0.9'', lr_agent = [],
     lr_totp = None\<rparr>"

definition fresh_auth :: auth where
  "fresh_auth = \<lparr>au_sessions = [], au_failures = [], au_logins = [], next_login = 1, au_alerts = []\<rparr>"

definition ann_random :: login_random where
  "ann_random = \<lparr>rd_decoy = [], rd_token = ''tok'', rd_csrf = ''csrf''\<rparr>"

lemma ann_logs_in: "is_ok (fst (login toy_crypto ann_config ann_login ann_random 1000 fresh_auth))"
  by code_simp

lemma login_is_guarded_witness:
  "\<exists>s a'. login toy_crypto ann_config ann_login ann_random 1000 fresh_auth = (Inr s, a') \<and>
     se_username s = ''ann''"
proof -
  from ann_logs_in obtain s a' where
    l: "login toy_crypto ann_config ann_login ann_random 1000 fresh_auth = (Inr s, a')"
    by (cases "login toy_crypto ann_config ann_login ann_random 1000 fresh_auth") (auto simp: is_ok_iff)
  from login_is_guarded [OF this] l show ?thesis by (auto simp: ann_login_def)
qed

text \<open>A sequence of login attempts, with the outcome of each.\<close>

fun run_logins :: "crypto \<Rightarrow> json \<Rightarrow> (login_request \<times> login_random \<times> time) list \<Rightarrow> auth
    \<Rightarrow> (auth_error + session) list \<times> auth" where
  "run_logins cy cfg [] a = ([], a)"
| "run_logins cy cfg ((q, rnd, t) # qs) a =
     (let (r, a1) = login cy cfg q rnd t a; (rs, a2) = run_logins cy cfg qs a1 in (r # rs, a2))"

definition wrong_guess :: "auth_error + session \<Rightarrow> bool" where
  "wrong_guess r \<longleftrightarrow> (case r of Inl (PermissionError m) \<Rightarrow> m = ''invalid credentials'' | _ \<Rightarrow> False)"

definition touches :: "string \<Rightarrow> login_request \<Rightarrow> bool" where
  "touches key q \<longleftrightarrow> key = ip_key (lr_ip q) \<or> key = user_key (lr_username q)"

definition since :: "time \<Rightarrow> string \<Rightarrow> auth \<Rightarrow> nat" where
  "since T key a = length (filter (\<lambda>x. T \<le> x) (attempts_of key a))"

lemma since_limited:
  "t < T + LOGIN_WINDOW \<Longrightarrow> since T key (snd (rate_limited k t a)) = since T key a"
  by (auto simp: since_def attempts_limited filter_filter intro!: arg_cong [where f = length] filter_cong)

lemma since_pruned: "t < T + LOGIN_WINDOW \<Longrightarrow> since T key (pruned q t a) = since T key a"
  by (simp add: pruned_def since_limited)

lemma length_filter_weaken: "(\<And>x. P x \<Longrightarrow> Q x) \<Longrightarrow> length (filter P xs) \<le> length (filter Q xs)"
  by (induction xs) (auto intro: le_SucI)

lemma since_recent: "t < T + LOGIN_WINDOW \<Longrightarrow> since T key a \<le> recent key t a"
  unfolding since_def recent_def by (rule length_filter_weaken) simp

lemma since_failure:
  "since T key (record_failure k t a) = since T key a + (if key = k \<and> T \<le> t then 1 else 0)"
  by (simp add: since_def record_failure_def attempts_update)

lemma since_logged [simp]: "since T key (log_login u ip ok r ag t a) = since T key a"
  by (simp add: since_def)

lemma since_fields [simp]:
  "since T key (a\<lparr>au_alerts := x\<rparr>) = since T key a" "since T key (a\<lparr>au_sessions := y\<rparr>) = since T key a"
  by (simp_all add: since_def attempts_of_def)

lemma since_credentials:
  assumes "check_credentials cy cfg q rnd t a = (r, a')" and "T \<le> t" and "touches key q"
  shows "since T key a + (if wrong_guess r then 1 else 0) \<le> since T key a'"
  using assms
  by (auto simp: check_credentials_def Let_def refuse_login_def open_session_def wrong_guess_def
      since_failure touches_def split: sum.splits bool.splits if_splits)

lemma since_login:
  assumes "login cy cfg q rnd t a = (r, a')" and "T \<le> t" "t < T + LOGIN_WINDOW" and "touches key q"
  shows "since T key a + (if wrong_guess r then 1 else 0) \<le> since T key a' \<and>
    (wrong_guess r \<longrightarrow> since T key a < LOGIN_MAX_FAILURES)"
proof (cases "login_locked q t a")
  case True
  with assms show ?thesis
    by (auto simp: login_cases login_locked_def refuse_login_def since_limited since_pruned
        wrong_guess_def split: if_splits)
next
  case False
  with assms(1) have "check_credentials cy cfg q rnd t (pruned q t a) = (r, a')"
    by (auto simp: login_cases login_locked_def)
  from since_credentials [OF this assms(2,4)] since_pruned [OF assms(3)]
  have "since T key a + (if wrong_guess r then 1 else 0) \<le> since T key a'" by simp
  moreover from False assms(4) since_recent [OF assms(3), of key a]
  have "since T key a < LOGIN_MAX_FAILURES" by (auto simp: login_locked_def touches_def)
  ultimately show ?thesis by blast
qed

lemma guesses_bounded:
  assumes "\<forall>(q, rnd, t) \<in> set qs. touches key q \<and> T \<le> t \<and> t < T + LOGIN_WINDOW"
  shows "length (filter wrong_guess (fst (run_logins cy cfg qs a))) \<le> LOGIN_MAX_FAILURES - since T key a"
  using assms
proof (induction qs arbitrary: a)
  case (Cons x qs)
  obtain q rnd t where x: "x = (q, rnd, t)" by (cases x)
  obtain r a1 where l: "login cy cfg q rnd t a = (r, a1)" by fastforce
  obtain rs a2 where rs: "run_logins cy cfg qs a1 = (rs, a2)" by fastforce
  from Cons.IH [of a1] Cons.prems rs have
    ih: "length (filter wrong_guess rs) \<le> LOGIN_MAX_FAILURES - since T key a1" by simp
  from since_login [OF l, of T key] Cons.prems x have
    s: "since T key a + (if wrong_guess r then 1 else 0) \<le> since T key a1"
    "wrong_guess r \<longrightarrow> since T key a < LOGIN_MAX_FAILURES" by auto
  from ih s show ?case by (auto simp: x l rs split: if_splits)
qed simp

text \<open>Brute force is bounded in both dimensions: in any five minutes, whatever was tried before, at
  most eight wrong passwords are looked at from one address, and at most eight for one user name,
  whichever addresses they come from.\<close>

theorem brute_force_bounded:
  assumes "\<forall>(q, rnd, t) \<in> set qs. touches key q \<and> T \<le> t \<and> t < T + LOGIN_WINDOW"
  shows "length (filter wrong_guess (fst (run_logins cy cfg qs a))) \<le> 8"
  using guesses_bounded [OF assms, of cy cfg a] by (simp add: LOGIN_MAX_FAILURES_def)

lemma brute_force_bounded_witness:
  "length (filter wrong_guess (fst (run_logins toy_crypto ann_config
     (replicate 20 (ann_login\<lparr>lr_password := ''guess''\<rparr>, ann_random, 1000)) fresh_auth))) \<le> 8"
  by (rule brute_force_bounded [where key = "user_key ''ann''" and T = 1000])
    (simp add: touches_def ann_login_def LOGIN_WINDOW_def)

subsection \<open>Sessions\<close>

text \<open>A session answers for its user only within eight hours of the login and one hour of the
  last request, with the permissions of the role it was opened with; using it moves the idle limit
  but never the eight hours, and a session past either limit is gone.\<close>

theorem session_lifetime:
  assumes "map_of (au_sessions a) token = Some s"
  shows "(if t - se_created s \<le> 8 * 3600 \<and> t - se_last_seen s \<le> 3600
    then fst (principal_for_session token t a) =
        Some (new_principal (se_username s) (se_role s) None ''session'') \<and>
      map_of (au_sessions (snd (principal_for_session token t a))) token = Some (s\<lparr>se_last_seen := t\<rparr>)
    else fst (principal_for_session token t a) = None \<and>
      map_of (au_sessions (snd (principal_for_session token t a))) token = None) \<and>
    (\<forall>other. other \<noteq> token \<longrightarrow> map_of (au_sessions (snd (principal_for_session token t a))) other =
      map_of (au_sessions a) other)"
  using assms
  by (auto simp: principal_for_session_def session_expired_def SESSION_TTL_def SESSION_IDLE_TTL_def
      dict_simps)

definition ann_session :: session where
  "ann_session = \<lparr>se_csrf = ''c'', se_username = ''ann'', se_role = ''helpdesk'', se_created = 0,
     se_last_seen = 0, se_ip = [], se_agent = []\<rparr>"

lemma session_lifetime_witness:
  "fst (principal_for_session ''tok'' 4000 (fresh_auth\<lparr>au_sessions := [(''tok'', ann_session)]\<rparr>)) = None"
  using session_lifetime [of "fresh_auth\<lparr>au_sessions := [(''tok'', ann_session)]\<rparr>" "''tok''" ann_session 4000]
  by (simp add: ann_session_def)

text \<open>Revoking a session by the empty id ends the oldest session there is, whoever it belongs to:
  every token starts with the empty string.\<close>

theorem empty_id_revokes_oldest:
  assumes "au_sessions a \<noteq> []"
  shows "revoke_session [] a =
    (True, a\<lparr>au_sessions := AList.delete (fst (hd (au_sessions a))) (au_sessions a)\<rparr>)"
  using assms by (cases "au_sessions a") (auto simp: revoke_session_def startswith_def)

lemma empty_id_revokes_oldest_witness:
  "revoke_session [] (fresh_auth\<lparr>au_sessions := [(''tok'', ann_session)]\<rparr>) = (True, fresh_auth)"
  using empty_id_revokes_oldest [of "fresh_auth\<lparr>au_sessions := [(''tok'', ann_session)]\<rparr>"]
  by (simp add: fresh_auth_def)

subsection \<open>Accounts\<close>

lemma set_password_success:
  "set_password cy env actor u pw salt txid t (st, a) = (Inr x, st', a') \<Longrightarrow>
     password_ok pw \<and> a' = snd (revoke_user_sessions u a)"
  by (auto simp: set_password_def split: if_splits sum.splits prod.splits)

text \<open>After a successful change of a password no session of that user is left, every other session
  is untouched, and the new password met the rules: at least ten characters of at least three
  classes.\<close>

theorem password_change_ends_sessions:
  assumes "set_password cy env actor u pw salt txid t (st, a) = (Inr x, st', a')"
  shows "au_sessions a' = filter (\<lambda>(_, s). se_username s \<noteq> u) (au_sessions a) \<and>
    10 \<le> length pw \<and> 3 \<le> password_classes pw"
  using set_password_success [OF assms] by (auto simp: password_ok_def revoke_user_sessions_def)

definition ann_store :: "unit store" where
  "ann_store = (init_store None None ())
     \<lparr>running := JObj (dset ''users'' (users_of ann_config) default_config),
      candidate := JObj (dset ''users'' (users_of ann_config) default_config)\<rparr>"

definition plain_env :: "unit env" where
  "plain_env = \<lparr>appliers = [], health_checks = [], env_caps = None\<rparr>"

definition ann_doc :: json where
  "ann_doc = (case password_mutate ''ann'' (hash_password toy_crypto [1] ''Battery-Staple'')
      (candidate ann_store) of Inr j \<Rightarrow> j | Inl _ \<Rightarrow> JNull)"

lemma ann_doc_mutated:
  "password_mutate ''ann'' (hash_password toy_crypto [1] ''Battery-Staple'') (candidate ann_store) = Inr ann_doc"
proof -
  have "is_ok (password_mutate ''ann'' (hash_password toy_crypto [1] ''Battery-Staple'') (candidate ann_store))"
    by code_simp
  then show ?thesis by (auto simp: is_ok_iff ann_doc_def)
qed

lemma ann_doc_valid: "validate None ann_doc = Inr (ann_doc, [])"
  by code_simp

lemma stage_commit_plain:
  assumes "mutate (candidate st) = Inr m" "validate None m = Inr (m, w)" "st_pending st = None"
  shows "is_ok (fst (stage_commit plain_env mutate args txid t st))"
  using assms
  by (simp add: stage_commit_def stage_def plain_env_def commit_def Let_def apply_commit_def
      finish_commit_def checkpoint_def save_revision_def latest_revision_def)

lemma ann_changes_password:
  "is_ok (fst (set_password toy_crypto plain_env ''ann'' ''ann'' ''Battery-Staple'' [1] ''tx1'' 0
     (ann_store, fresh_auth\<lparr>au_sessions := [(''tok'', ann_session)]\<rparr>)))"
proof -
  have "st_pending ann_store = None" by (simp add: ann_store_def init_store_def load_running_def)
  from stage_commit_plain [where st = ann_store and
      mutate = "password_mutate ''ann'' (hash_password toy_crypto [1] ''Battery-Staple'')", OF ann_doc_mutated ann_doc_valid this] obtain x st' where
    "stage_commit plain_env (password_mutate ''ann'' (hash_password toy_crypto [1] ''Battery-Staple''))
      (no_confirm ''ann'' (''password change for '' @ ''ann'')) ''tx1'' 0 ann_store = (Inr x, st')"
    by (metis is_ok_iff prod.collapse)
  moreover have "password_ok ''Battery-Staple''" by code_simp
  ultimately show ?thesis by (simp add: set_password_def)
qed

lemma password_change_ends_sessions_witness:
  "\<exists>st' a'. set_password toy_crypto plain_env ''ann'' ''ann'' ''Battery-Staple'' [1] ''tx1'' 0
      (ann_store, fresh_auth\<lparr>au_sessions := [(''tok'', ann_session)]\<rparr>) = (Inr (), st', a') \<and>
    au_sessions a' = []"
proof -
  from ann_changes_password obtain x st' a' where
    c: "set_password toy_crypto plain_env ''ann'' ''ann'' ''Battery-Staple'' [1] ''tx1'' 0
      (ann_store, fresh_auth\<lparr>au_sessions := [(''tok'', ann_session)]\<rparr>) = (Inr x, st', a')"
    by (metis (no_types, lifting) is_ok_iff prod.collapse)
  from password_change_ends_sessions [OF this] c show ?thesis by (simp add: ann_session_def)
qed

text \<open>The only owner cannot be deleted: the request is refused and nothing changes.\<close>

theorem last_owner_stays:
  assumes "owners_of (running st) = [u]" and "distinct (map fst (obj_of (users_of (running st))))"
  shows "delete_user env actor u txid t (st, a) = (Inl (PermissionError ''only owner''), st, a)"
proof -
  from assms(1) have "u \<in> set (owners_of (running st))" by simp
  then obtain d where d: "(u, d) \<in> set (obj_of (users_of (running st)))"
    and r: "get_null ''role'' (obj_of d) = JStr ''owner''"
    by (auto simp: owners_of_def)
  from d assms(2) have "map_of (obj_of (users_of (running st))) u = Some d" by simp
  with r assms(1) show ?thesis by (simp add: delete_user_def)
qed

lemma last_owner_stays_witness:
  "\<exists>st :: unit store. delete_user plain_env ''x'' ''bob'' ''tx'' 0 (st, fresh_auth) =
     (Inl (PermissionError ''only owner''), st, fresh_auth)"
proof -
  let ?st = "ann_store\<lparr>running := JObj [(''users'', JObj [(''bob'', JObj [(''role'', JStr ''owner'')])])]\<rparr>"
  have "owners_of (running ?st) = [''bob'']" "distinct (map fst (obj_of (users_of (running ?st))))"
    by (simp_all add: owners_of_def users_of_def obj_of_def get_or_def get_null_def)
  from last_owner_stays [OF this] show ?thesis by blast
qed

subsection \<open>API tokens\<close>

lemma strings_of_map [simp]: "strings_of (JList (map JStr xs)) = xs"
  by (induction xs) (auto simp: strings_of_def)

text \<open>A token created with a list of permissions carries exactly those; created with an empty list
  it does not carry none but all permissions of its role.\<close>

theorem token_permissions:
  assumes "principal_for_token cy (JObj [(''api_tokens'', JObj [(name, token_entry cy secret role perms t)])])
      secret = Some p"
  shows "pr_name p = name \<and> pr_role p = role \<and>
    set (pr_permissions p) = (case perms of None \<Rightarrow> set (role_permissions role)
      | Some ps \<Rightarrow> if ps = [] then set (role_permissions role) else set ps)"
  using assms
  by (auto simp: principal_for_token_def token_entry_def Let_def obj_of_def get_or_def get_null_def
      str_or_def new_principal_def split: option.splits if_splits)

lemma token_permissions_witness:
  "\<exists>p. principal_for_token toy_crypto (JObj [(''api_tokens'', JObj [(''ci'',
      token_entry toy_crypto ''secret'' ''owner'' (Some []) 0)])]) ''secret'' = Some p \<and>
    set (pr_permissions p) = {''*''}"
proof -
  obtain p where p: "principal_for_token toy_crypto (JObj [(''api_tokens'', JObj [(''ci'',
      token_entry toy_crypto ''secret'' ''owner'' (Some []) 0)])]) ''secret'' = Some p"
    by (auto simp: principal_for_token_def token_entry_def Let_def obj_of_def get_or_def str_or_def)
  from token_permissions [OF p] p show ?thesis
    by (simp add: role_permissions_def ROLE_PERMISSIONS_def)
qed

end
