(* ===== verification/SchemaSound.thy ===== *)
theory SchemaSound
  imports Schema
begin

text \<open>
  What a document accepted by \<open>validate\<close> guarantees, section by section. Each property takes apart
  the section with \<open>validate_section\<close> and reads the guarantee off the loop that enforced it.
\<close>

subsection \<open>The default document\<close>

text \<open>The document a new device starts with is accepted exactly as it stands: validation
  neither refuses it, nor changes it, nor warns about it.\<close>

theorem default_config_accepted:
  "validate None (JObj default_config) = Inr (JObj default_config, [])"
  by (rule validate_default)

text \<open>A document that uses every section with a loop: a rule, two port forwards, a client limit, DNS
  records, three radios and a multi-link network, on hardware with three radios.\<close>

definition sample_caps :: capabilities where
  "sample_caps = Some
     \<lparr>cap_radios =
        [(''radio0'', \<lparr>cap_band = ''2g'', cap_widths = [20, 40], cap_channels = [1, 6, 11], cap_eht240 = False\<rparr>),
         (''radio1'', \<lparr>cap_band = ''5g'', cap_widths = [20, 40, 80, 160],
            cap_channels = [36, 40, 44, 48, 149, 153, 157, 161], cap_eht240 = False\<rparr>),
         (''radio2'', \<lparr>cap_band = ''6g'', cap_widths = [20, 40, 80, 160, 320],
            cap_channels = [1, 5, 9, 13, 17, 21, 25, 29], cap_eht240 = False\<rparr>)],
      cap_mlo = True\<rparr>"

definition sample_wifi :: json where
  "sample_wifi = JObj
     [(''country'', JStr ''US''),
      (''radios'', JObj
        [(''radio1'', JObj [(''band'', JStr ''5g''), (''channel_width'', JInt 80), (''channel'', JInt 36)]),
         (''radio2'', JObj [(''band'', JStr ''6g''), (''channel_width'', JInt 160), (''channel'', JInt 5)])]),
      (''networks'', JObj
        [(''home'', JObj [(''ssid'', JStr ''home''), (''bands'', JList [JStr ''5g'', JStr ''6g'']),
           (''security'', JObj [(''mode'', JStr ''wpa3''), (''passphrase'', JStr ''correct horse'')])])]),
      (''mlds'', JObj
        [(''mld0'', JObj [(''wireless_network'', JStr ''home''),
           (''links'', JList [JStr ''radio1'', JStr ''radio2''])])])]"

definition sample_overrides :: obj where
  "sample_overrides =
     [(''firewall'', JObj [(''rules'', JList
         [JObj [(''protocol'', JStr ''tcp''), (''dst_port'', JStr ''80-443'')],
          JObj [(''id'', JStr ''no-ntp''), (''protocol'', JStr ''udp''), (''src_port'', JInt 123)]])]),
      (''nat'', JObj [(''port_forwards'', JList
         [JObj [(''external_port'', JStr ''8000-8010''), (''internal_port'', JStr ''9000-9010''),
                (''internal_address'', JStr ''192.168.2.10'')],
          JObj [(''external_port'', JInt 22), (''internal_address'', JStr ''192.168.2.11'')]])]),
      (''qos'', JObj [(''per_client_limits'', JList
         [JObj [(''network'', JStr ''default''), (''download_kbps'', JInt 1000)]])]),
      (''dns'', JObj [(''records'', JList
         [JObj [(''name'', JStr ''Nas.Lan.''), (''value'', JStr ''192.168.2.10'')]])]),
      (''wifi'', sample_wifi)]"

definition sample_config :: obj where
  "sample_config = foldl (\<lambda>d (k, v). dset k v d) default_config sample_overrides"

definition sample_result :: obj where
  "sample_result = (case validate sample_caps (JObj sample_config) of
     Inr (JObj out, _) \<Rightarrow> out | _ \<Rightarrow> [])"

lemma sample_accepted:
  "\<exists>w. validate sample_caps (JObj sample_config) = Inr (JObj sample_result, w)"
proof -
  have "is_ok (validate sample_caps (JObj sample_config))" by code_simp
  then show ?thesis
    using validate_result by (fastforce simp: is_ok_iff sample_result_def)
qed

subsection \<open>Networks\<close>

definition networks_isolated :: "obj \<Rightarrow> bool" where
  "networks_isolated out \<longleftrightarrow> (\<exists>nets. map_of out ''networks'' = Some (JObj nets) \<and>
     list_all (\<lambda>(nid, net). network_ok nid net) nets \<and>
     distinct (concat (map (\<lambda>(_, net). network_vlan net) nets)) \<and>
     sorted_wrt (\<lambda>m n. \<nexists>a. in_network a m \<and> in_network a n)
       (concat (map (\<lambda>(_, net). network_subnet net) nets)))"

text \<open>The loop over the networks of an accepted document.\<close>

lemma networks_section:
  assumes "validate caps (JObj cfg) = Inr (JObj out, w)"
  obtains cfg1 d nets s' w1 where "map_of out ''networks'' = Some (JObj nets)" and
    "py_for (network_body cfg1) d \<lparr>seen_vlans = [], seen_subnets = []\<rparr> = Inr (nets, s', w1)"
proof -
  have "sections caps = [(''system'', \<lambda>_. validate_system), (''ports'', validate_ports)] @
      (''networks'', validate_networks) # drop 3 (sections caps)"
    by (simp add: sections_def)
  from validate_section [OF assms this] obtain cfg1 v j w1 where
    f: "validate_networks cfg1 v = Inr (j, w1)" and out: "map_of out ''networks'' = Some j"
    by blast
  from f obtain d nets s' where j: "j = JObj nets"
    and l: "py_for (network_body cfg1) d \<lparr>seen_vlans = [], seen_subnets = []\<rparr> = Inr (nets, s', w1)"
    by (auto simp: validate_networks_def verr_at_def for_dict_eq split: if_splits)
  with out that show thesis by blast
qed

lemma accepted_network_ok:
  assumes "validate caps (JObj cfg) = Inr (JObj out, w)"
  shows "\<exists>nets. map_of out ''networks'' = Some (JObj nets) \<and> (\<forall>(nid, net) \<in> set nets. network_ok nid net)"
  by (rule networks_section [OF assms]) (use vlans.loop_good in \<open>fastforce simp: list_all_iff\<close>)

text \<open>C10. In every accepted document the networks are isolated from each other: no two have the same
  VLAN, no address belongs to the subnets of two of them, and each network has a known purpose and
  zone, a VLAN in 1..4094 and, when its DHCP server is enabled, an address pool inside its own
  subnet that does not contain the gateway address.\<close>

theorem accepted_networks_isolated:
  assumes "validate caps (JObj cfg) = Inr (JObj out, w)"
  shows "networks_isolated out"
proof (rule networks_section [OF assms])
  fix cfg1 d nets s' w1
  assume out: "map_of out ''networks'' = Some (JObj nets)"
    and l: "py_for (network_body cfg1) d \<lparr>seen_vlans = [], seen_subnets = []\<rparr> = Inr (nets, s', w1)"
  have "sorted_wrt (\<lambda>m n. \<nexists>a. in_network a m \<and> in_network a n) (subnets.claims nets)"
    using subnets.loop_claims [OF l] by (rule sorted_wrt_mono_rel [rotated, OF conjunct1])
      (metis net_overlaps_iff)
  with vlans.loop_good [OF l] vlans.loop_distinct [OF refl l] out show ?thesis
    unfolding networks_isolated_def vlans.claims_def subnets.claims_def by blast
qed

lemma accepted_networks_isolated_witness: "networks_isolated sample_result"
  using sample_accepted accepted_networks_isolated by blast

subsection \<open>WANs\<close>

definition wans_separate :: "obj \<Rightarrow> bool" where
  "wans_separate out \<longleftrightarrow> (\<exists>ports wans. map_of out ''ports'' = Some (JObj ports) \<and>
     map_of out ''wans'' = Some (JObj wans) \<and>
     list_all (\<lambda>(wid, wan). wan_ok ports wid wan) wans \<and>
     distinct (concat (map (\<lambda>(_, wan). wan_port wan) wans)))"

lemma validate_wans_loop:
  assumes "validate_wans cfg v = Inr (j, w)"
  shows "\<exists>ports d wans s' w'. get_or (JObj []) ''ports'' cfg = JObj ports \<and> j = JObj wans \<and>
    py_for (wan_body ports) d (d, []) = Inr (wans, s', w')"
  using assms unfolding validate_wans_def rbind_eq_Inr as_dict_eq
  by (elim exE conjE) (clarsimp split: prod.splits simp: rbind_eq_Inr, blast)

text \<open>In every accepted document each WAN uses a port of its own, of the ports section; the port
  of an enabled WAN has the role \<open>wan\<close>, also when the validator had to move the WAN to another port
  because the user changed the roles.\<close>

theorem accepted_wans_separate:
  assumes "validate caps (JObj cfg) = Inr (JObj out, w)"
  shows "wans_separate out"
proof -
  have sec: "sections caps = [(''system'', \<lambda>_. validate_system), (''ports'', validate_ports),
      (''networks'', validate_networks)] @ (''wans'', validate_wans) # drop 4 (sections caps)"
    by (simp add: sections_def)
  from validate_section [OF assms this] obtain cfg1 v j w1 where
    f: "validate_wans cfg1 v = Inr (j, w1)" and out: "map_of out ''wans'' = Some j"
    and ports: "map_of cfg1 ''ports'' = map_of out ''ports''"
    by auto
  have "sections caps = [(''system'', \<lambda>_. validate_system)] @ (''ports'', validate_ports) #
      drop 2 (sections caps)"
    by (simp add: sections_def)
  from validate_section [OF assms this] obtain pj where pj: "map_of out ''ports'' = Some pj"
    by blast
  from validate_wans_loop [OF f] obtain ps d wans s' w' where
    "get_or (JObj []) ''ports'' cfg1 = JObj ps" and j: "j = JObj wans"
    and l: "py_for (wan_body ps) d (d, []) = Inr (wans, s', w')"
    by blast
  with ports pj have "map_of out ''ports'' = Some (JObj ps)" by (simp add: get_or_def)
  with wan_ports.loop_good [OF l] wan_ports.loop_distinct [OF refl l] out j show ?thesis
    unfolding wans_separate_def wan_ports.claims_def by blast
qed

lemma accepted_wans_separate_witness: "wans_separate sample_result"
  using sample_accepted accepted_wans_separate by blast

subsection \<open>Firewall, NAT, QoS, DNS\<close>

text \<open>The entries of a list section, empty when the section has no list.\<close>

definition entries :: "string \<Rightarrow> json \<Rightarrow> json list" where
  "entries k j = (case get_null k (obj_of j) of JList xs \<Rightarrow> xs | _ \<Rightarrow> [])"

lemma nested_eq:
  "nested k v f d = Inr (d', w) \<Longrightarrow> f (get_or v k d) = Inr (get_null k d', w)"
  by (auto simp: nested_def rbind_eq_Inr get_null_def get_or_def map_of_dset)

lemma loop_entries:
  assumes "for_list body s v = Inr (get_null k d, w)"
  shows "\<exists>xs ys s'. py_for body xs s = Inr (ys, s', w) \<and>
    (entries k (JObj d) = map snd ys \<or> entries k (JObj d) = [])"
proof -
  from assms obtain xs ys s' where l: "py_for body xs s = Inr (ys, s', w)"
    and j: "get_null k d = (case v of JList _ \<Rightarrow> JList (map snd ys) | _ \<Rightarrow> v)"
    unfolding for_list_def rbind_eq_Inr by (auto simp: rbind_eq_Inr)
  from j have "entries k (JObj d) = map snd ys \<or> entries k (JObj d) = []"
    by (simp add: entries_def obj_of_def split: json.splits)
  with l show ?thesis by blast
qed

lemma last_nested:
  assumes "steps ss d = Inr (d', w)" and "ss \<noteq> []" and "last ss = nested k v (for_list body s)"
  shows "\<exists>xs ys s' w'. py_for body xs s = Inr (ys, s', w') \<and>
    (entries k (JObj d') = map snd ys \<or> entries k (JObj d') = [])"
proof -
  have "steps (butlast ss @ [nested k v (for_list body s)]) d = Inr (d', w)"
    using assms by (metis append_butlast_last_id)
  then obtain d1 w1 where "nested k v (for_list body s) d1 = Inr (d', w1)"
    unfolding steps_append_eq steps_Cons_eq by auto
  from loop_entries [OF nested_eq [OF this]] show ?thesis by blast
qed

lemma nat_loop:
  assumes "validate_nat cfg v = Inr (j, w)"
  shows "\<exists>xs ys s' w'. py_for (forward_body cfg) xs [] = Inr (ys, s', w') \<and>
    (entries ''port_forwards'' j = map snd ys \<or> entries ''port_forwards'' j = [])"
  using assms last_nested unfolding validate_nat_def dict_steps_eq by fastforce

lemma qos_loop:
  assumes "validate_qos cfg v = Inr (j, w)"
  shows "\<exists>xs ys s' w'. py_for (limit_body (dict_keys (get_or (JObj []) ''networks'' cfg))) xs [] =
      Inr (ys, s', w') \<and>
    (entries ''per_client_limits'' j = map snd ys \<or> entries ''per_client_limits'' j = [])"
  using assms last_nested unfolding validate_qos_def object_steps_eq by fastforce

lemma dns_loop:
  assumes "validate_dns v = Inr (j, w)"
  shows "\<exists>xs ys s' w'. py_for record_body xs [] = Inr (ys, s', w') \<and>
    (entries ''records'' j = map snd ys \<or> entries ''records'' j = [])"
  using assms last_nested unfolding validate_dns_def object_steps_eq by fastforce

lemma firewall_loop:
  assumes "validate_firewall v = Inr (j, w)"
  shows "\<exists>sch xs ys s' w'. py_for (rule_body sch) xs [] = Inr (ys, s', w') \<and>
    (entries ''rules'' j = map snd ys \<or> entries ''rules'' j = [])"
proof -
  from assms obtain d1 w1 d' where j: "j = JObj d'" and
    "nested ''rules'' (JList []) (for_list (rule_body (get_or (JObj []) ''schedules'' d1)) []) d1 =
      Inr (d', w1)"
    by (auto simp: validate_firewall_def dict_steps_eq rbind_eq_Inr)
  from loop_entries [OF nested_eq [OF this(2)]] show ?thesis unfolding j by blast
qed

lemma firewall_section:
  assumes "validate caps (JObj cfg) = Inr (JObj out, w)"
  obtains v j w1 where "validate_firewall v = Inr (j, w1)" and "get_null ''firewall'' out = j"
proof -
  have "sections caps = take 4 (sections caps) @ (''firewall'', \<lambda>_. validate_firewall) #
      drop 5 (sections caps)"
    by (simp add: sections_def)
  from validate_section [OF assms this] that show thesis
    by (auto simp: get_null_def get_or_def)
qed

lemma accepted_rule_ok:
  assumes "validate caps (JObj cfg) = Inr (JObj out, w)"
  shows "list_all rule_ok (entries ''rules'' (get_null ''firewall'' out))"
proof (rule firewall_section [OF assms])
  fix v j w1
  assume f: "validate_firewall v = Inr (j, w1)" and out: "get_null ''firewall'' out = j"
  from firewall_loop [OF f] obtain sch xs ys s' w' where
    l: "py_for (rule_body sch) xs [] = Inr (ys, s', w')"
    and e: "entries ''rules'' j = map snd ys \<or> entries ''rules'' j = []"
    by blast
  from rules.loop_good [OF l] e show ?thesis by (auto simp: out list_all_iff split_def)
qed

text \<open>In every accepted document the firewall rules have distinct ids, and each has a known
  action, zones and protocol and names ports only with TCP or UDP.\<close>

theorem accepted_firewall_rules:
  assumes "validate caps (JObj cfg) = Inr (JObj out, w)"
  shows "distinct (concat (map rule_id (entries ''rules'' (get_null ''firewall'' out)))) \<and>
    list_all rule_ok (entries ''rules'' (get_null ''firewall'' out))"
proof (rule firewall_section [OF assms])
  fix v j w1
  assume f: "validate_firewall v = Inr (j, w1)" and out: "get_null ''firewall'' out = j"
  from firewall_loop [OF f] obtain sch xs ys s' w' where
    l: "py_for (rule_body sch) xs [] = Inr (ys, s', w')"
    and e: "entries ''rules'' j = map snd ys \<or> entries ''rules'' j = []"
    by blast
  from rules.loop_distinct [OF refl l] rules.loop_good [OF l] e show ?thesis
    unfolding out rules.claims_def by (auto simp: comp_def case_prod_unfold list.pred_map)
qed

lemma accepted_firewall_rules_witness:
  "list_all rule_ok (entries ''rules'' (get_null ''firewall'' sample_result))"
  using sample_accepted accepted_firewall_rules by blast

text \<open>In every accepted document no two port forwards claim the same external port text for the
  same protocol on the same WAN; each forward maps a valid range to a range of the same size at an
  IP address.\<close>

theorem accepted_port_forwards:
  assumes "validate caps (JObj cfg) = Inr (JObj out, w)"
  shows "distinct (concat (map forward_claim (entries ''port_forwards'' (get_null ''nat'' out)))) \<and>
    list_all forward_ok (entries ''port_forwards'' (get_null ''nat'' out))"
proof -
  have "sections caps = take 5 (sections caps) @ (''nat'', validate_nat) # drop 6 (sections caps)"
    by (simp add: sections_def)
  from validate_section [OF assms this] obtain cfg1 v j w1 where f: "validate_nat cfg1 v = Inr (j, w1)"
    and out: "get_null ''nat'' out = j"
    by (auto simp: get_null_def get_or_def)
  from nat_loop [OF f] obtain xs ys s' w' where l: "py_for (forward_body cfg1) xs [] = Inr (ys, s', w')"
    and e: "entries ''port_forwards'' j = map snd ys \<or> entries ''port_forwards'' j = []"
    by blast
  from forwards.loop_distinct [OF refl l] forwards.loop_good [OF l] e show ?thesis
    unfolding out forwards.claims_def by (auto simp: comp_def case_prod_unfold list.pred_map)
qed

lemma accepted_port_forwards_witness:
  "list_all forward_ok (entries ''port_forwards'' (get_null ''nat'' sample_result))"
  using sample_accepted accepted_port_forwards by blast

text \<open>In every accepted document no client and no network has two bandwidth limits, no two local
  DNS records have the same type and name, every record has a valid name, and every \<open>A\<close> record an
  IPv4 address.\<close>

theorem accepted_limits_and_records:
  assumes "validate caps (JObj cfg) = Inr (JObj out, w)"
  shows "distinct (concat (map (limit_claim (dict_keys (get_null ''networks'' out)))
      (entries ''per_client_limits'' (get_null ''qos'' out)))) \<and>
    distinct (concat (map record_claim (entries ''records'' (get_null ''dns'' out)))) \<and>
    list_all limit_ok (entries ''per_client_limits'' (get_null ''qos'' out)) \<and>
    list_all record_ok (entries ''records'' (get_null ''dns'' out))"
proof -
  have "sections caps = take 7 (sections caps) @ (''qos'', validate_qos) # drop 8 (sections caps)"
    by (simp add: sections_def)
  from validate_section [OF assms this] obtain cfg1 v j w1 where f: "validate_qos cfg1 v = Inr (j, w1)"
    and out: "get_null ''qos'' out = j"
    and c: "\<forall>k' \<in> fst ` set (take 7 (sections caps)). map_of cfg1 k' = map_of out k'"
    by (auto simp: get_null_def get_or_def simp del: take.simps)
  from qos_loop [OF f] obtain xs ys s' w' where
    l: "py_for (limit_body (dict_keys (get_or (JObj []) ''networks'' cfg1))) xs [] = Inr (ys, s', w')"
    and e: "entries ''per_client_limits'' j = map snd ys \<or> entries ''per_client_limits'' j = []"
    by blast
  from c have "map_of cfg1 ''networks'' = map_of out ''networks''" by (simp add: sections_def)
  then have n: "dict_keys (get_or (JObj []) ''networks'' cfg1) = dict_keys (get_null ''networks'' out)"
    by (simp add: get_null_def get_or_def dict_keys_def obj_of_def split: option.splits)
  have "sections caps = take 8 (sections caps) @ (''dns'', \<lambda>_. validate_dns) # drop 9 (sections caps)"
    by (simp add: sections_def)
  from validate_section [OF assms this] obtain v2 r w3 where g: "validate_dns v2 = Inr (r, w3)"
    and dns: "get_null ''dns'' out = r"
    by (auto simp: get_null_def get_or_def)
  from dns_loop [OF g] obtain xs2 ys2 s2 w4 where l2: "py_for record_body xs2 [] = Inr (ys2, s2, w4)"
    and e2: "entries ''records'' r = map snd ys2 \<or> entries ''records'' r = []"
    by blast
  from limits.loop_distinct [OF refl l] limits.loop_good [OF l] e
    records.loop_distinct [OF refl l2] records.loop_good [OF l2] e2 show ?thesis
    unfolding out dns limits.claims_def records.claims_def n
    by (auto simp: comp_def case_prod_unfold list.pred_map)
qed

lemma accepted_limits_and_records_witness:
  "list_all limit_ok (entries ''per_client_limits'' (get_null ''qos'' sample_result)) \<and>
   list_all record_ok (entries ''records'' (get_null ''dns'' sample_result))"
  using sample_accepted accepted_limits_and_records by blast

subsection \<open>Wi-Fi\<close>

lemma for_dict_loop:
  "nested k v (for_dict body s) d = Inr (d', w) \<Longrightarrow>
     \<exists>xs ys s'. py_for body xs s = Inr (ys, s', w) \<and> map_of d' k = Some (JObj ys)"
  by (auto simp: nested_def rbind_eq_Inr for_dict_eq map_of_dset) blast

lemma mlds_parts:
  assumes "validate_mlds caps wifi = Inr (wifi', w)"
  shows "\<exists>ms mlds nets c. py_for (mld_body (mld_radios caps (obj_of (get_null ''radios'' wifi)))) ms
      (obj_of (get_or (JObj []) ''networks'' wifi), []) = Inr (mlds, (nets, c), w) \<and>
    map_of wifi' ''mlds'' = Some (JObj mlds) \<and> map_of wifi' ''networks'' = Some (JObj nets) \<and>
    map_of wifi' ''radios'' = map_of wifi ''radios''"
  using assms unfolding validate_mlds_def Let_def
  by (auto simp: rbind_eq_Inr map_of_dset map_of_setdefault) blast

text \<open>The parts of an accepted Wi-Fi section.\<close>

lemma wifi_parts:
  assumes "validate_wifi cfg caps v = Inr (j, w)"
  shows "\<exists>wifi radios nets0 nets mlds rs ms w0 c u w1 w2 xs u2 w3. j = JObj wifi \<and>
    map_of wifi ''radios'' = Some (JObj radios) \<and> map_of wifi ''networks'' = Some (JObj nets) \<and>
    map_of wifi ''mlds'' = Some (JObj mlds) \<and>
    py_for (radio_body caps) rs () = Inr (radios, u, w1) \<and>
    py_for (wnet_body w0 cfg caps) xs () = Inr (nets0, u2, w2) \<and>
    py_for (mld_body (mld_radios caps radios)) ms (nets0, []) = Inr (mlds, (nets, c), w3)"
proof -
  from assms obtain d1 d2 d3 d4 d5 wifi wr wn wg wo wm where j: "j = JObj wifi"
    and r: "nested ''radios'' (JObj []) (for_dict (radio_body caps) ()) d1 = Inr (d2, wr)"
    and n: "nested ''networks'' (JObj []) (for_dict (wnet_body d2 cfg caps) ()) d2 = Inr (d3, wn)"
    and g: "nested ''regulatory'' (JObj []) (object_steps ''wifi.regulatory'' regulatory_steps) d3 =
      Inr (d4, wg)"
    and o: "nested ''channel_optimisation'' (JObj [])
      (object_steps ''wifi.channel_optimisation'' optimisation_steps) d4 = Inr (d5, wo)"
    and m: "validate_mlds caps d5 = Inr (wifi, wm)"
    unfolding validate_wifi_def dict_steps_eq by (auto simp: rbind_eq_Inr)
  from for_dict_loop [OF r] obtain rs radios u where
    R: "py_for (radio_body caps) rs () = Inr (radios, u, wr)" "map_of d2 ''radios'' = Some (JObj radios)"
    by blast
  from for_dict_loop [OF n] obtain xs nets0 u2 where
    N: "py_for (wnet_body d2 cfg caps) xs () = Inr (nets0, u2, wn)" "map_of d3 ''networks'' = Some (JObj nets0)"
    by blast
  have lv: "map_of d' k = map_of d k" if "nested k' v f d = Inr (d', w)" "k \<noteq> k'"
    for k k' v f d d' and w :: "warning list"
    using leavingD [OF leaving_nested that(1)] that(2) by blast
  have d5: "map_of d5 ''networks'' = Some (JObj nets0)" "map_of d5 ''radios'' = Some (JObj radios)"
    using lv [OF n, of "''radios''"] lv [OF g] lv [OF o] R(2) N(2) by simp_all
  then have "obj_of (get_null ''radios'' d5) = radios" "obj_of (get_or (JObj []) ''networks'' d5) = nets0"
    by (simp_all add: get_null_def get_or_def obj_of_def)
  with mlds_parts [OF m] R N d5 j show ?thesis by metis
qed

lemma wifi_section:
  assumes "validate caps (JObj cfg) = Inr (JObj out, w)"
  shows "\<exists>cfg1 v w1. validate_wifi cfg1 caps v = Inr (get_null ''wifi'' out, w1)"
proof -
  have "sections caps = take 11 (sections caps) @ (''wifi'', \<lambda>cfg. validate_wifi cfg caps) #
      drop 12 (sections caps)"
    by (simp add: sections_def)
  from validate_section [OF assms this] obtain cfg1 v j w1 where
    "validate_wifi cfg1 caps v = Inr (j, w1)" "map_of out ''wifi'' = Some j"
    by blast
  then show ?thesis by (simp add: get_null_def get_or_def) blast
qed

definition sub_objects :: "string \<Rightarrow> json \<Rightarrow> obj" where
  "sub_objects k j = obj_of (get_null k (obj_of j))"

lemma wifi_loops:
  assumes "validate caps (JObj cfg) = Inr (JObj out, w)"
  obtains radios nets0 nets mlds rs u w1 w0 cfg1 xs u2 w2 ms c w3 where
    "sub_objects ''radios'' (get_null ''wifi'' out) = radios"
    "sub_objects ''networks'' (get_null ''wifi'' out) = nets"
    "sub_objects ''mlds'' (get_null ''wifi'' out) = mlds"
    "py_for (radio_body caps) rs () = Inr (radios, u, w1)"
    "py_for (wnet_body w0 cfg1 caps) xs () = Inr (nets0, u2, w2)"
    "py_for (mld_body (mld_radios caps radios)) ms (nets0, []) = Inr (mlds, (nets, c), w3)"
proof -
  from wifi_section [OF assms] obtain cfg1 v w' where
    "validate_wifi cfg1 caps v = Inr (get_null ''wifi'' out, w')" by blast
  from wifi_parts [OF this] obtain wifi radios nets0 nets mlds rs ms w0 c u w1 w2 xs u2 w3 where
    j: "get_null ''wifi'' out = JObj wifi" and "map_of wifi ''radios'' = Some (JObj radios)"
    "map_of wifi ''networks'' = Some (JObj nets)" "map_of wifi ''mlds'' = Some (JObj mlds)"
    and l: "py_for (radio_body caps) rs () = Inr (radios, u, w1)"
    "py_for (wnet_body w0 cfg1 caps) xs () = Inr (nets0, u2, w2)"
    "py_for (mld_body (mld_radios caps radios)) ms (nets0, []) = Inr (mlds, (nets, c), w3)"
    by blast
  then show thesis
    by (intro that [OF _ _ _ l]) (simp_all add: j sub_objects_def obj_of_def get_null_def get_or_def)
qed

text \<open>In every accepted document each radio has a known band, a width that band supports, 240
  MHz only on hardware that reports it, and, when its channel is fixed on a probed radio, a channel
  whose whole bonded block is permitted there.\<close>

theorem accepted_radios_feasible:
  assumes "validate caps (JObj cfg) = Inr (JObj out, w)"
  shows "list_all (\<lambda>(rid, radio). radio_ok caps rid radio)
    (sub_objects ''radios'' (get_null ''wifi'' out))"
proof (rule wifi_loops [OF assms])
  fix radios rs u w1
  assume "sub_objects ''radios'' (get_null ''wifi'' out) = radios"
    and "py_for (radio_body caps) rs () = Inr (radios, u, w1)"
  then show ?thesis using radios.loop_good by simp
qed

lemma accepted_radios_feasible_witness:
  "list_all (\<lambda>(rid, radio). radio_ok sample_caps rid radio)
    (sub_objects ''radios'' (get_null ''wifi'' sample_result))"
  using sample_accepted accepted_radios_feasible by blast

lemma nets_hardened_ok:
  assumes "nets_hardened a b" and "list_all (\<lambda>(_, n). wnet_ok caps n) a"
  shows "list_all (\<lambda>(_, n). wnet_ok caps n) b"
  using assms unfolding nets_hardened_def
  by (induction rule: list_all2_induct) (auto intro: hardened_wnet_ok)

lemma accepted_wnet_ok:
  assumes "validate caps (JObj cfg) = Inr (JObj out, w)"
  shows "list_all (\<lambda>(_, wnet). wnet_ok caps wnet) (sub_objects ''networks'' (get_null ''wifi'' out))"
proof (rule wifi_loops [OF assms])
  fix radios nets0 nets mlds w0 cfg1 xs u2 w2 ms c w3
  assume s: "sub_objects ''networks'' (get_null ''wifi'' out) = nets"
    and n: "py_for (wnet_body w0 cfg1 caps) xs () = Inr (nets0, u2, w2)"
    and m: "py_for (mld_body (mld_radios caps radios)) ms (nets0, []) = Inr (mlds, (nets, c), w3)"
  from wnets.loop_good [OF n] mld_loop_secured [OF m] show ?thesis
    unfolding s by (auto intro: nets_hardened_ok)
qed

text \<open>In every accepted document each wireless network has at least one known band and a known
  security mode; a network on 6 GHz uses WPA3, or OWE when it is open, with PMF required; a
  passphrase has 8 to 63 characters; and MLO is only on with two bands on hardware that supports it.
  This still holds after the multi-link devices have changed the networks.\<close>

theorem accepted_wireless_secure:
  assumes "validate caps (JObj cfg) = Inr (JObj out, w)"
  shows "list_all (\<lambda>(_, wnet). wnet_ok caps wnet) (sub_objects ''networks'' (get_null ''wifi'' out))"
  by (rule accepted_wnet_ok [OF assms])

lemma accepted_wireless_secure_witness:
  "list_all (\<lambda>(_, wnet). wnet_ok sample_caps wnet)
    (sub_objects ''networks'' (get_null ''wifi'' sample_result))"
  using sample_accepted accepted_wireless_secure by blast

text \<open>C39. In every accepted document each multi-link device binds known radios on pairwise different
  bands, at least two of them when it is enabled, to an existing wireless network, which then uses
  WPA3 with PMF required; and no radio carries the same wireless network twice, not even through
  different devices.\<close>

theorem accepted_mlds_sound:
  assumes "validate caps (JObj cfg) = Inr (JObj out, w)"
  shows "(let wifi = get_null ''wifi'' out; mlds = sub_objects ''mlds'' wifi;
      radios = mld_radios caps (sub_objects ''radios'' wifi) in
    list_all (\<lambda>(_, mld). mld_ok radios mld \<and> mld_secured (sub_objects ''networks'' wifi) mld) mlds \<and>
    distinct (concat (map (\<lambda>(_, mld). mld_claim mld) mlds)))"
proof (rule wifi_loops [OF assms])
  fix radios nets0 nets mlds ms c w3
  assume s: "sub_objects ''radios'' (get_null ''wifi'' out) = radios"
    "sub_objects ''networks'' (get_null ''wifi'' out) = nets"
    "sub_objects ''mlds'' (get_null ''wifi'' out) = mlds"
    and m: "py_for (mld_body (mld_radios caps radios)) ms (nets0, []) = Inr (mlds, (nets, c), w3)"
  from mlds.loop_good [OF m] mlds.loop_distinct [OF refl m] mld_loop_secured [OF m] show ?thesis
    unfolding s Let_def mlds.claims_def by (auto simp: list_all_iff)
qed

lemma accepted_mlds_sound_witness:
  "(let wifi = get_null ''wifi'' sample_result; mlds = sub_objects ''mlds'' wifi;
      radios = mld_radios sample_caps (sub_objects ''radios'' wifi) in
    list_all (\<lambda>(_, mld). mld_ok radios mld \<and> mld_secured (sub_objects ''networks'' wifi) mld) mlds)"
  using sample_accepted accepted_mlds_sound unfolding Let_def by blast

subsection \<open>Identifiers\<close>

lemma ID_RE_newline: "ID_RE s \<Longrightarrow> newline \<notin> set s \<Longrightarrow> ID_RE (s @ [newline])"
  by (auto simp: ID_RE_def re_dollar_def) (metis last_in_set)

text \<open>The identifier check, meant to admit only lower-case letters, digits and dashes, also
  admits every such identifier followed by a newline: \<open>$\<close> matches before a final newline. The same
  holds of the name check.\<close>

theorem ids_admit_trailing_newline:
  assumes "v_id (JStr s) p = Inr s" and "newline \<notin> set s"
  shows "v_id (JStr (s @ [newline])) p = Inr (s @ [newline])"
  using assms by (simp add: v_id_eq ID_RE_newline)

lemma ids_admit_trailing_newline_witness:
  "v_id (JStr (''lan'' @ [newline])) ''networks'' = Inr (''lan'' @ [newline])"
  by (rule ids_admit_trailing_newline) code_simp+

end
