(* ===== verification/StoreSafety.thy ===== *)
theory StoreSafety
  imports ConfigStore
begin

text \<open>
  What the configuration store guarantees: an invariant of every reachable state, also while a
  rollback is in flight in the timer thread, the outcome of every way a commit can end, and the
  completeness of the migration.
\<close>

interpretation revision_log: bounded_log "keep_newest max_revisions" max_revisions
  by (rule bounded_log_keep_newest) (simp add: max_revisions_def)

interpretation audit_trail: bounded_log "keep_newest max_audit" max_audit
  by (rule bounded_log_keep_newest) (simp add: max_audit_def)

subsection \<open>The ways a commit ends\<close>

lemma commit_cases:
  assumes "commit env args txid t st = (r, st')"
  obtains
    (lock) p where "st_pending st = Some p" "r = Inl (CommitError ''lock'' (pd_txid p) [])" "st' = st"
  | (nochange) res where "st_pending st = None" "r = Inr res" "cr_revision res = None" "\<not> cr_confirm_pending res"
      "cr_changes res = []" "st' = st" "diff_config (running st) (candidate st) [] = []"
  | (uncaught) e where "st_pending st = None" "r = Inl (Uncaught e)" "st' = st"
      "validate (env_caps env) (candidate st) = Inl (Raised e)"
  | (refused) stg details detail ch w where "st_pending st = None" "r = Inl (CommitError stg txid details)"
      "stg \<in> {''validate'', ''preflight''}"
      "st' = audit txid (ca_user args) (ca_ip args) ''commit'' False detail ch t (st\<lparr>world := w\<rparr>)"
  | (abort) stg details detail ch w where "st_pending st = None" "r = Inl (CommitError stg txid details)"
      "stg \<in> {''apply'', ''health''}"
      "st' = emit_event (RolledBack txid stg) (audit txid (ca_user args) (ca_ip args) ''commit'' False
         detail ch t (rollback_to env (running st) ((snd (checkpoint args txid t ch st))\<lparr>world := w\<rparr>)))"
  | (committed) new warnings msgs conf ch w w0 w1 where "st_pending st = None"
      "validate (env_caps env) (candidate st) = Inr (new, warnings)"
      "ch = diff_config (running st) (candidate st) []"
      "preflight (appliers env) (running st) new (world st) = ([], w0)"
      "apply_all (appliers env) (running st) new w0 = ((msgs, conf, None), w1)"
      "check_health (health_checks env) new w1 = ([], w)"
      "(r, st') = finish_commit args txid t ch (running st) warnings msgs conf
         (fst (checkpoint args txid t ch st)) new ((snd (checkpoint args txid t ch st))\<lparr>world := w\<rparr>)"
proof (cases "st_pending st")
  case (Some p)
  with assms show thesis by (intro lock) (auto simp: commit_def)
next
  case None
  let ?ch = "diff_config (running st) (candidate st) []"
  show thesis
  proof (cases "?ch = [] \<and> \<not> ca_force args")
    case True
    with None assms show thesis by (intro nochange) (auto simp: commit_def Let_def)
  next
    case False
    show thesis
    proof (cases "validate (env_caps env) (candidate st)")
      case (Inl e)
      show thesis
      proof (cases e)
        case (ValidationError path)
        with None False Inl assms show thesis
          by (intro refused [of "''validate''" "[]" "''validation failed: '' @ path" ?ch "world st"])
            (auto simp: commit_def Let_def fail_commit_def)
      next
        case (Raised x)
        with None False Inl assms show thesis by (intro uncaught) (auto simp: commit_def Let_def)
      qed
    next
      case (Inr nw)
      obtain new warnings where nw: "nw = (new, warnings)" by (cases nw)
      obtain problems w0 where p: "preflight (appliers env) (running st) new (world st) = (problems, w0)"
        by fastforce
      have c: "(r, st') = (if problems \<noteq> [] then fail_commit args txid t ?ch ''preflight''
          (str_join ''; '' problems) problems (st\<lparr>world := w0\<rparr>)
        else apply_commit env args txid t ?ch (running st) new warnings (st\<lparr>world := w0\<rparr>))"
        using assms None False Inr nw p by (auto simp: commit_def Let_def)
      show thesis
      proof (cases "problems = []")
        case False
        with c None show thesis by (intro refused) (auto simp: fail_commit_def)
      next
        case True
        obtain msgs conf failed w1 where a: "apply_all (appliers env) (running st) new w0 =
            ((msgs, conf, failed), w1)" by (metis prod.exhaust)
        obtain un w where h: "check_health (health_checks env) new w1 = (un, w)" by fastforce
        have cp: "checkpoint args txid t ?ch (st\<lparr>world := w0\<rparr>) =
            (fst (checkpoint args txid t ?ch st), (snd (checkpoint args txid t ?ch st))\<lparr>world := w0\<rparr>)"
          by (simp add: checkpoint_def save_revision_def latest_revision_def Let_def)
        note c' = c [unfolded True apply_commit_def cp Let_def prod.case, simplified, unfolded a h prod.case]
        show thesis
        proof (cases failed)
          case (Some name)
          with c' None show thesis
            by (intro abort [of "''apply''"]) (auto simp: abort_commit_def fail_commit_def)
        next
          case failed: None
          show thesis
          proof (cases "un = []")
            case False
            with c' None failed show thesis
              by (intro abort [of "''health''"]) (auto simp: abort_commit_def fail_commit_def)
          next
            case un: True
            with c' None failed Inr nw p True a h show thesis by (intro committed) auto
          qed
        qed
      qed
    qed
  qed
qed

subsection \<open>The system: the store and the rollbacks in flight\<close>

type_synonym 'w sys = "'w store \<times> (string \<times> json) list"

text \<open>One step of any thread: a request, or one of the two halves of the rollback timer. The timer may
  fire for any transaction at any time; \<open>_rollback_timeout\<close> checks the transaction itself.\<close>

inductive sys_step :: "'w env \<Rightarrow> 'w sys \<Rightarrow> 'w sys \<Rightarrow> bool" for env where
  stage: "stage env mutate st = (r, st') \<Longrightarrow> sys_step env (st, fl) (st', fl)"
| discard: "sys_step env (st, fl) (discard_candidate st, fl)"
| commit: "commit env args txid t st = (r, st') \<Longrightarrow> sys_step env (st, fl) (st', fl)"
| confirm: "confirm txid user t st = (b, st') \<Longrightarrow> sys_step env (st, fl) (st', fl)"
| timer: "timeout_begin txid st = (Some previous, st') \<Longrightarrow>
    sys_step env (st, fl) (st', (txid, previous) # fl)"
| rollback: "(txid, previous) \<in> set fl \<Longrightarrow>
    sys_step env (st, fl) (timeout_finish env txid t previous st, remove1 (txid, previous) fl)"
| revert: "rollback_to_revision env rid user ip txid t st = (r, st') \<Longrightarrow>
    sys_step env (st, fl) (st', fl)"

text \<open>A document the store may run: the one it started with, or one that passed validation.\<close>

definition accepted :: "'w env \<Rightarrow> json \<Rightarrow> json \<Rightarrow> bool" where
  "accepted env init c \<longleftrightarrow> c = init \<or> (\<exists>x w. validate (env_caps env) x = Inr (c, w))"

definition log_ok :: "'w store \<Rightarrow> bool" where
  "log_ok st \<longleftrightarrow>
     length (st_revisions st) \<le> max_revisions \<and> sorted_wrt (>) (map rv_id (st_revisions st)) \<and>
     (\<forall>r \<in> set (st_revisions st). rv_id r < next_revision st) \<and>
     length (st_audit st) \<le> max_audit \<and> sorted_wrt (>) (map au_id (st_audit st)) \<and>
     (\<forall>a \<in> set (st_audit st). au_id a < next_audit st \<and> list_all change_secret_free (au_diff a))"

text \<open>A start with any history; \<open>disk\<close> is the stored document, which differs from the running one
  when the running one was migrated.\<close>

inductive reachable :: "'w env \<Rightarrow> json \<Rightarrow> json \<Rightarrow> 'w sys \<Rightarrow> bool" for env init disk where
  start: "running st = init \<Longrightarrow> running_file st = disk \<Longrightarrow> st_pending st = None \<Longrightarrow>
    st_timer st = None \<Longrightarrow> log_ok st \<Longrightarrow> reachable env init disk (st, [])"
| next_step: "reachable env init disk s \<Longrightarrow> sys_step env s s' \<Longrightarrow> reachable env init disk s'"

definition store_ok :: "'w env \<Rightarrow> json \<Rightarrow> json \<Rightarrow> 'w store \<Rightarrow> bool" where
  "store_ok env init disk st \<longleftrightarrow> log_ok st \<and> st_timer st = map_option pd_txid (st_pending st) \<and>
     (running_file st = running st \<or> running_file st = disk \<and> running st = init) \<and>
     accepted env init (running st) \<and>
     (\<forall>p. st_pending st = Some p \<longrightarrow> accepted env init (pd_previous p))"

lemma log_ok_save:
  assumes "log_ok st" shows "log_ok (snd (save_revision txid user src summ cfg t st))"
proof -
  let ?r = "\<lparr>rv_id = next_revision st, rv_txid = txid, rv_ts = t, rv_user = user,
    rv_source = src, rv_summary = summ, rv_config = cfg\<rparr>"
  from assms have "sorted_wrt (>) (map rv_id (st_revisions st))"
    "\<forall>x \<in> set (st_revisions st). rv_id x < rv_id ?r" by (auto simp: log_ok_def)
  from revision_log.push_sorted [OF this] revision_log.push_length revision_log.push_old assms
  show ?thesis by (fastforce simp: log_ok_def save_revision_def Let_def)
qed

lemma log_ok_audit:
  assumes "log_ok st" shows "log_ok (audit txid user ip act ok det ch t st)"
proof -
  let ?r = "\<lparr>au_id = next_audit st, au_txid = txid, au_ts = t, au_user = user, au_ip = ip,
    au_action = act, au_resource = ''config'', au_success = ok, au_detail = det, au_diff = redact ch\<rparr>"
  from assms have "sorted_wrt (>) (map au_id (st_audit st))"
    "\<forall>x \<in> set (st_audit st). au_id x < au_id ?r" by (auto simp: log_ok_def)
  from audit_trail.push_sorted [OF this] audit_trail.push_length audit_trail.push_old assms
    redact_secret_free_all [of ch]
  show ?thesis by (fastforce simp: log_ok_def audit_def Let_def)
qed

lemma log_ok_cong:
  "st_revisions st' = st_revisions st \<Longrightarrow> next_revision st' = next_revision st \<Longrightarrow>
   st_audit st' = st_audit st \<Longrightarrow> next_audit st' = next_audit st \<Longrightarrow> log_ok st' \<longleftrightarrow> log_ok st"
  by (simp add: log_ok_def)

lemma log_ok_checkpoint: "log_ok st \<Longrightarrow> log_ok (snd (checkpoint args txid t ch st))"
  by (simp add: checkpoint_def log_ok_save)

text \<open>What the bookkeeping leaves alone.\<close>

lemma audit_frame [simp]:
  "running (audit txid user ip act ok det ch t st) = running st"
  "candidate (audit txid user ip act ok det ch t st) = candidate st"
  "running_file (audit txid user ip act ok det ch t st) = running_file st"
  "st_pending (audit txid user ip act ok det ch t st) = st_pending st"
  "st_timer (audit txid user ip act ok det ch t st) = st_timer st"
  "st_revisions (audit txid user ip act ok det ch t st) = st_revisions st"
  "next_revision (audit txid user ip act ok det ch t st) = next_revision st"
  "world (audit txid user ip act ok det ch t st) = world st"
  by (simp_all add: audit_def Let_def)

lemma emit_frame [simp]:
  "running (emit_event e st) = running st" "candidate (emit_event e st) = candidate st"
  "running_file (emit_event e st) = running_file st" "st_pending (emit_event e st) = st_pending st"
  "st_timer (emit_event e st) = st_timer st" "st_revisions (emit_event e st) = st_revisions st"
  "next_revision (emit_event e st) = next_revision st" "st_audit (emit_event e st) = st_audit st"
  "next_audit (emit_event e st) = next_audit st" "world (emit_event e st) = world st"
  by (simp_all add: emit_event_def)

lemma checkpoint_frame [simp]:
  "running (snd (checkpoint args txid t ch st)) = running st"
  "candidate (snd (checkpoint args txid t ch st)) = candidate st"
  "running_file (snd (checkpoint args txid t ch st)) = running_file st"
  "st_pending (snd (checkpoint args txid t ch st)) = st_pending st"
  "st_timer (snd (checkpoint args txid t ch st)) = st_timer st"
  "world (snd (checkpoint args txid t ch st)) = world st"
  by (simp_all add: checkpoint_def save_revision_def Let_def)

lemma rollback_frame [simp]:
  "running (rollback_to env c st) = c" "candidate (rollback_to env c st) = c"
  "running_file (rollback_to env c st) = c" "st_pending (rollback_to env c st) = st_pending st"
  "st_timer (rollback_to env c st) = st_timer st" "log_ok (rollback_to env c st) = log_ok st"
  "world (rollback_to env c st) = reapply (appliers env) (running st) c (world st)"
  by (simp_all add: rollback_to_def Let_def log_ok_def)

lemma log_ok_frame [simp]:
  "log_ok (emit_event e st) = log_ok st" "log_ok (st\<lparr>world := w\<rparr>) = log_ok st"
  "log_ok (st\<lparr>st_timer := tm\<rparr>) = log_ok st" "log_ok (st\<lparr>st_pending := p\<rparr>) = log_ok st"
  "log_ok (st\<lparr>running := a\<rparr>) = log_ok st" "log_ok (st\<lparr>running_file := a\<rparr>) = log_ok st"
  "log_ok (st\<lparr>candidate := a\<rparr>) = log_ok st" "log_ok (st\<lparr>candidate_file := f\<rparr>) = log_ok st"
  by (simp_all add: log_ok_def emit_event_def)

lemma finish_commit_spec:
  assumes "finish_commit args txid t ch old warnings msgs conf cp new st = (r, st')"
    and "st_pending st = None"
  shows "running st' = new \<and> running_file st' = new \<and> candidate st' = new \<and> world st' = world st \<and>
    (log_ok st \<longrightarrow> log_ok st') \<and> (st_timer st = None \<longrightarrow> st_timer st' = map_option pd_txid (st_pending st')) \<and>
    (\<forall>p. st_pending st' = Some p \<longrightarrow> pd_previous p = old \<and> pd_txid p = txid \<and>
       pd_deadline p = t + of_int (ca_rollback_seconds args)) \<and>
    (st_pending st' \<noteq> None \<longleftrightarrow>
       (case ca_confirm args of None \<Rightarrow> conf | Some b \<Rightarrow> b) \<and> 0 < ca_rollback_seconds args) \<and>
    (\<exists>res. r = Inr res \<and> cr_revision res \<noteq> None \<and> cr_changes res = ch \<and> cr_txid res = txid \<and>
       cr_confirm_pending res = (st_pending st' \<noteq> None))"
proof -
  let ?st1 = "st\<lparr>running := new, running_file := new, candidate := new\<rparr>"
  let ?label = "or_else (ca_summary args) (summarise ch)"
  obtain rev st2 where rev: "(if ch \<noteq> [] then save_revision txid (ca_user args) ''commit'' ?label new t ?st1
      else (cp, ?st1)) = (rev, st2)" by fastforce
  have st2: "running st2 = new" "running_file st2 = new" "candidate st2 = new" "world st2 = world st"
    "st_pending st2 = None" "st_timer st2 = st_timer st" "log_ok st \<longrightarrow> log_ok st2"
    using rev assms(2) log_ok_save [of ?st1 txid "ca_user args" "''commit''" ?label new t]
    by (auto simp: save_revision_def Let_def split: if_splits)
  note f = assms(1) [unfolded finish_commit_def Let_def rev prod.case]
  show ?thesis
    using f st2 by (auto simp: log_ok_audit split: if_splits option.splits)
qed

lemma store_ok_commit:
  assumes "store_ok env init disk st" and c: "commit env args txid t st = (r, st')"
  shows "store_ok env init disk st'"
  using c
proof (cases rule: commit_cases)
  case (committed new warnings msgs conf ch w w0 w1)
  have "st_pending ((snd (checkpoint args txid t ch st))\<lparr>world := w\<rparr>) = None"
    using committed(1) by simp
  from finish_commit_spec [OF committed(7) [symmetric] this] assms(1) committed(1,2)
  show ?thesis by (auto simp: store_ok_def accepted_def log_ok_checkpoint)
next
  case (abort stg details detail ch w)
  with assms(1) show ?thesis by (auto simp: store_ok_def log_ok_audit log_ok_checkpoint)
qed (use assms(1) in \<open>auto simp: store_ok_def log_ok_audit\<close>)

lemma store_ok_candidate:
  "store_ok env init disk st \<Longrightarrow> store_ok env init disk (st\<lparr>candidate := c\<rparr>)"
  by (simp add: store_ok_def)

text \<open>The invariant of the system: the store is fine, and so is what any rollback in flight restores.\<close>

definition sys_ok :: "'w env \<Rightarrow> json \<Rightarrow> json \<Rightarrow> 'w sys \<Rightarrow> bool" where
  "sys_ok env init disk s \<longleftrightarrow> store_ok env init disk (fst s) \<and>
     (\<forall>(txid, previous) \<in> set (snd s). accepted env init previous)"

lemma sys_ok_step: "sys_step env s s' \<Longrightarrow> sys_ok env init disk s \<Longrightarrow> sys_ok env init disk s'"
proof (induction rule: sys_step.induct)
  case (stage mutate st r st' fl)
  then show ?case
    by (auto simp: sys_ok_def stage_def store_ok_def split: sum.splits prod.splits)
next
  case (discard st fl)
  then show ?case by (simp add: sys_ok_def discard_candidate_def store_ok_def)
next
  case (commit args txid t st r st' fl)
  then show ?case by (auto simp: sys_ok_def intro: store_ok_commit)
next
  case (confirm txid user t st b st' fl)
  then show ?case
    by (auto simp: sys_ok_def confirm_def store_ok_def log_ok_audit split: option.splits if_splits)
next
  case (timer txid st previous st' fl)
  then show ?case
    by (auto simp: sys_ok_def timeout_begin_def store_ok_def split: option.splits if_splits)
next
  case (rollback txid previous fl t st)
  then show ?case
    by (auto simp: sys_ok_def timeout_finish_def store_ok_def log_ok_audit dest: notin_set_remove1)
next
  case (revert rid user ip txid t st r st' fl)
  then show ?case
    by (auto simp: sys_ok_def rollback_to_revision_def intro: store_ok_commit store_ok_candidate
        split: option.splits)
qed

lemma reachable_sys_ok: "reachable env init disk s \<Longrightarrow> sys_ok env init disk s"
proof (induction rule: reachable.induct)
  case (start st)
  then show ?case by (simp add: sys_ok_def store_ok_def accepted_def)
qed (rule sys_ok_step)

subsection \<open>Properties\<close>

text \<open>An environment without appliers, for the witnesses.\<close>

definition idle_env :: "unit env" where
  "idle_env = \<lparr>appliers = [], health_checks = [], env_caps = None\<rparr>"

definition boot_args :: commit_args where
  "boot_args = \<lparr>ca_user = ''system'', ca_ip = ''local'', ca_summary = [], ca_rollback_seconds = 120,
     ca_confirm = Some True, ca_force = True\<rparr>"

definition booted :: "unit store" where
  "booted = snd (commit idle_env boot_args ''tx1'' 0 (init_store None None ()))"

lemma init_log_ok: "log_ok (init_store f c w)"
  by (simp add: log_ok_def init_store_def split: prod.splits)

text \<open>C1. In every reachable state, whatever the order of staging, commits, confirmations, reverts and
  the two halves of the rollback timer: the rollback timer is armed exactly while a commit waits for
  confirmation; the document on disk is the running one (or the one found at boot, before anything
  was committed); the running document, and every document a rollback would restore, is the one the
  store started with or one that passed validation; at most 60 revisions and 5000 audit rows are
  kept, newest first with increasing ids; and no audit row shows a secret.\<close>

theorem store_invariant:
  assumes "reachable env init disk s"
  shows "sys_ok env init disk s"
  using assms by (rule reachable_sys_ok)

lemma booted_reachable: "reachable idle_env (JObj default_config) (JObj default_config) (booted, [])"
proof (rule reachable.next_step)
  show "reachable idle_env (JObj default_config) (JObj default_config) (init_store None None (), [])"
    by (rule reachable.start) (simp_all add: init_store_def load_running_def init_log_ok [unfolded init_store_def load_running_def, of None, simplified])
  show "sys_step idle_env (init_store None None (), []) (booted, [])"
    by (rule sys_step.commit [where r = "fst (commit idle_env boot_args ''tx1'' 0 (init_store None None ()))"])
      (simp add: booted_def)
qed

lemma store_invariant_witness: "sys_ok idle_env (JObj default_config) (JObj default_config) (booted, [])"
  using booted_reachable by (rule store_invariant)

lemma audit_first: "st_audit (audit txid user ip act ok det ch t st) \<noteq> [] \<and>
  au_success (hd (st_audit (audit txid user ip act ok det ch t st))) = ok \<and>
  au_txid (hd (st_audit (audit txid user ip act ok det ch t st))) = txid"
  by (simp add: audit_def Let_def keep_newest_def max_audit_def)

text \<open>C9. A commit that fails leaves the running document and the pending commit as they were, and
  the disk with the old or the running document. A failure in an applier or a health check also
  resets the candidate and re-runs every applier, with the running document as both of its
  arguments; any other refusal keeps the candidate. Every failure but that of the lock is audited as
  a failure.\<close>

theorem failed_commit_keeps_running:
  assumes "commit env args txid t st = (Inl (CommitError stg tx details), st')"
  shows "running st' = running st \<and> st_pending st' = st_pending st \<and>
    running_file st' \<in> {running_file st, running st} \<and>
    (if stg \<in> {''apply'', ''health''}
     then candidate st' = running st \<and>
       (\<exists>w. world st' = reapply (appliers env) (running st) (running st) w)
     else candidate st' = candidate st) \<and>
    (stg = ''lock'' \<or> (st_audit st' \<noteq> [] \<and> \<not> au_success (hd (st_audit st')) \<and>
       au_txid (hd (st_audit st')) = txid))"
  using assms
proof (cases rule: commit_cases)
  case (committed new warnings msgs conf ch w w0 w1)
  then have False by (auto simp: finish_commit_def Let_def split: prod.splits)
  then show ?thesis ..
qed (auto simp: audit_first)

definition refusing_env :: "unit env" where
  "refusing_env = \<lparr>appliers = [\<lparr>ap_name = ''netd'', ap_preflight = None,
     ap_run = \<lambda>old new w. (Inr \<lparr>ar_ok = False, ar_messages = [], ar_confirm = False\<rparr>, w)\<rparr>],
     health_checks = [], env_caps = None\<rparr>"

lemma refusing_commit: "\<exists>st'. commit refusing_env boot_args ''tx1'' 0 (init_store None None ()) =
    (Inl (CommitError ''apply'' ''tx1'' []), st')"
proof -
  have "diff_config (JObj default_config) (JObj default_config) [] = [] \<or> True" by simp
  then show ?thesis
    by (simp add: commit_def init_store_def load_running_def boot_args_def refusing_env_def
        validate_default apply_commit_def checkpoint_def save_revision_def abort_commit_def
        fail_commit_def Let_def)
qed

lemma failed_commit_keeps_running_witness:
  "\<exists>st'. running st' = JObj default_config \<and> \<not> au_success (hd (st_audit st')) \<and>
     commit refusing_env boot_args ''tx1'' 0 (init_store None None ()) =
       (Inl (CommitError ''apply'' ''tx1'' []), st')"
  using refusing_commit failed_commit_keeps_running [of refusing_env boot_args "''tx1''" 0]
  by (fastforce simp: init_store_def load_running_def)

lemma booted_commit: "\<exists>res. commit idle_env boot_args ''tx1'' 0 (init_store None None ()) = (Inr res, booted) \<and>
    cr_confirm_pending res"
  by (simp add: booted_def commit_def init_store_def load_running_def boot_args_def idle_env_def
      validate_default apply_commit_def checkpoint_def save_revision_def finish_commit_def Let_def)

text \<open>A commit that takes effect runs the candidate as validation returned it, on disk, in memory
  and as the new candidate; no applier refused it, none failed and every health check passed. It waits for confirmation exactly when one was asked
  for (by the caller, else by an applier) and the window is not empty, and then it remembers the
  document that was running before and its deadline.\<close>

theorem commit_takes_effect:
  assumes "commit env args txid t st = (Inr res, st')" and "cr_revision res \<noteq> None"
  shows "(\<exists>w w0 w1 msgs conf. validate (env_caps env) (candidate st) = Inr (running st', w) \<and>
      preflight (appliers env) (running st) (running st') (world st) = ([], w0) \<and>
      apply_all (appliers env) (running st) (running st') w0 = ((msgs, conf, None), w1) \<and>
      check_health (health_checks env) (running st') w1 = ([], world st') \<and>
      (cr_confirm_pending res \<longleftrightarrow>
         (case ca_confirm args of None \<Rightarrow> conf | Some b \<Rightarrow> b) \<and> 0 < ca_rollback_seconds args)) \<and>
    running_file st' = running st' \<and> candidate st' = running st' \<and>
    cr_confirm_pending res = (st_pending st' \<noteq> None) \<and>
    (\<forall>p. st_pending st' = Some p \<longrightarrow> pd_txid p = txid \<and> pd_previous p = running st \<and>
       pd_deadline p = t + of_int (ca_rollback_seconds args))"
  using assms(1)
proof (cases rule: commit_cases)
  case (committed new warnings msgs conf ch w w0 w1)
  have "st_pending ((snd (checkpoint args txid t ch st))\<lparr>world := w\<rparr>) = None"
    using committed(1) by simp
  note f = finish_commit_spec [OF committed(7) [symmetric] this]
  then have "running st' = new" "world st' = w" "running_file st' = new" "candidate st' = new"
    by simp_all
  with f committed(2,4-6) show ?thesis by auto
qed (use assms(2) in auto)

lemma commit_takes_effect_witness:
  "running_file booted = running booted \<and> candidate booted = running booted \<and>
   (\<exists>p. st_pending booted = Some p \<and> pd_deadline p = 120)"
proof -
  from booted_commit obtain res where c: "commit idle_env boot_args ''tx1'' 0 (init_store None None ()) =
    (Inr res, booted)" and p: "cr_confirm_pending res" by blast
  have "cr_revision res \<noteq> None"
    using c
  proof (cases rule: commit_cases)
    case (committed new warnings msgs conf ch w w0 w1)
    then show ?thesis by (auto simp: finish_commit_def Let_def split: prod.splits)
  qed (use p in auto)
  from commit_takes_effect [OF c this] p show ?thesis by (auto simp: boot_args_def)
qed

text \<open>C35. A commit that waits for confirmation is resolved in one of two ways. If the timer fires, the
  two halves of the rollback put the previous document back, in memory, on disk and as the
  candidate, and nothing is pending any more. If it is confirmed first, the new document stays and
  the timer, should it still fire, finds nothing to do.\<close>

theorem pending_commit_resolves:
  assumes "commit env args txid t st = (Inr res, st')" and "cr_confirm_pending res"
  shows "(\<exists>st1. timeout_begin txid st' = (Some (running st), st1) \<and> st_pending st1 = None \<and>
      (let st2 = timeout_finish env txid t' (running st) st1 in
        running st2 = running st \<and> running_file st2 = running st \<and> candidate st2 = running st \<and>
        st_pending st2 = None \<and>
        world st2 = reapply (appliers env) (running st') (running st) (world st'))) \<and>
    (\<exists>st3. confirm txid user t' st' = (True, st3) \<and> running st3 = running st' \<and>
      timeout_begin txid st3 = (None, st3))"
  using assms(1)
proof (cases rule: commit_cases)
  case (committed new warnings msgs conf ch w w0 w1)
  have "st_pending ((snd (checkpoint args txid t ch st))\<lparr>world := w\<rparr>) = None"
    using committed(1) by simp
  from finish_commit_spec [OF committed(7) [symmetric] this] assms(2) obtain p where
    "st_pending st' = Some p" "pd_txid p = txid" "pd_previous p = running st"
    by auto
  then show ?thesis
    by (simp add: timeout_begin_def timeout_finish_def confirm_def Let_def)
qed (use assms in auto)

lemma pending_commit_resolves_witness:
  "\<exists>st1. timeout_begin ''tx1'' booted = (Some (JObj default_config), st1) \<and> st_pending st1 = None"
proof -
  from booted_commit obtain res where "commit idle_env boot_args ''tx1'' 0 (init_store None None ()) =
    (Inr res, booted)" and "cr_confirm_pending res" by blast
  from pending_commit_resolves [OF this] show ?thesis by (auto simp: init_store_def load_running_def)
qed

text \<open>Between the two halves of the rollback timer another commit can complete. The second half
  then overwrites it with the older document, yet a confirmation of that commit still succeeds: the
  caller is told, and the audit log records, that a document is confirmed which is not running.\<close>

theorem timer_race_loses_commit:
  assumes "timeout_begin txid st = (Some previous, st1)"
    and "commit env args tx t st1 = (Inr res, st2)" and "cr_confirm_pending res"
  shows "(let st3 = timeout_finish env txid t previous st2 in
    running st3 = previous \<and> fst (confirm tx user t st3) \<and>
    running (snd (confirm tx user t st3)) = previous)"
  using assms(2)
proof (cases rule: commit_cases)
  case (committed new warnings msgs conf ch w w0 w1)
  have "st_pending ((snd (checkpoint args tx t ch st1))\<lparr>world := w\<rparr>) = None"
    using committed(1) by simp
  from finish_commit_spec [OF committed(7) [symmetric] this] assms(3) obtain p where
    "st_pending st2 = Some p" "pd_txid p = tx" by auto
  then show ?thesis by (simp add: timeout_finish_def confirm_def Let_def)
qed (use assms in auto)

text \<open>On a concrete store: the boot commit times out while the hostname is changed.\<close>

definition renamed_config :: obj where
  "renamed_config = dset ''system'' (JObj (dset ''hostname'' (JStr ''attic'') (obj_of default_system)))
     default_config"

definition racing :: "unit store" where
  "racing = (snd (timeout_begin ''tx1'' booted))\<lparr>candidate := JObj renamed_config\<rparr>"

lemma renamed_accepted: "\<exists>new w. validate None (JObj renamed_config) = Inr (new, w)"
proof -
  have "is_ok (validate None (JObj renamed_config))" by code_simp
  then show ?thesis by (auto simp: is_ok_iff)
qed

lemma idle_commit:
  assumes "st_pending st = None" "validate None (candidate st) = Inr (new, w)"
  shows "\<exists>res st'. commit idle_env boot_args tx 0 st = (Inr res, st') \<and> cr_confirm_pending res"
  using assms
  by (simp add: commit_def idle_env_def boot_args_def apply_commit_def checkpoint_def
      save_revision_def finish_commit_def Let_def split: if_splits)

lemma timer_race_loses_commit_witness:
  "\<exists>st2. running (timeout_finish idle_env ''tx1'' 0 (JObj default_config) st2) = JObj default_config \<and>
     fst (confirm ''tx2'' ''admin'' 0 (timeout_finish idle_env ''tx1'' 0 (JObj default_config) st2))"
proof -
  have b: "timeout_begin ''tx1'' booted = (Some (JObj default_config), snd (timeout_begin ''tx1'' booted))"
    and n: "st_pending (snd (timeout_begin ''tx1'' booted)) = None"
    by (simp_all add: booted_def commit_def init_store_def load_running_def boot_args_def idle_env_def
      validate_default apply_commit_def checkpoint_def save_revision_def finish_commit_def Let_def
      timeout_begin_def)
  let ?st = "booted\<lparr>candidate := JObj renamed_config\<rparr>"
  from b n have b': "timeout_begin ''tx1'' ?st = (Some (JObj default_config), racing)"
    and n': "st_pending racing = None" and c': "candidate racing = JObj renamed_config"
    by (auto simp: racing_def timeout_begin_def split: option.splits if_splits)
  from renamed_accepted obtain new w where "validate None (candidate racing) = Inr (new, w)"
    unfolding c' by blast
  from idle_commit [OF n' this] obtain res st2 where
    "commit idle_env boot_args ''tx2'' 0 racing = (Inr res, st2)" "cr_confirm_pending res" by blast
  from timer_race_loses_commit [OF b' this, where user = "''admin''"] show ?thesis
    by (auto simp: Let_def)
qed

text \<open>After a commit with changes the history holds both documents: the revision it reports has
  the new one, the revision before it the one that was running, so the change can be undone.\<close>

theorem commit_is_undoable:
  assumes "commit env args txid t st = (Inr res, st')" and "cr_changes res \<noteq> []"
  shows "cr_revision res = Some (Suc (next_revision st)) \<and>
    find_revision (Suc (next_revision st)) st' = Some (running st') \<and>
    find_revision (next_revision st) st' = Some (running st)"
  using assms(1)
proof (cases rule: commit_cases)
  case (committed new warnings msgs conf ch w w0 w1)
  with assms(2) have "ch \<noteq> []" by (auto simp: finish_commit_def Let_def split: prod.splits)
  with committed(7) show ?thesis
    by (auto simp: finish_commit_def checkpoint_def save_revision_def Let_def find_revision_def
        audit_def emit_event_def keep_newest_def max_revisions_def take_Cons' split: if_splits)
qed (use assms(2) in auto)

lemma commit_is_undoable_witness:
  "\<exists>st' :: unit store. find_revision 1 st' = Some (JObj default_config) \<and> find_revision 2 st' = Some (running st')"
proof -
  let ?st = "init_store None None ()\<lparr>candidate := JObj renamed_config\<rparr>"
  have d: "diff_config (JObj default_config) (JObj renamed_config) [] \<noteq> []" by code_simp
  from renamed_accepted obtain new w where "validate None (candidate ?st) = Inr (new, w)" by auto
  then obtain res st' where c: "commit idle_env boot_args ''tx2'' 0 ?st = (Inr res, st')"
    and "cr_confirm_pending res"
    using idle_commit [of ?st new w "''tx2''"] by (auto simp: init_store_def load_running_def)
  from c have "cr_changes res = diff_config (JObj default_config) (JObj renamed_config) []"
  proof (cases rule: commit_cases)
    case (committed new warnings msgs conf ch w w0 w1)
    then show ?thesis
      by (auto simp: finish_commit_def Let_def init_store_def load_running_def split: prod.splits)
  qed (use \<open>cr_confirm_pending res\<close> in auto)
  with d have "cr_changes res \<noteq> []" by simp
  from commit_is_undoable [OF c this] show ?thesis
    by (simp add: init_store_def load_running_def numeral_2_eq_2) blast
qed

text \<open>A check that refuses without a message is ignored: when every preflight answers
  \<open>(False, [])\<close> the commit sees no problem, and the same holds of the health checks.\<close>

theorem silent_refusal_ignored:
  assumes "\<forall>a \<in> set as. \<exists>chk. ap_preflight a = Some chk \<and> (\<forall>w. chk old new w = (Inr (False, []), w))"
    and "\<forall>h \<in> set hs. \<forall>w. hc_run h new w = (Inr (False, []), w)"
  shows "preflight as old new w = ([], w) \<and> check_health hs new w = ([], w)"
proof
  from assms(1) show "preflight as old new w = ([], w)"
    by (induction as) auto
  from assms(2) show "check_health hs new w = ([], w)"
    by (induction hs) auto
qed

lemma silent_refusal_ignored_witness:
  "check_health [\<lparr>hc_name = ''wan'', hc_run = \<lambda>new w. (Inr (False, []), w)\<rparr>] JNull () = ([], ())"
  using silent_refusal_ignored
    [of "[]" JNull JNull "[\<lparr>hc_name = ''wan'', hc_run = \<lambda>new w. (Inr (False, []), w)\<rparr>]" "()"]
  by simp

text \<open>Reverting to a revision while another commit waits for confirmation is refused by the lock,
  but only after the staged candidate was replaced by the old revision: the staged changes are lost.\<close>

theorem refused_revert_drops_candidate:
  assumes "st_pending st = Some p" and "find_revision rid st = Some config"
  shows "\<exists>st'. rollback_to_revision env rid user ip txid t st =
      (Inl (CommitError ''lock'' (pd_txid p) []), st') \<and>
    candidate st' = JObj (migrate (obj_of config)) \<and> running st' = running st"
  using assms by (simp add: rollback_to_revision_def commit_def)

lemma default_unchanged: "diff_config (JObj default_config) (JObj default_config) [] = []"
proof -
  have "wf_json (JObj default_config)" by code_simp
  from diff_empty [OF this this] py_eq_refl [OF this] show ?thesis by blast
qed

lemma refused_revert_drops_candidate_witness:
  "\<exists>st'. rollback_to_revision idle_env 1 ''admin'' ''local'' ''tx2'' 0
      (snd (save_revision ''tx0'' ''admin'' ''commit'' [] (JObj []) 0 booted)) =
    (Inl (CommitError ''lock'' ''tx1'' []), st') \<and> candidate st' = JObj (migrate [])"
proof -
  let ?st = "snd (save_revision ''tx0'' ''admin'' ''commit'' [] (JObj []) 0 booted)"
  have "\<exists>p. st_pending ?st = Some p \<and> pd_txid p = ''tx1''" "find_revision 1 ?st = Some (JObj [])"
    by (simp_all add: booted_def commit_def init_store_def load_running_def boot_args_def idle_env_def
      validate_default apply_commit_def checkpoint_def save_revision_def finish_commit_def Let_def
      find_revision_def keep_newest_def max_revisions_def audit_def emit_event_def default_unchanged)
  then obtain p where "st_pending ?st = Some p" "pd_txid p = ''tx1''" by blast
  from refused_revert_drops_candidate [OF this(1) \<open>find_revision 1 ?st = Some (JObj [])\<close>]
  show ?thesis unfolding \<open>pd_txid p = ''tx1''\<close> obj_of_def json.case by blast
qed

end
