(* ===== verification/Nft.thy ===== *)
theory Nft
  imports Doc
begin

text \<open>
  The packet filter of \<open>adapters/nft.py\<close>: the running configuration rendered as one nftables ruleset.
  A rule keeps its parts (matches, counter, log, statement, comment) until \<open>show_rule\<close> prints it, so
  that the meaning of a chain can be stated over the rules while the text is exactly the one the
  code writes. Matches whose meaning matters below are constructors of their own; every other match
  is kept as its text. A \<open>KeyError\<close> of the code is an \<open>Inl\<close> result.
\<close>

subsection \<open>Rules\<close>

datatype nft_match =
    IifSet string
  | OifSet string
  | IifName string
  | OifName string
  | CtReply
  | CtInvalid
  | CtDnat
  | Match string

datatype nft_verdict = Accept | Reject | Drop

datatype nft_stmt = Verdict nft_verdict | Stmt string

record nft_rule =
  nr_matches :: "nft_match list"
  nr_counter :: bool
  nr_log :: "string option"
  nr_stmt :: nft_stmt
  nr_comment :: "string option"

fun show_match :: "nft_match \<Rightarrow> string" where
  "show_match (IifSet z) = ''iifname @zone_'' @ z"
| "show_match (OifSet z) = ''oifname @zone_'' @ z"
| "show_match (IifName i) = ''iifname '' @ quoted i"
| "show_match (OifName i) = ''oifname '' @ quoted i"
| "show_match CtReply = ''ct state established,related''"
| "show_match CtInvalid = ''ct state invalid''"
| "show_match CtDnat = ''ct status dnat''"
| "show_match (Match s) = s"

fun show_verdict :: "nft_verdict \<Rightarrow> string" where
  "show_verdict Accept = ''accept''"
| "show_verdict Reject = ''reject''"
| "show_verdict Drop = ''drop''"

fun show_stmt :: "nft_stmt \<Rightarrow> string" where
  "show_stmt (Verdict v) = show_verdict v"
| "show_stmt (Stmt s) = s"

definition show_rule :: "nft_rule \<Rightarrow> string" where
  "show_rule r = py_join '' '' (map show_match (nr_matches r) @
     (if nr_counter r then [''counter''] else []) @
     (case nr_log r of None \<Rightarrow> [] | Some p \<Rightarrow> [''log prefix '' @ quoted p @ '' level info'']) @
     [show_stmt (nr_stmt r)] @
     (case nr_comment r of None \<Rightarrow> [] | Some c \<Rightarrow> [''comment '' @ quoted c]))"

definition indent :: "nat \<Rightarrow> string \<Rightarrow> string" where
  "indent n s = replicate n CHR '' '' @ s"

definition rule :: "nft_match list \<Rightarrow> nft_stmt \<Rightarrow> string option \<Rightarrow> nft_rule" where
  "rule ms s c = \<lparr>nr_matches = ms, nr_counter = True, nr_log = None, nr_stmt = s, nr_comment = c\<rparr>"

definition plain_rule :: "nft_match list \<Rightarrow> nft_stmt \<Rightarrow> nft_rule" where
  "plain_rule ms s = (rule ms s None)\<lparr>nr_counter := False\<rparr>"

definition VERDICTS :: "(string \<times> nft_verdict) list" where
  "VERDICTS = [(''allow'', Accept), (''reject'', Reject), (''drop'', Drop)]"

definition verdict_or :: "nft_verdict \<Rightarrow> string \<Rightarrow> nft_verdict" where
  "verdict_or dflt action = the_default dflt (map_of VERDICTS action)"

subsection \<open>Expressions\<close>

definition quote_set :: "string list \<Rightarrow> string" where
  "quote_set values = ''{ '' @ py_join '', '' values @ '' }''"

definition proto_expr :: "string \<Rightarrow> string" where
  "proto_expr protocol = the_default [] (map_of
     [(''tcp'', ''meta l4proto tcp''), (''udp'', ''meta l4proto udp''),
      (''tcp-udp'', ''meta l4proto { tcp, udp }''), (''icmp'', ''meta l4proto icmp''),
      (''icmpv6'', ''meta l4proto icmpv6''), (''esp'', ''meta l4proto esp''),
      (''gre'', ''meta l4proto gre'')] protocol)"

definition has_colon :: "string \<Rightarrow> bool" where
  "has_colon s \<longleftrightarrow> CHR '':'' \<in> set s"

text \<open>\<open>None\<close>: the address does not belong to the family, or the group has no member of it.\<close>

definition addr_expr :: "string \<Rightarrow> string \<Rightarrow> string \<Rightarrow> obj \<Rightarrow> string option" where
  "addr_expr spec side family groups =
     (if startswith spec ''group:''
      then (let members = filter (\<lambda>m. has_colon m = (family = ''ip6''))
                  (map text_of (arr ''members'' (sub (drop 6 spec) (sub ''address'' groups))))
            in if members = [] then None
               else Some (family @ '' '' @ side @ '' '' @ quote_set members))
      else if has_colon spec \<noteq> (family = ''ip6'') then None
      else Some (family @ '' '' @ side @ '' '' @ spec))"

definition port_expr :: "string \<Rightarrow> string \<Rightarrow> string" where
  "port_expr spec side = ''th '' @ side @ '' '' @ spec"

definition schedule_expr :: "obj \<Rightarrow> string" where
  "schedule_expr schedule = py_join '' ''
     ((if is_set ''days'' schedule
       then [''meta day '' @ quote_set (map (\<lambda>d. quoted (text_of d)) (arr ''days'' schedule))] else []) @
      (if is_set ''start'' schedule \<and> is_set ''end'' schedule
       then [''meta hour '' @ quoted (text_of (get_null ''start'' schedule)) @ ''-'' @
             quoted (text_of (get_null ''end'' schedule))] else []))"

definition families :: "string \<Rightarrow> string list" where
  "families family = (if family = ''ipv4'' then [''ip''] else if family = ''ipv6'' then [''ip6'']
     else [''ip'', ''ip6''])"

subsection \<open>User rules\<close>

text \<open>The address part: \<open>None\<close> when one of the two does not apply to the family.\<close>

definition address_matches :: "obj \<Rightarrow> string \<Rightarrow> obj \<Rightarrow> nft_match list option" where
  "address_matches r family groups = map_option (map Match) (all_some
     (map (\<lambda>(field, side). addr_expr (text_of (get_null field r)) side family groups)
       (filter (\<lambda>(field, _). is_set field r) [(''src_address'', ''saddr''), (''dst_address'', ''daddr'')])))"

definition port_matches :: "obj \<Rightarrow> nft_match list" where
  "port_matches r = map (\<lambda>(field, side). Match (port_expr (text_of (get_null field r)) side))
     (filter (\<lambda>(field, _). is_set field r) [(''src_port'', ''sport''), (''dst_port'', ''dport'')])"

definition other_matches :: "obj \<Rightarrow> string \<Rightarrow> obj \<Rightarrow> nft_match list" where
  "other_matches r family schedules =
     (if is_set ''mac'' r then [Match (''ether saddr '' @ text_of (get_null ''mac'' r))] else []) @
     (if get_null ''dscp'' r \<noteq> JNull
      then [Match (family @ '' dscp '' @ text_of (get_null ''dscp'' r))] else []) @
     (let schedule = (if is_set ''schedule'' r then sub (text_of (get_null ''schedule'' r)) schedules
                      else sub [] schedules)
      in if schedule \<noteq> [] \<and> schedule_expr schedule \<noteq> [] then [Match (schedule_expr schedule)] else [])"

text \<open>\<open>_render_rule\<close>: an empty part (an unknown protocol) is left out of the text.\<close>

definition rule_of :: "obj \<Rightarrow> string \<Rightarrow> obj \<Rightarrow> obj \<Rightarrow> verr + nft_rule option" where
  "rule_of r family groups schedules =
     (let protocol = text_or ''any'' ''protocol'' r in
      if protocol = ''icmp'' \<and> family = ''ip6'' \<or> protocol = ''icmpv6'' \<and> family = ''ip'' then Inr None
      else case address_matches r family groups of
          None \<Rightarrow> Inr None
        | Some addrs \<Rightarrow> rbind (need_text ''id'' r) (\<lambda>rid. Inr (Some
            \<lparr>nr_matches = filter (\<lambda>m. show_match m \<noteq> [])
               ([IifSet (text_or ''lan'' ''src_zone'' r), OifSet (text_or ''wan'' ''dst_zone'' r)] @
                (if protocol \<noteq> ''any'' then [Match (proto_expr protocol)] else []) @
                addrs @ port_matches r @ other_matches r family schedules),
             nr_counter = True,
             nr_log = (if is_set ''log'' r then Some (''sbegw-'' @ rid @ '': '') else None),
             nr_stmt = Verdict (verdict_or Drop (text_or ''drop'' ''action'' r)),
             nr_comment = Some rid\<rparr>)))"

definition rule_index :: "obj \<Rightarrow> rat" where
  "rule_index r = the_default 0 (num_of (get_or (JInt 0) ''index'' r))"

text \<open>The enabled rules in the order of their index; \<open>sorted\<close> is stable, and so is \<open>sort_key\<close>.\<close>

definition ordered_rules :: "obj \<Rightarrow> obj list" where
  "ordered_rules fw = sort_key rule_index
     (filter (on_by_default ''enabled'') (map obj_of (arr ''rules'' fw)))"

definition user_rules :: "obj \<Rightarrow> verr + nft_rule list" where
  "user_rules fw = rbind
     (rmap (\<lambda>(r, family). rule_of r family (sub ''groups'' fw) (sub ''schedules'' fw))
        (concat (map (\<lambda>r. map (Pair r) (families (text_or ''both'' ''family'' r))) (ordered_rules fw))))
     (\<lambda>rs. Inr (List.map_filter id rs))"

subsection \<open>The filter chains\<close>

type_synonym zones = "(string \<times> string list) list"

definition icmp4_match :: string where
  "icmp4_match = ''icmp type { echo-request, destination-unreachable, time-exceeded, parameter-problem } limit rate 20/second''"

definition icmp6_match :: string where
  "icmp6_match = ''icmpv6 type { echo-request, destination-unreachable, packet-too-big, time-exceeded, parameter-problem, nd-router-solicit, nd-router-advert, nd-neighbor-solicit, nd-neighbor-advert, mld-listener-query, mld-listener-report, mld2-listener-report }''"

definition input_base :: "nft_rule list" where
  "input_base =
     [plain_rule [Match ''iif lo''] (Verdict Accept),
      plain_rule [CtReply] (Verdict Accept),
      rule [CtInvalid] (Verdict Drop) None,
      plain_rule [Match icmp4_match] (Verdict Accept),
      plain_rule [Match icmp6_match] (Verdict Accept),
      plain_rule [Match ''udp dport 546''] (Verdict Accept)]"

definition gateway_action :: "obj \<Rightarrow> string \<Rightarrow> nft_verdict" where
  "gateway_action policies zone =
     verdict_or Reject (text_or ''reject'' (zone @ ''->gateway'') policies)"

definition zone_input :: "obj \<Rightarrow> string \<Rightarrow> nft_rule list" where
  "zone_input policies zone =
     (let action = gateway_action policies zone in
      if action = Accept
      then [rule [IifSet zone] (Verdict Accept) (Some (zone @ ''->gateway: all ports''))]
      else [rule [IifSet zone, Match ''udp dport { 53, 67 }''] (Verdict Accept) (Some ''dns/dhcp only''),
            rule [IifSet zone, Match ''tcp dport 53''] (Verdict Accept) None,
            rule [IifSet zone] (Verdict action) None])"

definition input_rules :: "obj \<Rightarrow> zones \<Rightarrow> nft_rule list" where
  "input_rules cfg zs =
     input_base @
     concat (map (\<lambda>(zone, _). if zone \<in> {''wan'', ''gateway''} then []
        else zone_input (sub ''default_policies'' (sub ''firewall'' cfg)) zone) (sorted_items zs)) @
     [rule [IifSet ''wan''] (Verdict Drop) (Some ''wan to gateway''), rule [] (Verdict Drop) None]"

text \<open>Real bridges only: a VLAN interface has a dot in its name.\<close>

definition bridges_of :: "zones \<Rightarrow> string list" where
  "bridges_of zs = sort (remdups (filter (\<lambda>i. startswith i ''br-'' \<and> CHR ''.'' \<notin> set i)
     (map (py_strip_char dquote) (concat (map snd zs)))))"

definition isolation_rules :: "obj \<Rightarrow> nft_rule list" where
  "isolation_rules networks = concat (map (\<lambda>(nid, j).
     let net = obj_of j; zone = text_or ''lan'' ''zone'' net in
     (if is_set ''isolation'' net
      then [rule [IifSet zone, OifSet zone] (Verdict Drop) (Some (''isolate '' @ nid))] else []) @
     (if \<not> on_by_default ''internet_access'' net
      then [rule [IifSet zone, OifSet ''wan''] (Verdict Reject) (Some (''no internet: '' @ nid))] else []))
     networks)"

definition policy_rules :: "obj \<Rightarrow> nft_rule list" where
  "policy_rules policies = map (\<lambda>(key, action).
     rule [IifSet (fst (arrow_ends key)), OifSet (snd (arrow_ends key))]
       (Verdict (verdict_or Drop (text_of action))) (Some key)) (sorted_items policies)"

definition tunnel_rules :: "obj \<Rightarrow> string list \<Rightarrow> nft_rule list" where
  "tunnel_rules policies patterns =
     concat (map (\<lambda>pattern. map (\<lambda>(key, action).
         rule [IifSet (fst (arrow_ends key)), OifName pattern]
           (Verdict (verdict_or Drop (text_of action))) (Some (fst (arrow_ends key) @ ''->tunnel'')))
         (filter (\<lambda>(key, _). snd (arrow_ends key) = ''wan'') (sorted_items policies))) patterns) @
     map (\<lambda>pattern. rule [IifName pattern] (Verdict Accept) (Some ''tunnel->any'')) patterns"

definition forward_base :: "zones \<Rightarrow> nft_rule list" where
  "forward_base zs =
     [plain_rule [CtReply] (Verdict Accept), rule [CtInvalid] (Verdict Drop) None,
      plain_rule [Match ''tcp flags syn''] (Stmt ''tcp option maxseg size set rt mtu'')] @
     map (\<lambda>b. rule [IifName b, OifName b] (Verdict Accept) (Some (''switched within '' @ b)))
       (bridges_of zs) @
     [rule [CtDnat] (Verdict Accept) (Some ''port forwards'')]"

definition forward_defaults :: "obj \<Rightarrow> nft_rule list" where
  "forward_defaults cfg =
     (let fw = sub ''firewall'' cfg; policies = sub ''default_policies'' fw in
      isolation_rules (sub ''networks'' cfg) @ policy_rules policies @
      tunnel_rules policies (map text_of (arr ''tunnel_interfaces'' fw)) @
      [rule [] (Verdict Drop) None])"

definition forward_rules :: "obj \<Rightarrow> zones \<Rightarrow> verr + nft_rule list" where
  "forward_rules cfg zs = rbind (user_rules (sub ''firewall'' cfg)) (\<lambda>us.
     Inr (forward_base zs @ us @ forward_defaults cfg))"

subsection \<open>The translation table\<close>

type_synonym wan_map = "(string \<times> string) list"

definition forward_nat :: "wan_map \<Rightarrow> obj \<Rightarrow> verr + nft_rule list" where
  "forward_nat wans fwd =
     (if \<not> on_by_default ''enabled'' fwd then Inr []
      else let proto = text_or ''tcp'' ''protocol'' fwd;
               protos = (if proto = ''tcp-udp'' then [''tcp'', ''udp''] else [proto]);
               wan = text_or ''any'' ''wan'' fwd;
               iface = (if wan \<noteq> ''any'' then the_default [] (map_of wans wan) else [])
           in rbind (need_text ''internal_address'' fwd) (\<lambda>target.
              rbind (need_text ''external_port'' fwd) (\<lambda>dports.
              rbind (need_text ''id'' fwd) (\<lambda>fid.
                Inr (map (\<lambda>p. rule
                    ([if iface \<noteq> [] then IifName iface else IifSet ''wan_ifaces'',
                      Match (p @ '' dport '' @ dports)] @
                     (if is_set ''source'' fwd
                      then [Match (''ip saddr '' @ text_of (get_null ''source'' fwd))] else []))
                    (Stmt (''dnat to '' @ target @ '':'' @ text_or dports ''internal_port'' fwd))
                    (Some fid)) protos)))))"

definition one_to_one_in :: "obj \<Rightarrow> verr + nft_rule" where
  "one_to_one_in entry = rbind (need_text ''external'' entry) (\<lambda>ext.
     rbind (need_text ''internal'' entry) (\<lambda>inner.
       Inr (rule [Match (''ip daddr '' @ ext)] (Stmt (''dnat to '' @ inner))
         (Some (''1:1 '' @ text_or [] ''id'' entry)))))"

definition one_to_one_out :: "obj \<Rightarrow> verr + nft_rule" where
  "one_to_one_out entry = rbind (need_text ''internal'' entry) (\<lambda>inner.
     rbind (need_text ''external'' entry) (\<lambda>ext.
       Inr (rule [Match (''ip saddr '' @ inner)] (Stmt (''snat to '' @ ext)) None)))"

definition one_to_one :: "obj \<Rightarrow> obj list" where
  "one_to_one nt = filter (on_by_default ''enabled'') (map obj_of (arr ''one_to_one'' nt))"

definition prerouting_rules :: "obj \<Rightarrow> wan_map \<Rightarrow> verr + nft_rule list" where
  "prerouting_rules nt wans =
     rbind (rconcat (rmap (forward_nat wans) (map obj_of (arr ''port_forwards'' nt)))) (\<lambda>fs.
     rbind (rmap one_to_one_in (one_to_one nt)) (\<lambda>es. Inr (fs @ es)))"

text \<open>\<open>str(ip_network(subnet, strict=False))\<close>: the host bits are cleared.\<close>

definition network_text :: "string \<Rightarrow> string option" where
  "network_text subnet = map_option (\<lambda>n. show_ipv4_interface (network_address n, snd n))
     (parse_ipv4_net subnet)"

definition masquerade_rules :: "obj \<Rightarrow> wan_map \<Rightarrow> nft_rule list" where
  "masquerade_rules nt wans = (if \<not> on_by_default ''masquerade'' nt then [] else
     map (\<lambda>(wan_id, iface). rule [OifName iface] (Stmt ''masquerade'') (Some (''masq '' @ wan_id)))
       (sorted_items wans))"

definition hairpin_rules :: "obj \<Rightarrow> obj \<Rightarrow> nft_rule list" where
  "hairpin_rules nt networks = (if \<not> on_by_default ''hairpin'' nt then [] else
     List.map_filter (\<lambda>(nid, j). if \<not> is_set ''subnet'' (obj_of j) then None
       else map_option (\<lambda>net. rule [Match (''ip saddr '' @ net @ '' ip daddr '' @ net), CtDnat]
           (Stmt ''masquerade'') (Some (''hairpin '' @ nid)))
         (network_text (text_of (get_null ''subnet'' (obj_of j))))) networks)"

definition postrouting_rules :: "obj \<Rightarrow> wan_map \<Rightarrow> obj \<Rightarrow> verr + nft_rule list" where
  "postrouting_rules nt wans networks =
     rbind (rmap one_to_one_out (one_to_one nt)) (\<lambda>es.
       Inr (masquerade_rules nt wans @ hairpin_rules nt networks @ es))"

subsection \<open>Policy routes\<close>

text \<open>\<open>route.get("mark") or (0x100 + index)\<close>; \<open>hex\<close> of anything but an integer raises.\<close>

definition route_mark :: "nat \<Rightarrow> obj \<Rightarrow> verr + int" where
  "route_mark index route =
     (if \<not> is_set ''mark'' route then Inr (256 + int index)
      else case get_null ''mark'' route of JInt m \<Rightarrow> Inr m
         | JBool b \<Rightarrow> Inr 1 | _ \<Rightarrow> Inl (Raised TypeError))"

definition route_matches :: "obj \<Rightarrow> nft_match list" where
  "route_matches route =
     map (\<lambda>(k, t). Match (t @ text_of (get_null k route))) (filter (\<lambda>(k, _). is_set k route)
       [(''src_network_subnet'', ''ip saddr ''), (''src_address'', ''ip saddr ''),
        (''dst_address'', ''ip daddr '')]) @
     (if is_set ''protocol'' route \<and> get_null ''protocol'' route \<noteq> JStr ''any''
      then [Match (proto_expr (text_of (get_null ''protocol'' route)))] else []) @
     (if is_set ''dst_port'' route
      then [Match (port_expr (text_of (get_null ''dst_port'' route)) ''dport'')] else []) @
     (if is_set ''mac'' route then [Match (''ether saddr '' @ text_of (get_null ''mac'' route))] else [])"

definition mark_rule :: "nat \<times> obj \<Rightarrow> verr + nft_rule" where
  "mark_rule = (\<lambda>(index, route). rbind (route_mark index route) (\<lambda>mark.
     Inr (rule (route_matches route) (Stmt (''meta mark set '' @ py_hex mark))
       (Some (''pbr-'' @ (case map_of route ''id'' of None \<Rightarrow> show_int (int index)
                          | Some v \<Rightarrow> text_of v))))))"

definition enabled_routes :: "obj \<Rightarrow> (nat \<times> obj) list" where
  "enabled_routes cfg = filter (\<lambda>(_, route). on_by_default ''enabled'' route)
     (zip [1..<Suc (length (arr ''policy_routes'' cfg))] (map obj_of (arr ''policy_routes'' cfg)))"

definition mangle_rules :: "obj \<Rightarrow> verr + nft_rule list" where
  "mangle_rules cfg = rmap mark_rule (enabled_routes cfg)"

subsection \<open>The text of the ruleset\<close>

definition TABLE :: string where "TABLE = ''sbegw''"

definition chain_text :: "string \<Rightarrow> string \<Rightarrow> nft_rule list \<Rightarrow> string list" where
  "chain_text name head rs =
     [indent 4 (''chain '' @ name @ '' {''), indent 8 head] @ map (\<lambda>r. indent 8 (show_rule r)) rs @
     [indent 4 ''}'']"

definition set_text :: "string \<Rightarrow> string list \<Rightarrow> string list \<Rightarrow> string list" where
  "set_text name head elements =
     [indent 4 (''set '' @ name @ '' {'')] @ map (indent 8) head @
     (if elements = [] then [] else [indent 8 (''elements = '' @ quote_set elements)]) @ [indent 4 ''}'']"

definition zone_sets :: "zones \<Rightarrow> string list" where
  "zone_sets zs = concat (map (\<lambda>(zone, ifaces).
     set_text (''zone_'' @ zone) [''type ifname''] (sort (remdups ifaces))) (sorted_items zs))"

definition group_sets :: "obj \<Rightarrow> string list" where
  "group_sets groups = concat (map (\<lambda>(name, g).
     let members = map text_of (arr ''members'' (obj_of g));
         v4 = filter (\<lambda>m. \<not> has_colon m) members; v6 = filter has_colon members
     in (if v4 = [] then [] else set_text (''addr4_'' @ name) [''type ipv4_addr'', ''flags interval''] v4) @
        (if v6 = [] then [] else set_text (''addr6_'' @ name) [''type ipv6_addr'', ''flags interval''] v6))
     (sorted_items (sub ''address'' groups)))"

text \<open>The dash of the banner is written to the file as the three bytes of its UTF-8 form.\<close>

definition dash :: string where "dash = map chr [226, 128, 148]"

definition ruleset_head :: "string list" where
  "ruleset_head =
     [''#!/usr/sbin/nft -f'', ''# generated by sbegw netd '' @ dash @ '' do not edit'',
      ''table inet '' @ TABLE, ''delete table inet '' @ TABLE,
      ''table ip '' @ TABLE @ ''_nat'', ''delete table ip '' @ TABLE @ ''_nat'',
      ''table inet '' @ TABLE @ ''_mangle'', ''delete table inet '' @ TABLE @ ''_mangle'',
      [], ''table inet '' @ TABLE @ '' {'']"

definition nat_text :: "obj \<Rightarrow> wan_map \<Rightarrow> verr + string list" where
  "nat_text cfg wans = (let nt = sub ''nat'' cfg in
     rbind (prerouting_rules nt wans) (\<lambda>pre.
     rbind (postrouting_rules nt wans (sub ''networks'' cfg)) (\<lambda>post.
       Inr ([''table ip '' @ TABLE @ ''_nat {''] @
         set_text ''zone_wan_ifaces'' [''type ifname''] (map quoted (sort (remdups (map snd wans)))) @
         chain_text ''prerouting'' ''type nat hook prerouting priority -100; policy accept;'' pre @
         chain_text ''postrouting'' ''type nat hook postrouting priority 100; policy accept;'' post @
         [''}'']))))"

definition mangle_text :: "obj \<Rightarrow> verr + string list" where
  "mangle_text cfg = (if arr ''policy_routes'' cfg = [] then Inr [] else
     rbind (mangle_rules cfg) (\<lambda>rs.
       Inr ([''table inet '' @ TABLE @ ''_mangle {''] @
         chain_text ''prerouting'' ''type filter hook prerouting priority -150; policy accept;'' rs @
         [''}''])))"

definition render :: "obj \<Rightarrow> zones \<Rightarrow> wan_map \<Rightarrow> verr + string" where
  "render cfg zs wans =
     rbind (forward_rules cfg zs) (\<lambda>fwd.
     rbind (nat_text cfg wans) (\<lambda>nat.
     rbind (mangle_text cfg) (\<lambda>mangle.
       Inr (py_join [newline]
         (ruleset_head @ zone_sets zs @ group_sets (sub ''groups'' (sub ''firewall'' cfg)) @ [[]] @
          chain_text ''input'' ''type filter hook input priority 0; policy drop;'' (input_rules cfg zs) @
          chain_text ''forward'' ''type filter hook forward priority 0; policy drop;'' fwd @
          chain_text ''output'' ''type filter hook output priority 0; policy accept;'' [] @
          [''}'', []] @ nat @ mangle) @ [newline]))))"

subsection \<open>Installing it\<close>

text \<open>What \<open>nft -c -f\<close> and \<open>nft -f\<close> answer is a parameter: \<open>Inl\<close> is the error text of the tool,
  \<open>Missing\<close> that it could not be started. An unstartable \<open>nft\<close> escapes from the second call.\<close>

datatype tool_answer = Done | Refused string | Missing string

definition apply_ruleset :: "(string \<Rightarrow> tool_answer) \<Rightarrow> (string \<Rightarrow> tool_answer) \<Rightarrow> string
    \<Rightarrow> string + (bool \<times> string)" where
  "apply_ruleset check_tool install_tool text =
     (case check_tool text of
        Refused e \<Rightarrow> Inr (False, ''ruleset rejected: '' @ e)
      | Missing e \<Rightarrow> Inr (False, ''nft unavailable: '' @ e)
      | Done \<Rightarrow> (case install_tool text of
            Refused e \<Rightarrow> Inr (False, ''ruleset apply failed: '' @ e)
          | Missing e \<Rightarrow> Inl e
          | Done \<Rightarrow> Inr (True, ''ruleset applied'')))"

text \<open>\<open>counters\<close>: the last counter expression of every rule that has one.\<close>

definition rule_counter :: "obj \<Rightarrow> json option" where
  "rule_counter r = (case filter (\<lambda>e. map_of (obj_of e) ''counter'' \<noteq> None) (arr ''expr'' r) of
     [] \<Rightarrow> None | es \<Rightarrow> map_of (obj_of (last es)) ''counter'')"

definition counters :: "json \<Rightarrow> obj list" where
  "counters data = (if \<not> truthy data then [] else
     List.map_filter (\<lambda>item. let r = sub ''rule'' (obj_of item) in
       if r = [] then None else
       map_option (\<lambda>c. [(''chain'', get_null ''chain'' r), (''handle'', get_null ''handle'' r),
          (''comment'', get_null ''comment'' r), (''packets'', get_or (JInt 0) ''packets'' (obj_of c)),
          (''bytes'', get_or (JInt 0) ''bytes'' (obj_of c))]) (rule_counter r))
       (arr ''nftables'' (obj_of data)))"

end
