(* ===== verification/NetPlan.thy ===== *)
theory NetPlan
  imports Nft ConfigStore
begin

text \<open>
  The network daemon of \<open>netd.py\<close>, as far as it decides something: which interface a network or a
  WAN lives on, which interfaces make up a firewall zone, the preflight and the risk assessment of a
  change, the reboot warning for changed port roles, the fwmark rules of policy routes, and the order
  and error handling of the stages it applies. What the stages do to the kernel is a parameter.
\<close>

subsection \<open>Interface names\<close>

definition BRIDGE :: string where "BRIDGE = ''br-lan''"
definition WAN_BRIDGE :: string where "WAN_BRIDGE = ''br-wan''"

text \<open>\<open>vlan in (None, 1)\<close>: the untagged network lives on the bridge itself.\<close>

definition net_interface_for :: "obj \<Rightarrow> string" where
  "net_interface_for net =
     (let vlan = get_null ''vlan'' net in
      if vlan = JNull \<or> py_eq vlan (JInt 1) then BRIDGE else BRIDGE @ ''.'' @ text_of vlan)"

definition ap_mode :: "obj \<Rightarrow> bool" where
  "ap_mode cfg \<longleftrightarrow> get_null ''mode'' (sub ''system'' cfg) = JStr ''ap''"

definition wan_bridged_ssids :: "obj \<Rightarrow> string list" where
  "wan_bridged_ssids cfg = map fst (filter (\<lambda>(_, wnet).
     on_by_default ''enabled'' (obj_of wnet) \<and> get_null ''uplink'' (obj_of wnet) = JStr ''wan'')
     (sub ''networks'' (sub ''wifi'' cfg)))"

definition wan_bridge_needed :: "obj \<Rightarrow> bool" where
  "wan_bridge_needed cfg \<longleftrightarrow> wan_bridged_ssids cfg \<noteq> [] \<and> \<not> ap_mode cfg"

definition wan_interface_for :: "obj \<Rightarrow> obj option \<Rightarrow> string" where
  "wan_interface_for wan cfg =
     (let port = text_or ''eth3'' ''port'' wan; vlan = get_null ''vlan'' wan;
          iface = (if vlan = JNull then port else port @ ''.'' @ text_of vlan)
      in case cfg of Some c \<Rightarrow> if wan_bridge_needed c then WAN_BRIDGE else iface | None \<Rightarrow> iface)"

definition wan_interfaces :: "obj \<Rightarrow> wan_map" where
  "wan_interfaces cfg = map (\<lambda>(wid, wan). (wid, wan_interface_for (obj_of wan) (Some cfg)))
     (filter (\<lambda>(_, wan). on_by_default ''enabled'' (obj_of wan)) (sub ''wans'' cfg))"

subsection \<open>Zones\<close>

definition zone_names :: "string list" where
  "zone_names = [''wan'', ''lan'', ''guest'', ''iot'', ''dmz'', ''management'', ''vpn'', ''gateway'',
     ''containers'']"

text \<open>\<open>zones.setdefault(zone, []).append(iface)\<close>.\<close>

definition zone_add :: "string \<Rightarrow> string \<Rightarrow> zones \<Rightarrow> zones" where
  "zone_add zone iface zs = AList.update zone (the_default [] (map_of zs zone) @ [iface]) zs"

definition container_link :: "string \<Rightarrow> bool" where
  "container_link name \<longleftrightarrow> name = ''docker0'' \<or>
     (startswith name ''br-'' \<and> name \<noteq> BRIDGE \<and> length name = 15)"

text \<open>\<open>links\<close> are the names of the links the kernel has.\<close>

definition zone_interfaces :: "obj \<Rightarrow> wan_map \<Rightarrow> string list \<Rightarrow> zones" where
  "zone_interfaces cfg wans links =
     (let z0 = map (\<lambda>z. (z, [])) zone_names;
          z1 = fold (\<lambda>(_, net). zone_add (text_or ''lan'' ''zone'' (obj_of net))
                 (quoted (net_interface_for (obj_of net)))) (sub ''networks'' cfg) z0;
          z2 = fold (\<lambda>(_, iface). zone_add ''wan'' (quoted iface)) wans z1;
          z3 = fold (\<lambda>name. zone_add ''vpn'' (quoted name))
                 (filter (\<lambda>name. name \<in> set links) [''wg0'', ''wg1'']) z2
      in fold (\<lambda>name. zone_add ''containers'' (quoted name)) (filter container_link links) z3)"

subsection \<open>Preflight and risk\<close>

definition enabled_lan_ports :: "obj \<Rightarrow> string list" where
  "enabled_lan_ports cfg = map fst (filter (\<lambda>(_, c). get_null ''role'' (obj_of c) = JStr ''lan'' \<and>
     on_by_default ''enabled'' (obj_of c)) (sub ''ports'' cfg))"

definition absent_wans :: "string list \<Rightarrow> obj \<Rightarrow> string list" where
  "absent_wans present cfg = map (\<lambda>(wid, wan). ''WAN '' @ wid @ '' references absent port '' @
       text_of (get_null ''port'' (obj_of wan)))
     (filter (\<lambda>(_, wan). on_by_default ''enabled'' (obj_of wan) \<and>
        get_null ''port'' (obj_of wan) \<notin> JStr ` set present) (sub ''wans'' cfg))"

definition net_preflight :: "string list \<Rightarrow> bool \<Rightarrow> obj \<Rightarrow> bool \<times> string list" where
  "net_preflight present nft_available cfg =
     (let problems = absent_wans present cfg @
            (if enabled_lan_ports cfg = []
             then [''no enabled LAN port would remain; refusing to lock you out''] else []) @
            (if \<not> nft_available then [''nft is unavailable; the firewall cannot be applied''] else [])
      in (problems = [], problems))"

definition RISKY_KEYS :: "string list" where
  "RISKY_KEYS = [''ports'', ''networks'', ''firewall'', ''wans'', ''dns'', ''qos'']"

definition is_risky :: "obj \<Rightarrow> obj \<Rightarrow> bool" where
  "is_risky old new = list_ex (\<lambda>key. \<not> py_eq (get_null key old) (get_null key new)) RISKY_KEYS"

subsection \<open>Port roles\<close>

text \<open>\<open>_check_port_role_changes\<close>: the roles recorded at the first apply after boot (\<open>None\<close> before
  it) against those of the document. The result: the changes, and what is recorded afterwards.\<close>

type_synonym roles = "(string \<times> string) list"

definition current_roles :: "obj \<Rightarrow> roles" where
  "current_roles ports = map (\<lambda>(p, c).
     (p, if is_set ''role'' (obj_of c) then text_of (get_null ''role'' (obj_of c)) else ''lan''))
     (sorted_items ports)"

definition role_changes :: "roles \<Rightarrow> roles \<Rightarrow> string list" where
  "role_changes previous current = List.map_filter (\<lambda>(p, role).
     case map_of previous p of None \<Rightarrow> None
     | Some old \<Rightarrow> if old = role then None else Some (p @ '': '' @ old @ '' -> '' @ role)) current"

definition check_port_role_changes :: "obj \<Rightarrow> roles option \<Rightarrow> string list \<times> roles option" where
  "check_port_role_changes ports recorded =
     (case recorded of None \<Rightarrow> ([], Some (current_roles ports))
      | Some previous \<Rightarrow> (role_changes previous (current_roles ports), recorded))"

subsection \<open>Policy routes\<close>

definition sorted_wans :: "obj \<Rightarrow> string list" where
  "sorted_wans cfg = sort (map fst (sub ''wans'' cfg))"

text \<open>The table of a WAN: 101 for the first in the order of the ids, and so on.\<close>

definition wan_table :: "obj \<Rightarrow> string \<Rightarrow> nat option" where
  "wan_table cfg wid =
     map_option (\<lambda>i. 100 + i + 1) (find (\<lambda>i. sorted_wans cfg ! i = wid) [0..<length (sorted_wans cfg)])"

text \<open>The fwmark rules \<open>apply_routing\<close> adds: the mark, the table and the priority.\<close>

definition mark_route :: "obj \<Rightarrow> nat \<times> obj \<Rightarrow> verr + (int \<times> nat \<times> nat) option" where
  "mark_route cfg = (\<lambda>(index, route).
     case (case get_null ''wan'' route of JStr wid \<Rightarrow> wan_table cfg wid | _ \<Rightarrow> None) of
       None \<Rightarrow> Inr None
     | Some table \<Rightarrow> rbind (route_mark index route) (\<lambda>mark. Inr (Some (mark, table, 1000 + index))))"

definition fwmark_rules :: "obj \<Rightarrow> verr + (int \<times> nat \<times> nat) list" where
  "fwmark_rules cfg =
     rbind (rmap (mark_route cfg) (enabled_routes cfg)) (\<lambda>rs. Inr (List.map_filter id rs))"

subsection \<open>Applying a document\<close>

text \<open>The stages that touch the kernel: each raises (with the text of the exception) or returns its
  messages. The firewall stage renders the ruleset of the document and hands it to \<open>nft\<close>; the names of
  the kernel's links, the present ports and what the tool answers belong to the world. How an
  exception of the renderer prints is a parameter too.\<close>

record 'w net_driver =
  nd_ports :: "obj \<Rightarrow> 'w \<Rightarrow> (string + string list) \<times> 'w"
  nd_networks :: "obj \<Rightarrow> 'w \<Rightarrow> (string + string list) \<times> 'w"
  nd_wans :: "obj \<Rightarrow> 'w \<Rightarrow> (string + string list) \<times> 'w"
  nd_services :: "obj \<Rightarrow> 'w \<Rightarrow> (string + string list) \<times> 'w"
  nd_traffic :: "obj \<Rightarrow> 'w \<Rightarrow> (string + string list) \<times> 'w"
  nd_routing :: "obj \<Rightarrow> 'w \<Rightarrow> (string + string list) \<times> 'w"
  nd_links :: "'w \<Rightarrow> string list"
  nd_discover :: "'w \<Rightarrow> string list"
  nd_nft_available :: "'w \<Rightarrow> bool"
  nd_nft_check :: "'w \<Rightarrow> string \<Rightarrow> tool_answer"
  nd_nft_install :: "'w \<Rightarrow> string \<Rightarrow> tool_answer \<times> 'w"
  nd_exc_text :: "verr \<Rightarrow> string"

text \<open>\<open>stage(name, fn, new)\<close>: whether it succeeded, the messages with its own appended.\<close>

definition run_stage :: "string \<Rightarrow> (obj \<Rightarrow> 'w \<Rightarrow> (string + string list) \<times> 'w) \<Rightarrow> obj
    \<Rightarrow> string list \<times> 'w \<Rightarrow> bool \<times> string list \<times> 'w" where
  "run_stage name fn new = (\<lambda>(messages, w).
     case fn new w of
       (Inl exc, w1) \<Rightarrow> (False, messages @ [name @ '' failed: '' @ exc], w1)
     | (Inr result, w1) \<Rightarrow> (True, messages @ result, w1))"

definition ruleset_of :: "obj \<Rightarrow> string list \<Rightarrow> verr + string" where
  "ruleset_of cfg links =
     (let wans = (if ap_mode cfg then [] else wan_interfaces cfg)
      in render cfg (zone_interfaces cfg wans links) wans)"

definition apply_firewall :: "'w net_driver \<Rightarrow> obj \<Rightarrow> 'w \<Rightarrow> (string + bool \<times> string) \<times> 'w" where
  "apply_firewall d cfg w =
     (case ruleset_of cfg (nd_links d w) of
        Inl e \<Rightarrow> (Inl (nd_exc_text d e), w)
      | Inr text \<Rightarrow>
          (apply_ruleset (nd_nft_check d w) (\<lambda>s. fst (nd_nft_install d w s)) text,
           if nd_nft_check d w text = Done then snd (nd_nft_install d w text) else w))"

definition failed_apply :: "string list \<Rightarrow> 'w \<Rightarrow> apply_result \<times> 'w" where
  "failed_apply messages w = (\<lparr>ar_ok = False, ar_messages = messages, ar_confirm = False\<rparr>, w)"

definition apply_stages :: "'w net_driver \<Rightarrow> obj \<Rightarrow> string list \<times> 'w \<Rightarrow> string list \<times> 'w" where
  "apply_stages d new s =
     fold (\<lambda>(name, fn) s. snd (run_stage name (fn d) new s))
       [(''wans'', nd_wans), (''dhcp/dns'', nd_services), (''smart queues'', nd_traffic),
        (''routing'', nd_routing)] s"

definition net_apply :: "'w net_driver \<Rightarrow> obj \<Rightarrow> obj \<Rightarrow> 'w \<Rightarrow> apply_result \<times> 'w" where
  "net_apply d old new w =
     (let (ok1, s1) = run_stage ''ports'' (nd_ports d) new ([], w) in
      if \<not> ok1 then failed_apply (fst s1) (snd s1)
      else let (ok2, s2) = run_stage ''networks'' (nd_networks d) new s1 in
      if \<not> ok2 then failed_apply (fst s2) (snd s2)
      else let s3 = apply_stages d new s2; messages = fst s3 in
      case apply_firewall d new (snd s3) of
        (Inl exc, w1) \<Rightarrow> failed_apply (messages @ [''firewall: '' @ exc]) w1
      | (Inr (ok, message), w1) \<Rightarrow>
          if \<not> ok then failed_apply (messages @ [message]) w1
          else (\<lparr>ar_ok = True, ar_messages = messages @ [message], ar_confirm = is_risky old new\<rparr>, w1))"

text \<open>The daemon as the store calls it.\<close>

definition net_applier :: "'w net_driver \<Rightarrow> 'w applier" where
  "net_applier d = \<lparr>ap_name = ''netd'',
     ap_preflight = Some (\<lambda>old new w.
       (Inr (net_preflight (nd_discover d w) (nd_nft_available d w) (obj_of new)), w)),
     ap_run = (\<lambda>old new w. case net_apply d (obj_of old) (obj_of new) w of (r, w1) \<Rightarrow> (Inr r, w1))\<rparr>"

end
