(* ===== verification/NftSafety.thy ===== *)
theory NftSafety
  imports Nft
begin

text \<open>
  What the rendered chains decide. A packet is given by the matches that hold for it, so nothing is
  assumed about how nftables evaluates a match; a chain is read as nftables documents it: rules in
  order, the first one whose matches all hold and whose statement is a verdict decides, and the
  chain policy decides the rest.
\<close>

subsection \<open>Reading a chain\<close>

type_synonym packet = "nft_match \<Rightarrow> bool"

definition hits :: "packet \<Rightarrow> nft_rule \<Rightarrow> bool" where
  "hits m r \<longleftrightarrow> list_all m (nr_matches r)"

fun verdict :: "packet \<Rightarrow> nft_rule list \<Rightarrow> nft_verdict \<Rightarrow> nft_verdict" where
  "verdict m [] policy = policy"
| "verdict m (r # rs) policy =
     (if hits m r then (case nr_stmt r of Verdict v \<Rightarrow> v | Stmt _ \<Rightarrow> verdict m rs policy)
      else verdict m rs policy)"

lemma hits_rule [simp]:
  "hits m (rule ms s c) \<longleftrightarrow> list_all m ms"
  "hits m (plain_rule ms s) \<longleftrightarrow> list_all m ms"
  by (simp_all add: hits_def rule_def plain_rule_def)

lemma stmt_rule [simp]: "nr_stmt (rule ms s c) = s" "nr_stmt (plain_rule ms s) = s"
  by (simp_all add: rule_def plain_rule_def)

lemma verdict_append: "verdict m (rs @ qs) policy = verdict m rs (verdict m qs policy)"
  by (induction rs) (auto split: nft_stmt.splits)

lemma verdict_miss: "(\<And>r. r \<in> set rs \<Longrightarrow> \<not> hits m r) \<Longrightarrow> verdict m rs policy = policy"
  by (induction rs) auto

lemma verdict_uniform:
  assumes "\<And>r. r \<in> set rs \<Longrightarrow> hits m r \<Longrightarrow> nr_stmt r = Verdict v"
  shows "verdict m rs policy = (if \<exists>r \<in> set rs. hits m r then v else policy)"
  using assms by (induction rs) auto

lemma verdict_concat_miss:
  "(\<And>x policy. x \<in> set xs \<Longrightarrow> verdict m (g x) policy = policy) \<Longrightarrow>
     verdict m (concat (map g xs)) policy = policy"
  by (induction xs) (auto simp: verdict_append)

text \<open>A block of rules per key, of which only the block of one key can decide.\<close>

lemma verdict_sole:
  assumes "distinct (map f xs)" and "\<And>x policy. x \<in> set xs \<Longrightarrow> f x \<noteq> f y \<Longrightarrow> verdict m (g x) policy = policy"
    and "y \<in> set xs"
  shows "verdict m (concat (map g xs)) policy = verdict m (g y) policy"
proof -
  from assms(3) obtain as bs where xs: "xs = as @ y # bs" by (meson split_list)
  have "f x \<noteq> f y" if "x \<in> set as \<union> set bs" for x
    using assms(1) that xs by (auto simp: image_iff)
  with assms(2) xs have "verdict m (concat (map g as)) q = q" "verdict m (concat (map g bs)) q = q" for q
    by (auto intro!: verdict_concat_miss)
  then show ?thesis by (simp add: xs verdict_append)
qed

subsection \<open>Traffic to the gateway\<close>

text \<open>What the head of the input chain decides, before any zone is looked at.\<close>

definition admitted :: "packet \<Rightarrow> nft_verdict option" where
  "admitted m =
     (if m (Match ''iif lo'') \<or> m CtReply then Some Accept
      else if m CtInvalid then Some Drop
      else if m (Match icmp4_match) \<or> m (Match icmp6_match) \<or> m (Match ''udp dport 546'')
      then Some Accept else None)"

definition dns_dhcp :: "packet \<Rightarrow> bool" where
  "dns_dhcp m \<longleftrightarrow> m (Match ''udp dport { 53, 67 }'') \<or> m (Match ''tcp dport 53'')"

text \<open>The packet came in on an interface of zone \<open>z\<close> and of no other.\<close>

definition only_from :: "string \<Rightarrow> zones \<Rightarrow> packet \<Rightarrow> bool" where
  "only_from z zs m \<longleftrightarrow> (\<forall>k \<in> insert ''wan'' (fst ` set zs). m (IifSet k) \<longleftrightarrow> k = z)"

lemma verdict_input_base:
  "verdict m input_base policy = (case admitted m of Some v \<Rightarrow> v | None \<Rightarrow> policy)"
  by (simp add: input_base_def admitted_def)

lemma verdict_zone_input:
  "verdict m (zone_input policies z) policy =
     (if \<not> m (IifSet z) then policy
      else if gateway_action policies z = Accept \<or> dns_dhcp m then Accept
      else gateway_action policies z)"
  by (auto simp: zone_input_def Let_def dns_dhcp_def)

text \<open>C4. The input chain gives every packet exactly the verdict the configuration asks for. Loopback,
  replies, the ICMP types IPv4 and IPv6 need and DHCPv6 answers are accepted and packets of invalid
  state dropped; of the rest nothing from the WAN is accepted; a zone whose policy toward the gateway
  is \<open>allow\<close> reaches every port, any other zone only DNS and DHCP, and is rejected or dropped otherwise.\<close>

theorem input_chain_policy:
  assumes "only_from z zs m" and "z \<in> insert ''wan'' (fst ` set zs)" and "distinct (map fst zs)"
  shows "verdict m (input_rules cfg zs) Drop =
    (case admitted m of Some v \<Rightarrow> v
     | None \<Rightarrow>
        (let action = gateway_action (sub ''default_policies'' (sub ''firewall'' cfg)) z in
         if z \<in> {''wan'', ''gateway''} then Drop
         else if action = Accept \<or> dns_dhcp m then Accept else action))"
proof -
  let ?p = "sub ''default_policies'' (sub ''firewall'' cfg)"
  let ?g = "\<lambda>x :: string \<times> string list. if fst x \<in> {''wan'', ''gateway''} then [] else zone_input ?p (fst x)"
  have from_z: "m (IifSet k) \<longleftrightarrow> k = z" if "k = ''wan'' \<or> k \<in> fst ` set zs" for k
    using that assms(1) by (auto simp: only_from_def)
  have skip: "verdict m (?g x) policy = policy" if "x \<in> set (sorted_items zs)" and "fst x \<noteq> z" for x policy
    using that from_z [of "fst x"] by (auto simp: verdict_zone_input)
  have zones: "verdict m (concat (map ?g (sorted_items zs))) policy =
      (if z \<in> {''wan'', ''gateway''} then policy else verdict m (zone_input ?p z) policy)" for policy
  proof (cases "z \<in> fst ` set zs")
    case True
    then obtain x where x: "x \<in> set (sorted_items zs)" "fst x = z" by auto
    have "distinct (map fst (sorted_items zs))"
      using assms(3) by (simp add: sorted_items_def distinct_map)
    from verdict_sole [where g = ?g, OF this _ x(1)] skip x(2) show ?thesis by simp
  next
    case False
    then have "z = ''wan''" using assms(2) by simp
    moreover have "fst x \<noteq> z" if "x \<in> set (sorted_items zs)" for x
      using that False by force
    then have "verdict m (concat (map ?g (sorted_items zs))) policy = policy"
      by (intro verdict_concat_miss skip)
    ultimately show ?thesis by simp
  qed
  have "input_rules cfg zs = input_base @ concat (map ?g (sorted_items zs)) @
      [rule [IifSet ''wan''] (Verdict Drop) (Some ''wan to gateway''), rule [] (Verdict Drop) None]"
    by (simp add: input_rules_def split_def)
  moreover have "m (IifSet z)" using from_z assms(2) by auto
  ultimately show ?thesis
    by (simp only: verdict_append zones verdict_input_base)
      (simp add: verdict_zone_input Let_def split: option.split)
qed

subsection \<open>Routed traffic\<close>

text \<open>The packet goes from zone \<open>a\<close> to zone \<open>b\<close>; \<open>ins\<close> and \<open>outs\<close> are the interface patterns of the
  rules that also match its interfaces (bridges and tunnels).\<close>

definition crosses :: "string \<Rightarrow> string option \<Rightarrow> string set \<Rightarrow> string set \<Rightarrow> packet \<Rightarrow> bool" where
  "crosses a b ins outs m \<longleftrightarrow>
     (\<forall>k. m (IifSet k) \<longleftrightarrow> k = a) \<and> (\<forall>k. m (OifSet k) \<longleftrightarrow> b = Some k) \<and>
     (\<forall>i. m (IifName i) \<longleftrightarrow> i \<in> ins) \<and> (\<forall>i. m (OifName i) \<longleftrightarrow> i \<in> outs)"

definition zone_with :: "(obj \<Rightarrow> bool) \<Rightarrow> obj \<Rightarrow> string \<Rightarrow> bool" where
  "zone_with p networks z \<longleftrightarrow>
     (\<exists>(nid, j) \<in> set networks. p (obj_of j) \<and> text_or ''lan'' ''zone'' (obj_of j) = z)"

lemma split_arrow_join: "split_arrow key = Some (a, b) \<Longrightarrow> key = a @ ''->'' @ b"
  by (induction key arbitrary: a b rule: split_arrow.induct) (auto split: if_splits)

lemma arrow_ends_eq: "arrow_ends key = (a, b) \<Longrightarrow> b \<noteq> [] \<Longrightarrow> key = a @ ''->'' @ b"
  using split_arrow_join by (auto simp: arrow_ends_def the_default_def split: option.splits)

lemma arrow_ends_zone: "a \<in> set ZONES \<Longrightarrow> arrow_ends (a @ ''->'' @ b) = (a, b)"
  by (auto simp: ZONES_def arrow_ends_def the_default_def)

lemma verdict_switched:
  assumes "crosses a b ins outs m"
  shows "verdict m (map (\<lambda>b. rule [IifName b, OifName b] (Verdict Accept) (c b)) bs) policy =
    (if set bs \<inter> ins \<inter> outs = {} then policy else Accept)"
  using assms by (induction bs) (auto simp: crosses_def)

lemma verdict_forward_base:
  assumes "crosses a b ins outs m"
  shows "verdict m (forward_base zs) policy =
    (if m CtReply then Accept else if m CtInvalid then Drop
     else if set (bridges_of zs) \<inter> ins \<inter> outs \<noteq> {} then Accept
     else if m CtDnat then Accept else policy)"
  by (simp add: forward_base_def verdict_append verdict_switched [OF assms])

lemma verdict_isolation:
  assumes "crosses a b ins outs m" and "\<not> (a = ''wan'' \<and> b = Some ''wan'')"
  shows "verdict m (isolation_rules networks) policy =
    (if b = Some a \<and> zone_with (is_set ''isolation'') networks a then Drop
     else if b = Some ''wan'' \<and> zone_with (\<lambda>n. \<not> on_by_default ''internet_access'' n) networks a then Reject
     else policy)"
proof -
  have one: "verdict m (isolation_rules [x]) p =
      (if b = Some a \<and> zone_with (is_set ''isolation'') [x] a then Drop
       else if b = Some ''wan'' \<and> zone_with (\<lambda>n. \<not> on_by_default ''internet_access'' n) [x] a then Reject
       else p)" for x p
  proof -
    obtain nid j where x: "x = (nid, j)" by fastforce
    define z where "z = text_or ''lan'' ''zone'' (obj_of j)"
    have zone: "zone_with q [x] a \<longleftrightarrow> q (obj_of j) \<and> z = a" for q
      by (simp add: zone_with_def x z_def)
    have rules: "isolation_rules [x] =
        (if is_set ''isolation'' (obj_of j)
         then [rule [IifSet z, OifSet z] (Verdict Drop) (Some (''isolate '' @ nid))] else []) @
        (if \<not> on_by_default ''internet_access'' (obj_of j)
         then [rule [IifSet z, OifSet ''wan''] (Verdict Reject) (Some (''no internet: '' @ nid))] else [])"
      by (simp add: isolation_rules_def x z_def Let_def)
    have m: "m (IifSet k) \<longleftrightarrow> k = a" "m (OifSet k) \<longleftrightarrow> b = Some k" for k
      using assms(1) by (auto simp: crosses_def)
    show ?thesis
      using assms(2) unfolding zone rules by (cases "z = a") (simp_all add: m)
  qed
  have cons: "verdict m (isolation_rules (x # ns)) p =
      verdict m (isolation_rules [x]) (verdict m (isolation_rules ns) p)" for x ns p
    by (simp add: isolation_rules_def verdict_append)
  show ?thesis
  proof (induction networks)
    case (Cons x ns)
    have "zone_with q (x # ns) a \<longleftrightarrow> zone_with q [x] a \<or> zone_with q ns a" for q
      by (auto simp: zone_with_def)
    then show ?case
      unfolding cons [of x ns] one Cons.IH using assms(2)
      by (cases "b = Some a"; cases "b = Some ''wan''") simp_all
  qed (simp add: isolation_rules_def zone_with_def)
qed

lemma verdict_per_policy:
  assumes keys: "distinct (map fst policies)" and a: "a \<in> set ZONES" and b: "b \<noteq> []"
    and hit: "\<And>key v. (key, v) \<in> set policies \<Longrightarrow> hits m (r key v) \<longleftrightarrow> arrow_ends key = (a, b)"
    and stmt: "\<And>key v. nr_stmt (r key v) = Verdict (verdict_or Drop (text_of v))"
  shows "verdict m (map (\<lambda>(key, v). r key v) (sorted_items policies)) policy =
    (case map_of policies (a @ ''->'' @ b) of None \<Rightarrow> policy | Some v \<Rightarrow> verdict_or Drop (text_of v))"
proof -
  let ?k = "a @ ''->'' @ b"
  let ?g = "\<lambda>x. [r (fst x) (snd x)]"
  have as: "map (\<lambda>(key, v). r key v) xs = concat (map ?g xs)" for xs by (induction xs) auto
  have hit': "hits m (r key v) \<longleftrightarrow> key = ?k" if "(key, v) \<in> set policies" for key v
    using hit [OF that] arrow_ends_eq [OF _ b] arrow_ends_zone [OF a] by metis
  show ?thesis
  proof (cases "map_of policies ?k")
    case None
    then have "(?k, v) \<notin> set policies" for v using weak_map_of_SomeI by fastforce
    then have "verdict m (concat (map ?g (sorted_items policies))) policy = policy"
      by (intro verdict_concat_miss) (auto simp: hit')
    with None show ?thesis by (simp add: as)
  next
    case (Some v)
    then have "(?k, v) \<in> set policies" by (rule map_of_SomeD)
    then have mem: "(?k, v) \<in> set (sorted_items policies)" by simp
    have "distinct (map fst (sorted_items policies))"
      using keys by (simp add: sorted_items_def distinct_map)
    from verdict_sole [where g = ?g and m = m, OF this _ mem] Some mem show ?thesis
      by (fastforce simp: as hit' stmt)
  qed
qed

lemma verdict_policies:
  assumes "distinct (map fst policies)" and "a \<in> set ZONES" and "b \<noteq> []"
    and "crosses a (Some b) ins outs m"
  shows "verdict m (policy_rules policies) policy =
    (case map_of policies (a @ ''->'' @ b) of None \<Rightarrow> policy | Some v \<Rightarrow> verdict_or Drop (text_of v))"
  unfolding policy_rules_def using assms
  by (intro verdict_per_policy) (auto simp: crosses_def prod_eq_iff)

lemma verdict_policies_none:
  "crosses a None ins outs m \<Longrightarrow> verdict m (policy_rules policies) policy = policy"
  by (intro verdict_miss) (auto simp: policy_rules_def crosses_def)

lemma forward_rulesD:
  assumes "forward_rules cfg zs = Inr rs"
  obtains us where "user_rules (sub ''firewall'' cfg) = Inr us" and
    "rs = forward_base zs @ us @ forward_defaults cfg"
  using assms by (auto simp: forward_rules_def rbind_eq_Inr)

text \<open>The rules for tunnels: out of one with the zone's policy toward the WAN, and whatever comes from one.\<close>

lemma verdict_tunnels:
  assumes "distinct (map fst policies)" and "a \<in> set ZONES" and "crosses a b ins outs m"
  shows "verdict m (tunnel_rules policies patterns) policy =
    (let incoming = (if set patterns \<inter> ins = {} then policy else Accept) in
     if set patterns \<inter> outs = {} then incoming
     else case map_of policies (a @ ''->'' @ ''wan'') of None \<Rightarrow> incoming | Some v \<Rightarrow> verdict_or Drop (text_of v))"
proof -
  let ?r = "\<lambda>pattern key v. rule [IifSet (fst (arrow_ends key)), OifName pattern]
     (Verdict (verdict_or Drop (text_of v))) (Some (fst (arrow_ends key) @ ''->tunnel''))"
  let ?wan = "filter (\<lambda>(key, _ :: json). snd (arrow_ends key) = ''wan'')"
  let ?out = "\<lambda>pattern. map (\<lambda>(key, v). ?r pattern key v) (?wan (sorted_items policies))"
  have m: "m (IifSet k) \<longleftrightarrow> k = a" "m (OifName i) \<longleftrightarrow> i \<in> outs" "m (IifName i) \<longleftrightarrow> i \<in> ins" for k i
    using assms(3) by (auto simp: crosses_def)
  have wan: "?wan (sorted_items policies) = sorted_items (?wan policies)"
    by (simp add: sorted_items_def filter_sort)
  have key: "map_of (?wan policies) (a @ ''->'' @ ''wan'') = map_of policies (a @ ''->'' @ ''wan'')"
    using arrow_ends_zone [OF assms(2), of "''wan''"] by (induction policies) auto
  have "distinct (map fst (?wan policies))" using assms(1) by (rule distinct_map_filter)
  from verdict_per_policy [OF this assms(2), where m = m and b = "''wan''" and r = "?r p" for p]
  have hit: "verdict m (?out p) policy = (case map_of policies (a @ ''->'' @ ''wan'') of
      None \<Rightarrow> policy | Some v \<Rightarrow> verdict_or Drop (text_of v))" if "p \<in> outs" for p policy
    using that unfolding wan key by (fastforce simp: m prod_eq_iff)
  have miss: "verdict m (?out p) policy = policy" if "p \<notin> outs" for p policy
    using that by (intro verdict_miss) (auto simp: m)
  have "verdict m (concat (map ?out ps)) policy =
      (if set ps \<inter> outs = {} then policy
       else case map_of policies (a @ ''->'' @ ''wan'') of None \<Rightarrow> policy | Some v \<Rightarrow> verdict_or Drop (text_of v))" for ps policy
  proof (induction ps)
    case (Cons p ps)
    then show ?case
      by (cases "p \<in> outs") (auto simp: verdict_append hit miss split: option.splits)
  qed simp
  moreover have "verdict m (map (\<lambda>p. rule [IifName p] (Verdict Accept) (Some ''tunnel->any'')) ps) policy =
      (if set ps \<inter> ins = {} then policy else Accept)" for ps policy
    by (induction ps) (auto simp: m)
  ultimately show ?thesis by (simp add: tunnel_rules_def verdict_append Let_def)
qed

subsection \<open>Packets between interfaces\<close>

text \<open>How nftables compares an interface with a name that may end in an asterisk.\<close>

definition iface_pattern :: "string \<Rightarrow> string \<Rightarrow> bool" where
  "iface_pattern p i \<longleftrightarrow> (if p \<noteq> [] \<and> last p = CHR ''*'' then startswith i (butlast p) else i = p)"

text \<open>The interfaces of a zone's set, as the renderer was given them.\<close>

definition in_zone :: "zones \<Rightarrow> string \<Rightarrow> string \<Rightarrow> bool" where
  "in_zone zs z i \<longleftrightarrow> list_ex (\<lambda>(k, is). k = z \<and> i \<in> py_strip_char dquote ` set is) zs"

text \<open>A packet that arrives on interface \<open>i\<close> and leaves on \<open>j\<close>: what it answers to the matches on interfaces.\<close>

definition routed :: "zones \<Rightarrow> string \<Rightarrow> string \<Rightarrow> packet \<Rightarrow> bool" where
  "routed zs i j m \<longleftrightarrow>
     (\<forall>k. m (IifSet k) \<longleftrightarrow> in_zone zs k i) \<and> (\<forall>k. m (OifSet k) \<longleftrightarrow> in_zone zs k j) \<and>
     (\<forall>p. m (IifName p) \<longleftrightarrow> iface_pattern p i) \<and> (\<forall>p. m (OifName p) \<longleftrightarrow> iface_pattern p j)"

text \<open>The interface is in that zone and in no other, or in none.\<close>

definition zone_is :: "zones \<Rightarrow> string \<Rightarrow> string option \<Rightarrow> bool" where
  "zone_is zs i z \<longleftrightarrow> (\<forall>k. in_zone zs k i \<longleftrightarrow> z = Some k)"

definition plain_names :: "zones \<Rightarrow> bool" where
  "plain_names zs \<longleftrightarrow> list_all (\<lambda>(_, is). list_all (\<lambda>x. CHR ''*'' \<notin> set (py_strip_char dquote x)) is) zs"

definition bridge_name :: "string \<Rightarrow> bool" where
  "bridge_name i \<longleftrightarrow> startswith i ''br-'' \<and> CHR ''.'' \<notin> set i"

definition is_tunnel :: "obj \<Rightarrow> string \<Rightarrow> bool" where
  "is_tunnel cfg i \<longleftrightarrow> list_ex (\<lambda>p. iface_pattern (text_of p) i) (arr ''tunnel_interfaces'' (sub ''firewall'' cfg))"

definition policy_for :: "obj \<Rightarrow> string \<Rightarrow> string \<Rightarrow> nft_verdict option" where
  "policy_for cfg a b = map_option (\<lambda>v. verdict_or Drop (text_of v))
     (map_of (sub ''default_policies'' (sub ''firewall'' cfg)) (a @ ''->'' @ b))"

text \<open>What the configuration decides for a packet from a zone when no rule of the user does.\<close>

definition route_default :: "obj \<Rightarrow> string \<Rightarrow> string option \<Rightarrow> string \<Rightarrow> string \<Rightarrow> nft_verdict" where
  "route_default cfg a b i j =
     (if b = Some a \<and> zone_with (is_set ''isolation'') (sub ''networks'' cfg) a then Drop
      else if b = Some ''wan'' \<and> zone_with (\<lambda>n. \<not> on_by_default ''internet_access'' n) (sub ''networks'' cfg) a
      then Reject
      else case (case b of None \<Rightarrow> None | Some z \<Rightarrow> policy_for cfg a z) of
          Some v \<Rightarrow> v
        | None \<Rightarrow> (case (if is_tunnel cfg j then policy_for cfg a ''wan'' else None) of
              Some v \<Rightarrow> v | None \<Rightarrow> if is_tunnel cfg i then Accept else Drop))"

lemma routed_crosses:
  assumes "routed zs i j m" and "zone_is zs i (Some a)" and "zone_is zs j b"
  shows "crosses a b {p. iface_pattern p i} {p. iface_pattern p j} m"
  using assms by (auto simp: routed_def zone_is_def crosses_def)

lemma bridges_met:
  assumes "plain_names zs" and "zone_is zs i (Some a)"
  shows "set (bridges_of zs) \<inter> {p. iface_pattern p i} \<inter> {p. iface_pattern p j} \<noteq> {} \<longleftrightarrow> i = j \<and> bridge_name i"
proof -
  have plain: "iface_pattern p x \<longleftrightarrow> x = p" if "p \<in> set (bridges_of zs)" for p x
  proof -
    have "CHR ''*'' \<notin> set p" using that assms(1) by (fastforce simp: bridges_of_def plain_names_def list_all_iff)
    then have "p = [] \<or> last p \<noteq> CHR ''*''" by (metis last_in_set)
    then show ?thesis by (auto simp: iface_pattern_def)
  qed
  have "in_zone zs a i" using assms(2) by (simp add: zone_is_def)
  then obtain ifs where "(a, ifs) \<in> set zs" "i \<in> py_strip_char dquote ` set ifs"
    unfolding in_zone_def list_ex_iff by blast
  then have "i \<in> py_strip_char dquote ` set (concat (map snd zs))" by force
  then have "i \<in> set (bridges_of zs) \<longleftrightarrow> bridge_name i"
    by (simp add: bridges_of_def bridge_name_def)
  moreover have "set (bridges_of zs) \<inter> {p. iface_pattern p i} \<inter> {p. iface_pattern p j} = {p \<in> set (bridges_of zs). i = p \<and> j = p}"
    using plain by (intro set_eqI) (simp, metis)
  ultimately show ?thesis by (simp only:) auto
qed

lemma verdict_defaults:
  assumes "crosses a b {p. iface_pattern p i} {p. iface_pattern p j} m" and "a \<in> set ZONES" and "b \<noteq> Some []"
    and "\<not> (a = ''wan'' \<and> b = Some ''wan'')" and "distinct (map fst (sub ''default_policies'' (sub ''firewall'' cfg)))"
  shows "verdict m (forward_defaults cfg) policy = route_default cfg a b i j"
proof -
  let ?p = "sub ''default_policies'' (sub ''firewall'' cfg)"
  let ?t = "map text_of (arr ''tunnel_interfaces'' (sub ''firewall'' cfg))"
  note iso = verdict_isolation [OF assms(1,4)] and tun = verdict_tunnels [OF assms(5,2,1)]
  have tunnel: "set ?t \<inter> {p. iface_pattern p x} = {} \<longleftrightarrow> \<not> is_tunnel cfg x" for x
    by (auto simp: is_tunnel_def list_ex_iff)
  have pol: "verdict m (policy_rules ?p) q = (case (case b of None \<Rightarrow> None | Some z \<Rightarrow> policy_for cfg a z) of None \<Rightarrow> q | Some v \<Rightarrow> v)" for q
  proof (cases b)
    case None
    with assms(1) show ?thesis by (simp add: verdict_policies_none)
  next
    case (Some z)
    with verdict_policies [OF assms(5,2), of z] assms(1,3) show ?thesis
      by (auto simp: policy_for_def split: option.split)
  qed
  have "verdict m (forward_defaults cfg) policy =
      verdict m (isolation_rules (sub ''networks'' cfg)) (verdict m (policy_rules ?p) (verdict m (tunnel_rules ?p ?t) Drop))"
    by (simp add: forward_defaults_def Let_def verdict_append)
  then show ?thesis
    unfolding iso pol tun tunnel Let_def route_default_def by (auto simp: policy_for_def split: option.split)
qed

text \<open>C5. The forward chain decides every packet that arrives from a zone, whatever interface it arrives on and leaves
  by, in one order. Replies are accepted and packets of invalid state dropped; a packet that stays on one
  bridge and a forwarded port are accepted, whatever the user's rules say; then the user's rules decide;
  then the defaults. There a zone with an isolated network drops traffic to itself, a zone with a network
  that has no internet access is rejected toward the WAN as a whole, and otherwise the policy of the pair
  of zones decides. Where no policy does, a tunnel interface is reached by the zone's policy toward the
  WAN, whatever comes from a tunnel is accepted, and the rest is dropped. Only traffic from the WAN zone
  back to the WAN zone is left out.\<close>

theorem forward_chain_policy:
  assumes "forward_rules cfg zs = Inr rs" and "routed zs i j m" and "zone_is zs i (Some a)" and "zone_is zs j b"
    and "plain_names zs" and "a \<in> set ZONES" and "b \<noteq> Some []" and "\<not> (a = ''wan'' \<and> b = Some ''wan'')"
    and "distinct (map fst (sub ''default_policies'' (sub ''firewall'' cfg)))"
  shows "\<exists>us. user_rules (sub ''firewall'' cfg) = Inr us \<and>
    verdict m rs Drop =
      (if m CtReply then Accept else if m CtInvalid then Drop
       else if i = j \<and> bridge_name i then Accept else if m CtDnat then Accept
       else verdict m us (route_default cfg a b i j))"
proof -
  obtain us where us: "user_rules (sub ''firewall'' cfg) = Inr us"
    and rs: "rs = forward_base zs @ us @ forward_defaults cfg"
    by (rule forward_rulesD [OF assms(1)])
  note c = routed_crosses [OF assms(2-4)]
  show ?thesis
    using us by (simp add: rs verdict_append verdict_forward_base [OF c] bridges_met [OF assms(5,3)]
      verdict_defaults [OF c assms(6-9)])
qed

text \<open>A network without internet access, whose zone is rejected toward the WAN itself, still gets out through a
  tunnel when the policy allows the WAN.\<close>

lemma tunnel_egress_policy:
  assumes "is_tunnel cfg j" and "policy_for cfg a ''wan'' = Some Accept"
  shows "route_default cfg a None i j = Accept"
  using assms by (simp add: route_default_def)

subsection \<open>Witnesses\<close>

definition home_policies :: obj where
  "home_policies = [(''lan->wan'', JStr ''allow''), (''lan->gateway'', JStr ''allow''),
     (''guest->wan'', JStr ''allow''), (''lan->guest'', JStr ''drop'')]"

definition home_cfg :: obj where
  "home_cfg =
     [(''networks'', JObj
        [(''main'', JObj [(''zone'', JStr ''lan''), (''subnet'', JStr ''192.168.2.1/24'')]),
         (''kids'', JObj [(''zone'', JStr ''guest''), (''isolation'', JBool True),
            (''internet_access'', JBool False)])]),
      (''firewall'', JObj
        [(''default_policies'', JObj home_policies), (''tunnel_interfaces'', JList [JStr ''tun*'']),
         (''rules'', JList [JObj [(''id'', JStr ''printer''), (''index'', JInt 7), (''action'', JStr ''allow''),
            (''src_zone'', JStr ''lan''), (''dst_zone'', JStr ''guest''), (''protocol'', JStr ''tcp''),
            (''dst_port'', JStr ''9100'')]])])]"

definition home_zones :: zones where
  "home_zones = [(''wan'', [quoted ''eth3'']), (''lan'', [quoted ''br-lan'']), (''guest'', [quoted ''br-lan.30''])]"

definition packet_of :: "string \<Rightarrow> string option \<Rightarrow> string set \<Rightarrow> string set \<Rightarrow> packet" where
  "packet_of a b ins outs = (\<lambda>x. case x of IifSet k \<Rightarrow> k = a | OifSet k \<Rightarrow> b = Some k
     | IifName i \<Rightarrow> i \<in> ins | OifName i \<Rightarrow> i \<in> outs | _ \<Rightarrow> False)"

definition packet_between :: "zones \<Rightarrow> string \<Rightarrow> string \<Rightarrow> packet" where
  "packet_between zs i j = (\<lambda>x. case x of IifSet k \<Rightarrow> in_zone zs k i | OifSet k \<Rightarrow> in_zone zs k j
     | IifName p \<Rightarrow> iface_pattern p i | OifName p \<Rightarrow> iface_pattern p j | _ \<Rightarrow> False)"

lemma packet_between_routed: "routed zs i j (packet_between zs i j)"
  by (simp add: routed_def packet_between_def)

lemma home_renders: "\<exists>rs. forward_rules home_cfg home_zones = Inr rs"
proof -
  have "is_ok (forward_rules home_cfg home_zones)" by code_simp
  then show ?thesis by (simp add: is_ok_iff)
qed

lemma home_policies_of: "sub ''default_policies'' (sub ''firewall'' home_cfg) = home_policies"
  by (simp add: home_cfg_def sub_def get_null_def get_or_def obj_of_def)

lemma input_chain_policy_witness:
  "verdict (packet_of ''guest'' None {} {}) (input_rules home_cfg home_zones) Drop = Reject \<and>
   verdict (packet_of ''wan'' None {} {}) (input_rules home_cfg home_zones) Drop = Drop"
proof -
  have "only_from z home_zones (packet_of z None {} {})" for z
    by (auto simp: only_from_def packet_of_def)
  moreover have "admitted (packet_of z None {} {}) = None \<and> \<not> dns_dhcp (packet_of z None {} {})" for z
    by (simp add: admitted_def dns_dhcp_def packet_of_def)
  moreover have "gateway_action home_policies ''guest'' = Reject" by code_simp
  moreover have "distinct (map fst home_zones)" by (simp add: home_zones_def)
  ultimately show ?thesis
    using input_chain_policy [of "''guest''" home_zones "packet_of ''guest'' None {} {}" home_cfg]
      input_chain_policy [of "''wan''" home_zones "packet_of ''wan'' None {} {}" home_cfg]
    by (simp add: home_policies_of home_zones_def)
qed

text \<open>From the untagged LAN and from a VLAN to the WAN, and from the VLAN into a tunnel, which is in no zone.\<close>

lemma forward_chain_policy_witness:
  "\<exists>rs us. forward_rules home_cfg home_zones = Inr rs \<and> user_rules (sub ''firewall'' home_cfg) = Inr us \<and>
     (let from = (\<lambda>i j rules. verdict (packet_between home_zones i j) rules) in
      from ''br-lan'' ''eth3'' rs Drop = from ''br-lan'' ''eth3'' us Accept \<and>
      from ''br-lan.30'' ''eth3'' rs Drop = from ''br-lan.30'' ''eth3'' us Reject \<and>
      from ''br-lan.30'' ''tun0'' rs Drop = from ''br-lan.30'' ''tun0'' us Accept \<and>
      from ''br-lan'' ''br-lan'' rs Drop = Accept)"
proof -
  obtain rs where rs: "forward_rules home_cfg home_zones = Inr rs" using home_renders by blast
  obtain us where us: "user_rules (sub ''firewall'' home_cfg) = Inr us" using rs by (rule forward_rulesD)
  have zones: "in_zone home_zones k i \<longleftrightarrow> (k = ''wan'' \<and> i = ''eth3'') \<or> (k = ''lan'' \<and> i = ''br-lan'') \<or> (k = ''guest'' \<and> i = ''br-lan.30'')"
    for k i
  proof -
    have "map (\<lambda>(k, is). (k, map (py_strip_char dquote) is)) home_zones =
        [(''wan'', [''eth3'']), (''lan'', [''br-lan'']), (''guest'', [''br-lan.30''])]" by code_simp
    moreover have "in_zone zs k i \<longleftrightarrow> list_ex (\<lambda>(z, is). z = k \<and> i \<in> set is) (map (\<lambda>(k, is). (k, map (py_strip_char dquote) is)) zs)" for zs
      by (induction zs) (auto simp: in_zone_def)
    ultimately show ?thesis by auto
  qed
  have z: "zone_is home_zones ''br-lan'' (Some ''lan'')" "zone_is home_zones ''br-lan.30'' (Some ''guest'')"
    "zone_is home_zones ''eth3'' (Some ''wan'')" "zone_is home_zones ''tun0'' None"
    by (auto simp: zone_is_def zones)
  have plain: "plain_names home_zones" by code_simp
  have d: "distinct (map fst (sub ''default_policies'' (sub ''firewall'' home_cfg)))"
    by (simp add: home_policies_of home_policies_def)
  have a: "''lan'' \<in> set ZONES" "''guest'' \<in> set ZONES" by (simp_all add: ZONES_def)
  have dflt: "route_default home_cfg ''lan'' (Some ''wan'') ''br-lan'' ''eth3'' = Accept"
    "route_default home_cfg ''guest'' (Some ''wan'') ''br-lan.30'' ''eth3'' = Reject"
    "route_default home_cfg ''guest'' None ''br-lan.30'' ''tun0'' = Accept" by code_simp+
  have m: "\<not> packet_between zs i j CtReply" "\<not> packet_between zs i j CtInvalid" "\<not> packet_between zs i j CtDnat" for zs i j
    by (simp_all add: packet_between_def)
  have br: "bridge_name ''br-lan''" by code_simp
  note go = forward_chain_policy [OF rs packet_between_routed _ _ plain _ _ _ d]
  from go [OF z(1) z(3) a(1)] go [OF z(2) z(3) a(2)] go [OF z(2) z(4) a(2)] go [OF z(1) z(1) a(1)]
  show ?thesis using rs us by (simp add: us dflt m br Let_def)
qed

end
