(* ===== verification/NetSafety.thy ===== *)
theory NetSafety
  imports NetPlan NftSafety
begin

text \<open>
  Properties of the network daemon: the zones are complete, and the two halves of policy routing (the marks
  of the ruleset, the fwmark rules) agree.
\<close>

subsection \<open>Zones\<close>

lemma keys_zone_add [simp]: "fst ` set (zone_add z i zs) = insert z (fst ` set zs)"
  by (simp add: zone_add_def alist_laws)

lemma distinct_zone_add [simp]: "distinct (map fst zs) \<Longrightarrow> distinct (map fst (zone_add z i zs))"
  by (simp add: zone_add_def distinct_keys_update)

lemma lookup_zone_add: "map_of (zone_add z i zs) k =
    (if k = z then Some (the_default [] (map_of zs z) @ [i]) else map_of zs k)"
  by (simp add: zone_add_def alist.lookup_store)

lemma keys_zone_fold:
  "fst ` set (fold (\<lambda>x. zone_add (f x) (g x)) xs zs) = f ` set xs \<union> fst ` set zs"
  by (induction xs arbitrary: zs) auto

lemma distinct_zone_fold:
  "distinct (map fst zs) \<Longrightarrow> distinct (map fst (fold (\<lambda>x. zone_add (f x) (g x)) xs zs))"
  by (induction xs arbitrary: zs) auto

lemma lookup_zone_fold:
  "the_default [] (map_of (fold (\<lambda>x. zone_add (f x) (g x)) xs zs) k) =
     the_default [] (map_of zs k) @ map g (filter (\<lambda>x. f x = k) xs)"
  by (induction xs arbitrary: zs) (auto simp: lookup_zone_add the_default_def)

lemma zone_interfaces_folds:
  "zone_interfaces cfg wans links =
     fold (\<lambda>name. zone_add ((\<lambda>_. ''containers'') name) (quoted name)) (filter container_link links)
      (fold (\<lambda>name. zone_add ((\<lambda>_. ''vpn'') name) (quoted name))
        (filter (\<lambda>name. name \<in> set links) [''wg0'', ''wg1''])
       (fold (\<lambda>x. zone_add ((\<lambda>_. ''wan'') x) (quoted (snd x))) wans
        (fold (\<lambda>x. zone_add (text_or ''lan'' ''zone'' (obj_of (snd x)))
            (quoted (net_interface_for (obj_of (snd x))))) (sub ''networks'' cfg)
          (map (\<lambda>z. (z, [])) zone_names))))"
  by (simp add: zone_interfaces_def Let_def split_def)

lemma zone_interfaces_keys: "set zone_names \<subseteq> fst ` set (zone_interfaces cfg wans links)"
  unfolding zone_interfaces_folds keys_zone_fold by (auto simp: image_image)

lemma zone_interfaces_distinct: "distinct (map fst (zone_interfaces cfg wans links))"
  unfolding zone_interfaces_folds
  by (intro distinct_zone_fold) (simp add: zone_names_def)

lemma empty_zones: "map_of (map (\<lambda>z. (z, [])) zs) k = (if k \<in> set zs then Some [] else None)"
  by (induction zs) auto

text \<open>The zones cover every zone a document can name, each exactly once, and a zone holds exactly
  the interfaces that belong to it: those of its networks, the WAN interfaces in \<open>wan\<close>, the WireGuard
  links in \<open>vpn\<close>, the container bridges in \<open>containers\<close>.\<close>

theorem zones_complete:
  "set ZONES \<subseteq> fst ` set (zone_interfaces cfg wans links) \<and>
   distinct (map fst (zone_interfaces cfg wans links)) \<and>
   set (the_default [] (map_of (zone_interfaces cfg wans links) z)) =
     {quoted (net_interface_for (obj_of net)) | nid net. (nid, net) \<in> set (sub ''networks'' cfg) \<and>
        text_or ''lan'' ''zone'' (obj_of net) = z} \<union>
     (if z = ''wan'' then quoted ` snd ` set wans else {}) \<union>
     (if z = ''vpn'' then quoted ` (set links \<inter> {''wg0'', ''wg1''}) else {}) \<union>
     (if z = ''containers'' then quoted ` {l \<in> set links. container_link l} else {})"
proof -
  have "set ZONES \<subseteq> set zone_names" by (simp add: ZONES_def zone_names_def)
  then have "set ZONES \<subseteq> fst ` set (zone_interfaces cfg wans links)"
    using zone_interfaces_keys by (rule subset_trans)
  moreover have "set (the_default [] (map_of (zone_interfaces cfg wans links) z)) =
     {quoted (net_interface_for (obj_of net)) | nid net. (nid, net) \<in> set (sub ''networks'' cfg) \<and>
        text_or ''lan'' ''zone'' (obj_of net) = z} \<union>
     (if z = ''wan'' then quoted ` snd ` set wans else {}) \<union>
     (if z = ''vpn'' then quoted ` (set links \<inter> {''wg0'', ''wg1''}) else {}) \<union>
     (if z = ''containers'' then quoted ` {l \<in> set links. container_link l} else {})"
  proof -
    let ?f = "\<lambda>x :: string \<times> json. text_or ''lan'' ''zone'' (obj_of (snd x))"
    let ?i = "\<lambda>x :: string \<times> json. quoted (net_interface_for (obj_of (snd x)))"
    have empty: "the_default [] (map_of (map (\<lambda>z. (z, [])) zone_names) z) = []"
      by (simp add: empty_zones the_default_def)
    let ?wg = "filter (\<lambda>name. name \<in> set links) [''wg0'', ''wg1'']"
    have "set (the_default [] (map_of (zone_interfaces cfg wans links) z)) =
        set (map ?i (filter (\<lambda>x. ?f x = z) (sub ''networks'' cfg))) \<union>
        set (map (\<lambda>x. quoted (snd x)) (filter (\<lambda>_. ''wan'' = z) wans)) \<union>
        set (map quoted (filter (\<lambda>_. ''vpn'' = z) ?wg)) \<union>
        set (map quoted (filter (\<lambda>_. ''containers'' = z) (filter container_link links)))"
      unfolding zone_interfaces_folds lookup_zone_fold empty by (simp only: append_Nil set_append)
    also have "set (map ?i (filter (\<lambda>x. ?f x = z) xs)) =
        {quoted (net_interface_for (obj_of net)) | nid net. (nid, net) \<in> set xs \<and>
          text_or ''lan'' ''zone'' (obj_of net) = z}" for xs
      by (force simp: image_iff)
    also have "set (map (\<lambda>x. quoted (snd x)) (filter (\<lambda>_. ''wan'' = z) wans)) =
        (if z = ''wan'' then quoted ` snd ` set wans else {})"
      by (auto simp: image_image)
    also have "set (map quoted (filter (\<lambda>_. ''vpn'' = z) ?wg)) =
        (if z = ''vpn'' then quoted ` (set links \<inter> {''wg0'', ''wg1''}) else {})"
      by auto
    also have "set (map quoted (filter (\<lambda>_. ''containers'' = z) (filter container_link links))) =
        (if z = ''containers'' then quoted ` {l \<in> set links. container_link l} else {})"
      by auto
    finally show ?thesis .
  qed
  ultimately show ?thesis
    using zone_interfaces_distinct by (intro conjI)
qed

subsection \<open>Policy routing\<close>

lemma wan_table_inject:
  "wan_table cfg w1 = Some t \<Longrightarrow> wan_table cfg w2 = Some t \<Longrightarrow> w1 = w2"
  by (auto simp: wan_table_def find_Some_iff)

lemma wan_table_member:
  "wan_table cfg wid = Some t \<Longrightarrow> wid \<in> fst ` set (sub ''wans'' cfg)"
  by (auto simp: wan_table_def find_Some_iff sorted_wans_def)
    (metis length_map length_sort nth_mem set_map set_sort)

lemma fwmark_rule_route:
  assumes "fwmark_rules cfg = Inr fs" and "(mark, table, prio) \<in> set fs"
  obtains i route wid where "(i, route) \<in> set (enabled_routes cfg)" and "route_mark i route = Inr mark"
    and "get_null ''wan'' route = JStr wid" and "wan_table cfg wid = Some table" and "prio = 1000 + i"
proof -
  from assms obtain os where "rmap (mark_route cfg) (enabled_routes cfg) = Inr os"
    and "Some (mark, table, prio) \<in> set os"
    by (auto simp: fwmark_rules_def rbind_eq_Inr List.map_filter_def)
  from rmap_mem [OF this] obtain i route where r: "(i, route) \<in> set (enabled_routes cfg)"
    and "mark_route cfg (i, route) = Inr (Some (mark, table, prio))" by auto
  then show thesis
    by (auto simp: mark_route_def rbind_eq_Inr split: option.splits json.splits intro!: that)
qed

text \<open>The two halves of policy routing agree: for every fwmark rule the daemon adds, the ruleset
  has a rule of the same policy route that sets exactly that mark, and the table the rule looks up is
  the one of the WAN the route names, which no other WAN shares.\<close>

theorem marks_agree:
  assumes "fwmark_rules cfg = Inr fs" and "mangle_rules cfg = Inr rs" and "(mark, table, prio) \<in> set fs"
  shows "\<exists>i route wid. (i, route) \<in> set (enabled_routes cfg) \<and> get_null ''wan'' route = JStr wid \<and>
    (\<exists>r \<in> set rs. mark_rule (i, route) = Inr r \<and> nr_stmt r = Stmt (''meta mark set '' @ py_hex mark)) \<and>
    wan_table cfg wid = Some table \<and> wid \<in> fst ` set (sub ''wans'' cfg) \<and>
    {other. wan_table cfg other = Some table} = {wid}"
proof -
  obtain i route wid where r: "(i, route) \<in> set (enabled_routes cfg)" and m: "route_mark i route = Inr mark"
    and w: "get_null ''wan'' route = JStr wid" "wan_table cfg wid = Some table"
    by (rule fwmark_rule_route [OF assms(1,3)])
  from assms(2) have "rmap mark_rule (enabled_routes cfg) = Inr rs" by (simp add: mangle_rules_def)
  from rmap_image [OF this r] obtain x where "x \<in> set rs" and x: "mark_rule (i, route) = Inr x" by blast
  with m have "\<exists>r \<in> set rs. mark_rule (i, route) = Inr r \<and> nr_stmt r = Stmt (''meta mark set '' @ py_hex mark)"
    by (intro bexI [of _ x]) (auto simp: mark_rule_def rbind_eq_Inr)
  moreover have "{other. wan_table cfg other = Some table} = {wid}"
    using w(2) wan_table_inject by blast
  ultimately show ?thesis
    using r w wan_table_member [OF w(2)]
    by (intro exI [of _ i] exI [of _ route] exI [of _ wid] conjI)
qed

definition routed_cfg :: obj where
  "routed_cfg =
     [(''wans'', JObj [(''wan2'', JObj []), (''wan1'', JObj [])]),
      (''policy_routes'', JList
        [JObj [(''enabled'', JBool False), (''wan'', JStr ''wan1'')],
         JObj [(''src_address'', JStr ''192.168.2.9''), (''wan'', JStr ''wan2'')]])]"

lemma marks_agree_witness:
  "\<exists>rs. mangle_rules routed_cfg = Inr rs \<and>
     (\<exists>i route wid. (i, route) \<in> set (enabled_routes routed_cfg) \<and> get_null ''wan'' route = JStr wid \<and>
       (\<exists>r \<in> set rs. mark_rule (i, route) = Inr r \<and> nr_stmt r = Stmt (''meta mark set '' @ py_hex 258)) \<and>
       wan_table routed_cfg wid = Some 102 \<and> wid \<in> fst ` set (sub ''wans'' routed_cfg) \<and>
       {other. wan_table routed_cfg other = Some 102} = {wid})"
proof -
  have f: "fwmark_rules routed_cfg = Inr [(258, 102, 1002)]" by code_simp
  have "is_ok (mangle_rules routed_cfg)" by code_simp
  then obtain rs where m: "mangle_rules routed_cfg = Inr rs" by (auto simp: is_ok_iff)
  from marks_agree [OF f m, of 258 102 1002] m show ?thesis by simp
qed

subsection \<open>Applying a document\<close>

lemma net_apply_ok:
  assumes "net_apply d old new w = (r, w')" and "ar_ok r"
  obtains v ruleset where "ruleset_of new (nd_links d v) = Inr ruleset" and "nd_nft_check d v ruleset = Done"
    and "fst (nd_nft_install d v ruleset) = Done" and "w' = snd (nd_nft_install d v ruleset)"
proof -
  from assms obtain s3 message where f: "apply_firewall d new (snd s3) = (Inr (True, message), w')"
    by (auto simp: net_apply_def run_stage_def failed_apply_def Let_def
        split: sum.splits prod.splits if_splits)
  then obtain x where "ruleset_of new (nd_links d (snd s3)) = Inr x" and "nd_nft_check d (snd s3) x = Done"
    and "fst (nd_nft_install d (snd s3) x) = Done" and "w' = snd (nd_nft_install d (snd s3) x)"
    by (auto simp: apply_firewall_def apply_ruleset_def split: sum.splits tool_answer.splits if_splits)
  with that show thesis by blast
qed

end
