(* ===== verification/Dnsmasq.thy ===== *)
theory Dnsmasq
  imports NetPlan
begin

text \<open>
  The DHCP and DNS service of \<open>netd.py\<close>: the dnsmasq configuration rendered from the running
  document, and the lease file it reads back. Lines are kept as a list; the file is the lines joined
  by newlines.
\<close>

subsection \<open>DNS\<close>

definition RUN_DIR :: string where "RUN_DIR = ''/run/sbegw''"
definition DNSMASQ_PID :: string where "DNSMASQ_PID = RUN_DIR @ ''/dnsmasq.pid''"
definition DNSMASQ_LEASES :: string where "DNSMASQ_LEASES = ''/data/sbegw/dnsmasq.leases''"

definition dnsmasq_head :: "obj \<Rightarrow> string list" where
  "dnsmasq_head dns =
     [''# generated by sbegw netd '' @ dash @ '' do not edit'', ''bind-interfaces'',
      ''except-interface=lo'', ''pid-file='' @ DNSMASQ_PID, ''dhcp-leasefile='' @ DNSMASQ_LEASES,
      ''no-resolv'', ''no-hosts'', ''expand-hosts'', ''domain-needed'', ''bogus-priv'',
      ''cache-size='' @ text_of (get_or (JInt 4096) ''cache_size'' dns), ''dhcp-authoritative'',
      ''stop-dns-rebind'', ''rebind-localhost-ok''] @
     (if is_set ''dnssec'' dns
      then [''dnssec'', ''trust-anchor=.,20326,8,2,E06D44B80B8F1D39A95C0B0D7C65D08458E880409BBC683457104237C7F8EC8D'']
      else []) @
     (if is_set ''query_log'' dns then [''log-queries''] else []) @
     map (\<lambda>s. ''server='' @ text_of s) (arr ''upstream'' dns)"

definition forwarder_line :: "obj \<Rightarrow> verr + string" where
  "forwarder_line entry = rbind (need_text ''domain'' entry) (\<lambda>d. rbind (need_text ''server'' entry) (\<lambda>s.
     Inr (''server=/'' @ d @ ''/'' @ s)))"

definition record_prefix :: "string \<Rightarrow> string option" where
  "record_prefix kind =
     (if kind \<in> {''A'', ''AAAA''} then Some ''host-record='' else map_of
       [(''CNAME'', ''cname=''), (''SRV'', ''srv-host=''), (''TXT'', ''txt-record='')] kind)"

definition record_line :: "obj \<Rightarrow> verr + string list" where
  "record_line r = (case record_prefix (text_or ''A'' ''type'' r) of None \<Rightarrow> Inr []
     | Some p \<Rightarrow> rbind (need_text ''name'' r) (\<lambda>n. rbind (need_text ''value'' r) (\<lambda>v.
         Inr [p @ n @ '','' @ v])))"

definition filter_lines :: "obj \<Rightarrow> string list" where
  "filter_lines flt = (if \<not> is_set ''enabled'' flt then [] else
     map (\<lambda>d. ''address=/'' @ text_of d @ ''/'') (arr ''blocklist'' flt) @
     map (\<lambda>d. ''server=/'' @ text_of d @ ''/#'') (arr ''allowlist'' flt))"

definition dns_lines :: "obj \<Rightarrow> verr + string list" where
  "dns_lines dns =
     rbind (rmap forwarder_line (map obj_of (arr ''conditional_forwarders'' dns))) (\<lambda>fs.
     rbind (rconcat (rmap record_line (map obj_of (arr ''records'' dns)))) (\<lambda>rs.
       Inr (dnsmasq_head dns @ fs @ rs @ filter_lines (sub ''filtering'' dns))))"

subsection \<open>DHCP\<close>

definition netmask :: "nat \<Rightarrow> int" where
  "netmask prefix = 2 ^ 32 - 2 ^ (32 - prefix)"

definition option_line :: "string \<Rightarrow> obj \<Rightarrow> verr + string" where
  "option_line tag opt = rbind (need_text ''code'' opt) (\<lambda>c. rbind (need_text ''value'' opt) (\<lambda>v.
     Inr (''dhcp-option=tag:'' @ tag @ '','' @ c @ '','' @ v)))"

definition host_line :: "obj \<Rightarrow> verr + string" where
  "host_line res = rbind (need_text ''mac'' res) (\<lambda>mac. rbind (need_text ''address'' res) (\<lambda>addr.
     Inr (''dhcp-host='' @ py_join '','' ([mac] @
       (if is_set ''hostname'' res then [text_of (get_null ''hostname'' res)] else []) @ [addr]))))"

text \<open>A network that serves DHCP: its range, the router, the resolvers, the domain, the MTU, extra
  options and the reservations. The gateway is the address part of the subnet.\<close>

definition range_line :: "string \<Rightarrow> ipv4_net \<Rightarrow> obj \<Rightarrow> verr + string" where
  "range_line tag gw dhcp = rbind (need_text ''start'' dhcp) (\<lambda>s. rbind (need_text ''end'' dhcp) (\<lambda>e.
     Inr (''dhcp-range=set:'' @ tag @ '','' @ s @ '','' @ e @ '','' @ show_ipv4 (netmask (snd gw)) @ '','' @
       text_of (get_or (JInt 86400) ''lease_seconds'' dhcp) @ ''s'')))"

definition resolvers_of :: "ipv4_net \<Rightarrow> obj \<Rightarrow> string list" where
  "resolvers_of gw dhcp =
     (if is_set ''dns'' dhcp then map text_of (arr ''dns'' dhcp) else [show_ipv4 (fst gw)])"

definition dhcp_lines :: "string \<Rightarrow> ipv4_net \<Rightarrow> obj \<Rightarrow> obj \<Rightarrow> verr + string list" where
  "dhcp_lines tag gw dhcp net =
     (let opt = (\<lambda>code value. ''dhcp-option=tag:'' @ tag @ '','' @ code @ '','' @ value) in
      rbind (range_line tag gw dhcp) (\<lambda>range.
      rbind (rmap (option_line tag) (map obj_of (arr ''options'' dhcp))) (\<lambda>options.
      rbind (rmap host_line (map obj_of (arr ''reservations'' dhcp))) (\<lambda>hosts.
        Inr ([range, opt ''3'' (show_ipv4 (fst gw)), opt ''6'' (py_join '','' (resolvers_of gw dhcp))] @
          (if is_set ''domain'' dhcp then [opt ''15'' (text_of (get_null ''domain'' dhcp))] else []) @
          [opt ''26'' (text_of (get_or (JInt 1500) ''mtu'' net))] @ options @ hosts)))))"

definition ra_lines :: "string \<Rightarrow> obj \<Rightarrow> string list" where
  "ra_lines iface ipv6 =
     (let mode = (if is_set ''dhcpv6'' ipv6
                  then (if on_by_default ''stateless'' ipv6 then ''ra-stateless,ra-names'' else ''slaac'')
                  else ''ra-names,slaac'')
      in [''dhcp-range=::,constructor:'' @ iface @ '','' @ mode @ '',64,12h'', ''enable-ra'',
          ''ra-param='' @ iface @ '',high,300,1200''])"

definition serves_dhcp :: "obj \<Rightarrow> obj \<Rightarrow> bool" where
  "serves_dhcp cfg net \<longleftrightarrow> is_set ''enabled'' (sub ''dhcp'' net) \<and> \<not> ap_mode cfg"

definition network_lines :: "obj \<Rightarrow> string \<times> json \<Rightarrow> verr + string list" where
  "network_lines cfg = (\<lambda>(nid, j).
     let net = obj_of j; iface = net_interface_for net;
         head = [[], ''# network '' @ nid, ''interface='' @ iface];
         ipv6 = sub ''ipv6'' net
     in if \<not> is_set ''subnet'' net then Inr head
        else case parse_ipv4_net (text_of (get_null ''subnet'' net)) of
            None \<Rightarrow> Inl (Raised ValueError)
          | Some gw \<Rightarrow>
              rbind (if serves_dhcp cfg net then dhcp_lines (''net_'' @ nid) gw (sub ''dhcp'' net) net
                     else Inr [''no-dhcp-interface='' @ iface]) (\<lambda>dhcp.
                Inr (head @ dhcp @ (if is_set ''ra'' ipv6 \<and> \<not> ap_mode cfg then ra_lines iface ipv6 else []))))"

definition dnsmasq_lines :: "obj \<Rightarrow> verr + string list" where
  "dnsmasq_lines cfg =
     rbind (dns_lines (sub ''dns'' cfg)) (\<lambda>ds.
     rbind (rconcat (rmap (network_lines cfg) (sub ''networks'' cfg))) (\<lambda>ns. Inr (ds @ ns)))"

definition render_dnsmasq :: "obj \<Rightarrow> verr + string" where
  "render_dnsmasq cfg = rbind (dnsmasq_lines cfg) (\<lambda>ls. Inr (py_join [newline] ls @ [newline]))"

subsection \<open>Leases\<close>

record lease =
  ls_expires :: int
  ls_mac :: string
  ls_address :: string
  ls_hostname :: "string option"
  ls_client_id :: "string option"

text \<open>\<open>isdigit\<close> and then \<open>int\<close>: a superscript digit passes the first and makes the second raise.\<close>

definition expiry_of :: "string \<Rightarrow> verr + int" where
  "expiry_of s = (if \<not> list_all py_isdigit s then Inr 0
     else case py_int_of_string s of None \<Rightarrow> Inl (Raised ValueError) | Some n \<Rightarrow> Inr n)"

definition lease_of :: "string \<Rightarrow> verr + lease list" where
  "lease_of line = (case py_words line of
     expires # mac # address # hostname # rest \<Rightarrow> rbind (expiry_of expires) (\<lambda>e. Inr
       [\<lparr>ls_expires = e, ls_mac = mac, ls_address = address,
         ls_hostname = (if hostname = ''*'' then None else Some hostname),
         ls_client_id = (case rest of [] \<Rightarrow> None | c # _ \<Rightarrow> Some c)\<rparr>])
   | _ \<Rightarrow> Inr [])"

definition leases :: "string \<Rightarrow> verr + lease list" where
  "leases text = rconcat (rmap lease_of (split_lines text))"

subsection \<open>Properties\<close>

definition no_service :: "string \<Rightarrow> bool" where
  "no_service line \<longleftrightarrow> \<not> startswith line ''dhcp-range'' \<and> line \<noteq> ''enable-ra'' \<and>
     \<not> startswith line ''dhcp-host''"

lemma rconcat_eq [res_simps]: "rconcat m = Inr ys \<longleftrightarrow> (\<exists>xs. m = Inr xs \<and> ys = concat xs)"
  by (auto simp: rconcat_def rbind_eq_Inr)

lemma startswith_Cons: "startswith (c # s) (d # p) \<longleftrightarrow> c = d \<and> startswith s p"
  by (simp add: startswith_def)

lemma startswith_Nil [simp]: "startswith s []" "startswith [] (d # p) \<longleftrightarrow> False"
  by (simp_all add: startswith_def)

lemma record_prefix_cases:
  "record_prefix k = Some p \<Longrightarrow> p \<in> {''host-record='', ''cname='', ''srv-host='', ''txt-record=''}"
  by (auto simp: record_prefix_def split: if_splits)

lemma record_line_no_service: "record_line r = Inr ls \<Longrightarrow> l \<in> set ls \<Longrightarrow> no_service l"
proof (cases "record_prefix (text_or ''A'' ''type'' r)")
  case (Some p)
  assume "record_line r = Inr ls" and "l \<in> set ls"
  with Some obtain n v where "l = p @ n @ '','' @ v"
    by (auto simp: record_line_def rbind_eq_Inr)
  with record_prefix_cases [OF Some] show ?thesis by (auto simp: no_service_def startswith_Cons)
qed (simp add: record_line_def)

lemma dns_lines_no_service: "dns_lines dns = Inr ls \<Longrightarrow> list_all no_service ls"
proof -
  assume "dns_lines dns = Inr ls"
  then obtain fs rss where ls: "ls = dnsmasq_head dns @ fs @ concat rss @ filter_lines (sub ''filtering'' dns)"
    and fs: "rmap forwarder_line (map obj_of (arr ''conditional_forwarders'' dns)) = Inr fs"
    and rss: "rmap record_line (map obj_of (arr ''records'' dns)) = Inr rss"
    by (auto simp: dns_lines_def rbind_eq_Inr rconcat_eq)
  have "no_service l" if "l \<in> set fs" for l
    using rmap_mem [OF fs that] by (auto simp: forwarder_line_def rbind_eq_Inr no_service_def startswith_Cons)
  moreover have "no_service l" if "r \<in> set rss" "l \<in> set r" for r l
    using rmap_mem [OF rss that(1)] that(2) record_line_no_service by blast
  moreover have "no_service l" if "l \<in> set (dnsmasq_head dns) \<union> set (filter_lines flt)" for l flt
    using that by (auto simp: dnsmasq_head_def filter_lines_def no_service_def startswith_Cons
        split: if_splits)
  ultimately show ?thesis unfolding ls list_all_iff by fastforce
qed

text \<open>An access point never competes with the router of its network: whatever the document says,
  the configuration it gives dnsmasq has no DHCP range, no reservation and no router advertisement,
  and DHCP is switched off on the interface of every network that has a subnet.\<close>

theorem access_point_serves_no_dhcp:
  assumes "dnsmasq_lines cfg = Inr ls" and "ap_mode cfg"
  shows "list_all no_service ls \<and>
    (\<forall>(nid, net) \<in> set (sub ''networks'' cfg). is_set ''subnet'' (obj_of net) \<longrightarrow>
       ''no-dhcp-interface='' @ net_interface_for (obj_of net) \<in> set ls)"
proof -
  from assms(1) obtain ds nss where d: "dns_lines (sub ''dns'' cfg) = Inr ds" and ls: "ls = ds @ concat nss"
    and n: "rmap (network_lines cfg) (sub ''networks'' cfg) = Inr nss"
    by (auto simp: dnsmasq_lines_def rbind_eq_Inr rconcat_eq)
  have lines: "ns = [[], ''# network '' @ nid, ''interface='' @ net_interface_for (obj_of net)] @
      (if is_set ''subnet'' (obj_of net)
       then [''no-dhcp-interface='' @ net_interface_for (obj_of net)] else [])"
    if "network_lines cfg (nid, net) = Inr ns" for nid net ns
    using that assms(2) by (auto simp: network_lines_def serves_dhcp_def Let_def split: if_splits option.splits)
  have "no_service l" if "ns \<in> set nss" "l \<in> set ns" for ns l
    using rmap_mem [OF n that(1)] that(2)
    by (auto dest!: lines simp: no_service_def startswith_Cons split: if_splits)
  moreover have "''no-dhcp-interface='' @ net_interface_for (obj_of net) \<in> set ls"
    if "(nid, net) \<in> set (sub ''networks'' cfg)" "is_set ''subnet'' (obj_of net)" for nid net
    using rmap_image [OF n that(1)] lines [of nid net] that(2) by (fastforce simp: ls)
  ultimately show ?thesis
    using dns_lines_no_service [OF d] by (auto simp: ls list_all_iff)
qed

definition ap_cfg :: obj where
  "ap_cfg = [(''system'', JObj [(''mode'', JStr ''ap'')]),
     (''networks'', JObj [(''main'', JObj [(''subnet'', JStr ''192.168.2.1/24''),
        (''dhcp'', JObj [(''enabled'', JBool True), (''start'', JStr ''192.168.2.100''),
           (''end'', JStr ''192.168.2.200'')])])])]"

lemma access_point_serves_no_dhcp_witness:
  "\<exists>ls. dnsmasq_lines ap_cfg = Inr ls \<and> list_all no_service ls \<and>
     ''no-dhcp-interface=br-lan'' \<in> set ls"
proof -
  have "is_ok (dnsmasq_lines ap_cfg)" by code_simp
  then obtain ls where ls: "dnsmasq_lines ap_cfg = Inr ls" by (auto simp: is_ok_iff)
  have "ap_mode ap_cfg" by code_simp
  from access_point_serves_no_dhcp [OF ls this] ls show ?thesis
    by (auto simp: ap_cfg_def sub_def get_null_def get_or_def obj_of_def is_set_def
        net_interface_for_def BRIDGE_def)
qed

end
