(* ===== verification/Gateway.thy ===== *)
theory Gateway
  imports SchemaSound StoreSafety NetSafety Dnsmasq
begin

text \<open>
  How the parts fit together: what validation guarantees is what the renderers need, and what the
  network daemon refuses the store does not run.
\<close>

subsection \<open>Validation and the ruleset\<close>

definition set_refs :: "nft_rule \<Rightarrow> string set" where
  "set_refs r = {z. IifSet z \<in> set (nr_matches r) \<or> OifSet z \<in> set (nr_matches r)}"

text \<open>What the filter chains of a document rely on: every zone it names is one of the zones.\<close>

definition zones_known :: "obj \<Rightarrow> bool" where
  "zones_known cfg \<longleftrightarrow>
     (\<forall>(nid, net) \<in> set (sub ''networks'' cfg). enum_at ''zone'' ZONES (obj_of net)) \<and>
     (\<forall>r \<in> set (arr ''rules'' (sub ''firewall'' cfg)). rule_ok r) \<and>
     (\<forall>(key, _) \<in> set (sub ''default_policies'' (sub ''firewall'' cfg)).
        fst (arrow_ends key) \<in> set ZONES \<and> snd (arrow_ends key) \<in> set ZONES)"

lemma text_or_enum: "enum_at k al d \<Longrightarrow> text_or dflt k d \<in> set al"
  by (auto simp: enum_at_def text_or_def text_of_def the_default_def get_null_def get_or_def
      split: json.splits option.splits)

lemma set_refs_rule [simp]:
  "set_refs (rule ms s c) = {z. IifSet z \<in> set ms \<or> OifSet z \<in> set ms}"
  "set_refs (plain_rule ms s) = {z. IifSet z \<in> set ms \<or> OifSet z \<in> set ms}"
  by (auto simp: set_refs_def rule_def plain_rule_def)

lemma plain_matches:
  "address_matches d family groups = Some ms \<Longrightarrow> set ms \<subseteq> range Match"
  "set (port_matches d) \<subseteq> range Match" "set (other_matches d family schedules) \<subseteq> range Match"
  by (auto simp: address_matches_def port_matches_def other_matches_def Let_def)

lemma rule_of_refs:
  assumes "rule_of d family groups schedules = Inr (Some r)" and "rule_ok j" and "d = obj_of j"
  shows "set_refs r \<subseteq> set ZONES"
proof -
  let ?src = "text_or ''lan'' ''src_zone'' d" and ?dst = "text_or ''wan'' ''dst_zone'' d"
  from assms(1) obtain addrs proto where a: "address_matches d family groups = Some addrs"
    and m: "set (nr_matches r) \<subseteq> set ([IifSet ?src, OifSet ?dst] @ map Match proto @ addrs @
      port_matches d @ other_matches d family schedules)"
  proof (cases "address_matches d family groups")
    case (Some addrs)
    let ?proto = "if text_or ''any'' ''protocol'' d \<noteq> ''any''
      then [proto_expr (text_or ''any'' ''protocol'' d)] else []"
    from assms(1) Some have "set (nr_matches r) \<subseteq> set ([IifSet ?src, OifSet ?dst] @ map Match ?proto @ addrs @
        port_matches d @ other_matches d family schedules)"
      unfolding rule_of_def Let_def rbind_eq_Inr by (auto simp: rbind_eq_Inr split: if_splits)
    with Some that show thesis by blast
  qed (simp add: rule_of_def Let_def split: if_splits)
  have "set_refs r \<subseteq> {?src, ?dst}"
    using m plain_matches(1) [OF a] plain_matches(2,3) unfolding set_refs_def by fastforce
  with assms(2,3) show ?thesis by (auto simp: rule_ok_def Let_def intro: text_or_enum)
qed

lemma user_rules_refs:
  assumes "user_rules fw = Inr us" and "\<forall>r \<in> set (arr ''rules'' fw). rule_ok r" and "r \<in> set us"
  shows "set_refs r \<subseteq> set ZONES"
proof -
  from assms(1) obtain os where os: "rmap (\<lambda>(d, family). rule_of d family (sub ''groups'' fw)
      (sub ''schedules'' fw)) (concat (map (\<lambda>d. map (Pair d) (families (text_or ''both'' ''family'' d)))
        (ordered_rules fw))) = Inr os" and "us = List.map_filter id os"
    by (auto simp: user_rules_def rbind_eq_Inr)
  with assms(3) have "Some r \<in> set os" by (auto simp: List.map_filter_def)
  from rmap_mem [OF os this] obtain d family where "d \<in> set (ordered_rules fw)"
    and r: "rule_of d family (sub ''groups'' fw) (sub ''schedules'' fw) = Inr (Some r)"
    by auto
  then obtain j where "j \<in> set (arr ''rules'' fw)" and "d = obj_of j"
    by (auto simp: ordered_rules_def)
  with assms(2) show ?thesis by (intro rule_of_refs [OF r]) auto
qed

lemma input_refs:
  assumes "r \<in> set (input_rules cfg zs)" and "''wan'' \<in> fst ` set zs"
  shows "set_refs r \<subseteq> fst ` set zs"
  using assms
  by (auto simp: input_rules_def input_base_def zone_input_def Let_def split: if_splits
      intro: fst_image_mem)

lemma forward_refs:
  assumes "forward_rules cfg zs = Inr rs" and "zones_known cfg" and "r \<in> set rs"
  shows "set_refs r \<subseteq> set ZONES"
proof -
  obtain us where us: "user_rules (sub ''firewall'' cfg) = Inr us"
    and rs: "rs = forward_base zs @ us @ forward_defaults cfg"
    by (rule forward_rulesD [OF assms(1)])
  let ?fw = "sub ''firewall'' cfg"
  have base: "set_refs x = {}" if "x \<in> set (forward_base zs)" for x
    using that by (auto simp: forward_base_def)
  have wan: "''wan'' \<in> set ZONES" by (simp add: ZONES_def)
  have iso: "set_refs x \<subseteq> set ZONES" if "x \<in> set (isolation_rules (sub ''networks'' cfg))" for x
    using that assms(2) wan
    by (auto simp: isolation_rules_def zones_known_def Let_def split: if_splits dest!: text_or_enum)
  have pol: "set_refs x \<subseteq> set ZONES" if "x \<in> set (policy_rules (sub ''default_policies'' ?fw))" for x
    using that assms(2) by (auto simp: policy_rules_def zones_known_def)
  have tun: "set_refs x \<subseteq> set ZONES" if "x \<in> set (tunnel_rules (sub ''default_policies'' ?fw) ps)" for x ps
    using that assms(2) by (auto simp: tunnel_rules_def zones_known_def)
  have "\<forall>x \<in> set (arr ''rules'' ?fw). rule_ok x" using assms(2) by (simp add: zones_known_def)
  note user = user_rules_refs [OF us this]
  from assms(3) consider "r \<in> set (forward_base zs)" | "r \<in> set us"
    | "r \<in> set (isolation_rules (sub ''networks'' cfg))"
    | "r \<in> set (policy_rules (sub ''default_policies'' ?fw))"
    | "r \<in> set (tunnel_rules (sub ''default_policies'' ?fw) (map text_of (arr ''tunnel_interfaces'' ?fw)))"
    | "r = rule [] (Verdict Drop) None"
    by (auto simp: rs forward_defaults_def Let_def)
  then show ?thesis by cases (use base user iso pol tun in simp_all)
qed

text \<open>Validation establishes it.\<close>

lemma policy_check_ends:
  "policy_check (key, action) = Inr u \<Longrightarrow>
     fst (arrow_ends key) \<in> set ZONES \<and> snd (arrow_ends key) \<in> set ZONES"
  by (auto simp: policy_check_def Let_def rbind_eq_Inr v_enum_eq verr_at_def arrow_ends_def
      the_default_def split: option.splits)

lemma check_items_all: "check_items f ps = Inr u \<Longrightarrow> p \<in> set ps \<Longrightarrow> f p = Inr ()"
  by (induction ps) (auto simp: rbind_eq_Inr)

lemma firewall_policies:
  assumes "validate_firewall v = Inr (j, w)"
  shows "\<forall>(key, _) \<in> set (sub ''default_policies'' (obj_of j)).
    fst (arrow_ends key) \<in> set ZONES \<and> snd (arrow_ends key) \<in> set ZONES"
proof -
  let ?ss = "[field ''hardware_offload'' (JBool False) (\<lambda>v. v_bool v ''firewall.hardware_offload''),
      field ''tunnel_interfaces'' tunnel_default (\<lambda>v.
        rbind (need_list v ''firewall.tunnel_interfaces'') (check_each tunnel_check 0)),
      field ''default_policies'' (JObj []) (\<lambda>v. rbind (as_dict v) (check_items policy_check)),
      (\<lambda>fw. nested ''rules'' (JList [])
         (for_list (rule_body (get_or (JObj []) ''schedules'' fw)) []) fw)] :: warning step list"
  from assms obtain d d' where j: "j = JObj d'" and st: "steps ?ss d = Inr (d', w)"
    unfolding validate_firewall_def dict_steps_eq by blast
  have "keeping ''default_policies'' (\<lambda>fw. nested ''rules'' (JList [])
      (for_list (rule_body (get_or (JObj []) ''schedules'' fw)) []) fw :: verr + (obj \<times> warning list))"
    unfolding keeping_def nested_def by (auto simp: rbind_eq_Inr map_of_dset map_of_setdefault)
  then have "list_all (keeping ''default_policies'') ?ss"
    by (simp add: ext_intros extending_keeping)
  from field_get [OF st this, of "JObj []" "\<lambda>v. rbind (as_dict v) (check_items policy_check)"]
  obtain ps u where "get_null ''default_policies'' d' = JObj ps" and "check_items policy_check ps = Inr u"
    by (auto simp: is_ok_iff rbind_eq_Inr as_dict_eq)
  then show ?thesis
    by (auto simp: sub_def j obj_of_def dest!: check_items_all intro!: policy_check_ends)
qed

lemma accepted_zones_known:
  assumes "validate caps (JObj cfg) = Inr (JObj out, w)"
  shows "zones_known out"
proof -
  obtain nets where nets: "map_of out ''networks'' = Some (JObj nets)"
    and ok: "\<forall>(nid, net) \<in> set nets. network_ok nid net"
    using accepted_network_ok [OF assms] by blast
  then have "sub ''networks'' out = nets" by (simp add: sub_def get_null_def get_or_def obj_of_def)
  moreover have "\<forall>(key, _) \<in> set (sub ''default_policies'' (sub ''firewall'' out)).
      fst (arrow_ends key) \<in> set ZONES \<and> snd (arrow_ends key) \<in> set ZONES"
    by (rule firewall_section [OF assms]) (drule firewall_policies, simp add: sub_def)
  moreover have "arr ''rules'' (sub ''firewall'' out) = entries ''rules'' (get_null ''firewall'' out)"
    by (simp add: arr_def entries_def list_of_def sub_def)
  ultimately show ?thesis
    using accepted_rule_ok [OF assms] ok
    by (auto simp: zones_known_def network_ok_def list_all_iff enum_at_iff [symmetric])
qed

lemma zones_cover: "set ZONES \<subseteq> fst ` set (zone_interfaces cfg wans links)"
  using zone_interfaces_keys [of cfg wans links] by (auto simp: ZONES_def zone_names_def)

text \<open>A ruleset rendered from an accepted document never names an interface set it does not
  declare, whatever links the kernel has: no user rule, isolation, policy or tunnel rule can make
  \<open>nft\<close> reject the whole ruleset for an unknown set.\<close>

theorem ruleset_sets_declared:
  assumes "validate caps (JObj cfg) = Inr (JObj out, w)"
    and "forward_rules out (zone_interfaces out wans links) = Inr rs"
    and "r \<in> set (input_rules out (zone_interfaces out wans links)) \<union> set rs"
  shows "set_refs r \<subseteq> fst ` set (zone_interfaces out wans links)"
proof -
  have "''wan'' \<in> fst ` set (zone_interfaces out wans links)"
    using zones_cover by (auto simp: ZONES_def)
  with input_refs [of r out "zone_interfaces out wans links"]
    forward_refs [OF assms(2) accepted_zones_known [OF assms(1)], of r] assms(3) zones_cover [of out wans links]
  show ?thesis by blast
qed

text \<open>\<open>forward_rules\<close> of the default document, which is accepted unchanged.\<close>

lemma default_forwards: "\<exists>rs. forward_rules default_config (zone_interfaces default_config wans links) = Inr rs"
proof -
  have "is_ok (user_rules (sub ''firewall'' default_config))" by code_simp
  then show ?thesis by (auto simp: is_ok_iff forward_rules_def)
qed

lemma ruleset_sets_declared_witness:
  "\<exists>rs. forward_rules default_config (zone_interfaces default_config [(''wan1'', ''eth3'')] [''docker0'']) = Inr rs \<and>
     (\<Union>r \<in> set rs. set_refs r) \<subseteq> fst ` set (zone_interfaces default_config [(''wan1'', ''eth3'')] [''docker0''])"
proof -
  obtain rs where rs:
    "forward_rules default_config (zone_interfaces default_config [(''wan1'', ''eth3'')] [''docker0'']) = Inr rs"
    using default_forwards by blast
  with ruleset_sets_declared [OF validate_default rs] show ?thesis by blast
qed

subsection \<open>Validation and DHCP\<close>

text \<open>The text of the range line dnsmasq gets for a network.\<close>

definition dhcp_range :: "string \<Rightarrow> string \<Rightarrow> string \<Rightarrow> ipv4_net \<Rightarrow> string \<Rightarrow> string" where
  "dhcp_range nid s e gw lease_time = ''dhcp-range=set:net_'' @ nid @ '','' @ s @ '','' @ e @ '','' @
     show_ipv4 (netmask (snd gw)) @ '','' @ lease_time @ ''s''"

lemma accepted_pool:
  assumes "network_ok nid net" and "serves_dhcp cfg (obj_of net)" and "network_subnet net = [gw]"
  shows "pool_ok gw (sub ''dhcp'' (obj_of net))"
  using assms by (auto simp: network_ok_def dhcp_ok_def serves_dhcp_def is_set_def sub_def Let_def
      split: json.splits)

lemma dnsmasq_network:
  assumes "dnsmasq_lines cfg = Inr ls" and "(nid, net) \<in> set (sub ''networks'' cfg)"
  obtains ns where "network_lines cfg (nid, net) = Inr ns" and "set ns \<subseteq> set ls"
proof -
  from assms(1) obtain ds nss where "ls = ds @ concat nss"
    and n: "rmap (network_lines cfg) (sub ''networks'' cfg) = Inr nss"
    by (auto simp: dnsmasq_lines_def rbind_eq_Inr rconcat_eq)
  with rmap_image [OF n assms(2)] that show thesis by fastforce
qed

lemma network_lines_dhcp:
  assumes "network_lines cfg (nid, net) = Inr ns" and "is_set ''subnet'' (obj_of net)"
    and "parse_ipv4_net (text_of (get_null ''subnet'' (obj_of net))) = Some gw"
    and "serves_dhcp cfg (obj_of net)"
  shows "\<exists>dl. dhcp_lines (''net_'' @ nid) gw (sub ''dhcp'' (obj_of net)) (obj_of net) = Inr dl \<and> set dl \<subseteq> set ns"
  using assms unfolding network_lines_def Let_def by (auto simp: rbind_eq_Inr)

text \<open>A DHCP server hands out only addresses of its own network: for every network of an accepted
  document that serves DHCP, dnsmasq is given a range whose ends are addresses of the network's
  subnet in ascending order, with the subnet's own mask, and the range does not contain the gateway.\<close>

theorem served_pool_inside_subnet:
  assumes "validate caps (JObj cfg) = Inr (JObj out, w)" and "dnsmasq_lines out = Inr ls"
    and "(nid, net) \<in> set (sub ''networks'' out)" and "network_subnet net = [gw]"
    and "serves_dhcp out (obj_of net)"
  shows "\<exists>s e a b lease_time. dhcp_range nid s e gw lease_time \<in> set ls \<and>
    parse_ipv4 s = Some a \<and> parse_ipv4 e = Some b \<and> in_network a gw \<and> in_network b gw \<and> a \<le> b \<and>
    \<not> (a \<le> fst gw \<and> fst gw \<le> b)"
proof -
  obtain nets where "map_of out ''networks'' = Some (JObj nets)"
    and "\<forall>(nid, net) \<in> set nets. network_ok nid net"
    using accepted_network_ok [OF assms(1)] by blast
  with assms(3) have "network_ok nid net" by (auto simp: sub_def get_null_def get_or_def obj_of_def)
  from accepted_pool [OF this assms(5,4)] obtain s e a b where
    pool: "get_null ''start'' (sub ''dhcp'' (obj_of net)) = JStr s"
      "get_null ''end'' (sub ''dhcp'' (obj_of net)) = JStr e"
    and ab: "parse_ipv4 s = Some a" "parse_ipv4 e = Some b" "in_network a gw" "in_network b gw" "a \<le> b"
      "\<not> (a \<le> fst gw \<and> fst gw \<le> b)"
    by (auto simp: pool_ok_def split: json.splits option.splits)
  then have need: "need_text ''start'' (sub ''dhcp'' (obj_of net)) = Inr s"
    "need_text ''end'' (sub ''dhcp'' (obj_of net)) = Inr e"
    by (auto simp: need_text_def get_null_def get_or_def text_of_def the_default_def split: option.splits)
  obtain ns where ns: "network_lines out (nid, net) = Inr ns" and sub: "set ns \<subseteq> set ls"
    by (rule dnsmasq_network [OF assms(2,3)])
  obtain t where t: "get_null ''subnet'' (obj_of net) = JStr t" "parse_ipv4_net t = Some gw"
    using assms(4) by (auto simp: network_subnet_def split: json.splits option.splits)
  then have "t \<noteq> []" by (auto simp: parse_ipv4_net_Nil)
  with t have "is_set ''subnet'' (obj_of net)" "text_of (get_null ''subnet'' (obj_of net)) = t"
    by (simp_all add: is_set_def text_of_def the_default_def)
  with network_lines_dhcp [OF ns _ _ assms(5)] t(2) obtain dl where
    "dhcp_lines (''net_'' @ nid) gw (sub ''dhcp'' (obj_of net)) (obj_of net) = Inr dl"
    and "set dl \<subseteq> set ns"
    by auto
  moreover have "dhcp_range nid s e gw (text_of (get_or (JInt 86400) ''lease_seconds'' (sub ''dhcp'' (obj_of net)))) \<in> set dl"
    using calculation(1) by (auto simp: dhcp_lines_def range_line_def need rbind_eq_Inr Let_def dhcp_range_def)
  ultimately show ?thesis using ab sub by blast
qed

lemma served_pool_inside_subnet_witness:
  "\<exists>ls s e a b lease_time. dnsmasq_lines default_config = Inr ls \<and>
     dhcp_range ''default'' s e (3232236033, 24) lease_time \<in> set ls \<and>
     parse_ipv4 s = Some a \<and> parse_ipv4 e = Some b \<and> a \<le> b \<and> \<not> (a \<le> 3232236033 \<and> 3232236033 \<le> b)"
proof -
  let ?net = "snd (hd (sub ''networks'' default_config))"
  have "is_ok (dnsmasq_lines default_config)" by code_simp
  then obtain ls where ls: "dnsmasq_lines default_config = Inr ls" by (auto simp: is_ok_iff)
  have "sub ''networks'' default_config = [(''default'', ?net)]" by code_simp
  then have "(''default'', ?net) \<in> set (sub ''networks'' default_config)" by (metis list.set_intros(1))
  moreover have "network_subnet ?net = [(3232236033, 24)]" by code_simp
  moreover have "serves_dhcp default_config (obj_of ?net)" by code_simp
  ultimately show ?thesis
    using served_pool_inside_subnet [OF validate_default ls] ls by fastforce
qed

subsection \<open>The store and the network daemon\<close>

lemma preflight_member:
  assumes "preflight as old new w = ([], w')" and "a \<in> set as" and "ap_preflight a = Some chk"
  shows "\<exists>v ok msgs v'. chk old new v = (Inr (ok, msgs), v') \<and> (ok \<or> msgs = [])"
  using assms
proof (induction as arbitrary: w)
  case (Cons x as)
  then show ?case
    by (cases "a = x") (fastforce split: option.splits prod.splits sum.splits if_splits simp: Let_def)+
qed simp

lemma apply_all_member:
  assumes "apply_all as old new w = ((msgs, conf, None), w')" and "a \<in> set as"
  shows "\<exists>v r v'. ap_run a old new v = (Inr r, v') \<and> ar_ok r"
  using assms
proof (induction as arbitrary: w msgs conf)
  case (Cons x as)
  obtain r w1 where x: "ap_run x old new w = (r, w1)" by fastforce
  with Cons.prems(1) obtain res m c where r: "r = Inr res" "ar_ok res"
    and rest: "apply_all as old new w1 = ((m, c, None), w')"
    by (auto simp: Let_def split: sum.splits if_splits prod.splits)
  show ?case using x r Cons.prems(2) Cons.IH [OF rest] by auto
qed simp

text \<open>C2. A document only runs when the gateway can be reached and its firewall is in the kernel: a
  commit that takes effect with the network daemon among the appliers leaves at least one enabled
  LAN port, and the ruleset rendered from the very document that now runs was checked and installed.\<close>

theorem committed_document_is_enforced:
  assumes "commit env args txid t st = (Inr res, st')" and "cr_revision res \<noteq> None"
    and "net_applier d \<in> set (appliers env)"
  shows "enabled_lan_ports (obj_of (running st')) \<noteq> [] \<and>
    (\<exists>v ruleset. ruleset_of (obj_of (running st')) (nd_links d v) = Inr ruleset \<and>
       nd_nft_check d v ruleset = Done \<and> fst (nd_nft_install d v ruleset) = Done)"
  using assms(1)
proof (cases rule: commit_cases)
  case (committed new warnings msgs conf ch w w0 w1)
  have "st_pending ((snd (checkpoint args txid t ch st))\<lparr>world := w\<rparr>) = None"
    using committed(1) by simp
  from finish_commit_spec [OF committed(7) [symmetric] this] have new: "running st' = new" by simp
  have "enabled_lan_ports (obj_of new) \<noteq> []"
    using preflight_member [OF committed(4) assms(3)]
    by (auto simp: net_applier_def net_preflight_def Let_def)
  moreover obtain v x v' where "ap_run (net_applier d) (running st) new v = (Inr x, v')" "ar_ok x"
    using apply_all_member [OF committed(5) assms(3)] by blast
  then obtain r w' where "net_apply d (obj_of (running st)) (obj_of new) v = (r, w')" "ar_ok r"
    by (cases "net_apply d (obj_of (running st)) (obj_of new) v") (simp add: net_applier_def)
  then obtain u ruleset where "ruleset_of (obj_of new) (nd_links d u) = Inr ruleset"
    "nd_nft_check d u ruleset = Done" "fst (nd_nft_install d u ruleset) = Done"
    by (rule net_apply_ok)
  ultimately show ?thesis unfolding new by blast
qed (use assms(2) in auto)

definition quiet_driver :: "string net_driver" where
  "quiet_driver =
     (let quiet = (\<lambda>_ w. (Inr [], w)) in
      \<lparr>nd_ports = quiet, nd_networks = quiet, nd_wans = quiet, nd_services = quiet, nd_traffic = quiet,
       nd_routing = quiet, nd_links = (\<lambda>_. []),
       nd_discover = (\<lambda>_. [''eth0'', ''eth1'', ''eth2'', ''eth3'']), nd_nft_available = (\<lambda>_. True),
       nd_nft_check = (\<lambda>_ _. Done), nd_nft_install = (\<lambda>_ text. (Done, text)), nd_exc_text = (\<lambda>_. [])\<rparr>)"

definition quiet_env :: "string env" where
  "quiet_env = \<lparr>appliers = [net_applier quiet_driver], health_checks = [], env_caps = None\<rparr>"

lemma quiet_apply:
  assumes "ruleset_of new [] = Inr rs"
  shows "\<exists>msgs. net_apply quiet_driver old new w = (\<lparr>ar_ok = True, ar_messages = msgs, ar_confirm = is_risky old new\<rparr>, rs)"
  using assms
  by (simp add: net_apply_def run_stage_def quiet_driver_def apply_stages_def apply_firewall_def
      apply_ruleset_def Let_def)

lemma committed_document_is_enforced_witness:
  "\<exists>res st' ruleset. commit quiet_env boot_args ''tx1'' 0 (init_store None None []) = (Inr res, st') \<and>
     enabled_lan_ports (obj_of (running st')) \<noteq> [] \<and>
     ruleset_of (obj_of (running st')) [] = Inr ruleset"
proof -
  have "is_ok (ruleset_of default_config [])" by code_simp
  then obtain rs where rs: "ruleset_of default_config [] = Inr rs" by (auto simp: is_ok_iff)
  have pre: "net_preflight [''eth0'', ''eth1'', ''eth2'', ''eth3''] True default_config = (True, [])" by code_simp
  obtain msgs where ap: "net_apply quiet_driver default_config default_config [] =
      (\<lparr>ar_ok = True, ar_messages = msgs, ar_confirm = is_risky default_config default_config\<rparr>, rs)"
    using quiet_apply [OF rs] by blast
  have n: "nd_discover quiet_driver w = [''eth0'', ''eth1'', ''eth2'', ''eth3'']" "nd_nft_available quiet_driver w"
    "nd_links quiet_driver w = []" for w
    by (simp_all add: quiet_driver_def Let_def)
  have "\<exists>res st'. commit quiet_env boot_args ''tx1'' 0 (init_store None None []) = (Inr res, st') \<and>
      cr_revision res \<noteq> None"
    by (simp add: commit_def init_store_def load_running_def boot_args_def quiet_env_def default_unchanged
        validate_default apply_commit_def checkpoint_def finish_commit_def net_applier_def obj_of_def pre ap n
        emit_event_def audit_def Let_def)
  then obtain res st' where c: "commit quiet_env boot_args ''tx1'' 0 (init_store None None []) = (Inr res, st')"
    and r: "cr_revision res \<noteq> None" by blast
  from committed_document_is_enforced [OF c r, of quiet_driver] c n show ?thesis
    by (auto simp: quiet_env_def)
qed

end
