(* ===== verification/WanHealth.thy ===== *)
theory WanHealth
  imports NetPlan "HOL-Library.Product_Lexorder"
begin

text \<open>
  Monitoring in \<open>netd.py\<close>: the link events of the physical ports, the health of every WAN (\<open>probe\<close>)
  with its debounced events, and the choice of the primary WAN. What the kernel and the probes
  report in one round (link, addresses, default gateway, ICMP and TCP results) is an argument.
\<close>

subsection \<open>Links of the physical ports\<close>

type_synonym link_state = "(string \<times> bool) list"

text \<open>One round over the discovered ports and whether each has a link; an event is the port and its
  new state.\<close>

fun poll_link_changes :: "(string \<times> bool) list \<Rightarrow> link_state \<Rightarrow> (string \<times> bool) list \<times> link_state" where
  "poll_link_changes [] st = ([], st)"
| "poll_link_changes ((name, up) # ports) st =
     (let was = map_of st name;
          (events, st') = poll_link_changes ports (AList.update name up st)
      in (if was = None \<or> was = Some up then events else (name, up) # events, st'))"

subsection \<open>The state of one WAN\<close>

record wan_obs =
  ob_link :: bool
  ob_addresses :: "string list"
  ob_gateway :: "string option"
  ob_icmp :: "rat option \<times> rat option"
  ob_tcp :: "rat option"

definition num_or :: "int \<Rightarrow> string \<Rightarrow> obj \<Rightarrow> rat" where
  "num_or dflt k d = the_default (of_int dflt) (num_of (get_or (JInt dflt) k d))"

definition has_gateway :: "wan_obs \<Rightarrow> bool" where
  "has_gateway obs \<longleftrightarrow> ob_gateway obs \<noteq> None \<and> ob_gateway obs \<noteq> Some []"

text \<open>Latency and loss: a TCP handshake is tried when ICMP reports total loss.\<close>

definition measure_wan :: "obj \<Rightarrow> wan_obs \<Rightarrow> rat option \<times> rat option" where
  "measure_wan health obs =
     (if ob_link obs \<and> on_by_default ''enabled'' health \<and> has_gateway obs
      then (let (latency, loss) = ob_icmp obs in
            if 100 \<le> the_default 0 loss
            then (case ob_tcp obs of Some t \<Rightarrow> (Some t, Some 0) | None \<Rightarrow> (latency, loss))
            else (latency, loss))
      else (None, None))"

definition internet_ok :: "wan_obs \<Rightarrow> rat option \<Rightarrow> bool" where
  "internet_ok obs loss \<longleftrightarrow> ob_addresses obs \<noteq> [] \<and> has_gateway obs \<and> the_default 0 loss < 100"

definition wan_state :: "obj \<Rightarrow> wan_obs \<Rightarrow> string" where
  "wan_state health obs =
     (let (latency, loss) = measure_wan health obs in
      if \<not> ob_link obs then ''link-down''
      else if ob_addresses obs = [] then ''no-address''
      else if \<not> internet_ok obs loss then ''no-internet''
      else if num_or 40 ''loss_threshold'' health \<le> the_default 0 loss \<or>
              num_or 400 ''latency_threshold_ms'' health \<le> the_default 0 latency then ''degraded''
      else ''up'')"

definition wan_event_kind :: "string \<Rightarrow> string" where
  "wan_event_kind state = the_default ''WAN_DEGRADED'' (map_of
     [(''up'', ''WAN_UP''), (''degraded'', ''WAN_DEGRADED''), (''link-down'', ''WAN_DOWN''),
      (''no-address'', ''WAN_ACQUIRING''), (''no-internet'', ''WAN_NO_INTERNET'')] state)"

subsection \<open>The monitor\<close>

record health_entry =
  he_name :: json
  he_interface :: string
  he_port :: json
  he_mode :: json
  he_state :: string
  he_link :: bool
  he_internet :: bool
  he_addresses :: "string list"
  he_gateway :: "string option"
  he_latency :: "rat option"
  he_loss :: "rat option"
  he_priority :: rat
  he_weight :: json
  he_since :: time

record wan_monitor =
  wm_state :: "(string \<times> string) list"
  wm_pending :: "(string \<times> string \<times> nat) list"
  wm_health :: "(string \<times> health_entry) list"

definition fresh_monitor :: wan_monitor where
  "fresh_monitor = \<lparr>wm_state = [], wm_pending = [], wm_health = []\<rparr>"

text \<open>The state a WAN had and for how many rounds it has had the present one.\<close>

definition hold_count :: "string \<Rightarrow> string \<Rightarrow> wan_monitor \<Rightarrow> nat" where
  "hold_count wid state m =
     (let (pending, count) = the_default (state, 0) (map_of (wm_pending m) wid)
      in if pending = state then count + 1 else 1)"

definition since_of :: "string \<Rightarrow> string \<Rightarrow> time \<Rightarrow> wan_monitor \<Rightarrow> time" where
  "since_of wid state t m =
     (if map_of (wm_state m) wid \<noteq> Some state then t
      else case map_of (wm_health m) wid of None \<Rightarrow> t
        | Some h \<Rightarrow> if he_since h = 0 then t else he_since h)"

text \<open>One enabled WAN: its new state, the event if it is settled, its health entry.\<close>

definition probe_wan :: "obj \<Rightarrow> string \<Rightarrow> obj \<Rightarrow> wan_obs \<Rightarrow> time \<Rightarrow> wan_monitor
    \<Rightarrow> (string \<times> string) list \<times> wan_monitor" where
  "probe_wan cfg wid wan obs t m =
     (let health = sub ''health'' wan;
          (latency, loss) = measure_wan health obs;
          state = wan_state health obs;
          previous = map_of (wm_state m) wid;
          count = hold_count wid state m;
          settled = (2 \<le> count \<or> previous = None);
          entry = \<lparr>he_name = get_or (JStr wid) ''name'' wan, he_interface = wan_interface_for wan (Some cfg),
                   he_port = get_null ''port'' wan, he_mode = get_null ''mode'' wan, he_state = state,
                   he_link = ob_link obs, he_internet = internet_ok obs loss,
                   he_addresses = ob_addresses obs, he_gateway = ob_gateway obs,
                   he_latency = latency, he_loss = loss, he_priority = num_or 1 ''priority'' wan, he_weight = get_or (JInt 1) ''weight'' wan,
                   he_since = since_of wid state t m\<rparr>
      in (if previous \<noteq> None \<and> previous \<noteq> Some [] \<and> previous \<noteq> Some state \<and> settled
          then [(wid, wan_event_kind state)] else [],
          \<lparr>wm_state = AList.update wid state (wm_state m),
           wm_pending = AList.update wid (state, count) (wm_pending m),
           wm_health = AList.update wid entry (wm_health m)\<rparr>))"

text \<open>One round over the WANs of the document; a disabled WAN is skipped.\<close>

fun probe_wans :: "obj \<Rightarrow> obj \<Rightarrow> (string \<Rightarrow> wan_obs) \<Rightarrow> time \<Rightarrow> wan_monitor
    \<Rightarrow> (string \<times> string) list \<times> wan_monitor" where
  "probe_wans cfg [] obs t m = ([], m)"
| "probe_wans cfg ((wid, wan) # wans) obs t m =
     (if \<not> on_by_default ''enabled'' (obj_of wan) then probe_wans cfg wans obs t m
      else let (e1, m1) = probe_wan cfg wid (obj_of wan) (obs wid) t m;
               (e2, m2) = probe_wans cfg wans obs t m1
           in (e1 @ e2, m2))"

definition probe :: "obj \<Rightarrow> (string \<Rightarrow> wan_obs) \<Rightarrow> time \<Rightarrow> wan_monitor
    \<Rightarrow> (string \<times> string) list \<times> wan_monitor" where
  "probe cfg = probe_wans cfg (sub ''wans'' cfg)"

subsection \<open>The primary WAN\<close>

definition candidates :: "string \<Rightarrow> wan_monitor \<Rightarrow> (rat \<times> string) list" where
  "candidates state m = map (\<lambda>(wid, h). (he_priority h, wid))
     (filter (\<lambda>(_, h). he_state h = state) (wm_health m))"

definition select_primary :: "wan_monitor \<Rightarrow> string option" where
  "select_primary m =
     (let up = candidates ''up'' m;
          cs = (if up = [] then candidates ''degraded'' m else up)
      in if cs = [] then None else Some (snd (hd (sort cs))))"

subsection \<open>Properties\<close>

text \<open>Every round of the monitor, in any order of documents and observations.\<close>

fun run_probes :: "(obj \<times> (string \<Rightarrow> wan_obs) \<times> time) list \<Rightarrow> wan_monitor
    \<Rightarrow> (string \<times> string) list \<times> wan_monitor" where
  "run_probes [] m = ([], m)"
| "run_probes ((cfg, obs, t) # rounds) m =
     (let (e1, m1) = probe cfg obs t m; (e2, m2) = run_probes rounds m1 in (e1 @ e2, m2))"

definition in_step :: "wan_monitor \<Rightarrow> bool" where
  "in_step m \<longleftrightarrow> (\<forall>wid. map_of (wm_state m) wid = map_option fst (map_of (wm_pending m) wid))"

lemma in_step_probe_wan:
  "in_step m \<Longrightarrow> fst (probe_wan cfg wid wan obs t m) = [] \<and> in_step (snd (probe_wan cfg wid wan obs t m))"
  by (cases "map_of (wm_pending m) wid")
    (auto simp: in_step_def probe_wan_def Let_def hold_count_def the_default_def alist_laws
      split: prod.splits option.splits)

lemma in_step_probe_wans:
  "in_step m \<Longrightarrow> fst (probe_wans cfg wans obs t m) = [] \<and> in_step (snd (probe_wans cfg wans obs t m))"
proof (induction wans arbitrary: m)
  case (Cons x wans)
  obtain wid wan where x: "x = (wid, wan)" by fastforce
  show ?case
    using Cons in_step_probe_wan [OF Cons.prems, of cfg wid "obj_of wan" "obs wid" t]
    by (simp add: x split_def Let_def)
qed simp

text \<open>The monitor never emits an event: whatever the observations of any number of rounds are, no
  change of a WAN's state is ever reported. The counter of the debounce restarts in the round in
  which the state changes, and in the next round the state no longer differs from the previous one,
  so the two conditions of an event never hold together.\<close>

theorem wan_events_never_emitted:
  "fst (run_probes rounds fresh_monitor) = []"
proof -
  have "in_step m \<Longrightarrow> fst (run_probes rounds m) = []" for m
  proof (induction rounds arbitrary: m)
    case (Cons x rounds)
    obtain cfg obs t where x: "x = (cfg, obs, t)" by (metis prod_cases3)
    show ?case
      using Cons in_step_probe_wans [OF Cons.prems, of cfg "sub ''wans'' cfg" obs t]
      by (simp add: x probe_def split_def Let_def)
  qed simp
  then show ?thesis by (simp add: fresh_monitor_def in_step_def)
qed

lemma hd_sort: "xs \<noteq> [] \<Longrightarrow> hd (sort xs) \<in> set xs \<and> (\<forall>x \<in> set xs. hd (sort xs) \<le> x)"
proof -
  assume "xs \<noteq> []"
  then have "sort xs \<noteq> []" by (metis length_0_conv length_sort)
  then obtain y ys where s: "sort xs = y # ys" by (cases "sort xs") auto
  have "sorted (y # ys)" using s by (metis sorted_sort)
  moreover have "set xs = set (y # ys)" using s by (metis set_sort)
  ultimately show ?thesis by (auto simp: s)
qed

lemma candidates_mem: "(p, wid) \<in> set (candidates state m) \<longleftrightarrow>
    (\<exists>h. (wid, h) \<in> set (wm_health m) \<and> he_state h = state \<and> he_priority h = p)"
  by (force simp: candidates_def)

text \<open>The best of the WANs in a state.\<close>

definition best_in :: "string \<Rightarrow> string \<Rightarrow> wan_monitor \<Rightarrow> bool" where
  "best_in state wid m \<longleftrightarrow> (\<exists>h. (wid, h) \<in> set (wm_health m) \<and> he_state h = state \<and>
     (\<forall>(other, x) \<in> set (wm_health m). he_state x = state \<longrightarrow>
        (he_priority h, wid) \<le> (he_priority x, other)))"

lemma best_candidate:
  assumes "candidates state m \<noteq> []" shows "best_in state (snd (hd (sort (candidates state m)))) m"
proof -
  obtain p wid where h: "hd (sort (candidates state m)) = (p, wid)" by fastforce
  with hd_sort [OF assms] have "(p, wid) \<in> set (candidates state m)"
    and least: "\<And>c. c \<in> set (candidates state m) \<Longrightarrow> (p, wid) \<le> c" by auto
  then obtain e where "(wid, e) \<in> set (wm_health m)" "he_state e = state" "he_priority e = p"
    by (auto simp: candidates_mem)
  moreover have "(p, wid) \<le> (he_priority x, other)" if "(other, x) \<in> set (wm_health m)"
    and "he_state x = state" for other x
    using that by (intro least) (auto simp: candidates_mem)
  ultimately show ?thesis unfolding best_in_def h by auto
qed

text \<open>The primary WAN is the one with the least priority number, and the least id among equals, of
  the WANs that are up; of the degraded ones only when none is up; there is none exactly when no WAN
  is up or degraded.\<close>

theorem primary_is_best:
  "let ups = candidates ''up'' m; poor = candidates ''degraded'' m in
   (case select_primary m of
      None \<Rightarrow> ups = [] \<and> poor = []
    | Some wid \<Rightarrow> if ups \<noteq> [] then best_in ''up'' wid m else poor \<noteq> [] \<and> best_in ''degraded'' wid m)"
  by (auto simp: select_primary_def Let_def best_candidate)

lemma probe_all_disabled:
  "list_all (\<lambda>(_, wan). \<not> on_by_default ''enabled'' (obj_of wan)) wans \<Longrightarrow>
     probe_wans cfg wans obs t m = ([], m)"
  by (induction wans) auto

text \<open>The choice never looks at the document: when every WAN has been disabled a round changes
  nothing, and the WAN that was primary before is still reported as the primary one.\<close>

theorem disabled_wan_stays_primary:
  assumes "list_all (\<lambda>(_, wan). \<not> on_by_default ''enabled'' (obj_of wan)) (sub ''wans'' cfg)"
    and "select_primary m = Some wid"
  shows "select_primary (snd (probe cfg obs t m)) = Some wid"
  using assms by (simp add: probe_def probe_all_disabled)

definition healthy_obs :: wan_obs where
  "healthy_obs = \<lparr>ob_link = True, ob_addresses = [''203.0.113.7/24''], ob_gateway = Some ''203.0.113.1'',
     ob_icmp = (Some 12, Some 0), ob_tcp = None\<rparr>"

definition one_wan :: "bool \<Rightarrow> obj" where
  "one_wan enabled =
     [(''wans'', JObj [(''wan1'', JObj [(''port'', JStr ''eth3''), (''enabled'', JBool enabled)])])]"

definition healthy_monitor :: wan_monitor where
  "healthy_monitor = snd (probe (one_wan True) (\<lambda>_. healthy_obs) 5 fresh_monitor)"

lemma disabled_wan_stays_primary_witness:
  "select_primary (snd (probe (one_wan False) (\<lambda>_. healthy_obs) 6 healthy_monitor)) = Some ''wan1''"
proof -
  have "select_primary healthy_monitor = Some ''wan1''" by code_simp
  moreover have "list_all (\<lambda>(_, wan). \<not> on_by_default ''enabled'' (obj_of wan))
      (sub ''wans'' (one_wan False))" by code_simp
  ultimately show ?thesis by (intro disabled_wan_stays_primary)
qed

text \<open>A WAN counts as up exactly when its port has a link, it has an address and a gateway, and
  both the loss and the latency that were measured lie below their thresholds. Where ICMP is
  filtered a TCP handshake counts instead, so total ICMP loss alone never makes a WAN lose its
  internet state.\<close>

theorem up_iff_usable:
  "(wan_state health obs = ''up'' \<longleftrightarrow>
     ob_link obs \<and> ob_addresses obs \<noteq> [] \<and> has_gateway obs \<and>
     (case measure_wan health obs of (latency, loss) \<Rightarrow>
        the_default 0 loss < min 100 (num_or 40 ''loss_threshold'' health) \<and>
        the_default 0 latency < num_or 400 ''latency_threshold_ms'' health)) \<and>
   (wan_state health obs = ''no-internet'' \<longleftrightarrow>
     ob_link obs \<and> ob_addresses obs \<noteq> [] \<and>
     (\<not> has_gateway obs \<or> (on_by_default ''enabled'' health \<and> ob_tcp obs = None \<and>
        100 \<le> the_default 0 (snd (ob_icmp obs)))))"
  by (auto simp: wan_state_def measure_wan_def internet_ok_def Let_def the_default_def
      split: prod.splits if_splits option.splits)

end
