(* ===== verification/Events.thy ===== *)
theory Events
  imports Doc ConfigStore
begin

text \<open>
  The event bus of \<open>events.py\<close>: severities, suppression of repeated events, the bounded history in the
  database, the recent events kept in memory, fan-out to the subscribers, and the history query.
  A callback is a number; what it does with an event does not reach the bus, so the bus only records
  which callback was handed which event. The matching of SQL's \<open>LIKE\<close> is a parameter.
\<close>

subsection \<open>Events\<close>

definition SEVERITIES :: "string list" where
  "SEVERITIES = [''debug'', ''info'', ''notice'', ''warning'', ''error'', ''critical'']"

definition EVENT_SEVERITY :: "(string \<times> string) list" where
  "EVENT_SEVERITY =
     [(''WAN_UP'', ''notice''), (''WAN_DOWN'', ''error''), (''WAN_DEGRADED'', ''warning''),
      (''WAN_ACQUIRING'', ''info''), (''WAN_NO_INTERNET'', ''warning''),
      (''PORT_UP'', ''info''), (''PORT_DOWN'', ''warning''),
      (''VPN_UP'', ''notice''), (''VPN_DOWN'', ''warning''),
      (''BGP_UP'', ''notice''), (''BGP_DOWN'', ''error''),
      (''OSPF_UP'', ''notice''), (''OSPF_DOWN'', ''error''),
      (''CONFIG_COMMITTED'', ''info''), (''CONFIG_ROLLED_BACK'', ''error''),
      (''IDS_ALERT'', ''warning''), (''IPS_BLOCK'', ''warning''),
      (''THERMAL_WARNING'', ''warning''), (''THERMAL_CRITICAL'', ''critical''),
      (''FIRMWARE_UPDATE'', ''notice''),
      (''DHCP_LEASE'', ''debug''), (''DHCP_FAILED'', ''error''),
      (''RADIO_UP'', ''info''), (''RADIO_DOWN'', ''error''), (''RADIO_RECOVERED'', ''notice''),
      (''SSID_UP'', ''info''), (''SSID_DOWN'', ''warning''),
      (''CLIENT_ASSOCIATED'', ''info''), (''CLIENT_AUTHENTICATED'', ''debug''),
      (''CLIENT_DISCONNECTED'', ''info''), (''CLIENT_ROAMED'', ''info''),
      (''AUTH_FAILED'', ''warning''), (''RADIUS_FAILED'', ''error''),
      (''DFS_CAC_STARTED'', ''info''), (''DFS_CAC_COMPLETED'', ''info''), (''DFS_RADAR'', ''warning''),
      (''CHANNEL_CHANGED'', ''notice''),
      (''MLO_CLIENT_CONNECTED'', ''info''), (''MLO_LINK_ADDED'', ''info''),
      (''MLO_LINK_REMOVED'', ''warning''), (''MLO_RECOVERY'', ''warning''),
      (''RADIO_FW_CRASH'', ''critical''), (''RADIO_FW_RECOVERED'', ''notice'')]"

text \<open>\<open>str.title\<close> for ASCII text: a letter that follows a letter is lowered, any other is raised.\<close>

definition ascii_letter :: "char \<Rightarrow> bool" where
  "ascii_letter c \<longleftrightarrow> is_lower_ascii c \<or> is_upper_ascii c"

fun title_from :: "bool \<Rightarrow> string \<Rightarrow> string" where
  "title_from inside [] = []"
| "title_from inside (c # s) =
     (if is_upper_ascii c \<and> inside then chr (code c + 32)
      else if is_lower_ascii c \<and> \<not> inside then chr (code c - 32) else c) # title_from (ascii_letter c) s"

definition DESCRIBE_KEYS :: "string list" where
  "DESCRIBE_KEYS = [''port'', ''radio'', ''wan'', ''ssid'', ''client'', ''mld'', ''link'', ''channel'',
     ''reason'', ''reason_code'', ''status_code'', ''detail'']"

text \<open>\<open>_describe\<close>: the message of an event that came without one.\<close>

definition describe :: "string \<Rightarrow> obj \<Rightarrow> string" where
  "describe kind data =
     (let parts = map (\<lambda>key. key @ ''='' @ text_of (get_null key data))
            (filter (\<lambda>key. get_null key data \<noteq> JNull) DESCRIBE_KEYS)
      in title_from False (py_replace_char CHR ''_'' CHR '' '' kind) @
         (if parts = [] then [] else '' ('' @ py_join '', '' parts @ '')''))"

subsection \<open>The bus\<close>

record event =
  ev_id :: nat
  ev_ts :: time
  ev_kind :: string
  ev_severity :: string
  ev_subsystem :: string
  ev_message :: string
  ev_data :: obj

text \<open>The rows of the table, newest first; every row has the column \<open>count\<close> at its default 1, because
  no statement sets it. The recent events are oldest first.\<close>

record event_bus =
  eb_retain :: nat
  eb_rows :: "event list"
  eb_next :: nat
  eb_recent :: "event list"
  eb_dedup :: "(string \<times> time \<times> nat) list"
  eb_subscribers :: "nat list"
  eb_delivered :: "(nat \<times> event) list"

definition new_bus :: "nat \<Rightarrow> event_bus" where
  "new_bus retain = \<lparr>eb_retain = retain, eb_rows = [], eb_next = 1, eb_recent = [], eb_dedup = [],
     eb_subscribers = [], eb_delivered = []\<rparr>"

definition subscribe :: "nat \<Rightarrow> event_bus \<Rightarrow> event_bus" where
  "subscribe callback b = b\<lparr>eb_subscribers := eb_subscribers b @ [callback]\<rparr>"

definition unsubscribe :: "nat \<Rightarrow> event_bus \<Rightarrow> event_bus" where
  "unsubscribe callback b = b\<lparr>eb_subscribers := remove1 callback (eb_subscribers b)\<rparr>"

record emission =
  em_kind :: string
  em_severity :: "string option"
  em_data :: obj
  em_subsystem :: string
  em_message :: string
  em_key :: "string option"
  em_window :: time

text \<open>The severity of an emission: the one given, else the default of its kind; anything unknown counts
  as \<open>info\<close>.\<close>

definition severity_of :: "emission \<Rightarrow> string" where
  "severity_of e =
     (let given = the_default [] (em_severity e);
          severity = (if given \<noteq> [] then given
            else the_default ''info'' (map_of EVENT_SEVERITY (em_kind e)))
      in if severity \<in> set SEVERITIES then severity else ''info'')"

text \<open>The first event of a key opens a window; another one inside it is only counted.\<close>

definition suppressed :: "emission \<Rightarrow> time \<Rightarrow> event_bus \<Rightarrow> event_bus option" where
  "suppressed e ts b = (case em_key e of None \<Rightarrow> None | Some key \<Rightarrow>
     if key = [] then None else
     case map_of (eb_dedup b) key of None \<Rightarrow> None | Some (first, n) \<Rightarrow>
       if ts - first < em_window e
       then Some (b\<lparr>eb_dedup := AList.update key (first, n + 1) (eb_dedup b)\<rparr>) else None)"

definition open_window :: "emission \<Rightarrow> time \<Rightarrow> event_bus \<Rightarrow> event_bus" where
  "open_window e ts b = (case em_key e of None \<Rightarrow> b | Some key \<Rightarrow>
     if key = [] then b else b\<lparr>eb_dedup := AList.update key (ts, 1) (eb_dedup b)\<rparr>)"

definition event_of :: "emission \<Rightarrow> time \<Rightarrow> nat \<Rightarrow> event" where
  "event_of e ts n =
     \<lparr>ev_id = n, ev_ts = ts, ev_kind = em_kind e, ev_severity = severity_of e,
      ev_subsystem = em_subsystem e,
      ev_message = (if em_message e \<noteq> [] then em_message e else describe (em_kind e) (em_data e)),
      ev_data = em_data e\<rparr>"

text \<open>The insert; every 500th row the oldest beyond \<open>retain\<close> are deleted.\<close>

definition store_event_row :: "event \<Rightarrow> event_bus \<Rightarrow> event_bus" where
  "store_event_row event b =
     (let rows = event # eb_rows b in
      b\<lparr>eb_rows := (if ev_id event mod 500 = 0 then take (eb_retain b) rows else rows),
        eb_next := Suc (eb_next b)\<rparr>)"

definition keep_last :: "nat \<Rightarrow> 'a list \<Rightarrow> 'a list" where
  "keep_last n xs = drop (length xs - n) xs"

lemma keep_last_length: "length (keep_last n xs) \<le> n"
  by (simp add: keep_last_def)

lemma keep_last_distinct: "distinct xs \<Longrightarrow> distinct (keep_last n xs)"
  by (simp add: keep_last_def)

definition emit :: "emission \<Rightarrow> time \<Rightarrow> event_bus \<Rightarrow> event option \<times> event_bus" where
  "emit e ts b =
     (case suppressed e ts b of
        Some b1 \<Rightarrow> (None, b1)
      | None \<Rightarrow>
          (let b1 = open_window e ts b; event = event_of e ts (eb_next b1);
               b2 = store_event_row event b1
           in (Some event, b2\<lparr>eb_recent := keep_last 200 (eb_recent b2 @ [event]),
                eb_delivered := eb_delivered b2 @ map (\<lambda>c. (c, event)) (eb_subscribers b2)\<rparr>)))"

subsection \<open>Reading\<close>

record query =
  qu_limit :: int
  qu_offset :: int
  qu_severities :: "string list"
  qu_kinds :: "string list"
  qu_subsystem :: string
  qu_since :: time
  qu_search :: string

text \<open>An absent filter is the empty list, the empty text or the time 0, which the code treats alike.
  \<open>like\<close> tells whether a row matches the pattern.\<close>

definition selects :: "(string \<Rightarrow> event \<Rightarrow> bool) \<Rightarrow> query \<Rightarrow> event \<Rightarrow> bool" where
  "selects like q r \<longleftrightarrow>
     (let sevs = filter (\<lambda>s. s \<in> set SEVERITIES) (qu_severities q)
      in (sevs = [] \<or> ev_severity r \<in> set sevs)) \<and>
     (qu_kinds q = [] \<or> ev_kind r \<in> set (qu_kinds q)) \<and>
     (qu_subsystem q = [] \<or> ev_subsystem r = qu_subsystem q) \<and>
     (qu_since q = 0 \<or> qu_since q \<le> ev_ts r) \<and>
     (qu_search q = [] \<or> like (''%'' @ qu_search q @ ''%'') r)"

text \<open>SQL: a negative limit is none, a negative offset is zero.\<close>

definition page :: "int \<Rightarrow> int \<Rightarrow> 'a list \<Rightarrow> 'a list" where
  "page limit offset rows =
     (let rest = drop (nat offset) rows in if limit < 0 then rest else take (nat limit) rest)"

definition query_events :: "(string \<Rightarrow> event \<Rightarrow> bool) \<Rightarrow> query \<Rightarrow> event_bus \<Rightarrow> event list" where
  "query_events like q b = page (qu_limit q) (qu_offset q) (filter (selects like q) (eb_rows b))"

text \<open>\<open>GROUP BY severity\<close>: a severity without a row is absent.\<close>

definition severity_counts :: "time \<Rightarrow> event_bus \<Rightarrow> (string \<times> nat) list" where
  "severity_counts since b =
     (let rows = filter (\<lambda>r. since = 0 \<or> since \<le> ev_ts r) (eb_rows b);
          sevs = sort (remdups (map ev_severity rows))
      in map (\<lambda>s. (s, length (filter (\<lambda>r. ev_severity r = s) rows))) sevs)"

subsection \<open>Any sequence of operations\<close>

datatype bus_op = Emit emission time | Subscribe nat | Unsubscribe nat

fun bus_step :: "bus_op \<Rightarrow> event_bus \<Rightarrow> event_bus" where
  "bus_step (Emit e ts) b = snd (emit e ts b)"
| "bus_step (Subscribe c) b = subscribe c b"
| "bus_step (Unsubscribe c) b = unsubscribe c b"

definition bus_after :: "nat \<Rightarrow> bus_op list \<Rightarrow> event_bus" where
  "bus_after retain ops = fold bus_step ops (new_bus retain)"

end
