(* ===== verification/EventSafety.thy ===== *)
theory EventSafety
  imports Events
begin

text \<open>
  What the history of events promises: how many rows it keeps and which, and what a suppressed
  repetition leaves behind.
\<close>

subsection \<open>The history\<close>

definition history_ok :: "event_bus \<Rightarrow> bool" where
  "history_ok b \<longleftrightarrow> 0 < eb_next b \<and> length (eb_rows b) < eb_next b \<and>
     map ev_id (eb_rows b) = rev [eb_next b - length (eb_rows b) ..< eb_next b] \<and>
     (eb_retain b \<le> length (eb_rows b) \<or> Suc (length (eb_rows b)) = eb_next b) \<and>
     length (eb_rows b) \<le> eb_retain b + (eb_next b - 1) mod 500 \<and>
     (\<forall>r \<in> set (eb_rows b). ev_severity r \<in> set SEVERITIES) \<and>
     length (eb_recent b) \<le> 200"

lemma severity_known: "severity_of e \<in> set SEVERITIES"
  by (simp add: severity_of_def SEVERITIES_def Let_def)

lemma take_rev_upt: "k \<le> n \<Longrightarrow> n \<le> m \<Longrightarrow> take k (rev [m - n ..< m]) = rev [m - k ..< m]"
  by (simp add: take_rev)

lemma store_history:
  assumes "history_ok b" and "ev_id event = eb_next b" and "ev_severity event \<in> set SEVERITIES"
  shows "history_ok (store_event_row event b)"
proof -
  let ?n = "eb_next b" and ?rows = "event # eb_rows b"
  let ?len = "Suc (length (eb_rows b))"
  have pos: "0 < ?n" "length (eb_rows b) < ?n" using assms(1) by (auto simp: history_ok_def)
  have "map ev_id ?rows = ?n # rev [?n - length (eb_rows b) ..< ?n]"
    using assms by (simp add: history_ok_def)
  also have "\<dots> = rev [Suc ?n - ?len ..< Suc ?n]" by simp
  finally have ids: "map ev_id ?rows = rev [Suc ?n - ?len ..< Suc ?n]" .
  have cut: "map ev_id (take k ?rows) = rev [Suc ?n - length (take k ?rows) ..< Suc ?n]" for k
  proof -
    have "map ev_id (take k ?rows) = take (min k (length ?rows)) (map ev_id ?rows)"
      by (cases "k \<le> length ?rows") (simp_all only: take_map min_absorb1 min_absorb2 take_all nat_le_linear length_map)
    also have "\<dots> = rev [Suc ?n - min k ?len ..< Suc ?n]"
      unfolding ids length_Cons using pos by (intro take_rev_upt) auto
    finally show ?thesis by (simp add: min.commute)
  qed
  have cutsev: "\<forall>r \<in> set (take k ?rows). ev_severity r \<in> set SEVERITIES" for k
    using assms(1,3) in_set_takeD [of _ k ?rows] by (fastforce simp: history_ok_def)
  have mods: "?n mod 500 \<noteq> 0 \<Longrightarrow> (?n - 1) mod 500 + 1 = ?n mod 500"
    using pos by (cases ?n) (auto simp: mod_Suc)
  have keep: "eb_retain b \<le> length (eb_rows b) \<or> ?len = ?n"
    and top: "length (eb_rows b) \<le> eb_retain b + (?n - 1) mod 500"
    and sev: "\<forall>r \<in> set ?rows. ev_severity r \<in> set SEVERITIES" and rec: "length (eb_recent b) \<le> 200"
    using assms by (auto simp: history_ok_def)
  show ?thesis
  proof (cases "?n mod 500 = 0")
    case True
    then have "store_event_row event b = b\<lparr>eb_rows := take (eb_retain b) ?rows, eb_next := Suc ?n\<rparr>"
      using assms(2) by (simp add: store_event_row_def)
    then show ?thesis
      using cut [of "eb_retain b"] cutsev [of "eb_retain b"] pos keep rec
      by (auto simp: history_ok_def min_def)
  next
    case False
    then have "store_event_row event b = b\<lparr>eb_rows := ?rows, eb_next := Suc ?n\<rparr>"
      using assms(2) by (simp add: store_event_row_def)
    then show ?thesis
      using ids pos keep top mods [OF False] sev rec by (auto simp: history_ok_def)
  qed
qed

lemma history_frame:
  assumes "eb_retain b' = eb_retain b" "eb_rows b' = eb_rows b" "eb_next b' = eb_next b"
    and "length (eb_recent b') \<le> 200"
  shows "history_ok b \<Longrightarrow> history_ok b'"
  using assms by (simp add: history_ok_def)

lemma emit_history: "history_ok b \<Longrightarrow> history_ok (snd (emit e ts b))"
proof (cases "suppressed e ts b")
  case (Some b1)
  moreover assume b: "history_ok b"
  ultimately show ?thesis
    using history_frame [OF _ _ _ _ b, of b1]
    by (auto simp: emit_def suppressed_def history_ok_def split: option.splits if_splits)
next
  case None
  assume b: "history_ok b"
  let ?b1 = "open_window e ts b"
  let ?b2 = "store_event_row (event_of e ts (eb_next ?b1)) ?b1"
  have "history_ok ?b1"
    using b by (intro history_frame [OF _ _ _ _ b])
      (auto simp: open_window_def history_ok_def split: option.splits)
  then have "history_ok ?b2"
    by (rule store_history) (simp_all add: event_of_def severity_known)
  then show ?thesis
    using None by (auto simp: emit_def Let_def keep_last_length intro: history_frame [rotated -1])
qed

lemma emit_retain [simp]: "eb_retain (snd (emit e ts b)) = eb_retain b"
  by (auto simp: emit_def suppressed_def open_window_def store_event_row_def Let_def
      split: option.splits)

lemma step_history: "history_ok b \<Longrightarrow> history_ok (bus_step op b)"
  by (cases op) (simp_all add: emit_history, simp_all add: subscribe_def unsubscribe_def history_ok_def)

lemma step_retain: "eb_retain (bus_step op b) = eb_retain b"
  by (cases op) (simp_all add: subscribe_def unsubscribe_def)

lemma history_after: "history_ok (bus_after retain ops) \<and> eb_retain (bus_after retain ops) = retain"
proof (induction ops rule: rev_induct)
  case (snoc op ops)
  then show ?case by (simp add: bus_after_def step_history step_retain)
qed (simp add: bus_after_def new_bus_def history_ok_def)

text \<open>Whatever is emitted and whoever subscribes: the history holds, newest first and without a gap,
  the latest events; at least \<open>retain\<close> of them once that many were stored, and never 500 more than
  that. Every row has one of the six severities, and at most 200 events are kept in memory.\<close>

theorem history_bounds:
  "let b = bus_after retain ops; n = length (eb_rows b) in
     map ev_id (eb_rows b) = rev [eb_next b - n ..< eb_next b] \<and>
     (retain \<le> n \<or> n = eb_next b - 1) \<and> n < retain + 500 \<and>
     ev_severity ` set (eb_rows b) \<subseteq> set SEVERITIES \<and> length (eb_recent b) \<le> 200"
proof -
  let ?b = "bus_after retain ops"
  have "(eb_next ?b - 1) mod 500 < 500" by simp
  moreover have "history_ok ?b" "eb_retain ?b = retain" by (simp_all add: history_after)
  ultimately have "length (eb_rows ?b) < retain + 500" unfolding history_ok_def by linarith
  with \<open>history_ok ?b\<close> \<open>eb_retain ?b = retain\<close> show ?thesis
    unfolding history_ok_def Let_def by auto
qed

subsection \<open>Repetitions\<close>

definition repeats :: "string \<Rightarrow> time \<Rightarrow> (emission \<times> time) list \<Rightarrow> bool" where
  "repeats key ts es \<longleftrightarrow> (\<forall>(e, t) \<in> set es. em_key e = Some key \<and> t - ts < em_window e)"

lemma repeat_step:
  assumes "map_of (eb_dedup b) key = Some (ts, n)" and "key \<noteq> []"
    and "em_key e = Some key" and "t - ts < em_window e"
  shows "emit e t b = (None, b\<lparr>eb_dedup := AList.update key (ts, n + 1) (eb_dedup b)\<rparr>)"
  using assms by (simp add: emit_def suppressed_def)

lemma repeats_fold:
  assumes "map_of (eb_dedup b) key = Some (ts, n)" and "key \<noteq> []" and "repeats key ts es"
  shows "\<exists>d. fold (\<lambda>(e, t) b. snd (emit e t b)) es b = b\<lparr>eb_dedup := d\<rparr> \<and>
    map_of d key = Some (ts, n + length es)"
  using assms
proof (induction es arbitrary: b n)
  case Nil
  then show ?case by (intro exI [of _ "eb_dedup b"]) simp
next
  case (Cons x es)
  obtain e t where x: "x = (e, t)" by fastforce
  let ?b = "b\<lparr>eb_dedup := AList.update key (ts, n + 1) (eb_dedup b)\<rparr>"
  have "map_of (eb_dedup ?b) key = Some (ts, n + 1)" by (simp add: update_conv)
  moreover have "repeats key ts es" using Cons.prems(3) by (simp add: repeats_def)
  ultimately obtain d where "fold (\<lambda>(e, t) b. snd (emit e t b)) es ?b = ?b\<lparr>eb_dedup := d\<rparr>"
    "map_of d key = Some (ts, n + 1 + length es)"
    using Cons.IH Cons.prems(2) by blast
  moreover have "emit e t b = (None, ?b)"
    using Cons.prems x by (intro repeat_step) (auto simp: repeats_def)
  ultimately show ?case unfolding x by (intro exI [of _ d]) simp
qed

lemma emit_opens:
  assumes "emit e ts b = (Some event, b1)" and "em_key e = Some key" and "key \<noteq> []"
  shows "map_of (eb_dedup b1) key = Some (ts, 1)"
  using assms by (auto simp: emit_def open_window_def store_event_row_def Let_def update_conv
      split: option.splits)

text \<open>An event with a key opens a window: every later event with that key inside the window is
  swallowed whatever its own content. The history, the recent events and the subscribers see none of
  them, and their number is only kept in memory, in no row of the history.\<close>

theorem repeats_only_counted:
  assumes "emit e ts b = (Some event, b1)" and "em_key e = Some key" and "key \<noteq> []"
    and "repeats key ts es"
  shows "let b2 = fold (\<lambda>(e, t) b. snd (emit e t b)) es b1 in
    eb_rows b2 = eb_rows b1 \<and> eb_recent b2 = eb_recent b1 \<and> eb_delivered b2 = eb_delivered b1 \<and>
    eb_next b2 = eb_next b1 \<and> map_of (eb_dedup b2) key = Some (ts, 1 + length es)"
proof -
  obtain d where "fold (\<lambda>(e, t) b. snd (emit e t b)) es b1 = b1\<lparr>eb_dedup := d\<rparr>"
    "map_of d key = Some (ts, 1 + length es)"
    using repeats_fold [OF emit_opens [OF assms(1-3)] assms(3,4)] by blast
  then show ?thesis by simp
qed

definition port_flap :: "bool \<Rightarrow> emission" where
  "port_flap up = \<lparr>em_kind = if up then ''PORT_UP'' else ''PORT_DOWN'', em_severity = None,
     em_data = [(''port'', JStr ''eth3'')], em_subsystem = ''ethernet'', em_message = [],
     em_key = Some ''port-eth3'', em_window = 3\<rparr>"

lemma repeats_only_counted_witness:
  "let b1 = snd (emit (port_flap False) 10 (new_bus 100));
       b2 = fold (\<lambda>(e, t) b. snd (emit e t b)) [(port_flap True, 11), (port_flap False, 12)] b1 in
     map ev_kind (eb_rows b2) = [''PORT_DOWN''] \<and>
     map ev_message (eb_rows b2) = [''Port Down (port=eth3)''] \<and> map_of (eb_dedup b2) ''port-eth3'' = Some (10, 3)"
proof -
  obtain event b1 where e: "emit (port_flap False) 10 (new_bus 100) = (Some event, b1)"
  proof -
    have "fst (emit (port_flap False) 10 (new_bus 100)) \<noteq> None" by code_simp
    with that show thesis by (cases "emit (port_flap False) 10 (new_bus 100)") auto
  qed
  have rows: "map ev_kind (eb_rows b1) = [''PORT_DOWN''] \<and>
      map ev_message (eb_rows b1) = [''Port Down (port=eth3)'']"
  proof -
    have "map ev_kind (eb_rows (snd (emit (port_flap False) 10 (new_bus 100)))) = [''PORT_DOWN''] \<and>
      map ev_message (eb_rows (snd (emit (port_flap False) 10 (new_bus 100)))) = [''Port Down (port=eth3)'']"
      by code_simp
    with e show ?thesis by simp
  qed
  define es where "es = [(port_flap True, 11 :: time), (port_flap False, 12)]"
  have r: "repeats ''port-eth3'' 10 es" by (simp add: repeats_def port_flap_def es_def)
  have k: "em_key (port_flap False) = Some ''port-eth3''" by (simp add: port_flap_def)
  have b1: "snd (emit (port_flap False) 10 (new_bus 100)) = b1" by (simp add: e)
  have three: "Suc (Suc (Suc 0)) = 3" by simp
  have "1 + length es = 3" by (simp add: es_def)
  with repeats_only_counted [OF e k _ r] rows show ?thesis
    unfolding Let_def b1 es_def [symmetric] by (simp del: One_nat_def add: three)
qed

end
