(* ===== verification/Hostapd.thy ===== *)
theory Hostapd
  imports Doc RfChannels "HOL-Library.Product_Lexorder"
begin

text \<open>
  The hostapd configuration that \<open>adapters/hostapd.py\<close> renders for one radio: security keys, the choice
  and the geometry of the channel, one section per BSS. \<open>radio\<close> is the configured radio, \<open>caps\<close> what the
  driver reports, a BSS is the dictionary the wireless plan builds. A \<open>KeyError\<close> of a subscript or a
  failing \<open>int\<close> is an \<open>Inl\<close> result.
\<close>

subsection \<open>Security\<close>

definition key_mgmt_of :: "string \<Rightarrow> string list" where
  "key_mgmt_of mode =
     (if mode = ''wpa2'' then [''WPA-PSK''] else if mode = ''wpa2-wpa3'' then [''WPA-PSK'', ''SAE'']
      else if mode = ''wpa3'' then [''SAE''] else if mode = ''wpa2-enterprise'' then [''WPA-EAP'']
      else if mode = ''wpa3-enterprise'' then [''WPA-EAP-SHA256''] else [])"

definition FT_AKM :: "(string \<times> string) list" where
  "FT_AKM = [(''WPA-PSK'', ''FT-PSK''), (''SAE'', ''FT-SAE''), (''WPA-EAP'', ''FT-EAP''),
     (''WPA-EAP-SHA256'', ''FT-EAP'')]"

definition key_mgmt :: "obj \<Rightarrow> string list" where
  "key_mgmt security =
     (let base = key_mgmt_of (text_or ''wpa2-wpa3'' ''mode'' security)
      in base @ (if is_set ''fast_transition'' security
                 then List.map_filter (map_of FT_AKM) base else []))"

text \<open>\<open>dict.fromkeys\<close>: the first occurrence of each.\<close>

definition dedup :: "'a list \<Rightarrow> 'a list" where
  "dedup xs = rev (remdups (rev xs))"

definition psk_lines :: "obj \<Rightarrow> string \<Rightarrow> string list \<Rightarrow> string list" where
  "psk_lines security band akms =
     (let passphrase = text_or [] ''passphrase'' security in
      if \<not> (has_infix ''PSK'' (py_join '' '' akms) \<or> ''SAE'' \<in> set akms) then []
      else (if ''SAE'' \<in> set akms
            then [''sae_password='' @ passphrase, ''sae_require_mfp=1'',
                  if band \<noteq> ''6g'' then ''sae_pwe=2'' else ''sae_pwe=1''] else []) @
           (if ''WPA-PSK'' \<in> set akms then [''wpa_passphrase='' @ passphrase] else []))"

definition radius_lines :: "obj \<Rightarrow> string list" where
  "radius_lines r =
     [''ieee8021x=1'', ''auth_server_addr='' @ text_of (get_null ''auth_server'' r),
      ''auth_server_port='' @ text_of (get_or (JInt 1812) ''auth_port'' r),
      ''auth_server_shared_secret='' @ text_or [] ''auth_secret'' r] @
          (if is_set ''auth_server2'' r
           then [''auth_server_addr='' @ text_of (get_null ''auth_server2'' r),
            ''auth_server_port='' @ text_of (get_or (JInt 1812) ''auth_port2'' r),
            ''auth_server_shared_secret='' @ text_or [] ''auth_secret2'' r] else []) @
          (if is_set ''acct_server'' r
           then [''acct_server_addr='' @ text_of (get_null ''acct_server'' r),
                 ''acct_server_port='' @ text_of (get_or (JInt 1813) ''acct_port'' r),
                 ''acct_server_shared_secret='' @ text_or [] ''acct_secret'' r,
                 ''radius_acct_interim_interval='' @ text_of (get_or (JInt 600) ''interim_interval'' r)]
           else []) @
          (if is_set ''nas_identifier'' r
           then [''nas_identifier='' @ text_of (get_null ''nas_identifier'' r)] else []) @
          (if is_set ''dynamic_vlan'' r then [''dynamic_vlan=1'', ''vlan_naming=1''] else []) @
          (if is_set ''coa_secret'' r
           then [''radius_das_port=3799'',
                 ''radius_das_client='' @ text_or ''0.0.0.0/0'' ''coa_client'' r @ '' '' @
                   text_of (get_null ''coa_secret'' r),
                 ''radius_das_require_event_timestamp=1''] else [])"

definition PMF_VALUE :: "(string \<times> string) list" where
  "PMF_VALUE = [(''disabled'', ''0''), (''optional'', ''1''), (''required'', ''2'')]"

definition pmf_line :: "obj \<Rightarrow> verr + string" where
  "pmf_line security = (case map_of PMF_VALUE (text_or ''optional'' ''pmf'' security) of
     None \<Rightarrow> Inl (Raised KeyError) | Some v \<Rightarrow> Inr (''ieee80211w='' @ v))"

definition security_lines :: "obj \<Rightarrow> string \<Rightarrow> obj \<Rightarrow> bool \<Rightarrow> verr + string list" where
  "security_lines security band radius for_mlo =
     (let mode = text_or ''wpa2-wpa3'' ''mode'' security; akms = key_mgmt security in
      if mode = ''open''
      then Inr (if is_set ''owe'' security \<or> band = ''6g''
                then [''wpa=2'', ''wpa_key_mgmt=OWE'', ''rsn_pairwise=CCMP'', ''ieee80211w=2'']
                else [''wpa=0''])
      else rbind (pmf_line security) (\<lambda>pmf. Inr
             ([''wpa=2'', ''wpa_key_mgmt='' @ py_join '' '' (dedup akms)] @
              (if mode \<in> {''wpa3'', ''wpa3-enterprise''} \<or> for_mlo \<or> band = ''6g''
               then [''rsn_pairwise=CCMP GCMP-256'', ''group_cipher=CCMP''] else [''rsn_pairwise=CCMP'']) @
              [''wpa_pairwise=CCMP''] @ psk_lines security band akms @
              (if has_infix ''EAP'' (py_join '' '' akms) \<and> radius \<noteq> [] then radius_lines radius else []) @
              [pmf])))"

subsection \<open>Channels\<close>

definition CHANNEL_PREFERENCE :: "string \<Rightarrow> int list" where
  "CHANNEL_PREFERENCE band = the_default [] (map_of
     [(''2g'', [6, 1, 11]), (''5g'', [36, 149, 44, 157]), (''6g'', [37, 1, 5, 53])] band)"

definition EHT240_channels :: "int list" where
  "EHT240_channels = [100, 104, 108, 112, 116, 120, 124, 128, 132, 136, 140, 144]"

definition EHT240_primary :: int where "EHT240_primary = 100"
definition EHT240_eht_centre :: int where "EHT240_eht_centre = 130"
definition EHT240_he_centre :: int where "EHT240_he_centre = 114"
definition EHT240_punct_bitmap :: int where "EHT240_punct_bitmap = 61440"

text \<open>The channel number of an entry of \<open>channel_details\<close>, which the capability probe always sets.\<close>

definition detail_channel :: "obj \<Rightarrow> int" where
  "detail_channel d = (case get_null ''channel'' d of JInt n \<Rightarrow> n | _ \<Rightarrow> 0)"

definition usable_channels :: "obj \<Rightarrow> int list" where
  "usable_channels caps =
     (let details = map obj_of (arr ''channel_details'' caps);
          clear = filter (\<lambda>d. \<not> is_set ''disabled'' d \<and> \<not> is_set ''no_ir'' d \<and> \<not> is_set ''dfs'' d) details
      in map detail_channel (if clear = [] then filter (\<lambda>d. \<not> is_set ''disabled'' d) details else clear))"

definition default_channel :: "string \<Rightarrow> obj \<Rightarrow> int \<Rightarrow> int" where
  "default_channel band caps width =
     (if band = ''5g'' \<and> width = 240 then EHT240_primary
      else let usable = usable_channels caps in
        case find (\<lambda>c. c \<in> set usable) (CHANNEL_PREFERENCE band) of
          Some c \<Rightarrow> c
        | None \<Rightarrow> if usable \<noteq> [] then hd (sort usable)
                  else the_default 6 (map_of [(''2g'', 6), (''5g'', 36), (''6g'', 37)] band))"

definition SEG0_5G_BLOCKS :: "int \<Rightarrow> (int \<times> int) list" where
  "SEG0_5G_BLOCKS width = the_default [] (map_of
     [(80, [(36, 48), (52, 64), (100, 112), (116, 128), (132, 144), (149, 161)]),
      (160, [(36, 64), (100, 128)]), (240, [(36, 112), (100, 144)]), (320, [(36, 128)])] width)"

definition centre_channel :: "int \<Rightarrow> int \<Rightarrow> string \<Rightarrow> int option" where
  "centre_channel channel width band =
     (if width < 80 \<or> band = ''2g'' then None
      else if band = ''5g''
      then map_option (\<lambda>(low, high). (low + high) div 2)
             (find (\<lambda>(low, high). low \<le> channel \<and> channel \<le> high) (SEG0_5G_BLOCKS width))
      else (case map_of [(80, 4), (160, 8), (320, 16)] width of
          None \<Rightarrow> None
        | Some count \<Rightarrow>
            (let index = (channel - 1) div 4; start = (index div count) * count * 4 + 1
             in Some (start + (count - 1) * 2))))"

definition he_chwidth :: "int \<Rightarrow> int" where
  "he_chwidth width = the_default 0 (map_of [(20, 0), (40, 0), (80, 1), (160, 2), (240, 2), (320, 2)] width)"

definition eht_chwidth :: "int \<Rightarrow> int" where
  "eht_chwidth width = the_default 0 (map_of [(20, 0), (40, 0), (80, 1), (160, 2), (240, 9), (320, 9)] width)"

definition SIX_GHZ_POWER :: "(string \<times> int) list" where
  "SIX_GHZ_POWER = [(''lpi'', 0), (''sp'', 1), (''vlp'', 2)]"

definition SIX_GHZ_OP_CLASS :: "(int \<times> int) list" where
  "SIX_GHZ_OP_CLASS = [(20, 131), (40, 132), (80, 133), (160, 134), (240, 137), (320, 137)]"

definition COUNTRY3 :: "(string \<times> int) list" where
  "COUNTRY3 = [(''any'', 32), (''indoor'', 73), (''outdoor'', 79)]"

text \<open>\<open>f"{n:04X}"\<close> and \<open>f"{n:02X}"\<close> of a number that is not negative.\<close>

definition upper_hex :: "nat \<Rightarrow> int \<Rightarrow> string" where
  "upper_hex width n =
     (let s = map (\<lambda>c. if in_range 97 102 c then chr (code c - 32) else c) (show_hex n)
      in replicate (width - length s) CHR ''0'' @ s)"

text \<open>\<open>channel in ("auto", None, 0, "0")\<close>.\<close>

definition is_auto :: "json \<Rightarrow> bool" where
  "is_auto v = list_ex (py_eq v) [JStr ''auto'', JNull, JInt 0, JStr ''0'']"

definition assigned :: "string \<Rightarrow> string \<Rightarrow> string" where
  "assigned k v = k @ ''='' @ v"

definition assigned_int :: "string \<Rightarrow> int \<Rightarrow> string" where
  "assigned_int k n = assigned k (show_int n)"

definition when_some :: "string \<Rightarrow> int option \<Rightarrow> string list" where
  "when_some k v = (case v of None \<Rightarrow> [] | Some n \<Rightarrow> [assigned_int k n])"

subsection \<open>One radio\<close>

definition six_ghz_lines :: "obj \<Rightarrow> int \<Rightarrow> string list" where
  "six_ghz_lines radio width =
     [assigned_int ''op_class'' (the_default 131 (map_of SIX_GHZ_OP_CLASS width)),
      assigned_int ''he_6ghz_reg_pwr_type''
        (the_default 0 (map_of SIX_GHZ_POWER (text_or ''lpi'' ''six_ghz_power'' radio)))]"

text \<open>The centre indices for HE and for EHT.\<close>

definition segments :: "int \<Rightarrow> int \<Rightarrow> string \<Rightarrow> int option \<times> int option" where
  "segments channel width band =
     (if band = ''5g'' \<and> width = 240 then (Some EHT240_he_centre, Some EHT240_eht_centre)
      else (centre_channel channel (min width 160) band,
            centre_channel channel (if width \<in> {240, 320} then 320 else width) band))"

definition ht_vht_lines :: "obj \<Rightarrow> string \<Rightarrow> int \<Rightarrow> int option \<Rightarrow> string list" where
  "ht_vht_lines caps band width seg_he =
     (if band = ''6g'' then [] else
      (if is_set ''ht'' caps
       then [''ieee80211n=1'',
             if 40 \<le> width then ''ht_capab=[HT40+][SHORT-GI-20][SHORT-GI-40][TX-STBC][RX-STBC1]''
             else ''ht_capab=[SHORT-GI-20]''] @ (if 40 \<le> width then [''noscan=1''] else [])
       else []) @
      (if is_set ''vht'' caps \<and> band \<noteq> ''2g''
       then [''ieee80211ac=1'', assigned_int ''vht_oper_chwidth'' (he_chwidth width)] @
            when_some ''vht_oper_centr_freq_seg0_idx'' seg_he
       else []))"

definition he_lines :: "obj \<Rightarrow> obj \<Rightarrow> string \<Rightarrow> int \<Rightarrow> int option \<Rightarrow> string list" where
  "he_lines radio caps band width seg_he =
     (if \<not> is_set ''he'' caps then [] else
      [''ieee80211ax=1''] @
      (if band \<noteq> ''2g'' then [assigned_int ''he_oper_chwidth'' (he_chwidth width)] @
         when_some ''he_oper_centr_freq_seg0_idx'' seg_he else []) @
      [''he_su_beamformer=1'', ''he_su_beamformee=1'', ''he_mu_beamformer=1''] @
      (if get_null ''bss_color'' radio \<noteq> JNull
       then [assigned ''he_bss_color'' (text_of (get_null ''bss_color'' radio))] else []))"

definition is_unset :: "json \<Rightarrow> bool" where
  "is_unset v \<longleftrightarrow> v = JNull \<or> v = JStr ''auto''"

definition punct_lines :: "obj \<Rightarrow> int \<Rightarrow> verr + string list" where
  "punct_lines radio width =
     (let v = get_null ''punct_bitmap'' radio in
      if width = 240
      then rbind (if is_unset v then Inr EHT240_punct_bitmap else py_int v) (\<lambda>n.
             Inr [assigned ''punct_bitmap'' (''0x'' @ upper_hex 4 n)])
      else if is_unset v then Inr [] else rbind (py_int v) (\<lambda>n. Inr [assigned_int ''punct_bitmap'' n]))"

definition eht_lines :: "obj \<Rightarrow> obj \<Rightarrow> string \<Rightarrow> int \<Rightarrow> int option \<Rightarrow> verr + string list" where
  "eht_lines radio caps band width seg_eht =
     (if \<not> is_set ''eht'' caps then Inr [] else
      rbind (punct_lines radio width) (\<lambda>punct. Inr
        ([''ieee80211be=1''] @
         (if band \<noteq> ''2g'' then [assigned_int ''eht_oper_chwidth'' (eht_chwidth width)] @
            when_some ''eht_oper_centr_freq_seg0_idx'' seg_eht else []) @
         [''eht_su_beamformer=1'', ''eht_su_beamformee=1''] @ punct)))"

definition radio_tail :: "obj \<Rightarrow> string \<Rightarrow> string list" where
  "radio_tail radio band =
     (if \<not> is_unset (get_null ''tx_power'' radio)
      then [''# tx_power='' @ text_of (get_null ''tx_power'' radio) @ '' dBm applied via nl80211''] else []) @
     (if band = ''5g'' \<and> on_by_default ''dfs'' radio then [''ieee80211h=1''] else []) @
     concat (map (\<lambda>(k, out). if is_set k radio then [assigned out (text_of (get_null k radio))] else [])
       [(''beacon_interval'', ''beacon_int''), (''dtim'', ''dtim_period''), (''rts_threshold'', ''rts_threshold'')])"

definition AUTO_COMMENT :: string where
  "AUTO_COMMENT = ''# channel chosen by the gateway (hostapd ACS does not complete on this driver)''"

text \<open>The channel a radio runs on: the configured one, or one chosen for it.\<close>

definition run_channel :: "obj \<Rightarrow> obj \<Rightarrow> string \<Rightarrow> int \<Rightarrow> json" where
  "run_channel radio caps band width =
     (let configured = get_or (JStr ''auto'') ''channel'' radio
      in if is_auto configured then JInt (default_channel band caps width) else configured)"

definition band_lines :: "obj \<Rightarrow> obj \<Rightarrow> verr + string list" where
  "band_lines radio caps =
     (let band = text_or ''5g'' ''band'' radio in
      rbind (py_int (get_or (JInt 20) ''channel_width'' radio)) (\<lambda>width.
      let channel = run_channel radio caps band width in
      rbind (if band = ''5g'' \<and> width = 240 then Inr 0 else py_int channel) (\<lambda>c.
      let (seg_he, seg_eht) = segments c width band in
      rbind (eht_lines radio caps band width seg_eht) (\<lambda>eht. Inr
        ([if band = ''2g'' then ''hw_mode=g'' else ''hw_mode=a''] @
         (if band = ''6g'' then six_ghz_lines radio width else []) @
         (if is_auto (get_or (JStr ''auto'') ''channel'' radio) then [AUTO_COMMENT] else []) @
         [assigned ''channel'' (text_of channel)] @
         ht_vht_lines caps band width seg_he @ he_lines radio caps band width seg_he @ eht @
         radio_tail radio band)))))"

subsection \<open>One BSS\<close>

definition HOSTAPD_CTRL_DIR :: string where "HOSTAPD_CTRL_DIR = ''/run/sbegw/hostapd/ctrl''"

definition bool_digit :: "bool \<Rightarrow> string" where
  "bool_digit b = (if b then ''1'' else ''0'')"

definition identity_lines :: "obj \<Rightarrow> bool \<Rightarrow> verr + string list" where
  "identity_lines bss is_first =
     rbind (if is_set ''netdev'' bss then Inr (text_of (get_null ''netdev'' bss))
            else need_text ''interface'' bss) (\<lambda>netdev.
     rbind (need_text ''ssid'' bss) (\<lambda>ssid. Inr
       ([assigned (if is_first then ''interface'' else ''bss'') netdev,
         assigned ''ctrl_interface'' HOSTAPD_CTRL_DIR] @
        (if is_set ''bssid'' bss then [assigned ''bssid'' (text_of (get_null ''bssid'' bss))] else []) @
        [assigned ''ssid'' ssid,
         assigned ''ignore_broadcast_ssid'' (bool_digit (is_set ''hidden'' bss))] @
        (if is_set ''bridge'' bss then [assigned ''bridge'' (text_of (get_null ''bridge'' bss))] else []) @
        (if is_set ''vlan'' bss \<and> is_set ''vlan_parent'' bss
         then [assigned ''vlan_tagged_interface'' (text_of (get_null ''vlan_parent'' bss))] else []) @
        [assigned ''ap_isolate'' (bool_digit (is_set ''client_isolation'' bss))] @
        (if is_set ''max_clients'' bss
         then [assigned ''max_num_sta'' (text_of (get_null ''max_clients'' bss))] else []) @
        (if get_null ''min_rssi'' bss \<noteq> JNull
         then [assigned ''rssi_reject_assoc_rssi'' (text_of (get_null ''min_rssi'' bss)),
               ''rssi_reject_assoc_timeout=5''] else []))))"

definition remove_char :: "char \<Rightarrow> string \<Rightarrow> string" where
  "remove_char c s = filter (\<lambda>x. x \<noteq> c) s"

definition roaming_lines :: "obj \<Rightarrow> string list" where
  "roaming_lines bss =
     (if on_by_default ''neighbor_report'' bss then [''rrm_neighbor_report=1'', ''rrm_beacon_report=1''] else []) @
     (if on_by_default ''bss_transition'' bss then [''bss_transition=1''] else []) @
     (if is_set ''fast_roaming'' bss
      then [assigned ''mobility_domain'' (text_or ''1234'' ''mobility_domain'' bss), ''ft_over_ds=0'',
            ''pmk_r1_push=1'', ''ft_psk_generate_local=1'', ''r0_key_lifetime=600''] @
           (if is_set ''radius_profile'' (sub ''security'' bss) then []
            else [assigned ''nas_identifier'' (remove_char CHR '':''
                    (if is_set ''bssid'' bss then text_of (get_null ''bssid'' bss) else ''sbe1v1k''))])
      else [])"

text \<open>The access list: the file has to be named by \<open>mac_filter_file\<close>.\<close>

definition acl_lines :: "obj \<Rightarrow> string list" where
  "acl_lines bss =
     (if is_set ''radius_mac_auth'' bss then [''macaddr_acl=2'']
      else if is_set ''mac_filter'' bss \<and> is_set ''mac_filter_file'' bss
      then let allow = (get_null ''mac_filter_policy'' bss = JStr ''allow'') in
           [assigned ''macaddr_acl'' (bool_digit allow),
            assigned (if allow then ''accept_mac_file'' else ''deny_mac_file'')
              (text_of (get_null ''mac_filter_file'' bss))]
      else [])"

definition feature_lines :: "obj \<Rightarrow> string list" where
  "feature_lines bss =
     (if on_by_default ''wmm'' bss then [''wmm_enabled=1''] else []) @
     (if is_set ''multicast_to_unicast'' bss then [''multicast_to_unicast=1''] else []) @
     (if is_set ''proxy_arp'' bss then [''proxy_arp=1''] else []) @
     (if is_set ''uapsd'' bss then [''uapsd_advertisement_enabled=1''] else []) @
     (if \<not> on_by_default ''auto_dtim'' bss
      then [assigned ''dtim_period'' (text_of (get_or (JInt 2) ''dtim_period'' bss))] else []) @
     (if is_set ''group_rekey_interval'' bss
      then [assigned ''wpa_group_rekey'' (text_of (get_or (JInt 3600) ''group_rekey_seconds'' bss))] else []) @
     (if is_set ''multicast_broadcast_blocker'' bss then [''disable_dgaf=1''] else [])"

definition mld_lines :: "obj \<Rightarrow> verr + string list" where
  "mld_lines bss = (if \<not> is_set ''mld'' bss then Inr [] else
     rbind (need_text ''mld_mac'' (sub ''mld'' bss)) (\<lambda>mac. Inr [''mld_ap=1'', assigned ''mld_addr'' mac]))"

definition bss_lines :: "obj \<Rightarrow> obj \<Rightarrow> obj \<Rightarrow> bool \<Rightarrow> verr + string list" where
  "bss_lines bss radio radius is_first =
     rbind (identity_lines bss is_first) (\<lambda>ident.
     rbind (security_lines (sub ''security'' bss) (text_or ''5g'' ''band'' radio) radius
              (is_set ''mld'' bss)) (\<lambda>sec.
     rbind (mld_lines bss) (\<lambda>mld.
       Inr (ident @ sec @ roaming_lines bss @ feature_lines bss @ acl_lines bss @ mld))))"

subsection \<open>The file\<close>

definition config_head :: "obj \<Rightarrow> string \<Rightarrow> string \<Rightarrow> string list" where
  "config_head radio country environment =
     [''# generated by sbegw wifid for radio '' @ text_of (get_null ''id'' radio) @ '' ('' @
        text_of (get_null ''band'' radio) @ '') '' @ map chr [226, 128, 148] @ '' do not edit'',
      ''driver=nl80211'', assigned ''country_code'' country,
      ''country3=0x'' @ upper_hex 2 (the_default 73 (map_of COUNTRY3 environment)),
      ''ieee80211d=1'', ''logger_syslog=-1'', ''logger_syslog_level=3'', ''logger_stdout=-1'',
      ''logger_stdout_level=2'']"

definition radius_of :: "obj \<Rightarrow> obj \<Rightarrow> obj" where
  "radius_of profiles bss =
     (let name = (if is_set ''radius_profile'' (sub ''security'' bss)
                  then text_of (get_null ''radius_profile'' (sub ''security'' bss)) else [])
      in sub name profiles)"

definition bss_sections :: "obj \<Rightarrow> obj \<Rightarrow> obj list \<Rightarrow> verr + string list" where
  "bss_sections radio profiles bsses =
     rconcat (rmap (\<lambda>(i, bss). rbind (bss_lines bss radio (radius_of profiles bss) (i = 0))
         (\<lambda>ls. Inr ([] # ls))) (zip [0..<length bsses] bsses))"

definition link_config_lines :: "obj \<Rightarrow> obj \<Rightarrow> obj list \<Rightarrow> string \<Rightarrow> obj \<Rightarrow> obj \<Rightarrow> verr + string list" where
  "link_config_lines radio caps bsses country profiles regulatory =
     rbind (band_lines radio caps) (\<lambda>band.
     rbind (bss_sections radio profiles bsses) (\<lambda>sections.
       Inr (config_head radio country (text_or ''indoor'' ''environment'' regulatory) @ band @ sections)))"

definition render_link_config :: "obj \<Rightarrow> obj \<Rightarrow> obj list \<Rightarrow> string \<Rightarrow> obj \<Rightarrow> obj \<Rightarrow> verr + string" where
  "render_link_config radio caps bsses country profiles regulatory =
     rbind (link_config_lines radio caps bsses country profiles regulatory)
       (\<lambda>ls. Inr (py_join [newline] ls @ [newline]))"

text \<open>The configuration directory as a map from paths to contents, files of other names aside.
  Result: the paths in link order, whether anything changed, and the directory afterwards.\<close>

definition HOSTAPD_CONF_DIR :: string where "HOSTAPD_CONF_DIR = ''/run/sbegw/hostapd/conf''"

definition conf_path :: "string \<Rightarrow> string" where
  "conf_path name = HOSTAPD_CONF_DIR @ ''/'' @ name @ ''.conf''"

type_synonym conf_dir = "(string \<times> string) list"

text \<open>\<open>write_atomic\<close>: nothing is written when the content is the same.\<close>

definition write_atomic :: "string \<Rightarrow> string \<Rightarrow> conf_dir \<Rightarrow> bool \<times> conf_dir" where
  "write_atomic path content d =
     (if map_of d path = Some content then (False, d) else (True, AList.update path content d))"

definition write_configs :: "(string \<times> string) list \<Rightarrow> conf_dir \<Rightarrow> (string list \<times> bool) \<times> conf_dir" where
  "write_configs configs d =
     (let (changed, d1) = fold (\<lambda>(name, body) (changed, d).
            case write_atomic (conf_path name) body d of (c, d') \<Rightarrow> (changed \<or> c, d')) configs (False, d);
          paths = map (\<lambda>(name, _). conf_path name) configs;
          d2 = filter (\<lambda>(path, _). path \<in> set paths) d1
      in ((paths, changed \<or> d2 \<noteq> d1), d2))"

end
