(* ===== verification/HostapdSafety.thy ===== *)
theory HostapdSafety
  imports Hostapd SchemaSound
begin

text \<open>
  What the rendered hostapd configuration guarantees: the security of networks on 6 GHz, the geometry
  of wide channels against the tables of \<open>rf.py\<close>, the contents of the configuration directory, and
  two gaps: 240 MHz channels and line breaks in an SSID.
\<close>

subsection \<open>Security\<close>

definition wpa3_akms :: "string set" where
  "wpa3_akms = {''SAE'', ''FT-SAE'', ''WPA-EAP-SHA256'', ''FT-EAP'', ''OWE''}"

lemma get_null_dset_other: "k \<noteq> k' \<Longrightarrow> get_null k (dset k' v d) = get_null k d"
  by (simp add: get_null_def get_or_def map_of_dset)

lemma text_or_JStr: "get_null k d = JStr s \<Longrightarrow> text_or x k d = s"
  by (auto simp: text_or_def get_null_def get_or_def text_of_def the_default_def split: option.splits)

lemma set_dedup [simp]: "set (dedup xs) = set xs"
  by (simp add: dedup_def)

lemma key_mgmt_wpa3:
  assumes "text_or ''wpa2-wpa3'' ''mode'' sec \<in> {''wpa3'', ''wpa3-enterprise''}"
  shows "set (key_mgmt sec) \<subseteq> wpa3_akms \<and> key_mgmt sec \<noteq> [] \<and> ''WPA-PSK'' \<notin> set (key_mgmt sec)"
  using assms by (auto simp: key_mgmt_def key_mgmt_of_def FT_AKM_def wpa3_akms_def List.map_filter_def)

lemma dedup_not_Nil: "xs \<noteq> [] \<Longrightarrow> dedup xs \<noteq> []"
  by (simp add: dedup_def)

lemma no_passphrase:
  assumes "''WPA-PSK'' \<notin> set akms"
  shows "assigned ''wpa_passphrase'' p \<notin> set (psk_lines sec band akms)"
  using assms by (auto simp: psk_lines_def assigned_def Let_def)

lemma no_passphrase_radius: "assigned ''wpa_passphrase'' p \<notin> set (radius_lines r)"
  by (auto simp: radius_lines_def assigned_def)

text \<open>C22. A wireless network on 6 GHz is protected on every band it uses: whatever the roaming flag, the
  RADIUS profile and the MLO binding, its hostapd section is rendered without an error, requires
  protected management frames, offers only WPA3 key management (SAE, SHA-256 EAP, OWE) and no
  pre-shared key.\<close>

theorem six_ghz_section_secure:
  assumes "validate caps (JObj cfg) = Inr (JObj out, w)"
    and "(wnid, wnet) \<in> set (sub_objects ''networks'' (get_null ''wifi'' out))"
    and "''6g'' \<in> set (bands_of (obj_of wnet))"
  shows "\<exists>ls akms. security_lines (dset ''fast_transition'' ft (security_of wnet)) band radius mlo = Inr ls \<and>
    ''wpa=2'' \<in> set ls \<and> ''ieee80211w=2'' \<in> set ls \<and>
    assigned ''wpa_key_mgmt'' (py_join '' '' akms) \<in> set ls \<and> akms \<noteq> [] \<and> set akms \<subseteq> wpa3_akms \<and>
    (\<forall>p. assigned ''wpa_passphrase'' p \<notin> set ls)"
proof -
  let ?sec = "dset ''fast_transition'' ft (security_of wnet)"
  have "wnet_ok caps wnet" using accepted_wnet_ok [OF assms(1)] assms(2) by (auto simp: list_all_iff)
  with assms(3) have six: "six_ghz_secure (security_of wnet)" by (simp add: wnet_ok_def Let_def)
  have same: "get_null k ?sec = get_null k (security_of wnet)" if "k \<noteq> ''fast_transition''" for k
    using that by (simp add: get_null_dset_other)
  from six obtain mode where m: "get_null ''mode'' ?sec = JStr mode"
    "mode \<in> {''wpa3'', ''wpa3-enterprise'', ''open''}"
    by (auto simp: same six_ghz_secure_def enum_at_def split: json.splits)
  have pmf: "text_or ''optional'' ''pmf'' ?sec = ''required''"
    using six by (intro text_or_JStr) (simp add: same six_ghz_secure_def)
  have mode: "text_or ''wpa2-wpa3'' ''mode'' ?sec = mode" using m(1) by (rule text_or_JStr)
  show ?thesis
  proof (cases "mode = ''open''")
    case True
    have "is_set ''owe'' ?sec" using six m True by (simp add: is_set_def same six_ghz_secure_def)
    then have "security_lines ?sec band radius mlo =
        Inr [''wpa=2'', ''wpa_key_mgmt=OWE'', ''rsn_pairwise=CCMP'', ''ieee80211w=2'']"
      by (simp add: security_lines_def mode True Let_def)
    then show ?thesis
      by - (rule exI [of _ "[''wpa=2'', ''wpa_key_mgmt=OWE'', ''rsn_pairwise=CCMP'', ''ieee80211w=2'']"],
          rule exI [of _ "[''OWE'']"], simp add: assigned_def wpa3_akms_def)
  next
    case False
    with m have m3: "mode \<in> {''wpa3'', ''wpa3-enterprise''}" by blast
    note akms = key_mgmt_wpa3 [of ?sec, unfolded mode, OF m3]
    let ?akms = "dedup (key_mgmt ?sec)"
    let ?eap = "if has_infix ''EAP'' (py_join '' '' (key_mgmt ?sec)) \<and> radius \<noteq> [] then radius_lines radius else []"
    let ?ls = "[''wpa=2'', assigned ''wpa_key_mgmt'' (py_join '' '' ?akms), ''rsn_pairwise=CCMP GCMP-256'',
        ''group_cipher=CCMP'', ''wpa_pairwise=CCMP''] @ psk_lines ?sec band (key_mgmt ?sec) @ ?eap @
        [''ieee80211w=2'']"
    have "security_lines ?sec band radius mlo = Inr ?ls"
      using m3 False pmf by (simp add: security_lines_def mode pmf_line_def PMF_VALUE_def assigned_def Let_def)
    moreover have "assigned ''wpa_passphrase'' p \<notin> set ?ls" for p
      using akms no_passphrase [of "key_mgmt ?sec" p ?sec band] no_passphrase_radius [of p radius]
      by (auto simp: assigned_def)
    ultimately show ?thesis
      using akms dedup_not_Nil [of "key_mgmt ?sec"] by - (rule exI [of _ ?ls], rule exI [of _ ?akms], simp)
  qed
qed

lemma six_ghz_section_secure_witness:
  "\<exists>wnet ls akms. (''home'', wnet) \<in> set (sub_objects ''networks'' (get_null ''wifi'' sample_result)) \<and>
    security_lines (dset ''fast_transition'' (JBool True) (security_of wnet)) ''5g'' [] True = Inr ls \<and>
    ''ieee80211w=2'' \<in> set ls \<and> assigned ''wpa_key_mgmt'' (py_join '' '' akms) \<in> set ls \<and> set akms \<subseteq> wpa3_akms"
proof -
  obtain w where v: "validate sample_caps (JObj sample_config) = Inr (JObj sample_result, w)"
    using sample_accepted by blast
  have "list_ex (\<lambda>(wnid, wnet). wnid = ''home'' \<and> ''6g'' \<in> set (bands_of (obj_of wnet)))
      (sub_objects ''networks'' (get_null ''wifi'' sample_result))" by code_simp
  then obtain wnet where "(''home'', wnet) \<in> set (sub_objects ''networks'' (get_null ''wifi'' sample_result))"
    "''6g'' \<in> set (bands_of (obj_of wnet))"
    by (auto simp: list_ex_iff)
  with six_ghz_section_secure [OF v this, of "JBool True" "''5g''" "[]" True] show ?thesis by blast
qed

subsection \<open>Geometry\<close>

definition middle_ok :: "int \<Rightarrow> int \<Rightarrow> bool" where
  "middle_ok w c \<longleftrightarrow> (let b = bonded_channels c w ''5g'' in
     centre_channel c w ''5g'' = Some ((hd b + last b) div 2))"

lemma middle_table: "list_all (\<lambda>w. list_all (middle_ok w) (concat (blocks_5g w))) [80, 160, 320]"
  by code_simp

lemma centre_5g:
  assumes "w \<in> {80, 160, 320}" and "bonded_channels c w ''5g'' = b" and "b \<noteq> []"
  shows "centre_channel c w ''5g'' = Some ((hd b + last b) div 2)"
proof -
  have "\<not> w \<le> 20" using assms(1) by auto
  with assms obtain b' where "block_of_5g c w = Some b'"
    by (auto simp: bonded_channels_def split: option.splits)
  then have "c \<in> set (concat (blocks_5g w))" using block_of_5g_Some by fastforce
  with middle_table assms(1) have "middle_ok w c" by (auto simp: list_all_iff)
  with assms(2) show ?thesis by (simp add: middle_ok_def)
qed

lemma centre_6g:
  assumes "w \<in> {80, 160, 320}" and "bonded_channels c w ''6g'' = b" and "b \<noteq> []"
  shows "centre_channel c w ''6g'' = Some ((hd b + last b) div 2)"
proof -
  have b: "b = block_6g c w" using assms bonded_6g [of w "''6g''" c] by (auto split: if_splits)
  obtain n where n: "WIDTH_SUBCHANNELS w = Some n" "map_of [(80, 4), (160, 8), (320, 16)] w = Some n" "0 < n"
    using assms(1) by (auto simp: WIDTH_SUBCHANNELS_def)
  let ?s = "(c - 1) div 4 div n * n * 4 + 1"
  have "b = map (\<lambda>i. ?s + i * 4) [0..n - 1]" using n by (simp add: b block_6g_def Let_def)
  moreover have first: "[0..n - 1] = 0 # [1..n - 1]" and final: "[0..n - 1] = [0..n - 2] @ [n - 1]"
    using n upto_rec1 [of 0 "n - 1"] upto_rec2 [of 0 "n - 1"] by simp_all
  ultimately have bs: "b = map (\<lambda>i. ?s + i * 4) [0..n - 1]" by simp
  have "hd b = ?s" unfolding bs first by simp
  moreover have "last b = ?s + (n - 1) * 4" unfolding bs final by simp
  moreover have "(?s + (?s + (n - 1) * 4)) div 2 = ?s + (n - 1) * 2" by simp
  ultimately show ?thesis using assms(1) n by (auto simp: centre_channel_def Let_def)
qed

text \<open>The channel tables of the renderer agree with those of the channel analysis: for 80, 160 and 320
  MHz, the centre index handed to hostapd is the middle of the very block that had to be permitted
  for the channel to be accepted.\<close>

theorem centre_is_block_middle:
  assumes "w \<in> {80, 160, 320}" and "band \<in> {''5g'', ''6g''}" and "bonded_channels c w band = b" and "b \<noteq> []"
  shows "centre_channel c w band = Some ((hd b + last b) div 2)"
  using assms centre_5g centre_6g by blast

lemma centre_is_block_middle_witness: "centre_channel 37 160 ''6g'' = Some ((33 + 61) div 2)"
proof -
  have "bonded_channels 37 160 ''6g'' = [33, 37, 41, 45, 49, 53, 57, 61]" by code_simp
  from centre_is_block_middle [OF _ _ this] show ?thesis by simp
qed

lemma wide_240_lines:
  assumes "text_or ''5g'' ''band'' radio = ''5g''" and "get_or (JInt 20) ''channel_width'' radio = JInt 240"
    and "get_or (JStr ''auto'') ''channel'' radio = JInt c" and "c \<noteq> 0" and "is_set ''eht'' caps"
    and "band_lines radio caps = Inr ls"
  shows "assigned_int ''channel'' c \<in> set ls \<and> assigned_int ''eht_oper_centr_freq_seg0_idx'' 130 \<in> set ls"
proof -
  have "\<not> is_auto (JInt c)" using assms(4) by (simp add: is_auto_def)
  with assms show ?thesis
    by (auto simp: band_lines_def py_int_def run_channel_def segments_def eht_lines_def rbind_eq_Inr
        when_some_def assigned_int_def assigned_def text_of_def the_default_def EHT240_eht_centre_def Let_def)
qed

text \<open>At 240 MHz the parts disagree. hostapd only has the span from 100 to 144, and the rendered centre
  (130) and puncturing belong to it whatever channel is configured, so a radio fixed on channel 36
  gets a centre its channel is not under. The check of the configuration instead takes channels 36
  to 112 for a block: it asks for channels 36 to 64 where channel 100 needs 116 to 144.\<close>

theorem wide_240_block_mismatch:
  assumes "text_or ''5g'' ''band'' radio = ''5g''" and "get_or (JInt 20) ''channel_width'' radio = JInt 240"
    and "get_or (JStr ''auto'') ''channel'' radio = JInt 36" and "is_set ''eht'' caps"
    and "band_lines radio caps = Inr ls"
  shows "assigned_int ''channel'' 36 \<in> set ls \<and> assigned_int ''eht_oper_centr_freq_seg0_idx'' 130 \<in> set ls \<and>
    36 \<notin> set EHT240_channels \<and> bonded_channels 36 240 ''5g'' \<noteq> [] \<and>
    bonded_channels EHT240_primary 240 ''5g'' = bonded_channels 36 240 ''5g'' \<and>
    set EHT240_channels - set (bonded_channels EHT240_primary 240 ''5g'') = {116, 120, 124, 128, 132, 136, 140, 144}"
proof -
  have b: "bonded_channels 36 240 ''5g'' = [36, 40, 44, 48, 52, 56, 60, 64, 100, 104, 108, 112]"
    "bonded_channels EHT240_primary 240 ''5g'' = [36, 40, 44, 48, 52, 56, 60, 64, 100, 104, 108, 112]"
    by code_simp+
  have "36 \<notin> set EHT240_channels" "set EHT240_channels - set [36, 40, 44, 48, 52, 56, 60, 64, 100, 104, 108, 112] =
      {116, 120, 124, 128, 132, 136, 140, 144}"
    by (simp_all add: EHT240_channels_def)
  with wide_240_lines [OF assms(1-3) _ assms(4,5)] b show ?thesis by simp
qed

definition radio_240 :: obj where
  "radio_240 = [(''band'', JStr ''5g''), (''channel_width'', JInt 240), (''channel'', JInt 36)]"

lemma wide_240_block_mismatch_witness:
  "\<exists>ls. band_lines radio_240 [(''eht'', JBool True)] = Inr ls \<and> ''channel=36'' \<in> set ls \<and>
    ''eht_oper_centr_freq_seg0_idx=130'' \<in> set ls"
proof -
  have "is_ok (band_lines radio_240 [(''eht'', JBool True)])" by code_simp
  then obtain ls where ls: "band_lines radio_240 [(''eht'', JBool True)] = Inr ls" by (auto simp: is_ok_iff)
  have "text_or ''5g'' ''band'' radio_240 = ''5g''" "get_or (JInt 20) ''channel_width'' radio_240 = JInt 240"
    "get_or (JStr ''auto'') ''channel'' radio_240 = JInt 36" "is_set ''eht'' [(''eht'', JBool True)]"
    by code_simp+
  from wide_240_block_mismatch [OF this ls]
  have "assigned_int ''channel'' 36 \<in> set ls" "assigned_int ''eht_oper_centr_freq_seg0_idx'' 130 \<in> set ls" by blast+
  moreover have "assigned_int ''channel'' 36 = ''channel=36''"
    "assigned_int ''eht_oper_centr_freq_seg0_idx'' 130 = ''eht_oper_centr_freq_seg0_idx=130''"
    by code_simp+
  ultimately show ?thesis using ls by auto
qed

subsection \<open>Line breaks\<close>

lemma join_member: "x \<in> set ls \<Longrightarrow> \<exists>p q. py_join sep ls = p @ x @ q"
proof (induction ls)
  case (Cons y ls)
  show ?case
  proof (cases "x = y")
    case True
    then show ?thesis by (cases ls) (auto intro: exI [of _ "[]"])
  next
    case False
    with Cons.prems have "x \<in> set ls" by simp
    with Cons.IH obtain p q where "py_join sep ls = p @ x @ q" and "ls \<noteq> []" by (cases ls) auto
    then have "py_join sep (y # ls) = (y @ sep @ p) @ x @ q" by (cases ls) simp_all
    then show ?thesis by blast
  qed
qed simp

lemma bss_lines_identity:
  assumes "bss_lines bss radio radius is_first = Inr ls"
  shows "\<exists>ident rest. identity_lines bss is_first = Inr ident \<and> ls = ident @ rest"
  using assms by (auto simp: bss_lines_def rbind_eq_Inr)

lemma section_member:
  assumes "bss_sections radio profiles bsses = Inr ls" and "bss \<in> set bsses"
  shows "\<exists>first ident. identity_lines bss first = Inr ident \<and> set ident \<subseteq> set ls"
proof -
  obtain xs where r: "rmap (\<lambda>(i, bss). rbind (bss_lines bss radio (radius_of profiles bss) (i = 0))
      (\<lambda>ls. Inr ([] # ls))) (zip [0..<length bsses] bsses) = Inr xs" and ls: "ls = concat xs"
    using assms(1) by (auto simp: bss_sections_def rconcat_def rbind_eq_Inr)
  obtain i where "(i, bss) \<in> set (zip [0..<length bsses] bsses)"
    using assms(2) by (auto simp: in_set_conv_nth) (metis (no_types) add_0 length_map length_upt map_nth minus_nat.diff_0 nth_upt nth_zip)
  from rmap_image [OF r this] obtain sec where sec: "sec \<in> set xs"
    "bss_lines bss radio (radius_of profiles bss) (i = 0) = Inr (tl sec)" "sec \<noteq> []"
    by (auto simp: rbind_eq_Inr)
  then obtain ident rest where "identity_lines bss (i = 0) = Inr ident" "tl sec = ident @ rest"
    using bss_lines_identity by blast
  then have "identity_lines bss (i = 0) = Inr ident" "set ident \<subseteq> set (tl sec)" by simp_all
  moreover have "set (tl sec) \<subseteq> set ls" using sec ls by (auto dest: list.set_sel(2))
  ultimately show ?thesis by blast
qed

lemma link_config_sections:
  assumes "link_config_lines radio caps bsses country profiles regulatory = Inr ls"
  shows "\<exists>secs. bss_sections radio profiles bsses = Inr secs \<and> set secs \<subseteq> set ls"
  using assms by (auto simp: link_config_lines_def rbind_eq_Inr)

text \<open>An SSID can add lines to the hostapd configuration: the validator only bounds its length, so an
  SSID with line breaks is accepted, and whatever stands between two of them becomes a line of its
  own in the file of every radio that carries the network.\<close>

theorem ssid_adds_lines:
  assumes "ssid = a @ [newline] @ l @ [newline] @ b" and "utf8_length ssid \<le> 32"
    and "get_null ''ssid'' bss = JStr ssid" and "bss \<in> set bsses"
    and "render_link_config radio caps bsses country profiles regulatory = Inr body"
  shows "v_ssid (JStr ssid) path = Inr ssid \<and> (\<exists>p q. body = p @ [newline] @ l @ [newline] @ q)"
proof -
  have "1 \<le> utf8_length ssid" by (simp add: assms(1) utf8_length_def)
  then have "v_ssid (JStr ssid) path = Inr ssid" using assms(2) by (simp add: v_ssid_eq)
  obtain secs ls where sec: "bss_sections radio profiles bsses = Inr secs"
    and ls: "set secs \<subseteq> set ls" and body: "body = py_join [newline] ls @ [newline]"
    using link_config_sections assms(5) unfolding render_link_config_def rbind_eq_Inr by blast
  obtain first ident where i: "identity_lines bss first = Inr ident" "set ident \<subseteq> set secs"
    using section_member [OF sec assms(4)] by blast
  have "need_text ''ssid'' bss = Inr ssid"
    using assms(3) by (auto simp: need_text_def get_null_def get_or_def text_of_def the_default_def split: option.splits)
  then have "assigned ''ssid'' ssid \<in> set ident" using i(1) by (auto simp: identity_lines_def rbind_eq_Inr)
  then obtain p q where "py_join [newline] ls = p @ assigned ''ssid'' ssid @ q"
    using join_member i(2) ls by (metis subsetD)
  then have "body = (p @ ''ssid='' @ a) @ [newline] @ l @ [newline] @ (b @ q @ [newline])"
    by (simp add: body assigned_def assms(1))
  then show ?thesis using \<open>v_ssid (JStr ssid) path = Inr ssid\<close> by blast
qed

definition bad_ssid :: string where
  "bad_ssid = ''Home'' @ [newline] @ ''wpa=0'' @ [newline] @ ''#''"

lemma ssid_adds_lines_witness:
  "\<exists>body p q. render_link_config [] [] [[(''interface'', JStr ''wl5g0''), (''ssid'', JStr bad_ssid),
      (''security'', JObj [(''mode'', JStr ''wpa3''), (''passphrase'', JStr ''correct horse'')])]]
      ''US'' [] [] = Inr body \<and> body = p @ [newline] @ ''wpa=0'' @ [newline] @ q"
proof -
  let ?bss = "[(''interface'', JStr ''wl5g0''), (''ssid'', JStr bad_ssid),
      (''security'', JObj [(''mode'', JStr ''wpa3''), (''passphrase'', JStr ''correct horse'')])]"
  have "is_ok (render_link_config [] [] [?bss] ''US'' [] [])" by code_simp
  then obtain body where t: "render_link_config [] [] [?bss] ''US'' [] [] = Inr body" by (auto simp: is_ok_iff)
  have "utf8_length bad_ssid \<le> 32" "get_null ''ssid'' ?bss = JStr bad_ssid" by code_simp+
  from ssid_adds_lines [OF bad_ssid_def this _ t] t show ?thesis by auto
qed

subsection \<open>The configuration directory\<close>

definition config_map :: "(string \<times> string) list \<Rightarrow> conf_dir" where
  "config_map configs = map (\<lambda>(name, body). (conf_path name, body)) configs"

lemma write_atomic_spec:
  assumes "write_atomic path content d = (c, d')"
  shows "map_of d' = (map_of d)(path \<mapsto> content)" and "c \<longleftrightarrow> map_of d path \<noteq> Some content"
    and "\<not> c \<Longrightarrow> d' = d" and "distinct (map fst d) \<Longrightarrow> distinct (map fst d')"
  using assms by (auto simp: write_atomic_def update_conv' distinct_update split: if_splits)

definition write_all :: "(string \<times> string) list \<Rightarrow> bool \<times> conf_dir \<Rightarrow> bool \<times> conf_dir" where
  "write_all configs = fold (\<lambda>(name, body) (changed, d).
     case write_atomic (conf_path name) body d of (c, d') \<Rightarrow> (changed \<or> c, d')) configs"

lemma write_all_Cons: "write_all ((name, body) # configs) (ch, d) =
    write_all configs (ch \<or> fst (write_atomic (conf_path name) body d), snd (write_atomic (conf_path name) body d))"
  by (simp add: write_all_def split: prod.splits)

lemma write_all_Nil: "write_all [] s = s"
  by (simp add: write_all_def)

lemma write_all_spec:
  assumes "write_all configs (ch, d) = (ch', d')" and "distinct (map fst configs)" and "distinct (map fst d)"
  shows "distinct (map fst d') \<and> map_of d' = map_of d ++ map_of (config_map configs) \<and>
    (ch' \<longleftrightarrow> ch \<or> map_of d' \<noteq> map_of d) \<and> (ch' \<or> d' = d)"
  using assms
proof (induction configs arbitrary: ch d)
  case Nil
  then show ?case by (simp add: write_all_Nil config_map_def)
next
  case (Cons x configs)
  obtain name body where x: "x = (name, body)" by fastforce
  obtain c d1 where w: "write_atomic (conf_path name) body d = (c, d1)" by fastforce
  note spec = write_atomic_spec [OF w]
  have run: "write_all configs (ch \<or> c, d1) = (ch', d')" using Cons.prems(1) by (simp add: x write_all_Cons w)
  have fresh: "map_of (config_map configs) (conf_path name) = None"
    using Cons.prems(2) by (auto simp: x map_of_eq_None_iff config_map_def conf_path_def dest: fst_image_mem)
  from Cons.IH [OF run] Cons.prems(2,3) spec(4)
  have ih: "distinct (map fst d')" "map_of d' = map_of d1 ++ map_of (config_map configs)"
    "ch' \<longleftrightarrow> ch \<or> c \<or> map_of d' \<noteq> map_of d1" "ch' \<or> d' = d1"
    by (auto simp: x)
  have all: "map_of d' = map_of d ++ map_of (config_map (x # configs))"
  proof
    fix p
    show "map_of d' p = (map_of d ++ map_of (config_map (x # configs))) p"
      using fresh by (cases "p = conf_path name") (auto simp: ih(2) spec(1) x config_map_def map_add_def split: option.splits)
  qed
  have here: "map_of d' (conf_path name) = Some body"
    using fresh by (simp add: ih(2) spec(1) map_add_def)
  show ?case
  proof (cases c)
    case True
    then have "map_of d' \<noteq> map_of d" using here spec(2) by metis
    with True all ih show ?thesis by simp
  next
    case False
    with spec(3) have "d1 = d" by simp
    with False all ih show ?thesis by simp
  qed
qed

lemma config_paths: "map fst (config_map configs) = map (\<lambda>(name, _). conf_path name) configs"
  by (simp add: config_map_def case_prod_beta o_def)

lemma write_configs_eq: "write_configs configs d =
    (let (ch, d1) = write_all configs (False, d); paths = map fst (config_map configs);
         d2 = filter (\<lambda>(path, _). path \<in> set paths) d1
     in ((paths, ch \<or> d2 \<noteq> d1), d2))"
  by (simp add: write_configs_def write_all_def config_paths)

lemma map_of_restrict: "map_of (filter (\<lambda>(k, _). k \<in> A) d) k = (if k \<in> A then map_of d k else None)"
  by (induction d) auto

lemma filter_same_map:
  assumes "distinct (map fst d)" and "map_of (filter (\<lambda>(k, _). k \<in> A) d) = map_of d"
  shows "filter (\<lambda>(k, _). k \<in> A) d = d"
proof -
  have "\<forall>(k, v) \<in> set d. k \<in> A"
  proof clarify
    fix k v assume "(k, v) \<in> set d"
    then have "map_of d k \<noteq> None" by (auto simp: map_of_eq_None_iff fst_image_mem)
    then show "k \<in> A" using assms(2) map_of_restrict [of A d k] by (metis (no_types, lifting))
  qed
  then show ?thesis by (intro filter_True) auto
qed

lemma write_configs_spec:
  assumes "write_configs configs d = ((paths, changed), d')"
    and "distinct (map fst configs)" and "distinct (map fst d)"
  shows "map_of d' = map_of (config_map configs) \<and> distinct (map fst d') \<and> paths = map fst (config_map configs) \<and>
    (changed \<longleftrightarrow> map_of d' \<noteq> map_of d)"
proof -
  let ?P = "fst ` set (config_map configs)"
  obtain ch d1 where w: "write_all configs (False, d) = (ch, d1)" by fastforce
  note spec = write_all_spec [OF w assms(2,3)]
  have parts: "paths = map fst (config_map configs)" "d' = filter (\<lambda>(path, _). path \<in> ?P) d1"
    "changed \<longleftrightarrow> ch \<or> d' \<noteq> d1"
    using assms(1) unfolding write_configs_eq w Let_def by auto
  have final: "map_of d' = map_of (config_map configs)"
  proof
    fix p
    have "p \<in> ?P \<longleftrightarrow> map_of (config_map configs) p \<noteq> None" by (simp add: map_of_eq_None_iff)
    with spec show "map_of d' p = map_of (config_map configs) p"
      by (cases "map_of (config_map configs) p") (simp_all add: parts(2) map_of_restrict map_add_def)
  qed
  have "d' = d1 \<longleftrightarrow> map_of d' = map_of d1"
    using filter_same_map [of d1 ?P] spec parts(2) by auto
  moreover have "map_of d1 = map_of d \<Longrightarrow> d1 = d" using spec by blast
  moreover have "ch \<Longrightarrow> map_of d' \<noteq> map_of d"
  proof
    assume ch and same: "map_of d' = map_of d"
    then have "map_of d1 = map_of d" using spec final by (metis map_add_subsumed1 map_le_refl)
    with \<open>ch\<close> spec show False by simp
  qed
  moreover have "\<not> ch \<Longrightarrow> d1 = d" using spec by blast
  ultimately have "changed \<longleftrightarrow> map_of d' \<noteq> map_of d" using parts(3) by metis
  moreover have "distinct (map fst d')"
    using spec unfolding parts(2) by (simp add: distinct_map_filter)
  ultimately show ?thesis using final parts(1) by blast
qed

text \<open>Writing the configuration makes the directory exactly what was rendered: one file per radio, in
  link order, and nothing left over. It reports a change exactly when the contents changed, so
  writing the same configuration again reports none, which is when hostapd is not restarted.\<close>

theorem write_configs_exact:
  assumes "write_configs configs d = ((paths, changed), d')"
    and "distinct (map fst configs)" and "distinct (map fst d)"
  shows "map_of d' = map_of (config_map configs) \<and> paths = map fst (config_map configs) \<and>
    (changed \<longleftrightarrow> map_of d' \<noteq> map_of d) \<and> (\<exists>p d''. write_configs configs d' = ((p, False), d''))"
proof -
  note spec = write_configs_spec [OF assms]
  obtain p ch d'' where again: "write_configs configs d' = ((p, ch), d'')" by (metis surj_pair)
  have "\<not> ch" using write_configs_spec [OF again assms(2)] spec by simp
  with again spec show ?thesis by auto
qed

lemma write_configs_exact_witness:
  "\<exists>paths d'. write_configs [(''radio-5g'', ''new'')] [(conf_path ''radio-2g'', ''old'')] = ((paths, True), d') \<and>
    map_of d' = [conf_path ''radio-5g'' \<mapsto> ''new'']"
proof -
  let ?new = "[(''radio-5g'', ''new'')]" and ?old = "[(conf_path ''radio-2g'', ''old'')]"
  obtain paths changed d' where w: "write_configs ?new ?old = ((paths, changed), d')" by (metis surj_pair)
  have "map_of ?old (conf_path ''radio-5g'') = None" by (simp add: conf_path_def)
  then have differ: "[conf_path ''radio-5g'' \<mapsto> ''new''] \<noteq> map_of ?old" by (metis fun_upd_same option.distinct(1))
  have "distinct (map fst ?new)" "distinct (map fst ?old)" by simp_all
  from write_configs_exact [OF w this]
  have "map_of d' = [conf_path ''radio-5g'' \<mapsto> ''new'']" "changed \<longleftrightarrow> map_of d' \<noteq> map_of ?old"
    by (simp_all add: config_map_def)
  with w differ show ?thesis by metis
qed

end
