(* ===== verification/MacAddr.thy ===== *)
theory MacAddr
  imports Doc "HOL-Library.Word"
begin

text \<open>
  Hardware addresses: the text form and the octets (\<open>util.py\<close>), and the addresses the wireless daemon
  derives from the address of a radio for its BSSes and multi-link devices (\<open>InterfacePlanner\<close> in
  \<open>wifid.py\<close>). Octets are unbounded integers, as in the code, until \<open>format_mac\<close> masks them.
\<close>

unbundle bit_operations_syntax

subsection \<open>Text and octets\<close>

definition normalise_mac :: "string \<Rightarrow> string" where
  "normalise_mac mac = py_replace_char CHR ''-'' CHR '':'' (py_lower (py_strip mac))"

text \<open>\<open>int(part, 16)\<close>: white space around, a sign, the prefix \<open>0x\<close> and single underscores are allowed.\<close>

definition py_int_hex :: "string \<Rightarrow> int option" where
  "py_int_hex s0 =
     (let s = py_strip s0;
          neg = startswith s ''-'';
          t = (if startswith s ''-'' \<or> startswith s ''+'' then tl s else s);
          body = (if startswith t ''0x'' \<or> startswith t ''0X''
                  then (if startswith (drop 2 t) ''_'' then drop 3 t else drop 2 t) else t);
          gs = py_split CHR ''_'' body
      in if list_all (\<lambda>p. p \<noteq> [] \<and> list_all is_hex p) gs
         then Some (let n = int_of_hex (concat gs) in if neg then - n else n)
         else None)"

definition mac_octet :: "string \<Rightarrow> verr + int" where
  "mac_octet part = (case py_int_hex part of None \<Rightarrow> Inl (Raised ValueError) | Some n \<Rightarrow> Inr n)"

definition mac_bytes :: "string \<Rightarrow> verr + int list" where
  "mac_bytes mac = rmap mac_octet (py_split CHR '':'' (normalise_mac mac))"

definition format_mac :: "int list \<Rightarrow> string" where
  "format_mac octets = py_join '':'' (map (\<lambda>x. hex2 (x AND 255)) octets)"

text \<open>\<open>octets[i] = f(octets[i])\<close>, which raises beyond the end.\<close>

definition set_octet :: "nat \<Rightarrow> (int \<Rightarrow> int) \<Rightarrow> int list \<Rightarrow> verr + int list" where
  "set_octet i f xs = (if i < length xs then Inr (xs[i := f (xs ! i)]) else Inl (Raised IndexError))"

definition derive_mac :: "string \<Rightarrow> bool \<Rightarrow> int \<Rightarrow> verr + string" where
  "derive_mac base local_bit index =
     rbind (mac_bytes base) (\<lambda>xs.
     rbind (if local_bit then set_octet 0 (\<lambda>x. x OR 2) xs else Inr xs) (\<lambda>xs.
     rbind (set_octet 5 (\<lambda>x. (x + index) AND 255) xs) (\<lambda>xs. Inr (format_mac xs))))"

subsection \<open>Addresses of the wireless daemon\<close>

definition MAX_SLOTS :: int where "MAX_SLOTS = 16"

definition bssid :: "string \<Rightarrow> int \<Rightarrow> int \<Rightarrow> verr + string" where
  "bssid radio_mac index radio_ordinal = derive_mac radio_mac True (radio_ordinal * MAX_SLOTS + index)"

definition mld_mac :: "string \<Rightarrow> int \<Rightarrow> verr + string" where
  "mld_mac primary_radio_mac mld_index =
     rbind (mac_bytes primary_radio_mac) (\<lambda>xs.
     rbind (set_octet 0 (\<lambda>x. x OR 2) xs) (\<lambda>xs.
     rbind (set_octet 3 (\<lambda>x. (x XOR 128) AND 255) xs) (\<lambda>xs.
     rbind (set_octet 5 (\<lambda>x. (x + 64 + mld_index) AND 255) xs) (\<lambda>xs. Inr (format_mac xs)))))"

subsection \<open>Octets of a well-formed address\<close>

definition octets :: "int list \<Rightarrow> bool" where
  "octets xs \<longleftrightarrow> length xs = 6 \<and> (\<forall>x \<in> set xs. 0 \<le> x \<and> x < 256)"

lemma and_255: "x AND 255 = x mod (256 :: int)"
proof -
  have "x AND mask 8 = x mod 2 ^ 8" by (simp only: take_bit_eq_mask [symmetric] take_bit_eq_mod)
  then show ?thesis by (simp add: mask_eq_exp_minus_1)
qed

lemma octet_mod: "0 \<le> x \<Longrightarrow> x < 256 \<Longrightarrow> x AND 255 = (x :: int)"
  by (simp add: and_255)

lemma octet_and [simp]: "0 \<le> x AND 255" "x AND 255 < (256 :: int)"
  by (simp_all add: and_255)

lemma octet_or [simp]: "0 \<le> x \<Longrightarrow> x < 256 \<Longrightarrow> 0 \<le> x OR 2 \<and> x OR 2 < (256 :: int)"
  using OR_upper [of x 8 2] by simp

lemma octetsE:
  assumes "octets xs"
  obtains a b c d e f where "xs = [a, b, c, d, e, f]"
    and "\<forall>x \<in> {a, b, c, d, e, f}. 0 \<le> x \<and> x < 256"
proof -
  from assms have "length xs = Suc (Suc (Suc (Suc (Suc (Suc 0)))))" by (simp add: octets_def)
  then obtain a b c d e f where "xs = [a, b, c, d, e, f]" by (auto simp: length_Suc_conv)
  with assms show thesis by (intro that) (auto simp: octets_def)
qed

lemma hex2_chars: "0 \<le> x \<Longrightarrow> x < 256 \<Longrightarrow> list_all is_hex_lower (hex2 x)"
  by (simp add: hex2_def is_hex_digit)

lemma hex2_no_colon: "0 \<le> x \<Longrightarrow> x < 256 \<Longrightarrow> CHR '':'' \<notin> set (hex2 x)"
  using hex2_chars [of x] hex_char_neq(1) [of "CHR '':''"] by (auto simp: list_all_iff)

lemma int_of_hex2_inj: "0 \<le> x \<Longrightarrow> x < 256 \<Longrightarrow> 0 \<le> y \<Longrightarrow> y < 256 \<Longrightarrow> hex2 x = hex2 y \<Longrightarrow> x = y"
  by (metis int_of_hex_hex2)

lemma format_parts:
  assumes "xs \<noteq> []"
  shows "py_split CHR '':'' (format_mac xs) = map (\<lambda>x. hex2 (x AND 255)) xs"
proof -
  have "\<forall>p \<in> set (map (\<lambda>x. hex2 (x AND 255)) xs). CHR '':'' \<notin> set p"
    by (simp add: hex2_no_colon)
  with assms show ?thesis unfolding format_mac_def by (intro py_split_join) auto
qed

lemma format_mac_inject:
  assumes "octets xs" and "octets ys" and "format_mac xs = format_mac ys"
  shows "xs = ys"
proof -
  have "xs \<noteq> []" "ys \<noteq> []" using assms(1,2) by (auto simp: octets_def)
  with assms(3) have "map (\<lambda>x. hex2 (x AND 255)) xs = map (\<lambda>x. hex2 (x AND 255)) ys"
    using format_parts by metis
  moreover have "inj_on (\<lambda>x. hex2 (x AND 255)) (set xs \<union> set ys)"
    using assms(1,2) int_of_hex2_inj by (intro inj_onI) (auto simp: octets_def octet_mod)
  ultimately show ?thesis using map_inj_on by blast
qed

lemma plain_code:
  assumes "is_hex_lower c \<or> c = CHR '':''"
  shows "48 \<le> code c \<and> code c \<le> 58 \<or> 97 \<le> code c \<and> code c \<le> 102"
proof (cases "c = CHR '':''")
  case True
  then show ?thesis by (simp add: code_def)
next
  case False
  with assms show ?thesis by (auto simp: is_hex_lower_def is_digit_ascii_def in_range_def)
qed

lemma plain_char:
  assumes "is_hex_lower c \<or> c = CHR '':''"
  shows "\<not> py_isspace c" and "lower_char c = c" and "c \<noteq> CHR ''-''" and "c \<noteq> CHR ''+''"
    and "c \<noteq> CHR ''_''" and "c \<noteq> CHR ''x''" and "c \<noteq> CHR ''X''"
proof -
  note r = plain_code [OF assms]
  show "\<not> py_isspace c" using r by (auto simp: py_isspace_def in_range_def)
  show "lower_char c = c"
    using r by (auto simp: lower_char_def py_isupper_def is_upper_ascii_def in_range_def)
  have other: "c \<noteq> d" if "code d < 48 \<or> 58 < code d \<and> code d < 97 \<or> 102 < code d" for d
    using r that by auto
  show "c \<noteq> CHR ''-''" "c \<noteq> CHR ''+''" "c \<noteq> CHR ''_''" "c \<noteq> CHR ''x''" "c \<noteq> CHR ''X''"
    by (rule other, simp add: code_def)+
qed

lemma dropWhile_none: "list_all (\<lambda>c. \<not> P c) s \<Longrightarrow> dropWhile P s = s"
  by (cases s) auto

lemma strip_plain: "list_all (\<lambda>c. \<not> py_isspace c) s \<Longrightarrow> py_strip s = s"
  by (simp add: py_strip_def dropWhile_none)

lemma map_id_on: "list_all (\<lambda>c. f c = c) s \<Longrightarrow> map f s = s"
  by (simp add: list_all_iff map_idI)

lemma normalise_plain:
  assumes "list_all (\<lambda>c. is_hex_lower c \<or> c = CHR '':'') s"
  shows "normalise_mac s = s"
proof -
  have "list_all (\<lambda>c. \<not> py_isspace c) s" "list_all (\<lambda>c. lower_char c = c) s"
    "list_all (\<lambda>c. (if c = CHR ''-'' then CHR '':'' else c) = c) s"
    using assms plain_char by (auto simp: list_all_iff)
  then show ?thesis
    by (simp add: normalise_mac_def strip_plain py_lower_def py_replace_char_def map_id_on)
qed

lemma format_chars:
  assumes "xs \<noteq> []"
  shows "list_all (\<lambda>c. is_hex_lower c \<or> c = CHR '':'') (format_mac xs)"
  using assms unfolding format_mac_def
proof (induction xs)
  case (Cons x xs)
  have "list_all is_hex_lower (hex2 (x AND 255))" by (simp add: hex2_chars)
  with Cons show ?case by (cases xs) (auto simp: list_all_iff)
qed simp

lemma octet_of_hex2:
  assumes "0 \<le> x" and "x < 256"
  shows "mac_octet (hex2 x) = Inr x"
proof -
  let ?a = "hex_digit (x div 16 mod 16)" and ?b = "hex_digit (x mod 16)"
  have ab: "is_hex_lower ?a" "is_hex_lower ?b" by (simp_all add: is_hex_digit)
  note p = plain_char [OF disjI1, OF ab(1)] plain_char [OF disjI1, OF ab(2)]
  have s: "py_strip (hex2 x) = hex2 x" using p by (intro strip_plain) (simp add: hex2_def)
  have "py_split CHR ''_'' (hex2 x) = [hex2 x]" using p by (intro py_split_single) (simp add: hex2_def)
  moreover have "list_all is_hex (hex2 x)" using ab by (simp add: hex2_def is_hex_def)
  moreover have "hex2 x \<noteq> []" by (simp add: hex2_def)
  moreover have "\<not> startswith (hex2 x) ''-''" "\<not> startswith (hex2 x) ''+''" "\<not> startswith (hex2 x) ''0x''"
    "\<not> startswith (hex2 x) ''0X''"
    using p by (simp_all add: hex2_def startswith_def)
  ultimately show ?thesis
    using assms by (simp add: mac_octet_def py_int_hex_def s Let_def int_of_hex_hex2)
qed

lemma mac_roundtrip_base:
  assumes "octets xs"
  shows "mac_bytes (format_mac xs) = Inr xs"
proof -
  have "xs \<noteq> []" and range: "\<And>x. x \<in> set xs \<Longrightarrow> 0 \<le> x \<and> x < 256" using assms by (auto simp: octets_def)
  have "mac_bytes (format_mac xs) = rmap mac_octet (map (\<lambda>x. hex2 (x AND 255)) xs)"
    using \<open>xs \<noteq> []\<close> by (simp add: mac_bytes_def normalise_plain format_chars format_parts)
  also have "\<dots> = Inr xs"
    using range by (auto simp: rmap_eq octet_of_hex2 octet_mod)
  finally show ?thesis .
qed

text \<open>The text and the octets of an address are inverse: formatting six octets and reading them back
  gives the same octets, and distinct octets have distinct texts.\<close>

theorem mac_roundtrip:
  assumes "octets xs"
  shows "mac_bytes (format_mac xs) = Inr xs \<and> (\<forall>ys. octets ys \<and> format_mac ys = format_mac xs \<longrightarrow> ys = xs)"
  using mac_roundtrip_base [OF assms] format_mac_inject [OF _ assms] by blast

lemma mac_roundtrip_witness: "mac_bytes (format_mac [2, 255, 0, 16, 171, 9]) = Inr [2, 255, 0, 16, 171, 9]"
  using mac_roundtrip [of "[2, 255, 0, 16, 171, 9]"] by (simp add: octets_def)

subsection \<open>Derived addresses\<close>

lemma bssid_octets:
  assumes "mac_bytes base = Inr [a, b, c, d, e, f]"
  shows "bssid base i k = Inr (format_mac [a OR 2, b, c, d, e, (f + (k * 16 + i)) AND 255])"
  using assms by (simp add: bssid_def derive_mac_def set_octet_def MAX_SLOTS_def)

lemma mld_octets:
  assumes "mac_bytes base = Inr [a, b, c, d, e, f]"
  shows "mld_mac base i = Inr (format_mac [a OR 2, b, c, (d XOR 128) AND 255, e, (f + 64 + i) AND 255])"
  using assms by (simp add: mld_mac_def set_octet_def)

lemma shifted_mod:
  assumes "0 \<le> i" "i < 256" "0 \<le> j" "j < 256" and "(f + i) mod 256 = (f + j) mod (256 :: int)"
  shows "i = j"
proof -
  from assms(5) have "256 dvd (f + i) - (f + j)" by (simp only: mod_eq_dvd_iff)
  then obtain k where k: "i - j = 256 * k" by (auto elim: dvdE)
  then have "256 * k < 256 * 1" and "256 * (- 1) < 256 * k" using assms(1-4) by linarith+
  then have "k = 0" by simp
  with k show ?thesis by simp
qed

lemma slot_pair:
  assumes "0 \<le> i" "i < 16" "0 \<le> j" "j < 16" and "k * 16 + i = l * 16 + (j :: int)"
  shows "k = l \<and> i = j"
proof -
  have "(k - l) * 16 = j - i" using assms(5) by (simp add: algebra_simps)
  then have "(k - l) * 16 < 1 * 16" and "(- 1) * 16 < (k - l) * 16" using assms(1-4) by linarith+
  then have "k = l" by simp
  with assms(5) show ?thesis by simp
qed

lemma flipped: "0 \<le> d \<Longrightarrow> d < 256 \<Longrightarrow> (d XOR 128) AND 255 \<noteq> (d :: int)"
proof -
  have "bit ((d XOR 128) AND 255) 7 \<noteq> bit d 7"
    by (simp add: bit_simps)
  then show "(d XOR 128) AND 255 \<noteq> d" by metis
qed

lemma local_unicast: "even a \<Longrightarrow> even (a OR 2 :: int) \<and> bit (a OR 2) 1"
  by (simp add: bit_simps even_or_iff)

definition bssid_bytes :: "int list \<Rightarrow> int \<Rightarrow> int \<Rightarrow> int list" where
  "bssid_bytes xs i k = (xs[0 := xs ! 0 OR 2])[5 := (xs ! 5 + (k * 16 + i)) AND 255]"

lemma bssid_eq:
  assumes "mac_bytes base = Inr xs" and "octets xs"
  shows "bssid base i k = Inr (format_mac (bssid_bytes xs i k))" and "octets (bssid_bytes xs i k)"
proof -
  obtain a b c d e f where xs: "xs = [a, b, c, d, e, f]" and range: "\<forall>x \<in> {a, b, c, d, e, f}. 0 \<le> x \<and> x < 256"
    by (rule octetsE [OF assms(2)])
  show "bssid base i k = Inr (format_mac (bssid_bytes xs i k))"
    using bssid_octets [OF assms(1) [unfolded xs]] by (simp add: xs bssid_bytes_def)
  show "octets (bssid_bytes xs i k)" using range by (simp add: octets_def xs bssid_bytes_def)
qed

lemma bssid_inject:
  assumes "mac_bytes base = Inr xs" and "octets xs" and "bssid base i k = bssid base j l"
    and "0 \<le> i" "i < 16" "0 \<le> k" "k < 16" "0 \<le> j" "j < 16" "0 \<le> l" "l < 16"
  shows "i = j \<and> k = l"
proof -
  have len: "length xs = 6" using assms(2) by (simp add: octets_def)
  have "format_mac (bssid_bytes xs i k) = format_mac (bssid_bytes xs j l)"
    using assms(3) bssid_eq [OF assms(1,2)] by simp
  from format_mac_inject [OF _ _ this] bssid_eq(2) [OF assms(1,2)]
  have "bssid_bytes xs i k ! 5 = bssid_bytes xs j l ! 5" by simp
  then have same: "(xs ! 5 + (k * 16 + i)) mod 256 = (xs ! 5 + (l * 16 + j)) mod 256"
    using len by (simp add: bssid_bytes_def and_255)
  have r: "0 \<le> k * 16 + i" "k * 16 + i < 256" "0 \<le> l * 16 + j" "l * 16 + j < 256"
    using assms(4-) by linarith+
  have "k * 16 + i = l * 16 + j" by (rule shifted_mod [OF r same])
  with slot_pair [of i j k l] assms(4-) show ?thesis by blast
qed

text \<open>The addresses derived from one radio address do not collide: two BSSes have the same BSSID only
  if they have the same slot on the same radio, and no BSSID is the address of a multi-link device.
  Each BSSID is a well-formed locally administered address, unicast if the radio's own is. That
  rests on the 16 slots per radio: slot 16 of a radio is slot 0 of the next one.\<close>

theorem derived_addresses:
  assumes "mac_bytes base = Inr xs" and "octets xs"
    and "0 \<le> i" "i < 16" "0 \<le> k" "k < 16" and "0 \<le> j" "j < 16" "0 \<le> l" "l < 16"
  shows "\<exists>s ys. bssid base i k = Inr s \<and> mac_bytes s = Inr ys \<and> octets ys \<and> bit (hd ys) 1 \<and>
    (even (hd xs) \<longrightarrow> even (hd ys)) \<and> mld_mac base n \<noteq> Inr s \<and>
    (bssid base j l = Inr s \<longleftrightarrow> i = j \<and> k = l) \<and> bssid base 16 k = bssid base 0 (k + 1)"
proof -
  obtain a b c d e f where xs: "xs = [a, b, c, d, e, f]"
    and range: "\<forall>x \<in> {a, b, c, d, e, f}. 0 \<le> x \<and> x < 256"
    by (rule octetsE [OF assms(2)])
  let ?ys = "bssid_bytes xs i k"
  note eq = bssid_eq [OF assms(1,2)]
  have "octets [a OR 2, b, c, (d XOR 128) AND 255, e, (f + 64 + n) AND 255]"
    using range by (simp add: octets_def)
  from format_mac_inject [OF this eq(2)] have "mld_mac base n \<noteq> Inr (format_mac ?ys)"
    using flipped [of d] range by (auto simp: mld_octets [OF assms(1) [unfolded xs]] bssid_bytes_def xs)
  moreover have "bssid base j l = Inr (format_mac ?ys) \<longleftrightarrow> i = j \<and> k = l"
    using bssid_inject [OF assms(1,2)] assms(3-) eq(1) by metis
  moreover have "bssid base 16 k = bssid base 0 (k + 1)"
    by (simp add: eq(1) bssid_bytes_def algebra_simps)
  moreover have "bit (hd ?ys) 1" "even (hd xs) \<longrightarrow> even (hd ?ys)"
    using local_unicast by (simp_all add: bssid_bytes_def xs bit_simps)
  ultimately show ?thesis
    using eq mac_roundtrip_base [OF eq(2)] by blast
qed

lemma derived_addresses_witness:
  "\<exists>s ys. bssid ''88-DC-96-00-00-FE'' 3 1 = Inr s \<and> mac_bytes s = Inr ys \<and> octets ys \<and> bit (hd ys) 1 \<and>
    bssid ''88-DC-96-00-00-FE'' 3 2 \<noteq> Inr s"
proof -
  have "mac_bytes ''88-DC-96-00-00-FE'' = Inr [136, 220, 150, 0, 0, 254]" by code_simp
  from derived_addresses [OF this, of 3 1 3 2 0] show ?thesis by (simp add: octets_def) blast
qed

end
