(* ===== verification/WifiPlan.thy ===== *)
theory WifiPlan
  imports Hostapd MacAddr NetPlan
begin

text \<open>
  The plan of the wireless daemon (\<open>wifid.py\<close>): which BSS runs on which radio, with which slot, interface
  name and BSSID, and which of them are links of a multi-link device. The slot assignment is kept
  across plans. Radio capabilities are the dictionaries the capability probe returns, by radio id;
  the configuration has passed \<open>validate\<close>. A BSS of the plan is the dictionary that \<open>hostapd.py\<close> reads.
\<close>

subsection \<open>Slots\<close>

text \<open>\<open>SlotAllocator\<close>: radio, wireless network, slot; and what is saved on disk.\<close>

type_synonym slot_map = "(string \<times> (string \<times> int) list) list"

record slot_store =
  ss_map :: slot_map
  ss_saved :: slot_map

definition slots_of :: "string \<Rightarrow> slot_map \<Rightarrow> (string \<times> int) list" where
  "slots_of rid m = the_default [] (map_of m rid)"

definition free_slot :: "int \<Rightarrow> (string \<times> int) list \<Rightarrow> int option" where
  "free_slot limit slots = find (\<lambda>c. c \<notin> snd ` set slots) [0..limit - 1]"

definition slot :: "string \<Rightarrow> string \<Rightarrow> int \<Rightarrow> slot_store \<Rightarrow> int option \<times> slot_store" where
  "slot rid wnid limit st =
     (let slots = slots_of rid (ss_map st);
          st1 = st\<lparr>ss_map := AList.update rid slots (ss_map st)\<rparr>
      in case map_of slots wnid of
           Some n \<Rightarrow> (if n < limit then Some n else None, st1)
         | None \<Rightarrow>
             (case free_slot limit slots of
                None \<Rightarrow> (None, st1)
              | Some n \<Rightarrow>
                  (let m = AList.update rid (AList.update wnid n slots) (ss_map st)
                   in (Some n, \<lparr>ss_map = m, ss_saved = m\<rparr>))))"

text \<open>\<open>live\<close>: the networks each radio has to carry; radios and networks that are not in it are dropped.\<close>

definition prune :: "(string \<times> string list) list \<Rightarrow> slot_store \<Rightarrow> slot_store" where
  "prune live st =
     (let m = List.map_filter (\<lambda>(rid, slots). case map_of live rid of None \<Rightarrow> None
            | Some wnids \<Rightarrow> Some (rid, filter (\<lambda>(wnid, _). wnid \<in> set wnids) slots)) (ss_map st)
      in if m = ss_map st then st else \<lparr>ss_map = m, ss_saved = m\<rparr>)"

subsection \<open>Names and ordinals\<close>

text \<open>\<open>s.replace(pat, "")\<close>.\<close>

function remove_infix :: "string \<Rightarrow> string \<Rightarrow> string" where
  "remove_infix pat [] = []"
| "remove_infix pat (c # s) =
     (if pat \<noteq> [] \<and> startswith (c # s) pat then remove_infix pat (drop (length pat) (c # s))
      else c # remove_infix pat s)"
  by pat_completeness auto
termination by (relation "measure (length \<circ> snd)") auto

definition iface_name :: "string \<Rightarrow> int \<Rightarrow> string" where
  "iface_name radio_id index =
     ''wl'' @ remove_infix ''-'' (remove_infix ''radio-'' radio_id) @ show_int index"

type_synonym radio_map = "(string \<times> obj) list"

definition band_order :: "obj \<Rightarrow> nat" where
  "band_order caps = the_default 9 (map_of [(''2g'', 0), (''5g'', 1), (''6g'', 2)] (text_of (get_null ''band'' caps)))"

definition DEFAULT_RADIO_MAC :: string where "DEFAULT_RADIO_MAC = ''02:00:00:00:00:00''"

definition radio_mac :: "obj \<Rightarrow> string" where
  "radio_mac caps = (if is_set ''mac'' caps then text_of (get_null ''mac'' caps) else DEFAULT_RADIO_MAC)"

text \<open>The ordinal of each radio among those with its address, in band order.\<close>

definition by_band :: "radio_map \<Rightarrow> radio_map" where
  "by_band radios = sort_key (\<lambda>(rid, caps). (band_order caps, rid)) radios"

fun ordinals :: "radio_map \<Rightarrow> (string \<times> nat) list \<Rightarrow> (string \<times> nat) list" where
  "ordinals [] seen = []"
| "ordinals ((rid, caps) # radios) seen =
     (let mac = normalise_mac (radio_mac caps); n = the_default 0 (map_of seen mac)
      in (rid, n) # ordinals radios (AList.update mac (n + 1) seen))"

definition radio_ordinals :: "radio_map \<Rightarrow> (string \<times> nat) list" where
  "radio_ordinals radios = ordinals (by_band radios) []"

subsection \<open>Multi-link devices\<close>

definition band_selected :: "obj \<Rightarrow> obj \<Rightarrow> bool" where
  "band_selected caps wnet \<longleftrightarrow> list_ex (py_eq (get_null ''band'' caps)) (arr ''bands'' wnet)"

text \<open>A network with \<open>mlo\<close> set gets a device over the radios of its bands, unless one is declared.\<close>

definition derive_mld :: "radio_map \<Rightarrow> string \<times> json \<Rightarrow> obj \<Rightarrow> obj" where
  "derive_mld radios = (\<lambda>(wnid, j) declared.
     let wnet = obj_of j in
     if \<not> is_set ''mlo'' wnet \<or> \<not> on_by_default ''enabled'' wnet \<or>
        list_ex (\<lambda>(_, m). get_null ''wireless_network'' (obj_of m) = JStr wnid) declared
     then declared
     else dset (''mlo-'' @ wnid) (JObj
       [(''name'', JStr (text_or wnid ''ssid'' wnet @ '' MLO'')), (''wireless_network'', JStr wnid),
        (''links'', JList (map (\<lambda>(rid, _). JStr rid)
           (filter (\<lambda>(_, caps). band_selected caps wnet) (sorted_items radios)))),
        (''enabled'', JBool True), (''link_steering'', JStr ''auto''), (''derived'', JBool True)]) declared)"

definition declared_mlds :: "radio_map \<Rightarrow> obj \<Rightarrow> obj" where
  "declared_mlds radios wifi =
     fold (derive_mld radios) (sorted_items (sub ''networks'' wifi)) (sub ''mlds'' wifi)"

record mld_entry =
  me_id :: string
  me_name :: string
  me_mac :: string
  me_network :: string
  me_radios :: "string list"
  me_link_ids :: "(string \<times> nat) list"
  me_steering :: string
  me_derived :: bool

definition mld_entry_of :: "string \<Rightarrow> obj \<Rightarrow> string list \<Rightarrow> string \<Rightarrow> verr + mld_entry" where
  "mld_entry_of mid mld link_radios mac =
     rbind (need_text ''wireless_network'' mld) (\<lambda>wnid. Inr
       \<lparr>me_id = mid, me_name = text_or mid ''name'' mld, me_mac = mac, me_network = wnid,
        me_radios = link_radios,
        me_link_ids = fold (\<lambda>(i, rid). AList.update rid i) (zip [0..<length link_radios] link_radios) [],
        me_steering = text_or ''auto'' ''link_steering'' mld, me_derived = is_set ''derived'' mld\<rparr>)"

text \<open>One declared device: a warning, or its entry. The primary address is that of the first radio by id.\<close>

definition plan_mld :: "radio_map \<Rightarrow> nat \<times> string \<times> json \<Rightarrow> verr + (string list \<times> mld_entry list)" where
  "plan_mld radios = (\<lambda>(index, mid, j).
     let mld = obj_of j;
         link_radios = filter (\<lambda>r. r \<in> fst ` set radios) (map text_of (arr ''links'' mld))
     in if \<not> on_by_default ''enabled'' mld then Inr ([], [])
        else if length link_radios < 2
        then Inr ([''MLD '' @ mid @ '': fewer than two of its radios are present; MLO will not be started''], [])
        else let primary = the_default [] (map_of radios (hd (sort link_radios))) in
          if \<not> is_set ''mac'' primary
          then Inr ([''MLD '' @ mid @ '': primary radio has no MAC; skipping''], [])
          else rbind (if is_set ''mld_mac'' mld then Inr (text_of (get_null ''mld_mac'' mld))
                      else mld_mac (text_of (get_null ''mac'' primary)) (int index)) (\<lambda>mac.
               rbind (mld_entry_of mid mld link_radios mac) (\<lambda>e. Inr ([], [e]))))"

definition plan_mlds :: "radio_map \<Rightarrow> obj \<Rightarrow> verr + (string list \<times> mld_entry list)" where
  "plan_mlds radios declared =
     (let ds = sorted_items declared in
      rbind (rmap (plan_mld radios) (zip [0..<length ds] ds)) (\<lambda>rs.
        Inr (concat (map fst rs), concat (map snd rs))))"

text \<open>\<open>mld_by_network.setdefault\<close>: the first device of a network.\<close>

definition mld_for :: "mld_entry list \<Rightarrow> string \<Rightarrow> mld_entry option" where
  "mld_for mlds wnid = find (\<lambda>e. me_network e = wnid) mlds"

text \<open>The radio whose interface name the whole device borrows: the lowest band.\<close>

definition mld_anchor_radio :: "radio_map \<Rightarrow> mld_entry \<Rightarrow> string" where
  "mld_anchor_radio radios e =
     hd (sort_key (\<lambda>r. (band_order (the_default [] (map_of radios r)), r)) (me_radios e))"

subsection \<open>Placing the networks\<close>

record link_plan =
  lk_caps :: obj
  lk_config :: obj
  lk_bsses :: "obj list"

record wifi_plan =
  wp_links :: "(string \<times> link_plan) list"
  wp_mlds :: "mld_entry list"
  wp_bsses :: "(string \<times> obj) list"
  wp_warnings :: "string list"

definition plan_warning :: "string \<Rightarrow> wifi_plan \<Rightarrow> wifi_plan" where
  "plan_warning w p = p\<lparr>wp_warnings := wp_warnings p @ [w]\<rparr>"

definition bss_security :: "obj \<Rightarrow> obj" where
  "bss_security wnet = dset ''fast_transition'' (get_or (JBool False) ''fast_roaming'' wnet) (sub ''security'' wnet)"

definition mld_fields :: "radio_map \<Rightarrow> string \<Rightarrow> int \<Rightarrow> mld_entry option \<Rightarrow> obj" where
  "mld_fields radios rid n mld = (case mld of
     Some e \<Rightarrow> (if rid \<in> set (me_radios e)
        then [(''mld'', JObj [(''id'', JStr (me_id e)), (''mld_mac'', JStr (me_mac e)),
                 (''link_id'', JInt (int (the_default 0 (map_of (me_link_ids e) rid))))]),
              (''netdev'', JStr (iface_name (mld_anchor_radio radios e) n))]
        else [(''mld'', JNull)])
   | None \<Rightarrow> [(''mld'', JNull)])"

definition copied :: "obj \<Rightarrow> (string \<times> json) list \<Rightarrow> obj" where
  "copied wnet ks = map (\<lambda>(k, dflt). (k, get_or dflt k wnet)) ks"

definition bss_of :: "radio_map \<Rightarrow> obj \<Rightarrow> string \<Rightarrow> obj \<Rightarrow> string \<Rightarrow> obj \<Rightarrow> int \<Rightarrow> string \<Rightarrow> mld_entry option
    \<Rightarrow> verr + obj" where
  "bss_of radios net wnid wnet rid caps n address mld =
     rbind (subscript (JObj wnet) ''ssid'') (\<lambda>ssid. Inr
       ([(''interface'', JStr (iface_name rid n)), (''radio'', JStr rid),
         (''band'', get_null ''band'' caps), (''wireless_network'', JStr wnid),
         (''ssid'', ssid), (''bssid'', JStr address), (''hidden'', get_or (JBool False) ''hidden'' wnet),
         (''bridge'', JStr (if get_null ''uplink'' wnet = JStr ''wan'' then WAN_BRIDGE else BRIDGE)),
         (''vlan'', get_null ''vlan'' net)] @
        copied wnet [(''network'', JStr ''default''), (''client_isolation'', JBool False),
          (''max_clients'', JNull), (''min_rssi'', JNull)] @
        [(''security'', JObj (bss_security wnet))] @
        copied wnet [(''fast_roaming'', JBool False), (''bss_transition'', JBool True),
          (''proxy_arp'', JBool False), (''uapsd'', JBool False), (''auto_dtim'', JBool True),
          (''dtim_period'', JInt 2), (''group_rekey_interval'', JBool False),
          (''group_rekey_seconds'', JInt 3600), (''mac_filter'', JBool False),
          (''mac_filter_policy'', JStr ''deny''), (''mac_filter_list'', JList []),
          (''radius_mac_auth'', JBool False), (''multicast_broadcast_blocker'', JBool False),
          (''multicast_to_unicast'', JBool False), (''minimum_data_rate'', JBool False),
          (''neighbor_report'', JBool True)] @
        [(''slot'', JInt n)] @ mld_fields radios rid n mld))"

definition add_bss :: "string \<Rightarrow> obj \<Rightarrow> obj \<Rightarrow> string \<Rightarrow> obj \<Rightarrow> wifi_plan \<Rightarrow> wifi_plan" where
  "add_bss rid caps radio_cfg iface bss p =
     (let link = the_default \<lparr>lk_caps = caps, lk_config = radio_cfg, lk_bsses = []\<rparr> (map_of (wp_links p) rid)
      in p\<lparr>wp_bsses := AList.update iface bss (wp_bsses p),
           wp_links := AList.update rid (link\<lparr>lk_bsses := lk_bsses link @ [bss]\<rparr>) (wp_links p)\<rparr>)"

definition bss_limit :: "obj \<Rightarrow> verr + int" where
  "bss_limit caps = (case get_or (JInt 8) ''max_ap_bss'' caps of JInt n \<Rightarrow> Inr n | _ \<Rightarrow> Inl (Raised TypeError))"

definition no_slot_warning :: "string \<Rightarrow> string \<Rightarrow> int \<Rightarrow> string" where
  "no_slot_warning rid wnid limit = ''radio '' @ rid @ '' cannot host more than '' @ show_int limit @
     '' BSSes; '' @ [CHR 0x27] @ wnid @ [CHR 0x27] @ '' was not started''"

text \<open>One network on one radio.\<close>

definition place :: "obj \<Rightarrow> radio_map \<Rightarrow> mld_entry list \<Rightarrow> (string \<times> json) \<times> (string \<times> obj)
    \<Rightarrow> wifi_plan \<times> slot_store \<Rightarrow> verr + wifi_plan \<times> slot_store" where
  "place cfg radios mlds = (\<lambda>((wnid, j), (rid, caps)) (p, st).
     let wnet = obj_of j; wifi = sub ''wifi'' cfg; radio_cfg = sub rid (sub ''radios'' wifi);
         net = sub (text_or ''default'' ''network'' wnet) (sub ''networks'' cfg)
     in if \<not> band_selected caps wnet \<or> \<not> on_by_default ''enabled'' radio_cfg then Inr (p, st)
        else if \<not> on_by_default ''ap_supported'' caps
        then Inr (plan_warning (''radio '' @ rid @ '' does not support AP mode'') p, st)
        else rbind (bss_limit caps) (\<lambda>limit.
          case slot rid wnid limit st of
            (None, st1) \<Rightarrow> Inr (plan_warning (no_slot_warning rid wnid limit) p, st1)
          | (Some n, st1) \<Rightarrow>
              rbind (bssid (radio_mac caps) n (int (the_default 0 (map_of (radio_ordinals radios) rid)))) (\<lambda>address.
              rbind (bss_of radios net wnid wnet rid caps n address (mld_for mlds wnid)) (\<lambda>bss.
                Inr (add_bss rid caps radio_cfg (iface_name rid n) bss p, st1)))))"

fun rfold :: "('a \<Rightarrow> 's \<Rightarrow> 'e + 's) \<Rightarrow> 'a list \<Rightarrow> 's \<Rightarrow> 'e + 's" where
  "rfold f [] s = Inr s"
| "rfold f (x # xs) s = rbind (f x s) (rfold f xs)"

definition enabled_networks :: "obj \<Rightarrow> (string \<times> json) list" where
  "enabled_networks wifi = filter (\<lambda>(_, j). on_by_default ''enabled'' (obj_of j)) (sorted_items (sub ''networks'' wifi))"

definition live_networks :: "obj \<Rightarrow> radio_map \<Rightarrow> (string \<times> string list) list" where
  "live_networks wifi radios = map (\<lambda>(rid, caps). (rid, map fst (filter (\<lambda>(_, j).
     on_by_default ''enabled'' (obj_of j) \<and> band_selected caps (obj_of j)) (sub ''networks'' wifi)))) radios"

definition build_plan :: "obj \<Rightarrow> radio_map \<Rightarrow> slot_store \<Rightarrow> verr + wifi_plan \<times> slot_store" where
  "build_plan cfg radios st =
     (let wifi = sub ''wifi'' cfg in
      rbind (plan_mlds radios (declared_mlds radios wifi)) (\<lambda>(warnings, mlds).
        rfold (place cfg radios mlds) (List.product (enabled_networks wifi) (sorted_items radios))
          (\<lparr>wp_links = [], wp_mlds = mlds, wp_bsses = [], wp_warnings = warnings\<rparr>,
           prune (live_networks wifi radios) st)))"

text \<open>The configuration handed to the renderer for one link of the plan.\<close>

definition radio_config :: "obj \<Rightarrow> string \<Rightarrow> link_plan \<Rightarrow> obj" where
  "radio_config cfg rid link =
     setdefault ''six_ghz_power'' (get_or (JStr ''lpi'') ''six_ghz_power'' (sub ''regulatory'' (sub ''wifi'' cfg)))
       (setdefault ''band'' (get_null ''band'' (lk_caps link)) (dset ''id'' (JStr rid) (lk_config link)))"

definition render_links :: "obj \<Rightarrow> wifi_plan \<Rightarrow> verr + (string \<times> string) list" where
  "render_links cfg plan = (let wifi = sub ''wifi'' cfg in
     rmap (\<lambda>(rid, link). rbind (render_link_config (radio_config cfg rid link) (lk_caps link) (lk_bsses link)
         (text_or ''US'' ''country'' wifi) (sub ''radius'' wifi) (sub ''regulatory'' wifi))
       (\<lambda>body. Inr (rid, body))) (sorted_items (wp_links plan)))"

text \<open>\<open>WifiDaemon.preflight\<close>; the availability of MLO and of hostapd are arguments.\<close>

definition wifi_preflight :: "bool \<times> string \<Rightarrow> bool \<Rightarrow> radio_map \<Rightarrow> obj \<Rightarrow> bool \<times> string list" where
  "wifi_preflight mlo hostapd_available radios cfg =
     (let wifi = sub ''wifi'' cfg;
          problems =
            (if list_ex (\<lambda>(_, m). on_by_default ''enabled'' (obj_of m)) (sub ''mlds'' wifi) \<and> \<not> fst mlo
             then [''MLO is configured but not available: '' @
               (if snd mlo \<noteq> [] then snd mlo else ''hardware or hostapd lacks MLD support'')] else []) @
            map (\<lambda>(rid, _). ''configured radio '' @ [CHR 0x27] @ rid @ [CHR 0x27] @ '' is not present'')
              (filter (\<lambda>(rid, _). rid \<notin> fst ` set radios) (sub ''radios'' wifi)) @
            (if sub ''networks'' wifi \<noteq> [] \<and> \<not> hostapd_available
             then [''hostapd is not installed; wireless cannot be started''] else [])
      in (problems = [], problems))"

end
