(* ===== verification/WifiSafety.thy ===== *)
theory WifiSafety
  imports WifiPlan SchemaSound
begin

text \<open>
  What the wireless plan guarantees: slots are stable and never shared, so the BSSIDs of radios behind
  one address are distinct; and two things it does not do: the links of a multi-link device need not
  share an interface, and the MAC filter never reaches hostapd.
\<close>

subsection \<open>Slots\<close>

definition radio_slots_ok :: "(string \<times> int) list \<Rightarrow> bool" where
  "radio_slots_ok s \<longleftrightarrow> distinct (map fst s) \<and> distinct (map snd s) \<and> (\<forall>n \<in> snd ` set s. 0 \<le> n)"

definition slots_ok :: "slot_map \<Rightarrow> bool" where
  "slots_ok m \<longleftrightarrow> (\<forall>rid. radio_slots_ok (slots_of rid m))"

definition slot_at :: "slot_map \<Rightarrow> string \<Rightarrow> string \<Rightarrow> int option" where
  "slot_at m rid wnid = map_of (slots_of rid m) wnid"

lemma slots_of_update [simp]: "slots_of r (AList.update rid s m) = (if r = rid then s else slots_of r m)"
  by (simp add: slots_of_def update_conv' the_default_def)

lemma slots_ok_update: "slots_ok m \<Longrightarrow> radio_slots_ok s \<Longrightarrow> slots_ok (AList.update rid s m)"
  by (simp add: slots_ok_def)

lemma update_fresh: "map_of s k = None \<Longrightarrow> AList.update k v s = s @ [(k, v)]"
  by (induction s) (auto split: if_splits)

lemma radio_slots_add:
  assumes "radio_slots_ok s" and "map_of s wnid = None" and "n \<notin> snd ` set s" and "0 \<le> n"
  shows "radio_slots_ok (AList.update wnid n s)"
  using assms by (auto simp: radio_slots_ok_def update_fresh map_of_eq_None_iff)

lemma free_slotD: "free_slot limit s = Some n \<Longrightarrow> 0 \<le> n \<and> n < limit \<and> n \<notin> snd ` set s"
  by (auto simp: free_slot_def find_Some_iff)

lemma slots_inject:
  assumes "slots_ok m" and "slot_at m rid w = Some n" and "slot_at m rid w' = Some n"
  shows "w = w'"
proof -
  have "(w, n) \<in> set (slots_of rid m)" "(w', n) \<in> set (slots_of rid m)"
    using assms(2,3) by (auto simp: slot_at_def dest: map_of_SomeD)
  moreover have "distinct (map snd (slots_of rid m))" using assms(1) by (simp add: slots_ok_def radio_slots_ok_def)
  ultimately show ?thesis unfolding distinct_map inj_on_def by fastforce
qed

lemma slot_cases:
  assumes "slot rid wnid limit st = (r, st')"
  obtains (old) k where "slot_at (ss_map st) rid wnid = Some k" "r = (if k < limit then Some k else None)"
      "ss_map st' = AList.update rid (slots_of rid (ss_map st)) (ss_map st)"
    | (full) "slot_at (ss_map st) rid wnid = None" "r = None"
      "ss_map st' = AList.update rid (slots_of rid (ss_map st)) (ss_map st)"
    | (fresh) k where "slot_at (ss_map st) rid wnid = None" "0 \<le> k" "k < limit"
      "k \<notin> snd ` set (slots_of rid (ss_map st))" "r = Some k"
      "ss_map st' = AList.update rid (AList.update wnid k (slots_of rid (ss_map st))) (ss_map st)"
proof (cases "slot_at (ss_map st) rid wnid")
  case (Some k)
  with assms show thesis by (intro old [of k]) (auto simp: slot_def slot_at_def Let_def)
next
  case None
  show thesis
  proof (cases "free_slot limit (slots_of rid (ss_map st))")
    case None
    with assms \<open>slot_at (ss_map st) rid wnid = None\<close> show thesis
      by (intro full) (auto simp: slot_def slot_at_def Let_def)
  next
    case (Some k)
    with assms \<open>slot_at (ss_map st) rid wnid = None\<close> free_slotD [OF Some] show thesis
      by (intro fresh [of k]) (auto simp: slot_def slot_at_def Let_def)
  qed
qed

text \<open>Asking for a slot keeps what is assigned, and the answer is what is assigned afterwards.\<close>

lemma slot_spec:
  assumes "slot rid wnid limit st = (r, st')"
  shows "slot_at (ss_map st) rid' w = Some n \<Longrightarrow> slot_at (ss_map st') rid' w = Some n"
    and "slots_ok (ss_map st) \<Longrightarrow> slots_ok (ss_map st')"
    and "r = Some n' \<Longrightarrow> slots_ok (ss_map st) \<Longrightarrow> slot_at (ss_map st') rid wnid = Some n' \<and> 0 \<le> n' \<and> n' < limit"
proof -
  show "slot_at (ss_map st') rid' w = Some n" if "slot_at (ss_map st) rid' w = Some n"
    using assms that by (cases rule: slot_cases) (auto simp: slot_at_def update_conv')
  show "slots_ok (ss_map st')" if "slots_ok (ss_map st)"
    using assms
  proof (cases rule: slot_cases)
    case (fresh k)
    with that show ?thesis
      by (simp add: slots_ok_def slot_at_def radio_slots_add)
  qed (use that in \<open>simp_all add: slots_ok_def\<close>)
  show "slot_at (ss_map st') rid wnid = Some n' \<and> 0 \<le> n' \<and> n' < limit" if "r = Some n'" "slots_ok (ss_map st)"
    using assms
  proof (cases rule: slot_cases)
    case (old k)
    then have "(wnid, k) \<in> set (slots_of rid (ss_map st))" by (simp add: slot_at_def map_of_SomeD)
    then have "0 \<le> k" using that(2) unfolding slots_ok_def radio_slots_ok_def by force
    with old that(1) show ?thesis by (simp add: slot_at_def split: if_splits)
  next
    case (fresh k)
    with that(1) show ?thesis by (simp add: slot_at_def update_conv')
  qed (use that in simp)
qed

definition pruned :: "(string \<times> string list) list \<Rightarrow> slot_map \<Rightarrow> slot_map" where
  "pruned live = List.map_filter (\<lambda>(rid, slots). case map_of live rid of None \<Rightarrow> None
     | Some wnids \<Rightarrow> Some (rid, filter (\<lambda>(wnid, _). wnid \<in> set wnids) slots))"

lemma pruned_Cons: "pruned live ((rid, slots) # m) = (case map_of live rid of None \<Rightarrow> pruned live m
    | Some wnids \<Rightarrow> (rid, filter (\<lambda>(wnid, _). wnid \<in> set wnids) slots) # pruned live m)"
  by (simp add: pruned_def List.map_filter_simps split: option.splits)

lemma slots_of_Cons: "slots_of r ((rid, s) # m) = (if r = rid then s else slots_of r m)"
  by (simp add: slots_of_def the_default_def)

lemma slots_of_pruned: "slots_of r (pruned live m) =
   (case map_of live r of None \<Rightarrow> [] | Some wnids \<Rightarrow> filter (\<lambda>(wnid, _). wnid \<in> set wnids) (slots_of r m))"
proof (induction m)
  case Nil
  then show ?case by (simp add: pruned_def slots_of_def the_default_def List.map_filter_simps split: option.splits)
next
  case (Cons x m)
  obtain rid slots where x: "x = (rid, slots)" by fastforce
  show ?case
    using Cons.IH by (cases "map_of live rid"; cases "map_of live r"; cases "r = rid") (simp_all add: x pruned_Cons slots_of_Cons)
qed

lemma slots_of_prune:
  "slots_of r (ss_map (prune live st)) =
   (case map_of live r of None \<Rightarrow> [] | Some wnids \<Rightarrow> filter (\<lambda>(wnid, _). wnid \<in> set wnids) (slots_of r (ss_map st)))"
  using slots_of_pruned [of r live "ss_map st"] unfolding prune_def Let_def pruned_def [symmetric]
  by (cases "pruned live (ss_map st) = ss_map st") simp_all

lemma radio_slots_filter: "radio_slots_ok s \<Longrightarrow> radio_slots_ok (filter P s)"
  by (auto simp: radio_slots_ok_def distinct_map_filter)

lemma radio_slots_Nil [simp]: "radio_slots_ok []"
  by (simp add: radio_slots_ok_def)

lemma prune_ok: "slots_ok (ss_map st) \<Longrightarrow> slots_ok (ss_map (prune live st))"
  unfolding slots_ok_def slots_of_prune by (simp add: radio_slots_filter split: option.splits)

lemma map_of_filter_key: "P k \<Longrightarrow> map_of (filter (\<lambda>(k, _). P k) s) k = map_of s k"
  by (induction s) auto

lemma prune_keeps:
  assumes "slot_at (ss_map st) rid w = Some n" and "map_of live rid = Some wnids" and "w \<in> set wnids"
  shows "slot_at (ss_map (prune live st)) rid w = Some n"
  using assms by (simp add: slot_at_def slots_of_prune map_of_filter_key)

datatype slot_op = Ask string string int | Prune "(string \<times> string list) list"

fun slot_step :: "slot_op \<Rightarrow> slot_store \<Rightarrow> slot_store" where
  "slot_step (Ask rid wnid limit) st = snd (slot rid wnid limit st)"
| "slot_step (Prune live) st = prune live st"

fun keeps :: "string \<Rightarrow> string \<Rightarrow> slot_op \<Rightarrow> bool" where
  "keeps rid wnid (Ask _ _ _) = True"
| "keeps rid wnid (Prune live) = (case map_of live rid of None \<Rightarrow> False | Some wnids \<Rightarrow> wnid \<in> set wnids)"

lemma step_ok: "slots_ok (ss_map st) \<Longrightarrow> slots_ok (ss_map (slot_step op st))"
  by (cases op) (auto simp: prune_ok intro: slot_spec(2) [OF surjective_pairing])

lemma step_keeps:
  "slot_at (ss_map st) rid w = Some n \<Longrightarrow> keeps rid w op \<Longrightarrow> slot_at (ss_map (slot_step op st)) rid w = Some n"
  by (cases op) (auto intro: prune_keeps slot_spec(1) [OF surjective_pairing] split: option.splits)

lemma steps_ok:
  assumes "slots_ok (ss_map st)"
  shows "slots_ok (ss_map (fold slot_step ops st))"
  using assms by (induction ops arbitrary: st) (simp_all add: step_ok)

lemma steps_keep:
  assumes "slot_at (ss_map st) rid w = Some n" and "list_all (keeps rid w) ops"
  shows "slot_at (ss_map (fold slot_step ops st)) rid w = Some n"
  using assms by (induction ops arbitrary: st) (simp_all add: step_keeps)

text \<open>C24. A slot, once given, stays: whatever other networks come and go and whatever is planned again,
  the network keeps its slot on a radio as long as no pruning finds it gone there. And at no time
  do two networks have the same slot on a radio. Together that keeps BSSIDs stable and apart.\<close>

theorem slots_stable_and_distinct:
  assumes "slots_ok (ss_map st)" and "slot_at (ss_map st) rid w = Some n" and "list_all (keeps rid w) ops"
  shows "let m = ss_map (fold slot_step ops st) in
    slot_at m rid w = Some n \<and> (\<forall>rid' u v k. slot_at m rid' u = Some k \<and> slot_at m rid' v = Some k \<longrightarrow> u = v)"
  unfolding Let_def using steps_keep [OF assms(2,3)] slots_inject [OF steps_ok [OF assms(1)]] by blast

lemma slots_stable_and_distinct_witness:
  "slot_at (ss_map (fold slot_step [Ask ''radio-5g'' ''attic'' 8, Prune [(''radio-5g'', [''home''])], Ask ''radio-5g'' ''den'' 8]
     \<lparr>ss_map = [(''radio-5g'', [(''home'', 1)])], ss_saved = []\<rparr>)) ''radio-5g'' ''home'' = Some 1"
proof -
  let ?st = "\<lparr>ss_map = [(''radio-5g'', [(''home'', 1)])], ss_saved = []\<rparr>"
  have "slots_ok (ss_map ?st)" by (simp add: slots_ok_def slots_of_def the_default_def radio_slots_ok_def)
  moreover have "slot_at (ss_map ?st) ''radio-5g'' ''home'' = Some 1"
    by (simp add: slot_at_def slots_of_def the_default_def)
  moreover have "list_all (keeps ''radio-5g'' ''home'')
      [Ask ''radio-5g'' ''attic'' 8, Prune [(''radio-5g'', [''home''])], Ask ''radio-5g'' ''den'' 8]"
    by simp
  ultimately show ?thesis using slots_stable_and_distinct unfolding Let_def by blast
qed

subsection \<open>The BSSes of a plan\<close>

text \<open>What is known of a BSS of the plan, on the radio \<open>rid\<close> and given the slots.\<close>

definition bss_ordinal :: "radio_map \<Rightarrow> string \<Rightarrow> int" where
  "bss_ordinal radios rid = int (the_default 0 (map_of (radio_ordinals radios) rid))"

definition bss_good :: "radio_map \<Rightarrow> slot_map \<Rightarrow> string \<Rightarrow> obj \<Rightarrow> bool" where
  "bss_good radios m rid b \<longleftrightarrow> (\<exists>caps wnid n limit address. (rid, caps) \<in> set radios \<and>
     bss_limit caps = Inr limit \<and> 0 \<le> n \<and> n < limit \<and> slot_at m rid wnid = Some n \<and>
     get_null ''wireless_network'' b = JStr wnid \<and> get_null ''bssid'' b = JStr address \<and>
     bssid (radio_mac caps) n (bss_ordinal radios rid) = Inr address \<and>
     get_null ''mac_filter_file'' b = JNull)"

definition plan_good :: "radio_map \<Rightarrow> wifi_plan \<Rightarrow> slot_store \<Rightarrow> bool" where
  "plan_good radios p st \<longleftrightarrow> slots_ok (ss_map st) \<and>
     (\<forall>(rid, link) \<in> set (wp_links p). \<forall>b \<in> set (lk_bsses link). bss_good radios (ss_map st) rid b)"

lemma bss_good_mono:
  assumes "bss_good radios m rid b"
    and "\<And>rid w n. slot_at m rid w = Some n \<Longrightarrow> slot_at m' rid w = Some n"
  shows "bss_good radios m' rid b"
  using assms unfolding bss_good_def by blast

lemma plan_good_warning [simp]: "plan_good radios (plan_warning w p) st = plan_good radios p st"
  by (simp add: plan_good_def plan_warning_def)

lemma plan_good_slots:
  assumes "plan_good radios p st" and "slot rid wnid limit st = (r, st')"
  shows "plan_good radios p st'"
  using assms bss_good_mono [OF _ slot_spec(1) [OF assms(2)]] slot_spec(2) [OF assms(2)]
  unfolding plan_good_def by blast

lemma get_null_Cons: "get_null k ((k', v) # d) = (if k = k' then v else get_null k d)"
  by (simp add: get_null_def get_or_def)

lemma get_null_absent:
  assumes "k \<notin> fst ` set d"
  shows "get_null k d = JNull"
proof -
  have "map_of d k = None" using assms by (simp add: map_of_eq_None_iff)
  then show ?thesis by (simp add: get_null_def get_or_def)
qed

lemma mld_fields_keys: "fst ` set (mld_fields radios rid n mld) \<subseteq> {''mld'', ''netdev''}"
  by (auto simp: mld_fields_def split: option.splits)

lemma bss_of_fields:
  assumes "bss_of radios net wnid wnet rid caps n address mld = Inr b"
  shows "get_null ''wireless_network'' b = JStr wnid" and "get_null ''bssid'' b = JStr address"
    and "get_null ''mac_filter_file'' b = JNull" and "get_null ''mac_filter'' b = get_or (JBool False) ''mac_filter'' wnet"
proof -
  obtain ssid where "b = [(''interface'', JStr (iface_name rid n)), (''radio'', JStr rid),
         (''band'', get_null ''band'' caps), (''wireless_network'', JStr wnid),
         (''ssid'', ssid), (''bssid'', JStr address), (''hidden'', get_or (JBool False) ''hidden'' wnet),
         (''bridge'', JStr (if get_null ''uplink'' wnet = JStr ''wan'' then WAN_BRIDGE else BRIDGE)),
         (''vlan'', get_null ''vlan'' net)] @
        copied wnet [(''network'', JStr ''default''), (''client_isolation'', JBool False),
          (''max_clients'', JNull), (''min_rssi'', JNull)] @
        [(''security'', JObj (bss_security wnet))] @
        copied wnet [(''fast_roaming'', JBool False), (''bss_transition'', JBool True),
          (''proxy_arp'', JBool False), (''uapsd'', JBool False), (''auto_dtim'', JBool True),
          (''dtim_period'', JInt 2), (''group_rekey_interval'', JBool False),
          (''group_rekey_seconds'', JInt 3600), (''mac_filter'', JBool False),
          (''mac_filter_policy'', JStr ''deny''), (''mac_filter_list'', JList []),
          (''radius_mac_auth'', JBool False), (''multicast_broadcast_blocker'', JBool False),
          (''multicast_to_unicast'', JBool False), (''minimum_data_rate'', JBool False),
          (''neighbor_report'', JBool True)] @
        [(''slot'', JInt n)] @ mld_fields radios rid n mld"
    using assms unfolding bss_of_def rbind_eq_Inr by blast
  note b = this [unfolded copied_def, simplified]
  show "get_null ''wireless_network'' b = JStr wnid" "get_null ''bssid'' b = JStr address"
    by (simp_all add: b get_null_Cons)
  show "get_null ''mac_filter_file'' b = JNull"
    using mld_fields_keys [of radios rid n mld] by (auto simp: b get_null_Cons intro: get_null_absent)
  show "get_null ''mac_filter'' b = get_or (JBool False) ''mac_filter'' wnet"
    by (simp add: b get_null_Cons)
qed

lemma set_update: "x \<in> set (AList.update k v d) \<Longrightarrow> x = (k, v) \<or> x \<in> set d"
  by (induction d) (auto split: if_splits)

lemma add_bss_good:
  assumes "plan_good radios p st" and "bss_good radios (ss_map st) rid bss"
  shows "plan_good radios (add_bss rid caps radio_cfg iface bss p) st"
proof -
  let ?link = "the_default \<lparr>lk_caps = caps, lk_config = radio_cfg, lk_bsses = []\<rparr> (map_of (wp_links p) rid)"
  have good: "bss_good radios (ss_map st) r b" if "(r, link) \<in> set (wp_links p)" "b \<in> set (lk_bsses link)" for r link b
    using assms(1) that unfolding plan_good_def by fastforce
  have "bss_good radios (ss_map st) rid b" if "b \<in> set (lk_bsses ?link)" for b
    using that by (cases "map_of (wp_links p) rid") (auto simp: the_default_def dest: map_of_SomeD intro: good)
  with assms good show ?thesis
    by (auto simp: plan_good_def add_bss_def Let_def dest!: set_update)
qed

lemma place_good:
  assumes "place cfg radios mlds ((wnid, j), (rid, caps)) (p, st) = Inr (p', st')"
    and "plan_good radios p st" and "(rid, caps) \<in> set radios"
  shows "plan_good radios p' st'"
proof (cases "\<not> band_selected caps (obj_of j) \<or> \<not> on_by_default ''enabled'' (sub rid (sub ''radios'' (sub ''wifi'' cfg)))
    \<or> \<not> on_by_default ''ap_supported'' caps")
  case True
  then show ?thesis using assms(1,2) by (auto simp: place_def Let_def split: if_splits)
next
  case False
  from False assms(1) obtain limit where limit: "bss_limit caps = Inr limit"
    and run: "(case slot rid wnid limit st of
       (None, st1) \<Rightarrow> Inr (plan_warning (no_slot_warning rid wnid limit) p, st1)
     | (Some n, st1) \<Rightarrow>
         rbind (bssid (radio_mac caps) n (bss_ordinal radios rid)) (\<lambda>address.
         rbind (bss_of radios (sub (text_or ''default'' ''network'' (obj_of j)) (sub ''networks'' cfg)) wnid (obj_of j)
             rid caps n address (mld_for mlds wnid)) (\<lambda>bss.
           Inr (add_bss rid caps (sub rid (sub ''radios'' (sub ''wifi'' cfg))) (iface_name rid n) bss p, st1)))) = Inr (p', st')"
    unfolding place_def Let_def bss_ordinal_def prod.case by (simp add: rbind_eq_Inr) blast
  obtain r st1 where sl: "slot rid wnid limit st = (r, st1)" by fastforce
  note good = plan_good_slots [OF assms(2) sl]
  show ?thesis
  proof (cases r)
    case None
    with run sl good show ?thesis by auto
  next
    case (Some n)
    with run sl obtain address net radio_cfg iface bss where
      st: "st' = st1" and a: "bssid (radio_mac caps) n (bss_ordinal radios rid) = Inr address"
      and b: "bss_of radios net wnid (obj_of j) rid caps n address (mld_for mlds wnid) = Inr bss"
      and p': "p' = add_bss rid caps radio_cfg iface bss p"
      by (auto simp: rbind_eq_Inr)
    have "slots_ok (ss_map st)" using assms(2) by (simp add: plan_good_def)
    from slot_spec(3) [OF sl Some this]
    have "bss_good radios (ss_map st1) rid bss"
      unfolding bss_good_def using assms(3) limit a bss_of_fields(1-3) [OF b] by blast
    then show ?thesis unfolding p' st by (rule add_bss_good [OF good])
  qed
qed

lemma rfold_invariant:
  assumes "rfold f xs s = Inr s'" and "I s" and "\<And>x s s'. x \<in> set xs \<Longrightarrow> I s \<Longrightarrow> f x s = Inr s' \<Longrightarrow> I s'"
  shows "I s'"
  using assms by (induction xs arbitrary: s) (auto simp: rbind_eq_Inr)

lemma build_plan_good:
  assumes "build_plan cfg radios st = Inr (p, st')" and "slots_ok (ss_map st)"
  shows "plan_good radios p st'"
proof -
  let ?st = "prune (live_networks (sub ''wifi'' cfg) radios) st"
  obtain warnings mlds where run: "rfold (place cfg radios mlds)
      (List.product (enabled_networks (sub ''wifi'' cfg)) (sorted_items radios))
      (\<lparr>wp_links = [], wp_mlds = mlds, wp_bsses = [], wp_warnings = warnings\<rparr>, ?st) = Inr (p, st')"
    using assms(1) by (auto simp: build_plan_def Let_def rbind_eq_Inr)
  have "case (p, st') of (p, st) \<Rightarrow> plan_good radios p st"
  proof (rule rfold_invariant [OF run])
    show "case (\<lparr>wp_links = [], wp_mlds = mlds, wp_bsses = [], wp_warnings = warnings\<rparr>, ?st) of
        (p, st) \<Rightarrow> plan_good radios p st"
      using prune_ok [OF assms(2)] by (simp add: plan_good_def)
  next
    fix x s s'
    assume x: "x \<in> set (List.product (enabled_networks (sub ''wifi'' cfg)) (sorted_items radios))"
      and "case s of (p, st) \<Rightarrow> plan_good radios p st" "place cfg radios mlds x s = Inr s'"
    moreover obtain wnid j rid caps where "x = ((wnid, j), (rid, caps))" by (metis surj_pair)
    moreover from this x have "(rid, caps) \<in> set radios" by auto
    ultimately show "case s' of (p, st) \<Rightarrow> plan_good radios p st"
      by (cases s; cases s') (auto intro: place_good)
  qed
  then show ?thesis by simp
qed

subsection \<open>Ordinals\<close>

lemma ordinals_range:
  assumes "(rid, caps) \<in> set radios" and "distinct (map fst radios)"
  shows "\<exists>n. map_of (ordinals radios seen) rid = Some n \<and>
    the_default 0 (map_of seen (normalise_mac (radio_mac caps))) \<le> n \<and>
    n < the_default 0 (map_of seen (normalise_mac (radio_mac caps))) + length radios"
  using assms
proof (induction radios arbitrary: seen)
  case (Cons x radios)
  obtain r c where x: "x = (r, c)" by fastforce
  let ?mac = "normalise_mac (radio_mac c)" and ?m = "normalise_mac (radio_mac caps)"
  let ?seen = "AList.update ?mac (the_default 0 (map_of seen ?mac) + 1) seen"
  show ?case
  proof (cases "r = rid")
    case True
    with Cons.prems x have "c = caps" by (auto dest: fst_image_mem)
    with True show ?thesis by (simp add: x Let_def)
  next
    case False
    with Cons.prems x have "(rid, caps) \<in> set radios" "distinct (map fst radios)" by auto
    from Cons.IH [OF this, of ?seen] obtain n where n: "map_of (ordinals radios ?seen) rid = Some n"
      "the_default 0 (map_of ?seen ?m) \<le> n" "n < the_default 0 (map_of ?seen ?m) + length radios" by blast
    moreover have "the_default 0 (map_of ?seen ?m) =
        (if ?m = ?mac then the_default 0 (map_of seen ?m) + 1 else the_default 0 (map_of seen ?m))"
      by (simp add: update_conv' the_default_def)
    ultimately show ?thesis using False by (auto simp: x Let_def split: if_splits)
  qed
qed simp

lemma ordinals_differ:
  assumes "(r1, c1) \<in> set radios" "(r2, c2) \<in> set radios" and "distinct (map fst radios)" and "r1 \<noteq> r2"
    and "normalise_mac (radio_mac c1) = normalise_mac (radio_mac c2)"
  shows "map_of (ordinals radios seen) r1 \<noteq> map_of (ordinals radios seen) r2"
  using assms
proof (induction radios arbitrary: seen)
  case (Cons x radios)
  obtain r c where x: "x = (r, c)" by fastforce
  let ?mac = "normalise_mac (radio_mac c)"
  let ?seen = "AList.update ?mac (the_default 0 (map_of seen ?mac) + 1) seen"
  have d: "distinct (map fst radios)" using Cons.prems(3) by simp
  have later: "map_of (ordinals radios ?seen) r' \<noteq> Some (the_default 0 (map_of seen ?mac))"
    if "(r', c') \<in> set radios" "normalise_mac (radio_mac c') = ?mac" for r' c'
    using ordinals_range [OF that(1) d, of ?seen] that(2) by (auto simp: update_conv' the_default_def)
  show ?case
  proof (cases "r = r1 \<or> r = r2")
    case False
    with Cons.prems x have "(r1, c1) \<in> set radios" "(r2, c2) \<in> set radios" by auto
    moreover from False have "r1 \<noteq> r" "r2 \<noteq> r" by auto
    ultimately show ?thesis using Cons.IH [OF _ _ d Cons.prems(4,5), of ?seen] by (simp add: x Let_def)
  next
    case True
    then show ?thesis
    proof
      assume r: "r = r1"
      with Cons.prems x have "(r2, c2) \<in> set radios" "c = c1" by (auto dest: fst_image_mem)
      with later [of r2 c2] Cons.prems(4,5) r show ?thesis by (auto simp: x Let_def eq_commute [of "Some _"])
    next
      assume r: "r = r2"
      with Cons.prems x have "(r1, c1) \<in> set radios" "c = c2" by (auto dest: fst_image_mem)
      with later [of r1 c1] Cons.prems(4,5) r show ?thesis by (auto simp: x Let_def eq_commute [of "Some _"])
    qed
  qed
qed simp

lemma by_band_keys: "distinct (map fst radios) \<Longrightarrow> distinct (map fst (by_band radios))"
  by (simp add: by_band_def distinct_map)

lemma by_band_set [simp]: "set (by_band radios) = set radios"
  by (simp add: by_band_def)

lemma bss_ordinal_spec:
  assumes "(rid, caps) \<in> set radios" and "distinct (map fst radios)"
  shows "0 \<le> bss_ordinal radios rid" and "bss_ordinal radios rid < int (length radios)"
    and "map_of (radio_ordinals radios) rid = Some (nat (bss_ordinal radios rid))"
proof -
  from ordinals_range [of rid caps "by_band radios" "[]"] assms by_band_keys obtain n where
    "map_of (radio_ordinals radios) rid = Some n" "n < length radios"
    by (auto simp: radio_ordinals_def the_default_def by_band_def)
  then show "0 \<le> bss_ordinal radios rid" "bss_ordinal radios rid < int (length radios)"
    "map_of (radio_ordinals radios) rid = Some (nat (bss_ordinal radios rid))"
    by (simp_all add: bss_ordinal_def the_default_def)
qed

lemma bssid_cong: "normalise_mac a = normalise_mac b \<Longrightarrow> bssid a i k = bssid b i k"
  by (simp add: bssid_def derive_mac_def mac_bytes_def)

subsection \<open>Distinct addresses\<close>

text \<open>A radio whose address can be read and that has room for its slots below the next radio's.\<close>

definition radio_fits :: "obj \<Rightarrow> bool" where
  "radio_fits caps \<longleftrightarrow> (case (mac_bytes (radio_mac caps), bss_limit caps) of
     (Inr xs, Inr limit) \<Rightarrow> length xs = 6 \<and> list_all (\<lambda>x. 0 \<le> x \<and> x < 256) xs \<and> limit \<le> MAX_SLOTS | _ \<Rightarrow> False)"

lemma radio_fitsE:
  assumes "radio_fits caps"
  obtains xs limit where "mac_bytes (radio_mac caps) = Inr xs" "octets xs" "bss_limit caps = Inr limit" "limit \<le> 16"
  using assms by (auto simp: radio_fits_def octets_def list_all_iff MAX_SLOTS_def split: sum.splits)

lemma plan_bss:
  assumes "plan_good radios p st" and "(rid, link) \<in> set (wp_links p)" and "b \<in> set (lk_bsses link)"
  shows "bss_good radios (ss_map st) rid b"
  using assms unfolding plan_good_def by fastforce

lemma good_bssE:
  assumes "bss_good radios m rid b" and "distinct (map fst radios)" and "(rid, caps) \<in> set radios"
    and "radio_fits caps" and "length radios \<le> 16"
  obtains wnid n address where "slot_at m rid wnid = Some n" "0 \<le> n" "n < 16"
    "get_null ''wireless_network'' b = JStr wnid" "get_null ''bssid'' b = JStr address"
    "bssid (radio_mac caps) n (bss_ordinal radios rid) = Inr address"
    "0 \<le> bss_ordinal radios rid" "bss_ordinal radios rid < 16"
proof -
  obtain caps' wnid n limit address where b: "(rid, caps') \<in> set radios" "bss_limit caps' = Inr limit"
    "0 \<le> n" "n < limit" "slot_at m rid wnid = Some n" "get_null ''wireless_network'' b = JStr wnid"
    "get_null ''bssid'' b = JStr address" "bssid (radio_mac caps') n (bss_ordinal radios rid) = Inr address"
    using assms(1) unfolding bss_good_def by blast
  have "caps' = caps" using b(1) assms(2,3) by (metis eq_key_imp_eq_value)
  moreover have "limit \<le> 16" using assms(4) b(2) \<open>caps' = caps\<close> by (elim radio_fitsE) simp
  ultimately show thesis
    using that b bss_ordinal_spec(1,2) [OF assms(3,2)] assms(5) by force
qed

text \<open>C8. On radios that share a hardware address no two BSSes of a plan have the same BSSID: equal BSSIDs mean
  the same radio and the same wireless network. It needs distinct radio ids, at most 16 radios, and
  radios that offer at most 16 slots, as every slot beyond runs into the next radio's range.\<close>

theorem plan_bssids_distinct:
  assumes "build_plan cfg radios st = Inr (p, st')" and "slots_ok (ss_map st)"
    and "distinct (map fst radios)" and "length radios \<le> 16" and "list_all (\<lambda>(_, caps). radio_fits caps) radios"
    and "(r1, c1) \<in> set radios" and "(r2, c2) \<in> set radios"
    and "normalise_mac (radio_mac c1) = normalise_mac (radio_mac c2)"
    and "(r1, l1) \<in> set (wp_links p)" and "b1 \<in> set (lk_bsses l1)"
    and "(r2, l2) \<in> set (wp_links p)" and "b2 \<in> set (lk_bsses l2)"
    and "get_null ''bssid'' b1 = get_null ''bssid'' b2"
  shows "r1 = r2 \<and> get_null ''wireless_network'' b1 = get_null ''wireless_network'' b2"
proof -
  note good = build_plan_good [OF assms(1,2)]
  have fits: "radio_fits c1" "radio_fits c2" using assms(5-7) by (auto simp: list_all_iff)
  obtain w1 n1 a1 where 1: "slot_at (ss_map st') r1 w1 = Some n1" "0 \<le> n1" "n1 < 16"
    "get_null ''wireless_network'' b1 = JStr w1" "get_null ''bssid'' b1 = JStr a1"
    "bssid (radio_mac c1) n1 (bss_ordinal radios r1) = Inr a1" "0 \<le> bss_ordinal radios r1" "bss_ordinal radios r1 < 16"
    by (rule good_bssE [OF plan_bss [OF good assms(9,10)] assms(3,6) fits(1) assms(4)])
  obtain w2 n2 a2 where 2: "slot_at (ss_map st') r2 w2 = Some n2" "0 \<le> n2" "n2 < 16"
    "get_null ''wireless_network'' b2 = JStr w2" "get_null ''bssid'' b2 = JStr a2"
    "bssid (radio_mac c2) n2 (bss_ordinal radios r2) = Inr a2" "0 \<le> bss_ordinal radios r2" "bss_ordinal radios r2 < 16"
    by (rule good_bssE [OF plan_bss [OF good assms(11,12)] assms(3,7) fits(2) assms(4)])
  obtain xs limit where xs: "mac_bytes (radio_mac c1) = Inr xs" "octets xs"
    "bss_limit c1 = Inr limit" "limit \<le> 16" by (rule radio_fitsE [OF fits(1)])
  have "bssid (radio_mac c1) n1 (bss_ordinal radios r1) = bssid (radio_mac c1) n2 (bss_ordinal radios r2)"
    using 1(5,6) 2(5,6) assms(13) bssid_cong [OF assms(8)] by simp
  from bssid_inject [OF xs(1,2) this 1(2,3,7,8) 2(2,3,7,8)]
  have same: "n1 = n2" "bss_ordinal radios r1 = bss_ordinal radios r2" by simp_all
  have "r1 = r2"
  proof (rule ccontr)
    assume "r1 \<noteq> r2"
    then have "map_of (radio_ordinals radios) r1 \<noteq> map_of (radio_ordinals radios) r2"
      unfolding radio_ordinals_def using assms(6,7,8) by_band_keys [OF assms(3)]
      by (intro ordinals_differ [of _ c1 _ _ c2]) simp_all
    then show False using same(2) bss_ordinal_spec(3) [OF assms(6,3)] bss_ordinal_spec(3) [OF assms(7,3)] by simp
  qed
  moreover have "w1 = w2"
    using slots_inject [of "ss_map st'" r1 w1 n1 w2] good 1(1) 2(1) same(1) \<open>r1 = r2\<close> by (simp add: plan_good_def)
  ultimately show ?thesis using 1(4) 2(4) by simp
qed

definition no_slots :: slot_store where
  "no_slots = \<lparr>ss_map = [], ss_saved = []\<rparr>"

lemma no_slots_ok: "slots_ok (ss_map no_slots)"
  by (simp add: no_slots_def slots_ok_def slots_of_def the_default_def)

definition two_radios :: radio_map where
  "two_radios =
     [(''radio-5g'', [(''band'', JStr ''5g''), (''mac'', JStr ''88:dc:96:00:00:10'')]),
      (''radio-6g'', [(''band'', JStr ''6g''), (''mac'', JStr ''88:DC:96:00:00:10'')])]"

definition filtered_config :: obj where
  "filtered_config = [(''wifi'', JObj [(''networks'', JObj
     [(''guest'', JObj [(''ssid'', JStr ''guest''), (''bands'', JList [JStr ''5g'']), (''mac_filter'', JBool True),
         (''mac_filter_list'', JList [JStr ''00:11:22:33:44:55''])]),
      (''home'', JObj [(''ssid'', JStr ''home''), (''bands'', JList [JStr ''5g'', JStr ''6g''])])])])]"

definition plan_of :: "obj \<Rightarrow> wifi_plan" where
  "plan_of cfg = (case build_plan cfg two_radios no_slots of Inr (p, _) \<Rightarrow> p
     | Inl _ \<Rightarrow> \<lparr>wp_links = [], wp_mlds = [], wp_bsses = [], wp_warnings = []\<rparr>)"

definition bsses_on :: "wifi_plan \<Rightarrow> string \<Rightarrow> obj list" where
  "bsses_on p rid = (case map_of (wp_links p) rid of Some link \<Rightarrow> lk_bsses link | None \<Rightarrow> [])"

lemma bsses_onD: "b \<in> set (bsses_on p rid) \<Longrightarrow> \<exists>link. (rid, link) \<in> set (wp_links p) \<and> b \<in> set (lk_bsses link)"
  by (cases "map_of (wp_links p) rid") (auto simp: bsses_on_def dest: map_of_SomeD)

lemma filtered_plan: "\<exists>st'. build_plan filtered_config two_radios no_slots = Inr (plan_of filtered_config, st')"
proof -
  have "is_ok (build_plan filtered_config two_radios no_slots)" by code_simp
  then show ?thesis by (auto simp: plan_of_def is_ok_iff)
qed

lemma plan_bssids_distinct_witness:
  "map (get_null ''wireless_network'') (bsses_on (plan_of filtered_config) ''radio-5g'') = [JStr ''guest'', JStr ''home''] \<and>
   list_all (\<lambda>b. list_all (\<lambda>b'. get_null ''bssid'' b \<noteq> get_null ''bssid'' b')
     (bsses_on (plan_of filtered_config) ''radio-6g'')) (bsses_on (plan_of filtered_config) ''radio-5g'')"
proof -
  obtain st' where run: "build_plan filtered_config two_radios no_slots = Inr (plan_of filtered_config, st')"
    using filtered_plan by blast
  have fits: "length two_radios \<le> 16" "list_all (\<lambda>(_, caps). radio_fits caps) two_radios"
    "distinct (map fst two_radios)"
    by code_simp+
  let ?c = "\<lambda>r. the_default [] (map_of two_radios r)"
  have r: "(''radio-5g'', ?c ''radio-5g'') \<in> set two_radios" "(''radio-6g'', ?c ''radio-6g'') \<in> set two_radios"
    by code_simp+
  have same: "normalise_mac (radio_mac (?c ''radio-5g'')) = normalise_mac (radio_mac (?c ''radio-6g''))"
    by code_simp
  note apart = plan_bssids_distinct [OF run no_slots_ok fits(3) fits(1,2) r same]
  have "''radio-5g'' \<noteq> ''radio-6g''" by simp
  then have "\<forall>b \<in> set (bsses_on (plan_of filtered_config) ''radio-5g'').
    \<forall>b' \<in> set (bsses_on (plan_of filtered_config) ''radio-6g''). get_null ''bssid'' b \<noteq> get_null ''bssid'' b'"
    using apart bsses_onD by metis
  moreover have "map (get_null ''wireless_network'') (bsses_on (plan_of filtered_config) ''radio-5g'') =
      [JStr ''guest'', JStr ''home'']" by code_simp
  ultimately show ?thesis by (simp add: list_all_iff)
qed

subsection \<open>What the plan leaves out\<close>

text \<open>A MAC filter of a wireless network has no effect: no plan names the file hostapd would read it
  from, so whatever \<open>mac_filter\<close>, the policy and the list say, the access control lines of every BSS
  are empty, or ask RADIUS when \<open>radius_mac_auth\<close> is set.\<close>

theorem mac_filter_not_enforced:
  assumes "build_plan cfg radios st = Inr (p, st')" and "slots_ok (ss_map st)"
    and "(rid, link) \<in> set (wp_links p)" and "b \<in> set (lk_bsses link)"
  shows "acl_lines b = (if is_set ''radius_mac_auth'' b then [''macaddr_acl=2''] else [])"
proof -
  have "get_null ''mac_filter_file'' b = JNull"
    using plan_bss [OF build_plan_good [OF assms(1,2)] assms(3,4)] by (auto simp: bss_good_def)
  then show ?thesis by (simp add: acl_lines_def is_set_def)
qed

lemma mac_filter_not_enforced_witness:
  "\<exists>b \<in> set (bsses_on (plan_of filtered_config) ''radio-5g''). get_null ''mac_filter'' b = JBool True \<and>
     get_null ''mac_filter_list'' b = JList [JStr ''00:11:22:33:44:55''] \<and> acl_lines b = []"
proof -
  obtain st' where run: "build_plan filtered_config two_radios no_slots = Inr (plan_of filtered_config, st')"
    using filtered_plan by blast
  have "list_ex (\<lambda>b. get_null ''mac_filter'' b = JBool True \<and> \<not> is_set ''radius_mac_auth'' b \<and>
      get_null ''mac_filter_list'' b = JList [JStr ''00:11:22:33:44:55'']) (bsses_on (plan_of filtered_config) ''radio-5g'')"
    by code_simp
  then obtain b where b: "b \<in> set (bsses_on (plan_of filtered_config) ''radio-5g'')"
    "get_null ''mac_filter'' b = JBool True" "\<not> is_set ''radius_mac_auth'' b"
    "get_null ''mac_filter_list'' b = JList [JStr ''00:11:22:33:44:55'']"
    unfolding list_ex_iff by blast
  from bsses_onD [OF b(1)] mac_filter_not_enforced [OF run no_slots_ok] b show ?thesis by metis
qed

text \<open>A document with a network on 5 GHz and a second one on both bands with multi-link operation.\<close>

definition split_caps :: capabilities where
  "split_caps = Some
     \<lparr>cap_radios =
        [(''radio-5g'', \<lparr>cap_band = ''5g'', cap_widths = [20, 40, 80], cap_channels = [36, 40, 44, 48], cap_eht240 = False\<rparr>),
         (''radio-6g'', \<lparr>cap_band = ''6g'', cap_widths = [20, 40, 80], cap_channels = [1, 5, 9, 13], cap_eht240 = False\<rparr>)],
      cap_mlo = True\<rparr>"

definition split_config :: obj where
  "split_config = dset ''wifi'' (JObj
     [(''country'', JStr ''US''),
      (''networks'', JObj
        [(''a'', JObj [(''ssid'', JStr ''a''), (''bands'', JList [JStr ''5g'']),
           (''security'', JObj [(''mode'', JStr ''wpa3''), (''passphrase'', JStr ''correct horse'')])]),
         (''b'', JObj [(''ssid'', JStr ''b''), (''bands'', JList [JStr ''5g'', JStr ''6g'']), (''mlo'', JBool True),
           (''security'', JObj [(''mode'', JStr ''wpa3''), (''passphrase'', JStr ''correct horse'')])])])]) default_config"

definition bss_netdevs :: "wifi_plan \<Rightarrow> (string \<times> json \<times> json) list" where
  "bss_netdevs p = map (\<lambda>(iface, b). (iface, get_null ''wireless_network'' b, get_null ''netdev'' b)) (wp_bsses p)"

lemma accepted_plan:
  assumes "case r of Inr (JObj out, _) \<Rightarrow> (case f out of Inr (p, _) \<Rightarrow> g p = x | _ \<Rightarrow> False) | _ \<Rightarrow> False"
  shows "\<exists>out w p st'. r = Inr (JObj out, w) \<and> f out = Inr (p, st') \<and> g p = x"
proof -
  obtain out w where r: "r = Inr (JObj out, w)"
    using assms by (auto split: sum.split_asm prod.split_asm json.split_asm)
  show ?thesis
  proof (cases "f out")
    case (Inr y)
    then show ?thesis using assms by (cases y) (auto simp: r)
  qed (use assms in \<open>simp add: r\<close>)
qed

text \<open>The links of a multi-link device need not share an interface, although hostapd identifies the
  device by it: the name is built from the slot each link has on its own radio. For an accepted
  document, the 5 GHz link of \<open>b\<close> is put on \<open>wl5g1\<close> and its 6 GHz link on \<open>wl5g0\<close>, the interface of the
  unrelated network \<open>a\<close>.\<close>

theorem mld_links_can_split:
  "\<exists>out w p st'. validate split_caps (JObj split_config) = Inr (JObj out, w) \<and>
     build_plan out two_radios no_slots = Inr (p, st') \<and>
     bss_netdevs p = [(''wl5g0'', JStr ''a'', JNull), (''wl5g1'', JStr ''b'', JStr ''wl5g1''),
       (''wl6g0'', JStr ''b'', JStr ''wl5g0'')]"
proof -
  have "case validate split_caps (JObj split_config) of Inr (JObj out, _) \<Rightarrow>
      (case build_plan out two_radios no_slots of Inr (p, _) \<Rightarrow> bss_netdevs p =
        [(''wl5g0'', JStr ''a'', JNull), (''wl5g1'', JStr ''b'', JStr ''wl5g1''), (''wl6g0'', JStr ''b'', JStr ''wl5g0'')]
      | _ \<Rightarrow> False) | _ \<Rightarrow> False"
    by code_simp
  then show ?thesis by (rule accepted_plan)
qed

end
