(* ===== verification/Api.thy ===== *)
theory Api
  imports Auth
begin

text \<open>
  The HTTP layer of \<open>api.py\<close>: routes, cookies, authentication, the CSRF check and the permission
  check, up to the call of a handler. A request is what the server hands to \<open>_dispatch\<close>: the verb, the
  path and query as \<open>urlsplit\<close> and \<open>parse_qs\<close> split them, headers, body, peer address. The text of
  an error is not modelled, only its status and code. The event stream is not modelled.
\<close>

subsection \<open>Routes\<close>

record api_error =
  ae_status :: nat
  ae_code :: string

definition api_fail :: "nat \<Rightarrow> string \<Rightarrow> api_error" where
  "api_fail status c = \<lparr>ae_status = status, ae_code = c\<rparr>"

record route =
  rt_method :: string
  rt_pattern :: string
  rt_handler :: string
  rt_permission :: "string option"

definition API_PREFIX :: string where "API_PREFIX = ''/api/v1''"

definition MAX_BODY :: int where "MAX_BODY = 4 * 1024 * 1024"

text \<open>\<open>{name}\<close> stands for a non-empty segment. The other segments of the patterns are letters and
  dashes, so the regular expression compares the segments; a request path has no line break.\<close>

definition parameter_of :: "string \<Rightarrow> string option" where
  "parameter_of p = (if 2 < length p \<and> hd p = CHR ''{'' \<and> last p = CHR ''}'' then Some (butlast (tl p)) else None)"

fun match_segments :: "string list \<Rightarrow> string list \<Rightarrow> (string \<times> string) list option" where
  "match_segments [] [] = Some []"
| "match_segments (p # ps) (s # ss) =
     (case parameter_of p of
        Some name \<Rightarrow> if s = [] then None else map_option (\<lambda>m. (name, s) # m) (match_segments ps ss)
      | None \<Rightarrow> if p = s then match_segments ps ss else None)"
| "match_segments _ _ = None"

definition match_path :: "string \<Rightarrow> string \<Rightarrow> (string \<times> string) list option" where
  "match_path pattern path = match_segments (py_split CHR ''/'' (API_PREFIX @ pattern)) (py_split CHR ''/'' path)"

text \<open>\<open>Router.match\<close>: the first route of the method whose pattern matches; a pattern that only
  matches under other methods is a 405.\<close>

fun match_routes :: "route list \<Rightarrow> bool \<Rightarrow> string \<Rightarrow> string \<Rightarrow> api_error + (route \<times> (string \<times> string) list) option" where
  "match_routes [] other method path =
     (if other then Inl (api_fail 405 ''method_not_allowed'') else Inr None)"
| "match_routes (r # rs) other method path =
     (case match_path (rt_pattern r) path of
        None \<Rightarrow> match_routes rs other method path
      | Some params \<Rightarrow>
          if rt_method r \<noteq> method then match_routes rs True method path else Inr (Some (r, params)))"

definition route :: "string \<Rightarrow> string \<Rightarrow> string \<Rightarrow> string option \<Rightarrow> route" where
  "route method pattern handler permission =
     \<lparr>rt_method = method, rt_pattern = pattern, rt_handler = handler, rt_permission = permission\<rparr>"

definition system_routes :: "route list" where
  "system_routes =
     [route ''GET'' ''/setup'' ''get_setup'' None,
      route ''POST'' ''/setup'' ''post_setup'' None,
      route ''POST'' ''/auth/login'' ''post_login'' None,
      route ''POST'' ''/auth/logout'' ''post_logout'' None,
      route ''GET'' ''/auth/self'' ''get_self'' (Some ''system.read''),
      route ''GET'' ''/auth/sessions'' ''get_sessions'' (Some ''users.manage''),
      route ''DELETE'' ''/auth/sessions/{id}'' ''delete_session'' (Some ''users.manage''),
      route ''GET'' ''/auth/history'' ''get_login_history'' (Some ''audit.read''),
      route ''GET'' ''/system'' ''get_system'' (Some ''system.read''),
      route ''GET'' ''/platform'' ''get_platform'' (Some ''system.read''),
      route ''GET'' ''/platform/identity'' ''get_identity'' (Some ''system.read''),
      route ''GET'' ''/platform/identity/factory-credentials'' ''get_factory_credentials''
        (Some ''system.write''),
      route ''PUT'' ''/system'' ''put_system'' (Some ''system.write''),
      route ''GET'' ''/dashboard'' ''get_dashboard'' (Some ''system.read''),
      route ''GET'' ''/health'' ''get_health'' (Some ''system.read''),
      route ''GET'' ''/controller'' ''get_controller'' (Some ''system.read''),
      route ''PUT'' ''/controller'' ''put_controller'' (Some ''system.write''),
      route ''POST'' ''/controller/inform'' ''post_controller_inform'' (Some ''system.write''),
      route ''POST'' ''/controller/sync'' ''post_controller_sync'' (Some ''system.write''),
      route ''POST'' ''/controller/reset'' ''post_controller_reset'' (Some ''system.write'')]"

definition network_routes :: "route list" where
  "network_routes =
     [route ''GET'' ''/ports'' ''get_ports'' (Some ''network.read''),
      route ''PUT'' ''/ports/{id}'' ''put_port'' (Some ''network.write''),
      route ''GET'' ''/networks'' ''get_networks'' (Some ''network.read''),
      route ''POST'' ''/networks'' ''post_network'' (Some ''network.write''),
      route ''PUT'' ''/networks/{id}'' ''put_network'' (Some ''network.write''),
      route ''DELETE'' ''/networks/{id}'' ''delete_network'' (Some ''network.write''),
      route ''GET'' ''/wans'' ''get_wans'' (Some ''network.read''),
      route ''PUT'' ''/wans/{id}'' ''put_wan'' (Some ''network.write''),
      route ''GET'' ''/firewall'' ''get_firewall'' (Some ''security.read''),
      route ''PUT'' ''/firewall'' ''put_firewall'' (Some ''security.write''),
      route ''GET'' ''/firewall/counters'' ''get_firewall_counters'' (Some ''security.read''),
      route ''GET'' ''/nat'' ''get_nat'' (Some ''security.read''),
      route ''PUT'' ''/nat'' ''put_nat'' (Some ''security.write''),
      route ''GET'' ''/routing'' ''get_routing'' (Some ''routing.read''),
      route ''PUT'' ''/routing'' ''put_routing'' (Some ''routing.write''),
      route ''GET'' ''/services'' ''get_services'' (Some ''network.read''),
      route ''PUT'' ''/services'' ''put_services'' (Some ''network.write''),
      route ''GET'' ''/dpi'' ''get_dpi'' (Some ''security.read''),
      route ''PUT'' ''/dpi'' ''put_dpi'' (Some ''security.write'')]"

definition wifi_routes :: "route list" where
  "wifi_routes =
     [route ''GET'' ''/wifi'' ''get_wifi'' (Some ''network.read''),
      route ''GET'' ''/wifi/radios'' ''get_radios'' (Some ''network.read''),
      route ''PUT'' ''/wifi/radios/{id}'' ''put_radio'' (Some ''network.write''),
      route ''GET'' ''/wifi/networks'' ''get_wifi_networks'' (Some ''network.read''),
      route ''POST'' ''/wifi/networks'' ''post_wifi_network'' (Some ''network.write''),
      route ''PUT'' ''/wifi/networks/{id}'' ''put_wifi_network'' (Some ''network.write''),
      route ''DELETE'' ''/wifi/networks/{id}'' ''delete_wifi_network'' (Some ''network.write''),
      route ''GET'' ''/wifi/mlo'' ''get_mlo'' (Some ''network.read''),
      route ''POST'' ''/wifi/mlo'' ''post_mld'' (Some ''network.write''),
      route ''PUT'' ''/wifi/mlo/{id}'' ''put_mld'' (Some ''network.write''),
      route ''DELETE'' ''/wifi/mlo/{id}'' ''delete_mld'' (Some ''network.write''),
      route ''GET'' ''/wifi/regulatory'' ''get_regulatory'' (Some ''network.read''),
      route ''PUT'' ''/wifi/regulatory'' ''put_regulatory'' (Some ''network.write''),
      route ''GET'' ''/wifi/clients'' ''get_wifi_clients'' (Some ''network.read''),
      route ''GET'' ''/wifi/neighbors'' ''get_neighbours'' (Some ''security.read''),
      route ''POST'' ''/wifi/radios/{id}/recover'' ''post_radio_recover'' (Some ''network.write''),
      route ''GET'' ''/wifi/capabilities'' ''get_wifi_capabilities'' (Some ''network.read''),
      route ''GET'' ''/wifi/channels'' ''get_channels'' (Some ''network.read''),
      route ''POST'' ''/wifi/channels/scan'' ''post_channel_scan'' (Some ''network.write''),
      route ''POST'' ''/wifi/channels/optimize'' ''post_channel_optimize'' (Some ''network.write''),
      route ''PUT'' ''/wifi/channels/settings'' ''put_channel_settings'' (Some ''network.write''),
      route ''GET'' ''/wifi/channels/history'' ''get_channel_history'' (Some ''network.read'')]"

definition admin_routes :: "route list" where
  "admin_routes =
     [route ''GET'' ''/clients'' ''get_clients'' (Some ''network.read''),
      route ''GET'' ''/clients/{mac}'' ''get_client'' (Some ''network.read''),
      route ''PUT'' ''/clients/{mac}'' ''put_client'' (Some ''clients.write''),
      route ''POST'' ''/clients/{mac}/actions/{action}'' ''post_client_action'' (Some ''clients.write''),
      route ''GET'' ''/telemetry'' ''get_telemetry'' (Some ''system.read''),
      route ''GET'' ''/telemetry/series'' ''get_series'' (Some ''system.read''),
      route ''GET'' ''/telemetry/history'' ''get_series_history'' (Some ''system.read''),
      route ''GET'' ''/events'' ''get_events'' (Some ''system.read''),
      route ''GET'' ''/topology'' ''get_topology'' (Some ''network.read''),
      route ''GET'' ''/config'' ''get_config'' (Some ''system.read''),
      route ''GET'' ''/config/pending'' ''get_pending'' (Some ''system.read''),
      route ''POST'' ''/config/commit'' ''post_commit'' (Some ''system.write''),
      route ''POST'' ''/config/confirm'' ''post_confirm'' (Some ''system.write''),
      route ''POST'' ''/config/discard'' ''post_discard'' (Some ''system.write''),
      route ''GET'' ''/config/revisions'' ''get_revisions'' (Some ''system.read''),
      route ''POST'' ''/config/revisions/{id}/rollback'' ''post_rollback'' (Some ''system.write''),
      route ''GET'' ''/audit'' ''get_audit'' (Some ''audit.read''),
      route ''GET'' ''/users'' ''get_users'' (Some ''users.manage''),
      route ''POST'' ''/users'' ''post_user'' (Some ''users.manage''),
      route ''PUT'' ''/users/{name}'' ''put_user'' (Some ''users.manage''),
      route ''DELETE'' ''/users/{name}'' ''delete_user'' (Some ''users.manage''),
      route ''GET'' ''/rbac'' ''get_rbac'' (Some ''users.manage''),
      route ''GET'' ''/backups/export'' ''get_backup'' (Some ''backup.manage''),
      route ''POST'' ''/backups/import'' ''post_backup'' (Some ''backup.manage'')]"

definition api_routes :: "route list" where
  "api_routes = system_routes @ network_routes @ wifi_routes @ admin_routes"

subsection \<open>Requests\<close>

text \<open>What \<open>json.loads\<close> makes of the body is part of the request: \<open>BadBody\<close> does not parse.\<close>

datatype body = BadBody | Body json

record request =
  rq_verb :: string
  rq_path :: string
  rq_query :: "(string \<times> string list) list"
  rq_headers :: "(string \<times> string) list"
  rq_peer :: string
  rq_body :: body

text \<open>The names of headers are compared without case.\<close>

definition header_of :: "request \<Rightarrow> string \<Rightarrow> string \<Rightarrow> string" where
  "header_of rq name dflt =
     (case find (\<lambda>(k, _). py_lower k = py_lower name) (rq_headers rq) of None \<Rightarrow> dflt | Some (_, v) \<Rightarrow> v)"

definition source_ip :: "request \<Rightarrow> string" where
  "source_ip rq =
     (let forwarded = header_of rq ''X-Forwarded-For'' [] in
      if rq_peer rq \<in> {''127.0.0.1'', ''::1''} \<and> forwarded \<noteq> []
      then py_strip (hd (py_split CHR '','' forwarded)) else rq_peer rq)"

definition cookies :: "request \<Rightarrow> (string \<times> string) list" where
  "cookies rq = fold (\<lambda>part out.
     case py_partition CHR ''='' part of
       (k, True, v) \<Rightarrow> AList.update (py_strip k) (py_strip v) out
     | _ \<Rightarrow> out) (py_split CHR '';'' (header_of rq ''Cookie'' [])) []"

text \<open>\<open>do_HEAD\<close> is served as a GET; other verbs than these five have no handler.\<close>

definition method_of :: "request \<Rightarrow> string" where
  "method_of rq = (if rq_verb rq = ''HEAD'' then ''GET'' else rq_verb rq)"

definition request_path :: "request \<Rightarrow> string" where
  "request_path rq = (let p = py_rstrip_char CHR ''/'' (rq_path rq) in if p = [] then rq_path rq else p)"

text \<open>The length of the body: an unparsable length is an internal error.\<close>

definition body_length :: "request \<Rightarrow> api_error + int" where
  "body_length rq =
     (let h = header_of rq ''Content-Length'' [] in
      if h = [] then Inr 0
      else case py_int_of_string h of
          None \<Rightarrow> Inl (api_fail 500 ''internal_error'')
        | Some n \<Rightarrow> if MAX_BODY < n then Inl (api_fail 413 ''too_large'') else Inr n)"

subsection \<open>Who asks\<close>

record identity =
  id_principal :: "principal option"
  id_token :: "string option"

definition BEARER :: string where "BEARER = ''Bearer ''"

definition authenticate :: "crypto \<Rightarrow> json \<Rightarrow> request \<Rightarrow> time \<Rightarrow> auth \<Rightarrow> (api_error + identity) \<times> auth" where
  "authenticate cy cfg rq t a =
     (let header = header_of rq ''Authorization'' [] in
      if startswith header BEARER
      then (case principal_for_token cy cfg (py_strip (drop 7 header)) of
              None \<Rightarrow> (Inl (api_fail 401 ''unauthorized''), a)
            | Some p \<Rightarrow> (Inr \<lparr>id_principal = Some p, id_token = None\<rparr>, a))
      else let token = the_default [] (map_of (cookies rq) ''sbegw_session'') in
        if token = [] then (Inl (api_fail 401 ''unauthorized''), a)
        else case principal_for_session token t a of
            (None, a1) \<Rightarrow> (Inl (api_fail 401 ''session_expired''), a1)
          | (Some p, a1) \<Rightarrow> (Inr \<lparr>id_principal = Some p, id_token = Some token\<rparr>, a1))"

definition csrf_ok :: "request \<Rightarrow> identity \<Rightarrow> auth \<Rightarrow> bool" where
  "csrf_ok rq who a \<longleftrightarrow>
     (case id_principal who of Some p \<Rightarrow> pr_kind p = ''token'' | None \<Rightarrow> False) \<or>
     (case csrf_for_session (the_default [] (id_token who)) a of
        None \<Rightarrow> False
      | Some expected \<Rightarrow> expected \<noteq> [] \<and> header_of rq ''X-CSRF-Token'' [] = expected)"

definition nobody :: identity where
  "nobody = \<lparr>id_principal = None, id_token = None\<rparr>"

text \<open>The checks of a route. Only a route with a permission authenticates at all.\<close>

definition admit :: "crypto \<Rightarrow> json \<Rightarrow> request \<Rightarrow> string option \<Rightarrow> time \<Rightarrow> auth \<Rightarrow> (api_error + identity) \<times> auth" where
  "admit cy cfg rq permission t a =
     (case permission of
        None \<Rightarrow> (Inr nobody, a)
      | Some perm \<Rightarrow>
          (case authenticate cy cfg rq t a of
             (Inl e, a1) \<Rightarrow> (Inl e, a1)
           | (Inr who, a1) \<Rightarrow>
               if method_of rq \<noteq> ''GET'' \<and> \<not> csrf_ok rq who a1 then (Inl (api_fail 403 ''csrf_failed''), a1)
               else if (case id_principal who of Some p \<Rightarrow> can p perm | None \<Rightarrow> False) then (Inr who, a1)
               else (Inl (api_fail 403 ''forbidden''), a1)))"

text \<open>\<open>_dispatch\<close> up to the handler: the route, its parameters, who asks and whether a body was read.\<close>

record call =
  cl_handler :: string
  cl_params :: "(string \<times> string) list"
  cl_who :: identity
  cl_has_body :: bool

definition gate :: "crypto \<Rightarrow> json \<Rightarrow> request \<Rightarrow> time \<Rightarrow> auth \<Rightarrow> (api_error + call) \<times> auth" where
  "gate cy cfg rq t a =
     (case body_length rq of
        Inl e \<Rightarrow> (Inl e, a)
      | Inr n \<Rightarrow>
          (case match_routes api_routes False (method_of rq) (request_path rq) of
             Inl e \<Rightarrow> (Inl e, a)
           | Inr None \<Rightarrow> (Inl (api_fail 404 ''not_found''), a)
           | Inr (Some (r, params)) \<Rightarrow>
               (case admit cy cfg rq (rt_permission r) t a of
                  (Inl e, a1) \<Rightarrow> (Inl e, a1)
                | (Inr who, a1) \<Rightarrow>
                    (Inr \<lparr>cl_handler = rt_handler r, cl_params = params, cl_who = who, cl_has_body = (n \<noteq> 0)\<rparr>, a1))))"

text \<open>\<open>ctx.json()\<close>.\<close>

definition body_object :: "request \<Rightarrow> call \<Rightarrow> api_error + obj" where
  "body_object rq c =
     (if \<not> cl_has_body c then Inr []
      else case rq_body rq of Body (JObj d) \<Rightarrow> Inr d | _ \<Rightarrow> Inl (api_fail 400 ''invalid_json''))"

end
