(* ===== verification/ApiHandlers.thy ===== *)
theory ApiHandlers
  imports Api
begin

text \<open>
  The handlers of \<open>api.py\<close> that act on the configuration and the accounts. Every change of the
  configuration is a function on the candidate document which \<open>_commit\<close> stages and commits. What
  the handlers only read from the telemetry snapshot and from the daemons is not modelled.
\<close>

subsection \<open>Updates of a document\<close>

text \<open>\<open>d.update(e)\<close> and \<open>{**d, **e}\<close>.\<close>

definition dict_update :: "obj \<Rightarrow> obj \<Rightarrow> obj" where
  "dict_update d e = fold (\<lambda>(k, v). dset k v) e d"

fun deep_update :: "obj \<Rightarrow> obj \<Rightarrow> obj" where
  "deep_update target [] = target"
| "deep_update target ((k, v) # updates) = deep_update (dset k
     (case v of
        JObj e \<Rightarrow> (case map_of target k of Some (JObj d) \<Rightarrow> JObj (deep_update d e) | _ \<Rightarrow> v)
      | _ \<Rightarrow> v) target) updates"

definition API_SECRET_KEYS :: "string list" where
  "API_SECRET_KEYS = [''passphrase'', ''password'', ''password_hash'', ''secret'', ''psk'', ''api_key'',
     ''private_key'', ''totp_secret'', ''hash'', ''auth_secret'', ''acct_secret'']"

definition MASK :: string where "MASK = ''********''"

definition secret_name :: "string \<Rightarrow> bool" where
  "secret_name k \<longleftrightarrow> list_ex (\<lambda>s. has_infix s (py_lower k)) API_SECRET_KEYS"

fun redact_secrets :: "json \<Rightarrow> json" where
  "redact_secrets (JObj d) = JObj (map (\<lambda>(k, v). (k, if secret_name k then JStr MASK else redact_secrets v)) d)"
| "redact_secrets (JList xs) = JList (map redact_secrets xs)"
| "redact_secrets j = j"

text \<open>\<open>f(cfg[k])\<close> for a dictionary \<open>cfg[k]\<close> that \<open>f\<close> changes in place, and the same with
  \<open>cfg.setdefault(k, {})\<close>.\<close>

definition inside :: "string \<Rightarrow> (obj \<Rightarrow> verr + obj) \<Rightarrow> obj \<Rightarrow> verr + obj" where
  "inside k f d = (case map_of d k of
     None \<Rightarrow> Inl (Raised KeyError)
   | Some (JObj e) \<Rightarrow> rbind (f e) (\<lambda>e'. Inr (dset k (JObj e') d))
   | Some _ \<Rightarrow> Inl (Raised TypeError))"

definition inside_new :: "string \<Rightarrow> (obj \<Rightarrow> verr + obj) \<Rightarrow> obj \<Rightarrow> verr + obj" where
  "inside_new k f d = inside k f (setdefault k (JObj []) d)"

definition on_document :: "(obj \<Rightarrow> verr + obj) \<Rightarrow> json \<Rightarrow> verr + json" where
  "on_document f j = (case j of JObj d \<Rightarrow> rbind (f d) (\<lambda>d'. Inr (JObj d')) | _ \<Rightarrow> Inl (Raised TypeError))"

subsection \<open>The changes the handlers make\<close>

definition update_section :: "string \<Rightarrow> obj \<Rightarrow> obj \<Rightarrow> verr + obj" where
  "update_section k body = inside k (\<lambda>s. Inr (dict_update s body))"

definition deep_section :: "string \<Rightarrow> obj \<Rightarrow> obj \<Rightarrow> verr + obj" where
  "deep_section k body = inside k (\<lambda>s. Inr (deep_update s body))"

definition port_change :: "string \<Rightarrow> obj \<Rightarrow> obj \<Rightarrow> verr + obj" where
  "port_change pid body = inside ''ports'' (inside pid (\<lambda>p. Inr (dict_update p body)))"

definition base_network :: obj where
  "base_network = sub ''default'' (sub ''networks'' default_config)"

definition network_create :: "string \<Rightarrow> obj \<Rightarrow> obj \<Rightarrow> verr + obj" where
  "network_create nid body = inside ''networks'' (\<lambda>nets.
     if nid \<in> fst ` set nets then Inl (Raised ValueError)
     else Inr (dset nid (JObj (dict_update base_network body)) nets))"

definition network_change :: "string \<Rightarrow> obj \<Rightarrow> obj \<Rightarrow> verr + obj" where
  "network_change nid body = inside ''networks'' (inside nid (\<lambda>n. Inr (deep_update n body)))"

definition ssids_on :: "string \<Rightarrow> obj \<Rightarrow> string list" where
  "ssids_on nid cfg = map fst (filter (\<lambda>(_, wn). get_null ''network'' (obj_of wn) = JStr nid)
     (sub ''networks'' (sub ''wifi'' cfg)))"

definition free_ports :: "string \<Rightarrow> obj \<Rightarrow> obj" where
  "free_ports nid ports = map (\<lambda>(pid, p). (pid,
     if get_null ''network'' (obj_of p) = JStr nid then JObj (dset ''network'' JNull (obj_of p)) else p)) ports"

definition network_delete :: "string \<Rightarrow> obj \<Rightarrow> verr + obj" where
  "network_delete nid cfg = rbind (inside ''networks'' (\<lambda>nets.
       if nid \<notin> fst ` set nets then Inl (Raised KeyError)
       else if length nets = 1 then Inl (Raised ValueError)
       else if ssids_on nid cfg \<noteq> [] then Inl (Raised ValueError)
       else Inr (AList.delete nid nets)) cfg)
     (inside ''ports'' (\<lambda>ports. Inr (free_ports nid ports)))"

definition base_wan :: obj where
  "base_wan = sub ''wan1'' (sub ''wans'' default_config)"

definition wan_change :: "string \<Rightarrow> obj \<Rightarrow> obj \<Rightarrow> verr + obj" where
  "wan_change wid body = inside ''wans'' (\<lambda>wans.
     if wid \<notin> fst ` set wans then Inr (dset wid (JObj (dict_update base_wan body)) wans)
     else inside wid (\<lambda>w. Inr (deep_update w body)) wans)"

definition routing_change :: "obj \<Rightarrow> obj \<Rightarrow> verr + obj" where
  "routing_change body cfg =
     deep_section ''routing'' (AList.delete ''policy_routes'' body)
       (case map_of body ''policy_routes'' of None \<Rightarrow> cfg | Some rs \<Rightarrow> dset ''policy_routes'' rs cfg)"

definition service_change :: "obj \<Rightarrow> string \<Rightarrow> obj \<Rightarrow> verr + obj" where
  "service_change body key cfg = (case map_of body key of
     None \<Rightarrow> Inr cfg
   | Some (JObj e) \<Rightarrow> inside_new key (\<lambda>s. Inr (deep_update s e)) cfg
   | Some _ \<Rightarrow> Inl (Raised ValueError))"

definition services_change :: "obj \<Rightarrow> obj \<Rightarrow> verr + obj" where
  "services_change body cfg = rbind (service_change body ''qos'' cfg) (service_change body ''dns'')"

text \<open>A radio as the capability probe describes it: its band and the widths it supports.\<close>

definition radio_change :: "string \<Rightarrow> string \<Rightarrow> int list \<Rightarrow> obj \<Rightarrow> obj \<Rightarrow> verr + obj" where
  "radio_change rid band widths body = inside ''wifi'' (inside_new ''radios'' (\<lambda>radios.
     if widths = [] then Inl (Raised ValueError)
     else let fresh = JObj [(''enabled'', JBool True), (''band'', JStr band), (''channel'', JStr ''auto''),
            (''channel_width'', JInt (Max (set widths))), (''tx_power'', JStr ''auto'')]
       in inside rid (\<lambda>r. Inr (dset ''band'' (JStr band) (dict_update r body))) (setdefault rid fresh radios)))"

definition ssid_create :: "string \<Rightarrow> obj \<Rightarrow> obj \<Rightarrow> verr + obj" where
  "ssid_create wnid body = inside ''wifi'' (inside_new ''networks'' (\<lambda>nets.
     if wnid \<in> fst ` set nets then Inl (Raised ValueError)
     else Inr (dset wnid (JObj (dict_update
       [(''ssid'', get_or (JStr wnid) ''ssid'' body), (''enabled'', JBool True), (''hidden'', JBool False),
        (''network'', JStr ''default''), (''bands'', JList [JStr ''2g'', JStr ''5g'']),
        (''security'', JObj [(''mode'', JStr ''wpa2-wpa3''), (''pmf'', JStr ''optional'')]),
        (''client_isolation'', JBool False), (''bss_transition'', JBool True),
        (''neighbor_report'', JBool True), (''fast_roaming'', JBool False)] body)) nets)))"

text \<open>\<open>cfg["wifi"].get(k, {})\<close>: a missing dictionary holds nothing, so the lookup fails.\<close>

definition inside_got :: "string \<Rightarrow> (obj \<Rightarrow> verr + obj) \<Rightarrow> obj \<Rightarrow> verr + obj" where
  "inside_got k f d = (if map_of d k = None then rbind (f []) (\<lambda>_. Inr d) else inside k f d)"

definition ssid_change :: "string \<Rightarrow> obj \<Rightarrow> obj \<Rightarrow> verr + obj" where
  "ssid_change wnid body = inside ''wifi'' (inside_got ''networks'' (inside wnid (\<lambda>n. Inr (deep_update n body))))"

definition mlds_of :: "string \<Rightarrow> obj \<Rightarrow> string list" where
  "mlds_of wnid cfg = map fst (filter (\<lambda>(_, m). get_null ''wireless_network'' (obj_of m) = JStr wnid)
     (sub ''mlds'' (sub ''wifi'' cfg)))"

definition ssid_delete :: "string \<Rightarrow> obj \<Rightarrow> verr + obj" where
  "ssid_delete wnid cfg = inside ''wifi'' (inside_got ''networks'' (\<lambda>nets.
     if wnid \<notin> fst ` set nets then Inl (Raised KeyError)
     else if mlds_of wnid cfg \<noteq> [] then Inl (Raised ValueError)
     else Inr (AList.delete wnid nets))) cfg"

definition mld_create :: "string \<Rightarrow> obj \<Rightarrow> obj \<Rightarrow> verr + obj" where
  "mld_create mid body = inside ''wifi'' (inside_new ''mlds'' (\<lambda>mlds.
     if mid \<in> fst ` set mlds then Inl (Raised ValueError)
     else Inr (dset mid (JObj (dict_update
       [(''name'', get_or (JStr mid) ''name'' body), (''enabled'', JBool True), (''links'', JList []),
        (''link_steering'', JStr ''auto'')] body)) mlds)))"

definition mld_change :: "string \<Rightarrow> obj \<Rightarrow> obj \<Rightarrow> verr + obj" where
  "mld_change mid body = inside ''wifi'' (inside_got ''mlds'' (inside mid (\<lambda>m. Inr (deep_update m body))))"

definition mld_delete :: "string \<Rightarrow> obj \<Rightarrow> verr + obj" where
  "mld_delete mid = inside ''wifi'' (inside_got ''mlds'' (\<lambda>mlds.
     if mid \<notin> fst ` set mlds then Inl (Raised KeyError) else Inr (AList.delete mid mlds)))"

definition regulatory_change :: "obj \<Rightarrow> obj \<Rightarrow> verr + obj" where
  "regulatory_change body = inside ''wifi'' (inside_new ''regulatory'' (\<lambda>reg. Inr
     (fold (\<lambda>k r. case map_of body k of None \<Rightarrow> r | Some v \<Rightarrow> dset k v r) [''environment'', ''six_ghz_power''] reg)))"

definition optimisation_change :: "obj \<Rightarrow> obj \<Rightarrow> verr + obj" where
  "optimisation_change body = inside ''wifi'' (inside_new ''channel_optimisation'' (\<lambda>s. Inr (deep_update s body)))"

text \<open>The fixed address of a client: any reservation it had in its network is replaced.\<close>

fun reservations_of_others :: "string \<Rightarrow> json list \<Rightarrow> verr + json list" where
  "reservations_of_others mac [] = Inr []"
| "reservations_of_others mac (JObj r # rs) = (case map_of r ''mac'' of
     None \<Rightarrow> Inl (Raised KeyError)
   | Some m \<Rightarrow> rbind (reservations_of_others mac rs) (\<lambda>keep. Inr (if m = JStr mac then keep else JObj r # keep)))"
| "reservations_of_others mac (_ # rs) = Inl (Raised TypeError)"

definition reserve_address :: "string \<Rightarrow> string \<Rightarrow> json \<Rightarrow> json \<Rightarrow> obj \<Rightarrow> verr + obj" where
  "reserve_address nid mac address hostname = inside ''networks'' (inside nid (inside_new ''dhcp'' (\<lambda>dhcp.
     case get_or (JList []) ''reservations'' dhcp of
       JList rs \<Rightarrow> rbind (reservations_of_others mac rs) (\<lambda>keep. Inr (dset ''reservations'' (JList (keep @
         [JObj [(''mac'', JStr mac), (''address'', address), (''hostname'', hostname)]])) dhcp))
     | _ \<Rightarrow> Inl (Raised TypeError))))"

definition role_change :: "string \<Rightarrow> json \<Rightarrow> obj \<Rightarrow> verr + obj" where
  "role_change name role = inside ''users'' (inside name (\<lambda>u. Inr (dset ''role'' role u)))"

subsection \<open>Committing a change\<close>

text \<open>What the service is wired to, and what one request draws: transaction ids, the time, random
  values. The radios are those the capability probe lists, with band and widths. The client table
  answers an update by failing, by not knowing the client or having nothing to update, or with the
  network and the host name it then has for the client.\<close>

datatype client_answer = UpdateFails | NothingUpdated | Updated string json

record 'w api =
  ax_crypto :: crypto
  ax_env :: "'w env"
  ax_radios :: "(string \<times> string \<times> int list) list"
  ax_mlo :: bool
  ax_client :: "string \<Rightarrow> obj \<Rightarrow> client_answer"

record draw =
  dw_txid :: string
  dw_txid2 :: string
  dw_time :: time
  dw_salt :: "int list"
  dw_login :: login_random
  dw_totp :: string

definition stage_error :: "verr \<Rightarrow> api_error" where
  "stage_error e = (case e of
     ValidationError _ \<Rightarrow> api_fail 422 ''validation_failed''
   | Raised ex \<Rightarrow> if ex \<in> {ValueError, KeyError} then api_fail 400 ''bad_request''
       else api_fail 500 ''internal_error'')"

definition api_args :: "string \<Rightarrow> string \<Rightarrow> string \<Rightarrow> bool option \<Rightarrow> commit_args" where
  "api_args user ip summary ask =
     \<lparr>ca_user = user, ca_ip = ip, ca_summary = summary,
      ca_rollback_seconds = DEFAULT_ROLLBACK_SECONDS, ca_confirm = ask, ca_force = False\<rparr>"

text \<open>\<open>_commit\<close>: a refused commit discards the candidate.\<close>

definition api_commit :: "'w env \<Rightarrow> commit_args \<Rightarrow> (obj \<Rightarrow> verr + obj) \<Rightarrow> string \<Rightarrow> time \<Rightarrow> 'w store
    \<Rightarrow> (api_error + commit_result) \<times> 'w store" where
  "api_commit env args f txid t st =
     (case stage env (on_document f) st of
        (Inl e, st1) \<Rightarrow> (Inl (stage_error e), st1)
      | (Inr staged, st1) \<Rightarrow>
          (case commit env args txid t st1 of
             (Inl (CommitError stg _ _), st2) \<Rightarrow> (Inl (api_fail 409 (''commit_'' @ stg)), discard_candidate st2)
           | (Inl (Uncaught _), st2) \<Rightarrow> (Inl (api_fail 500 ''internal_error''), st2)
           | (Inr res, st2) \<Rightarrow> (Inr (res\<lparr>cr_warnings := cr_warnings res @ staged\<rparr>), st2)))"

subsection \<open>Handlers that edit the configuration\<close>

record edit =
  ed_summary :: string
  ed_confirm :: "bool option"
  ed_change :: "obj \<Rightarrow> verr + obj"

definition edit_with :: "string \<Rightarrow> (obj \<Rightarrow> verr + obj) \<Rightarrow> edit" where
  "edit_with summary f = \<lparr>ed_summary = summary, ed_confirm = None, ed_change = f\<rparr>"

definition quietly :: "edit \<Rightarrow> edit" where
  "quietly e = e\<lparr>ed_confirm := Some False\<rparr>"

definition param :: "string \<Rightarrow> call \<Rightarrow> string" where
  "param k c = the_default [] (map_of (cl_params c) k)"

definition with_body :: "request \<Rightarrow> call \<Rightarrow> (obj \<Rightarrow> api_error + 'a) \<Rightarrow> api_error + 'a" where
  "with_body rq c f = rbind (body_object rq c) f"

text \<open>\<open>body.pop("id", None)\<close>, which must be set; an id that is no string never passes as a key.\<close>

definition with_new_id :: "request \<Rightarrow> call \<Rightarrow> (string \<Rightarrow> obj \<Rightarrow> api_error + 'a) \<Rightarrow> api_error + 'a" where
  "with_new_id rq c f = with_body rq c (\<lambda>body.
     case get_null ''id'' body of
       JStr s \<Rightarrow> if s = [] then Inl (api_fail 400 ''bad_request'') else f s (AList.delete ''id'' body)
     | j \<Rightarrow> if \<not> truthy j then Inl (api_fail 400 ''bad_request'')
          else if hashable j then Inl (api_fail 422 ''validation_failed'')
          else Inl (api_fail 500 ''internal_error''))"

definition only_keys :: "string list \<Rightarrow> obj \<Rightarrow> api_error + 'a \<Rightarrow> api_error + 'a" where
  "only_keys allowed body r = (if fst ` set body \<subseteq> set allowed then r else Inl (api_fail 400 ''bad_request''))"

definition put_services :: "obj \<Rightarrow> api_error + edit" where
  "put_services body = only_keys [''qos'', ''dns''] body
     (if body = [] then Inl (api_fail 400 ''bad_request'')
      else Inr (edit_with ''traffic and DNS services'' (services_change body)))"

definition put_dpi :: "obj \<Rightarrow> api_error + edit" where
  "put_dpi body = only_keys [''enabled'', ''engine'', ''retention_hours'', ''include_ipv6''] body
     (Inr (quietly (edit_with ''traffic identification settings'' (update_section ''dpi'' body))))"

definition put_controller :: "obj \<Rightarrow> api_error + edit" where
  "put_controller body = only_keys [''enabled'', ''inform_url'', ''discovery'', ''sync_enabled'', ''api_url'',
       ''api_key'', ''site_id'', ''verify_tls'', ''interval_seconds''] body
     (Inr (quietly (edit_with ''UniFi Network controller settings'' (update_section ''controller''
       (filter (\<lambda>(k, v). \<not> (k = ''api_key'' \<and> v = JStr MASK)) body)))))"

definition put_radio :: "'w api \<Rightarrow> string \<Rightarrow> obj \<Rightarrow> api_error + edit" where
  "put_radio ax rid body = (case map_of (ax_radios ax) rid of
     None \<Rightarrow> Inl (api_fail 404 ''not_found'')
   | Some (band, widths) \<Rightarrow> Inr (edit_with (''radio '' @ rid) (radio_change rid band widths body)))"

definition post_mld :: "'w api \<Rightarrow> string \<Rightarrow> obj \<Rightarrow> api_error + edit" where
  "post_mld ax mid body = (if \<not> ax_mlo ax then Inl (api_fail 412 ''mlo_unavailable'')
     else Inr (edit_with (''create MLD '' @ mid) (mld_create mid body)))"

definition post_backup :: "obj \<Rightarrow> api_error + edit" where
  "post_backup body = (case get_null ''config'' body of
     JObj incoming \<Rightarrow> Inr ((edit_with ''restore backup'' (\<lambda>_. Inr incoming))\<lparr>ed_confirm := Some True\<rparr>)
   | _ \<Rightarrow> Inl (api_fail 400 ''bad_request''))"

text \<open>The edit a handler asks for, by its name.\<close>

definition network_edits :: "request \<Rightarrow> call \<Rightarrow> (string \<times> (api_error + edit)) list" where
  "network_edits rq c = (let xid = param ''id'' c; body = with_body rq c in
     [(''put_system'', body (\<lambda>b. Inr (edit_with ''system settings'' (update_section ''system'' b)))),
      (''put_port'', body (\<lambda>b. Inr (edit_with (''port '' @ xid) (port_change xid b)))),
      (''post_network'', with_new_id rq c (\<lambda>nid b. Inr (edit_with (''create network '' @ nid) (network_create nid b)))),
      (''put_network'', body (\<lambda>b. Inr (edit_with (''network '' @ xid) (network_change xid b)))),
      (''delete_network'', Inr (edit_with (''delete network '' @ xid) (network_delete xid))),
      (''put_wan'', body (\<lambda>b. Inr (edit_with (''WAN '' @ xid) (wan_change xid b)))),
      (''put_firewall'', body (\<lambda>b. Inr (edit_with ''firewall'' (deep_section ''firewall'' b)))),
      (''put_nat'', body (\<lambda>b. Inr (edit_with ''NAT'' (deep_section ''nat'' b)))),
      (''put_routing'', body (\<lambda>b. Inr (edit_with ''routing'' (routing_change b)))),
      (''put_services'', body put_services), (''put_dpi'', body put_dpi),
      (''put_controller'', body put_controller)])"

definition wifi_edits :: "'w api \<Rightarrow> request \<Rightarrow> call \<Rightarrow> (string \<times> (api_error + edit)) list" where
  "wifi_edits ax rq c = (let xid = param ''id'' c; body = with_body rq c in
     [(''put_radio'', body (put_radio ax xid)),
      (''post_wifi_network'', with_new_id rq c (\<lambda>w b. Inr (edit_with (''create SSID '' @ w) (ssid_create w b)))),
      (''put_wifi_network'', body (\<lambda>b. Inr (edit_with (''SSID '' @ xid) (ssid_change xid b)))),
      (''delete_wifi_network'', Inr (edit_with (''delete SSID '' @ xid) (ssid_delete xid))),
      (''post_mld'', with_new_id rq c (post_mld ax)),
      (''put_mld'', body (\<lambda>b. Inr (edit_with (''MLD '' @ xid) (mld_change xid b)))),
      (''delete_mld'', Inr (edit_with (''delete MLD '' @ xid) (mld_delete xid))),
      (''put_regulatory'', body (\<lambda>b. Inr (edit_with ''regulatory environment'' (regulatory_change b)))),
      (''put_channel_settings'', body (\<lambda>b.
         Inr (quietly (edit_with ''channel optimisation settings'' (optimisation_change b))))),
      (''post_backup'', body post_backup)])"

definition edit_of :: "'w api \<Rightarrow> request \<Rightarrow> call \<Rightarrow> (api_error + edit) option" where
  "edit_of ax rq c = map_of (network_edits rq c @ wifi_edits ax rq c) (cl_handler c)"

definition caller :: "call \<Rightarrow> string" where
  "caller c = (case id_principal (cl_who c) of None \<Rightarrow> [] | Some p \<Rightarrow> pr_name p)"

definition run_edit :: "'w api \<Rightarrow> request \<Rightarrow> call \<Rightarrow> draw \<Rightarrow> (api_error + edit) \<Rightarrow> 'w store
    \<Rightarrow> (api_error + commit_result) \<times> 'w store" where
  "run_edit ax rq c dw e st = (case e of
     Inl err \<Rightarrow> (Inl err, st)
   | Inr ed \<Rightarrow> api_commit (ax_env ax) (api_args (caller c) (source_ip rq) (ed_summary ed) (ed_confirm ed))
       (ed_change ed) (dw_txid dw) (dw_time dw) st)"

subsection \<open>Accounts and sessions\<close>

datatype reply =
    Data json
  | Edited commit_result
  | SignedIn string string session
  | Sessions "session_view list"
  | Logins "login_row list"
  | AuditRows "audit_row list"
  | Revisions "revision list"
  | Changes "change list" "(string \<times> time) option"

type_synonym 'w api_state = "'w store \<times> auth"

definition ok_reply :: "bool \<Rightarrow> reply" where
  "ok_reply b = Data (JObj [(''ok'', JBool b)])"

definition internal :: api_error where
  "internal = api_fail 500 ''internal_error''"

text \<open>\<open>ValidationError\<close> is a \<open>ValueError\<close>; a failed commit is neither.\<close>

definition is_value_error :: "auth_error \<Rightarrow> bool" where
  "is_value_error e = (case e of AuthValueError \<Rightarrow> True
     | StageError (ValidationError _) \<Rightarrow> True | StageError (Raised ValueError) \<Rightarrow> True | _ \<Rightarrow> False)"

definition is_key_error :: "auth_error \<Rightarrow> bool" where
  "is_key_error e = (case e of StageError (Raised KeyError) \<Rightarrow> True | _ \<Rightarrow> False)"

definition is_refusal :: "auth_error \<Rightarrow> bool" where
  "is_refusal e = (case e of PermissionError _ \<Rightarrow> True | _ \<Rightarrow> False)"

text \<open>\<open>body["username"]\<close> and \<open>body["password"]\<close>; credentials that are no strings are out of scope.\<close>

definition credentials :: "obj \<Rightarrow> api_error + string \<times> string" where
  "credentials body = (case (need_text ''username'' body, need_text ''password'' body) of
     (Inr u, Inr p) \<Rightarrow> Inr (u, p) | _ \<Rightarrow> Inl (api_fail 400 ''bad_request''))"

definition login_of :: "request \<Rightarrow> string \<Rightarrow> string \<Rightarrow> string option \<Rightarrow> login_request" where
  "login_of rq u p totp =
     \<lparr>lr_username = u, lr_password = p, lr_ip = source_ip rq, lr_agent = header_of rq ''User-Agent'' [],
      lr_totp = totp\<rparr>"

definition sign_in :: "'w api \<Rightarrow> request \<Rightarrow> draw \<Rightarrow> string \<Rightarrow> string \<Rightarrow> string option \<Rightarrow> nat \<times> string
    \<Rightarrow> 'w api_state \<Rightarrow> (api_error + reply) \<times> 'w api_state" where
  "sign_in ax rq dw u p totp refused = (\<lambda>(st, a).
     case login (ax_crypto ax) (running st) (login_of rq u p totp) (dw_login dw) (dw_time dw) a of
       (Inr s, a1) \<Rightarrow> (Inr (SignedIn u (rd_token (dw_login dw)) s), st, a1)
     | (Inl e, a1) \<Rightarrow> (Inl (if is_refusal e then api_fail (fst refused) (snd refused) else internal), st, a1))"

definition post_setup :: "'w api \<Rightarrow> request \<Rightarrow> draw \<Rightarrow> obj \<Rightarrow> 'w api_state \<Rightarrow> (api_error + reply) \<times> 'w api_state" where
  "post_setup ax rq dw body = (\<lambda>(st, a).
     case credentials body of
       Inl e \<Rightarrow> (Inl e, st, a)
     | Inr (u, p) \<Rightarrow>
         (case create_owner (ax_crypto ax) (ax_env ax) u p (dw_salt dw) (dw_txid dw) (dw_time dw) st of
            (Inl e, st1) \<Rightarrow> (Inl (if is_value_error e \<or> is_key_error e then api_fail 400 ''bad_request''
                else if is_refusal e then api_fail 409 ''already_configured'' else internal), st1, a)
          | (Inr _, st1) \<Rightarrow> sign_in ax rq dw u p None (500, ''internal_error'') (st1, a)))"

definition post_login :: "'w api \<Rightarrow> request \<Rightarrow> draw \<Rightarrow> obj \<Rightarrow> 'w api_state \<Rightarrow> (api_error + reply) \<times> 'w api_state" where
  "post_login ax rq dw body = sign_in ax rq dw (text_or [] ''username'' body) (text_or [] ''password'' body)
     (case get_null ''totp'' body of JStr s \<Rightarrow> Some s | _ \<Rightarrow> None) (401, ''unauthorized'')"

definition post_logout :: "call \<Rightarrow> 'w api_state \<Rightarrow> (api_error + reply) \<times> 'w api_state" where
  "post_logout c = (\<lambda>(st, a). (Inr (ok_reply True), st,
     case id_token (cl_who c) of None \<Rightarrow> a
     | Some token \<Rightarrow> if token = [] then a else snd (logout token a)))"

definition get_self :: "call \<Rightarrow> 'w api_state \<Rightarrow> reply" where
  "get_self c = (\<lambda>(st, a). Data (JObj
     [(''user'', case id_principal (cl_who c) of None \<Rightarrow> JNull | Some p \<Rightarrow> JObj (principal_dict p)),
      (''csrf'', case csrf_for_session (the_default [] (id_token (cl_who c))) a of
          None \<Rightarrow> JNull | Some s \<Rightarrow> JStr s)]))"

definition post_user :: "'w api \<Rightarrow> call \<Rightarrow> draw \<Rightarrow> obj \<Rightarrow> 'w api_state \<Rightarrow> (api_error + reply) \<times> 'w api_state" where
  "post_user ax c dw body = (\<lambda>(st, a).
     case credentials body of
       Inl e \<Rightarrow> (Inl e, st, a)
     | Inr (u, p) \<Rightarrow>
         (case create_user (ax_crypto ax) (ax_env ax) (caller c) u p (text_or ''read-only'' ''role'' body)
             (dw_salt dw) (dw_txid dw) (dw_time dw) st of
            (Inl e, st1) \<Rightarrow> (Inl (if is_value_error e \<or> is_key_error e then api_fail 400 ''bad_request''
                else internal), st1, a)
          | (Inr _, st1) \<Rightarrow> (Inr (ok_reply True), st1, a)))"

text \<open>The two later steps of \<open>put_user\<close>: a fresh TOTP secret answers at once, else the role may change.\<close>

definition put_role :: "'w api \<Rightarrow> request \<Rightarrow> call \<Rightarrow> draw \<Rightarrow> string \<Rightarrow> obj \<Rightarrow> 'w api_state
    \<Rightarrow> (api_error + reply) \<times> 'w api_state" where
  "put_role ax rq c dw name body = (\<lambda>(st, a).
     if is_set ''enable_mfa'' body
     then (case enable_totp (ax_env ax) (caller c) name (dw_totp dw) (dw_txid2 dw) (dw_time dw) st of
             (Inl e, st1) \<Rightarrow> (Inl internal, st1, a)
           | (Inr _, st1) \<Rightarrow> (Inr (Data (JObj [(''ok'', JBool True), (''totp_secret'', JStr (dw_totp dw))])), st1, a))
     else case map_of body ''role'' of
         None \<Rightarrow> (Inr (ok_reply True), st, a)
       | Some role \<Rightarrow>
           (case api_commit (ax_env ax) (api_args (caller c) (source_ip rq) (''role for '' @ name) (Some False))
               (role_change name role) (dw_txid2 dw) (dw_time dw) st of
              (Inl e, st1) \<Rightarrow> (Inl e, st1, a)
            | (Inr _, st1) \<Rightarrow> (Inr (ok_reply True), st1, a)))"

definition put_user :: "'w api \<Rightarrow> request \<Rightarrow> call \<Rightarrow> draw \<Rightarrow> obj \<Rightarrow> 'w api_state \<Rightarrow> (api_error + reply) \<times> 'w api_state" where
  "put_user ax rq c dw body = (\<lambda>(st, a).
     let name = param ''name'' c in
     case map_of body ''password'' of
       None \<Rightarrow> put_role ax rq c dw name body (st, a)
     | Some j \<Rightarrow>
         (case set_password (ax_crypto ax) (ax_env ax) (caller c) name (text_of j) (dw_salt dw) (dw_txid dw)
             (dw_time dw) (st, a) of
            (Inl e, st1, a1) \<Rightarrow> (Inl (if is_value_error e then api_fail 400 ''bad_request'' else internal), st1, a1)
          | (Inr _, st1, a1) \<Rightarrow> put_role ax rq c dw name body (st1, a1)))"

definition delete_user_handler :: "'w api \<Rightarrow> call \<Rightarrow> draw \<Rightarrow> 'w api_state \<Rightarrow> (api_error + reply) \<times> 'w api_state" where
  "delete_user_handler ax c dw = (\<lambda>(st, a).
     let name = param ''name'' c in
     if name = caller c then (Inl (api_fail 400 ''bad_request''), st, a)
     else case delete_user (ax_env ax) (caller c) name (dw_txid dw) (dw_time dw) (st, a) of
         (Inl e, s) \<Rightarrow> (Inl (if is_value_error e \<or> is_refusal e then api_fail 400 ''bad_request'' else internal), s)
       | (Inr _, s) \<Rightarrow> (Inr (ok_reply True), s))"

definition get_users :: "'w store \<Rightarrow> reply" where
  "get_users st = Data (JObj [(''items'', JList (map (\<lambda>(name, d).
     JObj [(''username'', JStr name), (''role'', get_null ''role'' (obj_of d)),
       (''created'', get_null ''created'' (obj_of d)),
       (''mfa_enabled'', JBool (is_set ''totp_secret'' (obj_of d)))]) (obj_of (users_of (running st)))))])"

subsection \<open>Transactions\<close>

text \<open>\<open>int(x)\<close> of a JSON value; a value it refuses is an internal error.\<close>

definition py_int_of :: "json \<Rightarrow> int option" where
  "py_int_of j = (case j of
     JInt n \<Rightarrow> Some n | JBool b \<Rightarrow> Some (if b then 1 else 0)
   | JFloat q \<Rightarrow> Some (if q < 0 then - \<lfloor>- q\<rfloor> else \<lfloor>q\<rfloor>)
   | JStr s \<Rightarrow> py_int_of_string s | _ \<Rightarrow> None)"

definition commit_failure :: "commit_error \<Rightarrow> api_error" where
  "commit_failure e = (case e of CommitError stg _ _ \<Rightarrow> api_fail 409 (''commit_'' @ stg) | Uncaught _ \<Rightarrow> internal)"

definition post_commit :: "'w api \<Rightarrow> request \<Rightarrow> call \<Rightarrow> draw \<Rightarrow> obj \<Rightarrow> 'w store \<Rightarrow> (api_error + reply) \<times> 'w store" where
  "post_commit ax rq c dw body st =
     (case py_int_of (get_or (JInt 120) ''rollback_seconds'' body) of
        None \<Rightarrow> (Inl internal, st)
      | Some n \<Rightarrow>
          (case commit (ax_env ax) ((api_args (caller c) (source_ip rq) (text_or ''manual commit'' ''summary'' body) None)
               \<lparr>ca_rollback_seconds := n\<rparr>) (dw_txid dw) (dw_time dw) st of
             (Inl e, st1) \<Rightarrow> (Inl (commit_failure e), st1)
           | (Inr res, st1) \<Rightarrow> (Inr (Edited res), st1)))"

definition post_confirm :: "call \<Rightarrow> draw \<Rightarrow> obj \<Rightarrow> 'w store \<Rightarrow> (api_error + reply) \<times> 'w store" where
  "post_confirm c dw body st =
     (if \<not> is_set ''txid'' body then (Inl (api_fail 400 ''bad_request''), st)
      else let (ok, st1) = confirm (text_or [] ''txid'' body) (caller c) (dw_time dw) st in (Inr (ok_reply ok), st1))"

definition post_rollback :: "'w api \<Rightarrow> request \<Rightarrow> call \<Rightarrow> draw \<Rightarrow> 'w store \<Rightarrow> (api_error + reply) \<times> 'w store" where
  "post_rollback ax rq c dw st =
     (case py_int_of_string (param ''id'' c) of
        None \<Rightarrow> (Inl internal, st)
      | Some n \<Rightarrow>
          if n < 0 then (Inl (api_fail 409 ''rollback_failed''), st)
          else (case rollback_to_revision (ax_env ax) (nat n) (caller c) (source_ip rq) (dw_txid dw) (dw_time dw) st of
              (Inl (CommitError _ _ _), st1) \<Rightarrow> (Inl (api_fail 409 ''rollback_failed''), st1)
            | (Inl (Uncaught _), st1) \<Rightarrow> (Inl internal, st1)
            | (Inr res, st1) \<Rightarrow> (Inr (Edited res), st1)))"

text \<open>\<open>put_client\<close>: the body is passed on as keyword arguments, where \<open>mac\<close> and \<open>self\<close> are taken; a fixed address is
  configuration and is committed, after the client table has been updated.\<close>

definition put_client :: "'w api \<Rightarrow> request \<Rightarrow> call \<Rightarrow> draw \<Rightarrow> obj \<Rightarrow> 'w store \<Rightarrow> (api_error + reply) \<times> 'w store" where
  "put_client ax rq c dw body st =
     (let mac = param ''mac'' c in
      if ''mac'' \<in> fst ` set body \<or> ''self'' \<in> fst ` set body then (Inl internal, st)
      else case ax_client ax mac body of
        UpdateFails \<Rightarrow> (Inl internal, st)
      | NothingUpdated \<Rightarrow> (Inl (api_fail 404 ''not_found''), st)
      | Updated network hostname \<Rightarrow>
          if \<not> is_set ''fixed_ip'' body then (Inr (ok_reply True), st)
          else (case api_commit (ax_env ax) (api_args (caller c) (source_ip rq) (''fixed IP for '' @ mac) (Some False))
              (reserve_address (if network = [] then ''default'' else network) (py_lower mac) (get_null ''fixed_ip'' body) hostname)
              (dw_txid dw) (dw_time dw) st of
            (Inl e, st1) \<Rightarrow> (Inl e, st1)
          | (Inr _, st1) \<Rightarrow> (Inr (ok_reply True), st1)))"

definition get_config :: "'w store \<Rightarrow> reply" where
  "get_config st = Data (JObj [(''running'', redact_secrets (running st)), (''candidate'', redact_secrets (candidate st))])"

text \<open>\<open>get_wifi\<close>, with the wireless part of the telemetry snapshot.\<close>

definition get_wifi :: "json \<Rightarrow> 'w store \<Rightarrow> reply" where
  "get_wifi snapshot st = Data (JObj [(''config'', get_or (JObj []) ''wifi'' (obj_of (running st))), (''state'', snapshot)])"

text \<open>\<open>get_backup\<close>, without the board description and the note.\<close>

definition get_backup :: "time \<Rightarrow> 'w store \<Rightarrow> reply" where
  "get_backup t st = Data (JObj [(''version'', JInt SCHEMA_VERSION), (''created'', JFloat t), (''config'', running st)])"

subsection \<open>Calling a handler\<close>

definition lift_store :: "('w store \<Rightarrow> (api_error + reply) \<times> 'w store) \<Rightarrow> 'w api_state
    \<Rightarrow> (api_error + reply) \<times> 'w api_state" where
  "lift_store f = (\<lambda>(st, a). case f st of (r, st1) \<Rightarrow> (r, st1, a))"

definition lift_auth :: "(auth \<Rightarrow> reply \<times> auth) \<Rightarrow> 'w api_state \<Rightarrow> (api_error + reply) \<times> 'w api_state" where
  "lift_auth f = (\<lambda>(st, a). case f a of (r, a1) \<Rightarrow> (Inr r, st, a1))"

definition needing_body :: "request \<Rightarrow> call \<Rightarrow> (obj \<Rightarrow> 'w api_state \<Rightarrow> (api_error + reply) \<times> 'w api_state)
    \<Rightarrow> 'w api_state \<Rightarrow> (api_error + reply) \<times> 'w api_state" where
  "needing_body rq c f s = (case body_object rq c of Inl e \<Rightarrow> (Inl e, s) | Inr body \<Rightarrow> f body s)"

definition account_handlers :: "'w api \<Rightarrow> request \<Rightarrow> call \<Rightarrow> draw
    \<Rightarrow> (string \<times> ('w api_state \<Rightarrow> (api_error + reply) \<times> 'w api_state)) list" where
  "account_handlers ax rq c dw =
     [(''post_setup'', needing_body rq c (post_setup ax rq dw)),
      (''post_login'', needing_body rq c (post_login ax rq dw)),
      (''post_logout'', post_logout c),
      (''get_self'', \<lambda>s. (Inr (get_self c s), s)),
      (''get_sessions'', lift_auth (\<lambda>a. (Sessions (session_list a), a))),
      (''delete_session'', lift_auth (\<lambda>a. case revoke_session (param ''id'' c) a of (b, a1) \<Rightarrow> (ok_reply b, a1))),
      (''get_login_history'', lift_auth (\<lambda>a. (Logins (login_history 100 a), a))),
      (''get_users'', lift_store (\<lambda>st. (Inr (get_users st), st))),
      (''post_user'', needing_body rq c (post_user ax c dw)),
      (''put_user'', needing_body rq c (put_user ax rq c dw)),
      (''delete_user'', delete_user_handler ax c dw)]"

definition store_handlers :: "'w api \<Rightarrow> json \<Rightarrow> request \<Rightarrow> call \<Rightarrow> draw
    \<Rightarrow> (string \<times> ('w api_state \<Rightarrow> (api_error + reply) \<times> 'w api_state)) list" where
  "store_handlers ax snapshot rq c dw =
     [(''get_config'', lift_store (\<lambda>st. (Inr (get_config st), st))),
      (''get_wifi'', lift_store (\<lambda>st. (Inr (get_wifi snapshot st), st))),
      (''get_pending'', lift_store (\<lambda>st. (Inr (Changes (pending_changes st) (pending_commit st)), st))),
      (''post_commit'', needing_body rq c (\<lambda>b. lift_store (post_commit ax rq c dw b))),
      (''post_confirm'', needing_body rq c (\<lambda>b. lift_store (post_confirm c dw b))),
      (''post_discard'', lift_store (\<lambda>st. (Inr (ok_reply True), discard_candidate st))),
      (''get_revisions'', lift_store (\<lambda>st. (Inr (Revisions (revision_list 60 st)), st))),
      (''post_rollback'', lift_store (post_rollback ax rq c dw)),
      (''put_client'', needing_body rq c (\<lambda>b. lift_store (put_client ax rq c dw b))),
      (''get_backup'', lift_store (\<lambda>st. (Inr (get_backup (dw_time dw) st), st)))]"

definition run_handler :: "'w api \<Rightarrow> json \<Rightarrow> request \<Rightarrow> call \<Rightarrow> draw \<Rightarrow> 'w api_state
    \<Rightarrow> ((api_error + reply) \<times> 'w api_state) option" where
  "run_handler ax snapshot rq c dw s =
     (case edit_of ax rq c of
        Some e \<Rightarrow> Some (lift_store (\<lambda>st. case run_edit ax rq c dw e st of
            (Inl err, st1) \<Rightarrow> (Inl err, st1) | (Inr res, st1) \<Rightarrow> (Inr (Edited res), st1)) s)
      | None \<Rightarrow> map_option (\<lambda>f. f s)
          (map_of (account_handlers ax rq c dw @ store_handlers ax snapshot rq c dw) (cl_handler c)))"

text \<open>\<open>_dispatch\<close>. The result is \<open>None\<close> where the request reaches code outside this model: the event
  stream, which is served before the router is asked, and the handlers that only read telemetry or
  hand a request to another service.\<close>

definition dispatch :: "'w api \<Rightarrow> json \<Rightarrow> request \<Rightarrow> draw \<Rightarrow> 'w api_state
    \<Rightarrow> ((api_error + reply) \<times> 'w api_state) option" where
  "dispatch ax snapshot rq dw = (\<lambda>(st, a).
     if request_path rq = API_PREFIX @ ''/stream'' then None
     else case gate (ax_crypto ax) (running st) rq (dw_time dw) a of
       (Inl e, a1) \<Rightarrow> Some (Inl e, st, a1)
     | (Inr c, a1) \<Rightarrow> run_handler ax snapshot rq c dw (st, a1))"

end
