(* ===== verification/ApiSafety.thy ===== *)
theory ApiSafety
  imports ApiHandlers StoreSafety AuthSafety
begin

text \<open>
  What the HTTP API guarantees: who reaches which handler, which handlers can touch the accounts, what
  a refused request leaves behind; and where it falls short: logging out, roles of open sessions,
  the only owner, and passphrases shown to readers.
\<close>

subsection \<open>Authorisation\<close>

definition PUBLIC_HANDLERS :: "string list" where
  "PUBLIC_HANDLERS = [''get_setup'', ''post_setup'', ''post_login'', ''post_logout'']"

definition WRITE_PERMISSIONS :: "string list" where
  "WRITE_PERMISSIONS = [''network.write'', ''security.write'', ''routing.write'', ''system.write'',
     ''clients.write'', ''users.manage'', ''backup.manage'']"

text \<open>The table of routes, checked once.\<close>

lemma routes_guarded:
  "list_all (\<lambda>r. (rt_permission r = None \<longrightarrow> rt_handler r \<in> set PUBLIC_HANDLERS) \<and>
     (rt_permission r \<noteq> None \<and> rt_method r \<noteq> ''GET'' \<longrightarrow> the (rt_permission r) \<in> set WRITE_PERMISSIONS)) api_routes"
  by code_simp

lemma read_only_cannot_write:
  "perm \<in> set WRITE_PERMISSIONS \<Longrightarrow> \<not> can (new_principal name ''read-only'' None kind) perm"
proof -
  have "list_all (\<lambda>perm. \<not> can (new_principal name ''read-only'' None kind) perm) WRITE_PERMISSIONS" by code_simp
  then show "perm \<in> set WRITE_PERMISSIONS \<Longrightarrow> \<not> can (new_principal name ''read-only'' None kind) perm"
    by (simp add: list_all_iff)
qed

lemma match_routes_member:
  "match_routes rs other method path = Inr (Some (r, params)) \<Longrightarrow> r \<in> set rs \<and> rt_method r = method"
  by (induction rs arbitrary: other) (auto split: option.splits if_splits)

text \<open>Whom \<open>authenticate\<close> accepts: the holder of a token or of a live session.\<close>

lemma authenticate_cases:
  assumes "authenticate cy cfg rq t a = (Inr who, a1)"
  obtains (bearer) p where "id_principal who = Some p" "pr_kind p = ''token''"
    | (session) token s where "id_principal who = Some (new_principal (se_username s) (se_role s) None ''session'')"
        "id_token who = Some token" "map_of (au_sessions a1) token = Some (s\<lparr>se_last_seen := t\<rparr>)"
        "\<not> session_expired t s"
proof (cases "startswith (header_of rq ''Authorization'' []) BEARER")
  case True
  with assms obtain p where p: "principal_for_token cy cfg (py_strip (drop 7 (header_of rq ''Authorization'' []))) = Some p"
    "who = \<lparr>id_principal = Some p, id_token = None\<rparr>"
    by (auto simp: authenticate_def Let_def split: option.splits)
  then have "pr_kind p = ''token''" by (auto simp: principal_for_token_def new_principal_def split: option.splits)
  with p show thesis by (intro bearer [of p]) simp_all
next
  case False
  let ?token = "the_default [] (map_of (cookies rq) ''sbegw_session'')"
  obtain p where run: "principal_for_session ?token t a = (Some p, a1)" and who: "who = \<lparr>id_principal = Some p, id_token = Some ?token\<rparr>"
    using assms False by (auto simp: authenticate_def Let_def split: if_splits option.splits prod.splits)
  from run show thesis
    by (auto simp: principal_for_session_def who update_conv' split: option.splits if_splits
        intro!: session [of _ ?token])
qed

text \<open>C3. Nobody reaches a handler unauthorised. Without signing in only the setup, login and logout
  handlers run. Every other handler runs for a principal that has the permission its route names,
  and a handler that is not a read needs a write permission and, unless the caller presents an API
  token, the CSRF token of a live session whose role is not \<open>read-only\<close>.\<close>

theorem requests_are_authorised:
  assumes "gate cy cfg rq t a = (Inr c, a1)"
  shows "(cl_who c = nobody \<and> cl_handler c \<in> set PUBLIC_HANDLERS) \<or>
    (\<exists>p perm. id_principal (cl_who c) = Some p \<and> can p perm \<and>
       (\<exists>r \<in> set api_routes. rt_method r = method_of rq \<and> rt_handler r = cl_handler c \<and> rt_permission r = Some perm) \<and>
       (method_of rq = ''GET'' \<or>
        perm \<in> set WRITE_PERMISSIONS \<and>
        (pr_kind p = ''token'' \<or>
         (\<exists>token s. id_token (cl_who c) = Some token \<and> map_of (au_sessions a1) token = Some s \<and>
            se_csrf s \<noteq> [] \<and> header_of rq ''X-CSRF-Token'' [] = se_csrf s \<and> pr_role p \<noteq> ''read-only''))))"
proof -
  obtain r params who where m: "match_routes api_routes False (method_of rq) (request_path rq) = Inr (Some (r, params))"
    and adm: "admit cy cfg rq (rt_permission r) t a = (Inr who, a1)"
    and c: "cl_handler c = rt_handler r" "cl_who c = who"
    using assms by (auto simp: gate_def split: sum.splits option.splits prod.splits)
  note r = match_routes_member [OF m]
  with routes_guarded have guard: "rt_permission r = None \<Longrightarrow> rt_handler r \<in> set PUBLIC_HANDLERS"
    "rt_permission r = Some perm \<Longrightarrow> method_of rq \<noteq> ''GET'' \<Longrightarrow> perm \<in> set WRITE_PERMISSIONS" for perm
    by (force simp: list_all_iff)+
  show ?thesis
  proof (cases "rt_permission r")
    case None
    with adm guard(1) c show ?thesis by (simp add: admit_def)
  next
    case (Some perm)
    obtain p where auth: "authenticate cy cfg rq t a = (Inr who, a1)" and p: "id_principal who = Some p" "can p perm"
      and csrf: "method_of rq \<noteq> ''GET'' \<Longrightarrow> csrf_ok rq who a1"
      using adm Some by (auto simp: admit_def split: sum.splits prod.splits if_splits option.splits)
    have "method_of rq = ''GET'' \<or> perm \<in> set WRITE_PERMISSIONS \<and> (pr_kind p = ''token'' \<or>
        (\<exists>token s. id_token who = Some token \<and> map_of (au_sessions a1) token = Some s \<and>
            se_csrf s \<noteq> [] \<and> header_of rq ''X-CSRF-Token'' [] = se_csrf s \<and> pr_role p \<noteq> ''read-only''))"
      using auth
    proof (cases rule: authenticate_cases)
      case (bearer p')
      with p guard(2) [OF Some] show ?thesis by auto
    next
      case (session token s)
      then have "pr_role p \<noteq> ''read-only''" if "perm \<in> set WRITE_PERMISSIONS"
        using that p read_only_cannot_write by (auto simp: new_principal_def)
      with session csrf guard(2) [OF Some] p show ?thesis
        by (auto simp: csrf_ok_def csrf_for_session_def the_default_def new_principal_def)
    qed
    with p r Some show ?thesis unfolding c by blast
  qed
qed

lemma requests_are_authorised_witness:
  "\<exists>c a1 p perm. gate toy_crypto JNull
     \<lparr>rq_verb = ''PUT'', rq_path = ''/api/v1/ports/eth1/'', rq_query = [],
      rq_headers = [(''cookie'', ''theme=dark; sbegw_session=tok''), (''x-csrf-token'', ''sesame'')],
      rq_peer = ''10.0.0.9'', rq_body = BadBody\<rparr> 20
     \<lparr>au_sessions = [(''tok'', \<lparr>se_csrf = ''sesame'', se_username = ''ann'', se_role = ''network-admin'', se_created = 0,
        se_last_seen = 10, se_ip = ''10.0.0.9'', se_agent = []\<rparr>)],
      au_failures = [], au_logins = [], next_login = 1, au_alerts = []\<rparr> = (Inr c, a1) \<and>
     cl_handler c = ''put_port'' \<and> cl_params c = [(''id'', ''eth1'')] \<and>
     id_principal (cl_who c) = Some p \<and> can p perm \<and> perm \<in> set WRITE_PERMISSIONS"
  (is "\<exists>c a1 p perm. gate toy_crypto JNull ?rq 20 ?a = (Inr c, a1) \<and> _")
proof -
  have "case gate toy_crypto JNull ?rq 20 ?a of (Inr c, _) \<Rightarrow> cl_handler c = ''put_port'' \<and> cl_params c = [(''id'', ''eth1'')] | _ \<Rightarrow> False"
    by code_simp
  then obtain c a1 where g: "gate toy_crypto JNull ?rq 20 ?a = (Inr c, a1)" and c: "cl_handler c = ''put_port''" "cl_params c = [(''id'', ''eth1'')]"
    by (auto split: prod.splits sum.splits)
  have "cl_handler c \<notin> set PUBLIC_HANDLERS" "method_of ?rq \<noteq> ''GET''"
    by (simp_all add: c PUBLIC_HANDLERS_def method_of_def)
  with requests_are_authorised [OF g] g c show ?thesis by blast
qed

subsection \<open>What an edit can touch\<close>

text \<open>Two documents that agree outside one key.\<close>

definition only_at :: "string \<Rightarrow> obj \<Rightarrow> obj \<Rightarrow> bool" where
  "only_at k d d' \<longleftrightarrow> (\<forall>k'. k' \<noteq> k \<longrightarrow> map_of d' k' = map_of d k')"

lemma only_at_refl [simp]: "only_at k d d"
  by (simp add: only_at_def)























text \<open>The accounts and the API tokens of a document. Validation fills in a missing role, so accounts are compared with
  their roles filled in.\<close>

definition filled_user :: "json \<Rightarrow> json" where
  "filled_user u = (case u of JObj d \<Rightarrow> JObj (setdefault ''role'' (JStr ''read-only'') d) | _ \<Rightarrow> u)"


lemma filled_user_idem [simp]: "filled_user (filled_user u) = filled_user u"
  by (auto simp: filled_user_def setdefault_def map_of_setdefault split: json.split option.split)






















subsection \<open>Refused requests\<close>

lemma commit_error_store:
  assumes "commit env args txid t st = (Inl e, st')"
  shows "running st' = running st \<and> st_pending st' = st_pending st"
  using assms
proof (cases rule: commit_cases)
  case (committed new warnings msgs conf ch w w0 w1)
  then have False by (auto simp: finish_commit_def Let_def split: prod.splits)
  then show ?thesis ..
qed simp_all

lemma stage_outcome:
  assumes "stage env mutate st = (r, st')"
  obtains (refused) e where "r = Inl e" "st' = st" "rbind (mutate (candidate st)) (validate (env_caps env)) = Inl e"
    | (staged) trial w where "r = Inr w" "rbind (mutate (candidate st)) (validate (env_caps env)) = Inr (trial, w)"
        "st' = st\<lparr>candidate := trial, candidate_file := Some trial\<rparr>"
proof (cases "rbind (mutate (candidate st)) (validate (env_caps env))")
  case (Inl e)
  with assms show thesis by (intro refused [of e]) (simp_all add: stage_def)
next
  case (Inr y)
  with assms show thesis by (cases y) (auto simp: stage_def intro!: staged)
qed

text \<open>C19. A refused edit leaves no trace of its change: the running document and a pending commit are
  untouched; an edit that was malformed (400, 422) changed nothing at all, and after a failed
  commit (409) nothing is staged any more. Only an internal error may leave the change staged.\<close>

theorem refused_edit_leaves_nothing:
  assumes "api_commit env args f txid t st = (Inl e, st')"
  shows "running st' = running st \<and> st_pending st' = st_pending st \<and>
    (ae_status e \<in> {400, 422} \<and> st' = st \<or>
     ae_status e = 409 \<and> candidate st' = running st' \<and> candidate_file st' = None \<or> ae_status e = 500)"
proof -
  obtain r st1 where s: "stage env (on_document f) st = (r, st1)" by fastforce
  then show ?thesis
  proof (cases rule: stage_outcome)
    case (refused err)
    with s assms show ?thesis
      by (auto simp: api_commit_def stage_error_def api_fail_def split: verr.splits if_splits)
  next
    case (staged trial w)
    obtain res st2 where c: "commit env args txid t st1 = (res, st2)" by fastforce
    with s staged(1) assms have "\<exists>err. res = Inl err"
      by (cases res) (auto simp: api_commit_def split: commit_error.splits)
    then obtain err where res: "res = Inl err" by blast
    with s staged(1) c assms have "st' = (case err of CommitError _ _ _ \<Rightarrow> discard_candidate st2 | _ \<Rightarrow> st2)"
      "ae_status e = (case err of CommitError _ _ _ \<Rightarrow> 409 | _ \<Rightarrow> 500)"
      by (auto simp: api_commit_def api_fail_def split: commit_error.splits)
    with commit_error_store [OF c [unfolded res]] staged(3) show ?thesis
      by (cases err) (simp_all add: discard_candidate_def)
  qed
qed

definition waiting :: "unit store" where
  "waiting = (init_store None None ())\<lparr>st_pending := Some \<lparr>pd_txid = ''tx1'', pd_previous = JObj default_config,
     pd_revision = 1, pd_deadline = 120, pd_user = ''ann''\<rparr>\<rparr>"

lemma refused_edit_leaves_nothing_witness:
  "\<exists>st'. api_commit plain_env (api_args ''ann'' ''10.0.0.9'' ''ports'' None) (\<lambda>d. Inr d) ''tx2'' 0 waiting =
     (Inl (api_fail 409 ''commit_lock''), st') \<and> candidate st' = running waiting"
proof -
  have "\<exists>st'. api_commit plain_env (api_args ''ann'' ''10.0.0.9'' ''ports'' None) (\<lambda>d. Inr d) ''tx2'' 0 waiting =
      (Inl (api_fail 409 ''commit_lock''), st')"
    by (simp add: api_commit_def stage_def on_document_def waiting_def init_store_def load_running_def
        plain_env_def validate_default commit_def)
  then obtain st' where "api_commit plain_env (api_args ''ann'' ''10.0.0.9'' ''ports'' None) (\<lambda>d. Inr d) ''tx2'' 0 waiting =
      (Inl (api_fail 409 ''commit_lock''), st')" ..
  with refused_edit_leaves_nothing [OF this] show ?thesis by (simp add: api_fail_def)
qed

text \<open>The account operations do not discard what they staged: while a commit waits for confirmation,
  a change of an account is answered with an error, yet stays in the candidate, and is still there
  once the pending commit is confirmed, when anyone's next commit will take it along.\<close>

theorem refused_account_change_stays_staged:
  assumes "stage_commit env mutate args txid t st = (Inl (CommitFailed e), st')" and "st_pending st = Some p"
  shows "e = CommitError ''lock'' (pd_txid p) [] \<and> running st' = running st \<and>
    (\<exists>w. rbind (mutate (candidate st)) (validate (env_caps env)) = Inr (candidate st', w)) \<and>
    (let st2 = snd (confirm (pd_txid p) user t2 st') in st_pending st2 = None \<and> candidate st2 = candidate st')"
proof -
  obtain r st1 where s: "stage env mutate st = (r, st1)" by fastforce
  then show ?thesis
  proof (cases rule: stage_outcome)
    case refused
    with s assms(1) show ?thesis by (simp add: stage_commit_def)
  next
    case (staged trial w)
    with s assms have "e = CommitError ''lock'' (pd_txid p) []" "st' = st1"
      by (auto simp: stage_commit_def commit_def)
    with staged assms(2) show ?thesis by (simp add: confirm_def audit_def Let_def)
  qed
qed

lemma refused_account_change_stays_staged_witness:
  "\<exists>st'. fst (set_password toy_crypto plain_env ''ann'' ''ann'' ''Battery-Staple'' [1] ''tx2'' 0
       (ann_store\<lparr>st_pending := st_pending waiting\<rparr>, fresh_auth)) = Inl (CommitFailed (CommitError ''lock'' ''tx1'' [])) \<and>
     fst (snd (set_password toy_crypto plain_env ''ann'' ''ann'' ''Battery-Staple'' [1] ''tx2'' 0
       (ann_store\<lparr>st_pending := st_pending waiting\<rparr>, fresh_auth))) = st' \<and>
     candidate (snd (confirm ''tx1'' ''ann'' 9 st')) = ann_doc"
proof -
  let ?m = "password_mutate ''ann'' (hash_password toy_crypto [1] ''Battery-Staple'')"
  let ?st = "ann_store\<lparr>st_pending := st_pending waiting\<rparr>" and ?args = "no_confirm ''ann'' (''password change for '' @ ''ann'')"
  have step: "rbind (?m (candidate ?st)) (validate (env_caps plain_env)) = Inr (ann_doc, [])"
    using ann_doc_mutated ann_doc_valid by (simp add: plain_env_def)
  then have "\<exists>st'. stage_commit plain_env ?m ?args ''tx2'' 0 ?st = (Inl (CommitFailed (CommitError ''lock'' ''tx1'' [])), st')"
    by (simp add: stage_commit_def stage_def commit_def waiting_def)
  then obtain st' where sc: "stage_commit plain_env ?m ?args ''tx2'' 0 ?st =
      (Inl (CommitFailed (CommitError ''lock'' ''tx1'' [])), st')" ..
  have pending: "st_pending ?st = Some \<lparr>pd_txid = ''tx1'', pd_previous = JObj default_config, pd_revision = 1,
      pd_deadline = 120, pd_user = ''ann''\<rparr>" by (simp add: waiting_def)
  note kept = refused_account_change_stays_staged [OF sc pending, where user = "''ann''" and ?t2.0 = 9,
      unfolded Let_def step pending.select_convs]
  have "candidate (snd (confirm ''tx1'' ''ann'' 9 st')) = ann_doc"
    using kept by (elim conjE exE) (simp only: sum.inject prod.inject)
  moreover have "set_password toy_crypto plain_env ''ann'' ''ann'' ''Battery-Staple'' [1] ''tx2'' 0 (?st, fresh_auth) =
      (Inl (CommitFailed (CommitError ''lock'' ''tx1'' [])), st', fresh_auth)"
  proof -
    have "password_ok ''Battery-Staple'' = True" by code_simp
    then show ?thesis unfolding set_password_def prod.case by (simp only: sc not_True_eq_False if_False sum.case prod.case)
  qed
  ultimately show ?thesis by (simp only: fst_conv snd_conv) blast
qed

subsection \<open>Sessions and roles\<close>

lemma logout_route:
  "match_routes api_routes False ''POST'' ''/api/v1/auth/logout'' =
     Inr (Some (route ''POST'' ''/auth/logout'' ''post_logout'' None, []))"
  by code_simp

lemma logout_call: "edit_of ax rq \<lparr>cl_handler = ''post_logout'', cl_params = [], cl_who = w, cl_has_body = b\<rparr> = None"
  by (simp add: edit_of_def network_edits_def wifi_edits_def Let_def)

text \<open>Logging out ends no session: the logout route names no permission, so the session cookie is never
  looked at, the handler finds no session to end, and the reply is \<open>ok\<close> while the session stays as
  live as it was.\<close>

theorem logout_keeps_session:
  assumes "rq_verb rq = ''POST''" and "request_path rq = ''/api/v1/auth/logout''" and "body_length rq = Inr n"
  shows "dispatch ax snapshot rq dw (st, a) = Some (Inr (ok_reply True), st, a)"
proof -
  have g: "gate cy cfg rq t a =
      (Inr \<lparr>cl_handler = ''post_logout'', cl_params = [], cl_who = nobody, cl_has_body = (n \<noteq> 0)\<rparr>, a)" for cy cfg t
    using assms logout_route by (simp add: gate_def method_of_def admit_def route_def)
  have "request_path rq \<noteq> API_PREFIX @ ''/stream''" using assms by (simp add: API_PREFIX_def)
  then show ?thesis
    by (simp add: dispatch_def g run_handler_def logout_call account_handlers_def post_logout_def nobody_def)
qed

definition logout_request :: request where
  "logout_request = \<lparr>rq_verb = ''POST'', rq_path = ''/api/v1/auth/logout'', rq_query = [],
     rq_headers = [(''Cookie'', ''sbegw_session=tok'')], rq_peer = ''10.0.0.9'', rq_body = BadBody\<rparr>"

definition bare_api :: "unit api" where
  "bare_api = \<lparr>ax_crypto = toy_crypto, ax_env = plain_env, ax_radios = [], ax_mlo = False, ax_client = (\<lambda>_ _. NothingUpdated)\<rparr>"

definition some_draw :: draw where
  "some_draw = \<lparr>dw_txid = ''tx1'', dw_txid2 = ''tx2'', dw_time = 20, dw_salt = [], dw_login = ann_random, dw_totp = []\<rparr>"

lemma logout_keeps_session_witness:
  "dispatch bare_api JNull logout_request some_draw (ann_store, fresh_auth\<lparr>au_sessions := [(''tok'', ann_session)]\<rparr>) =
     Some (Inr (ok_reply True), ann_store, fresh_auth\<lparr>au_sessions := [(''tok'', ann_session)]\<rparr>)"
proof -
  have "rq_verb logout_request = ''POST''" "request_path logout_request = ''/api/v1/auth/logout''"
    "body_length logout_request = Inr 0" by code_simp+
  from logout_keeps_session [OF this] show ?thesis .
qed

lemma put_role_sessions: "snd (snd (put_role ax rq c dw name body (st, a))) = a"
  by (auto simp: put_role_def split: option.splits sum.splits prod.splits)

text \<open>A change of role does not reach open sessions: after any request to change a user other than
  by a new password, a session of that user goes on with the role it was opened with, also when the
  role in the configuration was lowered.\<close>

theorem role_change_keeps_sessions:
  assumes "map_of body ''password'' = None" and "map_of (au_sessions a) token = Some s"
    and "\<not> session_expired t s"
  shows "fst (principal_for_session token t (snd (snd (put_user ax rq c dw body (st, a))))) =
     Some (new_principal (se_username s) (se_role s) None ''session'')"
  using assms by (simp add: put_user_def put_role_sessions principal_for_session_def)

definition owner_doc :: "string \<Rightarrow> obj" where
  "owner_doc role = dset ''users'' (JObj [(''ann'', JObj (dset ''role'' (JStr role) (obj_of (get_null ''ann'' (obj_of (users_of ann_config))))))])
     default_config"

definition owner_store :: "unit store" where
  "owner_store = (init_store None None ())\<lparr>running := JObj (owner_doc ''owner''), candidate := JObj (owner_doc ''owner'')\<rparr>"

definition ann_call :: call where
  "ann_call = \<lparr>cl_handler = ''put_user'', cl_params = [(''name'', ''ann'')],
     cl_who = \<lparr>id_principal = Some (new_principal ''ann'' ''owner'' None ''session''), id_token = Some ''tok''\<rparr>, cl_has_body = True\<rparr>"

lemma role_change_keeps_sessions_witness:
  "fst (principal_for_session ''tok'' 20 (snd (snd (put_user bare_api logout_request ann_call some_draw
      [(''role'', JStr ''read-only'')] (owner_store, fresh_auth\<lparr>au_sessions := [(''tok'', ann_session)]\<rparr>))))) =
     Some (new_principal ''ann'' ''helpdesk'' None ''session'')"
  using role_change_keeps_sessions [of "[(''role'', JStr ''read-only'')]"
      "fresh_auth\<lparr>au_sessions := [(''tok'', ann_session)]\<rparr>" "''tok''" ann_session 20]
  by (simp add: ann_session_def session_expired_def SESSION_TTL_def SESSION_IDLE_TTL_def)

lemma api_commit_plain:
  assumes "candidate st = JObj d" "f d = Inr m" "validate None (JObj m) = Inr (JObj m, w)" "st_pending st = None"
    and "ca_confirm args = Some False" and "diff_config (running st) (JObj m) [] \<noteq> []"
  shows "\<exists>res st'. api_commit plain_env args f txid t st = (Inr res, st') \<and> running st' = JObj m"
  using assms
  by (simp add: api_commit_def stage_def on_document_def plain_env_def commit_def Let_def apply_commit_def
      finish_commit_def checkpoint_def save_revision_def latest_revision_def)

lemma owner_doc_demoted: "role_change ''ann'' (JStr ''read-only'') (owner_doc ''owner'') = Inr (owner_doc ''read-only'')"
  by code_simp

lemma owner_doc_valid: "validate None (JObj (owner_doc ''read-only'')) = Inr (JObj (owner_doc ''read-only''), [])"
  by code_simp

text \<open>The only owner can be demoted: deleting that account is refused, but a change of its role is
  accepted like any other, and leaves a gateway that no account owns.\<close>

theorem only_owner_can_be_demoted:
  "owners_of (running owner_store) = [''ann''] \<and>
   fst (delete_user plain_env ''bob'' ''ann'' txid t (owner_store, fresh_auth)) = Inl (PermissionError ''only owner'') \<and>
   (case put_user bare_api rq ann_call dw [(''role'', JStr ''read-only'')] (owner_store, a) of
      (r, st', _) \<Rightarrow> r = Inr (ok_reply True) \<and> owners_of (running st') = [])"
proof -
  have o: "owners_of (running owner_store) = [''ann'']" "distinct (map fst (obj_of (users_of (running owner_store))))"
    "owners_of (JObj (owner_doc ''read-only'')) = []" by code_simp+
  have "candidate owner_store = JObj (owner_doc ''owner'')" "st_pending owner_store = None"
    by (simp_all add: owner_store_def init_store_def load_running_def)
  moreover have "diff_config (running owner_store) (JObj (owner_doc ''read-only'')) [] \<noteq> []" by code_simp
  ultimately have "\<exists>res st'. api_commit plain_env (api_args ''ann'' (source_ip rq) ''role for ann'' (Some False))
       (role_change ''ann'' (JStr ''read-only'')) (dw_txid2 dw) (dw_time dw) owner_store = (Inr res, st') \<and>
    running st' = JObj (owner_doc ''read-only'')"
    by (intro api_commit_plain [where d = "owner_doc ''owner''" and w = "[]"] owner_doc_demoted owner_doc_valid)
      (simp_all add: api_args_def)
  then obtain res st' where
    "api_commit plain_env (api_args ''ann'' (source_ip rq) ''role for ann'' (Some False))
       (role_change ''ann'' (JStr ''read-only'')) (dw_txid2 dw) (dw_time dw) owner_store = (Inr res, st')"
    and demoted: "running st' = JObj (owner_doc ''read-only'')" by blast
  moreover have "caller ann_call = ''ann''" "param ''name'' ann_call = ''ann''"
    by (simp_all add: caller_def param_def ann_call_def new_principal_def the_default_def)
  ultimately have "put_user bare_api rq ann_call dw [(''role'', JStr ''read-only'')] (owner_store, a) = (Inr (ok_reply True), st', a)"
    by (simp add: put_user_def put_role_def bare_api_def is_set_def get_null_def get_or_def)
  then show ?thesis using o demoted by (simp add: last_owner_stays)
qed

subsection \<open>Secrets\<close>

text \<open>The values a document holds under the name of a secret, at any depth.\<close>

fun secrets_in :: "json \<Rightarrow> json list" where
  "secrets_in (JObj d) = concat (map (\<lambda>(k, v). if secret_name k then [v] else secrets_in v) d)"
| "secrets_in (JList xs) = concat (map secrets_in xs)"
| "secrets_in _ = []"

lemma concat_replicates:
  "(\<And>x. x \<in> set xs \<Longrightarrow> f x = replicate (length (g x)) c) \<Longrightarrow> concat (map f xs) = replicate (length (concat (map g xs))) c"
  by (induction xs) (simp_all add: replicate_add)

lemma secrets_redacted: "secrets_in (redact_secrets j) = replicate (length (secrets_in j)) (JStr MASK)"
proof (induction j rule: redact_secrets.induct)
  case (1 d)
  then show ?case
    unfolding redact_secrets.simps secrets_in.simps map_map by (intro concat_replicates) auto
next
  case (2 xs)
  then show ?case
    unfolding redact_secrets.simps secrets_in.simps map_map by (intro concat_replicates) auto
qed simp_all

text \<open>The configuration is shown with its secrets masked: in the reply of \<open>GET /config\<close>, for the
  running document and for the candidate, every value under the name of a secret, at any depth, is
  the mask, and there are as many as the document has.\<close>

theorem config_reply_masked:
  "\<exists>r c. get_config st = Data (JObj [(''running'', r), (''candidate'', c)]) \<and>
     secrets_in r = replicate (length (secrets_in (running st))) (JStr MASK) \<and>
     secrets_in c = replicate (length (secrets_in (candidate st))) (JStr MASK)"
  by (simp add: get_config_def secrets_redacted)

text \<open>The wireless section is not masked: \<open>GET /wifi\<close> hands every passphrase of the wireless networks
  to whoever may read the network, which the roles \<open>read-only\<close> and \<open>helpdesk\<close> may.\<close>

theorem readers_see_wifi_secrets:
  assumes "map_of (obj_of (running st)) ''wifi'' = Some w" and "JStr p \<in> set (secrets_in w)"
  shows "(\<exists>r. get_wifi snapshot st = Data r \<and> JStr p \<in> set (secrets_in r)) \<and>
    can (new_principal name ''read-only'' None kind) ''network.read'' \<and>
    list_ex (\<lambda>r. rt_handler r = ''get_wifi'' \<and> rt_permission r = Some ''network.read'') api_routes"
proof -
  have "can (new_principal name ''read-only'' None kind) ''network.read''" by code_simp
  moreover have "list_ex (\<lambda>r. rt_handler r = ''get_wifi'' \<and> rt_permission r = Some ''network.read'') api_routes"
    by code_simp
  moreover have "\<not> secret_name ''config''" by code_simp
  ultimately show ?thesis using assms by (simp add: get_wifi_def get_or_def)
qed

lemma readers_see_wifi_secrets_witness:
  "\<exists>r. get_wifi JNull (ann_store\<lparr>running := JObj [(''wifi'', JObj [(''networks'', JObj [(''home'',
     JObj [(''security'', JObj [(''passphrase'', JStr ''hunter2hunter2'')])])])])]\<rparr>) = Data r \<and>
     JStr ''hunter2hunter2'' \<in> set (secrets_in r)"
  (is "\<exists>r. get_wifi JNull ?st = _ \<and> _")
proof -
  have names: "\<not> secret_name ''networks''" "\<not> secret_name ''home''" "\<not> secret_name ''security''" "secret_name ''passphrase''"
    by code_simp+
  have "map_of (obj_of (running ?st)) ''wifi'' = Some (JObj [(''networks'', JObj [(''home'',
     JObj [(''security'', JObj [(''passphrase'', JStr ''hunter2hunter2'')])])])])" by (simp add: obj_of_def)
  from readers_see_wifi_secrets [OF this, of "''hunter2hunter2''"] names show ?thesis by simp
qed

subsection \<open>What the edits do\<close>

definition merged :: "json option \<Rightarrow> json \<Rightarrow> json" where
  "merged old v = (case (old, v) of (Some (JObj d), JObj e) \<Rightarrow> JObj (deep_update d e) | _ \<Rightarrow> v)"

text \<open>A deep update is a merge: a key the update does not name keeps its value, a dictionary is merged
  into a dictionary by the same rule, and every other value replaces what was there.\<close>

theorem deep_update_merges:
  assumes "distinct (map fst e)"
  shows "map_of (deep_update d e) k = (case map_of e k of None \<Rightarrow> map_of d k | Some v \<Rightarrow> Some (merged (map_of d k) v))"
  using assms
proof (induction e arbitrary: d)
  case (Cons kv e)
  obtain k' v where kv: "kv = (k', v)" by fastforce
  have step: "deep_update d (kv # e) = deep_update (dset k' (merged (map_of d k') v) d) e"
    by (auto simp: kv merged_def split: json.splits option.splits)
  have "map_of e k' = None" "distinct (map fst e)" using Cons.prems by (simp_all add: kv map_of_eq_None_iff)
  then show ?case unfolding step by (auto simp: Cons.IH kv map_of_dset split: option.splits)
qed simp

lemma deep_update_merges_witness:
  "map_of (deep_update [(''dns'', JObj [(''port'', JInt 53), (''cache'', JInt 1)])] [(''dns'', JObj [(''cache'', JInt 9)])]) ''dns'' =
     Some (JObj [(''port'', JInt 53), (''cache'', JInt 9)])"
  using deep_update_merges [of "[(''dns'', JObj [(''cache'', JInt 9)])]"]
  by (simp add: merged_def dset_def)

lemma inside_eq: "inside k f d = Inr d' \<longleftrightarrow> (\<exists>e e'. map_of d k = Some (JObj e) \<and> f e = Inr e' \<and> d' = dset k (JObj e') d)"
  by (auto simp: inside_def rbind_eq_Inr split: option.splits json.splits)

text \<open>Deleting a network leaves no reference to it: when the change is accepted the network is gone,
  the other networks are as they were and there is one, no wireless network uses it, and every port
  that was on it is on no network.\<close>

theorem network_delete_complete:
  assumes "network_delete nid cfg = Inr cfg'" and "distinct (map fst (sub ''networks'' cfg))"
  shows "map_of (sub ''networks'' cfg') = (map_of (sub ''networks'' cfg))(nid := None) \<and>
    sub ''networks'' cfg' \<noteq> [] \<and> ssids_on nid cfg' = [] \<and>
    sub ''ports'' cfg' = free_ports nid (sub ''ports'' cfg) \<and>
    list_all (\<lambda>(_, p). get_null ''network'' (obj_of p) \<noteq> JStr nid) (sub ''ports'' cfg')"
proof -
  obtain nets ports where n: "map_of cfg ''networks'' = Some (JObj nets)" "nid \<in> fst ` set nets" "length nets \<noteq> 1"
      "ssids_on nid cfg = []"
    and p: "map_of cfg ''ports'' = Some (JObj ports)"
    and cfg': "cfg' = dset ''ports'' (JObj (free_ports nid ports)) (dset ''networks'' (JObj (AList.delete nid nets)) cfg)"
    using assms(1) by (auto simp: network_delete_def rbind_eq_Inr inside_eq map_of_dset split: if_splits)
  have freed: "get_null ''network'' (obj_of (JObj (dset ''network'' JNull d))) = JNull" for d
    by (simp add: obj_of_def get_null_def get_or_def map_of_dset)
  have "list_all (\<lambda>(_, p). get_null ''network'' (obj_of p) \<noteq> JStr nid) (free_ports nid ports)"
    using freed by (auto simp: free_ports_def list_all_iff split: if_splits)
  moreover have secs: "sub ''networks'' cfg' = AList.delete nid nets" "sub ''ports'' cfg' = free_ports nid ports"
      "sub ''wifi'' cfg' = sub ''wifi'' cfg" "sub ''networks'' cfg = nets" "sub ''ports'' cfg = ports"
    using n(1) p by (simp_all add: cfg' sub_def get_null_def get_or_def map_of_dset obj_of_def)
  moreover have "AList.delete nid nets \<noteq> []"
  proof
    assume "AList.delete nid nets = []"
    then have "fst ` set nets \<subseteq> {nid}" by (auto simp: AList.delete_eq filter_empty_conv)
    with assms(2) n(2) secs(4) have "length nets = card {nid}"
      by (metis distinct_card empty_iff length_map set_map subset_singletonD)
    with n(3) show False by simp
  qed
  moreover have "ssids_on nid cfg' = []" using n(4) secs(3) by (simp add: ssids_on_def)
  ultimately show ?thesis by (simp add: AList.delete_conv')
qed

lemma network_delete_complete_witness:
  "\<exists>cfg'. network_delete ''guest'' [(''networks'', JObj [(''default'', JObj []), (''guest'', JObj [])]),
     (''ports'', JObj [(''eth1'', JObj [(''network'', JStr ''guest'')])])] = Inr cfg' \<and>
   map_of (sub ''networks'' cfg') ''guest'' = None"
  (is "\<exists>cfg'. network_delete _ ?d = _ \<and> _")
proof -
  have "is_ok (network_delete ''guest'' ?d)" "distinct (map fst (sub ''networks'' ?d))" by code_simp+
  then show ?thesis using network_delete_complete [of "''guest''" ?d] by (auto simp: is_ok_iff)
qed

subsection \<open>Who can change the accounts\<close>



end
