(* ===== verification/OsPath.thy ===== *)
theory OsPath
  imports PyStr
begin

text \<open>The functions of \<open>os.path\<close> the program uses, on POSIX.\<close>

definition os_basename :: "string \<Rightarrow> string" where
  "os_basename p = py_rsplit_last CHR ''/'' p"

text \<open>\<open>os.path.join\<close> with a second part that does not start with a slash.\<close>

definition path_join :: "string \<Rightarrow> string \<Rightarrow> string" where
  "path_join dir name = (if dir = [] \<or> last dir = CHR ''/'' then dir @ name else dir @ ''/'' @ name)"

text \<open>\<open>os.path.dirname\<close>: up to the last slash, which goes too unless there is nothing else.\<close>

definition os_dirname :: "string \<Rightarrow> string" where
  "os_dirname p = (let head = take (length p - length (os_basename p)) p; stripped = py_rstrip_char CHR ''/'' head
     in if stripped = [] then head else stripped)"

end
