(* ===== verification/Otad.thy ===== *)
theory Otad
  imports OsPath "HOL-Library.Word" "HOL-Library.List_Lexorder" "HOL-Library.Char_ord"
begin

text \<open>
  The firmware updater of \<open>otad.py\<close>: finding the partitions, inspecting an image, writing it to the
  flash with a read-back, and the staging directory. What \<open>tarfile\<close> makes of an image file is part
  of the image, SHA-256 is a parameter, and the storage medium decides what reads back of what was
  written to it.
\<close>

type_synonym octets = "8 word list"

definition FIT_MAGIC :: octets where "FIT_MAGIC = [0xD0, 0x0D, 0xFE, 0xED]"

definition SQUASHFS_MAGIC :: octets where "SQUASHFS_MAGIC = [0x68, 0x73, 0x71, 0x73]"

definition MIN_KERNEL_BYTES :: int where "MIN_KERNEL_BYTES = 2 ^ 20"

definition MIN_ROOTFS_BYTES :: int where "MIN_ROOTFS_BYTES = 16 * 2 ^ 20"

definition BOARD :: string where "BOARD = ''askey_sbe1v1k''"

definition BLOCK :: nat where "BLOCK = 2 ^ 20"

definition TARGETS :: "(string \<times> string) list" where
  "TARGETS = [(''root'', ''rootfs''), (''kernel'', ''kernel'')]"

subsection \<open>Images\<close>

text \<open>A member of the archive is a regular file, or something \<open>extractfile\<close> has no content for.\<close>

datatype member = Regular octets | Special nat

text \<open>What is at a path: no file, a file that is no readable archive, or an archive with its members.\<close>

datatype image = NoFile | NoArchive octets | Archive octets "(string \<times> member) list"

fun member_size :: "member \<Rightarrow> int" where
  "member_size (Regular bs) = int (length bs)"
| "member_size (Special n) = int n"

text \<open>The last member of a name counts, for \<open>getmembers\<close> in a dictionary and for \<open>extractfile\<close>.\<close>

definition lookup_member :: "(string \<times> member) list \<Rightarrow> string \<Rightarrow> member option" where
  "lookup_member ms name = map_of (rev ms) name"

fun archive_members :: "image \<Rightarrow> (string \<times> member) list" where
  "archive_members (Archive _ ms) = ms"
| "archive_members _ = []"

fun raw_bytes :: "image \<Rightarrow> octets" where
  "raw_bytes (Archive bs _) = bs"
| "raw_bytes (NoArchive bs) = bs"
| "raw_bytes NoFile = []"

text \<open>\<open>s.replace(pat, "")\<close>.\<close>

fun remove_all :: "string \<Rightarrow> string \<Rightarrow> string" where
  "remove_all pat [] = []"
| "remove_all pat (c # s) =
     (if startswith (c # s) pat then remove_all pat (drop (length pat - 1) s) else c # remove_all pat s)"

definition SYSUPGRADE :: string where "SYSUPGRADE = ''sysupgrade-''"

definition in_directory :: "string \<Rightarrow> string \<Rightarrow> string" where
  "in_directory dir name = dir @ ''/'' @ name"

text \<open>Reading in blocks until nothing comes.\<close>

function file_chunks :: "octets \<Rightarrow> octets list" where
  "file_chunks bs = (let chunk = take BLOCK bs in if chunk = [] then [] else chunk # file_chunks (drop BLOCK bs))"
  by auto

termination
  by (relation "measure length") (auto simp: BLOCK_def)

declare file_chunks.simps [simp del]

function read_back :: "octets \<Rightarrow> nat \<Rightarrow> octets list" where
  "read_back bs remaining =
     (if remaining = 0 then []
      else let chunk = take (min BLOCK remaining) bs in
        if chunk = [] then [] else chunk # read_back (drop (length chunk) bs) (remaining - length chunk))"
  by auto

termination
  by (relation "measure snd") (auto simp: BLOCK_def)

declare read_back.simps [simp del]

subsection \<open>The board\<close>

text \<open>The partitions sysfs shows: device, names in its \<open>uevent\<close> and its size in sectors where readable.
  \<open>md_opens\<close> says which devices can be opened for writing, \<open>md_keeps\<close> what a device holds once
  something was written to it.\<close>

record medium =
  md_opens :: "string \<Rightarrow> bool"
  md_keeps :: "string \<Rightarrow> octets \<Rightarrow> octets"

record board =
  bd_partitions :: "(string \<times> string list) list"
  bd_sectors :: "(string \<times> int option) list"
  bd_sha :: "octets \<Rightarrow> string"
  bd_medium :: medium

record updater =
  up_devices :: "(string \<times> string) list"
  up_flash :: "string \<Rightarrow> octets"
  up_events :: "(string \<times> string) list"
  up_reboots :: nat

definition partition_device :: "board \<Rightarrow> string \<Rightarrow> string option" where
  "partition_device bd label = map_option (\<lambda>(dev, _). ''/dev/'' @ dev)
     (find (\<lambda>(_, names). list_ex (\<lambda>n. n = label \<or> n = ''0:'' @ label) names) (bd_partitions bd))"

definition partition_bytes :: "board \<Rightarrow> string \<Rightarrow> int" where
  "partition_bytes bd device =
     (case find (\<lambda>(name, sectors). name = os_basename device \<and> sectors \<noteq> None) (bd_sectors bd) of
        Some (_, Some n) \<Rightarrow> n * 512
      | _ \<Rightarrow> 0)"

text \<open>\<open>_device_for\<close>: a device once found is remembered.\<close>

definition device_for :: "board \<Rightarrow> string \<Rightarrow> updater \<Rightarrow> string option \<times> updater" where
  "device_for bd label u =
     (case map_of (up_devices u) label of
        Some dev \<Rightarrow> (Some dev, u)
      | None \<Rightarrow>
          (case partition_device bd label of
             None \<Rightarrow> (None, u)
           | Some dev \<Rightarrow> (Some dev, u\<lparr>up_devices := (label, dev) # up_devices u\<rparr>)))"

subsection \<open>Inspection\<close>

datatype problem =
    NotAFile
  | NotATar
  | BadPrefixes "string list"
  | WrongBoard string
  | MissingPayload string
  | NoPartition string
  | TooLarge string int int
  | Truncated string int
  | BadMagic string octets

record payload_entry =
  pe_size :: int
  pe_partition :: string
  pe_device :: "string option"
  pe_capacity :: int

record report =
  rp_problems :: "problem list"
  rp_payloads :: "(string \<times> payload_entry) list"
  rp_sha256 :: "string option"
  rp_board :: "string option"
  rp_size :: "int option"

definition empty_report :: report where
  "empty_report = \<lparr>rp_problems = [], rp_payloads = [], rp_sha256 = None, rp_board = None, rp_size = None\<rparr>"

definition rp_ok :: "report \<Rightarrow> bool" where
  "rp_ok r \<longleftrightarrow> rp_problems r = []"

definition add_problems :: "problem list \<Rightarrow> report \<Rightarrow> report" where
  "add_problems ps r = r\<lparr>rp_problems := rp_problems r @ ps\<rparr>"

definition min_bytes :: "string \<Rightarrow> int" where
  "min_bytes payload = (if payload = ''root'' then MIN_ROOTFS_BYTES else MIN_KERNEL_BYTES)"

definition magic_of :: "string \<Rightarrow> octets" where
  "magic_of payload = (if payload = ''root'' then SQUASHFS_MAGIC else FIT_MAGIC)"

fun read_member :: "member option \<Rightarrow> nat \<Rightarrow> octets" where
  "read_member (Some (Regular bs)) n = take n bs"
| "read_member _ n = []"

text \<open>The checks of one payload: its device, its size and its magic.\<close>

definition device_problems :: "string \<Rightarrow> string \<Rightarrow> string option \<Rightarrow> int \<Rightarrow> int \<Rightarrow> problem list" where
  "device_problems payload label device capacity sz =
     (if device = None then [NoPartition label]
      else if capacity \<noteq> 0 \<and> capacity < sz then [TooLarge payload sz capacity] else [])"

definition content_problems :: "string \<Rightarrow> member \<Rightarrow> problem list" where
  "content_problems payload m =
     (if member_size m < min_bytes payload then [Truncated payload (member_size m)]
      else let magic = read_member (Some m) (length SQUASHFS_MAGIC) in
        if take (length (magic_of payload)) magic = magic_of payload then [] else [BadMagic payload (take 4 magic)])"

definition check_payload :: "board \<Rightarrow> (string \<times> member) list \<Rightarrow> string \<Rightarrow> string \<times> string \<Rightarrow> report \<times> updater
    \<Rightarrow> report \<times> updater" where
  "check_payload bd ms prefix = (\<lambda>(payload, label) (r, u).
     case lookup_member ms (in_directory prefix payload) of
       None \<Rightarrow> (add_problems [MissingPayload (in_directory prefix payload)] r, u)
     | Some m \<Rightarrow>
         (let (device, u1) = device_for bd label u;
              capacity = (case device of None \<Rightarrow> 0 | Some dev \<Rightarrow> partition_bytes bd dev);
              entry = \<lparr>pe_size = member_size m, pe_partition = label, pe_device = device, pe_capacity = capacity\<rparr>
          in (add_problems (device_problems payload label device capacity (member_size m) @ content_problems payload m)
                (r\<lparr>rp_payloads := rp_payloads r @ [(payload, entry)]\<rparr>), u1)))"

definition prefixes_of :: "(string \<times> member) list \<Rightarrow> string list" where
  "prefixes_of ms = sort (remdups (map (\<lambda>(n, _). fst (py_partition CHR ''/'' n)) (filter (\<lambda>(n, _). CHR ''/'' \<in> set n) ms)))"

definition inspect :: "board \<Rightarrow> image \<Rightarrow> updater \<Rightarrow> report \<times> updater" where
  "inspect bd img u =
     (let r = empty_report\<lparr>rp_size := Some (int (length (raw_bytes img))),
            rp_sha256 := Some (bd_sha bd (concat (file_chunks (raw_bytes img))))\<rparr> in
      case img of
        NoFile \<Rightarrow> (add_problems [NotAFile] empty_report, u)
      | NoArchive _ \<Rightarrow> (add_problems [NotATar] r, u)
      | Archive _ ms \<Rightarrow>
          (case prefixes_of ms of
             [prefix] \<Rightarrow>
               (let name = remove_all SYSUPGRADE prefix in
                fold (check_payload bd ms prefix) TARGETS
                  (add_problems (if name \<noteq> BOARD then [WrongBoard name] else []) (r\<lparr>rp_board := Some name\<rparr>), u))
           | ps \<Rightarrow> (add_problems [BadPrefixes ps] r, u)))"

subsection \<open>Writing\<close>

datatype update_error =
    Refused "problem list"
  | ShaMismatch
  | Vanished string
  | CannotOpen string
  | ShortWrite string
  | ReadBackDiffers string
  | MemberKeyError string
  | DeviceFull string

text \<open>All but the last two are \<open>UpdateError\<close>s; those are a \<open>KeyError\<close> and an \<open>OSError\<close> that nobody catches.\<close>

fun is_update_error :: "update_error \<Rightarrow> bool" where
  "is_update_error (MemberKeyError _) = False"
| "is_update_error (DeviceFull _) = False"
| "is_update_error _ = True"

datatype message = Verified string string | Written string string int | Rebooting | RebootLater

text \<open>Writing from the start of a device: what does not fit is an error, after what fits was written.\<close>

definition burn :: "medium \<Rightarrow> string \<Rightarrow> octets \<Rightarrow> (string \<Rightarrow> octets) \<Rightarrow> bool \<times> (string \<Rightarrow> octets)" where
  "burn md dev bs fl =
     (length bs \<le> length (fl dev),
      fl(dev := md_keeps md dev (take (length (fl dev)) bs @ drop (length bs) (fl dev))))"

definition write_member :: "board \<Rightarrow> image \<Rightarrow> string \<Rightarrow> string \<Rightarrow> string \<Rightarrow> int \<Rightarrow> updater
    \<Rightarrow> (update_error + string) \<times> updater" where
  "write_member bd img name payload dev sz u =
     (case lookup_member (archive_members img) (in_directory (SYSUPGRADE @ name) payload) of
        None \<Rightarrow> (Inl (MemberKeyError payload), u)
      | Some (Special _) \<Rightarrow> (Inl (Vanished payload), u)
      | Some (Regular bs) \<Rightarrow>
          if \<not> md_opens (bd_medium bd) dev then (Inl (CannotOpen dev), u)
          else let data = concat (file_chunks bs);
                   (fits, fl) = burn (bd_medium bd) dev data (up_flash u);
                   u1 = u\<lparr>up_flash := fl\<rparr>
            in if \<not> fits then (Inl (DeviceFull dev), u1)
               else if int (length data) \<noteq> sz then (Inl (ShortWrite payload), u1)
               else (Inr (bd_sha bd (concat (read_back (fl dev) (nat sz)))), u1))"

definition member_sha256 :: "board \<Rightarrow> image \<Rightarrow> string \<Rightarrow> string \<Rightarrow> update_error + string" where
  "member_sha256 bd img name payload =
     (case lookup_member (archive_members img) (in_directory (SYSUPGRADE @ name) payload) of
        None \<Rightarrow> Inl (MemberKeyError payload)
      | Some (Special _) \<Rightarrow> Inr []
      | Some (Regular bs) \<Rightarrow> Inr (bd_sha bd (concat (file_chunks bs))))"

definition up_emit :: "string \<Rightarrow> string \<Rightarrow> updater \<Rightarrow> updater" where
  "up_emit kind sha u = u\<lparr>up_events := up_events u @ [(kind, sha)]\<rparr>"

text \<open>One turn of the loop of \<open>apply\<close>: write a payload and compare what reads back.\<close>

definition install_payload :: "board \<Rightarrow> image \<Rightarrow> report \<Rightarrow> string \<Rightarrow> message list \<times> updater
    \<Rightarrow> (update_error + message list) \<times> updater" where
  "install_payload bd img r payload = (\<lambda>(msgs, u).
     let entry = the (map_of (rp_payloads r) payload); name = the (rp_board r) in
     case write_member bd img name payload (the (pe_device entry)) (pe_size entry) u of
       (Inl e, u1) \<Rightarrow> (Inl e, u1)
     | (Inr written, u1) \<Rightarrow>
         (case member_sha256 bd img name payload of
            Inl e \<Rightarrow> (Inl e, u1)
          | Inr expected \<Rightarrow>
              if written \<noteq> expected then (Inl (ReadBackDiffers payload), u1)
              else (Inr (msgs @ [Written payload (pe_partition entry) (pe_size entry)]), u1)))"

definition finish_update :: "bool \<Rightarrow> string \<Rightarrow> message list \<Rightarrow> updater \<Rightarrow> message list \<times> updater" where
  "finish_update reboot sha msgs u =
     (let u1 = up_emit ''FIRMWARE_UPDATE_APPLIED'' sha u in
      if reboot then (msgs @ [Rebooting], u1\<lparr>up_reboots := up_reboots u1 + 1\<rparr>) else (msgs @ [RebootLater], u1))"

text \<open>\<open>apply\<close>, with an event bus: root first, then the kernel.\<close>

definition apply_update :: "board \<Rightarrow> image \<Rightarrow> bool \<Rightarrow> string option \<Rightarrow> updater
    \<Rightarrow> (update_error + message list) \<times> updater" where
  "apply_update bd img reboot expect u =
     (let (r, u1) = inspect bd img u in
      if (case expect of Some s \<Rightarrow> s \<noteq> [] \<and> rp_sha256 r \<noteq> Some s | None \<Rightarrow> False) then (Inl ShaMismatch, u1)
      else if \<not> rp_ok r then (Inl (Refused (rp_problems r)), u1)
      else let sha = the (rp_sha256 r); u2 = up_emit ''FIRMWARE_UPDATE_STARTED'' sha u1 in
        case install_payload bd img r ''root'' ([Verified (the (rp_board r)) (take 12 sha)], u2) of
          (Inl e, u3) \<Rightarrow> (Inl e, u3)
        | (Inr msgs, u3) \<Rightarrow>
            (case install_payload bd img r ''kernel'' (msgs, u3) of
               (Inl e, u4) \<Rightarrow> (Inl e, u4)
             | (Inr msgs2, u4) \<Rightarrow> (case finish_update reboot sha msgs2 u4 of (m, u5) \<Rightarrow> (Inr m, u5))))"

subsection \<open>Staging\<close>

definition staging_path :: "string \<Rightarrow> string \<Rightarrow> string" where
  "staging_path dir name = path_join dir (if os_basename name = [] then ''upload.bin'' else os_basename name)"

record status_report =
  us_partitions :: "(string \<times> string option \<times> int) list"
  us_staged :: "report option"

text \<open>\<open>status\<close>, with the names and images of the staging directory, if it exists.\<close>

definition status_partition :: "board \<Rightarrow> string \<times> string \<Rightarrow> (string \<times> string option \<times> int) list \<times> updater
    \<Rightarrow> (string \<times> string option \<times> int) list \<times> updater" where
  "status_partition bd = (\<lambda>(_, label) (ps, u).
     case device_for bd label u of
       (device, u1) \<Rightarrow> (ps @ [(label, device, case device of None \<Rightarrow> 0 | Some dev \<Rightarrow> partition_bytes bd dev)], u1))"

definition is_bin :: "string \<Rightarrow> bool" where
  "is_bin name \<longleftrightarrow> startswith (rev name) (rev ''.bin'') \<and> hd name \<noteq> CHR ''.''"

definition update_status :: "board \<Rightarrow> (string \<times> image) list option \<Rightarrow> updater \<Rightarrow> status_report \<times> updater" where
  "update_status bd staging u =
     (let (ps, u1) = fold (status_partition bd) TARGETS ([], u);
          names = (case staging of None \<Rightarrow> [] | Some files \<Rightarrow> sort (filter is_bin (map fst files)))
      in if names = [] then (\<lparr>us_partitions = ps, us_staged = None\<rparr>, u1)
         else case inspect bd (the (map_of (the staging) (last names))) u1 of
           (r, u2) \<Rightarrow> (\<lparr>us_partitions = ps, us_staged = Some r\<rparr>, u2))"

end
