(* ===== verification/OtadSafety.thy ===== *)
theory OtadSafety
  imports Otad
begin

text \<open>
  What the updater guarantees on a board with one bank: nothing is written unless the whole image
  passed, the kernel is written only after the root filesystem read back right, a reboot only happens
  on request, and on a sound medium the update succeeds; and where it falls short.
\<close>

subsection \<open>Reading in blocks\<close>

lemma file_chunks_concat [simp]: "concat (file_chunks bs) = bs"
proof (induction bs rule: file_chunks.induct)
  case (1 bs)
  then show ?case by (subst file_chunks.simps) (auto simp: Let_def BLOCK_def)
qed

lemma file_chunks_sizes: "chunk \<in> set (file_chunks bs) \<Longrightarrow> 0 < length chunk \<and> length chunk \<le> BLOCK"
proof (induction bs rule: file_chunks.induct)
  case (1 bs)
  show ?case using 1 by (subst (asm) (2) file_chunks.simps) (auto simp: Let_def split: if_splits)
qed

lemma read_back_concat [simp]: "concat (read_back bs n) = take n bs"
proof (induction bs n rule: read_back.induct)
  case (1 bs n)
  show ?case
  proof (cases "n = 0 \<or> bs = []")
    case True
    then show ?thesis by (subst read_back.simps) (auto simp: Let_def)
  next
    case False
    let ?chunk = "take (min BLOCK n) bs" and ?m = "length (take (min BLOCK n) bs)"
    have n: "n \<noteq> 0" and c: "?chunk \<noteq> []" using False by (auto simp: BLOCK_def)
    have "read_back bs n = ?chunk # read_back (drop ?m bs) (n - ?m)"
      using n c by (subst read_back.simps) (simp only: if_False Let_def)
    moreover have "concat (read_back (drop ?m bs) (n - ?m)) = take (n - ?m) (drop ?m bs)"
      using "1.IH" n c by simp
    ultimately have "concat (read_back bs n) = take ?m bs @ take (n - ?m) (drop ?m bs)"
      by (simp only: concat.simps) (simp add: min_def)
    also have "\<dots> = take (?m + (n - ?m)) bs" by (simp only: take_add)
    also have "?m + (n - ?m) = n" by simp
    finally show ?thesis .
  qed
qed

subsection \<open>Inspection\<close>

lemma device_for_frame [simp]:
  "up_flash (snd (device_for bd l u)) = up_flash u" "up_events (snd (device_for bd l u)) = up_events u"
  "up_reboots (snd (device_for bd l u)) = up_reboots u"
  by (auto simp: device_for_def split: option.splits)

lemma device_for_stable [simp]: "fst (device_for bd l (snd (device_for bd l' u))) = fst (device_for bd l u)"
  by (auto simp: device_for_def split: option.splits)

text \<open>What a payload has to be to pass, with the device its partition resolves to.\<close>

definition sound_payload :: "board \<Rightarrow> updater \<Rightarrow> (string \<times> member) list \<Rightarrow> string \<Rightarrow> string \<Rightarrow> string
    \<Rightarrow> octets \<Rightarrow> string \<Rightarrow> bool" where
  "sound_payload bd u ms prefix payload label bs dev \<longleftrightarrow>
     lookup_member ms (in_directory prefix payload) = Some (Regular bs) \<and>
     fst (device_for bd label u) = Some dev \<and>
     (partition_bytes bd dev = 0 \<or> int (length bs) \<le> partition_bytes bd dev) \<and>
     min_bytes payload \<le> int (length bs) \<and> take 4 bs = magic_of payload"

lemma magic_length [simp]: "length (magic_of payload) = 4" "length SQUASHFS_MAGIC = 4"
  by (simp_all add: magic_of_def SQUASHFS_MAGIC_def FIT_MAGIC_def)

lemma magic_not_Nil [simp]: "magic_of payload \<noteq> []" "[] \<noteq> magic_of payload"
  by (auto simp: magic_of_def SQUASHFS_MAGIC_def FIT_MAGIC_def)

lemma content_problems_Nil:
  "content_problems payload m = [] \<longleftrightarrow> (\<exists>bs. m = Regular bs \<and> min_bytes payload \<le> int (length bs) \<and> take 4 bs = magic_of payload)"
  by (cases m) (auto simp: content_problems_def Let_def min_bytes_def MIN_ROOTFS_BYTES_def MIN_KERNEL_BYTES_def)

lemma device_problems_Nil:
  "device_problems payload label device capacity sz = [] \<longleftrightarrow> device \<noteq> None \<and> (capacity = 0 \<or> sz \<le> capacity)"
  by (auto simp: device_problems_def)

definition entry_of :: "board \<Rightarrow> string \<Rightarrow> string \<Rightarrow> octets \<Rightarrow> payload_entry" where
  "entry_of bd label dev bs = \<lparr>pe_size = int (length bs), pe_partition = label, pe_device = Some dev,
     pe_capacity = partition_bytes bd dev\<rparr>"

lemma check_payload_state:
  "snd (check_payload bd ms prefix (payload, label) (r, u)) =
     (if lookup_member ms (in_directory prefix payload) = None then u else snd (device_for bd label u))"
  by (simp add: check_payload_def Let_def split: option.split prod.split)

lemma check_payload_frame [simp]:
  "up_flash (snd (check_payload bd ms prefix pl s)) = up_flash (snd s)"
  "up_events (snd (check_payload bd ms prefix pl s)) = up_events (snd s)"
  "up_reboots (snd (check_payload bd ms prefix pl s)) = up_reboots (snd s)"
  "fst (device_for bd l (snd (check_payload bd ms prefix pl s))) = fst (device_for bd l (snd s))"
  by (cases pl; cases s; simp add: check_payload_state)+

text \<open>A payload adds no problem exactly when it is sound, and then adds its entry.\<close>

lemma check_payload_ok:
  "rp_ok (fst (check_payload bd ms prefix (payload, label) (r, u))) \<longleftrightarrow>
     rp_ok r \<and> (\<exists>bs dev. sound_payload bd u ms prefix payload label bs dev)"
proof (cases "lookup_member ms (in_directory prefix payload)")
  case None
  then show ?thesis by (simp add: check_payload_def rp_ok_def add_problems_def sound_payload_def)
next
  case (Some m)
  obtain device u1 where d: "device_for bd label u = (device, u1)" by fastforce
  show ?thesis using Some d
    by (cases device) (auto simp: check_payload_def Let_def rp_ok_def add_problems_def sound_payload_def
        device_problems_Nil content_problems_Nil)
qed

lemma check_payload_entry:
  assumes "sound_payload bd u ms prefix payload label bs dev"
  shows "fst (check_payload bd ms prefix (payload, label) (r, u)) =
     r\<lparr>rp_payloads := rp_payloads r @ [(payload, entry_of bd label dev bs)]\<rparr>"
proof -
  have dc: "device_problems payload label (Some dev) (partition_bytes bd dev) (int (length bs)) = []"
    "content_problems payload (Regular bs) = []"
    using assms by (auto simp: device_problems_Nil content_problems_Nil sound_payload_def)
  obtain u1 where d: "device_for bd label u = (Some dev, u1)"
    using assms by (cases "device_for bd label u") (auto simp: sound_payload_def)
  show ?thesis using assms d dc
    by (simp add: check_payload_def sound_payload_def add_problems_def entry_of_def)
qed

text \<open>An image that passes: one directory for this board, and two sound payloads.\<close>

definition sound_image :: "board \<Rightarrow> updater \<Rightarrow> image \<Rightarrow> string \<Rightarrow> octets \<Rightarrow> string \<Rightarrow> octets \<Rightarrow> string \<Rightarrow> bool" where
  "sound_image bd u img prefix rfs rdev kfs kdev \<longleftrightarrow>
     prefixes_of (archive_members img) = [prefix] \<and> remove_all SYSUPGRADE prefix = BOARD \<and>
     sound_payload bd u (archive_members img) prefix ''root'' ''rootfs'' rfs rdev \<and>
     sound_payload bd u (archive_members img) prefix ''kernel'' ''kernel'' kfs kdev"

lemma sound_payload_cong:
  "fst (device_for bd label u) = fst (device_for bd label u') \<Longrightarrow>
     sound_payload bd u ms prefix payload label = sound_payload bd u' ms prefix payload label"
  by (simp add: sound_payload_def fun_eq_iff)

lemma sound_payload_later [simp]:
  "sound_payload bd (snd (check_payload bd ms prefix pl s)) ms' prefix' payload label = sound_payload bd (snd s) ms' prefix' payload label"
  by (rule sound_payload_cong) simp

lemma check_payload_digest [simp]: "rp_sha256 (fst (check_payload bd ms prefix pl s)) = rp_sha256 (fst s)"
  by (cases pl; cases s; simp add: check_payload_def Let_def add_problems_def split: option.split prod.split)

lemma inspect_digest: "rp_sha256 (fst (inspect bd img u)) \<in> {None, Some (bd_sha bd (raw_bytes img))}"
  by (cases img) (simp_all add: inspect_def TARGETS_def Let_def case_prod_beta add_problems_def empty_report_def split: list.split)

lemma inspect_frame [simp]:
  "up_flash (snd (inspect bd img u)) = up_flash u" "up_events (snd (inspect bd img u)) = up_events u"
  "up_reboots (snd (inspect bd img u)) = up_reboots u"
  by (simp_all add: inspect_def TARGETS_def Let_def case_prod_beta split: image.split list.split)

definition first_report :: "board \<Rightarrow> image \<Rightarrow> report" where
  "first_report bd img = empty_report\<lparr>rp_size := Some (int (length (raw_bytes img))), rp_sha256 := Some (bd_sha bd (raw_bytes img))\<rparr>"

lemma add_problems_Nil [simp]: "add_problems [] r = r"
  by (simp add: add_problems_def)

lemma inspect_archive:
  assumes "prefixes_of (archive_members img) = [prefix]"
  shows "inspect bd img u = check_payload bd (archive_members img) prefix (''kernel'', ''kernel'')
     (check_payload bd (archive_members img) prefix (''root'', ''rootfs'')
       (add_problems (if remove_all SYSUPGRADE prefix \<noteq> BOARD then [WrongBoard (remove_all SYSUPGRADE prefix)] else [])
          (first_report bd img\<lparr>rp_board := Some (remove_all SYSUPGRADE prefix)\<rparr>), u))"
  using assms
  by (cases img) (simp_all add: inspect_def TARGETS_def Let_def first_report_def prefixes_of_def)

lemma inspect_refuses:
  assumes "\<And>prefix. prefixes_of (archive_members img) \<noteq> [prefix]"
  shows "\<not> rp_ok (fst (inspect bd img u))"
  using assms
  by (cases img) (auto simp: inspect_def Let_def rp_ok_def add_problems_def split: list.split)

text \<open>Inspection accepts exactly the sound images: one top directory, named for this board, with a
  SquashFS of at least 16 MiB and a FIT of at least 1 MiB, each with a partition on this device that
  is large enough or whose size cannot be read. It writes nothing, whatever the image.\<close>

theorem inspect_exact:
  "(rp_ok (fst (inspect bd img u)) \<longleftrightarrow> (\<exists>prefix rfs rdev kfs kdev. sound_image bd u img prefix rfs rdev kfs kdev)) \<and>
   up_flash (snd (inspect bd img u)) = up_flash u"
proof (cases "\<exists>prefix. prefixes_of (archive_members img) = [prefix]")
  case True
  then obtain prefix where p: "prefixes_of (archive_members img) = [prefix]" ..
  let ?r = "add_problems (if remove_all SYSUPGRADE prefix \<noteq> BOARD then [WrongBoard (remove_all SYSUPGRADE prefix)] else [])
          (first_report bd img\<lparr>rp_board := Some (remove_all SYSUPGRADE prefix)\<rparr>)"
  obtain r1 u1 where c: "check_payload bd (archive_members img) prefix (''root'', ''rootfs'') (?r, u) = (r1, u1)" by fastforce
  have "rp_ok ?r \<longleftrightarrow> remove_all SYSUPGRADE prefix = BOARD"
    by (simp add: rp_ok_def add_problems_def first_report_def empty_report_def)
  moreover have "rp_ok r1 \<longleftrightarrow> rp_ok ?r \<and> (\<exists>bs dev. sound_payload bd u (archive_members img) prefix ''root'' ''rootfs'' bs dev)"
    using check_payload_ok [of bd "archive_members img" prefix "''root''" "''rootfs''" ?r u] by (simp only: c fst_conv)
  moreover have "sound_payload bd u1 ms prefix' payload label = sound_payload bd u ms prefix' payload label"
    for ms prefix' payload label
    using sound_payload_later [of bd "archive_members img" prefix "(''root'', ''rootfs'')" "(?r, u)"] by (simp only: c snd_conv)
  moreover have e: "inspect bd img u = check_payload bd (archive_members img) prefix (''kernel'', ''kernel'') (r1, u1)"
    by (simp only: inspect_archive [OF p] c)
  ultimately have "rp_ok (fst (inspect bd img u)) \<longleftrightarrow> remove_all SYSUPGRADE prefix = BOARD \<and>
      (\<exists>bs dev. sound_payload bd u (archive_members img) prefix ''root'' ''rootfs'' bs dev) \<and>
      (\<exists>bs dev. sound_payload bd u (archive_members img) prefix ''kernel'' ''kernel'' bs dev)"
    by (simp only: e check_payload_ok conj_assoc)
  with p show ?thesis by (auto simp: sound_image_def)
next
  case False
  then show ?thesis using inspect_refuses [of img] by (auto simp: sound_image_def)
qed

lemma inspect_report:
  assumes "sound_image bd u img prefix rfs rdev kfs kdev"
  shows "fst (inspect bd img u) = (first_report bd img)\<lparr>rp_board := Some BOARD,
     rp_payloads := [(''root'', entry_of bd ''rootfs'' rdev rfs), (''kernel'', entry_of bd ''kernel'' kdev kfs)]\<rparr>"
proof -
  let ?ms = "archive_members img" and ?r = "(first_report bd img)\<lparr>rp_board := Some BOARD\<rparr>"
  note s = assms [unfolded sound_image_def]
  obtain r1 u1 where c: "check_payload bd ?ms prefix (''root'', ''rootfs'') (?r, u) = (r1, u1)" by fastforce
  have r1: "r1 = ?r\<lparr>rp_payloads := rp_payloads ?r @ [(''root'', entry_of bd ''rootfs'' rdev rfs)]\<rparr>"
    using check_payload_entry [of bd u ?ms prefix "''root''" "''rootfs''" rfs rdev ?r] s by (simp only: c fst_conv)
  have "sound_payload bd u1 ?ms prefix ''kernel'' ''kernel'' kfs kdev"
    using sound_payload_later [of bd ?ms prefix "(''root'', ''rootfs'')" "(?r, u)"] s by (simp only: c snd_conv)
  moreover have "inspect bd img u = check_payload bd ?ms prefix (''kernel'', ''kernel'') (r1, u1)"
    using s by (simp only: inspect_archive c add_problems_Nil simp_thms if_False)
  ultimately show ?thesis
    by (simp only: check_payload_entry) (simp add: r1 first_report_def empty_report_def)
qed

subsection \<open>Applying an update\<close>

definition UPDATE_DIR :: string where "UPDATE_DIR = SYSUPGRADE @ BOARD"

lemma partition_prefix: "d \<notin> set s \<Longrightarrow> py_partition d (s @ d # t) = (s, True, t)"
  by (induction s) auto

text \<open>All members are below the one directory inspection found.\<close>

lemma only_directory:
  assumes "prefixes_of ms = [prefix]" and "lookup_member ms (in_directory UPDATE_DIR name) = Some m"
  shows "prefix = UPDATE_DIR"
proof -
  have "CHR ''/'' \<notin> set UPDATE_DIR" by (simp add: UPDATE_DIR_def SYSUPGRADE_def BOARD_def)
  then have "fst (py_partition CHR ''/'' (in_directory UPDATE_DIR name)) = UPDATE_DIR"
    by (simp add: in_directory_def partition_prefix)
  moreover have "(in_directory UPDATE_DIR name, m) \<in> set ms"
    using map_of_SomeD [OF assms(2) [unfolded lookup_member_def]] by simp
  ultimately have "UPDATE_DIR \<in> set (prefixes_of ms)"
    by (force simp: prefixes_of_def in_directory_def)
  with assms(1) show ?thesis by simp
qed

definition burnt :: "board \<Rightarrow> string \<Rightarrow> octets \<Rightarrow> (string \<Rightarrow> octets) \<Rightarrow> string \<Rightarrow> octets" where
  "burnt bd dev bs fl = snd (burn (bd_medium bd) dev bs fl)"

text \<open>The device reads back as the payload, as far as the digest can tell.\<close>

definition verified :: "board \<Rightarrow> octets \<Rightarrow> string \<Rightarrow> (string \<Rightarrow> octets) \<Rightarrow> bool" where
  "verified bd bs dev fl \<longleftrightarrow> bd_sha bd (take (length bs) (fl dev)) = bd_sha bd bs"

lemma burnt_other [simp]: "dev \<noteq> dev' \<Longrightarrow> burnt bd dev bs fl dev' = fl dev'"
  by (simp add: burnt_def burn_def)

lemma install_payload_sound:
  assumes "lookup_member (archive_members img) (in_directory UPDATE_DIR payload) = Some (Regular bs)"
    and "rp_board r = Some BOARD" and "map_of (rp_payloads r) payload = Some (entry_of bd label dev bs)"
  shows "install_payload bd img r payload (msgs, u) =
     (if \<not> md_opens (bd_medium bd) dev then (Inl (CannotOpen dev), u)
      else let u1 = u\<lparr>up_flash := burnt bd dev bs (up_flash u)\<rparr> in
        if length (up_flash u dev) < length bs then (Inl (DeviceFull dev), u1)
        else if verified bd bs dev (up_flash u1) then (Inr (msgs @ [Written payload label (int (length bs))]), u1)
        else (Inl (ReadBackDiffers payload), u1))"
  using assms
  by (auto simp: install_payload_def write_member_def member_sha256_def entry_of_def Let_def verified_def
      burnt_def burn_def UPDATE_DIR_def)

lemma install_payload_missing:
  assumes "lookup_member (archive_members img) (in_directory UPDATE_DIR payload) = None" and "rp_board r = Some BOARD"
  shows "install_payload bd img r payload (msgs, u) = (Inl (MemberKeyError payload), u)"
  using assms by (simp add: install_payload_def write_member_def UPDATE_DIR_def)

definition digest_agrees :: "board \<Rightarrow> image \<Rightarrow> string option \<Rightarrow> bool" where
  "digest_agrees bd img expect \<longleftrightarrow> (case expect of None \<Rightarrow> True | Some s \<Rightarrow> s = [] \<or> s = bd_sha bd (raw_bytes img))"

definition started :: "board \<Rightarrow> image \<Rightarrow> updater \<Rightarrow> updater" where
  "started bd img u = up_emit ''FIRMWARE_UPDATE_STARTED'' (bd_sha bd (raw_bytes img)) (snd (inspect bd img u))"

definition first_message :: "board \<Rightarrow> image \<Rightarrow> message list" where
  "first_message bd img = [Verified BOARD (take 12 (bd_sha bd (raw_bytes img)))]"

lemma apply_sound:
  assumes "sound_image bd u img prefix rfs rdev kfs kdev" and "digest_agrees bd img expect"
  defines "r \<equiv> fst (inspect bd img u)"
  shows "apply_update bd img reboot expect u =
     (case install_payload bd img r ''root'' (first_message bd img, started bd img u) of
        (Inl e, u3) \<Rightarrow> (Inl e, u3)
      | (Inr msgs, u3) \<Rightarrow>
          (case install_payload bd img r ''kernel'' (msgs, u3) of
             (Inl e, u4) \<Rightarrow> (Inl e, u4)
           | (Inr msgs2, u4) \<Rightarrow>
               (case finish_update reboot (bd_sha bd (raw_bytes img)) msgs2 u4 of (m, u5) \<Rightarrow> (Inr m, u5))))"
proof -
  have "rp_ok r" using inspect_exact [of bd img u] assms(1) by (auto simp: r_def)
  moreover have "rp_board r = Some BOARD" "rp_sha256 r = Some (bd_sha bd (raw_bytes img))"
    by (simp_all add: r_def inspect_report [OF assms(1)] first_report_def)
  moreover obtain u1 where "inspect bd img u = (r, u1)" by (simp add: r_def prod_eq_iff)
  ultimately show ?thesis using assms(2)
    by (auto simp: apply_update_def Let_def digest_agrees_def started_def first_message_def split: option.splits)
qed

lemma apply_unsound:
  assumes "\<not> (digest_agrees bd img expect \<and> (\<exists>prefix rfs rdev kfs kdev. sound_image bd u img prefix rfs rdev kfs kdev))"
  shows "\<exists>e. apply_update bd img reboot expect u = (Inl e, snd (inspect bd img u)) \<and> is_update_error e"
proof (cases "digest_agrees bd img expect")
  case True
  with assms inspect_exact [of bd img u] have "\<not> rp_ok (fst (inspect bd img u))" by auto
  then show ?thesis by (auto simp: apply_update_def Let_def split: prod.split option.split)
next
  case False
  have "rp_sha256 (fst (inspect bd img u)) \<in> {None, Some (bd_sha bd (raw_bytes img))}"
    by (rule inspect_digest)
  with False show ?thesis
    by (auto simp: apply_update_def Let_def digest_agrees_def split: prod.split option.splits)
qed

text \<open>How an update can end, for a sound image in the right directory.\<close>

lemma update_outcome:
  assumes "sound_image bd u img UPDATE_DIR rfs rdev kfs kdev" and "digest_agrees bd img expect"
    and "apply_update bd img reboot expect u = (res, u')"
  defines "fl1 \<equiv> burnt bd rdev rfs (up_flash u)"
  obtains (root_closed) "res = Inl (CannotOpen rdev)" "up_flash u' = up_flash u" "up_reboots u' = up_reboots u"
    | (root_failed) "\<not> is_ok res" "up_flash u' = fl1" "up_reboots u' = up_reboots u"
    | (kernel_closed) "res = Inl (CannotOpen kdev)" "up_flash u' = fl1" "verified bd rfs rdev fl1" "up_reboots u' = up_reboots u"
    | (kernel_failed) "\<not> is_ok res" "verified bd rfs rdev fl1" "up_flash u' = burnt bd kdev kfs fl1" "up_reboots u' = up_reboots u"
    | (written) "is_ok res" "verified bd rfs rdev fl1" "up_flash u' = burnt bd kdev kfs fl1"
        "verified bd kfs kdev (up_flash u')" "up_reboots u' = up_reboots u + (if reboot then 1 else 0)"
proof -
  let ?r = "fst (inspect bd img u)"
  have r: "rp_board ?r = Some BOARD" "map_of (rp_payloads ?r) ''root'' = Some (entry_of bd ''rootfs'' rdev rfs)"
    "map_of (rp_payloads ?r) ''kernel'' = Some (entry_of bd ''kernel'' kdev kfs)"
    by (simp_all add: inspect_report [OF assms(1)])
  have lk: "lookup_member (archive_members img) (in_directory UPDATE_DIR ''root'') = Some (Regular rfs)"
    "lookup_member (archive_members img) (in_directory UPDATE_DIR ''kernel'') = Some (Regular kfs)"
    using assms(1) by (simp_all add: sound_image_def sound_payload_def)
  have st: "up_flash (started bd img u) = up_flash u" "up_reboots (started bd img u) = up_reboots u"
    by (simp_all add: started_def up_emit_def)
  note run = assms(3) [unfolded apply_sound [OF assms(1,2)] install_payload_sound [OF lk(1) r(1,2)]
      Let_def st]
  show thesis
  proof (cases "md_opens (bd_medium bd) rdev \<and> \<not> length (up_flash u rdev) < length rfs \<and> verified bd rfs rdev fl1")
    case False
    with run show thesis
      by (auto simp: fl1_def st is_ok_def split: if_splits intro: root_closed root_failed)
  next
    case True
    note ok = this
    have run': "(case install_payload bd img ?r ''kernel'' (first_message bd img @ [Written ''root'' ''rootfs'' (int (length rfs))],
          (started bd img u)\<lparr>up_flash := fl1\<rparr>) of
             (Inl e, u4) \<Rightarrow> (Inl e, u4)
           | (Inr msgs2, u4) \<Rightarrow>
               (case finish_update reboot (bd_sha bd (raw_bytes img)) msgs2 u4 of (m, u5) \<Rightarrow> (Inr m, u5))) = (res, u')"
      using run True by (simp add: fl1_def)
    show thesis
    proof (cases "md_opens (bd_medium bd) kdev \<and> \<not> length (fl1 kdev) < length kfs \<and> verified bd kfs kdev (burnt bd kdev kfs fl1)")
      case False
      with run' ok show thesis
        by (auto simp: install_payload_sound [OF lk(2) r(1,3)] Let_def st is_ok_def split: if_splits
            intro: kernel_closed kernel_failed)
    next
      case True
      with run' ok show thesis
        by (auto simp: install_payload_sound [OF lk(2) r(1,3)] Let_def st is_ok_def finish_update_def up_emit_def
            split: if_splits intro: written)
    qed
  qed
qed

text \<open>An image in another directory is never written.\<close>

lemma apply_misnamed:
  assumes "sound_image bd u img prefix rfs rdev kfs kdev" and "digest_agrees bd img expect" and "prefix \<noteq> UPDATE_DIR"
  shows "apply_update bd img reboot expect u = (Inl (MemberKeyError ''root''), started bd img u)"
proof -
  have "lookup_member (archive_members img) (in_directory UPDATE_DIR ''root'') = None"
    using only_directory assms(1,3) by (fastforce simp: sound_image_def)
  moreover have "rp_board (fst (inspect bd img u)) = Some BOARD"
    by (simp add: inspect_report [OF assms(1)])
  ultimately show ?thesis by (simp add: apply_sound [OF assms(1,2)] install_payload_missing)
qed

lemma apply_writes:
  assumes "apply_update bd img reboot expect u = (res, u')" and "up_flash u' \<noteq> up_flash u \<or> is_ok res"
  obtains rfs rdev kfs kdev where "sound_image bd u img UPDATE_DIR rfs rdev kfs kdev" "digest_agrees bd img expect"
proof -
  have flash: "up_flash (started bd img u) = up_flash u" by (simp add: started_def up_emit_def)
  have "digest_agrees bd img expect \<and> (\<exists>prefix rfs rdev kfs kdev. sound_image bd u img prefix rfs rdev kfs kdev)"
  proof (rule ccontr)
    assume "\<not> ?thesis"
    from apply_unsound [OF this, of reboot] assms show False by (auto simp: is_ok_def)
  qed
  then obtain prefix rfs rdev kfs kdev where s: "sound_image bd u img prefix rfs rdev kfs kdev" "digest_agrees bd img expect"
    by blast
  with apply_misnamed [OF s] assms flash have "prefix = UPDATE_DIR" by (fastforce simp: is_ok_def)
  with s that show thesis by blast
qed

text \<open>C6. Nothing is written unless the whole image passed and has the digest that was asked for, if one was.\<close>

theorem nothing_written_unless_valid:
  assumes "apply_update bd img reboot expect u = (res, u')" and "up_flash u' \<noteq> up_flash u"
  shows "(\<exists>rfs rdev kfs kdev. sound_image bd u img UPDATE_DIR rfs rdev kfs kdev) \<and> digest_agrees bd img expect"
proof (rule apply_writes [OF assms(1)])
  show "up_flash u' \<noteq> up_flash u \<or> is_ok res" using assms(2) ..
qed blast

text \<open>C20. The kernel partition is written last: as long as the root partition does not read back with the
  digest of the new root filesystem, every other device is as it was.\<close>

theorem kernel_written_last:
  assumes "apply_update bd img reboot expect u = (res, u')" and "fst (device_for bd ''rootfs'' u) = Some rdev"
    and "dev \<noteq> rdev" and "up_flash u' dev \<noteq> up_flash u dev"
  shows "\<exists>rfs kfs. sound_image bd u img UPDATE_DIR rfs rdev kfs dev \<and> verified bd rfs rdev (up_flash u')"
proof -
  from assms(4) have "up_flash u' \<noteq> up_flash u" by auto
  then obtain rfs rdev' kfs kdev where s: "sound_image bd u img UPDATE_DIR rfs rdev' kfs kdev"
    and d: "digest_agrees bd img expect" using apply_writes [OF assms(1)] by blast
  have rd: "rdev' = rdev" using s assms(2) by (simp add: sound_image_def sound_payload_def)
  let ?fl1 = "burnt bd rdev rfs (up_flash u)"
  from s [unfolded rd] d assms(1) have "verified bd rfs rdev ?fl1 \<and> up_flash u' = burnt bd kdev kfs ?fl1 \<and> dev = kdev"
    by (cases rule: update_outcome) (use assms(3,4) in \<open>cases "dev = kdev"; simp\<close>)+
  with s rd assms(3) show ?thesis by (auto simp: verified_def)
qed

text \<open>C7. The gateway reboots only when asked to, and only into firmware that was written completely: both
  partitions read back with the digests of the payloads.\<close>

theorem reboot_only_when_verified:
  assumes "apply_update bd img reboot expect u = (res, u')" and "is_ok res \<or> up_reboots u' \<noteq> up_reboots u"
  shows "up_reboots u' = up_reboots u + (if reboot then 1 else 0) \<and>
    (\<exists>rfs rdev kfs kdev. sound_image bd u img UPDATE_DIR rfs rdev kfs kdev \<and>
       verified bd kfs kdev (up_flash u') \<and> (rdev \<noteq> kdev \<longrightarrow> verified bd rfs rdev (up_flash u')))"
proof -
  have "is_ok res"
  proof (rule ccontr)
    assume n: "\<not> is_ok res"
    show False
    proof (cases "digest_agrees bd img expect \<and> (\<exists>prefix rfs rdev kfs kdev. sound_image bd u img prefix rfs rdev kfs kdev)")
      case True
      then obtain prefix rfs rdev kfs kdev where s: "sound_image bd u img prefix rfs rdev kfs kdev" "digest_agrees bd img expect"
        by blast
      show False
      proof (cases "prefix = UPDATE_DIR")
        case True
        from s(1)[unfolded True] s(2) assms(1) show False
          by (cases rule: update_outcome) (use assms(2) n in \<open>simp_all add: is_ok_def\<close>)
      next
        case False
        with apply_misnamed [OF s] assms n show False by (auto simp: started_def up_emit_def)
      qed
    next
      case False
      with apply_unsound [OF False, of reboot] assms n show False by auto
    qed
  qed
  with apply_writes [OF assms(1)] obtain rfs rdev kfs kdev where s: "sound_image bd u img UPDATE_DIR rfs rdev kfs kdev"
    and d: "digest_agrees bd img expect" by blast
  from s d assms(1) have "up_reboots u' = up_reboots u + (if reboot then 1 else 0) \<and>
      verified bd kfs kdev (up_flash u') \<and> (rdev \<noteq> kdev \<longrightarrow> verified bd rfs rdev (up_flash u'))"
    by (cases rule: update_outcome) (use \<open>is_ok res\<close> in \<open>simp_all add: is_ok_def verified_def\<close>)
  with s show ?thesis by blast
qed

lemma burnt_fits: "md_keeps (bd_medium bd) dev = id \<Longrightarrow> length bs \<le> length (fl dev) \<Longrightarrow>
    burnt bd dev bs fl dev = bs @ drop (length bs) (fl dev)"
  by (simp add: burnt_def burn_def)

lemma apply_completes:
  assumes "sound_image bd u img UPDATE_DIR rfs rdev kfs kdev" and "digest_agrees bd img expect" and "rdev \<noteq> kdev"
    and "md_opens (bd_medium bd) rdev" "md_opens (bd_medium bd) kdev"
    and "md_keeps (bd_medium bd) rdev = id" "md_keeps (bd_medium bd) kdev = id"
    and "length rfs \<le> length (up_flash u rdev)" "length kfs \<le> length (up_flash u kdev)"
  shows "\<exists>msgs u'. apply_update bd img reboot expect u = (Inr msgs, u') \<and>
    up_flash u' = burnt bd kdev kfs (burnt bd rdev rfs (up_flash u))"
proof -
  let ?r = "fst (inspect bd img u)" and ?fl1 = "burnt bd rdev rfs (up_flash u)"
  have r: "rp_board ?r = Some BOARD" "map_of (rp_payloads ?r) ''root'' = Some (entry_of bd ''rootfs'' rdev rfs)"
    "map_of (rp_payloads ?r) ''kernel'' = Some (entry_of bd ''kernel'' kdev kfs)"
    by (simp_all add: inspect_report [OF assms(1)])
  have lk: "lookup_member (archive_members img) (in_directory UPDATE_DIR ''root'') = Some (Regular rfs)"
    "lookup_member (archive_members img) (in_directory UPDATE_DIR ''kernel'') = Some (Regular kfs)"
    using assms(1) by (simp_all add: sound_image_def sound_payload_def)
  have "up_flash (started bd img u) = up_flash u" by (simp add: started_def up_emit_def)
  then show ?thesis using assms(3-9)
    by (simp add: apply_sound [OF assms(1,2)] install_payload_sound [OF lk(1) r(1,2)]
        install_payload_sound [OF lk(2) r(1,3)] Let_def verified_def finish_update_def up_emit_def not_less burnt_fits)
qed

text \<open>C23. On a medium that keeps what is written, with devices that open and are large enough, every sound
  image is installed: the update ends, and both partitions start with the payloads.\<close>

theorem update_installs:
  assumes "sound_image bd u img UPDATE_DIR rfs rdev kfs kdev" and "digest_agrees bd img expect" and "rdev \<noteq> kdev"
    and "md_opens (bd_medium bd) rdev" "md_opens (bd_medium bd) kdev"
    and "md_keeps (bd_medium bd) rdev = id" "md_keeps (bd_medium bd) kdev = id"
    and "length rfs \<le> length (up_flash u rdev)" "length kfs \<le> length (up_flash u kdev)"
  shows "\<exists>msgs u'. apply_update bd img reboot expect u = (Inr msgs, u') \<and>
    take (length rfs) (up_flash u' rdev) = rfs \<and> take (length kfs) (up_flash u' kdev) = kfs"
  using apply_completes [OF assms, of reboot] assms(3,6-9) by (auto simp: burnt_fits)

text \<open>Inspection strips \<open>sysupgrade-\<close> wherever it stands, also where it is missing: an image whose directory
  is the bare board name passes, and the update then ends in an uncaught \<open>KeyError\<close> instead of a
  refusal, after it was announced; nothing was written.\<close>

theorem misnamed_directory_crashes:
  assumes "sound_image bd u img prefix rfs rdev kfs kdev" and "prefix \<noteq> UPDATE_DIR" and "digest_agrees bd img expect"
  shows "rp_ok (fst (inspect bd img u)) \<and>
    (\<exists>u'. apply_update bd img reboot expect u = (Inl (MemberKeyError ''root''), u') \<and>
      \<not> is_update_error (MemberKeyError ''root'') \<and> up_flash u' = up_flash u \<and>
      up_events u' = up_events u @ [(''FIRMWARE_UPDATE_STARTED'', bd_sha bd (raw_bytes img))])"
  using inspect_exact [of bd img u] assms(1) apply_misnamed [OF assms(1,3,2)]
  by (auto simp: started_def up_emit_def)

text \<open>A partition whose size cannot be read is not compared with the payload: a root filesystem that
  does not fit passes inspection, and fails only after the whole partition was overwritten.\<close>

theorem unreadable_size_overwrites:
  assumes "sound_image bd u img UPDATE_DIR rfs rdev kfs kdev" and "digest_agrees bd img expect"
    and "md_opens (bd_medium bd) rdev" and "length (up_flash u rdev) < length rfs"
    and "partition_bytes bd rdev \<in> {0, int (length (up_flash u rdev))}"
  shows "partition_bytes bd rdev = 0 \<and>
    (\<exists>u'. apply_update bd img reboot expect u = (Inl (DeviceFull rdev), u') \<and>
       up_flash u' rdev = md_keeps (bd_medium bd) rdev (take (length (up_flash u rdev)) rfs))"
proof -
  let ?r = "fst (inspect bd img u)"
  have r: "rp_board ?r = Some BOARD" "map_of (rp_payloads ?r) ''root'' = Some (entry_of bd ''rootfs'' rdev rfs)"
    by (simp_all add: inspect_report [OF assms(1)])
  have lk: "lookup_member (archive_members img) (in_directory UPDATE_DIR ''root'') = Some (Regular rfs)"
    and cap: "partition_bytes bd rdev = 0 \<or> int (length rfs) \<le> partition_bytes bd rdev"
    using assms(1) by (simp_all add: sound_image_def sound_payload_def)
  have "up_flash (started bd img u) = up_flash u" by (simp add: started_def up_emit_def)
  then show ?thesis using assms(3-5) cap
    by (simp add: apply_sound [OF assms(1,2)] install_payload_sound [OF lk r] Let_def) (auto simp: burnt_def burn_def)
qed

subsection \<open>Staging\<close>

text \<open>An upload lands directly in the staging directory under a name without a slash, whatever name the
  client gave; except that the name may be \<open>..\<close>, which is the directory above.\<close>

theorem staging_path_shape:
  assumes "dir \<noteq> []" and "last dir \<noteq> CHR ''/''"
  shows "(\<exists>leaf. staging_path dir name = dir @ ''/'' @ leaf \<and> leaf \<noteq> [] \<and> CHR ''/'' \<notin> set leaf) \<and>
    staging_path dir ''../..'' = dir @ ''/..''"
proof -
  have "CHR ''/'' \<notin> set (os_basename name)"
    unfolding os_basename_def py_rsplit_last_def
    by (rule py_split_no_sep [of _ "CHR ''/''" name]) simp
  with assms show ?thesis
    by (simp add: staging_path_def path_join_def os_basename_def py_rsplit_last_def)
qed

lemma staging_path_shape_witness:
  "\<exists>leaf. staging_path ''/data/sbegw/firmware'' ''../../etc/passwd'' = ''/data/sbegw/firmware/'' @ leaf \<and> CHR ''/'' \<notin> set leaf"
  using staging_path_shape [of "''/data/sbegw/firmware''" "''../../etc/passwd''"] by auto

subsection \<open>A concrete board\<close>

definition filler :: "nat \<Rightarrow> octets" where "filler n = replicate n 0xFF"

definition toy_rootfs :: octets where "toy_rootfs = SQUASHFS_MAGIC @ filler (2 ^ 24)"
definition toy_kernel :: octets where "toy_kernel = FIT_MAGIC @ filler (2 ^ 20)"

definition toy_board :: "nat \<Rightarrow> board" where
  "toy_board sectors = \<lparr>bd_partitions = [(''mmcblk0p1'', [''0:rootfs'']), (''mmcblk0p2'', [''kernel''])],
     bd_sectors = [(''mmcblk0p1'', Some (int sectors)), (''mmcblk0p2'', None)],
     bd_sha = map (\<lambda>w. char_of (unat w)), bd_medium = \<lparr>md_opens = \<lambda>_. True, md_keeps = \<lambda>_. id\<rparr>\<rparr>"

definition toy_updater :: "nat \<Rightarrow> updater" where
  "toy_updater n = \<lparr>up_devices = [], up_flash = \<lambda>_. replicate n 0, up_events = [], up_reboots = 0\<rparr>"

definition toy_image :: "string \<Rightarrow> image" where
  "toy_image dir = Archive [] [(in_directory dir ''root'', Regular toy_rootfs), (in_directory dir ''kernel'', Regular toy_kernel)]"

lemma toy_payloads: "length toy_rootfs = 2 ^ 24 + 4" "take 4 toy_rootfs = SQUASHFS_MAGIC"
  "length toy_kernel = 2 ^ 20 + 4" "take 4 toy_kernel = FIT_MAGIC"
  by (simp_all add: toy_rootfs_def toy_kernel_def filler_def SQUASHFS_MAGIC_def FIT_MAGIC_def)

lemma toy_devices:
  "fst (device_for (toy_board k) ''rootfs'' (toy_updater n)) = Some ''/dev/mmcblk0p1''"
  "fst (device_for (toy_board k) ''kernel'' (toy_updater n)) = Some ''/dev/mmcblk0p2''"
  "partition_bytes (toy_board k) ''/dev/mmcblk0p1'' = int k * 512"
  "partition_bytes (toy_board k) ''/dev/mmcblk0p2'' = 0"
  by (simp_all add: device_for_def partition_device_def partition_bytes_def toy_board_def toy_updater_def
      os_basename_def py_rsplit_last_def)

lemma toy_members: "archive_members (toy_image dir) =
   [(in_directory dir ''root'', Regular toy_rootfs), (in_directory dir ''kernel'', Regular toy_kernel)]"
  by (simp add: toy_image_def)

lemma toy_sound:
  assumes "dir \<in> {BOARD, UPDATE_DIR}" and "k = 0 \<or> 2 ^ 16 \<le> k"
  shows "sound_image (toy_board k) (toy_updater n) (toy_image dir) dir toy_rootfs ''/dev/mmcblk0p1'' toy_kernel ''/dev/mmcblk0p2''"
proof -
  have dir: "CHR ''/'' \<notin> set dir" "remove_all SYSUPGRADE dir = BOARD"
    using assms(1) by (auto simp: BOARD_def UPDATE_DIR_def SYSUPGRADE_def startswith_def)
  then have "prefixes_of (archive_members (toy_image dir)) = [dir]"
    by (simp add: toy_members prefixes_of_def in_directory_def partition_prefix)
  then show ?thesis using assms(2) dir
    by (auto simp: sound_image_def sound_payload_def toy_members toy_devices toy_payloads lookup_member_def
        in_directory_def min_bytes_def MIN_ROOTFS_BYTES_def MIN_KERNEL_BYTES_def magic_of_def)
qed

lemma toy_flash: "up_flash (toy_updater n) dev = replicate n 0"
  by (simp add: toy_updater_def)

lemma toy_medium: "bd_medium (toy_board k) = \<lparr>md_opens = \<lambda>_. True, md_keeps = \<lambda>_. id\<rparr>"
  by (simp add: toy_board_def)

lemma update_installs_witness:
  "\<exists>msgs u'. apply_update (toy_board (2 ^ 16)) (toy_image UPDATE_DIR) True None (toy_updater (2 ^ 25)) = (Inr msgs, u') \<and>
     take (2 ^ 24 + 4) (up_flash u' ''/dev/mmcblk0p1'') = toy_rootfs"
  using update_installs [OF toy_sound [of UPDATE_DIR "2 ^ 16" "2 ^ 25"], of None True]
  by (auto simp: digest_agrees_def toy_medium toy_flash toy_payloads)

text \<open>The run of the concrete board, from the lemmas about its steps.\<close>

lemma toy_run:
  "\<exists>msgs u'. apply_update (toy_board (2 ^ 16)) (toy_image UPDATE_DIR) True None (toy_updater (2 ^ 25)) = (Inr msgs, u') \<and>
     up_flash u' ''/dev/mmcblk0p2'' \<noteq> up_flash (toy_updater (2 ^ 25)) ''/dev/mmcblk0p2''"
proof -
  let ?fl = "burnt (toy_board (2 ^ 16)) ''/dev/mmcblk0p1'' toy_rootfs (up_flash (toy_updater (2 ^ 25)))"
  have fl: "?fl ''/dev/mmcblk0p2'' = replicate (2 ^ 25) 0" by (simp add: toy_flash)
  have "burnt (toy_board (2 ^ 16)) ''/dev/mmcblk0p2'' toy_kernel ?fl ''/dev/mmcblk0p2'' =
      toy_kernel @ drop (length toy_kernel) (?fl ''/dev/mmcblk0p2'')"
    by (rule burnt_fits) (simp_all add: toy_medium toy_flash toy_payloads)
  then have "hd (burnt (toy_board (2 ^ 16)) ''/dev/mmcblk0p2'' toy_kernel ?fl ''/dev/mmcblk0p2'') = 0xD0"
    by (simp only:) (simp add: toy_kernel_def FIT_MAGIC_def)
  then have new: "burnt (toy_board (2 ^ 16)) ''/dev/mmcblk0p2'' toy_kernel ?fl ''/dev/mmcblk0p2'' \<noteq> replicate (2 ^ 25) 0"
    by auto
  obtain msgs u' where "apply_update (toy_board (2 ^ 16)) (toy_image UPDATE_DIR) True None (toy_updater (2 ^ 25)) = (Inr msgs, u')"
    "up_flash u' = burnt (toy_board (2 ^ 16)) ''/dev/mmcblk0p2'' toy_kernel ?fl"
    using apply_completes [OF toy_sound [of UPDATE_DIR "2 ^ 16" "2 ^ 25"], of None True]
    by (auto simp: digest_agrees_def toy_medium toy_flash toy_payloads)
  with new show ?thesis by (simp add: toy_flash)
qed

lemma nothing_written_unless_valid_witness:
  "\<exists>rfs rdev kfs kdev. sound_image (toy_board (2 ^ 16)) (toy_updater (2 ^ 25)) (toy_image UPDATE_DIR) UPDATE_DIR rfs rdev kfs kdev"
proof -
  obtain msgs u' where run: "apply_update (toy_board (2 ^ 16)) (toy_image UPDATE_DIR) True None (toy_updater (2 ^ 25)) = (Inr msgs, u')"
    and new: "up_flash u' ''/dev/mmcblk0p2'' \<noteq> up_flash (toy_updater (2 ^ 25)) ''/dev/mmcblk0p2''" using toy_run by blast
  from new have "up_flash u' \<noteq> up_flash (toy_updater (2 ^ 25))" by auto
  from nothing_written_unless_valid [OF run this] show ?thesis by blast
qed

lemma kernel_written_last_witness:
  "\<exists>(u' :: updater) rfs. verified (toy_board (2 ^ 16)) rfs ''/dev/mmcblk0p1'' (up_flash u') \<and>
     up_flash u' ''/dev/mmcblk0p2'' \<noteq> up_flash (toy_updater (2 ^ 25)) ''/dev/mmcblk0p2''"
proof -
  obtain msgs u' where run: "apply_update (toy_board (2 ^ 16)) (toy_image UPDATE_DIR) True None (toy_updater (2 ^ 25)) = (Inr msgs, u')"
    and new: "up_flash u' ''/dev/mmcblk0p2'' \<noteq> up_flash (toy_updater (2 ^ 25)) ''/dev/mmcblk0p2''" using toy_run by blast
  from kernel_written_last [OF run toy_devices(1) _ new] have "\<exists>rfs. verified (toy_board (2 ^ 16)) rfs ''/dev/mmcblk0p1'' (up_flash u')" by auto
  with new show ?thesis by blast
qed

lemma reboot_only_when_verified_witness:
  "\<exists>msgs u'. apply_update (toy_board (2 ^ 16)) (toy_image UPDATE_DIR) True None (toy_updater (2 ^ 25)) = (Inr msgs, u') \<and>
     up_reboots u' = 1"
proof -
  obtain msgs u' where run: "apply_update (toy_board (2 ^ 16)) (toy_image UPDATE_DIR) True None (toy_updater (2 ^ 25)) = (Inr msgs, u')"
    using toy_run by blast
  from reboot_only_when_verified [OF this] run show ?thesis by (simp add: is_ok_def toy_updater_def)
qed

lemma misnamed_directory_crashes_witness:
  "\<exists>u'. apply_update (toy_board 0) (toy_image BOARD) False None (toy_updater 0) = (Inl (MemberKeyError ''root''), u')"
proof -
  have "BOARD \<noteq> UPDATE_DIR" by (simp add: BOARD_def UPDATE_DIR_def SYSUPGRADE_def)
  from misnamed_directory_crashes [OF toy_sound this, of 0 None 0 False] show ?thesis by (auto simp: digest_agrees_def)
qed

lemma unreadable_size_overwrites_witness:
  "\<exists>u'. apply_update (toy_board 0) (toy_image UPDATE_DIR) False None (toy_updater 1000) = (Inl (DeviceFull ''/dev/mmcblk0p1''), u') \<and>
     up_flash u' ''/dev/mmcblk0p1'' = take 1000 toy_rootfs"
  using unreadable_size_overwrites [OF toy_sound [of UPDATE_DIR 0 1000], of None False]
  by (auto simp: digest_agrees_def toy_medium toy_flash toy_payloads toy_devices)

end
