(* ===== verification/Dhcptrace.thy ===== *)
theory Dhcptrace
  imports PyStr Prelude
begin

text \<open>
  The decoder of captured frames in \<open>dhcptrace.py\<close>: VLAN tags, ARP, IPv4, UDP and the walk over the
  options of a DHCP message, with the verdict of a trace. A frame is a list of byte values; a result
  of \<open>None\<close> is the \<open>IndexError\<close> of an access past the end.
\<close>

type_synonym frame = "int list"

definition PKTTYPE :: "(int \<times> string) list" where
  "PKTTYPE = [(0, ''to-us''), (1, ''broadcast''), (2, ''multicast''), (3, ''other-host''),
     (4, ''outgoing''), (5, ''loopback''), (6, ''fastroute'')]"

definition ETHERTYPE :: "(int \<times> string) list" where
  "ETHERTYPE = [(0x0800, ''IPv4''), (0x0806, ''ARP''), (0x86DD, ''IPv6''), (0x8100, ''802.1Q''),
     (0x88A8, ''802.1ad''), (0x8863, ''PPPoE-disc''), (0x8864, ''PPPoE-ses''), (0x88CC, ''LLDP''), (0x8809, ''LACP'')]"

definition DHCP_MSG :: "(int \<times> string) list" where
  "DHCP_MSG = [(1, ''DISCOVER''), (2, ''OFFER''), (3, ''REQUEST''), (4, ''DECLINE''), (5, ''ACK''),
     (6, ''NAK''), (7, ''RELEASE''), (8, ''INFORM'')]"

definition mac_text :: "int list \<Rightarrow> string" where
  "mac_text raw = py_join '':'' (map hex2 raw)"

definition dotted :: "int list \<Rightarrow> string" where
  "dotted raw = py_join ''.'' (map show_int raw)"

text \<open>\<open>frame[a:b]\<close>, and \<open>struct.unpack\<close> of two or four bytes in network order.\<close>

definition slice :: "nat \<Rightarrow> nat \<Rightarrow> 'a list \<Rightarrow> 'a list" where
  "slice a b xs = take (b - a) (drop a xs)"

definition be16 :: "frame \<Rightarrow> nat \<Rightarrow> int" where
  "be16 f i = (f ! i) * 256 + f ! (i + 1)"

definition be32 :: "frame \<Rightarrow> nat \<Rightarrow> int" where
  "be32 f i = be16 f i * 65536 + be16 f (i + 2)"

text \<open>\<open>0x{n:04x}\<close> and \<open>0x{n:08x}\<close>.\<close>

definition padded_hex :: "nat \<Rightarrow> int \<Rightarrow> string" where
  "padded_hex k n = (let s = show_hex n in replicate (k - length s) CHR ''0'' @ s)"

text \<open>The loop over VLAN tags: type, offset and text so far.\<close>

function skip_tags :: "frame \<Rightarrow> int \<Rightarrow> nat \<Rightarrow> string \<Rightarrow> int \<times> nat \<times> string" where
  "skip_tags f etype off tag =
     (if etype \<in> {0x8100, 0x88A8} \<and> off + 4 \<le> length f
      then skip_tags f (be16 f (off + 2)) (off + 4) (tag @ '' vlan'' @ show_int (be16 f off mod 4096))
      else (etype, off, tag))"
  by auto

termination
  by (relation "measure (\<lambda>(f, _, off, _). length f - off)") auto

declare skip_tags.simps [simp del]

text \<open>The walk over the options from index \<open>i\<close>. The inner option is the message type found, if any.\<close>

function message_type :: "frame \<Rightarrow> nat \<Rightarrow> int option option" where
  "message_type p i =
     (if i + 1 < length p then
        if p ! i = 255 then Some None
        else if p ! i = 0 then message_type p (i + 1)
        else if p ! i = 53 \<and> 1 \<le> p ! (i + 1) then (if i + 2 < length p then Some (Some (p ! (i + 2))) else None)
        else message_type p (i + 2 + nat (p ! (i + 1)))
      else Some None)"
  by auto

termination
  by (relation "measure (\<lambda>(p, i). length p - i)") auto

declare message_type.simps [simp del]

definition COOKIE :: "int list" where "COOKIE = [0x63, 0x82, 0x53, 0x63]"

definition message_name :: "int option \<Rightarrow> string" where
  "message_name m = (case m of
     None \<Rightarrow> ''typeNone''
   | Some n \<Rightarrow> (case map_of DHCP_MSG n of Some s \<Rightarrow> s | None \<Rightarrow> ''type'' @ show_int n))"

definition dhcp_detail :: "frame \<Rightarrow> string option" where
  "dhcp_detail p =
     (if 240 \<le> length p \<and> slice 236 240 p = COOKIE
      then map_option (\<lambda>m. '' '' @ message_name m @ '' xid=0x'' @ padded_hex 8 (be32 p 4) @
               '' client='' @ mac_text (slice 28 34 p)) (message_type p 240)
      else Some [])"

definition decode_udp :: "frame \<Rightarrow> nat \<Rightarrow> string \<Rightarrow> (string \<times> string) option" where
  "decode_udp f udp base =
     (if length f < udp + 8 then Some (''other'', base @ '' UDP (truncated)'')
      else let sport = be16 f udp; dport = be16 f (udp + 2);
               base2 = base @ '' UDP '' @ show_int sport @ ''->'' @ show_int dport
        in if sport \<in> {67, 68} \<or> dport \<in> {67, 68}
           then map_option (\<lambda>d. (''dhcp'', base2 @ '' DHCP'' @ d)) (dhcp_detail (drop (udp + 8) f))
           else Some (''other'', base2))"

definition decode_ipv4 :: "frame \<Rightarrow> nat \<Rightarrow> string \<Rightarrow> (string \<times> string) option" where
  "decode_ipv4 f off base =
     (let ihl = nat (f ! off mod 16) * 4; proto = f ! (off + 9);
          base2 = base @ '' '' @ dotted (slice (off + 12) (off + 16) f) @ '' > '' @ dotted (slice (off + 16) (off + 20) f)
      in if proto \<noteq> 17 then Some (''other'', base2 @ '' proto '' @ show_int proto)
         else decode_udp f (off + ihl) base2)"

definition decode_arp :: "frame \<Rightarrow> nat \<Rightarrow> string \<Rightarrow> string \<times> string" where
  "decode_arp f off base =
     (let opn = be16 f (off + 6);
          kind = (if opn = 1 then ''request'' else if opn = 2 then ''reply'' else ''op'' @ show_int opn)
      in (''arp'', base @ '' '' @ kind @ '' who-has '' @ dotted (slice (off + 24) (off + 28) f) @ '' tell '' @
            dotted (slice (off + 14) (off + 18) f)))"

definition decode :: "frame \<Rightarrow> (string \<times> string) option" where
  "decode f =
     (if length f < 14 then Some (''short'', ''runt frame, '' @ show_int (int (length f)) @ '' bytes'')
      else case skip_tags f (be16 f 12) 14 [] of (etype, off, tag) \<Rightarrow>
        let name = (case map_of ETHERTYPE etype of Some s \<Rightarrow> s | None \<Rightarrow> ''0x'' @ padded_hex 4 etype);
            base = mac_text (slice 6 12 f) @ '' > '' @ mac_text (slice 0 6 f) @ tag @ '' '' @ name
        in if etype = 0x0806 \<and> off + 28 \<le> length f then Some (decode_arp f off base)
           else if etype \<noteq> 0x0800 \<or> length f < off + 20 then Some (''other'', base)
           else decode_ipv4 f off base)"

text \<open>The verdict of a trace over the frames seen on each interface: what is diagnosed from the
  categories and where they were seen.\<close>

datatype verdict = DhcpOnBridge | DhcpOnPortOnly | TrafficWithoutDhcp | NothingDelivered

definition is_port :: "string \<Rightarrow> bool" where
  "is_port n \<longleftrightarrow> n \<noteq> ''br-lan'' \<and> \<not> startswith n ''br-lan.''"

definition trace_verdict :: "string list \<Rightarrow> (string \<times> string) list \<Rightarrow> verdict" where
  "trace_verdict names seen =
     (if list_ex (\<lambda>(_, c). c = ''dhcp'') seen
      then if (''br-lan'', ''dhcp'') \<in> set seen then DhcpOnBridge else DhcpOnPortOnly
      else if list_ex (\<lambda>(i, _). i \<in> set names \<and> is_port i \<or> i = ''br-lan'') seen then TrafficWithoutDhcp
      else NothingDelivered)"

text \<open>What the capture loop tallies of the frames it received, each with its interface and packet type. A
  counter is the list of what was counted. A frame the decoder fails on ends the trace.\<close>

record capture =
  cp_total :: nat
  cp_seen :: "(string \<times> string) list"
  cp_types :: "(string \<times> string) list"
  cp_dhcp_lines :: "string list"

definition pkttype_name :: "int \<Rightarrow> string" where
  "pkttype_name n = (case map_of PKTTYPE n of Some s \<Rightarrow> s | None \<Rightarrow> show_int n)"

definition capture_frame :: "string \<times> int \<times> frame \<Rightarrow> capture \<Rightarrow> capture option" where
  "capture_frame = (\<lambda>(name, pkttype, f) cp. map_option (\<lambda>(category, descr).
     \<lparr>cp_total = cp_total cp + 1, cp_seen = (name, category) # cp_seen cp,
      cp_types = (name, pkttype_name pkttype) # cp_types cp,
      cp_dhcp_lines = (if category = ''dhcp''
        then cp_dhcp_lines cp @ [''  ['' @ name @ '' '' @ pkttype_name pkttype @ ''] '' @ descr] else cp_dhcp_lines cp)\<rparr>) (decode f))"

fun capture_all :: "(string \<times> int \<times> frame) list \<Rightarrow> capture \<Rightarrow> capture option" where
  "capture_all [] cp = Some cp"
| "capture_all (x # xs) cp = (case capture_frame x cp of None \<Rightarrow> None | Some cp1 \<Rightarrow> capture_all xs cp1)"

subsection \<open>The option walk\<close>

text \<open>Options as a sender writes them: padding, or a code with its length and value.\<close>

datatype dhcp_option = Pad | Opt int "int list"

fun option_bytes :: "dhcp_option \<Rightarrow> int list" where
  "option_bytes Pad = [0]"
| "option_bytes (Opt k v) = k # int (length v) # v"

definition encode_options :: "dhcp_option list \<Rightarrow> int list" where
  "encode_options opts = concat (map option_bytes opts)"

fun option_ok :: "dhcp_option \<Rightarrow> bool" where
  "option_ok Pad \<longleftrightarrow> True"
| "option_ok (Opt k v) \<longleftrightarrow> k \<noteq> 0 \<and> k \<noteq> 255"

fun option_53 :: "dhcp_option list \<Rightarrow> int option" where
  "option_53 (Opt k (m # v) # opts) = (if k = 53 then Some m else option_53 opts)"
| "option_53 (_ # opts) = option_53 opts"
| "option_53 [] = None"

text \<open>The options end with the frame or with the code 255, whatever follows it.\<close>

definition options_end :: "int list \<Rightarrow> bool" where
  "options_end rest \<longleftrightarrow> rest = [] \<or> hd rest = 255"

lemma drop_next: "drop i p = x # xs \<Longrightarrow> drop (Suc i) p = xs \<and> p ! i = x \<and> length p = i + Suc (length xs)"
proof -
  assume d: "drop i p = x # xs"
  have "length p - i = Suc (length xs)" using arg_cong [OF d, of length] by simp
  moreover have "drop (Suc i) p = drop 1 (drop i p)" by simp
  ultimately show ?thesis using d by (simp add: nth_via_drop)
qed

lemma message_type_step:
  assumes "drop i p = k # n # rest" and "k \<noteq> 255" and "k \<noteq> 0"
  shows "message_type p i = (if k = 53 \<and> 1 \<le> n then (case rest of [] \<Rightarrow> None | m # _ \<Rightarrow> Some (Some m))
     else message_type p (i + 2 + nat n))"
proof -
  note d1 = drop_next [OF assms(1)]
  note d2 = drop_next [OF conjunct1 [OF d1]]
  have rest: "rest = m # ms \<Longrightarrow> p ! (i + 2) = m \<and> i + 2 < length p" for m ms
    using drop_next [of "Suc (Suc i)" p m ms] d2 by simp
  have eq: "p ! i = k" "p ! (i + 1) = n" "i + 1 < length p" "i + 2 < length p \<longleftrightarrow> rest \<noteq> []"
    using d1 d2 by auto
  show ?thesis
    by (subst message_type.simps) (use rest eq assms(2,3) in \<open>simp only: if_False if_True simp_thms, cases rest, simp_all\<close>)
qed

lemma message_type_options:
  assumes "drop i p = encode_options opts @ rest" and "options_end rest" and "list_all option_ok opts"
  shows "message_type p i = Some (option_53 opts)"
  using assms
proof (induction opts arbitrary: i)
  case Nil
  then have d: "drop i p = rest" by (simp add: encode_options_def)
  then show ?case
  proof (cases rest)
    case Nil
    with d show ?thesis by (subst message_type.simps) simp
  next
    case (Cons x xs)
    then have "x = 255" using \<open>options_end rest\<close> by (simp add: options_end_def)
    with drop_next [of i p x xs] d Cons show ?thesis by (subst message_type.simps) simp
  qed
next
  case (Cons item opts)
  show ?case
  proof (cases item)
    case Pad
    let ?t = "encode_options opts @ rest"
    have d: "drop i p = 0 # ?t" using Cons.prems(1) Pad by (simp add: encode_options_def)
    note e = drop_next [OF d]
    have next_opt: "message_type p (i + 1) = Some (option_53 opts)"
      using Cons.IH [of "i + 1"] e Cons.prems(2,3) by simp
    show ?thesis
    proof (cases "?t = []")
      case True
      then have "message_type p (i + 1) = Some None" using e by (subst message_type.simps) simp
      moreover have "message_type p i = Some None" using e True by (subst message_type.simps) simp
      ultimately show ?thesis using next_opt Pad by simp
    next
      case False
      then have "i + 1 < length p" using e by (cases ?t) auto
      then have "message_type p i = message_type p (i + 1)" using e by (subst message_type.simps) simp
      then show ?thesis using next_opt Pad by simp
    qed
  next
    case (Opt k v)
    have d: "drop i p = k # int (length v) # v @ encode_options opts @ rest"
      using Cons.prems(1) by (simp add: encode_options_def Opt)
    have k: "k \<noteq> 255" "k \<noteq> 0" using Cons.prems(3) by (simp_all add: Opt)
    have "drop (i + 2 + length v) p = drop (2 + length v) (drop i p)" by (simp add: add.commute)
    then have next_opt: "drop (i + 2 + length v) p = encode_options opts @ rest" by (simp add: d)
    show ?thesis
    proof (cases "k = 53 \<and> v \<noteq> []")
      case True
      then show ?thesis using message_type_step [OF d k] by (cases v) (auto simp: Opt)
    next
      case False
      then have no: "(k = 53 \<and> 1 \<le> int (length v)) = False" by (cases v) auto
      have "message_type p i = message_type p (i + 2 + length v)"
        using message_type_step [OF d k] by (simp only: no if_False nat_int)
      moreover have "option_53 (item # opts) = option_53 opts" using False by (cases v) (auto simp: Opt)
      ultimately show ?thesis using Cons.IH [OF next_opt Cons.prems(2)] Cons.prems(3) by (simp add: Opt)
    qed
  qed
qed

lemma last_two: "Suc i < n \<Longrightarrow> \<not> Suc (Suc i) < n \<Longrightarrow> n = Suc (Suc i)"
  by simp

lemma message_type_error:
  "message_type p i = None \<Longrightarrow> i + 2 \<le> length p \<and> p ! (length p - 2) = 53 \<and> 1 \<le> p ! (length p - 1)"
proof (induction p i rule: message_type.induct)
  case (1 p i)
  then show ?case
    by (subst (asm) (3) message_type.simps) (auto split: if_splits dest: last_two)
qed

subsection \<open>Whole frames\<close>

text \<open>A VLAN tag: its type, for a customer or a service provider, the four bits of priority and drop
  eligibility, and the number of the VLAN.\<close>

datatype vlan_tag = VlanTag (tag_type: int) (tag_priority: int) (tag_vid: int)

definition tag_ok :: "vlan_tag \<Rightarrow> bool" where
  "tag_ok g \<longleftrightarrow> tag_type g \<in> {0x8100, 0x88A8} \<and> 0 \<le> tag_priority g \<and> tag_priority g < 16 \<and>
     0 \<le> tag_vid g \<and> tag_vid g < 4096"

definition tag_bytes :: "vlan_tag \<Rightarrow> int list" where
  "tag_bytes g = [tag_type g div 256, tag_type g mod 256, 16 * tag_priority g + tag_vid g div 256, tag_vid g mod 256]"

definition vlan_text :: "vlan_tag list \<Rightarrow> string" where
  "vlan_text tags = concat (map (\<lambda>g. '' vlan'' @ show_int (tag_vid g)) tags)"

lemma be16_drop: "drop i f = a # b # rest \<Longrightarrow> be16 f i = a * 256 + b"
proof -
  assume d: "drop i f = a # b # rest"
  have "f ! i = a" "f ! Suc i = b" using drop_next [OF d] drop_next [OF conjunct1 [OF drop_next [OF d]]] by simp_all
  then show ?thesis by (simp add: be16_def)
qed

text \<open>Every tag of a stack is skipped and named, whatever follows it.\<close>

lemma skip_tags_stack:
  assumes "drop k f = concat (map tag_bytes tags) @ a # b # rest" and "a * 256 + b \<notin> {0x8100, 0x88A8}"
    and "list_all tag_ok tags"
  shows "skip_tags f (be16 f k) (k + 2) tag = (a * 256 + b, k + 2 + 4 * length tags, tag @ vlan_text tags)"
  using assms
proof (induction tags arbitrary: k tag)
  case Nil
  then show ?case by (subst skip_tags.simps) (simp add: be16_drop vlan_text_def)
next
  case (Cons g tags)
  let ?t = "tag_type g" and ?p = "tag_priority g" and ?v = "tag_vid g"
  have g: "?t \<in> {0x8100, 0x88A8}" "0 \<le> ?p" "0 \<le> ?v" "?v < 4096" using Cons.prems(3) by (simp_all add: tag_ok_def)
  have d: "drop k f = ?t div 256 # ?t mod 256 # (16 * ?p + ?v div 256) # ?v mod 256 # concat (map tag_bytes tags) @ a # b # rest"
    using Cons.prems(1) by (simp add: tag_bytes_def [of g])
  note d1 = drop_next [OF d]
  note d2 = drop_next [OF conjunct1 [OF d1]]
  have d3: "drop (k + 2) f = (16 * ?p + ?v div 256) # ?v mod 256 # concat (map tag_bytes tags) @ a # b # rest" using d2 by simp
  note d4 = drop_next [OF d3]
  note d5 = drop_next [OF conjunct1 [OF d4]]
  have d6: "drop (k + 4) f = concat (map tag_bytes tags) @ a # b # rest" using d5 by (simp add: eval_nat_numeral)
  have "(16 * ?p + ?v div 256) * 256 + ?v mod 256 = 4096 * ?p + ?v" by simp
  then have "be16 f (k + 2) = 4096 * ?p + ?v" using be16_drop [OF d3] by simp
  then have v: "be16 f (k + 2) mod 4096 = ?v" using g by simp
  have t: "be16 f k = ?t" using be16_drop [OF d] by simp
  have "k + 6 \<le> length f" using d5 by simp
  then have "skip_tags f (be16 f k) (k + 2) tag = skip_tags f (be16 f (k + 4)) (k + 6) (tag @ '' vlan'' @ show_int ?v)"
    using t v g(1) by (subst skip_tags.simps) (simp add: eval_nat_numeral)
  moreover have "k + 4 + 2 = k + 6" by simp
  ultimately show ?case using Cons.IH [OF d6 Cons.prems(2), of "tag @ '' vlan'' @ show_int ?v"] Cons.prems(3)
    by (simp add: vlan_text_def add_ac)
qed

text \<open>A DHCP message as it is on the wire: the addresses, a stack of VLAN tags, an IPv4 header with
  or without options of its own, a UDP header, the fixed part of BOOTP with the cookie, and the options.\<close>

definition dhcp_frame :: "int list \<Rightarrow> vlan_tag list \<Rightarrow> int list \<Rightarrow> int list \<Rightarrow> int list \<Rightarrow> int list \<Rightarrow> int list" where
  "dhcp_frame addresses tags ip udp bootp opts =
     addresses @ concat (map tag_bytes tags) @ [8, 0] @ ip @ udp @ bootp @ opts"

definition well_shaped :: "int list \<Rightarrow> vlan_tag list \<Rightarrow> int list \<Rightarrow> int list \<Rightarrow> int list \<Rightarrow> bool" where
  "well_shaped addresses tags ip udp bootp \<longleftrightarrow>
     length addresses = 12 \<and> list_all tag_ok tags \<and>
     20 \<le> length ip \<and> int (length ip) = 4 * (ip ! 0 mod 16) \<and> ip ! 9 = 17 \<and>
     length udp = 8 \<and> (be16 udp 0 \<in> {67, 68} \<or> be16 udp 2 \<in> {67, 68}) \<and>
     length bootp = 240 \<and> slice 236 240 bootp = COOKIE"

lemma nth_inside: "i < length xs \<Longrightarrow> length pre = off \<Longrightarrow> (pre @ xs @ post) ! (off + i) = xs ! i"
  by (auto simp: nth_append)

lemma be16_inside: "i + 1 < length xs \<Longrightarrow> length pre = off \<Longrightarrow> be16 (pre @ xs @ post) (off + i) = be16 xs i"
  using nth_inside [of i xs pre off post] nth_inside [of "i + 1" xs pre off post] by (simp add: be16_def add.assoc)

lemma slice_append: "a \<le> b \<Longrightarrow> b \<le> length xs \<Longrightarrow> slice a b (xs @ ys) = slice a b xs"
  by (simp add: slice_def)

lemma slice_inside: "a \<le> b \<Longrightarrow> b \<le> length xs \<Longrightarrow> length pre = off \<Longrightarrow>
    slice (off + a) (off + b) (pre @ xs @ post) = slice a b xs"
  by (simp add: slice_def)

lemma nth_from_end: "m + j \<le> length f \<Longrightarrow> 0 < j \<Longrightarrow> drop m f ! (length f - m - j) = f ! (length f - j)"
  by simp

lemma drop_at: "length pre = off \<Longrightarrow> drop off (pre @ xs) = xs"
  by auto

definition frame_text :: "int list \<Rightarrow> vlan_tag list \<Rightarrow> int list \<Rightarrow> int list \<Rightarrow> string" where
  "frame_text addresses tags ip udp =
     mac_text (drop 6 addresses) @ '' > '' @ mac_text (take 6 addresses) @ vlan_text tags @ '' IPv4 '' @
     dotted (slice 12 16 ip) @ '' > '' @ dotted (slice 16 20 ip) @ '' UDP '' @ show_int (be16 udp 0) @ ''->'' @
     show_int (be16 udp 2) @ '' DHCP''"

lemma decode_dhcp_frame:
  assumes "well_shaped addresses tags ip udp bootp"
  shows "decode (dhcp_frame addresses tags ip udp bootp opts) =
     map_option (\<lambda>d. (''dhcp'', frame_text addresses tags ip udp @ d)) (dhcp_detail (bootp @ opts))"
proof -
  let ?f = "dhcp_frame addresses tags ip udp bootp opts"
  note w = assms [unfolded well_shaped_def]
  define off where "off = 14 + 4 * length tags"
  have tags: "length (concat (map tag_bytes tags)) = 4 * length tags" by (induction tags) (simp_all add: tag_bytes_def)
  have ihl: "nat (ip ! 0 mod 16) * 4 = length ip" using w by linarith
  have l: "0 < length ip" "9 < length ip" "16 \<le> length ip" "20 \<le> length ip" using w by linarith+
  let ?pre = "addresses @ concat (map tag_bytes tags) @ [8, 0]"
  have f: "?f = ?pre @ ip @ (udp @ bootp @ opts)" "?f = (?pre @ ip) @ udp @ (bootp @ opts)" by (simp_all add: dhcp_frame_def)
  have pre: "length ?pre = off" "length (?pre @ ip) = off + length ip" using w tags by (simp_all add: off_def)
  have "drop 12 ?f = concat (map tag_bytes tags) @ 8 # 0 # (ip @ udp @ bootp @ opts)" using w by (simp add: dhcp_frame_def)
  from skip_tags_stack [OF this] w have skip: "skip_tags ?f (be16 ?f 12) 14 [] = (0x0800, off, vlan_text tags)"
    by (simp add: off_def)
  have len: "length ?f = off + length ip + 8 + 240 + length opts" using w tags by (simp add: dhcp_frame_def off_def)
  have ip: "?f ! (off + 0) = ip ! 0" "?f ! (off + 9) = ip ! 9"
    unfolding f(1) by (rule nth_inside [OF l(1) pre(1)], rule nth_inside [OF l(2) pre(1)])
  have ips: "slice (off + 12) (off + 16) ?f = slice 12 16 ip" "slice (off + 16) (off + 20) ?f = slice 16 20 ip"
    unfolding f(1) by (rule slice_inside [OF _ l(3) pre(1)], simp, rule slice_inside [OF _ l(4) pre(1)], simp)
  have ports: "be16 ?f (off + length ip + 0) = be16 udp 0" "be16 ?f (off + length ip + 2) = be16 udp 2"
    unfolding f(2) by (rule be16_inside; use w pre in simp)+
  have "drop (off + length ip + 8) ?f = drop (length ip + 8) (drop off ?f)" by (simp only: drop_drop ac_simps)
  also have "drop off ?f = ip @ udp @ bootp @ opts" unfolding f(1) by (rule drop_at [OF pre(1)])
  finally have rest: "drop (off + length ip + 8) ?f = bootp @ opts" using w by simp
  have macs: "slice 6 12 ?f = drop 6 addresses" "slice 0 6 ?f = take 6 addresses"
    using w by (simp_all add: slice_def dhcp_frame_def)
  have "decode_ipv4 ?f off b = map_option (\<lambda>d. (''dhcp'', b @ '' '' @ dotted (slice 12 16 ip) @ '' > '' @
      dotted (slice 16 20 ip) @ '' UDP '' @ show_int (be16 udp 0) @ ''->'' @ show_int (be16 udp 2) @ '' DHCP'' @ d))
      (dhcp_detail (bootp @ opts))" for b
    using w ip ips ports len rest ihl
    by (auto simp: decode_ipv4_def decode_udp_def Let_def add.assoc)
  with skip len macs show ?thesis
    by (simp add: decode_def frame_text_def ETHERTYPE_def)
qed

text \<open>C33. A DHCP message of any sender is recognised through any stack of VLAN tags, customer or provider, of any
  priority, and behind an IPv4 header of any length, and is described by the type in its first message
  type option with a value, its transaction id and its client; the options may be padded anywhere and end
  with the frame or with the end code, whatever follows it.\<close>

theorem dhcp_message_decoded:
  assumes "well_shaped addresses tags ip udp bootp" and "list_all option_ok opts" and "options_end rest"
  shows "decode (dhcp_frame addresses tags ip udp bootp (encode_options opts @ rest)) =
    Some (''dhcp'', frame_text addresses tags ip udp @ '' '' @ message_name (option_53 opts) @
      '' xid=0x'' @ padded_hex 8 (be32 bootp 4) @ '' client='' @ mac_text (slice 28 34 bootp))"
proof -
  let ?p = "bootp @ encode_options opts @ rest"
  have b: "length bootp = 240" "slice 236 240 bootp = COOKIE" using assms(1) by (simp_all add: well_shaped_def)
  have "message_type ?p 240 = Some (option_53 opts)"
    by (rule message_type_options) (use assms b in simp_all)
  moreover have "slice 236 240 ?p = COOKIE" "be32 ?p 4 = be32 bootp 4" "slice 28 34 ?p = slice 28 34 bootp"
    using b by (simp_all add: slice_append be32_def be16_def nth_append)
  ultimately show ?thesis using b by (simp add: decode_dhcp_frame [OF assms(1)] dhcp_detail_def)
qed

text \<open>Two tags, the outer one a provider's with a priority, an IPv4 header with four bytes of options, and an end
  code that is the last byte of the frame.\<close>

lemma dhcp_message_decoded_witness:
  "map_option fst (decode (dhcp_frame (replicate 12 2) [VlanTag 0x88A8 10 20, VlanTag 0x8100 0 300]
     (0x46 # replicate 8 0 @ 17 # replicate 14 1) [0, 68, 0, 67, 0, 0, 0, 0]
     (replicate 236 0 @ COOKIE) (encode_options [Opt 61 [1, 2], Pad, Opt 53 [3]] @ [255]))) = Some ''dhcp''"
proof -
  have "well_shaped (replicate 12 2) [VlanTag 0x88A8 10 20, VlanTag 0x8100 0 300] (0x46 # replicate 8 0 @ 17 # replicate 14 1)
      [0, 68, 0, 67, 0, 0, 0, 0] (replicate 236 0 @ COOKIE)"
    by code_simp
  from dhcp_message_decoded [OF this, of "[Opt 61 [1, 2], Pad, Opt 53 [3]]" "[255]"] show ?thesis
    by (simp add: options_end_def)
qed

text \<open>One malformed message ends the trace: when the message type option stands at the very end with a
  length but no value, the decoder reads past the end of the frame and nobody catches the
  \<open>IndexError\<close>. No other frame does that.\<close>

theorem truncated_option_crashes:
  assumes "well_shaped addresses tags ip udp bootp" and "1 \<le> n"
  shows "decode (dhcp_frame addresses tags ip udp bootp [53, n]) = None \<and>
    (\<forall>f. decode f = None \<longrightarrow> f ! (length f - 2) = 53 \<and> 1 \<le> f ! (length f - 1))"
proof -
  have b: "length bootp = 240" "slice 236 240 bootp = COOKIE" using assms(1) by (simp_all add: well_shaped_def)
  have "message_type (bootp @ [53, n]) 240 = None"
    using message_type_step [of 240 "bootp @ [53, n]" 53 n "[]"] b assms(2) by simp
  moreover have "slice 236 240 (bootp @ [53, n]) = COOKIE" using b by (simp add: slice_append)
  ultimately have "decode (dhcp_frame addresses tags ip udp bootp [53, n]) = None"
    using b by (simp add: decode_dhcp_frame [OF assms(1)] dhcp_detail_def)
  moreover have "f ! (length f - 2) = 53 \<and> 1 \<le> f ! (length f - 1)" if none: "decode f = None" for f
  proof -
    obtain udp where d: "dhcp_detail (drop (udp + 8) f) = None"
      using none by (auto simp: decode_def decode_ipv4_def decode_udp_def Let_def split: if_splits prod.splits)
    then have "message_type (drop (udp + 8) f) 240 = None" by (auto simp: dhcp_detail_def split: if_splits)
    note e = message_type_error [OF this, unfolded length_drop]
    then have "240 + 2 \<le> length f - (udp + 8)" by simp
    then have "f ! (length f - 2) = drop (udp + 8) f ! (length f - (udp + 8) - 2)"
      "f ! (length f - 1) = drop (udp + 8) f ! (length f - (udp + 8) - 1)"
      by (intro nth_from_end [symmetric]; simp)+
    with e show ?thesis by (simp only:)
  qed
  ultimately show ?thesis by blast
qed

lemma truncated_option_crashes_witness:
  "decode (dhcp_frame (replicate 12 2) [] (0x45 # replicate 8 0 @ 17 # replicate 10 1) [0, 68, 0, 67, 0, 0, 0, 0]
     (replicate 236 0 @ COOKIE) [53, 1]) = None"
proof -
  have "well_shaped (replicate 12 2) [] (0x45 # replicate 8 0 @ 17 # replicate 10 1) [0, 68, 0, 67, 0, 0, 0, 0] (replicate 236 0 @ COOKIE)"
    by code_simp
  from truncated_option_crashes [OF this, of 1] show ?thesis by simp
qed

subsection \<open>The walk as a loop\<close>

text \<open>The body of the \<open>while\<close> loop: it ends with a result or goes on at the next index.\<close>

definition option_step :: "frame \<Rightarrow> nat \<Rightarrow> int option option + nat" where
  "option_step p i =
     (if \<not> i + 1 < length p then Inl (Some None)
      else if p ! i = 255 then Inl (Some None)
      else if p ! i = 0 then Inr (i + 1)
      else if p ! i = 53 \<and> 1 \<le> p ! (i + 1) then Inl (if i + 2 < length p then Some (Some (p ! (i + 2))) else None)
      else Inr (i + 2 + nat (p ! (i + 1))))"

fun run_steps :: "nat \<Rightarrow> frame \<Rightarrow> nat \<Rightarrow> int option option option" where
  "run_steps 0 p i = None"
| "run_steps (Suc n) p i = (case option_step p i of Inl r \<Rightarrow> Some r | Inr j \<Rightarrow> run_steps n p j)"

text \<open>C40. The walk over the options ends on every frame, whatever lengths its options claim: one more turn
  than there are bytes left is always enough, and gives the result of \<open>message_type\<close>.\<close>

theorem option_walk_terminates: "run_steps (length p - i + 1) p i = Some (message_type p i)"
proof -
  have more: "run_steps (n + k) p i = Some r" if "run_steps n p i = Some r" for n k p i r
    using that by (induction n arbitrary: i) (auto split: sum.splits)
  have jump: "run_steps (length p - i) p j = Some (message_type p j)"
    if "run_steps (length p - j + 1) p j = Some (message_type p j)" "i < j" "i + 1 < length p" for p i j
  proof (cases "j < length p")
    case True
    with that(2) have "length p - i = length p - j + 1 + (j - i - 1)" by simp
    with more [OF that(1), of "j - i - 1"] show ?thesis by (simp only:)
  next
    case False
    with that(2,3) obtain n where "length p - i = Suc n" by (cases "length p - i") auto
    with False show ?thesis by (simp add: option_step_def message_type.simps [of p j])
  qed
  show ?thesis
  proof (induction p i rule: message_type.induct)
    case (1 p i)
    have a: "run_steps (length p - i) p (i + 1) = Some (message_type p (i + 1))"
      if "i + 1 < length p" "p ! i \<noteq> 255" "p ! i = 0"
      using jump [OF "1.IH"(1) [OF that] _ that(1)] by simp
    have b: "run_steps (length p - i) p (i + 2 + nat (p ! (i + 1))) = Some (message_type p (i + 2 + nat (p ! (i + 1))))"
      if "i + 1 < length p" "p ! i \<noteq> 255" "p ! i \<noteq> 0" "\<not> (p ! i = 53 \<and> 1 \<le> p ! (i + 1))"
      using jump [OF "1.IH"(2) [OF that] _ that(1)] by simp
    have "run_steps (Suc (length p - i)) p i = Some (message_type p i)"
      unfolding run_steps.simps message_type.simps [of p i] option_step_def [of p i]
      using a b by (simp split: if_splits)
    then show ?case by simp
  qed
qed

end
