(* ===== verification/PyNum.thy ===== *)
theory PyNum
  imports Complex_Main
begin

text \<open>
  Python's rounding of floats, on rational numbers, and the counter rates of \<open>util.py\<close>.
\<close>

text \<open>\<open>round(x, digits)\<close>, half to even.\<close>

definition round_even :: "rat \<Rightarrow> int" where
  "round_even x = (let f = \<lfloor>x\<rfloor>; d = x - of_int f in
     if d < 1 / 2 then f else if 1 / 2 < d then f + 1 else if even f then f else f + 1)"

definition py_round :: "nat \<Rightarrow> rat \<Rightarrow> rat" where
  "py_round digits x = of_int (round_even (x * 10 ^ digits)) / 10 ^ digits"

text \<open>\<open>rate\<close>: a counter that went backwards was reset and has no rate.\<close>

definition rate :: "rat \<Rightarrow> rat \<Rightarrow> rat \<Rightarrow> rat" where
  "rate cur prev dt = (if dt \<le> 0 \<or> cur < prev then 0 else (cur - prev) / dt)"

lemma round_even_mono: "x \<le> of_int n \<Longrightarrow> round_even x \<le> n" "of_int n \<le> x \<Longrightarrow> n \<le> round_even x"
proof -
  assume h: "x \<le> of_int n"
  then have f: "\<lfloor>x\<rfloor> \<le> n" by linarith
  show "round_even x \<le> n"
  proof (cases "\<lfloor>x\<rfloor> = n")
    case True
    with h have "x - of_int \<lfloor>x\<rfloor> \<le> 0" by simp
    with True show ?thesis by (simp add: round_even_def Let_def)
  next
    case False
    with f have "\<lfloor>x\<rfloor> + 1 \<le> n" by simp
    then show ?thesis by (simp add: round_even_def Let_def)
  qed
next
  assume "of_int n \<le> x"
  then have "n \<le> \<lfloor>x\<rfloor>" by (simp add: le_floor_iff)
  then show "n \<le> round_even x" by (simp add: round_even_def Let_def)
qed

lemma py_round_bounds:
  "of_int m \<le> x \<Longrightarrow> of_int m \<le> py_round d x" "x \<le> of_int n \<Longrightarrow> py_round d x \<le> of_int n"
proof -
  have p: "(0 :: rat) < 10 ^ d" by simp
  assume "of_int m \<le> x"
  then have "of_int (m * 10 ^ d) \<le> x * 10 ^ d" using p by simp
  from round_even_mono(2) [OF this] have "of_int (m * 10 ^ d) \<le> (of_int (round_even (x * 10 ^ d)) :: rat)"
    by (simp only: of_int_le_iff)
  then show "of_int m \<le> py_round d x" using p by (simp add: py_round_def pos_le_divide_eq)
next
  have p: "(0 :: rat) < 10 ^ d" by simp
  assume "x \<le> of_int n"
  then have "x * 10 ^ d \<le> of_int (n * 10 ^ d)" using p by simp
  from round_even_mono(1) [OF this] have "(of_int (round_even (x * 10 ^ d)) :: rat) \<le> of_int (n * 10 ^ d)"
    by (simp only: of_int_le_iff)
  then show "py_round d x \<le> of_int n" using p by (simp add: py_round_def pos_divide_le_eq)
qed

lemma rate_nonneg: "0 \<le> rate cur prev dt"
  by (simp add: rate_def)

end
