(* ===== verification/Rf.thy ===== *)
theory Rf
  imports RfChannels Doc PyNum
begin

text \<open>
  The channel analyser of \<open>rf.py\<close>: what a scan keeps, the load per channel, the score of the candidate
  channels, the recommendation and the optimiser that acts on it. Scores are rational numbers. What
  the radios, the driver and hostapd answer are arguments; the commands sent to hostapd are kept in a
  trace.
\<close>

subsection \<open>Data\<close>

record scan_entry =
  sc_bssid :: "string option"
  sc_freq :: "int option"
  sc_channel :: "int option"
  sc_width :: "int option"
  sc_rssi :: "rat option"

record neighbour =
  nb_entry :: scan_entry
  nb_radio :: string
  nb_band :: "string option"
  nb_channel :: "int option"
  nb_width :: int

record survey_entry =
  sv_freq :: "int option"
  sv_noise :: "rat option"
  sv_busy :: "rat option"

record channel_detail =
  cd_channel :: int
  cd_disabled :: bool
  cd_dfs :: bool
  cd_psc :: bool
  cd_no_ir :: bool

record slot_load =
  ld_count :: int
  ld_weight :: rat
  ld_strongest :: "rat option"

record channel_info =
  ci_channel :: int
  ci_dfs :: bool
  ci_psc :: bool
  ci_no_ir :: bool
  ci_neighbours :: int
  ci_interference :: rat
  ci_strongest :: "rat option"
  ci_noise :: "rat option"
  ci_utilisation :: "rat option"
  ci_in_use :: bool
  ci_primary :: bool

record rf_settings =
  rs_min_interval :: rat
  rs_min_improvement :: rat
  rs_avoid_dfs :: bool
  rs_prefer_psc :: bool

text \<open>\<open>DEFAULTS\<close> overlaid with the section of the document; values of the wrong type never pass the
  validation of the document.\<close>

definition number_or :: "rat \<Rightarrow> string \<Rightarrow> obj \<Rightarrow> rat" where
  "number_or x k d = (case map_of d k of None \<Rightarrow> x | Some j \<Rightarrow> the_default 0 (num_of j))"

definition rf_settings_of :: "json \<Rightarrow> rf_settings" where
  "rf_settings_of cfg =
     (let d = sub ''channel_optimisation'' (sub ''wifi'' (obj_of cfg)) in
      \<lparr>rs_min_interval = number_or (6 * 3600) ''min_interval_seconds'' d,
       rs_min_improvement = number_or 15 ''min_improvement'' d,
       rs_avoid_dfs = truthy (get_or (JBool False) ''avoid_dfs'' d),
       rs_prefer_psc = truthy (get_or (JBool True) ''prefer_psc'' d)\<rparr>)"

subsection \<open>Scans\<close>

text \<open>What \<open>_scan_one\<close> keeps of the entries of a scan: not our own BSSes, and only the radio's band.\<close>

definition keep_entry :: "string \<Rightarrow> string option \<Rightarrow> string option set \<Rightarrow> scan_entry \<Rightarrow> neighbour option" where
  "keep_entry rid band own e =
     (let entry_band = (case sc_freq e of None \<Rightarrow> None | Some f \<Rightarrow> if f = 0 then None else band_for_frequency (of_int f)) in
      if sc_bssid e \<in> own \<or> entry_band \<noteq> band then None
      else Some \<lparr>nb_entry = e, nb_radio = rid, nb_band = entry_band,
        nb_channel = (case sc_channel e of Some c \<Rightarrow> Some c
                      | None \<Rightarrow> (case sc_freq e of None \<Rightarrow> None | Some f \<Rightarrow> if f = 0 then None else freq_to_channel f)),
        nb_width = (case sc_width e of None \<Rightarrow> 20 | Some w \<Rightarrow> if w = 0 then 20 else w)\<rparr>)"

definition scan_neighbours :: "string \<Rightarrow> string option \<Rightarrow> string option set \<Rightarrow> scan_entry list \<Rightarrow> neighbour list" where
  "scan_neighbours rid band own entries = List.map_filter (keep_entry rid band own) entries"

subsection \<open>Load per channel\<close>

definition no_load :: slot_load where
  "no_load = \<lparr>ld_count = 0, ld_weight = 0, ld_strongest = None\<rparr>"

definition rssi_weight :: "rat \<Rightarrow> rat" where
  "rssi_weight rssi = max 0 ((rssi + 95) / 45)"

definition bump_slot :: "rat option \<Rightarrow> slot_load \<Rightarrow> slot_load" where
  "bump_slot rssi s = (case rssi of
     None \<Rightarrow> s\<lparr>ld_count := ld_count s + 1, ld_weight := ld_weight s + 3 / 10\<rparr>
   | Some r \<Rightarrow> s\<lparr>ld_count := ld_count s + 1, ld_weight := ld_weight s + rssi_weight r,
       ld_strongest := (case ld_strongest s of None \<Rightarrow> Some r | Some m \<Rightarrow> if m < r then Some r else Some m)\<rparr>)"

definition slot_at :: "(int \<times> slot_load) list \<Rightarrow> int \<Rightarrow> slot_load" where
  "slot_at load c = (case map_of load c of None \<Rightarrow> no_load | Some s \<Rightarrow> s)"

definition add_neighbour :: "string \<Rightarrow> neighbour \<Rightarrow> (int \<times> slot_load) list \<Rightarrow> (int \<times> slot_load) list" where
  "add_neighbour band n load = (case nb_channel n of
     None \<Rightarrow> load
   | Some c \<Rightarrow> fold (\<lambda>covered l. AList.update covered (bump_slot (sc_rssi (nb_entry n)) (slot_at l covered)) l)
       (occupied_channels c (nb_width n) band) load)"

definition channel_load :: "string \<Rightarrow> neighbour list \<Rightarrow> (int \<times> slot_load) list" where
  "channel_load band ns = fold (add_neighbour band) ns []"

definition survey_at :: "survey_entry list \<Rightarrow> int \<Rightarrow> survey_entry option" where
  "survey_at survey c = map_of (fold (\<lambda>e m.
     case freq_to_channel (case sv_freq e of None \<Rightarrow> 0 | Some f \<Rightarrow> f) of None \<Rightarrow> m | Some ch \<Rightarrow> AList.update ch e m) survey []) c"

definition channel_info_of :: "string \<Rightarrow> (int \<times> slot_load) list \<Rightarrow> survey_entry list \<Rightarrow> int option \<Rightarrow> int
    \<Rightarrow> channel_detail \<Rightarrow> channel_info" where
  "channel_info_of band load survey cur cur_width d =
     (let c = cd_channel d; s = slot_at load c; sv = survey_at survey c in
      \<lparr>ci_channel = c, ci_dfs = cd_dfs d, ci_psc = cd_psc d, ci_no_ir = cd_no_ir d,
       ci_neighbours = ld_count s, ci_interference = py_round 2 (ld_weight s), ci_strongest = ld_strongest s,
       ci_noise = (case sv of None \<Rightarrow> None | Some e \<Rightarrow> sv_noise e),
       ci_utilisation = (case sv of None \<Rightarrow> None | Some e \<Rightarrow> sv_busy e),
       ci_in_use = (case cur of None \<Rightarrow> False | Some k \<Rightarrow> k \<noteq> 0 \<and> c \<in> set (occupied_channels k cur_width band)),
       ci_primary = (cur = Some c)\<rparr>)"

definition channel_infos :: "string \<Rightarrow> neighbour list \<Rightarrow> survey_entry list \<Rightarrow> int option \<Rightarrow> int \<Rightarrow> channel_detail list
    \<Rightarrow> channel_info list" where
  "channel_infos band ns survey cur cur_width details =
     map (channel_info_of band (channel_load band ns) survey cur cur_width) (filter (\<lambda>d. \<not> cd_disabled d) details)"

subsection \<open>Scores\<close>

record candidate_channel =
  cc_channel :: int
  cc_score :: rat
  cc_width :: int
  cc_interference :: rat
  cc_neighbours :: int
  cc_utilisation :: "rat option"
  cc_noise :: "rat option"
  cc_dfs :: bool
  cc_psc :: bool
  cc_covers :: "int list"

definition mean :: "rat list \<Rightarrow> rat option" where
  "mean xs = (if xs = [] then None else Some (sum_list xs / of_nat (length xs)))"

text \<open>The penalties and the bonus, before the score is rounded.\<close>

definition raw_score :: "string \<Rightarrow> rf_settings \<Rightarrow> int option \<Rightarrow> channel_info \<Rightarrow> rat \<Rightarrow> rat option \<Rightarrow> rat option \<Rightarrow> bool \<Rightarrow> rat" where
  "raw_score band rs cur e interference util noise dfs =
     100 - min 55 (interference * 11)
     - (case util of None \<Rightarrow> 0 | Some u \<Rightarrow> min 30 (u * 35 / 100))
     - (case noise of None \<Rightarrow> 0 | Some n \<Rightarrow> max 0 (n + 95) * 12 / 10)
     - (if dfs then if rs_avoid_dfs rs then 25 else 6 else 0)
     - (if band = ''6g'' \<and> rs_prefer_psc rs \<and> \<not> ci_psc e then 4 else 0)
     + (if cur = Some (ci_channel e) then 6 else 0)"

definition feasible :: "string \<Rightarrow> int \<Rightarrow> channel_info list \<Rightarrow> channel_info \<Rightarrow> bool" where
  "feasible band width channels e \<longleftrightarrow>
     \<not> ci_no_ir e \<and> (band = ''2g'' \<longrightarrow> ci_channel e \<in> set NON_OVERLAPPING_2G) \<and>
     bonded_channels (ci_channel e) width band \<noteq> [] \<and>
     set (bonded_channels (ci_channel e) width band) \<subseteq> ci_channel ` set channels"

definition score_channel :: "string \<Rightarrow> int \<Rightarrow> rf_settings \<Rightarrow> int option \<Rightarrow> channel_info list \<Rightarrow> channel_info
    \<Rightarrow> candidate_channel" where
  "score_channel band width rs cur channels e =
     (let covered = occupied_channels (ci_channel e) width band;
          block = filter (\<lambda>c. ci_channel c \<in> set covered) channels;
          interference = sum_list (map ci_interference block);
          util = mean (List.map_filter ci_utilisation block);
          noise = mean (List.map_filter ci_noise block);
          dfs = list_ex ci_dfs block
      in \<lparr>cc_channel = ci_channel e,
          cc_score = py_round 1 (max 0 (raw_score band rs cur e interference util noise dfs)),
          cc_width = width, cc_interference = py_round 2 interference,
          cc_neighbours = sum_list (map ci_neighbours block),
          cc_utilisation = map_option (py_round 1) util, cc_noise = map_option (py_round 1) noise,
          cc_dfs = dfs, cc_psc = ci_psc e, cc_covers = covered\<rparr>)"

text \<open>The candidates, the best first: by score, then by channel.\<close>

definition ranks_before :: "candidate_channel \<Rightarrow> candidate_channel \<Rightarrow> bool" where
  "ranks_before a b \<longleftrightarrow> cc_score b < cc_score a \<or> cc_score a = cc_score b \<and> cc_channel a \<le> cc_channel b"

fun insert_ranked :: "candidate_channel \<Rightarrow> candidate_channel list \<Rightarrow> candidate_channel list" where
  "insert_ranked c [] = [c]"
| "insert_ranked c (d # ds) = (if ranks_before c d then c # d # ds else d # insert_ranked c ds)"

definition scored_channels :: "string \<Rightarrow> int \<Rightarrow> rf_settings \<Rightarrow> int option \<Rightarrow> channel_info list \<Rightarrow> candidate_channel list" where
  "scored_channels band width rs cur channels =
     foldr insert_ranked (map (score_channel band width rs cur channels) (filter (feasible band width channels) channels)) []"

subsection \<open>The recommendation\<close>

datatype reason =
    NoneScored
  | NoCurrentChannel
  | AlreadyBest
  | CurrentUnscored int int
  | GainTooSmall rat
  | HoldingOff rat
  | ScoresBetter rat

record recommendation =
  rc_best :: "candidate_channel option"
  rc_current :: "candidate_channel option"
  rc_switch :: bool
  rc_reason :: reason
  rc_candidates :: "candidate_channel list"

type_synonym rf_time = rat

definition decide :: "rf_settings \<Rightarrow> rf_time \<Rightarrow> rf_time \<Rightarrow> int \<Rightarrow> int option \<Rightarrow> candidate_channel option
    \<Rightarrow> candidate_channel option \<Rightarrow> bool \<times> reason" where
  "decide rs t last_switch width cur best current =
     (case best of
        None \<Rightarrow> (False, NoneScored)
      | Some b \<Rightarrow>
          (case cur of
             None \<Rightarrow> (True, NoCurrentChannel)
           | Some k \<Rightarrow>
               if cc_channel b = k then (False, AlreadyBest)
               else case current of
                   None \<Rightarrow> (True, CurrentUnscored k width)
                 | Some c \<Rightarrow>
                     (let gain = cc_score b - cc_score c; since = t - last_switch in
                      if gain < rs_min_improvement rs then (False, GainTooSmall gain)
                      else if since < rs_min_interval rs then (False, HoldingOff since)
                      else (True, ScoresBetter gain))))"

definition recommend :: "string \<Rightarrow> int option \<Rightarrow> rf_settings \<Rightarrow> rf_time \<Rightarrow> rf_time \<Rightarrow> channel_info list \<Rightarrow> int option
    \<Rightarrow> int \<Rightarrow> recommendation" where
  "recommend band configured_width rs t last_switch channels cur cur_width =
     (let width = (case configured_width of None \<Rightarrow> if cur_width = 0 then 20 else cur_width
                   | Some w \<Rightarrow> if w \<noteq> 0 then w else if cur_width = 0 then 20 else cur_width);
          cands = scored_channels band width rs cur channels;
          best = (case cands of [] \<Rightarrow> None | b # _ \<Rightarrow> Some b);
          current = find (\<lambda>c. Some (cc_channel c) = cur) cands;
          (switch, reason) = decide rs t last_switch width cur best current
      in \<lparr>rc_best = best, rc_current = current, rc_switch = switch, rc_reason = reason, rc_candidates = cands\<rparr>)"

subsection \<open>Applying a channel\<close>

record csa_command =
  cs_iface :: string
  cs_freq :: int
  cs_channel :: int
  cs_width :: int
  cs_centre :: int
  cs_band :: string

text \<open>\<open>_centre_freq\<close>: the mean of the covered frequencies, cut to an integer.\<close>

definition centre_freq :: "int \<Rightarrow> int \<Rightarrow> string \<Rightarrow> int option" where
  "centre_freq channel width band =
     (if width \<le> 20 then channel_to_freq channel band
      else let freqs = filter (\<lambda>f. f \<noteq> 0) (List.map_filter (\<lambda>c. channel_to_freq c band) (occupied_channels channel width band)) in
        if freqs = [] then None else Some (sum_list freqs div int (length freqs)))"

datatype apply_detail =
    NoBss
  | NoFrequency
  | NoCentre
  | Switched string
  | NoFallback string
  | FallbackFailed string
  | Restarted string

text \<open>The plan's link of a radio: its band and the interface of its first BSS. hostapd answers whether a
  switch was accepted; the configuration path, if wired up, may raise.\<close>

record rf_link =
  rl_band :: string
  rl_iface :: "string option"

record rf_env =
  re_csa :: "csa_command \<Rightarrow> bool \<times> string"
  re_commit :: "(string \<Rightarrow> int \<Rightarrow> bool) option"

record switch_entry =
  sw_ts :: rf_time
  sw_radio :: string
  sw_from :: "int option"
  sw_to :: int
  sw_width :: int
  sw_score :: rat
  sw_manual :: bool
  sw_reason :: reason

record analyser =
  an_history :: "switch_entry list"
  an_last :: "(string \<times> rf_time) list"
  an_sent :: "csa_command list"
  an_events :: "switch_entry list"

definition HISTORY_LIMIT :: nat where "HISTORY_LIMIT = 200"

definition load_analyser :: "switch_entry list \<Rightarrow> analyser" where
  "load_analyser h = \<lparr>an_history = h, an_last = fold (\<lambda>e. AList.update (sw_radio e) (sw_ts e)) h [],
     an_sent = [], an_events = []\<rparr>"

definition record_switch :: "switch_entry \<Rightarrow> analyser \<Rightarrow> analyser" where
  "record_switch e a = (let h = an_history a @ [e] in
     a\<lparr>an_history := drop (length h - HISTORY_LIMIT) h, an_last := AList.update (sw_radio e) (sw_ts e) (an_last a)\<rparr>)"

definition switch_history :: "string option \<Rightarrow> analyser \<Rightarrow> switch_entry list" where
  "switch_history radio a = filter (\<lambda>e. case radio of None \<Rightarrow> True | Some r \<Rightarrow> sw_radio e = r) (rev (an_history a))"

definition last_switch :: "string \<Rightarrow> analyser \<Rightarrow> rf_time" where
  "last_switch rid a = the_default 0 (map_of (an_last a) rid)"

definition apply_channel :: "rf_env \<Rightarrow> string \<Rightarrow> rf_link option \<Rightarrow> int \<Rightarrow> int \<Rightarrow> analyser \<Rightarrow> (bool \<times> apply_detail) \<times> analyser" where
  "apply_channel re rid link channel width a =
     (case link of
        None \<Rightarrow> ((False, NoBss), a)
      | Some l \<Rightarrow>
          (case rl_iface l of
             None \<Rightarrow> ((False, NoBss), a)
           | Some iface \<Rightarrow>
               (case channel_to_freq channel (rl_band l) of
                  None \<Rightarrow> ((False, NoFrequency), a)
                | Some freq \<Rightarrow>
                    (case centre_freq channel width (rl_band l) of
                       None \<Rightarrow> ((False, NoCentre), a)
                     | Some centre \<Rightarrow>
                         let cmd = \<lparr>cs_iface = iface, cs_freq = freq, cs_channel = channel, cs_width = width,
                               cs_centre = centre, cs_band = rl_band l\<rparr>;
                             a1 = a\<lparr>an_sent := an_sent a @ [cmd]\<rparr>;
                             (ok, detail) = re_csa re cmd
                         in if ok then ((True, Switched detail), a1)
                            else (case re_commit re of
                                None \<Rightarrow> ((False, NoFallback detail), a1)
                              | Some f \<Rightarrow> if f rid channel then ((True, Restarted detail), a1)
                                  else ((False, FallbackFailed detail), a1))))))"

subsection \<open>The optimiser\<close>

record radio_view =
  rv_id :: string
  rv_band :: string
  rv_configured_width :: "int option"
  rv_channel :: "int option"
  rv_width :: int
  rv_channels :: "channel_info list"
  rv_link :: "rf_link option"

datatype outcome =
    NothingToChoose
  | NotNeeded reason
  | OnRecommended
  | DryRun
  | Applied apply_detail

record optimise_entry =
  oe_radio :: string
  oe_to :: "int option"
  oe_switched :: bool
  oe_outcome :: outcome

definition recommend_for :: "rf_settings \<Rightarrow> rf_time \<Rightarrow> radio_view \<Rightarrow> analyser \<Rightarrow> recommendation" where
  "recommend_for rs t v a = recommend (rv_band v) (rv_configured_width v) rs t (last_switch (rv_id v) a)
     (rv_channels v) (rv_channel v) (rv_width v)"

definition switch_record :: "rf_time \<Rightarrow> bool \<Rightarrow> radio_view \<Rightarrow> recommendation \<Rightarrow> candidate_channel \<Rightarrow> switch_entry" where
  "switch_record t force v r b = \<lparr>sw_ts = t, sw_radio = rv_id v, sw_from = rv_channel v, sw_to = cc_channel b,
     sw_width = rv_width v, sw_score = cc_score b, sw_manual = force, sw_reason = rc_reason r\<rparr>"

text \<open>One radio: the analysis was made before any radio of this run was moved.\<close>

definition optimise_radio :: "rf_env \<Rightarrow> bool \<Rightarrow> bool \<Rightarrow> rf_time \<Rightarrow> radio_view \<times> recommendation \<Rightarrow> analyser
    \<Rightarrow> optimise_entry \<times> analyser" where
  "optimise_radio re force dry t = (\<lambda>(v, r) a.
     case rc_best r of
       None \<Rightarrow> (\<lparr>oe_radio = rv_id v, oe_to = None, oe_switched = False, oe_outcome = NothingToChoose\<rparr>, a)
     | Some b \<Rightarrow>
         let entry = (\<lambda>s x. \<lparr>oe_radio = rv_id v, oe_to = Some (cc_channel b), oe_switched = s, oe_outcome = x\<rparr>) in
         if \<not> rc_switch r \<and> \<not> force then (entry False (NotNeeded (rc_reason r)), a)
         else if rv_channel v = Some (cc_channel b) then (entry False OnRecommended, a)
         else if dry then (entry False DryRun, a)
         else (case apply_channel re (rv_id v) (rv_link v) (cc_channel b) (rv_width v) a of
             ((ok, detail), a1) \<Rightarrow>
               (entry ok (Applied detail),
                if ok then let e = switch_record t force v r b in
                  (record_switch e a1)\<lparr>an_events := an_events a1 @ [e]\<rparr>
                else a1)))"

fun optimise_all :: "rf_env \<Rightarrow> bool \<Rightarrow> bool \<Rightarrow> rf_time \<Rightarrow> (radio_view \<times> recommendation) list \<Rightarrow> analyser
    \<Rightarrow> optimise_entry list \<times> analyser" where
  "optimise_all re force dry t [] a = ([], a)"
| "optimise_all re force dry t (x # xs) a =
     (case optimise_radio re force dry t x a of
        (e, a1) \<Rightarrow> (case optimise_all re force dry t xs a1 of (es, a2) \<Rightarrow> (e # es, a2)))"

definition wanted :: "string list option \<Rightarrow> radio_view \<Rightarrow> bool" where
  "wanted radios v \<longleftrightarrow> (case radios of None \<Rightarrow> True | Some rs \<Rightarrow> rs = [] \<or> rv_id v \<in> set rs)"

definition optimise :: "rf_env \<Rightarrow> rf_settings \<Rightarrow> string list option \<Rightarrow> bool \<Rightarrow> bool \<Rightarrow> rf_time \<Rightarrow> radio_view list \<Rightarrow> analyser
    \<Rightarrow> optimise_entry list \<times> analyser" where
  "optimise re rs radios force dry t views a =
     optimise_all re force dry t (filter (wanted radios o fst) (map (\<lambda>v. (v, recommend_for rs t v a)) views)) a"

end
