(* ===== verification/RfSafety.thy ===== *)
theory RfSafety
  imports Rf
begin

text \<open>
  What the channel analyser guarantees: the load it computes is the sum over the neighbours, a
  recommended channel is permitted and the best, scores are bounded, channels are not changed more
  often than the interval allows, a dry run changes nothing; and a switch that is asked for on a
  width the recommendation did not consider.
\<close>

subsection \<open>Load\<close>

lemma distinct_occupied: "distinct (occupied_channels c w band)"
proof -
  have "distinct b" if "block_of_5g c w = Some b" for b
    using block_of_5g_Some [OF that] by (auto simp: blocks_5g_def split: if_splits)
  moreover have "distinct (block_6g c w)"
    by (auto simp: block_6g_def Let_def distinct_map inj_on_def)
  ultimately show ?thesis by (auto simp: occupied_channels_def Let_def split: option.split)
qed

lemma slot_at_update: "slot_at (AList.update c s l) c' = (if c' = c then s else slot_at l c')"
  by (simp add: slot_at_def update_conv')

lemma slot_at_bump:
  "distinct cs \<Longrightarrow> slot_at (fold (\<lambda>c l. AList.update c (bump_slot r (slot_at l c)) l) cs l) c =
     (if c \<in> set cs then bump_slot r (slot_at l c) else slot_at l c)"
  by (induction cs arbitrary: l) (auto simp: slot_at_update)

text \<open>The neighbours whose transmission reaches a channel.\<close>

definition reaches :: "string \<Rightarrow> int \<Rightarrow> neighbour \<Rightarrow> bool" where
  "reaches band c n \<longleftrightarrow> (case nb_channel n of None \<Rightarrow> False | Some k \<Rightarrow> c \<in> set (occupied_channels k (nb_width n) band))"

definition nb_rssi :: "neighbour \<Rightarrow> rat option" where
  "nb_rssi n = sc_rssi (nb_entry n)"

lemma slot_at_add:
  "slot_at (add_neighbour band n l) c = (if reaches band c n then bump_slot (nb_rssi n) (slot_at l c) else slot_at l c)"
  by (simp add: add_neighbour_def reaches_def nb_rssi_def slot_at_bump distinct_occupied split: option.split)

lemma slot_at_load:
  "slot_at (fold (add_neighbour band) ns l) c = fold (bump_slot \<circ> nb_rssi) (filter (reaches band c) ns) (slot_at l c)"
  by (induction ns arbitrary: l) (simp_all add: slot_at_add)

definition weight_of :: "rat option \<Rightarrow> rat" where
  "weight_of r = (case r of None \<Rightarrow> 3 / 10 | Some x \<Rightarrow> rssi_weight x)"

lemma bump_fields:
  "ld_count (bump_slot r s) = ld_count s + 1" "ld_weight (bump_slot r s) = ld_weight s + weight_of r"
  by (simp_all add: bump_slot_def weight_of_def split: option.split)

lemma bump_sum:
  "ld_count (fold (bump_slot \<circ> f) xs s) = ld_count s + int (length xs)"
  "ld_weight (fold (bump_slot \<circ> f) xs s) = ld_weight s + sum_list (map (weight_of \<circ> f) xs)"
  by (induction xs arbitrary: s) (simp_all add: bump_fields)

definition strongest :: "rat list \<Rightarrow> rat option" where
  "strongest rs = (if rs = [] then None else Some (Max (set rs)))"

lemma strongest_snoc: "strongest (rs @ [r]) = (case strongest rs of None \<Rightarrow> Some r | Some m \<Rightarrow> Some (max m r))"
  by (auto simp: strongest_def max.commute)

lemma bump_strongest:
  "ld_strongest s = strongest rs \<Longrightarrow>
     ld_strongest (fold (bump_slot \<circ> f) xs s) = strongest (rs @ List.map_filter f xs)"
proof (induction xs arbitrary: s rs)
  case Nil
  then show ?case by (simp add: map_filter_simps)
next
  case (Cons x xs)
  have "ld_strongest (bump_slot (f x) s) = strongest (rs @ (case f x of None \<Rightarrow> [] | Some r \<Rightarrow> [r]))"
    using Cons.prems by (auto simp: bump_slot_def strongest_snoc max_def split: option.split)
  from Cons.IH [OF this] show ?case by (simp add: map_filter_simps split: option.split)
qed

text \<open>The load of a channel is what it is meant to be: over the neighbours whose transmission covers the
  channel, their number, the sum of their weights and the strongest signal.\<close>

theorem channel_load_exact:
  "slot_at (channel_load band ns) c =
     (let near = filter (reaches band c) ns in
      \<lparr>ld_count = int (length near), ld_weight = sum_list (map (weight_of \<circ> nb_rssi) near),
       ld_strongest = strongest (List.map_filter nb_rssi near)\<rparr>)"
proof -
  have "slot_at (channel_load band ns) c = fold (bump_slot \<circ> nb_rssi) (filter (reaches band c) ns) no_load"
    by (simp add: channel_load_def slot_at_load) (simp add: slot_at_def)
  moreover have "ld_strongest no_load = strongest []" by (simp add: no_load_def strongest_def)
  ultimately show ?thesis
    by (intro slot_load.equality) (simp_all add: bump_sum bump_strongest Let_def, simp_all add: no_load_def)
qed

subsection \<open>Scores\<close>

lemma raw_score_le:
  assumes "0 \<le> interference" and "\<And>u. util = Some u \<Longrightarrow> 0 \<le> u"
  shows "raw_score band rs cur e interference util noise dfs \<le> 106"
proof -
  have "0 \<le> min 55 (interference * 11)" using assms(1) by simp
  moreover have "0 \<le> (case util of None \<Rightarrow> 0 | Some u \<Rightarrow> min 30 (u * 35 / 100))"
    using assms(2) by (auto split: option.split)
  moreover have "0 \<le> (case noise of None \<Rightarrow> 0 | Some n \<Rightarrow> max 0 (n + 95) * 12 / 10)" by (auto split: option.split)
  ultimately show ?thesis by (auto simp: raw_score_def)
qed

lemma sum_list_nonneg': "list_all (\<lambda>x. 0 \<le> x) xs \<Longrightarrow> 0 \<le> (sum_list xs :: rat)"
  by (induction xs) auto

lemma mean_nonneg: "mean xs = Some m \<Longrightarrow> list_all (\<lambda>x. 0 \<le> x) xs \<Longrightarrow> 0 \<le> m"
  by (auto simp: mean_def sum_list_nonneg' split: if_splits)

definition sane_channels :: "channel_info list \<Rightarrow> bool" where
  "sane_channels cs \<longleftrightarrow> list_all (\<lambda>c. 0 \<le> ci_interference c \<and> (case ci_utilisation c of None \<Rightarrow> True | Some u \<Rightarrow> 0 \<le> u)) cs"

lemma map_filter_all: "list_all (\<lambda>x. case f x of None \<Rightarrow> True | Some y \<Rightarrow> P y) xs \<Longrightarrow> list_all P (List.map_filter f xs)"
  by (induction xs) (auto simp: map_filter_simps split: option.splits)

lemma score_bounds:
  assumes "sane_channels channels"
  shows "0 \<le> cc_score (score_channel band width rs cur channels e) \<and> cc_score (score_channel band width rs cur channels e) \<le> 106"
proof -
  let ?block = "filter (\<lambda>c. ci_channel c \<in> set (occupied_channels (ci_channel e) width band)) channels"
  have b: "list_all (\<lambda>c. 0 \<le> ci_interference c \<and> (case ci_utilisation c of None \<Rightarrow> True | Some u \<Rightarrow> 0 \<le> u)) ?block"
    using assms by (auto simp: sane_channels_def list_all_iff)
  then have i: "0 \<le> sum_list (map ci_interference ?block)"
    by (intro sum_list_nonneg') (simp add: list.pred_map o_def list_all_iff)
  have u: "\<And>u. mean (List.map_filter ci_utilisation ?block) = Some u \<Longrightarrow> 0 \<le> u"
    by (erule mean_nonneg, rule map_filter_all) (use b in \<open>simp add: list_all_iff\<close>)
  let ?raw = "raw_score band rs cur e (sum_list (map ci_interference ?block)) (mean (List.map_filter ci_utilisation ?block))
      (mean (List.map_filter ci_noise ?block)) (list_ex ci_dfs ?block)"
  have "?raw \<le> 106" by (rule raw_score_le [OF i u])
  then have "of_int 0 \<le> py_round 1 (max 0 ?raw)" "py_round 1 (max 0 ?raw) \<le> of_int 106"
    by (intro py_round_bounds; simp)+
  then show ?thesis by (simp add: score_channel_def Let_def)
qed

text \<open>Weights are never negative, so the channels the analysis builds are sane where the survey is.\<close>

lemma load_weight_nonneg: "0 \<le> ld_weight (slot_at (channel_load band ns) c)"
proof -
  have "list_all (\<lambda>x. 0 \<le> x) (map (weight_of \<circ> nb_rssi) xs)" for xs
    by (induction xs) (auto simp: weight_of_def rssi_weight_def split: option.split)
  then have "0 \<le> sum_list (map (weight_of \<circ> nb_rssi) xs)" for xs by (rule sum_list_nonneg')
  then show ?thesis
    by (simp add: channel_load_def slot_at_load bump_sum) (simp add: slot_at_def no_load_def)
qed

lemma survey_at_mem: "survey_at survey c = Some e \<Longrightarrow> e \<in> set survey"
proof -
  let ?g = "\<lambda>e m. case freq_to_channel (case sv_freq e of None \<Rightarrow> 0 | Some f \<Rightarrow> f) of None \<Rightarrow> m | Some ch \<Rightarrow> AList.update ch e m"
  have "map_of (fold ?g xs m) c = Some e \<Longrightarrow> e \<in> set xs \<or> map_of m c = Some e" for xs m
    by (induction xs arbitrary: m) (fastforce simp: update_conv' split: option.splits if_splits)+
  from this [of survey "[]"] show "survey_at survey c = Some e \<Longrightarrow> e \<in> set survey" by (simp add: survey_at_def)
qed

lemma channel_infos_sane:
  assumes "list_all (\<lambda>e. case sv_busy e of None \<Rightarrow> True | Some u \<Rightarrow> 0 \<le> u) survey"
  shows "sane_channels (channel_infos band ns survey cur w details)"
proof -
  have "0 \<le> py_round 2 (ld_weight (slot_at (channel_load band ns) c))" for c
    using py_round_bounds(1) [of 0] load_weight_nonneg by simp
  moreover have "case sv_busy e of None \<Rightarrow> True | Some u \<Rightarrow> 0 \<le> u" if "survey_at survey c = Some e" for c e
    using assms survey_at_mem [OF that] by (simp add: list_all_iff)
  ultimately show ?thesis
    by (fastforce simp: sane_channels_def channel_infos_def channel_info_of_def Let_def list_all_iff split: option.splits)
qed

subsection \<open>The recommendation\<close>

lemma set_insert_ranked [simp]: "set (insert_ranked c cs) = insert c (set cs)"
  by (induction cs) auto

lemma set_ranked [simp]: "set (foldr insert_ranked cs []) = set cs"
  by (induction cs) auto

lemma ranks_total: "ranks_before a b \<or> ranks_before b a"
  by (auto simp: ranks_before_def)

lemma ranks_trans: "ranks_before a b \<Longrightarrow> ranks_before b c \<Longrightarrow> ranks_before a c"
  by (auto simp: ranks_before_def)

lemma insert_ranked_sorted: "sorted_wrt ranks_before cs \<Longrightarrow> sorted_wrt ranks_before (insert_ranked c cs)"
proof (induction cs)
  case (Cons d ds)
  show ?case
  proof (cases "ranks_before c d")
    case True
    with Cons.prems show ?thesis by (auto intro: ranks_trans)
  next
    case False
    with ranks_total have "ranks_before d c" by blast
    with False Cons show ?thesis by simp
  qed
qed simp

lemma ranked_sorted: "sorted_wrt ranks_before (foldr insert_ranked cs [])"
  by (induction cs) (simp_all add: insert_ranked_sorted)

lemma set_scored: "set (scored_channels band width rs cur channels) =
    score_channel band width rs cur channels ` {e \<in> set channels. feasible band width channels e}"
  by (simp add: scored_channels_def)

definition width_of :: "int option \<Rightarrow> int \<Rightarrow> int" where
  "width_of configured cur_width = (case configured of None \<Rightarrow> if cur_width = 0 then 20 else cur_width
     | Some w \<Rightarrow> if w \<noteq> 0 then w else if cur_width = 0 then 20 else cur_width)"

lemma recommend_fields:
  fixes band cw rs t last_t channels cur cur_width
  defines "r \<equiv> recommend band cw rs t last_t channels cur cur_width"
    and "cands \<equiv> scored_channels band (width_of cw cur_width) rs cur channels"
  shows "rc_candidates r = cands" "rc_best r = (case cands of [] \<Rightarrow> None | b # _ \<Rightarrow> Some b)"
    "rc_current r = find (\<lambda>c. Some (cc_channel c) = cur) cands"
    "(rc_switch r, rc_reason r) = decide rs t last_t (width_of cw cur_width) cur (rc_best r) (rc_current r)"
  by (simp_all add: r_def cands_def recommend_def Let_def width_of_def split: prod.split)

text \<open>C25. The recommended channel can be used and is the best. It may be transmitted on, is one of 1, 6 and 11 on
  2.4 GHz, can host the width, and every channel of its block is permitted; no usable channel has a
  higher score, nor the same score and a lower number. Nothing is recommended only if no channel is
  usable, and no score is outside 0 to 106.\<close>

theorem recommendation_is_best:
  assumes "sane_channels channels"
  shows "case rc_best (recommend band cw rs t last_t channels cur cur_width) of
      None \<Rightarrow> list_all (\<lambda>e. \<not> feasible band (width_of cw cur_width) channels e) channels
    | Some b \<Rightarrow> 0 \<le> cc_score b \<and> cc_score b \<le> 106 \<and>
        (\<exists>e \<in> set channels. feasible band (width_of cw cur_width) channels e \<and> b = score_channel band (width_of cw cur_width) rs cur channels e) \<and>
        list_all (\<lambda>e. feasible band (width_of cw cur_width) channels e \<longrightarrow> ranks_before b (score_channel band (width_of cw cur_width) rs cur channels e)) channels"
proof -
  let ?cands = "scored_channels band (width_of cw cur_width) rs cur channels"
  have sorted: "sorted_wrt ranks_before ?cands" by (simp add: scored_channels_def ranked_sorted)
  show ?thesis
  proof (cases ?cands)
    case Nil
    then have "{e \<in> set channels. feasible band (width_of cw cur_width) channels e} = {}"
      using set_scored [of band "width_of cw cur_width" rs cur channels] by simp
    then show ?thesis using Nil by (auto simp: recommend_fields list_all_iff)
  next
    case (Cons b rest)
    have b: "b \<in> set ?cands" by (simp add: Cons)
    have "ranks_before b c" if "c \<in> set ?cands" for c
      using that sorted ranks_total [of b b] by (auto simp: Cons)
    then have best: "list_all (\<lambda>e. feasible band (width_of cw cur_width) channels e \<longrightarrow> ranks_before b (score_channel band (width_of cw cur_width) rs cur channels e)) channels"
      by (auto simp: set_scored list_all_iff)
    from b obtain e where "e \<in> set channels" "feasible band (width_of cw cur_width) channels e" "b = score_channel band (width_of cw cur_width) rs cur channels e"
      by (auto simp: set_scored)
    with best score_bounds [OF assms(1), of band "width_of cw cur_width" rs cur e] show ?thesis
      by (auto simp: recommend_fields Cons)
  qed
qed

text \<open>A change is recommended only for a reason: the radio has no channel, its channel cannot be scored, or
  the gain reaches the threshold and the last change is at least the interval ago.\<close>

theorem switch_is_restrained:
  assumes "rc_switch (recommend_for rs t v a)"
  shows "\<exists>b. rc_best (recommend_for rs t v a) = Some b \<and> rv_channel v \<noteq> Some (cc_channel b) \<and>
    (rv_channel v = None \<or> rc_current (recommend_for rs t v a) = None \<or>
     (\<exists>c. rc_current (recommend_for rs t v a) = Some c \<and> rs_min_improvement rs \<le> cc_score b - cc_score c \<and>
        rs_min_interval rs \<le> t - last_switch (rv_id v) a))"
proof -
  let ?r = "recommend_for rs t v a"
  have "decide rs t (last_switch (rv_id v) a) (width_of (rv_configured_width v) (rv_width v)) (rv_channel v) (rc_best ?r) (rc_current ?r)
      = (True, rc_reason ?r)"
    using assms recommend_fields(4) [of "rv_band v" "rv_configured_width v" rs t "last_switch (rv_id v) a" "rv_channels v"
        "rv_channel v" "rv_width v"] by (simp add: recommend_for_def)
  then show ?thesis by (auto simp: decide_def Let_def split: option.splits if_splits)
qed

subsection \<open>The optimiser\<close>

text \<open>The history is one of the bounded logs of the development, kept with the newest entry last.\<close>

interpretation rf_log: bounded_log "keep_newest HISTORY_LIMIT" HISTORY_LIMIT
  by (rule bounded_log_keep_newest) (simp add: HISTORY_LIMIT_def)

lemma rev_drop_last: "rev (drop (length xs - n) xs) = take n (rev xs)"
  by (cases "n \<le> length xs") (simp_all add: rev_drop)

lemma record_switch_log: "rev (an_history (record_switch e a)) = keep_newest HISTORY_LIMIT e (rev (an_history a))"
  using rev_drop_last [of "an_history a @ [e]" HISTORY_LIMIT] by (simp add: record_switch_def Let_def keep_newest_def)

lemma record_switch_last: "last_switch rid (record_switch e a) = (if rid = sw_radio e then sw_ts e else last_switch rid a)"
  by (simp add: last_switch_def record_switch_def Let_def update_conv' the_default_def)

lemma record_switch_frame [simp]: "an_sent (record_switch e a) = an_sent a"
  by (simp add: record_switch_def Let_def)

lemma apply_channel_frame:
  "apply_channel re rid link c w a = (res, a1) \<Longrightarrow> an_history a1 = an_history a \<and> an_last a1 = an_last a \<and> an_events a1 = an_events a"
  by (auto simp: apply_channel_def Let_def split: option.splits prod.splits if_splits)

lemma last_switch_cong: "an_last a = an_last b \<Longrightarrow> last_switch rid a = last_switch rid b"
  by (simp add: last_switch_def)

lemma optimise_radio_cases:
  assumes "optimise_radio re force dry t (v, r) a = (e, a1)"
  obtains (kept) "\<not> oe_switched e" "an_last a1 = an_last a" "an_history a1 = an_history a" "an_events a1 = an_events a"
      "dry \<Longrightarrow> a1 = a"
    | (switched) b where "oe_switched e" "\<not> dry" "rc_best r = Some b" "rc_switch r \<or> force" "rv_channel v \<noteq> Some (cc_channel b)"
      "an_last a1 = AList.update (rv_id v) t (an_last a)"
      "rev (an_history a1) = keep_newest HISTORY_LIMIT (switch_record t force v r b) (rev (an_history a))"
      "an_events a1 = an_events a @ [switch_record t force v r b]"
proof (cases "oe_switched e")
  case True
  then obtain b detail a2 where b: "rc_best r = Some b" "rc_switch r \<or> force" "rv_channel v \<noteq> Some (cc_channel b)" "\<not> dry"
    and ap: "apply_channel re (rv_id v) (rv_link v) (cc_channel b) (rv_width v) a = ((True, detail), a2)"
    and a1: "a1 = (record_switch (switch_record t force v r b) a2)\<lparr>an_events := an_events a2 @ [switch_record t force v r b]\<rparr>"
    using assms by (auto simp: optimise_radio_def Let_def split: option.splits if_splits prod.splits)
  note f = apply_channel_frame [OF ap]
  show thesis
    by (rule switched [OF True b(4,1-3)])
      (use f record_switch_log [of _ a2] in \<open>simp_all add: a1, simp_all add: record_switch_def Let_def switch_record_def\<close>)
next
  case False
  with assms show thesis
    by (intro kept) (auto simp: optimise_radio_def Let_def split: option.splits if_splits prod.splits dest: apply_channel_frame)
qed

lemma optimise_radio_id: "optimise_radio re force dry t (v, r) a = (e, a1) \<Longrightarrow> oe_radio e = rv_id v"
  by (auto simp: optimise_radio_def Let_def split: option.splits if_splits prod.splits)

text \<open>A dry run changes nothing: no command is sent, nothing is recorded, no radio is reported as switched.\<close>

theorem dry_run_changes_nothing:
  "snd (optimise re rs radios force True t views a) = a \<and>
   list_all (\<lambda>e. \<not> oe_switched e) (fst (optimise re rs radios force True t views a))"
proof -
  have "snd (optimise_all re force True t xs a) = a \<and> list_all (\<lambda>e. \<not> oe_switched e) (fst (optimise_all re force True t xs a))" for xs
  proof (induction xs)
    case (Cons x xs)
    obtain v r where x: "x = (v, r)" by fastforce
    obtain e a1 where o: "optimise_radio re force True t (v, r) a = (e, a1)" by fastforce
    then have "\<not> oe_switched e" "a1 = a" by (cases rule: optimise_radio_cases; simp)+
    with o Cons show ?case by (simp add: x case_prod_beta)
  qed simp
  then show ?thesis by (simp add: optimise_def)
qed

lemma optimise_all_last:
  assumes "optimise_all re force dry t xs a = (es, a')" and "list_ex (\<lambda>e. oe_radio e = rid \<and> oe_switched e) es"
  shows "last_switch rid a' = t"
proof -
  have frame: "last_switch rid a' = t" if "last_switch rid a = t" "optimise_all re force dry t xs a = (es, a')" for xs a es a'
    using that
  proof (induction xs arbitrary: a es)
    case (Cons x xs)
    obtain v r where x: "x = (v, r)" by fastforce
    obtain e a1 where o: "optimise_radio re force dry t (v, r) a = (e, a1)" by fastforce
    then have "last_switch rid a1 = t" using Cons.prems(1)
      by (cases rule: optimise_radio_cases) (auto simp: last_switch_def update_conv' the_default_def)
    then show ?case using Cons.IH Cons.prems(2) o by (auto simp: x split: prod.splits)
  qed simp
  show ?thesis using assms
  proof (induction xs arbitrary: a es)
    case (Cons x xs)
    obtain v r where x: "x = (v, r)" by fastforce
    obtain e a1 where o: "optimise_radio re force dry t (v, r) a = (e, a1)" by fastforce
    obtain es' where rest: "optimise_all re force dry t xs a1 = (es', a')" and es: "es = e # es'"
      using Cons.prems(1) o by (auto simp: x split: prod.splits)
    show ?case
    proof (cases "oe_radio e = rid \<and> oe_switched e")
      case True
      from o have "last_switch rid a1 = t"
        by (cases rule: optimise_radio_cases)
          (use True optimise_radio_id [OF o] in \<open>auto simp: last_switch_def update_conv' the_default_def\<close>)
      with rest show ?thesis by (rule frame [rotated])
    next
      case False
      with Cons.prems(2) have "list_ex (\<lambda>e. oe_radio e = rid \<and> oe_switched e) es'" by (auto simp: es)
      with Cons.IH [OF rest] show ?thesis .
    qed
  qed simp
qed

text \<open>Channels do not flap: once a run of the optimiser has moved a radio, no recommendation within the
  interval asks for another move, as long as the radio is on a channel that can be scored.\<close>

theorem no_flapping:
  assumes "optimise re rs radios force dry t views a = (es, a1)"
    and "list_ex (\<lambda>e. oe_radio e = rv_id v \<and> oe_switched e) es"
    and "last_switch (rv_id v) a2 = last_switch (rv_id v) a1" and "t2 < t + rs_min_interval rs2"
    and "rv_channel v \<noteq> None" and "rc_current (recommend_for rs2 t2 v a2) \<noteq> None"
  shows "\<not> rc_switch (recommend_for rs2 t2 v a2)"
proof
  assume s: "rc_switch (recommend_for rs2 t2 v a2)"
  have "last_switch (rv_id v) a1 = t"
    using optimise_all_last assms(1,2) by (fastforce simp: optimise_def)
  moreover have "rs_min_interval rs2 \<le> t2 - last_switch (rv_id v) a2"
    using recommend_fields(4) [of "rv_band v" "rv_configured_width v" rs2 t2 "last_switch (rv_id v) a2" "rv_channels v"
        "rv_channel v" "rv_width v"] s assms(5,6)
    by (auto simp: recommend_for_def decide_def Let_def split: option.splits if_splits)
  ultimately show False using assms(3,4) by simp
qed

subsection \<open>A concrete radio\<close>

definition toy_channel :: "int \<Rightarrow> rat \<Rightarrow> channel_info" where
  "toy_channel c x = \<lparr>ci_channel = c, ci_dfs = False, ci_psc = False, ci_no_ir = False, ci_neighbours = 1,
     ci_interference = x, ci_strongest = None, ci_noise = None, ci_utilisation = None, ci_in_use = False, ci_primary = False\<rparr>"

definition toy_radio :: radio_view where
  "toy_radio = \<lparr>rv_id = ''radio1'', rv_band = ''5g'', rv_configured_width = Some 20, rv_channel = Some 36, rv_width = 80,
     rv_channels = [toy_channel 36 5, toy_channel 40 5, toy_channel 44 5, toy_channel 48 5, toy_channel 165 0],
     rv_link = Some \<lparr>rl_band = ''5g'', rl_iface = Some ''ath1''\<rparr>\<rparr>"

definition toy_rf :: rf_env where
  "toy_rf = \<lparr>re_csa = \<lambda>_. (True, []), re_commit = None\<rparr>"

definition toy_rf_settings :: rf_settings where
  "toy_rf_settings = \<lparr>rs_min_interval = 21600, rs_min_improvement = 15, rs_avoid_dfs = False, rs_prefer_psc = True\<rparr>"

text \<open>The recommendation is made for the configured width, but the switch is asked for at the width the
  radio runs at: a radio still at 80 MHz whose configuration says 20 MHz is told to move to channel
  165 at 80 MHz, where no block of that width exists.\<close>

theorem switch_width_unchecked:
  "map (\<lambda>c. (cs_channel c, cs_width c, cs_centre c))
     (an_sent (snd (optimise toy_rf toy_rf_settings None False False 100000 [toy_radio] (load_analyser [])))) = [(165, 80, 5825)] \<and>
   feasible ''5g'' 20 (rv_channels toy_radio) (toy_channel 165 0) \<and> bonded_channels 165 80 ''5g'' = []"
  by code_simp

lemma recommendation_is_best_witness:
  "\<exists>b. rc_best (recommend ''5g'' (Some 20) toy_rf_settings 0 0 (rv_channels toy_radio) (Some 36) 80) = Some b \<and> cc_score b \<le> 106"
proof -
  have sane: "sane_channels (rv_channels toy_radio)" by code_simp
  have "case rc_best (recommend ''5g'' (Some 20) toy_rf_settings 0 0 (rv_channels toy_radio) (Some 36) 80) of None \<Rightarrow> False | Some _ \<Rightarrow> True"
    by code_simp
  with recommendation_is_best [OF sane, where band = "''5g''" and cw = "Some 20" and cur_width = 80 and
        rs = toy_rf_settings and t = 0 and last_t = 0 and cur = "Some 36"] show ?thesis
    by (auto split: option.splits)
qed

lemma switch_is_restrained_witness:
  "\<exists>b c. rc_best (recommend_for toy_rf_settings 100000 toy_radio (load_analyser [])) = Some b \<and>
     rc_current (recommend_for toy_rf_settings 100000 toy_radio (load_analyser [])) = Some c \<and> 15 \<le> cc_score b - cc_score c"
proof -
  have "rc_switch (recommend_for toy_rf_settings 100000 toy_radio (load_analyser []))" by code_simp
  moreover have "case rc_current (recommend_for toy_rf_settings 100000 toy_radio (load_analyser [])) of None \<Rightarrow> False | Some _ \<Rightarrow> True"
    by code_simp
  ultimately show ?thesis
    using switch_is_restrained [of toy_rf_settings 100000 toy_radio "load_analyser []"]
    by (auto simp: toy_radio_def toy_rf_settings_def split: option.splits)
qed

lemma no_flapping_witness:
  "\<not> rc_switch (recommend_for toy_rf_settings 100100 toy_radio
     (snd (optimise toy_rf toy_rf_settings None False False 100000 [toy_radio] (load_analyser []))))"
proof -
  let ?run = "optimise toy_rf toy_rf_settings None False False 100000 [toy_radio] (load_analyser [])"
  have "list_ex (\<lambda>e. oe_radio e = rv_id toy_radio \<and> oe_switched e) (fst ?run)" by code_simp
  moreover have "case rc_current (recommend_for toy_rf_settings 100100 toy_radio (snd ?run)) of None \<Rightarrow> False | Some _ \<Rightarrow> True"
    by code_simp
  moreover have "rv_channel toy_radio \<noteq> None" "100100 < 100000 + rs_min_interval toy_rf_settings"
    by (simp_all add: toy_radio_def toy_rf_settings_def)
  ultimately show ?thesis
    using no_flapping [of toy_rf toy_rf_settings None False False 100000 "[toy_radio]" "load_analyser []" "fst ?run" "snd ?run"
        toy_radio "snd ?run" 100100 toy_rf_settings] by (simp split: option.splits)
qed

end
