(* ===== verification/Clients.thy ===== *)
theory Clients
  imports MacAddr Dnsmasq PyNum Events "HOL-Library.Product_Lexorder"
begin

text \<open>
  The client database of \<open>clientd.py\<close>: every poll joins the DHCP leases, the neighbour tables, the
  bridge's forwarding table and the wireless stations by hardware address, folds in the persisted
  row of each client and finds out who left. The tables of the database are the lists of their rows.
  Arguments of a poll are what the kernel's tools and the wireless daemon report, the two clocks,
  read once per poll, and the order in which Python walks a set. What SQLite stores of a value bound to
  a column (its type affinity) is a parameter; a value it cannot bind is \<open>None\<close>.
\<close>

subsection \<open>Vendors\<close>

text \<open>\<open>line.partition(sep)\<close> for a separator that occurs.\<close>

fun cut_at :: "string \<Rightarrow> string \<Rightarrow> (string \<times> string) option" where
  "cut_at sep s =
     (if startswith s sep then Some ([], drop (length sep) s)
      else case s of [] \<Rightarrow> None | c # t \<Rightarrow> map_option (\<lambda>(a, b). (c # a, b)) (cut_at sep t))"

declare cut_at.simps [simp del]

definition file_lines :: "string \<Rightarrow> string list" where
  "file_lines s = py_split newline (py_replace_char carriage_return newline s)"

definition oui_table :: "string \<Rightarrow> (string \<times> string) list" where
  "oui_table content = fold (\<lambda>line d. case cut_at ''(base 16)'' line of
       None \<Rightarrow> d | Some (prefix, name) \<Rightarrow> AList.update (py_lower (py_strip prefix)) (py_strip name) d)
     (file_lines content) []"

definition oui_prefix :: "string \<Rightarrow> string" where
  "oui_prefix mac = take 6 (filter (\<lambda>c. c \<noteq> CHR '':'') (normalise_mac mac))"

subsection \<open>What a poll sees\<close>

record arp_entry =
  ar_lladdr :: "string option"
  ar_dst :: string
  ar_state :: "string list"

record fdb_entry =
  fd_mac :: "string option"
  fd_port :: "string option"
  fd_flags :: "string list"
  fd_vlan :: "int option"

record station =
  wc_mac :: string
  wc_network :: "string option"
  wc_vlan :: "int option"
  wc_interface :: "string option"
  wc_rx :: rat
  wc_tx :: rat

record sighting =
  si_mac :: string
  si_ipv4 :: "string option"
  si_ipv6 :: "string list"
  si_hostname :: "string option"
  si_network :: "string option"
  si_vlan :: "int option"
  si_port :: "string option"
  si_connection :: string
  si_station :: "station option"
  si_online :: bool

type_synonym sightings = "(string \<times> sighting) list"

record sources =
  so_leases :: "lease list"
  so_arp :: "arp_entry list"
  so_ndp :: "arp_entry list"
  so_fdb :: "fdb_entry list"
  so_stations :: "station list"

definition unseen :: "string \<Rightarrow> sighting" where
  "unseen mac = \<lparr>si_mac = mac, si_ipv4 = None, si_ipv6 = [], si_hostname = None, si_network = None,
     si_vlan = None, si_port = None, si_connection = ''unknown'', si_station = None, si_online = True\<rparr>"

text \<open>\<open>a or b\<close> for text or a number that may be missing.\<close>

definition or_text :: "string option \<Rightarrow> string option \<Rightarrow> string option" where
  "or_text a b = (if a = None \<or> a = Some [] then b else a)"

definition or_int :: "int option \<Rightarrow> int option \<Rightarrow> int option" where
  "or_int a b = (if a = None \<or> a = Some 0 then b else a)"

text \<open>\<open>entry(mac)\<close> and the change made to it.\<close>

definition see :: "string \<Rightarrow> (sighting \<Rightarrow> sighting) \<Rightarrow> sightings \<Rightarrow> sightings" where
  "see mac f m = (let k = normalise_mac mac in
     AList.update k (f (the_default (unseen k) (map_of m k))) m)"

definition see_lease :: "lease \<Rightarrow> sightings \<Rightarrow> sightings" where
  "see_lease l = see (ls_mac l) (\<lambda>i.
     (if CHR '':'' \<in> set (ls_address l) then i\<lparr>si_ipv6 := si_ipv6 i @ [ls_address l]\<rparr>
      else i\<lparr>si_ipv4 := Some (ls_address l)\<rparr>)\<lparr>si_hostname := or_text (si_hostname i) (ls_hostname l)\<rparr>)"

definition arp_address :: "bool \<Rightarrow> string \<Rightarrow> sighting \<Rightarrow> sighting" where
  "arp_address v4 addr i =
     (if v4 then i\<lparr>si_ipv4 := or_text (si_ipv4 i) (Some addr)\<rparr>
      else if addr \<noteq> [] \<and> addr \<notin> set (si_ipv6 i) then i\<lparr>si_ipv6 := si_ipv6 i @ [addr]\<rparr> else i)"

definition see_arp :: "bool \<Rightarrow> arp_entry \<Rightarrow> sightings \<Rightarrow> sightings" where
  "see_arp v4 e m = (case ar_lladdr e of None \<Rightarrow> m | Some mac \<Rightarrow>
     if mac = [] then m
     else see mac (\<lambda>i. let i1 = arp_address v4 (ar_dst e) i in
         if ''FAILED'' \<in> set (ar_state e) then i1\<lparr>si_online := False\<rparr> else i1) m)"

definition see_fdb :: "fdb_entry \<Rightarrow> sightings \<Rightarrow> sightings" where
  "see_fdb e m = (case (fd_mac e, fd_port e) of
       (Some mac, Some port) \<Rightarrow>
         if mac = [] \<or> port = [] \<or> fd_flags e = [''self''] then m
         else see mac (\<lambda>i. i\<lparr>si_port := Some port, si_vlan := or_int (fd_vlan e) (si_vlan i),
             si_connection := (if startswith port ''wl'' then ''wireless'' else ''wired'')\<rparr>) m
     | _ \<Rightarrow> m)"

definition see_station :: "station \<Rightarrow> sightings \<Rightarrow> sightings" where
  "see_station w = see (wc_mac w) (\<lambda>i. i\<lparr>si_connection := ''wireless'', si_station := Some w,
     si_network := or_text (wc_network w) (si_network i), si_vlan := or_int (wc_vlan w) (si_vlan i),
     si_port := wc_interface w\<rparr>)"

definition merge_sources :: "sources \<Rightarrow> sightings" where
  "merge_sources src = fold see_station (so_stations src) (fold see_fdb (so_fdb src)
     (fold (see_arp False) (so_ndp src) (fold (see_arp True) (so_arp src)
     (fold see_lease (so_leases src) []))))"

text \<open>The networks with a subnet, in the order of the document; an accepted subnet is text.\<close>

definition subnet_index :: "json \<Rightarrow> verr + (ipv4_net \<times> string) list" where
  "subnet_index cfg = rmap (\<lambda>(nid, net). case get_null ''subnet'' (obj_of net) of
       JStr s \<Rightarrow> (case parse_ipv4_net s of None \<Rightarrow> Inl (Raised ValueError) | Some n \<Rightarrow> Inr (n, nid))
     | _ \<Rightarrow> Inl (Raised ValueError))
     (filter (\<lambda>(nid, net). is_set ''subnet'' (obj_of net)) (sub ''networks'' (obj_of cfg)))"

definition member_of :: "(ipv4_net \<times> string) list \<Rightarrow> string \<Rightarrow> string option" where
  "member_of index addr = (case ip_address addr of
       Some (IP4 a) \<Rightarrow> map_option snd (find (\<lambda>(net, _). in_network a net) index)
     | _ \<Rightarrow> None)"

definition resolve_network :: "(ipv4_net \<times> string) list \<Rightarrow> sighting \<Rightarrow> sighting" where
  "resolve_network index i =
     (if si_network i \<noteq> None \<and> si_network i \<noteq> Some [] then i
      else case si_ipv4 i of None \<Rightarrow> i | Some addr \<Rightarrow>
        if addr = [] then i
        else case member_of index addr of None \<Rightarrow> i | Some nid \<Rightarrow> i\<lparr>si_network := Some nid\<rparr>)"

definition resolved :: "(ipv4_net \<times> string) list \<Rightarrow> sources \<Rightarrow> sightings" where
  "resolved index src = map (\<lambda>(mac, i). (mac, resolve_network index i)) (merge_sources src)"

subsection \<open>The database\<close>

text \<open>\<open>rw_columns\<close> holds the columns that only \<open>update\<close> writes; a column without an entry has its
  default. The detail of a history row is the value whose text the code stores.\<close>

record client_row =
  rw_hostname :: "string option"
  rw_vendor :: "string option"
  rw_first_seen :: time
  rw_last_seen :: time
  rw_network :: "string option"
  rw_columns :: obj

record client =
  cn_seen :: sighting
  cn_name :: string
  cn_vendor :: "string option"
  cn_first_seen :: time
  cn_last_seen :: time
  cn_columns :: obj
  cn_rx :: rat
  cn_tx :: rat
  cn_rx_rate :: rat
  cn_tx_rate :: rat

record client_event =
  hi_mac :: string
  hi_ts :: time
  hi_event :: string
  hi_detail :: json

record client_db =
  cd_rows :: "(string \<times> client_row) list"
  cd_history :: "client_event list"
  cd_live :: "(string \<times> client) list"
  cd_samples :: "(string \<times> time \<times> rat \<times> rat) list"
  cd_oui :: "(string \<times> string) list option"
  cd_bus :: "event_bus option"

definition new_clients :: "event_bus option \<Rightarrow> client_db" where
  "new_clients bus = \<lparr>cd_rows = [], cd_history = [], cd_live = [], cd_samples = [], cd_oui = None, cd_bus = bus\<rparr>"

definition CLIENT_HISTORY :: nat where "CLIENT_HISTORY = 20000"

definition add_history :: "string \<Rightarrow> time \<Rightarrow> string \<Rightarrow> json \<Rightarrow> client_db \<Rightarrow> client_db" where
  "add_history mac t kind detail d = d\<lparr>cd_history := keep_newest CLIENT_HISTORY
     \<lparr>hi_mac = mac, hi_ts = t, hi_event = kind, hi_detail = detail\<rparr> (cd_history d)\<rparr>"

text \<open>The table of vendors is read at the first use and kept; \<open>None\<close> is a missing file.\<close>

definition vendor_for :: "string option \<Rightarrow> string \<Rightarrow> client_db \<Rightarrow> string option \<times> client_db" where
  "vendor_for oui_file mac d =
     (let table = (case cd_oui d of Some tbl \<Rightarrow> tbl
          | None \<Rightarrow> (case oui_file of None \<Rightarrow> [] | Some content \<Rightarrow> oui_table content))
      in (map_of table (oui_prefix mac), d\<lparr>cd_oui := Some table\<rparr>))"

definition optional :: "string option \<Rightarrow> json" where
  "optional s = (case s of None \<Rightarrow> JNull | Some x \<Rightarrow> JStr x)"

definition announce :: "string \<Rightarrow> sighting \<Rightarrow> time \<Rightarrow> client_db \<Rightarrow> client_db" where
  "announce mac i t d = (case cd_bus d of None \<Rightarrow> d | Some bus \<Rightarrow>
     d\<lparr>cd_bus := Some (snd (emit \<lparr>em_kind = ''CLIENT_ASSOCIATED'', em_severity = None,
         em_data = [(''client'', JStr mac), (''network'', optional (si_network i))], em_subsystem = ''clients'',
         em_message = [], em_key = None, em_window = 10\<rparr> t bus))\<rparr>)"

text \<open>\<open>_upsert\<close>: the row it returns is the one read before the update.\<close>

definition upsert :: "string option \<Rightarrow> time \<Rightarrow> string \<Rightarrow> sighting \<Rightarrow> client_db \<Rightarrow> client_row \<times> client_db" where
  "upsert oui_file t mac i d =
     (case map_of (cd_rows d) mac of
        None \<Rightarrow>
          (let (vendor, d1) = vendor_for oui_file mac d;
               row = \<lparr>rw_hostname = si_hostname i, rw_vendor = vendor, rw_first_seen = t, rw_last_seen = t,
                 rw_network = si_network i, rw_columns = []\<rparr>
           in (row, announce mac i t (add_history mac t ''first-seen'' (JStr (the_default [] (si_network i)))
                (d1\<lparr>cd_rows := cd_rows d1 @ [(mac, row)]\<rparr>))))
      | Some row \<Rightarrow>
          (row, d\<lparr>cd_rows := AList.update mac (row\<lparr>rw_last_seen := t,
             rw_hostname := (if si_hostname i = None then rw_hostname row else si_hostname i),
             rw_network := (if si_network i = None then rw_network row else si_network i)\<rparr>) (cd_rows d)\<rparr>))"

text \<open>The name of a client: the one given to it, else its host name, else its address.\<close>

definition client_name :: "string \<Rightarrow> sighting \<Rightarrow> client_row \<Rightarrow> string" where
  "client_name mac i row = the_default mac (or_text
     (if is_set ''name'' (rw_columns row) then Some (text_of (get_null ''name'' (rw_columns row))) else None)
     (or_text (si_hostname i) (Some mac)))"

definition bit_rate :: "rat \<Rightarrow> rat \<Rightarrow> time \<Rightarrow> rat" where
  "bit_rate cur prev dt = py_round 1 (rate cur prev dt * 8)"

definition fold_in :: "time \<Rightarrow> string \<Rightarrow> sighting \<Rightarrow> client_row \<Rightarrow> client_db \<Rightarrow> client \<times> client_db" where
  "fold_in ts mac i row d =
     (let rx = (case si_station i of None \<Rightarrow> 0 | Some w \<Rightarrow> wc_rx w);
          tx = (case si_station i of None \<Rightarrow> 0 | Some w \<Rightarrow> wc_tx w);
          rates = (case map_of (cd_samples d) mac of
              Some (ts0, rx0, tx0) \<Rightarrow> if rx \<noteq> 0 \<or> tx \<noteq> 0
                then (bit_rate rx rx0 (ts - ts0), bit_rate tx tx0 (ts - ts0)) else (0, 0)
            | None \<Rightarrow> (0, 0))
      in (\<lparr>cn_seen = i\<lparr>si_hostname := or_text (si_hostname i) (rw_hostname row)\<rparr>,
           cn_name = client_name mac i row, cn_vendor = rw_vendor row,
           cn_first_seen = rw_first_seen row, cn_last_seen = rw_last_seen row, cn_columns = rw_columns row,
           cn_rx = rx, cn_tx = tx, cn_rx_rate = fst rates, cn_tx_rate = snd rates\<rparr>,
          d\<lparr>cd_samples := AList.update mac (ts, rx, tx) (cd_samples d)\<rparr>))"

fun fold_clients :: "string option \<Rightarrow> time \<Rightarrow> time \<Rightarrow> sightings \<Rightarrow> client_db \<Rightarrow> client list \<times> client_db" where
  "fold_clients oui_file ts t [] d = ([], d)"
| "fold_clients oui_file ts t ((mac, i) # m) d =
     (let (row, d1) = upsert oui_file t mac i d; (c, d2) = fold_in ts mac i row d1;
          (cs, d3) = fold_clients oui_file ts t m d2
      in (c # cs, d3))"

definition offline :: "client \<Rightarrow> client" where
  "offline c = c\<lparr>cn_seen := (cn_seen c)\<lparr>si_online := False\<rparr>\<rparr>"

text \<open>\<open>walk\<close> is the order in which the set of those that left is walked.\<close>

definition departed :: "(string list \<Rightarrow> string list) \<Rightarrow> sightings \<Rightarrow> client_db \<Rightarrow> string list" where
  "departed walk m d = walk (filter (\<lambda>mac. mac \<notin> fst ` set m) (map fst (cd_live d)))"

definition is_online :: "client \<Rightarrow> bool" where "is_online c = si_online (cn_seen c)"

definition client_mac :: "client \<Rightarrow> string" where "client_mac c = si_mac (cn_seen c)"

record surroundings =
  su_oui :: "string option"
  su_walk :: "string list \<Rightarrow> string list"
  su_mono :: time
  su_now :: time

definition poll :: "surroundings \<Rightarrow> json \<Rightarrow> sources \<Rightarrow> client_db \<Rightarrow> (verr + client list) \<times> client_db" where
  "poll su cfg src d =
     (case subnet_index cfg of
        Inl e \<Rightarrow> (Inl e, d)
      | Inr index \<Rightarrow>
          (let m = resolved index src;
               (present, d1) = fold_clients (su_oui su) (su_mono su) (su_now su) m d;
               left = departed (su_walk su) m d1;
               out = present @ map (\<lambda>mac. offline (the (map_of (cd_live d1) mac))) left;
               d2 = fold (\<lambda>mac. add_history mac (su_now su) ''offline'' (JStr [])) left d1
           in (Inr (sort_key (\<lambda>c. (\<not> is_online c, cn_name c)) out),
               d2\<lparr>cd_live := map (\<lambda>c. (client_mac c, c)) (filter is_online out)\<rparr>)))"

subsection \<open>Actions and queries\<close>

definition CLIENT_COLUMNS :: "string list" where
  "CLIENT_COLUMNS = [''name'', ''fixed_ip'', ''blocked'', ''quarantined'', ''note'', ''down_limit_kbps'', ''up_limit_kbps'']"

text \<open>The columns an update asks for; tags are stored as JSON text, which reads back as they were.\<close>

definition client_updates :: "obj \<Rightarrow> obj" where
  "client_updates given = filter (\<lambda>(k, _). k \<in> set CLIENT_COLUMNS) given @
     (case map_of given ''tags'' of None \<Rightarrow> [] | Some v \<Rightarrow> [(''tags'', v)])"

definition bind_columns :: "(string \<Rightarrow> json \<Rightarrow> json option) \<Rightarrow> obj \<Rightarrow> obj option" where
  "bind_columns affinity ups = all_some (map (\<lambda>(k, v).
     if k = ''tags'' then Some (k, v) else map_option (Pair k) (affinity k v)) ups)"

definition masked_note :: "obj \<Rightarrow> obj" where
  "masked_note ups = map (\<lambda>(k, v). (k, if k = ''note'' then JStr ''***'' else v)) ups"

definition update_client :: "(string \<Rightarrow> json \<Rightarrow> json option) \<Rightarrow> time \<Rightarrow> string \<Rightarrow> obj \<Rightarrow> client_db
    \<Rightarrow> bool option \<times> client_db" where
  "update_client affinity t mac given d =
     (let ups = client_updates given; k = normalise_mac mac in
      if ups = [] then (Some False, d)
      else case bind_columns affinity ups of
        None \<Rightarrow> (None, d)
      | Some cols \<Rightarrow>
          (let rows = cd_rows d;
               found = map_of rows k;
               d1 = (case found of None \<Rightarrow> d | Some row \<Rightarrow>
                 d\<lparr>cd_rows := AList.update k (row\<lparr>rw_columns :=
                     fold (\<lambda>(c, v). dset c v) cols (rw_columns row)\<rparr>) rows\<rparr>)
           in (Some (found \<noteq> None), add_history k t ''updated'' (JObj (masked_note ups)) d1)))"

datatype client_view = Live client | Stored client_row

definition get_client :: "string \<Rightarrow> client_db \<Rightarrow> client_view option" where
  "get_client mac d = (case map_of (cd_live d) (normalise_mac mac) of
       Some c \<Rightarrow> Some (Live c)
     | None \<Rightarrow> map_option Stored (map_of (cd_rows d) (normalise_mac mac)))"

definition client_history :: "string \<Rightarrow> int \<Rightarrow> client_db \<Rightarrow> client_event list" where
  "client_history mac limit d = page limit 0 (filter (\<lambda>e. hi_mac e = normalise_mac mac) (cd_history d))"

text \<open>Latest first, with the flag that says who is live; SQL leaves open the order of equal times.\<close>

definition known :: "int \<Rightarrow> client_db \<Rightarrow> (string \<times> client_row \<times> bool) list" where
  "known limit d = map (\<lambda>(mac, row). (mac, row, mac \<in> fst ` set (cd_live d)))
     (page limit 0 (sort_key (\<lambda>(_, row). - rw_last_seen row) (cd_rows d)))"

definition blocked_macs :: "client_db \<Rightarrow> string list" where
  "blocked_macs d = map fst (filter (\<lambda>(_, row). map_of (rw_columns row) ''blocked'' = Some (JInt 1)) (cd_rows d))"

definition live_clients :: "client_db \<Rightarrow> client list" where
  "live_clients d = map snd (cd_live d)"

subsection \<open>Any sequence of operations\<close>

datatype client_op = Poll surroundings json sources | Update time string obj

fun client_step :: "(string \<Rightarrow> json \<Rightarrow> json option) \<Rightarrow> client_op \<Rightarrow> client_db \<Rightarrow> client_db" where
  "client_step affinity (Poll su cfg src) d = snd (poll su cfg src d)"
| "client_step affinity (Update t mac given) d = snd (update_client affinity t mac given d)"

definition clients_after :: "(string \<Rightarrow> json \<Rightarrow> json option) \<Rightarrow> event_bus option \<Rightarrow> client_op list \<Rightarrow> client_db" where
  "clients_after affinity bus ops = fold (client_step affinity) ops (new_clients bus)"

end
