(* ===== verification/Dpi.thy ===== *)
theory Dpi
  imports Clients NetPlan "HOL-Library.List_Lexorder" "HOL-Library.Char_ord"
begin

text \<open>
  Traffic identification (\<open>dpi.py\<close>): the classification of flows, the counters per client, protocol
  and hour, the tail of Suricata's event file, and the summaries; then the configuration written for
  Suricata and its start. A line of the event file is given to \<open>loads\<close>, what \<open>json.loads\<close> makes of it;
  the fields of an event have the types Suricata documents. Counters are unbounded integers.
\<close>

subsection \<open>Classification\<close>

record app_class =
  ac_protocol :: string
  ac_category :: int
  ac_application :: int
  ac_display :: string

definition APP_MAP :: "(string \<times> int \<times> int \<times> string) list" where
  "APP_MAP =
     [(''http'', 13, 222, ''HTTP''), (''http2'', 13, 222, ''HTTP''), (''tls'', 20, 185, ''SSL/TLS''),
      (''ssl'', 20, 185, ''SSL/TLS''), (''quic'', 13, 190, ''QUIC''), (''dns'', 9, 61, ''DNS''),
      (''ssh'', 10, 1, ''SSH''), (''ftp'', 3, 1, ''FTP''), (''smtp'', 5, 1, ''SMTP''), (''pop3'', 5, 2, ''POP3''),
      (''imap'', 5, 3, ''IMAP''), (''smb'', 9, 110, ''SMB''), (''dcerpc'', 9, 110, ''RPC''),
      (''bittorrent-dht'', 1, 2, ''BitTorrent''), (''dhcp'', 9, 62, ''DHCP''), (''ntp'', 9, 63, ''NTP''),
      (''rdp'', 10, 7, ''Remote Desktop''), (''mqtt'', 14, 8, ''MQTT''), (''modbus'', 14, 9, ''Modbus''),
      (''snmp'', 9, 64, ''SNMP''), (''sip'', 7, 1, ''SIP''), (''rtsp'', 7, 2, ''RTSP'')]"

definition SERVICE_MAP :: "(string list \<times> int \<times> int \<times> string) list" where
  "SERVICE_MAP =
     [([''youtube.com'', ''googlevideo.com'', ''youtu.be''], 6, 1001, ''YouTube''),
      ([''netflix.com'', ''nflxvideo.net'', ''nflximg.net''], 6, 1002, ''Netflix''),
      ([''spotify.com'', ''scdn.co''], 6, 1003, ''Spotify''),
      ([''tiktok.com'', ''tiktokcdn.com'', ''byteoversea.com''], 18, 1010, ''TikTok''),
      ([''facebook.com'', ''fbcdn.net'', ''facebook.net''], 18, 1011, ''Facebook''),
      ([''instagram.com'', ''cdninstagram.com''], 18, 1012, ''Instagram''),
      ([''whatsapp.com'', ''whatsapp.net''], 4, 1020, ''WhatsApp''),
      ([''discord.com'', ''discord.gg'', ''discordapp.com''], 4, 1021, ''Discord''),
      ([''zoom.us'', ''zoom.com''], 7, 1030, ''Zoom''),
      ([''teams.microsoft.com'', ''skype.com''], 7, 1031, ''Microsoft Teams''),
      ([''icloud.com'', ''apple-cloudkit.com''], 12, 1040, ''iCloud''),
      ([''dropbox.com'', ''dropboxapi.com''], 12, 1041, ''Dropbox''),
      ([''amazonaws.com'', ''cloudfront.net''], 12, 1042, ''Amazon Web Services''),
      ([''github.com'', ''githubusercontent.com''], 13, 1050, ''GitHub''),
      ([''steamcontent.com'', ''steampowered.com''], 8, 1060, ''Steam''),
      ([''xboxlive.com''], 8, 1061, ''Xbox Live'')]"

definition CATEGORY_NAMES :: "(int \<times> string) list" where
  "CATEGORY_NAMES =
     [(1, ''Peer to peer''), (3, ''File transfer''), (4, ''Messaging''), (5, ''Email''), (6, ''Streaming''),
      (7, ''Conferencing''), (8, ''Gaming''), (9, ''Network services''), (10, ''Remote access''), (12, ''Cloud''),
      (13, ''Web''), (14, ''IoT''), (18, ''Social''), (20, ''Encrypted''), (255, ''Other'')]"

text \<open>\<open>str.upper\<close> for the ASCII names of protocols.\<close>

definition ascii_upper :: "string \<Rightarrow> string" where
  "ascii_upper s = map (\<lambda>c. if is_lower_ascii c then chr (code c - 32) else c) s"

definition app_of :: "string \<Rightarrow> int \<times> int \<times> string" where
  "app_of protocol = (let key = py_lower (if protocol = [] then ''unknown'' else protocol) in
     the_default (255, 65535, if key \<noteq> ''unknown'' then ascii_upper key else ''Unknown'') (map_of APP_MAP key))"

definition under_suffix :: "string \<Rightarrow> string \<Rightarrow> bool" where
  "under_suffix host suffix \<longleftrightarrow> host = suffix \<or> startswith (rev host) (rev (CHR ''.'' # suffix))"

definition service_of :: "string \<Rightarrow> app_class option" where
  "service_of hostname = (let host = py_rstrip_char CHR ''.'' (py_lower hostname) in
     if host = [] then None
     else map_option (\<lambda>(_, category, application, display).
         \<lparr>ac_protocol = py_replace_char CHR '' '' CHR ''-'' (py_lower display), ac_category = category,
          ac_application = application, ac_display = display\<rparr>)
       (find (\<lambda>(suffixes, _). list_ex (under_suffix host) suffixes) SERVICE_MAP))"

subsection \<open>Counters\<close>

type_synonym bucket_key = "int \<times> string \<times> string"

record bucket =
  bk_ip :: string
  bk_category :: int
  bk_application :: int
  bk_display :: string
  bk_rx :: int
  bk_tx :: int
  bk_rx_packets :: int
  bk_tx_packets :: int
  bk_first :: time
  bk_last :: time

record dpi =
  dp_error :: "string option"
  dp_offset :: nat
  dp_inode :: "nat option"
  dp_flow_apps :: "(string \<times> app_class) list"
  dp_events_seen :: nat
  dp_accepted :: nat
  dp_parse_errors :: nat
  dp_last_event :: "time option"
  dp_buckets :: "(bucket_key \<times> bucket) list"

definition new_dpi :: dpi where
  "new_dpi = \<lparr>dp_error = None, dp_offset = 0, dp_inode = None, dp_flow_apps = [], dp_events_seen = 0,
     dp_accepted = 0, dp_parse_errors = 0, dp_last_event = None, dp_buckets = []\<rparr>"

definition FLOW_APPS :: nat where "FLOW_APPS = 32768"

text \<open>The classification of a flow becomes the newest; the oldest are dropped beyond the limit.\<close>

definition remember_flow :: "string \<Rightarrow> app_class \<Rightarrow> dpi \<Rightarrow> dpi" where
  "remember_flow flow_id c d = d\<lparr>dp_flow_apps := keep_last FLOW_APPS
     (AList.delete flow_id (dp_flow_apps d) @ [(flow_id, c)])\<rparr>"

definition event_hostname :: "string \<Rightarrow> obj \<Rightarrow> string" where
  "event_hostname event_type event =
     (if event_type = ''tls'' then text_of (get_null ''sni'' (sub ''tls'' event))
      else if event_type = ''http'' then text_of (get_null ''hostname'' (sub ''http'' event))
      else let dns = sub ''dns'' event; name = text_of (get_null ''rrname'' dns)
        in if name \<noteq> [] then name else text_of (get_null ''query'' dns))"

definition flow_id_of :: "obj \<Rightarrow> string" where
  "flow_id_of event = (if is_set ''flow_id'' event then text_of (get_null ''flow_id'' event) else [])"

text \<open>\<open>max(0, int(flow.get(k) or 0))\<close>.\<close>

definition flow_count :: "string \<Rightarrow> obj \<Rightarrow> verr + int" where
  "flow_count k flow = (if is_set k flow then rbind (py_int (get_null k flow)) (\<lambda>n. Inr (max 0 n)) else Inr 0)"

definition dpi_subnets :: "json \<Rightarrow> ipv4_net list" where
  "dpi_subnets cfg = concat (map (\<lambda>(_, net). network_subnet net) (sub ''networks'' (obj_of cfg)))"

definition is_local :: "ipv4_net list \<Rightarrow> ipaddr \<Rightarrow> bool" where
  "is_local subnets a = (case a of IP4 n \<Rightarrow> list_ex (in_network n) subnets | IP6 _ \<Rightarrow> False)"

text \<open>\<open>_identity\<close>: the client that has the address, else the address itself.\<close>

definition identity_of :: "client list \<Rightarrow> string \<Rightarrow> string" where
  "identity_of live address =
     (case find (\<lambda>c. si_ipv4 (cn_seen c) = Some address \<or> address \<in> set (si_ipv6 (cn_seen c))) live of
        None \<Rightarrow> address | Some c \<Rightarrow> if client_mac c = [] then address else client_mac c)"

definition hour_of :: "time \<Rightarrow> int" where
  "hour_of t = \<lfloor>t / 3600\<rfloor> * 3600"

record flow_sum =
  fs_ip :: string
  fs_rx :: int
  fs_tx :: int
  fs_rx_packets :: int
  fs_tx_packets :: int

text \<open>The part of \<open>ingest\<close> that decides whether a flow crosses the border, and in which direction.\<close>

definition flow_ends :: "json \<Rightarrow> obj \<Rightarrow> (bool \<times> ipaddr) option" where
  "flow_ends cfg event =
     (case (get_null ''src_ip'' event, get_null ''dest_ip'' event) of
        (JStr s, JStr t) \<Rightarrow>
          (case (ip_address s, ip_address t) of
             (Some src, Some dst) \<Rightarrow>
               if \<not> truthy (get_or (JBool True) ''include_ipv6'' (sub ''dpi'' (obj_of cfg)))
                 \<and> (ip_version src = 6 \<or> ip_version dst = 6) then None
               else let subnets = dpi_subnets cfg in
                 if is_local subnets src = is_local subnets dst then None
                 else Some (is_local subnets src, if is_local subnets src then src else dst)
           | _ \<Rightarrow> None)
      | _ \<Rightarrow> None)"

definition flow_sums :: "bool \<Rightarrow> ipaddr \<Rightarrow> obj \<Rightarrow> verr + flow_sum" where
  "flow_sums src_local client event =
     (let flow = sub ''flow'' event in
      rbind (flow_count ''bytes_toserver'' flow) (\<lambda>to_server.
      rbind (flow_count ''bytes_toclient'' flow) (\<lambda>to_client.
      rbind (flow_count ''pkts_toserver'' flow) (\<lambda>pkts_server.
      rbind (flow_count ''pkts_toclient'' flow) (\<lambda>pkts_client.
      Inr (if src_local then \<lparr>fs_ip = show_ip client, fs_rx = to_client, fs_tx = to_server,
             fs_rx_packets = pkts_client, fs_tx_packets = pkts_server\<rparr>
           else \<lparr>fs_ip = show_ip client, fs_rx = to_server, fs_tx = to_client,
             fs_rx_packets = pkts_server, fs_tx_packets = pkts_client\<rparr>))))))"

text \<open>The service remembered for the flow, which is forgotten, else the protocol of the event.\<close>

definition flow_class :: "string \<Rightarrow> obj \<Rightarrow> dpi \<Rightarrow> app_class \<times> dpi" where
  "flow_class flow_id event d =
     (case (if flow_id = [] then None else map_of (dp_flow_apps d) flow_id) of
        Some c \<Rightarrow> (c, d\<lparr>dp_flow_apps := AList.delete flow_id (dp_flow_apps d)\<rparr>)
      | None \<Rightarrow>
          (let name = (if is_set ''app_proto'' event then text_of (get_null ''app_proto'' event)
                 else if is_set ''proto'' event then text_of (get_null ''proto'' event) else ''unknown'');
               protocol = py_lower name; (category, application, display) = app_of protocol
           in (\<lparr>ac_protocol = protocol, ac_category = category, ac_application = application,
                ac_display = display\<rparr>, d)))"

text \<open>\<open>INSERT ... ON CONFLICT DO UPDATE\<close>.\<close>

definition count_flow :: "time \<Rightarrow> string \<Rightarrow> app_class \<Rightarrow> flow_sum \<Rightarrow> (bucket_key \<times> bucket) list \<Rightarrow> (bucket_key \<times> bucket) list" where
  "count_flow t who c f bs =
     (let key = (hour_of t, who, ac_protocol c) in
      AList.update key (case map_of bs key of
          None \<Rightarrow> \<lparr>bk_ip = fs_ip f, bk_category = ac_category c, bk_application = ac_application c,
            bk_display = ac_display c, bk_rx = fs_rx f, bk_tx = fs_tx f, bk_rx_packets = fs_rx_packets f,
            bk_tx_packets = fs_tx_packets f, bk_first = t, bk_last = t\<rparr>
        | Some b \<Rightarrow> b\<lparr>bk_ip := fs_ip f, bk_rx := bk_rx b + fs_rx f, bk_tx := bk_tx b + fs_tx f,
            bk_rx_packets := bk_rx_packets b + fs_rx_packets f, bk_tx_packets := bk_tx_packets b + fs_tx_packets f,
            bk_last := t\<rparr>) bs)"

definition ingest_flow :: "json \<Rightarrow> client list \<Rightarrow> time \<Rightarrow> obj \<Rightarrow> dpi \<Rightarrow> (verr + bool) \<times> dpi" where
  "ingest_flow cfg live t event d =
     (case flow_ends cfg event of
        None \<Rightarrow> (Inr False, d)
      | Some (src_local, client) \<Rightarrow>
          (case flow_sums src_local client event of
             Inl e \<Rightarrow> (Inl e, d)
           | Inr f \<Rightarrow>
               (let (c, d1) = flow_class (flow_id_of event) event d in
                (Inr True, d1\<lparr>dp_buckets := count_flow t (identity_of live (fs_ip f)) c f (dp_buckets d1),
                   dp_accepted := Suc (dp_accepted d1)\<rparr>))))"

definition ingest :: "json \<Rightarrow> client list \<Rightarrow> time \<Rightarrow> json \<Rightarrow> dpi \<Rightarrow> (verr + bool) \<times> dpi" where
  "ingest cfg live t j d0 =
     (let d = d0\<lparr>dp_events_seen := Suc (dp_events_seen d0), dp_last_event := Some t\<rparr> in
      case j of JObj event \<Rightarrow>
        (let event_type = (case get_null ''event_type'' event of JStr s \<Rightarrow> s | _ \<Rightarrow> []) in
         if event_type \<in> {''tls'', ''http'', ''dns''}
         then (Inr False, case service_of (event_hostname event_type event) of
             Some c \<Rightarrow> if flow_id_of event = [] then d else remember_flow (flow_id_of event) c d
           | None \<Rightarrow> d)
         else if event_type \<noteq> ''flow'' then (Inr False, d)
         else ingest_flow cfg live t event d)
      | _ \<Rightarrow> (Inl (Raised AttributeError), d))"

subsection \<open>The event file\<close>

record event_file =
  ef_inode :: nat
  ef_content :: string

text \<open>The lines with their ends; the last may have none.\<close>

fun eve_lines :: "string \<Rightarrow> string list" where
  "eve_lines [] = []"
| "eve_lines (c # s) = (if c = newline then [c] # eve_lines s
     else case eve_lines s of [] \<Rightarrow> [[c]] | l # ls \<Rightarrow> (c # l) # ls)"

text \<open>The loop over the lines: the exception that ended it if any, whether the limit did, and the
  number of flows.\<close>

datatype tail_end = AtEnd | AtLimit | Failed verr

fun tail_loop :: "(string \<Rightarrow> json option) \<Rightarrow> json \<Rightarrow> client list \<Rightarrow> time \<Rightarrow> int \<Rightarrow> string list \<Rightarrow> int \<Rightarrow> dpi
    \<Rightarrow> tail_end \<times> int \<times> dpi" where
  "tail_loop loads cfg live t limit [] count d = (AtEnd, count, d)"
| "tail_loop loads cfg live t limit (line # ls) count d =
     (if limit \<le> count then (AtLimit, count, d)
      else case loads line of
        None \<Rightarrow> tail_loop loads cfg live t limit ls count (d\<lparr>dp_parse_errors := Suc (dp_parse_errors d)\<rparr>)
      | Some j \<Rightarrow>
          (case ingest cfg live t j d of
             (Inl e, d1) \<Rightarrow> (Failed e, count, d1)
           | (Inr b, d1) \<Rightarrow> tail_loop loads cfg live t limit ls (count + (if b then 1 else 0)) d1))"

definition prune :: "time \<Rightarrow> int \<Rightarrow> dpi \<Rightarrow> dpi" where
  "prune t retention_hours d =
     d\<lparr>dp_buckets := filter (\<lambda>(_, b). t - of_int retention_hours * 3600 \<le> bk_last b) (dp_buckets d)\<rparr>"

definition rewind :: "event_file \<Rightarrow> dpi \<Rightarrow> dpi" where
  "rewind f d = (if dp_inode d \<noteq> Some (ef_inode f) \<or> length (ef_content f) < dp_offset d
     then d\<lparr>dp_inode := Some (ef_inode f), dp_offset := 0\<rparr> else d)"

text \<open>\<open>poll\<close>. A text file refuses \<open>tell\<close> while a loop over its lines is not at its end, with an
  \<open>OSError\<close> that \<open>poll\<close> catches; so the offset only moves when the loop read everything.\<close>

definition TELL_REFUSED :: string where "TELL_REFUSED = ''telling position disabled by next() call''"

definition dpi_poll :: "(string \<Rightarrow> json option) \<Rightarrow> json \<Rightarrow> client list \<Rightarrow> time \<Rightarrow> int \<Rightarrow> event_file option \<Rightarrow> dpi
    \<Rightarrow> (verr + int) \<times> dpi" where
  "dpi_poll loads cfg live t limit eve d0 =
     (case eve of
        None \<Rightarrow> (Inr 0, d0)
      | Some f \<Rightarrow>
          (let d = rewind f d0 in
           case tail_loop loads cfg live t limit (eve_lines (drop (dp_offset d) (ef_content f))) 0 d of
             (Failed e, count, d1) \<Rightarrow> (Inl e, d1)
           | (ending, count, d1) \<Rightarrow>
               (let d2 = (if ending = AtEnd then d1\<lparr>dp_offset := length (ef_content f)\<rparr>
                    else d1\<lparr>dp_error := Some TELL_REFUSED\<rparr>)
                in case py_int (get_or (JInt 24) ''retention_hours'' (sub ''dpi'' (obj_of cfg))) of
                     Inl e \<Rightarrow> (Inl e, d2)
                   | Inr hours \<Rightarrow> (Inr count, prune t hours d2))))"

text \<open>Any sequence of polls, each with its document, live clients, time, limit and file.\<close>

definition dpi_run :: "(string \<Rightarrow> json option) \<Rightarrow> (json \<times> client list \<times> time \<times> int \<times> event_file option) list \<Rightarrow> dpi \<Rightarrow> dpi" where
  "dpi_run loads polls d = fold (\<lambda>(cfg, live, t, limit, eve) d. snd (dpi_poll loads cfg live t limit eve d)) polls d"

subsection \<open>Summaries\<close>

record flow_row =
  fr_client :: string
  fr_ip :: string
  fr_protocol :: string
  fr_category :: int
  fr_application :: int
  fr_display :: string
  fr_rx :: int
  fr_tx :: int
  fr_rx_packets :: int
  fr_tx_packets :: int
  fr_first :: time
  fr_last :: time

text \<open>\<open>GROUP BY client, protocol\<close>: the buckets of one group, never none, become one row.\<close>

definition group_row :: "string \<times> string \<Rightarrow> (bucket_key \<times> bucket) list \<Rightarrow> flow_row" where
  "group_row g bs =
     (let group = map snd (filter (\<lambda>((_, who, protocol), _). (who, protocol) = g) bs)
      in \<lparr>fr_client = fst g, fr_ip = foldl (\<lambda>a b. max a (bk_ip b)) [] group, fr_protocol = snd g,
          fr_category = foldl (\<lambda>a b. max a (bk_category b)) (bk_category (hd group)) group,
          fr_application = foldl (\<lambda>a b. max a (bk_application b)) (bk_application (hd group)) group,
          fr_display = foldl (\<lambda>a b. max a (bk_display b)) [] group,
          fr_rx = (\<Sum>b \<leftarrow> group. bk_rx b), fr_tx = (\<Sum>b \<leftarrow> group. bk_tx b),
          fr_rx_packets = (\<Sum>b \<leftarrow> group. bk_rx_packets b), fr_tx_packets = (\<Sum>b \<leftarrow> group. bk_tx_packets b),
          fr_first = foldl (\<lambda>a b. min a (bk_first b)) (bk_first (hd group)) group,
          fr_last = foldl (\<lambda>a b. max a (bk_last b)) (bk_last (hd group)) group\<rparr>)"

definition flow_groups :: "(bucket_key \<times> bucket) list \<Rightarrow> (string \<times> string) list" where
  "flow_groups bs = remdups (map (\<lambda>((_, who, protocol), _). (who, protocol)) bs)"

text \<open>\<open>rows\<close>; SQL leaves open the order of rows with equal sums.\<close>

definition flow_rows :: "int \<Rightarrow> dpi \<Rightarrow> flow_row list" where
  "flow_rows limit d = take (nat (max 1 (min limit 5000)))
     (sort_key (\<lambda>r. - (fr_rx r + fr_tx r)) (map (\<lambda>g. group_row g (dp_buckets d)) (flow_groups (dp_buckets d))))"

text \<open>\<open>setdefault\<close> and the two additions, for one of the three tables of the summary.\<close>

definition tally :: "('k \<Rightarrow> flow_row \<Rightarrow> 'v) \<Rightarrow> (flow_row \<Rightarrow> 'k) \<Rightarrow> flow_row \<Rightarrow> ('k \<times> 'v \<times> int \<times> int) list
    \<Rightarrow> ('k \<times> 'v \<times> int \<times> int) list" where
  "tally label key r tbl = (case map_of tbl (key r) of
       None \<Rightarrow> tbl @ [(key r, label (key r) r, fr_rx r, fr_tx r)]
     | Some (v, rx, tx) \<Rightarrow> AList.update (key r) (v, rx + fr_rx r, tx + fr_tx r) tbl)"

definition ordered :: "('k \<times> 'v \<times> int \<times> int) list \<Rightarrow> ('k \<times> 'v \<times> int \<times> int) list" where
  "ordered tbl = sort_key (\<lambda>(_, _, rx, tx). - (rx + tx)) tbl"

definition category_name :: "int \<Rightarrow> string" where
  "category_name category = the_default ''Other'' (map_of CATEGORY_NAMES category)"

record dpi_summary =
  sm_flows :: nat
  sm_applications :: "(string \<times> (string \<times> int \<times> string) \<times> int \<times> int) list"
  sm_categories :: "(int \<times> string \<times> int \<times> int) list"
  sm_clients :: "(string \<times> string \<times> int \<times> int) list"

definition dpi_summary_of :: "dpi \<Rightarrow> dpi_summary" where
  "dpi_summary_of d = (let rows = flow_rows 500 d in
     \<lparr>sm_flows = length rows,
      sm_applications = ordered (fold (tally (\<lambda>_ r. (fr_display r, fr_category r, category_name (fr_category r)))
        fr_protocol) rows []),
      sm_categories = ordered (fold (tally (\<lambda>c _. category_name c) fr_category) rows []),
      sm_clients = ordered (fold (tally (\<lambda>_ r. fr_ip r) fr_client) rows [])\<rparr>)"

record unifi_stat =
  us_cat :: int
  us_app :: int
  us_rx :: int
  us_tx :: int
  us_rx_packets :: int
  us_tx_packets :: int

definition is_mac_like :: "string \<Rightarrow> bool" where
  "is_mac_like s \<longleftrightarrow> CHR '':'' \<in> set s \<and> length (py_split CHR '':'' s) = 6"

definition unifi_stats :: "dpi \<Rightarrow> (string \<times> unifi_stat list) list" where
  "unifi_stats d = sorted_items (fold (\<lambda>r grouped.
       if \<not> is_mac_like (fr_client r) then grouped
       else AList.update (fr_client r) (the_default [] (map_of grouped (fr_client r)) @
         [\<lparr>us_cat = fr_category r, us_app = fr_application r, us_rx = fr_rx r, us_tx = fr_tx r,
           us_rx_packets = fr_rx_packets r, us_tx_packets = fr_tx_packets r\<rparr>]) grouped)
     (flow_rows 5000 d) [])"

subsection \<open>Suricata\<close>

definition capture_interface :: "obj \<Rightarrow> string" where
  "capture_interface net = (if is_set ''vlan'' net then ''br-lan.'' @ text_of (get_null ''vlan'' net) else ''br-lan'')"

definition capture_interfaces :: "json \<Rightarrow> string list" where
  "capture_interfaces cfg =
     (let found = fold (\<lambda>(_, net) is. let i = capture_interface (obj_of net) in
            if \<not> on_by_default ''enabled'' (obj_of net) \<or> \<not> is_set ''subnet'' (obj_of net) then is
            else if i \<in> set is then is else is @ [i]) (sub ''networks'' (obj_of cfg)) []
      in if found = [] then [''br-lan''] else found)"

definition home_nets :: "json \<Rightarrow> verr + string list" where
  "home_nets cfg = rmap (\<lambda>(_, net). case network_text (text_of (get_null ''subnet'' (obj_of net))) of
       None \<Rightarrow> Inl (Raised ValueError) | Some s \<Rightarrow> Inr s)
     (filter (\<lambda>(_, net). is_set ''subnet'' (obj_of net)) (sub ''networks'' (obj_of cfg)))"

definition DPI_RUN_DIR :: string where "DPI_RUN_DIR = ''/run/sbegw''"

definition capture_lines :: "nat \<times> string \<Rightarrow> string list" where
  "capture_lines ii =
     [''  - interface: '' @ snd ii, ''    cluster-id: '' @ show_int (90 + int (fst ii)),
      ''    cluster-type: cluster_flow'', ''    defrag: yes'', ''    use-mmap: yes'', ''    tpacket-v3: yes'',
      ''    ring-size: 8192'', ''    buffer-size: 64535'', ''    checksum-checks: kernel'']"

definition suricata_lines :: "json \<Rightarrow> verr + string list" where
  "suricata_lines cfg = rbind (home_nets cfg) (\<lambda>subnets.
     let home = ''['' @ py_join '','' (if subnets = [] then [''192.168.0.0/16''] else subnets) @ '']'' in Inr
     ([''%YAML 1.1'', ''---'', ''runmode: workers'', ''vars:'', ''  address-groups:'',
       ''    HOME_NET: '' @ quoted home, ''    EXTERNAL_NET: '' @ quoted ''!$HOME_NET'',
       ''default-rule-path: '' @ DPI_RUN_DIR, ''rule-files: []'', ''af-packet:''] @
      concat (map capture_lines (enumerate 0 (capture_interfaces cfg))) @
      [''outputs:'', ''  - eve-log:'', ''      enabled: yes'', ''      filetype: regular'',
       ''      filename: '' @ DPI_RUN_DIR @ ''/dpi-eve.json'', ''      rotate-interval: day'', ''      types:'',
       ''        - flow'', ''        - tls:'', ''            extended: yes'', ''        - http:'',
       ''            extended: yes'', ''        - dns'', ''logging:'', ''  default-log-level: notice'',
       ''  outputs:'', ''    - console:'', ''        enabled: no'']))"

definition render_suricata :: "json \<Rightarrow> verr + string" where
  "render_suricata cfg = rbind (suricata_lines cfg) (\<lambda>ls. Inr (py_join [newline] ls @ [newline]))"

text \<open>What the file system and Suricata answer; a text is the error. The commands are kept in a trace.\<close>

record engine_tools =
  et_installed :: bool
  et_write :: "string \<Rightarrow> string option"
  et_test :: "string \<Rightarrow> string option"
  et_start :: "string \<Rightarrow> string option"

datatype engine_step = StopEngine | WriteConfig string | TestConfig | StartEngine

definition dpi_preflight :: "engine_tools \<Rightarrow> json \<Rightarrow> bool \<times> string list" where
  "dpi_preflight tools new = (if is_set ''enabled'' (sub ''dpi'' (obj_of new)) \<and> \<not> et_installed tools
     then (False, [''DPI requires the Debian suricata package'']) else (True, []))"

fun run_engine :: "(engine_step \<times> string option) list \<Rightarrow> string option \<times> engine_step list" where
  "run_engine [] = (None, [])"
| "run_engine ((s, r) # rest) = (case r of Some e \<Rightarrow> (Some e, [s])
     | None \<Rightarrow> (case run_engine rest of (r', ss) \<Rightarrow> (r', s # ss)))"

definition engine_result :: "string \<Rightarrow> apply_result" where
  "engine_result message = \<lparr>ar_ok = True, ar_messages = [message], ar_confirm = False\<rparr>"

definition dpi_failed :: "time \<Rightarrow> string \<Rightarrow> event_bus option \<Rightarrow> event_bus option" where
  "dpi_failed t e = map_option (\<lambda>bus. snd (emit \<lparr>em_kind = ''DPI_FAILED'', em_severity = Some ''error'',
     em_data = [(''detail'', JStr e)], em_subsystem = ''dpi'', em_message = ''Traffic identification failed: '' @ e,
     em_key = None, em_window = 10\<rparr> t bus))"

text \<open>\<open>__call__\<close>: the result, the steps taken, the engine's state and the events.\<close>

definition dpi_apply :: "engine_tools \<Rightarrow> time \<Rightarrow> json \<Rightarrow> dpi \<times> event_bus option
    \<Rightarrow> (verr + apply_result) \<times> engine_step list \<times> dpi \<times> event_bus option" where
  "dpi_apply tools t new = (\<lambda>(d, bus).
     if \<not> is_set ''enabled'' (sub ''dpi'' (obj_of new))
     then (Inr (engine_result ''traffic identification disabled''), [StopEngine], d\<lparr>dp_error := None\<rparr>, bus)
     else case render_suricata new of
       Inl e \<Rightarrow> (Inl e, [StopEngine], d, bus)
     | Inr conf \<Rightarrow>
         (case run_engine [(WriteConfig conf, et_write tools conf), (TestConfig, et_test tools conf),
              (StartEngine, et_start tools conf)] of
            (None, ss) \<Rightarrow> (Inr (engine_result ''traffic identification enabled with Suricata''), StopEngine # ss,
                d\<lparr>dp_error := None\<rparr>, bus)
          | (Some e, ss) \<Rightarrow> (Inr (engine_result (''traffic identification unavailable: '' @ e)),
                StopEngine # ss @ [StopEngine], d\<lparr>dp_error := Some e\<rparr>, dpi_failed t e bus)))"

end
