(* ===== verification/ClientsSafety.thy ===== *)
theory ClientsSafety
  imports Clients SchemaSound "HOL-Library.Multiset"
begin

text \<open>
  What the client database guarantees: the tables stay consistent over any sequence of polls and
  updates, a poll shows every device any source reports exactly once, what the owner set survives
  polls, the history records arrivals and departures, and an address leads to its network.
\<close>

subsection \<open>The history as a bounded log\<close>

context bounded_log
begin

lemma push_many: "length rows \<le> bound \<Longrightarrow> fold push xs rows = take bound (rev xs @ rows)"
proof (induction xs arbitrary: rows)
  case (Cons x xs)
  have "fold push (x # xs) rows = take bound (rev xs @ take bound (x # rows))"
    using Cons.IH [of "push x rows"] push_length [of x rows] by (simp only: fold_simps(2) push_take [of x rows, symmetric])
  also have "\<dots> = take bound (rev xs @ x # rows)" by (simp add: min_def)
  finally show ?case by simp
qed simp

end

interpretation client_log: bounded_log "keep_newest CLIENT_HISTORY" CLIENT_HISTORY
  by (rule bounded_log_keep_newest) (simp add: CLIENT_HISTORY_def)

subsection \<open>Merging the sources\<close>

text \<open>Every sighting is filed under its own address, and no address twice.\<close>

definition filed :: "sightings \<Rightarrow> bool" where
  "filed m \<longleftrightarrow> distinct (map fst m) \<and> (\<forall>(k, i) \<in> set m. si_mac i = k)"

definition keeps_mac :: "(sighting \<Rightarrow> sighting) \<Rightarrow> bool" where
  "keeps_mac f \<longleftrightarrow> (\<forall>i. si_mac (f i) = si_mac i)"

lemma filed_mac: "filed m \<Longrightarrow> map_of m k = Some i \<Longrightarrow> si_mac i = k"
  by (auto simp: filed_def dest!: map_of_SomeD)

lemma see_keys [simp]: "fst ` set (see mac f m) = insert (normalise_mac mac) (fst ` set m)"
  by (simp add: see_def Let_def alist.keys_store)

lemma see_filed:
  assumes "filed m" and "keeps_mac f"
  shows "filed (see mac f m)"
proof -
  let ?k = "normalise_mac mac"
  let ?i = "f (the_default (unseen ?k) (map_of m ?k))"
  have "si_mac ?i = ?k"
    using assms by (auto simp: keeps_mac_def the_default_def unseen_def filed_mac split: option.splits)
  moreover have "set (AList.update ?k ?i m) \<subseteq> insert (?k, ?i) (set m)"
    by (induction m) auto
  ultimately show ?thesis
    using assms(1) by (auto simp: filed_def see_def Let_def distinct_keys_update dest: subsetD)
qed

lemma keeps_mac_simps [simp]:
  "keeps_mac (\<lambda>i. i\<lparr>si_connection := c, si_station := w, si_network := n i, si_vlan := v i, si_port := p\<rparr>)"
  by (simp add: keeps_mac_def)

text \<open>The addresses the sources report, as the merge reads them.\<close>

definition arp_macs :: "arp_entry list \<Rightarrow> string list" where
  "arp_macs es = [mac. e \<leftarrow> es, mac \<leftarrow> (case ar_lladdr e of None \<Rightarrow> [] | Some m \<Rightarrow> [m]), mac \<noteq> []]"

definition fdb_macs :: "fdb_entry list \<Rightarrow> string list" where
  "fdb_macs es = [mac. e \<leftarrow> es, fd_flags e \<noteq> [''self''],
     mac \<leftarrow> (case (fd_mac e, fd_port e) of (Some m, Some p) \<Rightarrow> if p = [] then [] else [m] | _ \<Rightarrow> []), mac \<noteq> []]"

definition reported :: "sources \<Rightarrow> string list" where
  "reported src = map normalise_mac (map ls_mac (so_leases src) @ arp_macs (so_arp src) @ arp_macs (so_ndp src) @
     fdb_macs (so_fdb src) @ map wc_mac (so_stations src))"

text \<open>One source: each of its entries adds the addresses it names, and sightings stay filed.\<close>

lemma fold_see:
  assumes "\<And>e m. fst ` set (f e m) = normalise_mac ` set (names e) \<union> fst ` set m"
    and "\<And>e m. filed m \<Longrightarrow> filed (f e m)"
  shows "fst ` set (fold f es m) = normalise_mac ` set (concat (map names es)) \<union> fst ` set m"
    and "filed m \<Longrightarrow> filed (fold f es m)"
  by (induction es arbitrary: m) (auto simp: assms)

lemma see_lease_facts:
  "fst ` set (see_lease l m) = normalise_mac ` set [ls_mac l] \<union> fst ` set m"
  "filed m \<Longrightarrow> filed (see_lease l m)"
  by (auto simp: see_lease_def keeps_mac_def intro: see_filed)

lemma see_arp_facts:
  "fst ` set (see_arp v4 e m) = normalise_mac ` set (arp_macs [e]) \<union> fst ` set m"
  "filed m \<Longrightarrow> filed (see_arp v4 e m)"
  by (auto simp: see_arp_def arp_macs_def keeps_mac_def arp_address_def Let_def intro!: see_filed split: option.splits)

lemma see_fdb_facts:
  "fst ` set (see_fdb e m) = normalise_mac ` set (fdb_macs [e]) \<union> fst ` set m"
  "filed m \<Longrightarrow> filed (see_fdb e m)"
  by (auto simp: see_fdb_def fdb_macs_def keeps_mac_def intro!: see_filed split: option.splits)

lemma see_station_facts:
  "fst ` set (see_station w m) = normalise_mac ` set [wc_mac w] \<union> fst ` set m"
  "filed m \<Longrightarrow> filed (see_station w m)"
  by (auto simp: see_station_def intro: see_filed)

lemma single_macs:
  "concat (map (\<lambda>e. arp_macs [e]) es) = arp_macs es" "concat (map (\<lambda>e. fdb_macs [e]) fs) = fdb_macs fs"
  "concat (map (\<lambda>x. [h x]) xs) = map h xs"
  by (induction es) (simp_all add: arp_macs_def, induction fs, simp_all add: fdb_macs_def)

lemma merge_keys: "fst ` set (merge_sources src) = set (reported src)"
  by (auto simp: merge_sources_def reported_def single_macs
      fold_see(1) [OF see_station_facts] fold_see(1) [OF see_fdb_facts] fold_see(1) [OF see_arp_facts]
      fold_see(1) [OF see_lease_facts])

lemma merge_filed: "filed (merge_sources src)"
proof -
  have "filed []" by (simp add: filed_def)
  then show ?thesis
    by (simp add: merge_sources_def fold_see(2) [OF see_station_facts] fold_see(2) [OF see_fdb_facts]
        fold_see(2) [OF see_arp_facts] fold_see(2) [OF see_lease_facts])
qed

lemma resolve_mac [simp]: "si_mac (resolve_network index i) = si_mac i"
  by (simp add: resolve_network_def split: option.splits)

lemma resolved_keys: "map fst (resolved index src) = map fst (merge_sources src)"
  by (simp add: resolved_def split_def)

lemma resolved_filed: "filed (resolved index src)"
  using merge_filed [of src] by (auto simp: filed_def resolved_keys) (auto simp: resolved_def)

lemma resolved_reported: "fst ` set (resolved index src) = set (reported src)"
  by (metis list.set_map merge_keys resolved_keys)

text \<open>Only a station brings a network of its own, so without one the address decides.\<close>

lemma arp_address_wired [simp]:
  "si_station (arp_address v4 addr i) = si_station i" "si_network (arp_address v4 addr i) = si_network i"
  by (simp_all add: arp_address_def)

lemma merge_wired: "list_all (\<lambda>(_, i). si_station i = None \<longrightarrow> si_network i = None) (merge_sources src)"
proof -
  let ?P = "\<lambda>i. si_station i = None \<longrightarrow> si_network i = None"
  have see: "list_all (\<lambda>(_, i). ?P i) (see mac f m)"
    if "list_all (\<lambda>(_, i). ?P i) m" "\<And>i. ?P i \<Longrightarrow> ?P (f i)" for mac f and m :: sightings
  proof -
    have "?P (the_default (unseen k) (map_of m k))" for k
      using that(1) by (auto simp: the_default_def unseen_def list_all_iff split: option.splits dest!: map_of_SomeD)
    then have "?P (f (the_default (unseen k) (map_of m k)))" for k using that(2) by blast
    moreover have "set (AList.update k v m) \<subseteq> insert (k, v) (set m)" for k v
      by (induction m) auto
    ultimately show ?thesis using that(1) by (fastforce simp: see_def Let_def list_all_iff)
  qed
  have many: "list_all (\<lambda>(_, i). ?P i) (fold f es m)"
    if "list_all (\<lambda>(_, i). ?P i) m" "\<And>e m. list_all (\<lambda>(_, i). ?P i) m \<Longrightarrow> list_all (\<lambda>(_, i). ?P i) (f e m)"
    for f es and m :: sightings
    using that by (induction es arbitrary: m) auto
  have "list_all (\<lambda>(_, i). ?P i) (see_lease l m)" "list_all (\<lambda>(_, i). ?P i) (see_arp v4 e m)"
    "list_all (\<lambda>(_, i). ?P i) (see_fdb b m)" "list_all (\<lambda>(_, i). ?P i) (see_station w m)"
    if "list_all (\<lambda>(_, i). ?P i) m" for l v4 e b w and m :: sightings
    by (use that in \<open>auto simp: see_lease_def see_arp_def see_fdb_def see_station_def Let_def
        intro!: see split: option.splits if_splits\<close>)+
  then show ?thesis by (simp add: merge_sources_def many)
qed

subsection \<open>Folding into the database\<close>

definition oui_in :: "string option \<Rightarrow> client_db \<Rightarrow> (string \<times> string) list" where
  "oui_in oui_file d = (case cd_oui d of Some tbl \<Rightarrow> tbl
     | None \<Rightarrow> (case oui_file of None \<Rightarrow> [] | Some content \<Rightarrow> oui_table content))"

definition fresh_row :: "string option \<Rightarrow> time \<Rightarrow> string \<Rightarrow> sighting \<Rightarrow> client_db \<Rightarrow> client_row" where
  "fresh_row oui_file t mac i d = \<lparr>rw_hostname = si_hostname i,
     rw_vendor = map_of (oui_in oui_file d) (oui_prefix mac), rw_first_seen = t, rw_last_seen = t,
     rw_network = si_network i, rw_columns = []\<rparr>"

definition touched :: "time \<Rightarrow> sighting \<Rightarrow> client_row \<Rightarrow> client_row" where
  "touched t i row = row\<lparr>rw_last_seen := t,
     rw_hostname := (if si_hostname i = None then rw_hostname row else si_hostname i),
     rw_network := (if si_network i = None then rw_network row else si_network i)\<rparr>"

definition row_read :: "string option \<Rightarrow> time \<Rightarrow> string \<Rightarrow> sighting \<Rightarrow> client_db \<Rightarrow> client_row" where
  "row_read oui_file t mac i d = (case map_of (cd_rows d) mac of None \<Rightarrow> fresh_row oui_file t mac i d | Some row \<Rightarrow> row)"

definition row_left :: "string option \<Rightarrow> time \<Rightarrow> string \<Rightarrow> sighting \<Rightarrow> client_db \<Rightarrow> client_row" where
  "row_left oui_file t mac i d =
     (case map_of (cd_rows d) mac of None \<Rightarrow> fresh_row oui_file t mac i d | Some row \<Rightarrow> touched t i row)"

definition arrival :: "time \<Rightarrow> string \<times> sighting \<Rightarrow> client_event" where
  "arrival t mi = \<lparr>hi_mac = fst mi, hi_ts = t, hi_event = ''first-seen'',
     hi_detail = JStr (the_default [] (si_network (snd mi)))\<rparr>"

definition new_macs :: "sightings \<Rightarrow> client_db \<Rightarrow> sightings" where
  "new_macs m d = filter (\<lambda>(mac, _). map_of (cd_rows d) mac = None) m"

lemma upsert_spec:
  assumes "upsert f t mac i d = (row, d1)"
  shows "row = row_read f t mac i d" "cd_live d1 = cd_live d" "cd_samples d1 = cd_samples d"
    "oui_in f d1 = oui_in f d" "map_of (cd_rows d1) k = (if k = mac then Some (row_left f t mac i d) else map_of (cd_rows d) k)"
    "distinct (map fst (cd_rows d)) \<Longrightarrow> distinct (map fst (cd_rows d1))"
    "cd_history d1 = fold (keep_newest CLIENT_HISTORY) (map (arrival t) (new_macs [(mac, i)] d)) (cd_history d)"
proof -
  note unf = upsert_def row_read_def row_left_def oui_in_def fresh_row_def touched_def vendor_for_def
    announce_def add_history_def arrival_def new_macs_def Let_def
  consider (old) r where "map_of (cd_rows d) mac = Some r" | (new) "map_of (cd_rows d) mac = None" by force
  note cases = this
  from assms show "row = row_read f t mac i d" "cd_live d1 = cd_live d" "cd_samples d1 = cd_samples d"
    "oui_in f d1 = oui_in f d"
    by (cases rule: cases; auto simp: unf split: option.splits)+
  from assms show "map_of (cd_rows d1) k = (if k = mac then Some (row_left f t mac i d) else map_of (cd_rows d) k)"
    by (cases rule: cases; auto simp: unf update_conv' map_add_def split: option.splits)
  from assms show "distinct (map fst (cd_rows d)) \<Longrightarrow> distinct (map fst (cd_rows d1))"
    by (cases rule: cases; auto simp: unf distinct_keys_update map_of_eq_None_iff split: option.splits)
  from assms show "cd_history d1 = fold (keep_newest CLIENT_HISTORY) (map (arrival t) (new_macs [(mac, i)] d)) (cd_history d)"
    by (cases rule: cases; auto simp: unf split: option.splits)
qed

text \<open>How a client is shown: the sighting, and the row as it was read.\<close>

definition shown :: "client_row \<Rightarrow> string \<Rightarrow> sighting \<Rightarrow> client \<Rightarrow> bool" where
  "shown row mac i c \<longleftrightarrow>
     cn_seen c = i\<lparr>si_hostname := or_text (si_hostname i) (rw_hostname row)\<rparr> \<and>
     cn_name c = client_name mac i row \<and> cn_vendor c = rw_vendor row \<and> cn_columns c = rw_columns row \<and>
     cn_first_seen c = rw_first_seen row \<and> cn_last_seen c = rw_last_seen row"

lemma fold_in_spec:
  assumes "fold_in ts mac i row d = (c, d1)"
  shows "shown row mac i c" "cd_rows d1 = cd_rows d" "cd_live d1 = cd_live d" "cd_history d1 = cd_history d"
    "oui_in f d1 = oui_in f d" "fst ` set (cd_samples d1) = insert mac (fst ` set (cd_samples d))"
proof -
  from assms show "shown row mac i c" by (auto simp: fold_in_def Let_def shown_def)
  from assms obtain v where "d1 = d\<lparr>cd_samples := AList.update mac v (cd_samples d)\<rparr>"
    by (auto simp: fold_in_def Let_def)
  then show "cd_rows d1 = cd_rows d" "cd_live d1 = cd_live d" "cd_history d1 = cd_history d"
    "oui_in f d1 = oui_in f d" "fst ` set (cd_samples d1) = insert mac (fst ` set (cd_samples d))"
    by (simp_all add: oui_in_def alist.keys_store)
qed

lemma row_frame:
  assumes "map_of (cd_rows d1) k = map_of (cd_rows d) k" and "oui_in f d1 = oui_in f d"
  shows "row_read f t k i d1 = row_read f t k i d" "row_left f t k i d1 = row_left f t k i d"
  using assms by (simp_all add: row_read_def row_left_def fresh_row_def split: option.split)

lemma fold_clients_facts:
  assumes "fold_clients f ts t m d = (cs, d')" and "distinct (map fst m)"
  shows "list_all2 (\<lambda>(mac, i) c. shown (row_read f t mac i d) mac i c) m cs \<and>
    (\<forall>k. map_of (cd_rows d') k =
      (case map_of m k of None \<Rightarrow> map_of (cd_rows d) k | Some i \<Rightarrow> Some (row_left f t k i d))) \<and>
    cd_live d' = cd_live d \<and>
    (distinct (map fst (cd_rows d)) \<longrightarrow> distinct (map fst (cd_rows d'))) \<and>
    cd_history d' = fold (keep_newest CLIENT_HISTORY) (map (arrival t) (new_macs m d)) (cd_history d) \<and>
    fst ` set (cd_samples d') = fst ` set m \<union> fst ` set (cd_samples d)"
  using assms
proof (induction m arbitrary: d cs)
  case (Cons x m)
  obtain mac i where x: "x = (mac, i)" by fastforce
  obtain row d1 where u: "upsert f t mac i d = (row, d1)" by fastforce
  obtain c d2 where c: "fold_in ts mac i row d1 = (c, d2)" by fastforce
  obtain cs' where r: "fold_clients f ts t m d2 = (cs', d')" and cs: "cs = c # cs'"
    using Cons.prems(1) by (auto simp: x u c split: prod.splits)
  from Cons.prems(2) have d: "distinct (map fst m)" "mac \<notin> fst ` set m" by (auto simp: x)
  note U = upsert_spec [OF u] and F = fold_in_spec [OF c] and IH = Cons.IH [OF r d(1)]
  note I = IH [THEN conjunct1] IH [THEN conjunct2, THEN conjunct1, rule_format]
    IH [THEN conjunct2, THEN conjunct2]
  have o: "oui_in f d2 = oui_in f d" using U(4) F(5) by simp
  have rows: "map_of (cd_rows d2) k = (if k = mac then Some (row_left f t mac i d) else map_of (cd_rows d) k)" for k
    using U(5) F(2) by simp
  have other: "row_read f t k j d2 = row_read f t k j d" "row_left f t k j d2 = row_left f t k j d" if "k \<noteq> mac" for k j
    using row_frame [of d2 k d] that o by (simp_all add: rows)
  have "list_all2 (\<lambda>(mac, i) c. shown (row_read f t mac i d) mac i c) m cs'"
  proof (rule list.rel_mono_strong [OF I(1)], clarify)
    fix k j e
    assume "(k, j) \<in> set m" and s: "shown (row_read f t k j d2) k j e"
    then have "k \<noteq> mac" using d(2) fst_image_mem by metis
    with s show "shown (row_read f t k j d) k j e" by (simp add: other)
  qed
  then have "list_all2 (\<lambda>(mac, i) c. shown (row_read f t mac i d) mac i c) (x # m) cs"
    using F(1) U(1) by (simp add: x cs)
  moreover have "map_of (cd_rows d') k =
      (case map_of (x # m) k of None \<Rightarrow> map_of (cd_rows d) k | Some i \<Rightarrow> Some (row_left f t k i d))" for k
  proof (cases "k = mac")
    case True
    moreover have "map_of m mac = None" using d(2) by (simp add: map_of_eq_None_iff)
    ultimately show ?thesis using I(2) [of k] by (simp add: x rows)
  next
    case False
    then show ?thesis using I(2) [of k] by (simp add: x rows other split: option.split)
  qed
  moreover have "new_macs m d2 = new_macs m d"
    unfolding new_macs_def
  proof (rule filter_cong [OF refl])
    fix y assume "y \<in> set m"
    then have "fst y \<noteq> mac" using d(2) by auto
    then show "(case y of (k, _) \<Rightarrow> map_of (cd_rows d2) k = None) = (case y of (k, _) \<Rightarrow> map_of (cd_rows d) k = None)"
      by (simp add: rows split_def)
  qed
  moreover have "new_macs (x # m) d = new_macs [(mac, i)] d @ new_macs m d" by (simp add: new_macs_def x)
  ultimately show ?case using I(3) F U by (auto simp: x)
qed (auto simp: new_macs_def)

lemma fold_clients_spec:
  assumes "fold_clients f ts t m d = (cs, d')" and "distinct (map fst m)"
  shows "list_all2 (\<lambda>(mac, i) c. shown (row_read f t mac i d) mac i c) m cs"
    and "map_of (cd_rows d') k =
      (case map_of m k of None \<Rightarrow> map_of (cd_rows d) k | Some i \<Rightarrow> Some (row_left f t k i d))"
    and "cd_live d' = cd_live d"
    and "distinct (map fst (cd_rows d)) \<Longrightarrow> distinct (map fst (cd_rows d'))"
    and "cd_history d' = fold (keep_newest CLIENT_HISTORY) (map (arrival t) (new_macs m d)) (cd_history d)"
    and "fst ` set (cd_samples d') = fst ` set m \<union> fst ` set (cd_samples d)"
  using fold_clients_facts [OF assms] by simp_all

text \<open>A poll taken apart.\<close>

definition departure :: "time \<Rightarrow> string \<Rightarrow> client_event" where
  "departure t mac = \<lparr>hi_mac = mac, hi_ts = t, hi_event = ''offline'', hi_detail = JStr []\<rparr>"

lemma departures:
  "fold (\<lambda>mac. add_history mac t ''offline'' (JStr [])) ms d =
     d\<lparr>cd_history := fold (keep_newest CLIENT_HISTORY) (map (departure t) ms) (cd_history d)\<rparr>"
  by (induction ms arbitrary: d) (simp_all add: add_history_def departure_def)

lemma poll_cases:
  assumes "poll su cfg src d = (Inr out, d')"
  obtains index m present d1 left where "subnet_index cfg = Inr index" "m = resolved index src"
    "fold_clients (su_oui su) (su_mono su) (su_now su) m d = (present, d1)"
    "left = su_walk su (filter (\<lambda>mac. mac \<notin> set (reported src)) (map fst (cd_live d)))"
    "out = sort_key (\<lambda>c. (\<not> is_online c, cn_name c)) (present @ map (\<lambda>mac. offline (the (map_of (cd_live d) mac))) left)"
    "d' = d1\<lparr>cd_history := fold (keep_newest CLIENT_HISTORY) (map (departure (su_now su)) left) (cd_history d1),
       cd_live := map (\<lambda>c. (client_mac c, c)) (filter is_online
         (present @ map (\<lambda>mac. offline (the (map_of (cd_live d) mac))) left))\<rparr>"
proof -
  obtain index where i: "subnet_index cfg = Inr index"
    using assms by (auto simp: poll_def split: sum.splits)
  obtain present d1 where f: "fold_clients (su_oui su) (su_mono su) (su_now su) (resolved index src) d = (present, d1)"
    by fastforce
  have "distinct (map fst (resolved index src))" using resolved_filed by (simp add: filed_def)
  from fold_clients_spec(3) [OF f this] have "cd_live d1 = cd_live d" .
  then show thesis using that [OF i refl f refl] assms
    by (simp add: poll_def i f Let_def departed_def resolved_reported departures)
qed

lemma resolved_distinct: "distinct (map fst (resolved index src))"
  using resolved_filed by (simp add: filed_def)

subsection \<open>Every device once\<close>

text \<open>Walking a set meets each of its elements once.\<close>

definition walks :: "(string list \<Rightarrow> string list) \<Rightarrow> bool" where
  "walks w \<longleftrightarrow> (\<forall>xs. mset (w xs) = mset xs)"

lemma walks_set: "walks w \<Longrightarrow> set (w xs) = set xs" "walks w \<Longrightarrow> distinct xs \<Longrightarrow> distinct (w xs)"
  by (metis walks_def set_mset_mset, metis walks_def mset_eq_imp_distinct_iff)

text \<open>The invariant of the database: rows are keyed, the live clients are online, filed under their own
  address and have rows, as have the samples, and the history is bounded.\<close>

definition clients_ok :: "client_db \<Rightarrow> bool" where
  "clients_ok d \<longleftrightarrow> distinct (map fst (cd_rows d)) \<and> distinct (map fst (cd_live d)) \<and>
     list_all (\<lambda>(mac, c). client_mac c = mac \<and> is_online c) (cd_live d) \<and>
     fst ` set (cd_live d) \<subseteq> fst ` set (cd_rows d) \<and>
     fst ` set (cd_samples d) \<subseteq> fst ` set (cd_rows d) \<and> length (cd_history d) \<le> CLIENT_HISTORY"

lemma shown_list:
  assumes "list_all2 (\<lambda>(mac, i) c. shown (r mac i) mac i c) m cs" and "filed m"
  shows "map client_mac cs = map fst m" "\<And>c. c \<in> set cs \<Longrightarrow> \<exists>mac i. (mac, i) \<in> set m \<and> shown (r mac i) mac i c"
proof -
  have "list_all2 (\<lambda>x c. client_mac c = fst x) m cs"
    by (rule list.rel_mono_strong [OF assms(1)])
      (use assms(2) in \<open>auto simp: shown_def client_mac_def filed_def\<close>)
  then show "map client_mac cs = map fst m" by (auto simp: list_all2_conv_all_nth list_eq_iff_nth_eq)
  show "\<exists>mac i. (mac, i) \<in> set m \<and> shown (r mac i) mac i c" if "c \<in> set cs" for c
    using assms(1) that by (fastforce simp: list_all2_conv_all_nth in_set_conv_nth)
qed

lemma offline_simps [simp]: "client_mac (offline c) = client_mac c" "is_online (offline c) = False"
  by (simp_all add: offline_def client_mac_def is_online_def)

lemma live_mac:
  assumes "clients_ok d" and "mac \<in> fst ` set (cd_live d)"
  shows "client_mac (the (map_of (cd_live d) mac)) = mac"
proof -
  obtain c where "map_of (cd_live d) mac = Some c"
    using assms(2) by (metis map_of_eq_None_iff not_None_eq)
  then show ?thesis using assms(1) by (auto simp: clients_ok_def list_all_iff dest!: map_of_SomeD)
qed

text \<open>The clients of a poll: those the sources report, then those that left.\<close>

lemma poll_macs:
  assumes "clients_ok d" and "walks (su_walk su)" and "poll su cfg src d = (Inr out, d')"
  shows "mset (map client_mac out) =
    mset (map fst (merge_sources src)) + mset (filter (\<lambda>mac. mac \<notin> set (reported src)) (map fst (cd_live d)))"
  using assms(3)
proof (cases rule: poll_cases)
  case (1 index m present d1 left)
  have m: "filed m" "distinct (map fst m)" unfolding 1(2) by (rule resolved_filed, rule resolved_distinct)
  have "map client_mac present = map fst m" by (rule shown_list(1) [OF fold_clients_spec(1) [OF 1(3) m(2)] m(1)])
  then have p: "map client_mac present = map fst (merge_sources src)" unfolding 1(2) resolved_keys .
  have "set left \<subseteq> fst ` set (cd_live d)" using 1(4) assms(2) by (auto simp: walks_set)
  then have l: "map (client_mac \<circ> (\<lambda>mac. offline (the (map_of (cd_live d) mac)))) left = left"
    by (intro map_idI) (use live_mac [OF assms(1)] in auto)
  have "mset (map client_mac out) = mset (map client_mac (present @ map (\<lambda>mac. offline (the (map_of (cd_live d) mac))) left))"
    unfolding 1(5) mset_map by simp
  also have "\<dots> = mset (map fst (merge_sources src)) + mset left" using l by (simp add: p)
  finally show ?thesis using 1(4) assms(2) by (simp add: walks_def)
qed

lemma poll_distinct:
  assumes "clients_ok d" and "walks (su_walk su)" and "poll su cfg src d = (Inr out, d')"
  shows "distinct (map client_mac out)"
proof -
  have "distinct (map fst (merge_sources src) @ filter (\<lambda>mac. mac \<notin> set (reported src)) (map fst (cd_live d)))"
    using merge_filed [of src] assms(1) merge_keys [of src] by (auto simp: filed_def clients_ok_def)
  with poll_macs [OF assms] show ?thesis by (metis mset_append mset_eq_imp_distinct_iff)
qed

text \<open>C14. A poll shows every device exactly once: each address that a lease, a neighbour entry, the
  forwarding table or a station names, and each client that was live before, is one entry of the
  result, and the clients that are live afterwards are the entries that are online.\<close>

theorem poll_shows_each_once:
  assumes "clients_ok d" and "walks (su_walk su)" and "poll su cfg src d = (Inr out, d')"
  shows "distinct (map client_mac out) \<and>
    client_mac ` set out = set (reported src) \<union> fst ` set (cd_live d) \<and>
    set (live_clients d') = {c \<in> set out. is_online c}"
proof (intro conjI)
  show "distinct (map client_mac out)" by (rule poll_distinct [OF assms])
  from poll_macs [OF assms] have "set (map client_mac out) =
      set (map fst (merge_sources src)) \<union> set (filter (\<lambda>mac. mac \<notin> set (reported src)) (map fst (cd_live d)))"
    by (metis mset_append set_append set_mset_mset)
  then show "client_mac ` set out = set (reported src) \<union> fst ` set (cd_live d)"
    using merge_keys [of src] by auto
  from assms(3) show "set (live_clients d') = {c \<in> set out. is_online c}"
    by (cases rule: poll_cases) (auto simp: live_clients_def)
qed

subsection \<open>The invariant\<close>

lemma resolved_map: "mac \<in> set (reported src) \<longleftrightarrow> (\<exists>i. map_of (resolved index src) mac = Some i)"
  using resolved_reported [of index src] by (metis map_of_eq_None_iff not_None_eq)

lemma poll_row_cases:
  assumes "poll su cfg src d = (Inr out, d')"
  obtains (kept) "k \<notin> set (reported src)" "map_of (cd_rows d') k = map_of (cd_rows d) k"
    | (seen) i where "k \<in> set (reported src)" "map_of (cd_rows d') k = Some (row_left (su_oui su) (su_now su) k i d)"
  using assms
proof (cases rule: poll_cases)
  case (1 index m present d1 left)
  have "map_of (cd_rows d') k = (case map_of (resolved index src) k of None \<Rightarrow> map_of (cd_rows d) k
      | Some i \<Rightarrow> Some (row_left (su_oui su) (su_now su) k i d))"
    using 1(3) by (simp add: 1(2,6) fold_clients_spec(2) [OF _ resolved_distinct])
  then show thesis using kept seen resolved_map [of k src index] by (cases "map_of (resolved index src) k") auto
qed

lemma poll_row_keys:
  assumes "poll su cfg src d = (Inr out, d')"
  shows "fst ` set (cd_rows d') = set (reported src) \<union> fst ` set (cd_rows d)"
proof -
  have "k \<in> fst ` set (cd_rows d') \<longleftrightarrow> k \<in> set (reported src) \<or> k \<in> fst ` set (cd_rows d)" for k
    by (rule poll_row_cases [OF assms, where k = k]) (simp_all add: alist.keys_lookup row_left_def)
  then show ?thesis by blast
qed

lemma poll_live:
  assumes "poll su cfg src d = (Inr out, d')"
  shows "fst ` set (cd_live d') \<subseteq> set (reported src)"
  using assms
proof (cases rule: poll_cases)
  case (1 index m present d1 left)
  have m: "filed m" "distinct (map fst m)" unfolding 1(2) by (rule resolved_filed, rule resolved_distinct)
  have "map client_mac present = map fst m" by (rule shown_list(1) [OF fold_clients_spec(1) [OF 1(3) m(2)] m(1)])
  then have "client_mac ` set present = set (reported src)"
    unfolding 1(2) using resolved_reported by (metis list.set_map)
  moreover have "fst ` set (cd_live d') \<subseteq> client_mac ` set present" by (auto simp: 1(6))
  ultimately show ?thesis by simp
qed

lemma history_pushes: "length rows \<le> CLIENT_HISTORY \<Longrightarrow>
    length (fold (keep_newest CLIENT_HISTORY) es rows) \<le> CLIENT_HISTORY"
  by (simp add: client_log.push_many)

lemma poll_preserves:
  assumes "clients_ok d" and "walks (su_walk su)"
  shows "clients_ok (snd (poll su cfg src d))"
proof (cases "fst (poll su cfg src d)")
  case (Inl e)
  then have "snd (poll su cfg src d) = d" by (auto simp: poll_def Let_def split: sum.splits prod.splits)
  then show ?thesis using assms(1) by simp
next
  case (Inr out)
  define d' where "d' = snd (poll su cfg src d)"
  with Inr have p: "poll su cfg src d = (Inr out, d')" by (simp add: prod_eq_iff)
  note dist = poll_distinct [OF assms p]
  from p have "clients_ok d'"
  proof (cases rule: poll_cases)
    case (1 index m present d1 left)
    have m: "distinct (map fst m)" unfolding 1(2) by (rule resolved_distinct)
    note F = fold_clients_spec [OF 1(3) m]
    have "mset (map client_mac out) = mset (map client_mac (present @ map (\<lambda>mac. offline (the (map_of (cd_live d) mac))) left))"
      unfolding 1(5) mset_map by simp
    then have "distinct (map client_mac (present @ map (\<lambda>mac. offline (the (map_of (cd_live d) mac))) left))"
      using dist mset_eq_imp_distinct_iff by blast
    then have "distinct (map fst (cd_live d'))"
      by (simp add: 1(6) comp_def distinct_map inj_on_def)
    moreover have "list_all (\<lambda>(mac, c). client_mac c = mac \<and> is_online c) (cd_live d')"
      by (auto simp: 1(6) list_all_iff)
    moreover have "fst ` set (cd_live d') \<subseteq> fst ` set (cd_rows d')"
      using poll_live [OF p] poll_row_keys [OF p] by blast
    moreover have "fst ` set (cd_samples d') \<subseteq> fst ` set (cd_rows d')"
      using poll_row_keys [OF p] F(6) assms(1) resolved_reported [of index src]
      by (auto simp: 1(2,6) clients_ok_def)
    moreover have "length (cd_history d') \<le> CLIENT_HISTORY"
      using F(5) assms(1) by (auto simp: 1(6) clients_ok_def intro!: history_pushes)
    moreover have "distinct (map fst (cd_rows d'))" using F(4) assms(1) by (simp add: 1(6) clients_ok_def)
    ultimately show ?thesis by (simp add: clients_ok_def)
  qed
  then show ?thesis by (simp add: d'_def)
qed

lemma update_preserves:
  assumes "clients_ok d"
  shows "clients_ok (snd (update_client affinity t mac given d))"
proof -
  have k: "fst ` set (AList.update k r rows) = fst ` set rows" if "map_of rows k = Some r0" for k r r0 and rows :: "(string \<times> client_row) list"
    using that by (auto simp: alist.keys_store dest!: map_of_SomeD intro: rev_image_eqI)
  then show ?thesis using assms
    by (auto simp: update_client_def add_history_def Let_def clients_ok_def distinct_keys_update client_log.push_length
        split: option.splits)
qed

fun op_walks :: "client_op \<Rightarrow> bool" where
  "op_walks (Poll su cfg src) = walks (su_walk su)"
| "op_walks (Update t mac given) = True"

text \<open>C12. Whatever is polled and updated, the database stays consistent: no address has two rows, the live
  clients are online, have distinct addresses and a row each, and the history never exceeds its bound.\<close>

theorem clients_invariant: "list_all op_walks ops \<Longrightarrow> clients_ok (clients_after affinity bus ops)"
proof -
  assume w: "list_all op_walks ops"
  have "clients_ok d \<Longrightarrow> clients_ok (fold (client_step affinity) ops d)" for d
    using w
  proof (induction ops arbitrary: d)
    case (Cons x ops)
    then show ?case by (cases x) (auto simp: poll_preserves update_preserves)
  qed simp
  then show ?thesis by (simp add: clients_after_def clients_ok_def new_clients_def)
qed

subsection \<open>What the owner set\<close>

text \<open>A poll never touches what the owner set or when a device was first seen: every row is kept, with
  its first sighting, its vendor and its columns; its last sighting becomes the time of the poll exactly
  when a source reports the device. The entry of the result shows the last sighting before this poll.\<close>

theorem poll_keeps_rows:
  assumes "poll su cfg src d = (Inr out, d')" and "map_of (cd_rows d) mac = Some row"
  shows "\<exists>row'. map_of (cd_rows d') mac = Some row' \<and>
      rw_first_seen row' = rw_first_seen row \<and> rw_vendor row' = rw_vendor row \<and> rw_columns row' = rw_columns row \<and>
      rw_last_seen row' = (if mac \<in> set (reported src) then su_now su else rw_last_seen row)"
  by (rule poll_row_cases [OF assms(1), where k = mac]) (use assms(2) in \<open>simp_all add: row_left_def touched_def\<close>)

lemma blocked_iff:
  "distinct (map fst (cd_rows d)) \<Longrightarrow> mac \<in> set (blocked_macs d) \<longleftrightarrow>
     (\<exists>row. map_of (cd_rows d) mac = Some row \<and> map_of (rw_columns row) ''blocked'' = Some (JInt 1))"
  by (force simp: blocked_macs_def)

lemma poll_keeps_blocked:
  assumes "clients_ok d" and "walks (su_walk su)"
  shows "set (blocked_macs (snd (poll su cfg src d))) = set (blocked_macs d)"
proof (cases "fst (poll su cfg src d)")
  case (Inl e)
  then show ?thesis by (auto simp: poll_def Let_def split: sum.splits prod.splits)
next
  case (Inr out)
  define d' where "d' = snd (poll su cfg src d)"
  with Inr have p: "poll su cfg src d = (Inr out, d')" by (simp add: prod_eq_iff)
  have d: "distinct (map fst (cd_rows d))" "distinct (map fst (cd_rows d'))"
    using assms(1) poll_preserves [OF assms, of cfg src] by (simp_all add: clients_ok_def d'_def)
  have "mac \<in> set (blocked_macs d') \<longleftrightarrow> mac \<in> set (blocked_macs d)" for mac
    by (rule poll_row_cases [OF p, where k = mac])
      (auto simp: blocked_iff [OF d(1)] blocked_iff [OF d(2)] row_left_def touched_def fresh_row_def split: option.splits)
  then show ?thesis by (auto simp: d'_def)
qed

subsection \<open>Histories\<close>

text \<open>The history of a poll is exact: one row for every device seen for the first time, in the order the
  sources name them, then one for every client that was live and is not reported any more; nothing
  else is recorded and only the oldest rows beyond the bound are dropped.\<close>

theorem poll_history_exact:
  assumes "clients_ok d" and "poll su cfg src d = (Inr out, d')" and "subnet_index cfg = Inr index"
  shows "cd_history d' = take CLIENT_HISTORY
    (rev (map (departure (su_now su)) (su_walk su (filter (\<lambda>mac. mac \<notin> set (reported src)) (map fst (cd_live d))))) @
     rev (map (arrival (su_now su)) (new_macs (resolved index src) d)) @ cd_history d)"
  using assms(2)
proof (cases rule: poll_cases)
  case (1 index' m present d1 left)
  have m: "m = resolved index src" using 1(1,2) assms(3) by simp
  have "cd_history d1 = fold (keep_newest CLIENT_HISTORY) (map (arrival (su_now su)) (new_macs m d)) (cd_history d)"
    by (rule fold_clients_spec(5) [OF 1(3)]) (simp add: 1(2) resolved_distinct)
  then have "cd_history d' = fold (keep_newest CLIENT_HISTORY)
      (map (arrival (su_now su)) (new_macs m d) @ map (departure (su_now su)) left) (cd_history d)"
    by (simp add: 1(6))
  also have "\<dots> = take CLIENT_HISTORY
      (rev (map (arrival (su_now su)) (new_macs m d) @ map (departure (su_now su)) left) @ cd_history d)"
    by (rule client_log.push_many) (use assms(1) in \<open>simp add: clients_ok_def\<close>)
  finally show ?thesis using m 1(4) by simp
qed

text \<open>An update of an address that has no row changes no row, is refused, and is recorded all the same.\<close>

lemma update_of_stranger:
  assumes "map_of (cd_rows d) (normalise_mac mac) = None" and "client_updates given \<noteq> []"
    and "bind_columns affinity (client_updates given) = Some cols"
  shows "update_client affinity t mac given d =
    (Some False, add_history (normalise_mac mac) t ''updated'' (JObj (masked_note (client_updates given))) d)"
  using assms by (simp add: update_client_def Let_def)

subsection \<open>Networks\<close>

lemma index_claims:
  assumes "subnet_index (JObj out) = Inr index"
  shows "index = concat (map (\<lambda>(nid, net). map (\<lambda>n. (n, nid)) (network_subnet net)) (sub ''networks'' out))"
proof -
  have "rmap (\<lambda>(nid, net). case get_null ''subnet'' (obj_of net) of
       JStr s \<Rightarrow> (case parse_ipv4_net s of None \<Rightarrow> Inl (Raised ValueError) | Some n \<Rightarrow> Inr (n, nid))
     | _ \<Rightarrow> Inl (Raised ValueError)) (filter (\<lambda>(nid, net). is_set ''subnet'' (obj_of net)) nets) = Inr index \<Longrightarrow>
    index = concat (map (\<lambda>(nid, net). map (\<lambda>n. (n, nid)) (network_subnet net)) nets)" for nets
  proof (induction nets arbitrary: index)
    case (Cons x nets)
    obtain nid net where x: "x = (nid, net)" by fastforce
    show ?case
    proof (cases "is_set ''subnet'' (obj_of net)")
      case True
      with Cons.prems obtain s n index' where "get_null ''subnet'' (obj_of net) = JStr s"
        and "parse_ipv4_net s = Some n" and "index = (n, nid) # index'"
        and "rmap (\<lambda>(nid, net). case get_null ''subnet'' (obj_of net) of
           JStr s \<Rightarrow> (case parse_ipv4_net s of None \<Rightarrow> Inl (Raised ValueError) | Some n \<Rightarrow> Inr (n, nid))
         | _ \<Rightarrow> Inl (Raised ValueError)) (filter (\<lambda>(nid, net). is_set ''subnet'' (obj_of net)) nets) = Inr index'"
        by (auto simp: x rbind_eq_Inr split: json.splits option.splits)
      with Cons.IH show ?thesis by (simp add: x network_subnet_def)
    next
      case False
      then have "network_subnet net = []"
        by (auto simp: is_set_def network_subnet_def parse_ipv4_net_def parse_ipv4_def split: json.splits option.splits)
      with Cons.IH Cons.prems False show ?thesis by (simp add: x)
    qed
  qed simp
  with assms show ?thesis by (simp add: subnet_index_def obj_of_def)
qed

text \<open>A subnet that is set in an accepted document is one, so a poll under it never raises.\<close>

lemma network_body_subnet_set:
  assumes "network_body cfg nid net s = Inr (net', s', w)"
  shows "is_set ''subnet'' (obj_of net') \<longrightarrow> network_subnet net' \<noteq> []"
  using assms
proof (rule network_bodyE)
  fix d1 s1 d2 d3 w1 w2 w3 d0
  let ?b = "sub_path ''networks'' nid"
  assume net': "net' = JObj d3" and sn: "claim_subnet ?b nid d1 s1 = Inr (d2, s', w2)"
    and tail: "steps (network_tail_steps cfg ?b) d2 = Inr (d3, w3)"
  have "get_null ''subnet'' d3 = get_null ''subnet'' d1"
    using network_keys_kept [OF tail, of "''subnet''"] claim_subnet_spec [OF sn] by simp
  then have same: "is_set ''subnet'' d3 = is_set ''subnet'' d1" "network_subnet net' = network_subnet (JObj d1)"
    by (simp_all add: is_set_def network_subnet_def net' obj_of_def)
  obtain r where r: "subnet_of ?b d1 = Inr r" using sn by (auto simp: claim_subnet_def rbind_eq_Inr)
  have "r \<noteq> None" if "is_set ''subnet'' d1"
    using r that by (auto simp: subnet_of_def is_set_def rbind_eq_Inr split: option.splits)
  with subnet_of_spec [OF r] same show ?thesis by (auto simp: net' obj_of_def)
qed

interpretation set_subnets: checked_loop "network_body cfg"
    "\<lambda>_ net. is_set ''subnet'' (obj_of net) \<longrightarrow> network_subnet net \<noteq> []" for cfg
  by unfold_locales (rule network_body_subnet_set)

lemma accepted_subnets:
  assumes "validate caps (JObj cfg) = Inr (JObj out, w)"
    and "(nid, net) \<in> set (sub ''networks'' out)" and "is_set ''subnet'' (obj_of net)"
  shows "\<exists>s n. get_null ''subnet'' (obj_of net) = JStr s \<and> parse_ipv4_net s = Some n"
proof (rule networks_section [OF assms(1)])
  fix cfg1 dd nets s' w1
  assume out: "map_of out ''networks'' = Some (JObj nets)"
    and l: "py_for (network_body cfg1) dd \<lparr>seen_vlans = [], seen_subnets = []\<rparr> = Inr (nets, s', w1)"
  have "sub ''networks'' out = nets" using out by (simp add: sub_def get_null_def get_or_def obj_of_def)
  with set_subnets.loop_good [OF l] assms(2,3) have "network_subnet net \<noteq> []" by (auto simp: list_all_iff)
  then show ?thesis by (auto simp: network_subnet_def split: json.splits option.splits)
qed

lemma accepted_index:
  assumes "validate caps (JObj cfg) = Inr (JObj out, w)"
  shows "\<exists>index. subnet_index (JObj out) = Inr index"
proof -
  have "\<exists>y. (case x of (nid, net) \<Rightarrow> case get_null ''subnet'' (obj_of net) of
         JStr s \<Rightarrow> (case parse_ipv4_net s of None \<Rightarrow> Inl (Raised ValueError) | Some n \<Rightarrow> Inr (n, nid))
       | _ \<Rightarrow> Inl (Raised ValueError)) = (Inr y :: verr + ipv4_net \<times> string)"
    if "x \<in> set (filter (\<lambda>(nid, net). is_set ''subnet'' (obj_of net)) (sub ''networks'' out))" for x
  proof -
    obtain nid net where x: "x = (nid, net)" by fastforce
    with that have "(nid, net) \<in> set (sub ''networks'' out)" "is_set ''subnet'' (obj_of net)" by simp_all
    with accepted_subnets [OF assms] obtain s n where
      "get_null ''subnet'' (obj_of net) = JStr s" "parse_ipv4_net s = Some n" by blast
    then show ?thesis by (simp add: x)
  qed
  then have "\<exists>index. rmap (\<lambda>(nid, net). case get_null ''subnet'' (obj_of net) of
         JStr s \<Rightarrow> (case parse_ipv4_net s of None \<Rightarrow> Inl (Raised ValueError) | Some n \<Rightarrow> Inr (n, nid))
       | _ \<Rightarrow> Inl (Raised ValueError))
      (filter (\<lambda>(nid, net). is_set ''subnet'' (obj_of net)) (sub ''networks'' out)) = Inr index"
    by (rule rmap_total)
  moreover have "obj_of (JObj out) = out" by (simp add: obj_of_def)
  ultimately show ?thesis by (simp only: subnet_index_def)
qed

lemma find_apart:
  assumes "sorted_wrt (\<lambda>m n. \<not> (in_network a m \<and> in_network a n)) (map fst index)"
    and "(net, nid) \<in> set index" and "in_network a net"
  shows "find (\<lambda>(net, _). in_network a net) index = Some (net, nid)"
  using assms by (induction index) fastforce+

text \<open>In an accepted document an address belongs to the subnet of one network, and that one is found.\<close>

lemma accepted_member:
  assumes "validate caps (JObj cfg) = Inr (JObj out, w)" and "subnet_index (JObj out) = Inr index"
    and "(nid, net) \<in> set (sub ''networks'' out)" and "network_subnet net = [gw]" and "in_network a gw"
    and "ip_address addr = Some (IP4 a)"
  shows "member_of index addr = Some nid"
proof (rule networks_section [OF assms(1)])
  fix cfg1 dd nets s' w1
  assume out: "map_of out ''networks'' = Some (JObj nets)"
    and l: "py_for (network_body cfg1) dd \<lparr>seen_vlans = [], seen_subnets = []\<rparr> = Inr (nets, s', w1)"
  have nets: "sub ''networks'' out = nets" using out by (simp add: sub_def get_null_def get_or_def obj_of_def)
  then have i: "index = concat (map (\<lambda>(nid, net). map (\<lambda>n. (n, nid)) (network_subnet net)) nets)"
    using index_claims [OF assms(2)] by simp
  have "map fst index = subnets.claims nets"
    unfolding i subnets.claims_def by (simp add: map_concat comp_def split_def)
  moreover have "sorted_wrt (\<lambda>m n. \<not> (in_network a m \<and> in_network a n)) (subnets.claims nets)"
    using subnets.loop_claims [OF l] by (rule sorted_wrt_mono_rel [rotated, OF conjunct1]) (metis net_overlaps_iff)
  moreover have "(gw, nid) \<in> set index" using assms(3,4) unfolding i nets by force
  ultimately have "find (\<lambda>(net, _). in_network a net) index = Some (gw, nid)"
    using find_apart assms(5) by metis
  with assms(6) show ?thesis by (simp add: member_of_def)
qed

lemma poll_present:
  assumes "poll su cfg src d = (Inr out, d')" and "clients_ok d" and "walks (su_walk su)"
    and "c \<in> set out" and "client_mac c \<in> set (reported src)" and "subnet_index cfg = Inr index"
  shows "\<exists>mac i. (mac, i) \<in> set (merge_sources src) \<and>
    shown (row_read (su_oui su) (su_now su) mac (resolve_network index i) d) mac (resolve_network index i) c"
  using assms(1)
proof (cases rule: poll_cases)
  case (1 index' m present d1 left)
  have m: "m = resolved index src" using 1(1,2) assms(6) by simp
  have mf: "filed m" "distinct (map fst m)" unfolding m by (rule resolved_filed, rule resolved_distinct)
  have "c \<in> set present \<or> (\<exists>mac \<in> set left. c = offline (the (map_of (cd_live d) mac)))"
    using assms(4) by (auto simp: 1(5))
  moreover have "mac \<notin> set (reported src) \<and> mac \<in> fst ` set (cd_live d)" if "mac \<in> set left" for mac
    using that 1(4) walks_set(1) [OF assms(3)] by auto
  ultimately have "c \<in> set present" using live_mac [OF assms(2)] assms(5) by auto
  from shown_list(2) [OF fold_clients_spec(1) [OF 1(3) mf(2)] mf(1) this] obtain mac i where
    "(mac, i) \<in> set m" and sh: "shown (row_read (su_oui su) (su_now su) mac i d) mac i c" by blast
  then obtain i0 where "(mac, i0) \<in> set (merge_sources src)" "i = resolve_network index i0"
    by (auto simp: m resolved_def)
  with sh show ?thesis by blast
qed

text \<open>A device that is not on the air is attributed to the network its address belongs to: for an
  accepted document, an entry of a poll with no station and an address inside the subnet of a
  network carries that network, however the networks are ordered.\<close>

theorem wired_client_in_its_network:
  assumes "validate caps (JObj cfg) = Inr (JObj out, w)" and "poll su (JObj out) src d = (Inr cs, d')"
    and "clients_ok d" and "walks (su_walk su)"
    and "c \<in> set cs" and "client_mac c \<in> set (reported src)" and "si_station (cn_seen c) = None"
    and "si_ipv4 (cn_seen c) = Some addr" and "ip_address addr = Some (IP4 a)"
    and "(nid, net) \<in> set (sub ''networks'' out)" and "network_subnet net = [gw]" and "in_network a gw"
  shows "si_network (cn_seen c) = Some nid"
proof -
  obtain index where i: "subnet_index (JObj out) = Inr index"
    using assms(2) by (cases rule: poll_cases) simp
  note mem = accepted_member [OF assms(1) i assms(10,11,12,9)]
  obtain mac s where s: "(mac, s) \<in> set (merge_sources src)"
    and c: "shown (row_read (su_oui su) (su_now su) mac (resolve_network index s) d) mac (resolve_network index s) c"
    using poll_present [OF assms(2-6) i] by blast
  have keep: "si_station (resolve_network index s) = si_station s" "si_ipv4 (resolve_network index s) = si_ipv4 s"
    by (simp_all add: resolve_network_def split: option.split)
  have "si_station s = None" "si_ipv4 s = Some addr" using c assms(7,8) keep by (simp_all add: shown_def)
  moreover have "si_network s = None"
    using merge_wired [of src] s calculation(1) by (auto simp: list_all_iff)
  moreover have "ip_address [] = None" by code_simp
  then have "addr \<noteq> []" using assms(9) by auto
  ultimately have "si_network (resolve_network index s) = Some nid" by (simp add: resolve_network_def mem)
  then show ?thesis using c by (simp add: shown_def)
qed

subsection \<open>Samples\<close>

definition laptop_lease :: lease where
  "laptop_lease = \<lparr>ls_expires = 0, ls_mac = ''AA:BB:CC:00:11:22'', ls_address = ''192.168.2.20'',
     ls_hostname = Some ''laptop'', ls_client_id = None\<rparr>"

definition sample_sources :: sources where
  "sample_sources = \<lparr>so_leases = [laptop_lease], so_arp = [\<lparr>ar_lladdr = Some ''aa:bb:cc:00:11:22'',
     ar_dst = ''192.168.2.20'', ar_state = [''REACHABLE'']\<rparr>], so_ndp = [],
     so_fdb = [\<lparr>fd_mac = Some ''aa:bb:cc:00:11:22'', fd_port = Some ''lan1'', fd_flags = [], fd_vlan = None\<rparr>],
     so_stations = []\<rparr>"

definition no_sources :: sources where
  "no_sources = \<lparr>so_leases = [], so_arp = [], so_ndp = [], so_fdb = [], so_stations = []\<rparr>"

definition at_time :: "time \<Rightarrow> surroundings" where
  "at_time t = \<lparr>su_oui = None, su_walk = (\<lambda>ms. ms), su_mono = t, su_now = t\<rparr>"

lemma walks_at_time [simp]: "walks (su_walk (at_time t))"
  by (simp add: at_time_def walks_def)

lemma new_clients_ok: "clients_ok (new_clients bus)"
  by (simp add: clients_ok_def new_clients_def)

definition laptop :: sighting where
  "laptop = \<lparr>si_mac = ''aa:bb:cc:00:11:22'', si_ipv4 = Some ''192.168.2.20'', si_ipv6 = [], si_hostname = Some ''laptop'',
     si_network = Some ''default'', si_vlan = None, si_port = Some ''lan1'', si_connection = ''wired'',
     si_station = None, si_online = True\<rparr>"

lemma default_index: "subnet_index (JObj default_config) = Inr [((3232236033, 24), ''default'')]"
  by code_simp

lemma laptop_resolved: "resolved [((3232236033, 24), ''default'')] sample_sources = [(''aa:bb:cc:00:11:22'', laptop)]"
  by code_simp

lemma first_poll_ok:
  obtains c d' where "poll (at_time 5) (JObj default_config) sample_sources (new_clients None) = (Inr [c], d')"
    "client_mac c = ''aa:bb:cc:00:11:22''" "si_station (cn_seen c) = None" "si_ipv4 (cn_seen c) = Some ''192.168.2.20''"
proof -
  let ?p = "poll (at_time 5) (JObj default_config) sample_sources (new_clients None)"
  obtain cs d1 where f: "fold_clients None 5 5 [(''aa:bb:cc:00:11:22'', laptop)] (new_clients None) = (cs, d1)" by fastforce
  from fold_clients_spec(1,3) [OF f] obtain c row where c: "cs = [c]" "shown row ''aa:bb:cc:00:11:22'' laptop c"
    and l: "cd_live d1 = []"
    by (auto simp: list_all2_Cons1 new_clients_def)
  have "\<exists>d'. ?p = (Inr [c], d')"
    using f l by (simp add: poll_def default_index laptop_resolved at_time_def departed_def c(1))
  with that c(2) show thesis by (auto simp: shown_def laptop_def client_mac_def)
qed

lemma poll_shows_each_once_witness:
  "\<exists>out d'. poll (at_time 5) (JObj default_config) sample_sources (new_clients None) = (Inr out, d') \<and>
     client_mac ` set out = set (reported sample_sources) \<and> distinct (map client_mac out)"
proof (rule first_poll_ok)
  fix c d'
  assume p: "poll (at_time 5) (JObj default_config) sample_sources (new_clients None) = (Inr [c], d')"
  from poll_shows_each_once [OF new_clients_ok walks_at_time p] p show ?thesis
    by (simp add: new_clients_def)
qed

lemma clients_invariant_witness:
  "clients_ok (clients_after (\<lambda>_. Some) None [Poll (at_time 5) (JObj default_config) sample_sources,
     Update 6 ''aa-bb-cc-00-11-22'' [(''blocked'', JInt 1)], Poll (at_time 9) (JObj default_config) no_sources])"
  by (rule clients_invariant) simp

definition blocked_row :: client_row where
  "blocked_row = \<lparr>rw_hostname = None, rw_vendor = None, rw_first_seen = 5, rw_last_seen = 6, rw_network = None,
     rw_columns = [(''blocked'', JInt 1)]\<rparr>"

definition blocked_db :: client_db where
  "blocked_db = (new_clients None)\<lparr>cd_rows := [(''aa:bb:cc:00:11:22'', blocked_row)]\<rparr>"

lemma poll_total: "subnet_index cfg = Inr index \<Longrightarrow> \<exists>out d'. poll su cfg src d = (Inr out, d')"
  by (simp add: poll_def Let_def split: prod.split)

lemma poll_keeps_rows_witness:
  "\<exists>out d' row'. poll (at_time 9) (JObj default_config) no_sources blocked_db = (Inr out, d') \<and>
     map_of (cd_rows d') ''aa:bb:cc:00:11:22'' = Some row' \<and> rw_first_seen row' = 5 \<and> rw_last_seen row' = 6 \<and>
     rw_columns row' = [(''blocked'', JInt 1)]"
proof -
  have "is_ok (subnet_index (JObj default_config))" by code_simp
  then obtain out d' where p: "poll (at_time 9) (JObj default_config) no_sources blocked_db = (Inr out, d')"
    using poll_total by (metis is_ok_iff)
  have row: "map_of (cd_rows blocked_db) ''aa:bb:cc:00:11:22'' = Some blocked_row" by (simp add: blocked_db_def)
  have "''aa:bb:cc:00:11:22'' \<notin> set (reported no_sources)" by code_simp
  with poll_keeps_rows [OF p row] p show ?thesis by (auto simp: blocked_row_def)
qed

lemma poll_history_exact_witness:
  "\<exists>out d' index. poll (at_time 5) (JObj default_config) sample_sources (new_clients None) = (Inr out, d') \<and>
     subnet_index (JObj default_config) = Inr index \<and>
     cd_history d' = take CLIENT_HISTORY (rev (map (arrival 5) (resolved index sample_sources)))"
proof (rule first_poll_ok)
  fix c d'
  assume p: "poll (at_time 5) (JObj default_config) sample_sources (new_clients None) = (Inr [c], d')"
  then obtain index where i: "subnet_index (JObj default_config) = Inr index" by (cases rule: poll_cases) simp
  have "new_macs m (new_clients None) = m" for m by (simp add: new_macs_def new_clients_def split_def)
  with poll_history_exact [OF new_clients_ok p i] p i show ?thesis
    by (simp add: at_time_def new_clients_def)
qed

lemma wired_client_in_its_network_witness:
  "\<exists>c d'. poll (at_time 5) (JObj default_config) sample_sources (new_clients None) = (Inr [c], d') \<and>
     si_network (cn_seen c) = Some ''default''"
proof (rule first_poll_ok)
  fix c d'
  assume p: "poll (at_time 5) (JObj default_config) sample_sources (new_clients None) = (Inr [c], d')"
    and c: "client_mac c = ''aa:bb:cc:00:11:22''" "si_station (cn_seen c) = None"
      "si_ipv4 (cn_seen c) = Some ''192.168.2.20''"
  let ?net = "snd (hd (sub ''networks'' default_config))"
  have "sub ''networks'' default_config = [(''default'', ?net)]" by code_simp
  then have n: "(''default'', ?net) \<in> set (sub ''networks'' default_config)" by (metis list.set_intros(1))
  have s: "network_subnet ?net = [(3232236033, 24)]" and a: "ip_address ''192.168.2.20'' = Some (IP4 3232236052)"
    and i: "in_network 3232236052 (3232236033, 24)" and r: "client_mac c \<in> set (reported sample_sources)"
    unfolding c(1) by code_simp+
  have "si_network (cn_seen c) = Some ''default''"
    by (rule wired_client_in_its_network [OF validate_default p new_clients_ok walks_at_time _ r c(2,3) a n s i]) simp
  with p show ?thesis by blast
qed

text \<open>The lease file names a DHCPv6 client by its association number instead of an address; the poll
  takes it for one, so a device without a hardware address enters the database.\<close>

lemma dhcpv6_lease_makes_client:
  assumes "subnet_index cfg = Inr index"
  shows "\<exists>ls. leases ''1700000000 305419896 fd00::10 phone 00:01:00:01'' = Inr ls \<and>
    ''305419896'' \<in> fst ` set (cd_rows (snd (poll su cfg (no_sources\<lparr>so_leases := ls\<rparr>) d)))"
proof -
  define l where "l = \<lparr>ls_expires = 1700000000, ls_mac = ''305419896'', ls_address = ''fd00::10'',
    ls_hostname = Some ''phone'', ls_client_id = Some ''00:01:00:01''\<rparr>"
  have ls: "leases ''1700000000 305419896 fd00::10 phone 00:01:00:01'' = Inr [l]" unfolding l_def by code_simp
  have "normalise_mac ''305419896'' = ''305419896''" by code_simp
  then have r: "''305419896'' \<in> set (reported (no_sources\<lparr>so_leases := [l]\<rparr>))"
    by (simp add: reported_def l_def)
  obtain out d' where p: "poll su cfg (no_sources\<lparr>so_leases := [l]\<rparr>) d = (Inr out, d')"
    using poll_total [OF assms] by blast
  with poll_row_keys [OF p] r ls show ?thesis by auto
qed

end
