(* ===== verification/DpiSafety.thy ===== *)
theory DpiSafety
  imports Dpi ClientsSafety
begin

text \<open>
  What traffic identification guarantees: the counters stay consistent and nothing a flow carried is
  lost or counted twice within one pass over the event file, the three tables of the summary agree,
  the engine only runs with a configuration that passed its test; and where it fails, a backlog
  longer than one poll takes is counted again and again, and IPv6 flows never count.
\<close>

subsection \<open>The counters\<close>

text \<open>The invariant: one bucket per hour, client and protocol, counters that are not negative, one
  class per remembered flow, no more remembered flows than the limit, no more flows than events.\<close>

definition bucket_ok :: "bucket \<Rightarrow> bool" where
  "bucket_ok b \<longleftrightarrow> 0 \<le> bk_rx b \<and> 0 \<le> bk_tx b \<and> 0 \<le> bk_rx_packets b \<and> 0 \<le> bk_tx_packets b"

definition dpi_ok :: "dpi \<Rightarrow> bool" where
  "dpi_ok d \<longleftrightarrow> distinct (map fst (dp_buckets d)) \<and> list_all (\<lambda>(_, b). bucket_ok b) (dp_buckets d) \<and>
     distinct (map fst (dp_flow_apps d)) \<and> length (dp_flow_apps d) \<le> FLOW_APPS \<and>
     dp_accepted d \<le> dp_events_seen d"

definition flow_ok :: "flow_sum \<Rightarrow> bool" where
  "flow_ok f \<longleftrightarrow> 0 \<le> fs_rx f \<and> 0 \<le> fs_tx f \<and> 0 \<le> fs_rx_packets f \<and> 0 \<le> fs_tx_packets f"

lemma flow_count_nonneg: "flow_count k flow = Inr n \<Longrightarrow> 0 \<le> n"
  by (auto simp: flow_count_def rbind_eq_Inr split: if_splits)

lemma flow_sums_ok: "flow_sums l c e = Inr f \<Longrightarrow> flow_ok f \<and> fs_ip f = show_ip c"
  by (auto simp: flow_sums_def Let_def rbind_eq_Inr flow_ok_def dest: flow_count_nonneg split: if_splits)

lemma update_all:
  "list_all (\<lambda>(_, b). P b) d \<Longrightarrow> P v \<Longrightarrow> list_all (\<lambda>(_, b). P b) (AList.update k v d)"
  by (induction d) auto

lemma count_flow_ok:
  assumes "distinct (map fst bs)" and "list_all (\<lambda>(_, b). bucket_ok b) bs" and "flow_ok f"
  shows "distinct (map fst (count_flow t who c f bs)) \<and> list_all (\<lambda>(_, b). bucket_ok b) (count_flow t who c f bs)"
proof -
  have "bucket_ok b" if "map_of bs k = Some b" for k b
    using assms(2) that by (auto simp: list_all_iff dest!: map_of_SomeD)
  then show ?thesis using assms
    by (auto simp: count_flow_def Let_def distinct_keys_update bucket_ok_def flow_ok_def
        intro!: update_all split: option.split)
qed

lemma flow_class_frame:
  assumes "flow_class i e d = (c, d1)"
  shows "dp_buckets d1 = dp_buckets d" "dp_events_seen d1 = dp_events_seen d" "dp_accepted d1 = dp_accepted d"
    "dp_flow_apps d1 = dp_flow_apps d \<or> dp_flow_apps d1 = AList.delete i (dp_flow_apps d)"
    "dp_offset d1 = dp_offset d" "dp_inode d1 = dp_inode d"
  using assms by (auto simp: flow_class_def Let_def split: option.splits prod.splits if_splits)

lemma delete_length: "length (AList.delete k d) \<le> length d"
  by (induction d) auto

lemma remember_ok:
  assumes "distinct (map fst apps)"
  shows "distinct (map fst (keep_last n (AList.delete k apps @ [(k, c)])))"
proof -
  have "distinct (map fst (AList.delete k apps @ [(k, c)]))"
    using assms distinct_keys_delete [OF assms, of k] by (auto simp: alist.keys_remove)
  then show ?thesis unfolding keep_last_def drop_map [symmetric] by (rule distinct_drop)
qed

lemma ingest_flow_ok:
  assumes "dpi_ok d" and "dp_accepted d < dp_events_seen d"
  shows "dpi_ok (snd (ingest_flow cfg live t event d))"
proof -
  obtain c d1 where fc: "flow_class (flow_id_of event) event d = (c, d1)" by fastforce
  have "distinct (map fst (dp_flow_apps d1)) \<and> length (dp_flow_apps d1) \<le> FLOW_APPS"
    using flow_class_frame(4) [OF fc] assms(1) delete_length [of "flow_id_of event" "dp_flow_apps d"]
    by (auto simp: dpi_ok_def distinct_keys_delete)
  then show ?thesis
    using assms flow_class_frame(1-3) [OF fc]
    by (auto simp: ingest_flow_def fc dpi_ok_def Let_def count_flow_ok dest!: flow_sums_ok split: option.split sum.split)
qed

lemma ingest_ok:
  assumes "dpi_ok d"
  shows "dpi_ok (snd (ingest cfg live t j d))"
proof -
  let ?d = "d\<lparr>dp_events_seen := Suc (dp_events_seen d), dp_last_event := Some t\<rparr>"
  have d: "dpi_ok ?d" "dp_accepted ?d < dp_events_seen ?d" using assms by (auto simp: dpi_ok_def)
  moreover have "dpi_ok (remember_flow i c ?d)" for i c
    using d(1) by (simp add: dpi_ok_def remember_flow_def remember_ok, simp add: keep_last_def)
  ultimately show ?thesis
    by (auto simp: ingest_def Let_def ingest_flow_ok split: json.split option.split)
qed

lemma tail_loop_ok: "dpi_ok d \<Longrightarrow> dpi_ok (snd (snd (tail_loop loads cfg live t limit ls k d)))"
proof (induction ls arbitrary: k d)
  case (Cons line ls)
  show ?case
  proof (cases "loads line")
    case None
    have "dpi_ok (d\<lparr>dp_parse_errors := Suc (dp_parse_errors d)\<rparr>)" using Cons.prems by (simp add: dpi_ok_def)
    with None show ?thesis using Cons by simp
  next
    case (Some j)
    obtain r d1 where i: "ingest cfg live t j d = (r, d1)" by fastforce
    with ingest_ok [OF Cons.prems, of cfg live t j] have "dpi_ok d1" by simp
    with Cons Some i show ?thesis by (simp split: sum.split)
  qed
qed simp

text \<open>C16. Whatever the event file holds, valid or not, and however often it is read: the counters keep one
  row per hour, client and protocol, never go negative, and neither the remembered flows nor the
  number of accepted flows grow beyond their bounds.\<close>

theorem counters_stay_consistent: "dpi_ok (dpi_run loads polls new_dpi)"
proof -
  have p: "dpi_ok (prune t h d)" if "dpi_ok d" for t h d
    using that by (auto simp: dpi_ok_def prune_def list_all_iff distinct_map_filter)
  have r: "dpi_ok (rewind f d)" if "dpi_ok d" for f d
    using that by (simp add: dpi_ok_def rewind_def)
  have step: "dpi_ok (snd (dpi_poll loads cfg live t limit eve d))" if "dpi_ok d" for cfg live t limit eve d
  proof (cases eve)
    case (Some f)
    let ?d = "rewind f d"
    obtain e n d1 where l: "tail_loop loads cfg live t limit (eve_lines (drop (dp_offset ?d) (ef_content f))) 0 ?d = (e, n, d1)"
      by (metis prod_cases3)
    with tail_loop_ok [OF r [OF that], of loads cfg live t limit "eve_lines (drop (dp_offset (rewind f d)) (ef_content f))" 0 f]
    have "dpi_ok d1" by simp
    then have "dpi_ok (d1\<lparr>dp_offset := k\<rparr>)" "dpi_ok (d1\<lparr>dp_error := m\<rparr>)" for k m by (simp_all add: dpi_ok_def)
    with \<open>dpi_ok d1\<close> show ?thesis
      by (simp add: dpi_poll_def Some l Let_def p split: tail_end.split sum.split)
  qed (simp add: dpi_poll_def that)
  have "dpi_ok d \<Longrightarrow> dpi_ok (dpi_run loads polls d)" for d
    by (induction polls arbitrary: d) (auto simp: dpi_run_def step)
  then show ?thesis by (simp add: dpi_ok_def new_dpi_def)
qed

subsection \<open>Nothing lost, nothing twice\<close>

definition total :: "(bucket \<Rightarrow> int) \<Rightarrow> dpi \<Rightarrow> int" where
  "total f d = (\<Sum>(_, b) \<leftarrow> dp_buckets d. f b)"

lemma sum_update:
  fixes f :: "'b \<Rightarrow> int"
  assumes "distinct (map fst d)"
  shows "(\<Sum>(_, b) \<leftarrow> AList.update k v d. f b) =
    (\<Sum>(_, b) \<leftarrow> d. f b) + f v - (case map_of d k of None \<Rightarrow> 0 | Some b \<Rightarrow> f b)"
  using assms by (induction d) (auto simp: map_of_eq_None_iff split: option.split)

lemma count_flow_total:
  assumes "distinct (map fst bs)"
  shows "(\<Sum>(_, b) \<leftarrow> count_flow t who c f bs. bk_rx b) = (\<Sum>(_, b) \<leftarrow> bs. bk_rx b) + fs_rx f"
    and "(\<Sum>(_, b) \<leftarrow> count_flow t who c f bs. bk_tx b) = (\<Sum>(_, b) \<leftarrow> bs. bk_tx b) + fs_tx f"
    and "(\<Sum>(_, b) \<leftarrow> count_flow t who c f bs. bk_rx_packets b) = (\<Sum>(_, b) \<leftarrow> bs. bk_rx_packets b) + fs_rx_packets f"
    and "(\<Sum>(_, b) \<leftarrow> count_flow t who c f bs. bk_tx_packets b) = (\<Sum>(_, b) \<leftarrow> bs. bk_tx_packets b) + fs_tx_packets f"
  using assms by (simp_all add: count_flow_def Let_def sum_update split: option.split)

lemma count_flow_other: "k \<noteq> (hour_of t, who, ac_protocol c) \<Longrightarrow> map_of (count_flow t who c f bs) k = map_of bs k"
  by (simp add: count_flow_def Let_def update_conv')

lemma remember_buckets [simp]: "dp_buckets (remember_flow i c d) = dp_buckets d"
  by (simp add: remember_flow_def)

lemma ingest_refused: "ingest cfg live t j d = (r, d') \<Longrightarrow> r \<noteq> Inr True \<Longrightarrow> dp_buckets d' = dp_buckets d"
  by (auto simp: ingest_def ingest_flow_def Let_def split: json.splits option.splits sum.splits prod.splits if_splits)

lemma ingest_accepted:
  assumes "ingest cfg live t j d = (Inr True, d')"
  shows "\<exists>event src_local client f c. j = JObj event \<and> flow_ends cfg event = Some (src_local, client) \<and>
    flow_sums src_local client event = Inr f \<and>
    dp_buckets d' = count_flow t (identity_of live (fs_ip f)) c f (dp_buckets d)"
proof (cases j)
  case (JObj event)
  let ?d = "d\<lparr>dp_events_seen := Suc (dp_events_seen d), dp_last_event := Some t\<rparr>"
  have f: "ingest_flow cfg live t event ?d = (Inr True, d')"
    using assms by (auto simp: ingest_def JObj Let_def split: option.splits if_splits)
  then obtain l c where e: "flow_ends cfg event = Some (l, c)"
    by (auto simp: ingest_flow_def split: option.splits)
  with f obtain s where s: "flow_sums l c event = Inr s" by (auto simp: ingest_flow_def split: sum.splits)
  obtain k d1 where k: "flow_class (flow_id_of event) event ?d = (k, d1)" by fastforce
  have "dp_buckets d' = count_flow t (identity_of live (fs_ip s)) k s (dp_buckets d)"
    using f flow_class_frame(1) [OF k] by (auto simp: ingest_flow_def e s k)
  with JObj e s show ?thesis by blast
qed (use assms in \<open>simp_all add: ingest_def\<close>)

text \<open>An address of the home: it lies between the first and the last address of a network of the document.\<close>

definition at_home :: "json \<Rightarrow> int \<Rightarrow> bool" where
  "at_home cfg n \<longleftrightarrow> list_ex (\<lambda>(_, net). list_ex (\<lambda>s. network_address s \<le> n \<and> n \<le> broadcast_address s) (network_subnet net))
     (sub ''networks'' (obj_of cfg))"

text \<open>What the event says the flow carried, where a missing or negative counter is zero.\<close>

definition carried :: "string \<Rightarrow> obj \<Rightarrow> int" where
  "carried k event = (case map_of (sub ''flow'' event) k of Some (JInt n) \<Rightarrow> max 0 n | _ \<Rightarrow> 0)"

definition counters_are_numbers :: "obj \<Rightarrow> bool" where
  "counters_are_numbers event \<longleftrightarrow> list_all (\<lambda>k. case map_of (sub ''flow'' event) k of None \<Rightarrow> True | Some (JInt _) \<Rightarrow> True | _ \<Rightarrow> False)
     [''bytes_toserver'', ''bytes_toclient'', ''pkts_toserver'', ''pkts_toclient'']"

lemma at_home_local: "is_local (dpi_subnets cfg) (IP4 n) \<longleftrightarrow> at_home cfg n"
proof -
  have "list_ex P (concat (map f xs)) \<longleftrightarrow> list_ex (\<lambda>x. list_ex P (f x)) xs" for P and f :: "string \<times> json \<Rightarrow> ipv4_net list" and xs
    by (induction xs) auto
  moreover have "in_network n = (\<lambda>s. network_address s \<le> n \<and> n \<le> broadcast_address s)" for n
    by (rule ext) (rule in_network_range)
  ultimately show ?thesis by (simp add: is_local_def dpi_subnets_def at_home_def split_def)
qed

lemma flow_count_carried:
  assumes "case map_of (sub ''flow'' event) k of None \<Rightarrow> True | Some (JInt _) \<Rightarrow> True | _ \<Rightarrow> False"
  shows "flow_count k (sub ''flow'' event) = Inr (carried k event)"
  using assms by (auto simp: flow_count_def carried_def is_set_def get_null_def get_or_def py_int_def rbind_def
      split: option.splits json.splits)

lemma flow_sums_carried:
  assumes "counters_are_numbers event"
  shows "flow_sums True client event = Inr \<lparr>fs_ip = show_ip client, fs_rx = carried ''bytes_toclient'' event,
      fs_tx = carried ''bytes_toserver'' event, fs_rx_packets = carried ''pkts_toclient'' event,
      fs_tx_packets = carried ''pkts_toserver'' event\<rparr>"
    and "flow_sums False client event = Inr \<lparr>fs_ip = show_ip client, fs_rx = carried ''bytes_toserver'' event,
      fs_tx = carried ''bytes_toclient'' event, fs_rx_packets = carried ''pkts_toserver'' event,
      fs_tx_packets = carried ''pkts_toclient'' event\<rparr>"
  using assms by (simp_all add: counters_are_numbers_def flow_sums_def flow_count_carried Let_def rbind_def)

text \<open>C15. A flow between two IPv4 addresses is counted exactly when one of them is at home and the other is not. Then
  the received bytes and packets grow by what the event says went to the home address, the sent ones by
  what came from it, whichever side opened the flow; and only one row can change, that of the hour, of
  the client with the home address and of one protocol. A flow within the home, or past it, changes no row.\<close>

theorem flow_counted_exactly:
  assumes "dpi_ok d" and "get_null ''event_type'' event = JStr ''flow''" and "counters_are_numbers event"
    and "get_null ''src_ip'' event = JStr s" and "ip_address s = Some (IP4 src)"
    and "get_null ''dest_ip'' event = JStr u" and "ip_address u = Some (IP4 dst)"
    and "ingest cfg live t (JObj event) d = (r, d')"
  shows "if at_home cfg src = at_home cfg dst then r = Inr False \<and> dp_buckets d' = dp_buckets d
    else r = Inr True \<and>
      (let client = if at_home cfg src then src else dst;
           down = if at_home cfg src then ''toclient'' else ''toserver'';
           up = if at_home cfg src then ''toserver'' else ''toclient''
       in total bk_rx d' = total bk_rx d + carried (''bytes_'' @ down) event \<and>
          total bk_tx d' = total bk_tx d + carried (''bytes_'' @ up) event \<and>
          total bk_rx_packets d' = total bk_rx_packets d + carried (''pkts_'' @ down) event \<and>
          total bk_tx_packets d' = total bk_tx_packets d + carried (''pkts_'' @ up) event \<and>
          (\<exists>protocol. \<forall>k. k \<noteq> (hour_of t, identity_of live (show_ip (IP4 client)), protocol) \<longrightarrow>
            map_of (dp_buckets d') k = map_of (dp_buckets d) k))"
proof -
  let ?d = "d\<lparr>dp_events_seen := Suc (dp_events_seen d), dp_last_event := Some t\<rparr>"
  let ?client = "if at_home cfg src then src else dst"
  have i: "ingest_flow cfg live t event ?d = (r, d')" using assms(2,8) by (simp add: ingest_def Let_def)
  have ends: "flow_ends cfg event = (if at_home cfg src = at_home cfg dst then None else Some (at_home cfg src, IP4 ?client))"
    using assms(4-7) by (simp add: flow_ends_def at_home_local Let_def)
  show ?thesis
  proof (cases "at_home cfg src = at_home cfg dst")
    case True
    with i ends show ?thesis by (auto simp: ingest_flow_def)
  next
    case False
    obtain f where f: "flow_sums (at_home cfg src) (IP4 ?client) event = Inr f"
      using flow_sums_carried [OF assms(3)] by (cases "at_home cfg src") auto
    obtain c d1 where c: "flow_class (flow_id_of event) event ?d = (c, d1)" by fastforce
    have r: "r = Inr True" and b: "dp_buckets d' = count_flow t (identity_of live (fs_ip f)) c f (dp_buckets d)"
      using i flow_class_frame(1) [OF c] by (auto simp: ingest_flow_def ends False f c)
    have ip: "fs_ip f = show_ip (IP4 ?client)" using flow_sums_ok [OF f] by simp
    have dist: "distinct (map fst (dp_buckets d))" using assms(1) by (simp add: dpi_ok_def)
    have "\<forall>k. k \<noteq> (hour_of t, identity_of live (show_ip (IP4 ?client)), ac_protocol c) \<longrightarrow>
        map_of (dp_buckets d') k = map_of (dp_buckets d) k"
      by (simp only: b ip) (simp add: count_flow_other)
    moreover have "total bk_rx d' = total bk_rx d + fs_rx f" "total bk_tx d' = total bk_tx d + fs_tx f"
      "total bk_rx_packets d' = total bk_rx_packets d + fs_rx_packets f"
      "total bk_tx_packets d' = total bk_tx_packets d + fs_tx_packets f"
      by (simp_all add: total_def b count_flow_total [OF dist])
    ultimately show ?thesis
      using False r f flow_sums_carried [OF assms(3), of "IP4 ?client"] by (cases "at_home cfg src") (auto simp: Let_def)
  qed
qed

text \<open>IPv6 addresses are never local, because the subnets of a document are IPv4 networks.\<close>

lemma ipv6_flow_never_counts:
  assumes "get_null ''src_ip'' event = JStr s" and "get_null ''dest_ip'' event = JStr t"
    and "ip_address s = Some (IP6 a)" and "ip_address t = Some (IP6 b)"
  shows "flow_ends cfg event = None"
  using assms by (simp add: flow_ends_def is_local_def Let_def)

subsection \<open>Reading on\<close>

lemma tail_loop_position:
  assumes "tail_loop loads cfg live t limit ls k d = (e, n, d')"
  shows "dp_offset d' = dp_offset d \<and> dp_inode d' = dp_inode d \<and> dp_error d' = dp_error d"
  using assms
proof (induction ls arbitrary: k d)
  case (Cons line ls)
  have i: "dp_offset d1 = dp_offset d \<and> dp_inode d1 = dp_inode d \<and> dp_error d1 = dp_error d"
    if "ingest cfg live t j d = (r, d1)" for j r d1
    using that by (auto simp: ingest_def ingest_flow_def flow_class_def remember_flow_def Let_def
        split: json.splits option.splits sum.splits prod.splits if_splits)
  from Cons.prems show ?case
    by (auto split: if_splits option.splits prod.splits sum.splits dest!: Cons.IH i)
qed auto

text \<open>A file is read once: when a poll reaches the end of the event file, the next poll of the same file
  takes no line of it again, whatever the limit, and only drops buckets that are past their retention.\<close>

theorem file_read_once:
  assumes "dpi_poll loads cfg live t limit (Some f) d = (Inr n, d')" and "dp_error d' \<noteq> Some TELL_REFUSED"
    and "0 \<le> limit'"
  shows "\<exists>h. dpi_poll loads cfg live t' limit' (Some f) d' = (Inr 0, prune t' h d')"
proof -
  let ?d = "rewind f d"
  obtain e m d1 where l: "tail_loop loads cfg live t limit (eve_lines (drop (dp_offset ?d) (ef_content f))) 0 ?d = (e, m, d1)"
    by (metis prod_cases3)
  obtain h where h: "py_int (get_or (JInt 24) ''retention_hours'' (sub ''dpi'' (obj_of cfg))) = Inr h"
    using assms(1) by (auto simp: dpi_poll_def l Let_def split: tail_end.splits sum.splits)
  have e: "e = AtEnd"
    using assms(1,2) by (auto simp: dpi_poll_def l h Let_def prune_def split: tail_end.splits)
  have d': "d' = prune t h (d1\<lparr>dp_offset := length (ef_content f)\<rparr>)"
    using assms(1) by (simp add: dpi_poll_def l h e Let_def)
  have "dp_inode ?d = Some (ef_inode f)" by (simp add: rewind_def)
  then have "dp_inode d' = Some (ef_inode f)" "dp_offset d' = length (ef_content f)"
    using tail_loop_position [OF l] by (simp_all add: d' prune_def)
  then have "rewind f d' = d'" by (simp add: rewind_def)
  with \<open>dp_offset d' = length (ef_content f)\<close> have
    "dpi_poll loads cfg live t' limit' (Some f) d' = (Inr 0, prune t' h (d'\<lparr>dp_offset := dp_offset d'\<rparr>))"
    by (simp add: dpi_poll_def h Let_def)
  then show ?thesis by auto
qed

text \<open>A backlog is counted again and again: when a poll stops at its limit, the position in the file stays
  where the poll began, so the next poll of the file takes the same lines again.\<close>

theorem backlog_read_again:
  assumes "tail_loop loads cfg live t limit (eve_lines (drop (dp_offset (rewind f d)) (ef_content f))) 0 (rewind f d) =
      (AtLimit, n, d1)"
    and "dpi_poll loads cfg live t limit (Some f) d = (Inr k, d')"
  shows "k = n \<and> dp_error d' = Some TELL_REFUSED \<and> rewind f d' = d' \<and> dp_offset d' = dp_offset (rewind f d)"
proof -
  obtain h where h: "py_int (get_or (JInt 24) ''retention_hours'' (sub ''dpi'' (obj_of cfg))) = Inr h"
    using assms(2) by (auto simp: dpi_poll_def assms(1) Let_def split: tail_end.splits sum.splits)
  have d': "d' = prune t h (d1\<lparr>dp_error := Some TELL_REFUSED\<rparr>)" "k = n"
    using assms(2) by (simp_all add: dpi_poll_def assms(1) h Let_def)
  have "dp_inode (rewind f d) = Some (ef_inode f)" "dp_offset (rewind f d) \<le> length (ef_content f)"
    by (simp_all add: rewind_def)
  then show ?thesis using tail_loop_position [OF assms(1)] by (simp add: d' prune_def rewind_def)
qed

subsection \<open>The summary\<close>

lemma total_eq: "total f d = (\<Sum>b \<leftarrow> map snd (dp_buckets d). f b)"
  by (simp add: total_def split_def comp_def)

lemma sum_groups:
  fixes f :: "'b \<Rightarrow> int"
  assumes "distinct gs" and "g ` set xs \<subseteq> set gs"
  shows "(\<Sum>k \<leftarrow> gs. \<Sum>x \<leftarrow> filter (\<lambda>x. g x = k) xs. f x) = (\<Sum>x \<leftarrow> xs. f x)"
  using assms
proof (induction xs)
  case (Cons x xs)
  have "(\<Sum>k \<leftarrow> gs. \<Sum>y \<leftarrow> filter (\<lambda>y. g y = k) (x # xs). f y) =
      (\<Sum>k \<leftarrow> gs. if g x = k then f x else 0) + (\<Sum>k \<leftarrow> gs. \<Sum>y \<leftarrow> filter (\<lambda>y. g y = k) xs. f y)"
    by (induction gs) auto
  also have "(\<Sum>k \<leftarrow> gs. if g x = k then f x else 0) = f x"
    using Cons.prems by (simp add: sum_list_distinct_conv_sum_set)
  finally show ?case using Cons by simp
qed simp

lemma group_sums:
  "(\<Sum>g \<leftarrow> flow_groups bs. fr_rx (group_row g bs)) = (\<Sum>b \<leftarrow> map snd bs. bk_rx b)"
  "(\<Sum>g \<leftarrow> flow_groups bs. fr_tx (group_row g bs)) = (\<Sum>b \<leftarrow> map snd bs. bk_tx b)"
proof -
  let ?g = "\<lambda>((_, who, protocol), _). (who, protocol)"
  have "(\<Sum>k \<leftarrow> flow_groups bs. \<Sum>x \<leftarrow> filter (\<lambda>x. ?g x = k) bs. f (snd x)) = (\<Sum>x \<leftarrow> bs. f (snd x))"
    for f :: "bucket \<Rightarrow> int"
    by (rule sum_groups) (auto simp: flow_groups_def)
  from this [of bk_rx] this [of bk_tx] show
    "(\<Sum>g \<leftarrow> flow_groups bs. fr_rx (group_row g bs)) = (\<Sum>b \<leftarrow> map snd bs. bk_rx b)"
    "(\<Sum>g \<leftarrow> flow_groups bs. fr_tx (group_row g bs)) = (\<Sum>b \<leftarrow> map snd bs. bk_tx b)"
    by (simp_all add: group_row_def Let_def comp_def split_def)
qed

lemma sum_list_sort_key: "(\<Sum>x \<leftarrow> sort_key k xs. (f x :: int)) = (\<Sum>x \<leftarrow> xs. f x)"
proof -
  have "mset (map f (sort_key k xs)) = mset (map f xs)" by (simp add: mset_map)
  then show ?thesis by (metis sum_mset_sum_list)
qed

lemma flow_rows_total:
  assumes "length (flow_groups (dp_buckets d)) \<le> nat (max 1 (min limit 5000))"
  shows "(\<Sum>r \<leftarrow> flow_rows limit d. fr_rx r) = total bk_rx d" "(\<Sum>r \<leftarrow> flow_rows limit d. fr_tx r) = total bk_tx d"
  using assms by (simp_all add: flow_rows_def sum_list_sort_key comp_def group_sums total_eq)

text \<open>A table gains exactly what a row carries.\<close>

lemma tally_sums:
  assumes "distinct (map fst tbl)"
  shows "(\<Sum>(_, _, rx, _) \<leftarrow> tally label key r tbl. rx) = (\<Sum>(_, _, rx, _) \<leftarrow> tbl. rx) + fr_rx r"
    "(\<Sum>(_, _, _, tx) \<leftarrow> tally label key r tbl. tx) = (\<Sum>(_, _, _, tx) \<leftarrow> tbl. tx) + fr_tx r"
    "distinct (map fst (tally label key r tbl))"
proof -
  have u: "(\<Sum>(_, x) \<leftarrow> AList.update k v tbl. f x) = (\<Sum>(_, x) \<leftarrow> tbl. f x) + f v - f w"
    if "map_of tbl k = Some w" for k v w and f :: "_ \<Rightarrow> int"
    using sum_update [OF assms, of f k v] that by simp
  show "(\<Sum>(_, _, rx, _) \<leftarrow> tally label key r tbl. rx) = (\<Sum>(_, _, rx, _) \<leftarrow> tbl. rx) + fr_rx r"
    using u [where f = "\<lambda>(_, rx, _). rx"] by (auto simp: tally_def split: option.split)
  show "(\<Sum>(_, _, _, tx) \<leftarrow> tally label key r tbl. tx) = (\<Sum>(_, _, _, tx) \<leftarrow> tbl. tx) + fr_tx r"
    using u [where f = "\<lambda>(_, _, tx). tx"] by (auto simp: tally_def split: option.split)
  show "distinct (map fst (tally label key r tbl))"
    using assms by (auto simp: tally_def distinct_keys_update map_of_eq_None_iff split: option.split)
qed

lemma fold_tally:
  assumes "distinct (map fst tbl)"
  shows "(\<Sum>(_, _, rx, _) \<leftarrow> fold (tally label key) rows tbl. rx) = (\<Sum>(_, _, rx, _) \<leftarrow> tbl. rx) + (\<Sum>r \<leftarrow> rows. fr_rx r) \<and>
    (\<Sum>(_, _, _, tx) \<leftarrow> fold (tally label key) rows tbl. tx) = (\<Sum>(_, _, _, tx) \<leftarrow> tbl. tx) + (\<Sum>r \<leftarrow> rows. fr_tx r)"
  using assms by (induction rows arbitrary: tbl) (simp_all add: tally_sums)

definition sums_to :: "('k \<times> 'v \<times> int \<times> int) list \<Rightarrow> int \<Rightarrow> int \<Rightarrow> bool" where
  "sums_to tbl rx tx \<longleftrightarrow> (\<Sum>(_, _, r, _) \<leftarrow> tbl. r) = rx \<and> (\<Sum>(_, _, _, t) \<leftarrow> tbl. t) = tx"

lemma ordered_sums: "sums_to (ordered (fold (tally label key) rows [])) (\<Sum>r \<leftarrow> rows. fr_rx r) (\<Sum>r \<leftarrow> rows. fr_tx r)"
  using fold_tally [of "[]" label key rows] by (simp add: sums_to_def ordered_def sum_list_sort_key)

text \<open>The summary accounts for every byte: while no more than 500 pairs of a client and a protocol have
  been seen, the tables of applications, of categories and of clients each add up to the bytes in the
  buckets, received and sent.\<close>

theorem summary_accounts_for_all:
  assumes "length (flow_groups (dp_buckets d)) \<le> 500"
  shows "sums_to (sm_applications (dpi_summary_of d)) (total bk_rx d) (total bk_tx d) \<and>
    sums_to (sm_categories (dpi_summary_of d)) (total bk_rx d) (total bk_tx d) \<and>
    sums_to (sm_clients (dpi_summary_of d)) (total bk_rx d) (total bk_tx d)"
proof -
  have "length (flow_groups (dp_buckets d)) \<le> nat (max 1 (min 500 5000))" using assms by simp
  note r = flow_rows_total [OF this]
  show ?thesis unfolding dpi_summary_of_def Let_def
    by (simp, intro conjI; rule ordered_sums [where rows = "flow_rows 500 d", unfolded r])
qed

subsection \<open>The engine\<close>

lemma run_engine_three:
  "run_engine [(a, x), (b, y), (c, z)] = (case x of Some e \<Rightarrow> (Some e, [a]) | None \<Rightarrow>
     (case y of Some e \<Rightarrow> (Some e, [a, b]) | None \<Rightarrow> (z, [a, b, c])))"
  by (simp split: option.split)

lemma accepted_render:
  assumes "validate caps (JObj cfg) = Inr (JObj out, w)"
  shows "\<exists>conf. render_suricata (JObj out) = Inr conf"
proof -
  have "\<exists>y. (case x of (_, net) \<Rightarrow> case network_text (text_of (get_null ''subnet'' (obj_of net))) of
         None \<Rightarrow> Inl (Raised ValueError) | Some s \<Rightarrow> Inr s) = (Inr y :: verr + string)"
    if "x \<in> set (filter (\<lambda>(_, net). is_set ''subnet'' (obj_of net)) (sub ''networks'' out))" for x
  proof -
    obtain nid net where x: "x = (nid, net)" by fastforce
    with that have "(nid, net) \<in> set (sub ''networks'' out)" "is_set ''subnet'' (obj_of net)" by simp_all
    with accepted_subnets [OF assms] obtain s n where
      "get_null ''subnet'' (obj_of net) = JStr s" "parse_ipv4_net s = Some n" by blast
    then show ?thesis by (simp add: x network_text_def text_of_def the_default_def)
  qed
  then have "\<exists>ys. rmap (\<lambda>(_, net). case network_text (text_of (get_null ''subnet'' (obj_of net))) of
         None \<Rightarrow> Inl (Raised ValueError) | Some s \<Rightarrow> Inr s)
      (filter (\<lambda>(_, net). is_set ''subnet'' (obj_of net)) (sub ''networks'' out)) = Inr ys"
    by (rule rmap_total)
  then have "\<exists>ys. home_nets (JObj out) = Inr ys" by (simp add: home_nets_def obj_of_def)
  then show ?thesis by (auto simp: render_suricata_def suricata_lines_def Let_def)
qed

text \<open>Traffic identification is observational: for an accepted document its applier always reports success,
  whatever the file system and Suricata answer, so it can never roll back a commit; Suricata is only
  started with a configuration that was written and passed its test, and after any failure it is
  stopped.\<close>

theorem engine_never_fails_a_commit:
  assumes "validate caps (JObj cfg) = Inr (JObj out, w)"
    and "dpi_apply tools t (JObj out) (d, bus) = (r, ss, d', bus')"
  shows "(\<exists>res. r = Inr res \<and> ar_ok res) \<and>
    (StartEngine \<in> set ss \<longrightarrow> (\<exists>conf. ss ! 1 = WriteConfig conf \<and> et_write tools conf = None \<and> et_test tools conf = None)) \<and>
    (dp_error d' \<noteq> None \<longrightarrow> last ss = StopEngine)"
proof -
  obtain conf where c: "render_suricata (JObj out) = Inr conf" using accepted_render [OF assms(1)] by blast
  obtain e sx where run: "run_engine [(WriteConfig conf, et_write tools conf), (TestConfig, et_test tools conf),
      (StartEngine, et_start tools conf)] = (e, sx)" by fastforce
  then have sx: "StartEngine \<in> set sx \<Longrightarrow> hd sx = WriteConfig conf \<and> et_write tools conf = None \<and> et_test tools conf = None"
    "sx \<noteq> []"
    unfolding run_engine_three by (auto split: option.splits)
  consider (off) "r = Inr (engine_result ''traffic identification disabled'')" "ss = [StopEngine]" "dp_error d' = None"
    | (on) "r = Inr (engine_result ''traffic identification enabled with Suricata'')" "ss = StopEngine # sx" "dp_error d' = None"
    | (bad) m where "r = Inr (engine_result m)" "ss = StopEngine # sx @ [StopEngine]"
    using assms(2) unfolding dpi_apply_def prod.case c sum.case run
    by (cases "is_set ''enabled'' (sub ''dpi'' (obj_of (JObj out)))"; cases e) auto
  then show ?thesis using sx by cases (auto simp: engine_result_def nth_append hd_conv_nth)
qed

text \<open>A network with VLAN 1 lives on the bridge itself, but the capture is set up on an interface that does
  not exist; for any other VLAN number the two agree.\<close>

lemma capture_misses_vlan_1:
  "capture_interface [(''vlan'', JInt 1)] = ''br-lan.1'' \<and> net_interface_for [(''vlan'', JInt 1)] = ''br-lan''"
  by code_simp

lemma capture_interface_agrees:
  assumes "get_null ''vlan'' net = JInt n" and "1 < n"
  shows "capture_interface net = net_interface_for net"
  using assms by (simp add: capture_interface_def net_interface_for_def is_set_def BRIDGE_def num_of.simps)

subsection \<open>Samples\<close>

definition sample_flow :: obj where
  "sample_flow = [(''event_type'', JStr ''flow''), (''src_ip'', JStr ''192.168.2.20''), (''dest_ip'', JStr ''1.1.1.1''),
     (''app_proto'', JStr ''tls''), (''flow'', JObj [(''bytes_toserver'', JInt 10), (''bytes_toclient'', JInt 90)])]"

definition home_document :: json where
  "home_document = JObj [(''networks'', JObj [(''default'', JObj [(''subnet'', JStr ''192.168.2.1/24'')])])]"

definition sample_loads :: "string \<Rightarrow> json option" where
  "sample_loads line = (if line = [CHR ''a'', newline] then Some (JObj sample_flow) else None)"

text \<open>Two lines, each a flow.\<close>

definition sample_eve :: event_file where
  "sample_eve = \<lparr>ef_inode = 7, ef_content = [CHR ''a'', newline, CHR ''a'', newline]\<rparr>"

lemma new_dpi_ok: "dpi_ok new_dpi"
  by (simp add: dpi_ok_def new_dpi_def)

lemma flow_counted_exactly_witness:
  "\<exists>d'. ingest home_document [] 7200 (JObj sample_flow) new_dpi = (Inr True, d') \<and>
     total bk_rx d' = 90 \<and> total bk_tx d' = 10"
proof -
  obtain r d' where i: "ingest home_document [] 7200 (JObj sample_flow) new_dpi = (r, d')" by fastforce
  have e: "get_null ''event_type'' sample_flow = JStr ''flow''" "counters_are_numbers sample_flow"
    "get_null ''src_ip'' sample_flow = JStr ''192.168.2.20''" "ip_address ''192.168.2.20'' = Some (IP4 3232236052)"
    "get_null ''dest_ip'' sample_flow = JStr ''1.1.1.1''" "ip_address ''1.1.1.1'' = Some (IP4 16843009)"
    "at_home home_document 3232236052" "\<not> at_home home_document 16843009"
    "carried ''bytes_toclient'' sample_flow = 90" "carried ''bytes_toserver'' sample_flow = 10"
    by code_simp+
  from flow_counted_exactly [OF new_dpi_ok e(1-6) i] have "r = Inr True" "total bk_rx d' = 90" "total bk_tx d' = 10"
    by (simp_all add: e Let_def total_def new_dpi_def)
  with i show ?thesis by blast
qed

lemma sample_passes:
  "fst (tail_loop sample_loads home_document [] 7200 limit (eve_lines (ef_content sample_eve)) 0
      (rewind sample_eve new_dpi)) = (if limit = 1 then AtLimit else AtEnd)" if "limit \<in> {1, 5}"
  using that by (elim insertE emptyE; hypsubst; code_simp)

lemma sample_start: "drop (dp_offset (rewind sample_eve new_dpi)) (ef_content sample_eve) = ef_content sample_eve"
  by (simp add: rewind_def new_dpi_def)

lemma sample_hours: "py_int (get_or (JInt 24) ''retention_hours'' (sub ''dpi'' (obj_of home_document))) = Inr 24"
  by code_simp

lemma file_read_once_witness:
  "\<exists>n d' h. dpi_poll sample_loads home_document [] 7200 5 (Some sample_eve) new_dpi = (Inr n, d') \<and>
     dpi_poll sample_loads home_document [] 7230 5 (Some sample_eve) d' = (Inr 0, prune 7230 h d')"
proof -
  obtain e n d1 where l: "tail_loop sample_loads home_document [] 7200 5
      (eve_lines (drop (dp_offset (rewind sample_eve new_dpi)) (ef_content sample_eve))) 0 (rewind sample_eve new_dpi) = (e, n, d1)"
    by (metis prod_cases3)
  have e: "e = AtEnd" using sample_passes [of 5] l by (simp add: sample_start)
  then obtain d' where p: "dpi_poll sample_loads home_document [] 7200 5 (Some sample_eve) new_dpi = (Inr n, d')"
    and d': "dp_error d' = dp_error d1"
    using l by (simp add: dpi_poll_def Let_def sample_hours prune_def)
  have "dp_error d' \<noteq> Some TELL_REFUSED"
    using tail_loop_position [OF l] d' by (simp add: rewind_def new_dpi_def)
  from file_read_once [OF p this, of 5 7230] p show ?thesis by auto
qed

lemma backlog_read_again_witness:
  "\<exists>n d'. dpi_poll sample_loads home_document [] 7200 1 (Some sample_eve) new_dpi = (Inr n, d') \<and>
     dp_offset d' = 0 \<and> rewind sample_eve d' = d'"
proof -
  obtain e n d1 where l: "tail_loop sample_loads home_document [] 7200 1
      (eve_lines (drop (dp_offset (rewind sample_eve new_dpi)) (ef_content sample_eve))) 0 (rewind sample_eve new_dpi) = (e, n, d1)"
    by (metis prod_cases3)
  have e: "e = AtLimit" using sample_passes [of 1] l by (simp add: sample_start)
  then obtain d' where p: "dpi_poll sample_loads home_document [] 7200 1 (Some sample_eve) new_dpi = (Inr n, d')"
    using l by (simp add: dpi_poll_def Let_def sample_hours)
  from backlog_read_again [OF l [unfolded e] p] p show ?thesis by (auto simp: rewind_def new_dpi_def)
qed

lemma summary_accounts_for_all_witness:
  "sums_to (sm_clients (dpi_summary_of (snd (ingest home_document [] 7200 (JObj sample_flow) new_dpi)))) 90 10"
proof -
  let ?d = "snd (ingest home_document [] 7200 (JObj sample_flow) new_dpi)"
  have g: "length (flow_groups (dp_buckets ?d)) \<le> 500" by code_simp
  have "total bk_rx ?d = 90" "total bk_tx ?d = 10" by code_simp+
  with summary_accounts_for_all [OF g] show ?thesis by simp
qed

definition no_suricata :: engine_tools where
  "no_suricata = \<lparr>et_installed = False, et_write = (\<lambda>_. None), et_test = (\<lambda>_. Some ''not found''), et_start = (\<lambda>_. None)\<rparr>"

lemma engine_never_fails_a_commit_witness:
  "\<exists>res ss d' bus'. dpi_apply no_suricata 5 (JObj default_config) (new_dpi, None) = (Inr res, ss, d', bus') \<and> ar_ok res"
proof -
  obtain r ss d' bus' where p: "dpi_apply no_suricata 5 (JObj default_config) (new_dpi, None) = (r, ss, d', bus')"
    by (metis prod_cases4)
  from engine_never_fails_a_commit [OF validate_default p] p show ?thesis by auto
qed

end
