(* ===== verification/Telemetry.thy ===== *)
theory Telemetry
  imports Doc PyNum ConfigStore Events
begin

text \<open>
  The metric store of \<open>telemetry.py\<close>: series of recent points in memory, rates of counters, and the rollup
  of averages into the database with its retention. Values are rational numbers, a missing value
  or a NaN is \<open>None\<close>. The clocks, the table of mounts and the free space are arguments.
\<close>

subsection \<open>Series\<close>

definition LIVE_POINTS :: nat where "LIVE_POINTS = 600"
definition ROLLUP_SECONDS :: rat where "ROLLUP_SECONDS = 60"
definition ROLLUP_RETENTION :: nat where "ROLLUP_RETENTION = 7 * 24 * 60"

record series =
  se_points :: "(time \<times> rat) list"
  se_unit :: string

definition new_series :: "string \<Rightarrow> series" where
  "new_series u = \<lparr>se_points = [], se_unit = u\<rparr>"

definition series_add :: "time \<Rightarrow> rat option \<Rightarrow> series \<Rightarrow> series" where
  "series_add t v s = (case v of None \<Rightarrow> s
     | Some x \<Rightarrow> s\<lparr>se_points := keep_last LIVE_POINTS (se_points s @ [(t, x)])\<rparr>)"

definition series_latest :: "series \<Rightarrow> rat option" where
  "series_latest s = (if se_points s = [] then None else Some (snd (last (se_points s))))"

definition series_window :: "time \<Rightarrow> rat \<Rightarrow> series \<Rightarrow> (time \<times> rat) list" where
  "series_window t seconds s = filter (\<lambda>p. t - seconds \<le> fst p) (se_points s)"

definition series_average :: "time \<Rightarrow> rat \<Rightarrow> series \<Rightarrow> rat option" where
  "series_average t seconds s = (let w = series_window t seconds s in
     if w = [] then None else Some (py_round 2 ((\<Sum>(_, v) \<leftarrow> w. v) / of_nat (length w))))"

definition rounded_points :: "(time \<times> rat) list \<Rightarrow> (rat \<times> rat) list" where
  "rounded_points ps = map (\<lambda>(t, v). (py_round 1 t, py_round 2 v)) ps"

definition series_dict :: "time \<Rightarrow> rat option \<Rightarrow> series \<Rightarrow> string \<times> (rat \<times> rat) list" where
  "series_dict t seconds s = (se_unit s, rounded_points
     (case seconds of None \<Rightarrow> se_points s | Some x \<Rightarrow> if x = 0 then se_points s else series_window t x s))"

subsection \<open>The store\<close>

text \<open>The lines of \<open>/proc/mounts\<close>; the path and the free megabytes are as the system resolved them.\<close>

definition state_is_volatile :: "string list \<Rightarrow> string \<Rightarrow> bool" where
  "state_is_volatile mounts target = list_ex (\<lambda>line. case py_words line of
     _ # dir # kind # _ \<Rightarrow> kind = ''tmpfs'' \<and> startswith target dir | _ \<Rightarrow> False) mounts"

definition retention_for :: "bool \<Rightarrow> int \<Rightarrow> nat" where
  "retention_for volatile free_mb = (if volatile \<or> free_mb < 256 then 6 * 60 else ROLLUP_RETENTION)"

record metric_row =
  mt_ts :: time
  mt_name :: string
  mt_value :: rat

text \<open>The rows of the table, oldest first.\<close>

record metrics =
  ms_series :: "(string \<times> series) list"
  ms_counters :: "(string \<times> time \<times> rat) list"
  ms_last_rollup :: time
  ms_retention :: nat
  ms_rows :: "metric_row list"

text \<open>A start of the service: nothing is in memory, the rows of earlier starts are found in the database.\<close>

definition new_metrics :: "nat \<Rightarrow> metric_row list \<Rightarrow> metrics" where
  "new_metrics retention found =
     \<lparr>ms_series = [], ms_counters = [], ms_last_rollup = 0, ms_retention = retention, ms_rows = found\<rparr>"

definition record_value :: "time \<Rightarrow> string \<Rightarrow> rat option \<Rightarrow> string \<Rightarrow> metrics \<Rightarrow> metrics" where
  "record_value t name v u m = m\<lparr>ms_series := AList.update name
     (series_add t v (the_default (new_series u) (map_of (ms_series m) name))) (ms_series m)\<rparr>"

text \<open>The first sample of a counter has no rate.\<close>

definition record_counter :: "time \<Rightarrow> time \<Rightarrow> string \<Rightarrow> rat \<Rightarrow> string \<Rightarrow> rat \<Rightarrow> metrics \<Rightarrow> rat option \<times> metrics" where
  "record_counter tick t name counter u factor m =
     (let m1 = m\<lparr>ms_counters := AList.update name (tick, counter) (ms_counters m)\<rparr> in
      case map_of (ms_counters m) name of
        None \<Rightarrow> (None, m1)
      | Some (tick0, counter0) \<Rightarrow>
          (let v = rate counter counter0 (tick - tick0) * factor in (Some v, record_value t name (Some v) u m1)))"

definition metrics_snapshot :: "time \<Rightarrow> string \<Rightarrow> rat option \<Rightarrow> metrics \<Rightarrow> (string \<times> string \<times> (rat \<times> rat) list) list" where
  "metrics_snapshot t prefix seconds m =
     map (\<lambda>(name, s). (name, series_dict t seconds s)) (filter (\<lambda>(name, _). startswith name prefix) (ms_series m))"

definition metrics_latest :: "string \<Rightarrow> metrics \<Rightarrow> (string \<times> rat option) list" where
  "metrics_latest prefix m =
     map (\<lambda>(name, s). (name, series_latest s)) (filter (\<lambda>(name, _). startswith name prefix) (ms_series m))"

definition rollup_rows :: "time \<Rightarrow> metrics \<Rightarrow> metric_row list" where
  "rollup_rows t m = concat (map (\<lambda>(name, s). case series_average t ROLLUP_SECONDS s of
     None \<Rightarrow> [] | Some a \<Rightarrow> [\<lparr>mt_ts = t, mt_name = name, mt_value = a\<rparr>]) (ms_series m))"

definition maybe_rollup :: "time \<Rightarrow> metrics \<Rightarrow> metrics" where
  "maybe_rollup t m =
     (if t - ms_last_rollup m < ROLLUP_SECONDS then m
      else m\<lparr>ms_last_rollup := t,
        ms_rows := filter (\<lambda>r. t - of_nat (ms_retention m) * ROLLUP_SECONDS \<le> mt_ts r) (ms_rows m @ rollup_rows t m)\<rparr>)"

definition metric_history :: "time \<Rightarrow> string \<Rightarrow> rat \<Rightarrow> metrics \<Rightarrow> (rat \<times> rat) list" where
  "metric_history t name seconds m = rounded_points (map (\<lambda>r. (mt_ts r, mt_value r))
     (sort_key mt_ts (filter (\<lambda>r. mt_name r = name \<and> t - seconds \<le> mt_ts r) (ms_rows m))))"

subsection \<open>Any sequence of operations\<close>

datatype metric_op = Record time string "rat option" string | Counter time time string rat string rat | Rollup time

fun metric_step :: "metric_op \<Rightarrow> metrics \<Rightarrow> metrics" where
  "metric_step (Record t name v u) m = record_value t name v u m"
| "metric_step (Counter tick t name c u f) m = snd (record_counter tick t name c u f m)"
| "metric_step (Rollup t) m = maybe_rollup t m"

definition metrics_after :: "nat \<Rightarrow> metric_row list \<Rightarrow> metric_op list \<Rightarrow> metrics" where
  "metrics_after retention found ops = fold metric_step ops (new_metrics retention found)"

text \<open>The rows after several starts, each with the retention chosen then and with what happened until it ended.\<close>

fun rows_after_starts :: "(nat \<times> metric_op list) list \<Rightarrow> metric_row list \<Rightarrow> metric_row list" where
  "rows_after_starts [] found = found"
| "rows_after_starts ((retention, ops) # rest) found =
     rows_after_starts rest (ms_rows (metrics_after retention found ops))"

subsection \<open>Both tiers are bounded\<close>

text \<open>The times of the rows of one name that one run adds: apart by at least a minute, none after the last rollup and none
  older than the retention.\<close>

definition times_of :: "string \<Rightarrow> metrics \<Rightarrow> time list" where
  "times_of name m = map mt_ts (filter (\<lambda>r. mt_name r = name) (ms_rows m))"

definition metrics_ok :: "metrics \<Rightarrow> bool" where
  "metrics_ok m \<longleftrightarrow> distinct (map fst (ms_series m)) \<and>
     list_all (\<lambda>(_, s). length (se_points s) \<le> LIVE_POINTS) (ms_series m) \<and>
     (\<forall>name. sorted_wrt (\<lambda>a b. a + ROLLUP_SECONDS \<le> b) (times_of name m)) \<and>
     list_all (\<lambda>r. mt_ts r \<le> ms_last_rollup m \<and>
       ms_last_rollup m - of_nat (ms_retention m) * ROLLUP_SECONDS \<le> mt_ts r) (ms_rows m)"

lemma series_add_bound: "length (se_points s) \<le> LIVE_POINTS \<Longrightarrow> length (se_points (series_add t v s)) \<le> LIVE_POINTS"
  by (auto simp: series_add_def keep_last_def split: option.split)

lemma record_value_ok:
  assumes "metrics_ok m"
  shows "metrics_ok (record_value t name v u m)"
proof -
  have "length (se_points (the_default (new_series u) (map_of (ms_series m) name))) \<le> LIVE_POINTS"
    using assms by (auto simp: metrics_ok_def the_default_def new_series_def list_all_iff split: option.split dest!: map_of_SomeD)
  then have "length (se_points (series_add t v (the_default (new_series u) (map_of (ms_series m) name)))) \<le> LIVE_POINTS"
    by (rule series_add_bound)
  moreover have "list_all (\<lambda>(_, s). P s) (AList.update k x d)"
    if "list_all (\<lambda>(_, s). P s) d" "P x" for P k x and d :: "(string \<times> series) list"
    using that by (induction d) auto
  ultimately show ?thesis using assms
    by (simp add: metrics_ok_def record_value_def times_of_def distinct_keys_update)
qed

lemma record_counter_ok: "metrics_ok m \<Longrightarrow> metrics_ok (snd (record_counter tick t name c u f m))"
proof -
  assume "metrics_ok m"
  then have "metrics_ok (m\<lparr>ms_counters := cs\<rparr>)" for cs by (simp add: metrics_ok_def times_of_def)
  then show ?thesis by (simp add: record_counter_def Let_def record_value_ok split: option.split)
qed

definition named :: "string \<Rightarrow> metric_row list \<Rightarrow> metric_row list" where
  "named name rs = filter (\<lambda>r. mt_name r = name) rs"

definition rollup_row :: "time \<Rightarrow> string \<times> series \<Rightarrow> metric_row list" where
  "rollup_row t x = (case series_average t ROLLUP_SECONDS (snd x) of
     None \<Rightarrow> [] | Some a \<Rightarrow> [\<lparr>mt_ts = t, mt_name = fst x, mt_value = a\<rparr>])"

lemma rollup_rows_eq: "rollup_rows t m = concat (map (rollup_row t) (ms_series m))"
  by (simp add: rollup_rows_def rollup_row_def [abs_def] split_def)

lemma named_row: "length (named name (rollup_row t x)) \<le> 1" "fst x \<noteq> name \<Longrightarrow> named name (rollup_row t x) = []"
  by (auto simp: named_def rollup_row_def split: option.split)

lemma named_append [simp]: "named name (xs @ ys) = named name xs @ named name ys" "named name [] = []"
  by (simp_all add: named_def)

lemma rollup_names:
  assumes "distinct (map fst ss)"
  shows "length (named name (concat (map (rollup_row t) ss))) \<le> 1 \<and>
    (name \<notin> fst ` set ss \<longrightarrow> named name (concat (map (rollup_row t) ss)) = [])"
  using assms
proof (induction ss)
  case (Cons x ss)
  then have IH: "length (named name (concat (map (rollup_row t) ss))) \<le> 1"
    "name \<notin> fst ` set ss \<Longrightarrow> named name (concat (map (rollup_row t) ss)) = []" and x: "fst x \<notin> fst ` set ss"
    by auto
  show ?case
  proof (cases "fst x = name")
    case True
    then show ?thesis using IH(2) x named_row(1) [of name t x] by simp
  next
    case False
    then show ?thesis using IH named_row(2) [of x name t] by simp
  qed
qed simp

lemma rollup_times: "list_all (\<lambda>r. mt_ts r = t) (rollup_rows t m)"
  by (auto simp: rollup_rows_def list_all_iff split: option.splits)

lemma maybe_rollup_ok:
  assumes "metrics_ok m"
  shows "metrics_ok (maybe_rollup t m)"
proof (cases "t - ms_last_rollup m < ROLLUP_SECONDS")
  case False
  let ?keep = "\<lambda>r. t - of_nat (ms_retention m) * ROLLUP_SECONDS \<le> mt_ts r"
  have late: "mt_ts r + ROLLUP_SECONDS \<le> t" if "r \<in> set (ms_rows m)" for r
    using assms that False by (auto simp: metrics_ok_def list_all_iff)
  have new: "mt_ts r = t" if "r \<in> set (rollup_rows t m)" for r
    using rollup_times [of t m] that by (simp add: list_all_iff)
  have spaced: "sorted_wrt (\<lambda>a b. a + ROLLUP_SECONDS \<le> b) (times_of name (maybe_rollup t m))" for name
  proof -
    let ?R = "\<lambda>r r'. mt_ts r + ROLLUP_SECONDS \<le> mt_ts r'"
    have "sorted_wrt ?R (named name (ms_rows m))"
      using assms by (simp add: metrics_ok_def times_of_def named_def sorted_wrt_map)
    moreover have "sorted_wrt ?R (named name (rollup_rows t m))"
      using rollup_names [of "ms_series m" name t] assms
      by (intro sorted_wrt_short) (simp add: metrics_ok_def rollup_rows_eq)
    moreover have "\<forall>x \<in> set (named name (ms_rows m)). \<forall>y \<in> set (named name (rollup_rows t m)). ?R x y"
      using late new by (simp add: named_def)
    ultimately have "sorted_wrt ?R (named name (ms_rows m @ rollup_rows t m))" by (simp add: sorted_wrt_append)
    then have "sorted_wrt ?R (filter ?keep (named name (ms_rows m @ rollup_rows t m)))" by (rule sorted_wrt_filter_map)
    moreover have "filter ?keep (named name rs) = named name (filter ?keep rs)" for rs
      by (simp add: named_def conj_commute)
    ultimately have "sorted_wrt ?R (named name (filter ?keep (ms_rows m @ rollup_rows t m)))" by metis
    moreover have "times_of name (maybe_rollup t m) = map mt_ts (named name (filter ?keep (ms_rows m @ rollup_rows t m)))"
      using False by (simp add: times_of_def maybe_rollup_def named_def)
    ultimately show ?thesis by (simp only: sorted_wrt_map)
  qed
  have "list_all (\<lambda>r. mt_ts r \<le> t \<and> ?keep r) (filter ?keep (ms_rows m @ rollup_rows t m))"
  proof -
    have "mt_ts r \<le> t" if "r \<in> set (ms_rows m) \<union> set (rollup_rows t m)" for r
      using that late [of r] new [of r] by (auto simp: ROLLUP_SECONDS_def)
    then show ?thesis by (auto simp: list_all_iff)
  qed
  moreover have "distinct (map fst (ms_series m))" "list_all (\<lambda>(_, s). length (se_points s) \<le> LIVE_POINTS) (ms_series m)"
    using assms by (simp_all add: metrics_ok_def)
  ultimately show ?thesis using spaced False by (simp add: metrics_ok_def maybe_rollup_def del: filter_append)
qed (simp add: maybe_rollup_def assms)

lemma metrics_after_ok: "metrics_ok (metrics_after retention [] ops)"
proof -
  have "metrics_ok m \<Longrightarrow> metrics_ok (fold metric_step ops m)" for m
  proof (induction ops arbitrary: m)
    case (Cons x ops)
    then show ?case by (cases x) (simp_all add: record_value_ok record_counter_ok maybe_rollup_ok)
  qed simp
  then show ?thesis
    by (simp add: metrics_after_def metrics_ok_def new_metrics_def times_of_def)
qed

text \<open>Times that are a step apart within a span of \<open>n\<close> steps are at most \<open>n + 1\<close>.\<close>

lemma spaced_length:
  fixes s :: rat
  assumes "sorted_wrt (\<lambda>a b. a + s \<le> b) ts" and "ts \<noteq> []" and "0 < s"
  shows "hd ts + of_nat (length ts - 1) * s \<le> last ts"
  using assms
proof (induction ts)
  case (Cons a ts)
  show ?case
  proof (cases "ts = []")
    case False
    then obtain b us where ts: "ts = b # us" by (cases ts) auto
    have "a + s \<le> b" using Cons.prems(1) by (simp add: ts)
    moreover have "b + of_nat (length us) * s \<le> last ts" using Cons.IH Cons.prems(1,3) by (simp add: ts)
    moreover have "of_nat (length ts) * s = s + of_nat (length us) * s" by (simp add: ts algebra_simps)
    ultimately have "a + of_nat (length ts) * s \<le> last ts" by linarith
    then show ?thesis using False by simp
  qed simp
qed simp

lemma metrics_after_retention: "ms_retention (metrics_after retention found ops) = retention"
proof -
  have "ms_retention (fold metric_step ops m) = ms_retention m" for m
  proof (induction ops arbitrary: m)
    case (Cons x ops)
    then show ?case
      by (cases x) (auto simp: record_value_def record_counter_def maybe_rollup_def Let_def split: option.split)
  qed simp
  then show ?thesis by (simp add: metrics_after_def new_metrics_def)
qed

lemma own_rows_bounded: "length (times_of name (metrics_after retention [] ops)) \<le> retention + 1"
proof -
  let ?m = "metrics_after retention [] ops"
  have ok: "metrics_ok ?m" by (rule metrics_after_ok)
  show ?thesis
  proof (cases "times_of name ?m = []")
    case False
    let ?ts = "times_of name ?m"
    have "set ?ts \<subseteq> mt_ts ` set (ms_rows ?m)" by (auto simp: times_of_def)
    then have range: "t \<le> ms_last_rollup ?m \<and> ms_last_rollup ?m - of_nat retention * ROLLUP_SECONDS \<le> t" if "t \<in> set ?ts" for t
      using ok that by (auto simp: metrics_ok_def list_all_iff metrics_after_retention)
    have "hd ?ts + of_nat (length ?ts - 1) * ROLLUP_SECONDS \<le> last ?ts"
      using ok False by (intro spaced_length) (auto simp: metrics_ok_def ROLLUP_SECONDS_def)
    moreover have "last ?ts \<le> ms_last_rollup ?m" "ms_last_rollup ?m - of_nat retention * ROLLUP_SECONDS \<le> hd ?ts"
      using range [of "last ?ts"] range [of "hd ?ts"] False by auto
    ultimately have "(of_nat (length ?ts - 1) :: rat) \<le> of_nat retention" by (simp add: ROLLUP_SECONDS_def)
    then show ?thesis by simp
  qed simp
qed

text \<open>What a run does does not depend on the rows it finds: of those it only drops some, and its own rows follow.\<close>

lemma step_after_found:
  "\<exists>Q. metric_step x (m\<lparr>ms_rows := filter P found @ own\<rparr>) =
     (metric_step x (m\<lparr>ms_rows := own\<rparr>))\<lparr>ms_rows := filter Q found @ ms_rows (metric_step x (m\<lparr>ms_rows := own\<rparr>))\<rparr>"
proof (cases x)
  case (Record t name v u)
  then show ?thesis by (intro exI [of _ P]) (simp add: record_value_def)
next
  case (Counter tick t name c u f)
  then show ?thesis
    by (intro exI [of _ P]) (simp add: record_counter_def record_value_def Let_def split: option.split)
next
  case (Rollup t)
  show ?thesis
  proof (cases "t - ms_last_rollup m < ROLLUP_SECONDS")
    case True
    with Rollup show ?thesis by (intro exI [of _ P]) (simp add: maybe_rollup_def)
  next
    case False
    let ?keep = "\<lambda>r. t - of_nat (ms_retention m) * ROLLUP_SECONDS \<le> mt_ts r"
    have "rollup_rows t (m\<lparr>ms_rows := rs\<rparr>) = rollup_rows t m" for rs by (simp add: rollup_rows_def)
    with Rollup False show ?thesis
      by (intro exI [of _ "\<lambda>r. P r \<and> ?keep r"]) (simp add: maybe_rollup_def conj_commute)
  qed
qed

lemma rows_found_and_own:
  "\<exists>P. ms_rows (metrics_after retention found ops) = filter P found @ ms_rows (metrics_after retention [] ops) \<and>
     ms_series (metrics_after retention found ops) = ms_series (metrics_after retention [] ops)"
proof -
  have "\<exists>Q. fold metric_step ops (m\<lparr>ms_rows := filter P found @ own\<rparr>) =
     (fold metric_step ops (m\<lparr>ms_rows := own\<rparr>))\<lparr>ms_rows := filter Q found @ ms_rows (fold metric_step ops (m\<lparr>ms_rows := own\<rparr>))\<rparr>"
    for m P own
  proof (induction ops arbitrary: m P own)
    case Nil
    show ?case by (intro exI [of _ P]) simp
  next
    case (Cons x ops)
    let ?m1 = "metric_step x (m\<lparr>ms_rows := own\<rparr>)"
    obtain Q where "metric_step x (m\<lparr>ms_rows := filter P found @ own\<rparr>) = ?m1\<lparr>ms_rows := filter Q found @ ms_rows ?m1\<rparr>"
      using step_after_found by blast
    with Cons.IH [where m = ?m1 and P = Q and own = "ms_rows ?m1"] show ?case by simp
  qed
  from this [where m = "new_metrics retention []" and P = "\<lambda>_. True" and own = "[]"] show ?thesis
    by (auto simp: metrics_after_def new_metrics_def)
qed

lemma rows_within_retention:
  assumes "ms_last_rollup (metrics_after retention found ops) \<noteq> 0"
  shows "list_all (\<lambda>r. ms_last_rollup (metrics_after retention found ops) - of_nat retention * ROLLUP_SECONDS \<le> mt_ts r)
    (ms_rows (metrics_after retention found ops))"
proof -
  have "ms_last_rollup m \<noteq> 0 \<longrightarrow> list_all (\<lambda>r. ms_last_rollup m - of_nat (ms_retention m) * ROLLUP_SECONDS \<le> mt_ts r) (ms_rows m)"
    if "m = metrics_after retention found ops" for m
    using that
  proof (induction ops arbitrary: m rule: rev_induct)
    case (snoc x ops)
    then show ?case
      by (cases x) (auto simp: metrics_after_def record_value_def record_counter_def maybe_rollup_def list_all_iff Let_def
        split: option.split)
  qed (simp add: metrics_after_def new_metrics_def)
  with assms show ?thesis by (simp add: metrics_after_retention)
qed

lemma metric_rows_bound:
  "length (named name (ms_rows (metrics_after retention found ops))) \<le> length (named name found) + retention + 1"
proof -
  obtain P where rows: "ms_rows (metrics_after retention found ops) = filter P found @ ms_rows (metrics_after retention [] ops)"
    using rows_found_and_own by blast
  have "length (named name (filter P found)) \<le> length (named name found)"
    unfolding named_def by (induction found) auto
  then show ?thesis
    using own_rows_bounded [of name retention ops] by (simp add: times_of_def rows named_def)
qed

text \<open>C27. Within one run of the service the metric store is bounded, whatever is recorded, in whatever order and
  however the clock jumps: every series holds at most 600 points; the table holds, for each name, at
  most one row more than the retention beyond the rows the start found there; and after a rollup
  no row, found or new, is older than the retention.\<close>

theorem metric_tiers_bounded:
  "list_all (\<lambda>(_, s). length (se_points s) \<le> 600) (ms_series (metrics_after retention found ops)) \<and>
    length (times_of name (metrics_after retention found ops)) \<le>
      length (filter (\<lambda>r. mt_name r = name) found) + retention + 1 \<and>
    (ms_last_rollup (metrics_after retention found ops) \<noteq> 0 \<longrightarrow>
      list_all (\<lambda>r. ms_last_rollup (metrics_after retention found ops) - 60 * of_nat retention \<le> mt_ts r)
        (ms_rows (metrics_after retention found ops)))"
proof (intro conjI impI)
  have series: "ms_series (metrics_after retention found ops) = ms_series (metrics_after retention [] ops)"
    using rows_found_and_own by blast
  show "list_all (\<lambda>(_, s). length (se_points s) \<le> 600) (ms_series (metrics_after retention found ops))"
    using metrics_after_ok [of retention ops] by (simp add: series metrics_ok_def LIVE_POINTS_def)
  show "length (times_of name (metrics_after retention found ops)) \<le>
      length (filter (\<lambda>r. mt_name r = name) found) + retention + 1"
    using metric_rows_bound [of name retention found ops] by (simp add: times_of_def named_def)
  assume "ms_last_rollup (metrics_after retention found ops) \<noteq> 0"
  from rows_within_retention [OF this] show "list_all (\<lambda>r. ms_last_rollup (metrics_after retention found ops) - 60 * of_nat retention \<le> mt_ts r)
      (ms_rows (metrics_after retention found ops))" by (simp add: ROLLUP_SECONDS_def mult.commute)
qed

definition sample_run :: "metric_op list" where
  "sample_run = [Record 100 ''x'' (Some 1) [], Rollup 100, Record 130 ''x'' (Some 2) [], Rollup 130]"

lemma metric_tiers_bounded_witness:
  "ms_last_rollup (metrics_after 360 [\<lparr>mt_ts = - 30000, mt_name = ''x'', mt_value = 5\<rparr>] sample_run) = 100 \<and>
   list_all (\<lambda>r. 100 - 60 * 360 \<le> mt_ts r) (ms_rows (metrics_after 360 [\<lparr>mt_ts = - 30000, mt_name = ''x'', mt_value = 5\<rparr>] sample_run))"
proof -
  have "ms_last_rollup (metrics_after 360 [\<lparr>mt_ts = - 30000, mt_name = ''x'', mt_value = 5\<rparr>] sample_run) = 100" by code_simp
  with metric_tiers_bounded [of 360 "[\<lparr>mt_ts = - 30000, mt_name = ''x'', mt_value = 5\<rparr>]" sample_run "''x''"] show ?thesis by simp
qed

text \<open>Over several starts the bound is one such share for each start.\<close>

lemma starts_bounded:
  "length (named name (rows_after_starts starts found)) \<le> length (named name found) + (\<Sum>(retention, _) \<leftarrow> starts. retention + 1)"
proof (induction starts arbitrary: found)
  case (Cons x starts)
  obtain retention ops where x: "x = (retention, ops)" by fastforce
  have "length (named name (ms_rows (metrics_after retention found ops))) \<le> length (named name found) + retention + 1"
    using metric_rows_bound [of name retention found ops] by (simp add: named_def)
  with Cons.IH [of "ms_rows (metrics_after retention found ops)"] show ?case by (simp add: x)
qed simp

text \<open>It is no hard cap: a service that is restarted over and over, as a crash loop does, adds a row for every name
  with each start, because the first rollup after a start never waits.\<close>

lemma restarts_add_rows:
  "length (rows_after_starts (replicate n (retention, [Record t name (Some v) u, Rollup t])) []) = n" if "60 \<le> t"
proof -
  let ?row = "\<lparr>mt_ts = t, mt_name = name, mt_value = py_round 2 v\<rparr>"
  have one: "ms_rows (metrics_after retention (replicate k ?row) [Record t name (Some v) u, Rollup t]) = replicate (Suc k) ?row" for k
  proof -
    have "0 \<le> (of_nat retention :: rat) * 60" by simp
    then have keep: "t - of_nat retention * 60 \<le> t" by linarith
    then show ?thesis using that
      by (simp add: metrics_after_def new_metrics_def record_value_def maybe_rollup_def rollup_rows_def series_average_def
          series_window_def series_add_def new_series_def the_default_def keep_last_def LIVE_POINTS_def ROLLUP_SECONDS_def Let_def
          replicate_append_same [symmetric])
  qed
  have "rows_after_starts (replicate m (retention, [Record t name (Some v) u, Rollup t])) (replicate k ?row) = replicate (k + m) ?row" for m k
  proof (induction m arbitrary: k)
    case (Suc m)
    from Suc [of "Suc k"] show ?case by (simp only: replicate_Suc rows_after_starts.simps one) simp
  qed simp
  from this [of n 0] show ?thesis by simp
qed

text \<open>A rate is never negative, and a counter that went backwards has rate zero.\<close>

lemma counter_rate:
  assumes "record_counter tick t name counter u factor m = (Some v, m')" and "0 \<le> factor"
  shows "0 \<le> v \<and> (\<forall>t0 c0. map_of (ms_counters m) name = Some (t0, c0) \<longrightarrow> counter < c0 \<longrightarrow> v = 0)"
  using assms by (auto simp: record_counter_def Let_def rate_nonneg rate_def split: option.splits)

text \<open>A mount counts for every path that merely starts with its name.\<close>

lemma mount_prefix_not_component:
  "state_is_volatile [''tmpfs /data tmpfs rw 0 0''] ''/data2/sbegw''"
  by code_simp

end
