(* ===== verification/Traffic.thy ===== *)
theory Traffic
  imports NetPlan Events
begin

text \<open>
  Two stages of the network daemon that run the kernel's tools: the smart queues (\<open>TrafficManager\<close> in
  \<open>netd.py\<close>) and the routes (\<open>apply_routing\<close>, with the commands of \<open>adapters/rtnl.py\<close>). What the tools
  report and answer belongs to the world, an argument; the commands sent are kept in a trace, next to
  the argument lists they stand for.
\<close>

subsection \<open>Commands\<close>

datatype tc_command =
  DelRoot string | DelIngress string | DelLink string
| UploadCake string int | AddIfb string | UpLink string | Ingress string | Redirect string string
| DownloadCake string int

definition ROOT_HANDLE :: string where "ROOT_HANDLE = ''1:''"

fun tc_argv :: "tc_command \<Rightarrow> string list" where
  "tc_argv (DelRoot i) = [''tc'', ''qdisc'', ''del'', ''dev'', i, ''root'']"
| "tc_argv (DelIngress i) = [''tc'', ''qdisc'', ''del'', ''dev'', i, ''ingress'']"
| "tc_argv (DelLink i) = [''ip'', ''link'', ''del'', ''dev'', i]"
| "tc_argv (UploadCake i up) = [''tc'', ''qdisc'', ''replace'', ''dev'', i, ''root'', ''handle'', ROOT_HANDLE, ''cake'',
     ''bandwidth'', show_int up @ ''kbit'', ''diffserv4'', ''nat'', ''dual-srchost'', ''ack-filter'']"
| "tc_argv (AddIfb i) = [''ip'', ''link'', ''add'', i, ''type'', ''ifb'']"
| "tc_argv (UpLink i) = [''ip'', ''link'', ''set'', ''dev'', i, ''up'']"
| "tc_argv (Ingress i) = [''tc'', ''qdisc'', ''replace'', ''dev'', i, ''handle'', ''ffff:'', ''ingress'']"
| "tc_argv (Redirect i j) = [''tc'', ''filter'', ''replace'', ''dev'', i, ''parent'', ''ffff:'', ''protocol'', ''all'',
     ''matchall'', ''action'', ''mirred'', ''egress'', ''redirect'', ''dev'', j]"
| "tc_argv (DownloadCake i down) = [''tc'', ''qdisc'', ''replace'', ''dev'', i, ''root'', ''handle'', ROOT_HANDLE, ''cake'',
     ''bandwidth'', show_int down @ ''kbit'', ''diffserv4'', ''nat'', ''wash'', ''dual-dsthost'', ''ingress'']"

text \<open>The interface a command acts on.\<close>

fun tc_target :: "tc_command \<Rightarrow> string" where
  "tc_target (DelRoot i) = i" | "tc_target (DelIngress i) = i" | "tc_target (DelLink i) = i"
| "tc_target (UploadCake i _) = i" | "tc_target (AddIfb i) = i" | "tc_target (UpLink i) = i"
| "tc_target (Ingress i) = i" | "tc_target (Redirect i _) = i" | "tc_target (DownloadCake i _) = i"

text \<open>What \<open>tc qdisc show\<close> lists for an interface (kind and handle), whether a link exists, and the answer to
  an argument list: \<open>None\<close>, or the text of the error.\<close>

record 'w shaper =
  sh_installed :: "'w \<Rightarrow> bool"
  sh_qdiscs :: "string \<Rightarrow> 'w \<Rightarrow> (string \<times> string) list"
  sh_exists :: "string \<Rightarrow> 'w \<Rightarrow> bool"
  sh_run :: "string list \<Rightarrow> 'w \<Rightarrow> string option \<times> 'w"

type_synonym 'w traced = "tc_command list \<times> 'w"

definition tc_run :: "'w shaper \<Rightarrow> tc_command \<Rightarrow> 'w traced \<Rightarrow> string option \<times> 'w traced" where
  "tc_run sh c = (\<lambda>(trace, w). case sh_run sh (tc_argv c) w of (r, w1) \<Rightarrow> (r, trace @ [c], w1))"

text \<open>\<open>run\<close> raises at the first error; \<open>run_ok\<close> ignores it.\<close>

fun tc_run_all :: "'w shaper \<Rightarrow> tc_command list \<Rightarrow> 'w traced \<Rightarrow> string option \<times> 'w traced" where
  "tc_run_all sh [] s = (None, s)"
| "tc_run_all sh (c # cs) s = (case tc_run sh c s of
     (Some e, s1) \<Rightarrow> (Some e, s1) | (None, s1) \<Rightarrow> tc_run_all sh cs s1)"

definition tc_try :: "'w shaper \<Rightarrow> bool \<Rightarrow> tc_command \<Rightarrow> 'w traced \<Rightarrow> 'w traced" where
  "tc_try sh b c s = (if b then snd (tc_run sh c s) else s)"

subsection \<open>Smart queues\<close>

definition ifb_name :: "nat \<Rightarrow> string" where
  "ifb_name index = ''ifb-sbegw'' @ show_int (int index)"

definition owned_cake :: "'w shaper \<Rightarrow> string \<Rightarrow> 'w traced \<Rightarrow> bool" where
  "owned_cake sh iface s \<longleftrightarrow> (''cake'', ROOT_HANDLE) \<in> set (sh_qdiscs sh iface (snd s))"

definition tc_cleanup :: "'w shaper \<Rightarrow> string \<Rightarrow> string \<Rightarrow> 'w traced \<Rightarrow> 'w traced" where
  "tc_cleanup sh iface ifb s =
     (let owned_ifb = sh_exists sh ifb (snd s);
          s1 = tc_try sh (owned_cake sh iface s) (DelRoot iface) s;
          s2 = tc_try sh (owned_ifb \<and> (''ingress'', ''ffff:'') \<in> set (sh_qdiscs sh iface (snd s1))) (DelIngress iface) s1
      in if owned_ifb then tc_try sh True (DelLink ifb) (tc_try sh (owned_cake sh ifb s2) (DelRoot ifb) s2) else s2)"

definition wan_items :: "obj \<Rightarrow> (string \<times> obj) list" where
  "wan_items cfg = map (\<lambda>(wid, wan). (wid, obj_of wan))
     (filter (\<lambda>(_, wan). on_by_default ''enabled'' (obj_of wan) \<and> get_null ''mode'' (obj_of wan) \<noteq> JStr ''disabled'')
       (sorted_items (sub ''wans'' cfg)))"

text \<open>The rate of a direction, as the validator leaves it: a number, or absent.\<close>

definition qos_rate :: "string \<Rightarrow> obj \<Rightarrow> int" where
  "qos_rate k qos = (case get_null k qos of JInt n \<Rightarrow> n | _ \<Rightarrow> 0)"

definition shape_wan :: "'w shaper \<Rightarrow> int \<Rightarrow> int \<Rightarrow> string \<Rightarrow> string \<Rightarrow> 'w traced \<Rightarrow> string option \<times> 'w traced" where
  "shape_wan sh up down iface ifb s =
     (case tc_run_all sh (if up \<noteq> 0 then [UploadCake iface up] else []) s of
        (Some e, s1) \<Rightarrow> (Some e, s1)
      | (None, s1) \<Rightarrow>
          if down = 0 then (None, s1)
          else tc_run_all sh ((if sh_exists sh ifb (snd s1) then [] else [AddIfb ifb]) @
            [UpLink ifb, Ingress iface, Redirect iface ifb, DownloadCake ifb down]) s1)"

definition directions :: "int \<Rightarrow> int \<Rightarrow> string" where
  "directions down up = py_join ''/'' (map fst (filter (\<lambda>(_, r). r \<noteq> 0) [(''download'', down), (''upload'', up)]))"

fun shape_all :: "'w shaper \<Rightarrow> int \<Rightarrow> int \<Rightarrow> (string \<times> string \<times> string) list \<Rightarrow> 'w traced
    \<Rightarrow> string list \<times> string list \<times> 'w traced" where
  "shape_all sh up down [] s = ([], [], s)"
| "shape_all sh up down ((wid, iface, ifb) # items) s =
     (case shape_wan sh up down iface ifb s of
        (None, s1) \<Rightarrow> (case shape_all sh up down items s1 of (ms, fs, s2) \<Rightarrow>
           ((''Smart Queues enabled on '' @ wid @ '' ('' @ directions down up @ '')'') # ms, fs, s2))
      | (Some e, s1) \<Rightarrow> (case shape_all sh up down items (tc_cleanup sh iface ifb s1) of (ms, fs, s2) \<Rightarrow>
           (ms, (wid @ '': '' @ e) # fs, s2)))"

definition shape_items :: "obj \<Rightarrow> (string \<times> string \<times> string) list" where
  "shape_items cfg = map (\<lambda>(index, wid, wan). (wid, wan_interface_for wan (Some cfg), ifb_name index))
     (enumerate 0 (wan_items cfg))"

record traffic =
  tm_error :: "string option"
  tm_bus :: "event_bus option"

definition qos_failed :: "time \<Rightarrow> string \<Rightarrow> string \<Rightarrow> event_bus option \<Rightarrow> event_bus option" where
  "qos_failed t e detail = map_option (\<lambda>bus. snd (emit \<lparr>em_kind = ''QOS_FAILED'', em_severity = Some ''error'',
     em_data = [(''detail'', JStr e)], em_subsystem = ''qos'', em_message = detail, em_key = None, em_window = 10\<rparr> t bus))"

definition traffic_apply :: "'w shaper \<Rightarrow> time \<Rightarrow> obj \<Rightarrow> traffic \<times> 'w traced \<Rightarrow> string list \<times> traffic \<times> 'w traced" where
  "traffic_apply sh t cfg = (\<lambda>(tm, s).
     let qos = sub ''qos'' cfg; requested = is_set ''enabled'' qos; items = shape_items cfg in
     if \<not> sh_installed sh (snd s)
     then (if requested then [''Smart Queues unavailable: iproute2 tc is not installed''] else [],
       tm\<lparr>tm_error := (if requested then Some ''tc is not installed'' else None)\<rparr>, s)
     else let s1 = fold (\<lambda>(_, iface, ifb). tc_cleanup sh iface ifb) items s in
     if \<not> (requested \<and> \<not> ap_mode cfg)
     then (if requested \<and> ap_mode cfg then [''Smart Queues are bypassed in AP mode''] else [], tm\<lparr>tm_error := None\<rparr>, s1)
     else if items = []
     then ([''Smart Queues unavailable: no enabled WAN is configured''],
       tm\<lparr>tm_error := Some ''no enabled WAN is configured''\<rparr>, s1)
     else case shape_all sh (qos_rate ''upload_kbps'' qos) (qos_rate ''download_kbps'' qos) items s1 of
       (messages, failures, s2) \<Rightarrow>
         let e = py_join ''; '' failures; detail = ''Smart Queues failed: '' @ e in
         if failures = [] then (messages, tm\<lparr>tm_error := None\<rparr>, s2)
         else (messages @ [detail], tm\<lparr>tm_error := Some e, tm_bus := qos_failed t e detail (tm_bus tm)\<rparr>, s2))"

record shaping_status =
  ss_wan :: string
  ss_interface :: string
  ss_upload :: bool
  ss_download :: bool

definition traffic_status :: "'w shaper \<Rightarrow> obj \<Rightarrow> 'w \<Rightarrow> bool \<times> bool \<times> shaping_status list" where
  "traffic_status sh cfg w =
     (let requested = is_set ''enabled'' (sub ''qos'' cfg);
          rows = map (\<lambda>(wid, iface, ifb). \<lparr>ss_wan = wid, ss_interface = iface,
            ss_upload = (sh_installed sh w \<and> owned_cake sh iface ([], w)),
            ss_download = (sh_installed sh w \<and> sh_exists sh ifb w \<and> owned_cake sh ifb ([], w))\<rparr>) (shape_items cfg)
      in (requested, requested \<and> \<not> ap_mode cfg \<and> list_ex (\<lambda>r. ss_upload r \<or> ss_download r) rows, rows))"

subsection \<open>Routes\<close>

datatype route_command =
  ReplaceRoute string string string string int string int
| AddRule string string string

text \<open>\<open>replace_route\<close>: destination, via, device, kind, then metric, table and family.\<close>

fun route_argv :: "route_command \<Rightarrow> string list" where
  "route_argv (ReplaceRoute destination via dev kind metric table family) =
     [''ip'', ''-'' @ show_int family, ''route'', ''replace''] @
     (if kind \<in> {''blackhole'', ''unreachable''} then [kind, destination]
      else destination # (if via = [] then [] else [''via'', via]) @ (if dev = [] then [] else [''dev'', dev])) @
     [''metric'', show_int metric, ''table'', table]"
| "route_argv (AddRule mark table priority) =
     [''ip'', ''-4'', ''rule'', ''add'', ''fwmark'', mark, ''lookup'', table, ''priority'', priority]"

text \<open>A static route: an absent \<open>via\<close> or \<open>interface\<close> is the empty text, which the code treats alike.\<close>

definition static_route :: "obj \<Rightarrow> verr + string \<times> route_command" where
  "static_route route = rbind (need_text ''destination'' route) (\<lambda>destination. Inr (destination,
     ReplaceRoute destination (text_of (get_null ''via'' route)) (text_of (get_null ''interface'' route))
       (text_or ''gateway'' ''type'' route) (case get_or (JInt 100) ''metric'' route of JInt n \<Rightarrow> n | _ \<Rightarrow> 0)
       ''main'' (if CHR '':'' \<in> set destination then 6 else 4)))"

text \<open>\<open>_default_gateway\<close>, on the routes the kernel lists as destination, device and gateway.\<close>

definition default_gateway :: "(string \<times> string \<times> string option) list \<Rightarrow> string \<Rightarrow> string option" where
  "default_gateway routes iface =
     (case find (\<lambda>(dst, dev, _). dst = ''default'' \<and> dev = iface) routes of None \<Rightarrow> None | Some (_, _, g) \<Rightarrow> g)"

definition wan_default :: "(string \<times> string \<times> string option) list \<Rightarrow> obj \<Rightarrow> nat \<times> string \<times> json \<Rightarrow> route_command list" where
  "wan_default routes cfg = (\<lambda>(index, wid, wan).
     let iface = wan_interface_for (obj_of wan) (Some cfg) in
     case default_gateway routes iface of None \<Rightarrow> []
     | Some g \<Rightarrow> if g = [] then [] else [ReplaceRoute ''default'' g iface ''gateway'' 100 (show_int (100 + int index)) 4])"

definition mark_command :: "int \<times> nat \<times> nat \<Rightarrow> route_command" where
  "mark_command = (\<lambda>(mark, table, priority). AddRule (py_hex mark) (show_int (int table)) (show_int (int priority)))"

text \<open>The messages, and the commands in their order. \<open>works\<close> tells which commands succeed; the routes are
  those listed before the first of them.\<close>

definition apply_routing :: "(route_command \<Rightarrow> bool) \<Rightarrow> bool \<Rightarrow> (string \<times> string \<times> string option) list \<Rightarrow> obj
    \<Rightarrow> verr + string list \<times> route_command list" where
  "apply_routing works has_vtysh routes cfg =
     rbind (rmap (\<lambda>j. static_route (obj_of j)) (arr ''static'' (sub ''routing'' cfg))) (\<lambda>statics.
     rbind (fwmark_rules cfg) (\<lambda>marks. Inr
       (map (\<lambda>(destination, _). ''static route '' @ destination @ '' could not be installed'')
           (filter (\<lambda>(_, c). \<not> works c) statics) @
         (if is_set ''enabled'' (sub ''frr'' (sub ''routing'' cfg)) \<and> \<not> has_vtysh
          then [''dynamic routing is enabled but FRR is not installed; add the frr package to the rootfs''] else []),
        map snd statics @ concat (map (wan_default routes cfg) (enumerate 1 (sorted_items (sub ''wans'' cfg)))) @
        map mark_command marks)))"

subsection \<open>Shaping stays with its own\<close>

text \<open>Operations only append to the trace, and what they append names the given interfaces.\<close>

definition appends :: "string set \<Rightarrow> 'w traced \<Rightarrow> 'w traced \<Rightarrow> bool" where
  "appends names s s' \<longleftrightarrow> (\<exists>cs. fst s' = fst s @ cs \<and> tc_target ` set cs \<subseteq> names)"

lemma appends_refl [intro]: "appends names s s"
  by (simp add: appends_def)

lemma appends_trans [trans]: "appends n s1 s2 \<Longrightarrow> appends n s2 s3 \<Longrightarrow> appends n s1 s3"
proof -
  assume "appends n s1 s2" and "appends n s2 s3"
  then obtain cs ds where "fst s2 = fst s1 @ cs" "tc_target ` set cs \<subseteq> n" "fst s3 = fst s2 @ ds" "tc_target ` set ds \<subseteq> n"
    unfolding appends_def by blast
  then have "fst s3 = fst s1 @ (cs @ ds) \<and> tc_target ` set (cs @ ds) \<subseteq> n" by (simp add: image_Un)
  then show ?thesis unfolding appends_def by blast
qed

lemma appends_mono: "appends n s1 s2 \<Longrightarrow> n \<subseteq> n' \<Longrightarrow> appends n' s1 s2"
  unfolding appends_def by blast

lemma appends_run: "tc_run sh c s = (r, s') \<Longrightarrow> tc_target c \<in> names \<Longrightarrow> appends names s s'"
  by (auto simp: tc_run_def appends_def split: prod.splits)

lemma appends_try: "b \<longrightarrow> tc_target c \<in> names \<Longrightarrow> appends names s (tc_try sh b c s)"
  by (auto simp: tc_try_def intro: appends_run [OF prod.collapse [symmetric]])

lemma appends_run_all: "tc_run_all sh cs s = (r, s') \<Longrightarrow> tc_target ` set cs \<subseteq> names \<Longrightarrow> appends names s s'"
proof (induction cs arbitrary: s)
  case (Cons c cs)
  obtain e s1 where c: "tc_run sh c s = (e, s1)" by (metis surj_pair)
  with Cons.prems(2) have "appends names s s1" by (intro appends_run) auto
  moreover have "appends names s1 s'" using Cons c by (auto split: option.splits)
  ultimately show ?case by (rule appends_trans)
qed auto

lemma appends_cleanup: "appends {iface, ifb} s (tc_cleanup sh iface ifb s)"
proof -
  let ?n = "{iface, ifb}"
  have t: "appends ?n s (tc_try sh b c s')" if "appends ?n s s'" "tc_target c \<in> ?n" for b c s'
    using that appends_try [of b c ?n s' sh] by (blast intro: appends_trans)
  show ?thesis unfolding tc_cleanup_def Let_def by (simp only: if_split, intro conjI impI t appends_refl) simp_all
qed

lemma appends_shape:
  assumes "shape_wan sh up down iface ifb s = (r, s')"
  shows "appends {iface, ifb} s s'"
proof -
  obtain e s1 where u: "tc_run_all sh (if up \<noteq> 0 then [UploadCake iface up] else []) s = (e, s1)" by (metis surj_pair)
  then have "appends {iface, ifb} s s1" by (rule appends_run_all) auto
  moreover have "appends {iface, ifb} s1 s'"
    using assms by (auto simp: shape_wan_def u simp del: tc_run_all.simps split: option.splits if_splits
        elim!: appends_run_all)
  ultimately show ?thesis by (rule appends_trans)
qed

definition shape_names :: "(string \<times> string \<times> string) list \<Rightarrow> string set" where
  "shape_names items = (\<Union>(_, iface, ifb) \<in> set items. {iface, ifb})"

lemma appends_shape_all: "shape_all sh up down items s = (ms, fs, s') \<Longrightarrow> appends (shape_names items) s s'"
proof (induction items arbitrary: s ms fs)
  case (Cons x items)
  obtain wid iface ifb where x: "x = (wid, iface, ifb)" by (cases x)
  obtain e s1 where c: "shape_wan sh up down iface ifb s = (e, s1)" by (metis surj_pair)
  define s2 where "s2 = (if e = None then s1 else tc_cleanup sh iface ifb s1)"
  obtain ms' fs' where r: "shape_all sh up down items s2 = (ms', fs', s')"
    using Cons.prems by (auto simp: x c s2_def split: option.splits prod.splits)
  have "appends {iface, ifb} s s2"
    using appends_shape [OF c] appends_cleanup [of iface ifb s1 sh] by (auto simp: s2_def intro: appends_trans)
  then have "appends (shape_names (x # items)) s s2" by (rule appends_mono) (simp add: shape_names_def x)
  moreover have "appends (shape_names (x # items)) s2 s'"
    by (rule appends_mono [OF Cons.IH [OF r]]) (auto simp: shape_names_def)
  ultimately show ?case by (rule appends_trans)
qed auto

lemma appends_clean_all:
  "appends (shape_names items) s (fold (\<lambda>(_, iface, ifb). tc_cleanup sh iface ifb) items s)"
proof (induction items arbitrary: s)
  case (Cons x items)
  obtain wid iface ifb where x: "x = (wid, iface, ifb)" by (cases x)
  have "appends (shape_names (x # items)) s (tc_cleanup sh iface ifb s)"
    by (rule appends_mono [OF appends_cleanup]) (simp add: shape_names_def x)
  also have "appends (shape_names (x # items)) (tc_cleanup sh iface ifb s)
      (fold (\<lambda>(_, iface, ifb). tc_cleanup sh iface ifb) items (tc_cleanup sh iface ifb s))"
    by (rule appends_mono [OF Cons.IH]) (auto simp: shape_names_def)
  finally show ?case by (simp add: x)
qed auto

text \<open>C21. Smart queues touch nothing but the WANs that are enabled and the queues' own devices: every command
  acts on the interface of an enabled WAN of the document or on one of the numbered \<open>ifb-sbegw\<close> devices,
  one per enabled WAN. (So the shaping of a WAN that was disabled or removed stays in the kernel.)\<close>

theorem shaping_is_confined:
  assumes "traffic_apply sh t cfg (tm, s) = (messages, tm', s')"
  shows "\<exists>cs. fst s' = fst s @ cs \<and>
    tc_target ` set cs \<subseteq> (\<lambda>(_, wan). wan_interface_for wan (Some cfg)) ` set (wan_items cfg) \<union>
      ifb_name ` {..<length (wan_items cfg)}"
proof -
  let ?items = "shape_items cfg"
  let ?s = "fold (\<lambda>(_, iface, ifb). tc_cleanup sh iface ifb) ?items s"
  have clean: "appends (shape_names ?items) s ?s" by (rule appends_clean_all)
  obtain ms fs s2 where sa: "shape_all sh (qos_rate ''upload_kbps'' (sub ''qos'' cfg))
      (qos_rate ''download_kbps'' (sub ''qos'' cfg)) ?items ?s = (ms, fs, s2)" by (metis prod_cases3)
  have "appends (shape_names ?items) s s2"
    by (rule appends_trans [OF clean appends_shape_all [OF sa]])
  moreover have "s' = s \<or> s' = ?s \<or> s' = s2"
    using assms sa by (auto simp: traffic_apply_def Let_def split: if_splits)
  ultimately have "appends (shape_names ?items) s s'" using clean by auto
  moreover have "shape_names ?items \<subseteq> (\<lambda>(_, wan). wan_interface_for wan (Some cfg)) ` set (wan_items cfg) \<union>
      ifb_name ` {..<length (wan_items cfg)}"
    by (fastforce simp: shape_names_def shape_items_def in_set_enumerate_eq dest: nth_mem)
  ultimately show ?thesis unfolding appends_def by blast
qed

text \<open>Queues somebody else set up are left alone: without our handle on the interface and without our
  device, the clean-up sends no command.\<close>

lemma foreign_queues_untouched:
  assumes "(''cake'', ROOT_HANDLE) \<notin> set (sh_qdiscs sh iface (snd s))" and "\<not> sh_exists sh ifb (snd s)"
  shows "tc_cleanup sh iface ifb s = s"
  using assms by (simp add: tc_cleanup_def owned_cake_def tc_try_def Let_def)

text \<open>Applying routes only replaces and adds: a route or rule that left the document stays in the kernel.\<close>

lemma routing_never_deletes:
  assumes "apply_routing works has_vtysh routes cfg = Inr (messages, cs)"
  shows "list_all (\<lambda>c. route_argv c ! 3 \<in> {''replace'', ''add''}) cs"
proof -
  have "route_argv c ! 3 \<in> {''replace'', ''add''}" for c by (cases c) simp_all
  then show ?thesis by (simp add: list_all_iff)
qed

definition idle_kernel :: "unit shaper" where
  "idle_kernel = \<lparr>sh_installed = (\<lambda>_. True), sh_qdiscs = (\<lambda>_ _. []), sh_exists = (\<lambda>_ _. False), sh_run = (\<lambda>_ w. (None, w))\<rparr>"

definition two_wans :: obj where
  "two_wans = [(''qos'', JObj [(''enabled'', JBool True), (''upload_kbps'', JInt 5000)]),
     (''wans'', JObj [(''wan1'', JObj [(''port'', JStr ''eth3'')]), (''wan2'', JObj [(''port'', JStr ''eth4''), (''enabled'', JBool False)])])]"

lemma shaping_is_confined_witness:
  "\<exists>messages tm' s'. traffic_apply idle_kernel 0 two_wans (\<lparr>tm_error = None, tm_bus = None\<rparr>, [], ()) = (messages, tm', s') \<and>
     tc_target ` set (fst s') \<subseteq> {''eth3'', ''ifb-sbegw0''}"
proof -
  obtain messages tm' s' where a: "traffic_apply idle_kernel 0 two_wans (\<lparr>tm_error = None, tm_bus = None\<rparr>, [], ()) = (messages, tm', s')"
    by (metis prod_cases3)
  have "map (\<lambda>(_, wan). wan_interface_for wan (Some two_wans)) (wan_items two_wans) = [''eth3'']"
    and n: "length (wan_items two_wans) = 1" and "ifb_name 0 = ''ifb-sbegw0''" by code_simp+
  then have "(\<lambda>(_, wan). wan_interface_for wan (Some two_wans)) ` set (wan_items two_wans) = {''eth3''}"
    by (metis list.set(1) list.simps(15) set_map)
  moreover have "{..<length (wan_items two_wans)} = {0}" unfolding n by auto
  ultimately show ?thesis using shaping_is_confined [OF a] a \<open>ifb_name 0 = _\<close> by (simp add: insert_commute)
qed

end
