(* ===== verification/Unifi.thy ===== *)
theory Unifi
  imports Auth MacAddr Dhcptrace Dpi
begin

text \<open>
  The gateway's side of the UniFi inform protocol (\<open>unifi.py\<close>): the framing of a report and of the
  answer, the discovery packet, the state the agent keeps and what an answer changes in it. Bytes are
  lists of integers. The cipher, zlib and JSON text belong to libraries: they are the record \<open>wire\<close>;
  what the agent reads from the system is the record \<open>readings\<close>.
\<close>

subsection \<open>Framing\<close>

text \<open>\<open>LibraryError\<close> is an exception of a library call: zlib, the cipher or its padding.\<close>

datatype unifi_error = ProtocolError string | Fault verr | LibraryError

record wire =
  wi_dumps :: "obj \<Rightarrow> int list"
  wi_loads :: "int list \<Rightarrow> json option"
  wi_zip :: "int list \<Rightarrow> int list"
  wi_unzip :: "int list \<Rightarrow> int list option"
  wi_pad :: "int list \<Rightarrow> int list"
  wi_unpad :: "int list \<Rightarrow> int list option"
  wi_cbc :: "int list \<Rightarrow> int list \<Rightarrow> int list \<Rightarrow> int list"
  wi_uncbc :: "int list \<Rightarrow> int list \<Rightarrow> int list \<Rightarrow> int list option"
  wi_seal :: "int list \<Rightarrow> int list \<Rightarrow> int list \<Rightarrow> int list \<Rightarrow> int list \<times> int list"
  wi_open :: "int list \<Rightarrow> int list \<Rightarrow> int list \<Rightarrow> int list \<Rightarrow> int list \<Rightarrow> int list option"

definition MASTER_KEY :: "int list" where
  "MASTER_KEY = the (from_hex ''ba86f2bbe107c7c57eb5f2690775c712'')"

definition MAGIC :: "int list" where "MAGIC = map code ''TNBU''"

definition wire_fault :: "verr + 'a \<Rightarrow> unifi_error + 'a" where
  "wire_fault r = (case r of Inl e \<Rightarrow> Inl (Fault e) | Inr x \<Rightarrow> Inr x)"

definition needed :: "'a option \<Rightarrow> unifi_error + 'a" where
  "needed r = (case r of None \<Rightarrow> Inl LibraryError | Some x \<Rightarrow> Inr x)"

text \<open>\<open>struct.pack\<close> of an unsigned number raises when it does not fit; \<open>struct.error\<close> counts as a fault.\<close>

definition pack_be :: "nat \<Rightarrow> int \<Rightarrow> unifi_error + int list" where
  "pack_be k n = (if 0 \<le> n \<and> n < 256 ^ k then Inr (be_bytes k n) else Inl (Fault (Raised ValueError)))"

text \<open>\<open>bytes(int(part, 16) for part in mac.split(":"))\<close>.\<close>

definition raw_mac :: "string \<Rightarrow> unifi_error + int list" where
  "raw_mac mac = rbind (wire_fault (rmap mac_octet (py_split CHR '':'' mac))) (\<lambda>bs.
     if list_all (\<lambda>b. 0 \<le> b \<and> b < 256) bs then Inr bs else Inl (Fault (Raised ValueError)))"

definition inform_header :: "int list \<Rightarrow> bool \<Rightarrow> int list \<Rightarrow> int \<Rightarrow> unifi_error + int list" where
  "inform_header mac_raw gcm iv n = rbind (pack_be 4 n) (\<lambda>len. Inr
     (MAGIC @ be_bytes 4 1 @ mac_raw @ be_bytes 2 (if gcm then 11 else 3) @ iv @ be_bytes 4 1 @ len))"

text \<open>\<open>iv\<close> is the vector the call was given or drew.\<close>

definition encode_inform :: "wire \<Rightarrow> obj \<Rightarrow> string \<Rightarrow> int list \<Rightarrow> bool \<Rightarrow> int list \<Rightarrow> unifi_error + int list" where
  "encode_inform w payload mac key gcm iv =
     (let raw = wi_zip w (wi_dumps w payload) in
      rbind (raw_mac mac) (\<lambda>mac_raw.
      if length mac_raw \<noteq> 6 then Inl (ProtocolError ''inform identity is not a six-byte MAC'')
      else if gcm
      then rbind (inform_header mac_raw gcm iv (int (length raw) + 16)) (\<lambda>header.
             case wi_seal w key iv header raw of (encrypted, tag) \<Rightarrow> Inr (header @ encrypted @ tag))
      else let encrypted = wi_cbc w key iv (wi_pad w raw) in
           rbind (inform_header mac_raw gcm iv (int (length encrypted))) (\<lambda>header. Inr (header @ encrypted))))"

definition decode_body :: "wire \<Rightarrow> int list \<Rightarrow> bool \<Rightarrow> int list \<Rightarrow> int list \<Rightarrow> int list \<Rightarrow> unifi_error + int list" where
  "decode_body w key gcm iv header body =
     (if gcm
      then if length body < 16 then Inl (ProtocolError ''truncated AES-GCM tag'')
           else needed (wi_open w key iv header (take (length body - 16) body) (drop (length body - 16) body))
      else rbind (needed (wi_uncbc w key iv body)) (\<lambda>padded. needed (wi_unpad w padded)))"

definition decode_inform :: "wire \<Rightarrow> int list \<Rightarrow> int list \<Rightarrow> unifi_error + obj" where
  "decode_inform w packet key =
     (if length packet < 40 \<or> take 4 packet \<noteq> MAGIC then Inl (ProtocolError ''invalid TNBU response'')
      else let flags = be16 packet 14; iv = Dhcptrace.slice 16 32 packet; n = be32 packet 36 in
      if int (length packet) - 40 < n then Inl (ProtocolError ''truncated TNBU response'')
      else rbind (decode_body w key (flags AND 8 \<noteq> 0) iv (take 40 packet) (Dhcptrace.slice 40 (40 + nat n) packet)) (\<lambda>raw.
      rbind (if flags AND 2 \<noteq> 0 then needed (wi_unzip w raw)
             else if flags AND 4 \<noteq> 0 then Inl (ProtocolError ''Snappy-compressed controller response is unsupported'')
             else Inr raw) (\<lambda>raw.
      case wi_loads w raw of
        None \<Rightarrow> Inl (ProtocolError ''controller response is not JSON'')
      | Some (JObj d) \<Rightarrow> Inr d
      | Some _ \<Rightarrow> Inl (ProtocolError ''controller response must be an object''))))"

subsection \<open>Discovery\<close>

definition tlv_item :: "int \<Rightarrow> int list \<Rightarrow> unifi_error + int list" where
  "tlv_item kind v = rbind (pack_be 2 kind) (\<lambda>k. rbind (pack_be 2 (int (length v))) (\<lambda>n. Inr (k @ n @ v)))"

definition ascii :: "string \<Rightarrow> unifi_error + int list" where
  "ascii s = (if list_all (\<lambda>c. code c < 128) s then Inr (map code s) else Inl (Fault (Raised ValueError)))"

text \<open>\<open>inet_aton\<close> of the dotted form the agent passes.\<close>

definition inet_aton :: "string \<Rightarrow> unifi_error + int list" where
  "inet_aton s = (case parse_ipv4 s of None \<Rightarrow> Inl LibraryError | Some n \<Rightarrow> Inr (be_bytes 4 n))"

definition discovery_packet :: "string \<Rightarrow> string \<Rightarrow> string \<Rightarrow> string \<Rightarrow> int \<Rightarrow> int \<Rightarrow> unifi_error + int list" where
  "discovery_packet mac address version model index uptime =
     rbind (raw_mac mac) (\<lambda>mac_raw. rbind (inet_aton address) (\<lambda>ip_raw.
     rbind (ascii (model @ ''.v'' @ version)) (\<lambda>long. rbind (pack_be 4 uptime) (\<lambda>up.
     rbind (ascii model) (\<lambda>mdl. rbind (pack_be 4 index) (\<lambda>ix. rbind (ascii version) (\<lambda>ver.
     rbind (rmap (\<lambda>(k, v). tlv_item k v)
       [(1, mac_raw), (2, mac_raw @ ip_raw), (3, long), (10, up), (11, map code ''UNIFI-GW''), (12, mdl),
        (18, ix), (19, mac_raw), (21, mdl), (22, ver), (27, ver)]) (\<lambda>items.
     rbind (pack_be 2 (int (length (concat items)))) (\<lambda>n. Inr ([2, 6] @ n @ concat items))))))))))"

subsection \<open>The state of the agent\<close>

record agent =
  ua_adopted :: bool
  ua_authkey :: string
  ua_gcm :: bool
  ua_cfgversion :: string
  ua_last_inform :: "time option"
  ua_last_sync :: "time option"
  ua_last_response :: json
  ua_error :: "unifi_error option"
  ua_unsupported :: "string list"
  ua_index :: int

definition new_agent :: agent where
  "new_agent = \<lparr>ua_adopted = False, ua_authkey = [], ua_gcm = False, ua_cfgversion = [], ua_last_inform = None,
     ua_last_sync = None, ua_last_response = JNull, ua_error = None, ua_unsupported = [], ua_index = 0\<rparr>"

text \<open>The state file is only written by the agent; a file that cannot be read gives the initial state. The
  number of discovery packets (\<open>ua_index\<close>) is kept beside it, in memory.\<close>

definition load_agent :: "agent option \<Rightarrow> agent" where
  "load_agent stored = (the_default new_agent stored)\<lparr>ua_index := 0\<rparr>"

definition reset_agent :: "agent \<Rightarrow> agent" where
  "reset_agent a = a\<lparr>ua_adopted := False, ua_authkey := [], ua_gcm := False, ua_cfgversion := [],
     ua_last_response := JNull, ua_error := None, ua_unsupported := []\<rparr>"

definition UNSUPPORTED :: nat where "UNSUPPORTED = 50"

definition unsupported :: "string \<Rightarrow> string \<Rightarrow> agent \<Rightarrow> agent" where
  "unsupported category name a =
     (let entry = category @ '':'' @ name in
      if entry \<in> set (ua_unsupported a) then a
      else a\<lparr>ua_unsupported := keep_last UNSUPPORTED (ua_unsupported a @ [entry])\<rparr>)"

definition key_accepted :: "string \<Rightarrow> bool" where
  "key_accepted v \<longleftrightarrow> list_all is_hex v \<and> 32 \<le> length v \<and> length v \<le> 64"

definition agent_key :: "agent \<Rightarrow> int list" where
  "agent_key a = (let key = the_default [] (from_hex (ua_authkey a)) in
     if length key \<in> {16, 24, 32} then key else MASTER_KEY)"

definition MGMT_KEYS :: "string list" where
  "MGMT_KEYS = [''authkey'', ''cfgversion'', ''use_aes_gcm'', ''inform_url'', ''mgmt_url'', ''stun_url'',
     ''report_crash'', ''capability'', ''selfrun_guest_mode'', ''led_enabled'']"

definition mgmt_line :: "string \<Rightarrow> agent \<Rightarrow> agent" where
  "mgmt_line line a = (case py_partition CHR ''='' line of (key, sep, v) \<Rightarrow>
     if \<not> sep then a
     else if key = ''authkey'' \<and> key_accepted v then a\<lparr>ua_authkey := py_lower v\<rparr>
     else if key = ''cfgversion'' then a\<lparr>ua_cfgversion := v\<rparr>
     else if key = ''use_aes_gcm'' then a\<lparr>ua_gcm := py_lower v \<in> {''1'', ''true'', ''yes''}\<rparr>
     else if key \<notin> set MGMT_KEYS then unsupported ''mgmt_cfg'' key a
     else a)"

definition adopted_event :: "time \<Rightarrow> event_bus option \<Rightarrow> event_bus option" where
  "adopted_event t = map_option (\<lambda>bus. snd (emit \<lparr>em_kind = ''CONTROLLER_ADOPTED'', em_severity = Some ''info'',
     em_data = [], em_subsystem = ''controller'', em_message = ''Gateway adopted by UniFi Network'',
     em_key = None, em_window = 10\<rparr> t bus))"

definition handle_response :: "time \<Rightarrow> obj \<Rightarrow> agent \<times> event_bus option \<Rightarrow> agent \<times> event_bus option" where
  "handle_response t response = (\<lambda>(a, bus).
     let kind = get_null ''_type'' response in
     if kind = JStr ''setparam''
     then let mgmt = (if is_set ''mgmt_cfg'' response then text_of (get_null ''mgmt_cfg'' response) else []);
              a1 = fold mgmt_line (split_lines mgmt) a
          in if ua_authkey a1 \<noteq> [] then (a1\<lparr>ua_adopted := True\<rparr>, adopted_event t bus) else (a1, bus)
     else if kind = JStr ''setdefault'' then (reset_agent a, bus)
     else if kind = JStr ''cmd'' then (unsupported ''command'' (text_of (get_null ''cmd'' response)) a, bus)
     else if kind \<notin> {JStr ''noop'', JStr ''pending-adoption'', JNull} then (unsupported ''response'' (text_of kind) a, bus)
     else (a, bus))"

subsection \<open>The report\<close>

record readings =
  rd_address :: "string \<Rightarrow> string"
  rd_operstate :: "string \<Rightarrow> string"
  rd_counter :: "string \<Rightarrow> string \<Rightarrow> int"
  rd_epoch :: string
  rd_digest :: "int list"
  rd_uptime :: int
  rd_now :: time

text \<open>\<open>_identity\<close>. \<open>rd_digest\<close> is the SHA-256 of the machine's id.\<close>

definition identity_address :: "obj \<Rightarrow> verr + ipv4_net" where
  "identity_address cfg =
     (case parse_ipv4_net (text_or ''192.168.2.1/24'' ''subnet'' (sub ''default'' (sub ''networks'' cfg))) of
        None \<Rightarrow> Inl (Raised ValueError) | Some net \<Rightarrow> Inr net)"

definition fallback_mac :: "int list \<Rightarrow> string" where
  "fallback_mac digest = (case take 6 digest of [] \<Rightarrow> [] | b # bs \<Rightarrow> mac_text (((b OR 2) AND 254) # bs))"

definition identity_mac :: "readings \<Rightarrow> obj \<Rightarrow> string" where
  "identity_mac rd cfg =
     (let candidates = ''br-lan'' # map fst (filter (\<lambda>(_, port). get_null ''role'' (obj_of port) = JStr ''lan'') (sub ''ports'' cfg));
          macs = map (\<lambda>i. py_lower (py_strip (rd_address rd i))) candidates
      in the_default (fallback_mac (rd_digest rd)) (find MAC_RE macs))"

definition COUNTERS :: "string list" where
  "COUNTERS = [''rx_bytes'', ''tx_bytes'', ''rx_packets'', ''tx_packets'', ''rx_errors'', ''tx_errors'',
     ''rx_dropped'', ''tx_dropped'']"

text \<open>The ports in order with the names the controller sees; the second argument counts those before.\<close>

fun logical_ports :: "(string \<times> json) list \<Rightarrow> nat \<Rightarrow> (string \<times> string \<times> obj) list" where
  "logical_ports [] n = []"
| "logical_ports ((pid, port) # ps) n =
     (if get_null ''role'' (obj_of port) = JStr ''wan'' then ''eth0'' else ''eth'' @ show_int (int n + 1), pid, obj_of port) #
     logical_ports ps (Suc n)"

definition port_entry :: "string \<times> string \<times> obj \<Rightarrow> json" where
  "port_entry = (\<lambda>(logical, pid, port). JObj [(''ifname'', JStr logical), (''name'', get_or (JStr pid) ''name'' port),
     (''type'', get_or (JStr ''lan'') ''role'' port), (''realif'', JStr pid)])"

definition interface_entry :: "readings \<Rightarrow> string \<times> string \<times> obj \<Rightarrow> json" where
  "interface_entry rd = (\<lambda>(logical, pid, port). JObj ([(''ifname'', JStr logical), (''name'', get_or (JStr pid) ''name'' port),
     (''mac'', JStr (py_strip (rd_address rd pid))), (''up'', JBool (py_strip (rd_operstate rd pid) = ''up''))] @
     map (\<lambda>k. (k, JInt (rd_counter rd pid k))) COUNTERS))"

definition lease_entries :: "client list \<Rightarrow> json list" where
  "lease_entries live = concat (map (\<lambda>c. case si_ipv4 (cn_seen c) of
       None \<Rightarrow> []
     | Some ip \<Rightarrow> if ip = [] then [] else [JObj ([(''mac'', JStr (client_mac c)), (''ip'', JStr ip)] @
         (case si_hostname (cn_seen c) of None \<Rightarrow> [] | Some h \<Rightarrow> if h = [] then [] else [(''hostname'', JStr h)]))]) live)"

definition stat_entry :: "unifi_stat \<Rightarrow> json" where
  "stat_entry s = JObj [(''cat'', JInt (us_cat s)), (''app'', JInt (us_app s)), (''rx_bytes'', JInt (us_rx s)),
     (''tx_bytes'', JInt (us_tx s)), (''rx_packets'', JInt (us_rx_packets s)), (''tx_packets'', JInt (us_tx_packets s))]"

definition epoch_text :: "readings \<Rightarrow> string" where
  "epoch_text rd = or_else (py_strip (rd_epoch rd)) ''1''"

definition adoption_report :: "readings \<Rightarrow> obj \<Rightarrow> string \<Rightarrow> json \<Rightarrow> string \<Rightarrow> obj" where
  "adoption_report rd cfg address url mac =
     [(''hostname'', get_or (JStr ''sbe1v1k'') ''hostname'' (sub ''system'' cfg)), (''state'', JInt 0), (''default'', JBool True),
      (''inform_url'', url), (''mac'', JStr mac), (''ip'', JStr address), (''model'', JStr ''UGW3''),
      (''model_display'', JStr ''SBE1V1K UniFi Gateway''), (''version'', JStr (''4.4.18.'' @ epoch_text rd)),
      (''uptime'', JInt (rd_uptime rd))]"

definition full_report :: "readings \<Rightarrow> obj \<Rightarrow> agent \<Rightarrow> client list \<Rightarrow> (string \<times> unifi_stat list) list \<Rightarrow> ipv4_net
    \<Rightarrow> ipv4_net \<Rightarrow> json \<Rightarrow> string \<Rightarrow> obj" where
  "full_report rd cfg a live stats net mask_net url mac =
     (let ports = logical_ports (sorted_items (sub ''ports'' cfg)) 0; address = JStr (show_ipv4 (fst net));
          entry = (\<lambda>(who, ss). JObj [(''mac'', JStr who), (''initialized'', JStr ''0''), (''stats'', JList (map stat_entry ss))])
      in [(''bootrom_version'', JStr ''sbe1v1k''), (''cfgversion'', JStr (ua_cfgversion a)),
      (''config_network_wan'', JObj [(''type'', JStr ''dhcp'')]), (''config_port_table'', JList (map port_entry ports)),
      (''connect_request_ip'', address), (''connect_request_port'', JStr ''22''),
      (''default'', JBool False), (''state'', JInt 2), (''discovery_response'', JBool False),
      (''fw_caps'', JInt 3), (''has_default_route_distance'', JBool True),
      (''has_dnsmasq_hostfile_update'', JBool True), (''has_dpi'', JBool (is_set ''enabled'' (sub ''dpi'' cfg))),
      (''has_eth1'', JBool True), (''has_porta'', JBool True), (''has_ssh_disable'', JBool True),
      (''hostname'', get_or (JStr ''sbe1v1k'') ''hostname'' (sub ''system'' cfg)), (''inform_url'', url), (''ip'', address),
      (''ipv4_active_leases'', JList (lease_entries live)), (''isolated'', JBool False), (''mac'', JStr mac),
      (''model'', JStr ''UGW3''), (''model_display'', JStr ''SBE1V1K UniFi Gateway''),
      (''netmask'', JStr (show_ipv4 (2 ^ 32 - 2 ^ (32 - snd mask_net)))),
      (''serial'', JStr (filter (\<lambda>c. c \<noteq> CHR '':'') mac)), (''selfrun_beacon'', JBool True),
      (''time'', JInt \<lfloor>rd_now rd\<rfloor>),
      (''uplink'', JStr (the_default ''eth0'' (map_option fst (find (\<lambda>(_, _, port).
         get_or (JStr ''lan'') ''role'' port = JStr ''wan'') ports)))),
      (''uptime'', JInt (rd_uptime rd)), (''version'', JStr (''4.4.18.'' @ epoch_text rd)),
      (''system-stats'', JObj [(''cpu'', JStr ''0''), (''mem'', JStr ''0''), (''uptime'', JStr (show_int (rd_uptime rd)))]),
      (''if_table'', JList (map (interface_entry rd) ports)), (''network_table'', JList []),
      (''dpi-clients'', JList (map (\<lambda>(who, _). JStr who) stats)), (''dpi-stats'', JList (map entry stats))])"

text \<open>\<open>cfg["networks"]["default"]["subnet"]\<close> of the full report has no default.\<close>

definition default_subnet :: "obj \<Rightarrow> verr + ipv4_net" where
  "default_subnet cfg = rbind (subscript (JObj cfg) ''networks'') (\<lambda>ns. rbind (subscript ns ''default'') (\<lambda>n.
     rbind (subscript n ''subnet'') (\<lambda>s. case parse_ipv4_net (text_of s) of
       None \<Rightarrow> Inl (Raised ValueError) | Some net \<Rightarrow> Inr net)))"

definition inform_payload :: "readings \<Rightarrow> obj \<Rightarrow> agent \<Rightarrow> client list \<Rightarrow> (string \<times> unifi_stat list) list \<Rightarrow> verr + obj" where
  "inform_payload rd cfg a live stats =
     rbind (identity_address cfg) (\<lambda>net. rbind (subscript (get_null ''controller'' cfg) ''inform_url'') (\<lambda>url.
     let mac = identity_mac rd cfg in
     if \<not> ua_adopted a then Inr (adoption_report rd cfg (show_ipv4 (fst net)) url mac)
     else rbind (default_subnet cfg) (\<lambda>mask_net. Inr (full_report rd cfg a live stats net mask_net url mac))))"

text \<open>\<open>_send_discovery\<close>; \<open>send\<close> is the socket.\<close>

definition send_discovery :: "readings \<Rightarrow> (int list \<Rightarrow> unifi_error option) \<Rightarrow> obj \<Rightarrow> agent \<Rightarrow> unifi_error option \<times> agent" where
  "send_discovery rd send cfg a =
     (case identity_address cfg of
        Inl e \<Rightarrow> (Some (Fault e), a)
      | Inr net \<Rightarrow>
          (let a1 = a\<lparr>ua_index := ua_index a + 1\<rparr> in
           case discovery_packet (identity_mac rd cfg) (show_ipv4 (fst net)) ''4.4.18'' ''UGW3'' (ua_index a1) (rd_uptime rd) of
             Inl e \<Rightarrow> (Some e, a1) | Inr packet \<Rightarrow> (send packet, a1)))"

subsection \<open>One exchange\<close>

text \<open>What the POST comes to: a body, an HTTP error, or no connection.\<close>

datatype http_reply = Answer "int list" | HttpError int | NoConnection string

definition reply_payload :: "wire \<Rightarrow> int list \<Rightarrow> bool \<Rightarrow> http_reply \<Rightarrow> unifi_error + obj" where
  "reply_payload w key adopted r = (case r of
     Answer body \<Rightarrow> decode_inform w body key
   | HttpError n \<Rightarrow> if n = 404 \<and> \<not> adopted then Inr [(''_type'', JStr ''pending-adoption'')]
       else Inl (ProtocolError (''controller returned HTTP '' @ show_int n))
   | NoConnection e \<Rightarrow> Inl (ProtocolError (''controller connection failed: '' @ e)))"

text \<open>\<open>post\<close> is the controller: what it answers to a body.\<close>

definition inform_once :: "wire \<Rightarrow> readings \<Rightarrow> (int list \<Rightarrow> http_reply) \<Rightarrow> int list \<Rightarrow> obj \<Rightarrow> client list
    \<Rightarrow> (string \<times> unifi_stat list) list \<Rightarrow> agent \<times> event_bus option \<Rightarrow> (unifi_error + obj) \<times> agent \<times> event_bus option" where
  "inform_once w rd post iv cfg live stats = (\<lambda>(a, bus).
     case rbind (wire_fault (inform_payload rd cfg a live stats)) (\<lambda>payload.
          rbind (encode_inform w payload (identity_mac rd cfg) (agent_key a) (ua_gcm a) iv) (\<lambda>body.
          reply_payload w (agent_key a) (ua_adopted a) (post body))) of
       Inl e \<Rightarrow> (Inl e, a, bus)
     | Inr result \<Rightarrow>
         (let a1 = a\<lparr>ua_last_inform := Some (rd_now rd), ua_last_response := get_or (JStr ''unknown'') ''_type'' result,
            ua_error := None\<rparr>
          in (Inr result, handle_response (rd_now rd) result (a1, bus))))"

end
