(* ===== verification/UnifiSync.thy ===== *)
theory UnifiSync
  imports Unifi ApiHandlers
begin

text \<open>
  The desired state of a UniFi controller (\<open>unifi.py\<close>): its networks, wireless networks and DNS policies
  translated into sections of the document, and the synchronisation that stages and commits them. The
  controller's answers are arbitrary JSON values, so every access that Python may refuse can raise.
\<close>

subsection \<open>Names\<close>

text \<open>\<open>re.sub("[^a-z0-9]+", "-", s)\<close>: a run of other characters becomes one hyphen.\<close>

definition slug_char :: "char \<Rightarrow> bool" where
  "slug_char c = (is_lower_ascii c \<or> is_digit_ascii c)"

fun hyphened :: "string \<Rightarrow> string" where
  "hyphened [] = []"
| "hyphened (c # s) = (if slug_char c then c # hyphened s
     else case s of [] \<Rightarrow> ''-'' | d # _ \<Rightarrow> if slug_char d then CHR ''-'' # hyphened s else hyphened s)"

definition slug :: "string \<Rightarrow> string \<Rightarrow> string" where
  "slug name suffix =
     (let v = take 31 (or_else (py_strip_char CHR ''-'' (hyphened (py_lower name))) ''network'');
          v' = (if suffix = [] then v else take (32 - length suffix) v @ ''-'' @ suffix)
      in py_strip_char CHR ''-'' (take 39 v'))"

text \<open>\<open>x or {}\<close> and then \<open>get\<close>: a truthy value that is not a dictionary has no \<open>get\<close>.\<close>

definition or_dict :: "string \<Rightarrow> obj \<Rightarrow> verr + obj" where
  "or_dict k d = (if is_set k d then as_dict (get_null k d) else Inr [])"

text \<open>\<open>x or y\<close> of a field.\<close>

definition or_value :: "string \<Rightarrow> json \<Rightarrow> obj \<Rightarrow> json" where
  "or_value k dflt d = (if is_set k d then get_null k d else dflt)"

text \<open>\<open>_slug(item.get("name", dflt), str(item.get("id", ""))[:6].lower())\<close>.\<close>

definition item_slug :: "string \<Rightarrow> obj \<Rightarrow> verr + string" where
  "item_slug dflt item = (case get_or (JStr dflt) ''name'' item of
     JStr name \<Rightarrow> Inr (slug name (py_lower (take 6 (text_or [] ''id'' item)))) | _ \<Rightarrow> Inl (Raised AttributeError))"

text \<open>\<open>table.get(key)\<close> of a dictionary with text keys.\<close>

definition lookup_text :: "(string \<times> 'a) list \<Rightarrow> json \<Rightarrow> verr + 'a option" where
  "lookup_text table key = (if \<not> hashable key then Inl (Raised TypeError)
     else Inr (case key of JStr k \<Rightarrow> map_of table k | _ \<Rightarrow> None))"

subsection \<open>Networks\<close>

definition network_value :: "obj \<Rightarrow> obj \<Rightarrow> obj \<Rightarrow> obj \<Rightarrow> string \<Rightarrow> obj" where
  "network_value item ipv4 dhcp pool ident =
     (let isolated = is_set ''isolationEnabled'' item in
      [(''name'', or_value ''name'' (JStr ident) item),
       (''purpose'', JStr (if isolated then ''guest'' else ''corporate'')),
       (''vlan'', if is_set ''default'' item \<or> py_eq (get_null ''vlanId'' item) (JInt 1) then JNull else get_null ''vlanId'' item),
       (''zone'', JStr (if isolated then ''guest'' else ''lan'')),
       (''subnet'', JStr (text_of (get_null ''hostIpAddress'' ipv4) @ ''/'' @ text_of (get_null ''prefixLength'' ipv4))),
       (''dhcp'', JObj [(''enabled'', JBool (get_null ''mode'' dhcp = JStr ''SERVER'')), (''start'', get_null ''start'' pool),
          (''end'', get_null ''stop'' pool), (''lease_seconds'', get_or (JInt 86400) ''leaseTimeSeconds'' dhcp),
          (''dns'', or_value ''dnsServerIpAddressesOverride'' (JList []) dhcp),
          (''domain'', or_value ''domainName'' (JStr ''lan'') dhcp), (''options'', JList []), (''reservations'', JList [])]),
       (''isolation'', JBool isolated), (''igmp_snooping'', JBool True),
       (''mdns'', JBool (on_by_default ''mdnsForwardingEnabled'' item)),
       (''internet_access'', JBool (on_by_default ''internetAccessEnabled'' item)),
       (''wan'', JStr ''auto''), (''controller_id'', get_null ''id'' item)])"

definition translate_network :: "obj \<Rightarrow> verr + (string \<times> obj) option" where
  "translate_network item =
     (if get_null ''management'' item \<noteq> JStr ''GATEWAY'' \<or> \<not> on_by_default ''enabled'' item then Inr None
      else if is_set ''ipv6Configuration'' item then Inr None
      else rbind (or_dict ''ipv4Configuration'' item) (\<lambda>ipv4.
      if \<not> is_set ''hostIpAddress'' ipv4 \<or> get_null ''prefixLength'' ipv4 = JNull then Inr None
      else rbind (if is_set ''default'' item then Inr ''default'' else item_slug ''network'' item) (\<lambda>ident.
      rbind (or_dict ''dhcpConfiguration'' ipv4) (\<lambda>dhcp.
      if dhcp \<noteq> [] \<and> get_null ''mode'' dhcp \<noteq> JStr ''SERVER'' then Inr None
      else rbind (or_dict ''ipAddressRange'' dhcp) (\<lambda>pool.
      Inr (Some (ident, network_value item ipv4 dhcp pool ident)))))))"

subsection \<open>Wireless networks\<close>

definition WIFI_MODES :: "(string \<times> string) list" where
  "WIFI_MODES = [(''OPEN'', ''open''), (''WPA2_PERSONAL'', ''wpa2''), (''WPA2_WPA3_PERSONAL'', ''wpa2-wpa3''),
     (''WPA3_PERSONAL'', ''wpa3'')]"

definition MASKED :: json where "MASKED = JStr ''********''"

text \<open>The bands of the frequencies the table knows; its keys are the numbers 2.4, 5 and 6.\<close>

definition BAND_MAP :: "(rat \<times> string) list" where
  "BAND_MAP = [(12 / 5, ''2g''), (5, ''5g''), (6, ''6g'')]"

definition band_of_frequency :: "json \<Rightarrow> verr + json list" where
  "band_of_frequency x = (if \<not> hashable x then Inl (Raised TypeError)
     else Inr (case Option.bind (num_of x) (map_of BAND_MAP) of None \<Rightarrow> [] | Some b \<Rightarrow> [JStr b]))"

definition wifi_bands :: "obj \<Rightarrow> verr + json list" where
  "wifi_bands item = rbind (py_iter (or_value ''broadcastingFrequenciesGHz''
       (JList (if get_null ''type'' item = JStr ''IOT_OPTIMIZED'' then [JFloat (12 / 5)] else [JFloat (12 / 5), JInt 5])) item))
     (\<lambda>xs. rbind (rmap band_of_frequency xs) (\<lambda>bs. Inr (concat bs)))"

text \<open>The passphrase: the controller's redaction marker stands for the one configured before, and
  without one the network is not translated (\<open>None\<close>).\<close>

definition wifi_passphrase :: "obj \<Rightarrow> obj option \<Rightarrow> verr + json option" where
  "wifi_passphrase security previous =
     (let given = or_value ''passphrase'' (JStr []) security in
      if given \<noteq> MASKED then Inr (Some given)
      else case previous of
        None \<Rightarrow> Inr None
      | Some [] \<Rightarrow> Inr None
      | Some old \<Rightarrow> rbind (as_dict (get_or (JObj []) ''security'' old)) (\<lambda>s. Inr (Some (get_or (JStr []) ''passphrase'' s))))"

definition wifi_network :: "obj \<Rightarrow> (string \<times> string) list \<Rightarrow> verr + string" where
  "wifi_network item network_ids = rbind (or_dict ''network'' item) (\<lambda>ref.
     rbind (lookup_text network_ids (get_null ''networkId'' ref)) (\<lambda>n. Inr (the_default ''default'' n)))"

definition wifi_value :: "obj \<Rightarrow> obj \<Rightarrow> string \<Rightarrow> string \<Rightarrow> json \<Rightarrow> json list \<Rightarrow> string \<Rightarrow> obj" where
  "wifi_value item security ident mode passphrase bands network =
     [(''ssid'', or_value ''name'' (JStr ident) item), (''enabled'', JBool (on_by_default ''enabled'' item)),
      (''hidden'', JBool (is_set ''hideName'' item)), (''uplink'', JStr ''lan''), (''network'', JStr network),
      (''bands'', JList bands), (''client_isolation'', JBool (is_set ''clientIsolationEnabled'' item)),
      (''security'', JObj [(''mode'', JStr mode), (''passphrase'', passphrase),
         (''pmf'', JStr (py_lower (text_of (or_value ''pmfMode'' (JStr (if mode = ''wpa3'' then ''REQUIRED'' else ''OPTIONAL'')) security)))),
         (''owe'', JBool (get_null ''type'' security = JStr ''OPEN'' \<and> get_null ''encryption'' security = JStr ''ENHANCED_OPEN''))]),
      (''mlo'', JBool (is_set ''mloEnabled'' item)), (''fast_roaming'', JBool (is_set ''fastRoamingEnabled'' security)),
      (''bss_transition'', JBool (on_by_default ''bssTransitionEnabled'' item)),
      (''band_steering'', JBool (on_by_default ''bandSteeringEnabled'' item)),
      (''proxy_arp'', JBool (is_set ''arpProxyEnabled'' item)), (''uapsd'', JBool (on_by_default ''uapsdEnabled'' item)),
      (''multicast_to_unicast'', JBool (is_set ''multicastToUnicastConversionEnabled'' item)),
      (''group_rekey_interval'', JBool (get_null ''groupRekeyIntervalSeconds'' security \<noteq> JNull)),
      (''group_rekey_seconds'', or_value ''groupRekeyIntervalSeconds'' (JInt 3600) security),
      (''controller_id'', get_null ''id'' item)]"

definition translate_secured :: "obj \<Rightarrow> (string \<times> string) list \<Rightarrow> obj option \<Rightarrow> string \<Rightarrow> obj \<Rightarrow> string
    \<Rightarrow> verr + (string \<times> obj) option" where
  "translate_secured item network_ids previous ident security mode =
     (if is_set ''radiusConfiguration'' security \<or> is_set ''presharedKeys'' security then Inr None
      else if get_null ''encryption'' security = JStr ''ENHANCED_OPEN_WITH_TRANSITION'' then Inr None
      else rbind (wifi_passphrase security previous) (\<lambda>passphrase.
        case passphrase of None \<Rightarrow> Inr None
        | Some passphrase \<Rightarrow>
            rbind (wifi_network item network_ids) (\<lambda>network. rbind (wifi_bands item) (\<lambda>bands.
            Inr (Some (ident, wifi_value item security ident mode passphrase bands network))))))"

definition translate_wifi :: "obj \<Rightarrow> (string \<times> string) list \<Rightarrow> obj option \<Rightarrow> verr + (string \<times> obj) option" where
  "translate_wifi item network_ids previous =
     (if get_null ''type'' item \<notin> {JStr ''STANDARD'', JStr ''IOT_OPTIMIZED''} then Inr None
      else if is_set ''hotspotConfiguration'' item \<or> is_set ''broadcastingDeviceFilter'' item \<or>
        is_set ''clientFilteringPolicy'' item then Inr None
      else rbind (item_slug ''wifi'' item) (\<lambda>ident.
      rbind (or_dict ''securityConfiguration'' item) (\<lambda>security.
      rbind (lookup_text WIFI_MODES (get_null ''type'' security)) (\<lambda>mode.
      case mode of None \<Rightarrow> Inr None | Some mode \<Rightarrow> translate_secured item network_ids previous ident security mode))))"

subsection \<open>DNS policies\<close>

datatype dns_entry = DnsRecord obj | DnsForwarder obj

definition RECORD_NAMES :: "(string \<times> string) list" where
  "RECORD_NAMES = [(''A_RECORD'', ''A''), (''AAAA_RECORD'', ''AAAA''), (''CNAME_RECORD'', ''CNAME''),
     (''SRV_RECORD'', ''SRV''), (''TXT_RECORD'', ''TXT'')]"

definition SRV_KEYS :: "string list" where
  "SRV_KEYS = [''service'', ''protocol'', ''serverDomain'', ''port'', ''priority'', ''weight'']"

definition record_value_of :: "obj \<Rightarrow> json \<Rightarrow> json" where
  "record_value_of item kind =
     (if kind = JStr ''A_RECORD'' then get_null ''ipv4Address'' item
      else if kind = JStr ''AAAA_RECORD'' then get_null ''ipv6Address'' item
      else if kind = JStr ''CNAME_RECORD'' then get_null ''targetDomain'' item
      else if kind = JStr ''TXT_RECORD'' then get_null ''text'' item else JNull)"

text \<open>The name and value of a service record, which also needs the domain.\<close>

definition srv_record :: "obj \<Rightarrow> verr + json \<times> json" where
  "srv_record item = rbind (need_text ''domain'' item) (\<lambda>domain.
     let f = (\<lambda>k. text_of (get_null k item)) in Inr
       (JStr (f ''service'' @ ''.'' @ f ''protocol'' @ ''.'' @ domain),
        JStr (f ''serverDomain'' @ '','' @ f ''port'' @ '','' @ f ''priority'' @ '','' @ f ''weight'')))"

definition translate_dns :: "obj \<Rightarrow> verr + dns_entry option" where
  "translate_dns item =
     (if \<not> on_by_default ''enabled'' item then Inr None
      else let kind = get_null ''type'' item in
      if kind = JStr ''FORWARD_DOMAIN''
      then let server = get_null ''ipAddress'' item; domain = or_value ''domain'' (get_null ''name'' item) item in
        Inr (if truthy domain \<and> truthy server then Some (DnsForwarder [(''domain'', domain), (''server'', server)]) else None)
      else rbind (lookup_text RECORD_NAMES kind) (\<lambda>record_kind.
        let name = or_value ''domain'' (or_value ''name'' (get_null ''hostname'' item) item) item in
        rbind (if kind = JStr ''SRV_RECORD'' \<and> list_all (\<lambda>k. k \<in> fst ` set item) SRV_KEYS then srv_record item
               else Inr (name, record_value_of item kind)) (\<lambda>(name, v).
        Inr (case record_kind of None \<Rightarrow> None
          | Some k \<Rightarrow> if truthy name \<and> v \<noteq> JNull
              then Some (DnsRecord [(''name'', name), (''type'', JStr k), (''value'', v)]) else None))))"

subsection \<open>Reading the controller\<close>

text \<open>\<open>fetch\<close> is the controller's API: the URL and whether the certificate goes unchecked, to JSON or the
  text of an error.\<close>

definition api_get :: "(string \<Rightarrow> bool \<Rightarrow> string + json) \<Rightarrow> obj \<Rightarrow> string \<Rightarrow> unifi_error + json" where
  "api_get fetch cfg path =
     rbind (wire_fault (need_text ''api_url'' (sub ''controller'' cfg))) (\<lambda>base.
     let url = py_rstrip_char CHR ''/'' base @ ''/'' @ dropWhile (\<lambda>c. c = CHR ''/'') path in
     case fetch url (startswith url ''https://'' \<and> \<not> on_by_default ''verify_tls'' (sub ''controller'' cfg)) of
       Inl e \<Rightarrow> Inl (ProtocolError (''Network API request failed for '' @ path @ '': '' @ e))
     | Inr j \<Rightarrow> Inr j)"

definition api_page :: "json \<Rightarrow> json list" where
  "api_page v = list_of (case v of JObj d \<Rightarrow> get_or (get_or (JList []) ''items'' d) ''data'' d | _ \<Rightarrow> v)"

definition detail_of :: "json \<Rightarrow> json" where
  "detail_of v = (case v of JObj d \<Rightarrow> get_or v ''data'' d | _ \<Rightarrow> v)"

text \<open>An overview, then the details of each of its rows.\<close>

definition api_details :: "(string \<Rightarrow> bool \<Rightarrow> string + json) \<Rightarrow> obj \<Rightarrow> string \<Rightarrow> json list \<Rightarrow> unifi_error + json list" where
  "api_details fetch cfg base rows = rmap (\<lambda>row. rbind (wire_fault (subscript row ''id'')) (\<lambda>i.
     rbind (api_get fetch cfg (base @ ''/'' @ text_of i)) (\<lambda>d. Inr (detail_of d)))) rows"

definition desired_state :: "(string \<Rightarrow> bool \<Rightarrow> string + json) \<Rightarrow> obj
    \<Rightarrow> unifi_error + json list \<times> json list \<times> json list" where
  "desired_state fetch cfg =
     rbind (wire_fault (need_text ''site_id'' (sub ''controller'' cfg))) (\<lambda>site.
     let networks = ''sites/'' @ site @ ''/networks''; wifi = ''sites/'' @ site @ ''/wifi/broadcasts'';
         dns = ''sites/'' @ site @ ''/dns/policies'' in
     rbind (api_get fetch cfg (networks @ ''?limit=200'')) (\<lambda>ns.
     rbind (api_get fetch cfg (wifi @ ''?limit=200'')) (\<lambda>ws.
     rbind (api_get fetch cfg (dns @ ''?limit=200'')) (\<lambda>ds.
     rbind (api_details fetch cfg networks (api_page ns)) (\<lambda>ns.
     rbind (api_details fetch cfg wifi (api_page ws)) (\<lambda>ws.
     rbind (api_details fetch cfg dns (api_page ds)) (\<lambda>ds. Inr (ns, ws, ds))))))))"

subsection \<open>Translating all of it\<close>

text \<open>What the loops accumulate.\<close>

record translation =
  tr_networks :: obj
  tr_ids :: "(string \<times> string) list"
  tr_wifi :: obj
  tr_records :: "json list"
  tr_forwarders :: "json list"
  tr_unsupported :: "string list"

definition no_translation :: translation where
  "no_translation = \<lparr>tr_networks = [], tr_ids = [], tr_wifi = [], tr_records = [], tr_forwarders = [], tr_unsupported = []\<rparr>"

definition give_up :: "string \<Rightarrow> obj \<Rightarrow> translation \<Rightarrow> translation" where
  "give_up what row tr = tr\<lparr>tr_unsupported := tr_unsupported tr @ [what @ '':'' @ text_or ''unknown'' ''id'' row]\<rparr>"

fun translate_networks :: "json list \<Rightarrow> translation \<Rightarrow> verr + translation" where
  "translate_networks [] tr = Inr tr"
| "translate_networks (row # rows) tr = rbind (as_dict row) (\<lambda>row. rbind (translate_network row) (\<lambda>r.
     translate_networks rows (case r of
       None \<Rightarrow> give_up ''network'' row tr
     | Some (ident, v) \<Rightarrow> tr\<lparr>tr_networks := dset ident (JObj v) (tr_networks tr),
         tr_ids := AList.update (text_of (get_null ''id'' row)) ident (tr_ids tr)\<rparr>)))"

text \<open>The wireless networks configured before, by the id of the controller.\<close>

definition previous_wifi :: "obj \<Rightarrow> (string \<times> obj) list" where
  "previous_wifi cfg = fold (\<lambda>(_, w) d. if is_set ''controller_id'' (obj_of w)
       then AList.update (text_of (get_null ''controller_id'' (obj_of w))) (obj_of w) d else d)
     (sub ''networks'' (sub ''wifi'' cfg)) []"

fun translate_wifis :: "(string \<times> obj) list \<Rightarrow> json list \<Rightarrow> translation \<Rightarrow> verr + translation" where
  "translate_wifis old [] tr = Inr tr"
| "translate_wifis old (row # rows) tr = rbind (as_dict row) (\<lambda>row.
     rbind (translate_wifi row (tr_ids tr) (map_of old (text_of (get_null ''id'' row)))) (\<lambda>r.
     translate_wifis old rows (case r of
       None \<Rightarrow> give_up ''wifi'' row tr
     | Some (ident, v) \<Rightarrow> tr\<lparr>tr_wifi := dset ident (JObj v) (tr_wifi tr)\<rparr>)))"

fun translate_policies :: "json list \<Rightarrow> translation \<Rightarrow> verr + translation" where
  "translate_policies [] tr = Inr tr"
| "translate_policies (row # rows) tr = rbind (as_dict row) (\<lambda>row. rbind (translate_dns row) (\<lambda>r.
     translate_policies rows (case r of
       None \<Rightarrow> give_up ''dns'' row tr
     | Some (DnsRecord v) \<Rightarrow> tr\<lparr>tr_records := tr_records tr @ [JObj v]\<rparr>
     | Some (DnsForwarder v) \<Rightarrow> tr\<lparr>tr_forwarders := tr_forwarders tr @ [JObj v]\<rparr>)))"

definition translate_all :: "obj \<Rightarrow> json list \<Rightarrow> json list \<Rightarrow> json list \<Rightarrow> unifi_error + translation" where
  "translate_all cfg networks wifi dns =
     rbind (wire_fault (translate_networks networks no_translation)) (\<lambda>tr.
     if ''default'' \<notin> fst ` set (tr_networks tr)
     then Inl (ProtocolError ''controller did not return a managed default network'')
     else rbind (wire_fault (translate_wifis (previous_wifi cfg) wifi tr)) (\<lambda>tr.
          wire_fault (translate_policies dns tr)))"

subsection \<open>The change to the document\<close>

text \<open>A LAN port that names a network the controller does not manage falls back to the default one, and
  loses the tags no network has.\<close>

definition sync_port :: "obj \<Rightarrow> json \<Rightarrow> verr + json" where
  "sync_port networks port = rbind (as_dict port) (\<lambda>p.
     let lan = get_null ''role'' p = JStr ''lan'' in
     rbind (if lan then py_in (get_null ''network'' p) (JObj networks) else Inr True) (\<lambda>known.
     let p1 = (if known then p else dset ''network'' (JStr ''default'') p);
         vlans = map (\<lambda>(_, net). get_null ''vlan'' (obj_of net)) networks in
     if \<not> list_all hashable vlans then Inl (Raised TypeError)
     else if \<not> lan then Inr (JObj p1)
     else rbind (py_iter (get_or (JList []) ''tagged_vlans'' p1)) (\<lambda>tags.
          if \<not> list_all hashable tags then Inl (Raised TypeError)
          else Inr (JObj (dset ''tagged_vlans'' (JList (filter (\<lambda>v. list_ex (py_eq v) vlans) tags)) p1)))))"

text \<open>The sections the controller writes, and the closure \<open>mutate\<close>.\<close>

definition SYNCED :: "string list" where
  "SYNCED = [''networks'', ''wifi'', ''dns'', ''ports'']"

definition sync_mutate :: "obj \<Rightarrow> obj \<Rightarrow> json list \<Rightarrow> json list \<Rightarrow> obj \<Rightarrow> verr + obj" where
  "sync_mutate networks wifi records forwarders d =
     rbind (inside ''wifi'' (\<lambda>w. Inr (dset ''mlds'' (JObj []) (dset ''networks'' (JObj wifi) w)))
       (dset ''networks'' (JObj networks) d)) (\<lambda>d1.
     rbind (inside ''dns'' (\<lambda>n. Inr (dset ''conditional_forwarders'' (JList forwarders) (dset ''records'' (JList records) n))) d1) (\<lambda>d2.
     case map_of d2 ''ports'' of
       None \<Rightarrow> Inr d2
     | Some ports \<Rightarrow> rbind (as_dict ports) (\<lambda>ps.
         rbind (rmap (\<lambda>(pid, port). rbind (sync_port networks port) (\<lambda>p. Inr (pid, p))) ps) (\<lambda>ps'.
         Inr (dset ''ports'' (JObj ps') d2)))))"

subsection \<open>Synchronisation\<close>

record sync_result =
  sr_unsupported :: "string list"
  sr_commit :: "commit_result option"

datatype sync_error = Controller unifi_error | Invalid verr | Refused commit_error

definition sync_args :: commit_args where
  "sync_args = \<lparr>ca_user = ''unifi-controller'', ca_ip = ''controller'', ca_summary = ''UniFi Network desired-state sync'',
     ca_rollback_seconds = DEFAULT_ROLLBACK_SECONDS, ca_confirm = Some False, ca_force = False\<rparr>"

definition note_sync :: "time \<Rightarrow> string list \<Rightarrow> agent \<Rightarrow> agent" where
  "note_sync t entries a = a\<lparr>ua_last_sync := Some t,
     ua_unsupported := keep_last UNSUPPORTED (foldl (\<lambda>xs e. if e \<in> set xs then xs else xs @ [e]) (ua_unsupported a) entries),
     ua_error := None\<rparr>"

text \<open>The change is tried on the running document first. \<open>validate\<close> completes what it checks in place, and
  the closure holds the same objects, so what is staged are the completed sections.\<close>

definition sync_trial :: "capabilities \<Rightarrow> translation \<Rightarrow> obj \<Rightarrow> verr + obj" where
  "sync_trial caps tr cfg =
     rbind (sync_mutate (tr_networks tr) (tr_wifi tr) (tr_records tr) (tr_forwarders tr) cfg) (\<lambda>d.
     rbind (validate caps (JObj d)) (\<lambda>(j, w). as_dict j))"

definition staged_change :: "obj \<Rightarrow> obj \<Rightarrow> verr + obj" where
  "staged_change trial = sync_mutate (sub ''networks'' trial) (sub ''networks'' (sub ''wifi'' trial))
     (arr ''records'' (sub ''dns'' trial)) (arr ''conditional_forwarders'' (sub ''dns'' trial))"

definition sync_commit :: "'w env \<Rightarrow> string \<Rightarrow> time \<Rightarrow> obj \<Rightarrow> 'w store \<Rightarrow> (sync_error + commit_result) \<times> 'w store" where
  "sync_commit env txid t trial st =
     (case stage env (on_document (staged_change trial)) st of
        (Inl e, st1) \<Rightarrow> (Inl (Invalid e), st1)
      | (Inr _, st1) \<Rightarrow> (case commit env sync_args txid t st1 of
           (Inl e, st2) \<Rightarrow> (Inl (Refused e), st2) | (Inr res, st2) \<Rightarrow> (Inr res, st2)))"

definition sync_once :: "'w env \<Rightarrow> (string \<Rightarrow> bool \<Rightarrow> string + json) \<Rightarrow> string \<Rightarrow> time \<Rightarrow> obj \<Rightarrow> agent \<times> 'w store
    \<Rightarrow> (sync_error + sync_result) \<times> agent \<times> 'w store" where
  "sync_once env fetch txid t cfg = (\<lambda>(a, st).
     case rbind (desired_state fetch cfg) (\<lambda>(ns, ws, ds). translate_all cfg ns ws ds) of
       Inl e \<Rightarrow> (Inl (Controller e), a, st)
     | Inr tr \<Rightarrow>
         (case sync_trial (env_caps env) tr cfg of
            Inl e \<Rightarrow> (Inl (Invalid e), a, st)
          | Inr trial \<Rightarrow>
              if py_eq (JObj trial) (JObj cfg)
              then (Inr \<lparr>sr_unsupported = tr_unsupported tr, sr_commit = None\<rparr>, note_sync t (tr_unsupported tr) a, st)
              else (case sync_commit env txid t trial st of
                (Inl e, st1) \<Rightarrow> (Inl e, a, st1)
              | (Inr res, st1) \<Rightarrow> (Inr \<lparr>sr_unsupported = tr_unsupported tr, sr_commit = Some res\<rparr>,
                  note_sync t (tr_unsupported tr) a, st1))))"

text \<open>The settings as \<open>status\<close> shows them.\<close>

definition shown_controller :: "obj \<Rightarrow> obj" where
  "shown_controller cfg = map (\<lambda>(k, v). (k, if k = ''api_key'' \<and> truthy v then MASKED else v)) (sub ''controller'' cfg)"

subsection \<open>One cycle of the agent\<close>

definition cycle_wait :: "obj \<Rightarrow> int \<Rightarrow> int" where
  "cycle_wait controller interval = (if is_set ''enabled'' controller then min (max interval 5) 300 else 5)"

definition sync_due :: "time \<Rightarrow> int \<Rightarrow> agent \<Rightarrow> bool" where
  "sync_due t interval a \<longleftrightarrow> max 30 (of_int interval) \<le> t - the_default 0 (ua_last_sync a)"

text \<open>The errors of the inform and of the synchronisation are caught alike; the text of an error is its value
  here.\<close>

definition failed_cycle :: "unifi_error \<Rightarrow> agent \<Rightarrow> agent" where
  "failed_cycle e a = a\<lparr>ua_error := Some e\<rparr>"

definition error_of_sync :: "sync_error \<Rightarrow> unifi_error" where
  "error_of_sync e = (case e of Controller e \<Rightarrow> e | Invalid e \<Rightarrow> Fault e | Refused (CommitError _ _ _) \<Rightarrow> Fault (Raised ValueError)
     | Refused (Uncaught x) \<Rightarrow> Fault (Raised x))"

definition controller_cycle :: "'w env \<Rightarrow> wire \<Rightarrow> readings \<Rightarrow> (int list \<Rightarrow> http_reply) \<Rightarrow> (string \<Rightarrow> bool \<Rightarrow> string + json)
    \<Rightarrow> (int list \<Rightarrow> unifi_error option) \<Rightarrow> int list \<Rightarrow> string \<Rightarrow> client list \<Rightarrow> (string \<times> unifi_stat list) list
    \<Rightarrow> agent \<times> event_bus option \<times> 'w store \<Rightarrow> agent \<times> event_bus option \<times> 'w store" where
  "controller_cycle env w rd post fetch send iv txid live stats = (\<lambda>(a, bus, st).
     let cfg = obj_of (running st); controller = sub ''controller'' cfg;
         interval = (case get_or (JInt 10) ''interval_seconds'' controller of JInt n \<Rightarrow> n | _ \<Rightarrow> 10) in
     if \<not> is_set ''enabled'' controller then (a, bus, st)
     else case (if is_set ''discovery'' controller \<and> \<not> ua_adopted a then send_discovery rd send cfg a else (None, a)) of
       (Some e, a0) \<Rightarrow> (failed_cycle e a0, bus, st)
     | (None, a0) \<Rightarrow>
         (case inform_once w rd post iv cfg live stats (a0, bus) of
            (Inl e, a1, bus1) \<Rightarrow> (failed_cycle e a1, bus1, st)
          | (Inr _, a1, bus1) \<Rightarrow>
              if is_set ''sync_enabled'' controller \<and> sync_due (rd_now rd) interval a1
              then (case sync_once env fetch txid (rd_now rd) cfg (a1, st) of
                  (Inl e, a2, st2) \<Rightarrow> (failed_cycle (error_of_sync e) a2, bus1, st2)
                | (Inr _, a2, st2) \<Rightarrow> (a2, bus1, st2))
              else (a1, bus1, st)))"

end
