(* ===== verification/UnifiSafety.thy ===== *)
theory UnifiSafety
  imports UnifiSync StoreSafety
begin

text \<open>
  What the agent of the controller guarantees: frames decode to what was encoded, the state it keeps stays
  sound whatever the controller answers, and the configuration only changes through the store. Also
  what the translation gets wrong.
\<close>

subsection \<open>Framing\<close>

definition wire_ok :: "wire \<Rightarrow> obj \<Rightarrow> bool" where
  "wire_ok w payload \<longleftrightarrow>
     wi_loads w (wi_dumps w payload) = Some (JObj payload) \<and>
     (\<forall>raw. wi_unzip w (wi_zip w raw) = Some raw) \<and>
     (\<forall>raw. wi_unpad w (wi_pad w raw) = Some raw) \<and>
     (\<forall>key iv raw. wi_uncbc w key iv (wi_cbc w key iv raw) = Some raw) \<and>
     (\<forall>key iv header raw. length (snd (wi_seal w key iv header raw)) = 16 \<and>
       wi_open w key iv header (fst (wi_seal w key iv header raw)) (snd (wi_seal w key iv header raw)) = Some raw \<and>
       length (fst (wi_seal w key iv header raw)) = length raw)"

lemma length_be_bytes [simp]: "length (be_bytes k n) = k"
  by (induction k arbitrary: n) simp_all

lemma four_digits:
  fixes n a b c r0 r1 r2 :: int
  assumes "n = 256 * a + r0" and "a = 256 * b + r1" and "b = 256 * c + r2"
    and "0 \<le> r0" and "0 \<le> r1" and "0 \<le> r2"
  shows "(c * 256 + r2) * 65536 + (r1 * 256 + r0) = n" and "n < 4294967296 \<Longrightarrow> c < 256"
proof -
  show "(c * 256 + r2) * 65536 + (r1 * 256 + r0) = n" by (simp add: assms(1-3) algebra_simps)
  show "n < 4294967296 \<Longrightarrow> c < 256" using assms by linarith
qed

lemma be32_be_bytes:
  assumes "0 \<le> n" and "n < 256 ^ 4"
  shows "be32 (be_bytes 4 n) 0 = n"
proof -
  let ?a = "n div 256" let ?b = "?a div 256" let ?c = "?b div 256"
  have digit: "x = 256 * (x div 256) + x mod 256" "0 \<le> x mod 256" for x :: int by simp_all
  note digits = four_digits [OF digit(1) digit(1) digit(1) digit(2) digit(2) digit(2), of n]
  have "be_bytes 4 n = [?c mod 256, ?b mod 256, ?a mod 256, n mod 256]"
    by (simp add: numeral_eq_Suc)
  then have "be32 (be_bytes 4 n) 0 = (?c mod 256 * 256 + ?b mod 256) * 65536 + (?a mod 256 * 256 + n mod 256)"
    by (simp add: be32_def be16_def numeral_2_eq_2 numeral_3_eq_3)
  moreover have "?c mod 256 = ?c"
  proof (rule mod_pos_pos_trivial)
    show "0 \<le> ?c" using assms(1) by (simp add: pos_imp_zdiv_nonneg_iff)
    show "?c < 256" by (rule digits(2)) (use assms(2) in simp)
  qed
  ultimately show ?thesis using digits(1) by (simp only:)
qed

lemma pack_be_eq: "pack_be k n = Inr xs \<longleftrightarrow> 0 \<le> n \<and> n < 256 ^ k \<and> xs = be_bytes k n"
  by (auto simp: pack_be_def)

text \<open>How the receiver sees a header, and the body behind it.\<close>

lemma header_read:
  assumes "inform_header mac_raw gcm iv (int (length body)) = Inr header" and "length mac_raw = 6" and "length iv = 16"
  shows "length header = 40" and "take 4 (header @ body) = MAGIC"
    and "be16 (header @ body) 14 = (if gcm then 11 else 3)" and "Dhcptrace.slice 16 32 (header @ body) = iv"
    and "be32 (header @ body) 36 = int (length body)"
proof -
  let ?pre = "MAGIC @ be_bytes 4 1 @ mac_raw @ be_bytes 2 (if gcm then 11 else 3)"
  let ?n = "int (length body)"
  from assms(1) have h: "header = ?pre @ iv @ be_bytes 4 1 @ be_bytes 4 ?n" and n: "0 \<le> ?n" "?n < 256 ^ 4"
    by (auto simp: inform_header_def rbind_eq_Inr pack_be_eq)
  have m: "length MAGIC = 4" by (simp add: MAGIC_def)
  have p: "length ?pre = 16" using assms(2) m by simp
  show "length header = 40" using p assms(3) by (simp add: h)
  show "take 4 (header @ body) = MAGIC" using m by (simp add: h)
  show "Dhcptrace.slice 16 32 (header @ body) = iv" using p assms(3) by (simp add: h Dhcptrace.slice_def)
  have "be_bytes 2 (if gcm then 11 else 3) = [0, if gcm then 11 else 3]" by (simp add: numeral_eq_Suc)
  then show "be16 (header @ body) 14 = (if gcm then 11 else 3)"
    using assms(2) m by (simp add: h be16_def nth_append)
  have "header @ body = (?pre @ iv @ be_bytes 4 1) @ be_bytes 4 ?n @ body" by (simp add: h)
  moreover have "length (?pre @ iv @ be_bytes 4 1) = 36" using p assms(3) by simp
  ultimately have "be32 (header @ body) 36 = be32 (be_bytes 4 ?n) 0"
    by (simp add: be32_def be16_def nth_append numeral_2_eq_2 numeral_3_eq_3 del: append_assoc)
  then show "be32 (header @ body) 36 = ?n" using be32_be_bytes [OF n] by simp
qed

lemma encode_cases:
  assumes "encode_inform w payload mac key gcm iv = Inr packet" and "wire_ok w payload"
  obtains mac_raw header body where "length mac_raw = 6"
    "inform_header mac_raw gcm iv (int (length body)) = Inr header" "packet = header @ body"
    "decode_body w key gcm iv header body = Inr (wi_zip w (wi_dumps w payload))"
proof (cases gcm)
  case True
  let ?raw = "wi_zip w (wi_dumps w payload)"
  from assms(1) True obtain mac_raw header where m: "length mac_raw = 6"
    "inform_header mac_raw gcm iv (int (length ?raw) + 16) = Inr header"
    "packet = header @ fst (wi_seal w key iv header ?raw) @ snd (wi_seal w key iv header ?raw)"
    by (auto simp: encode_inform_def Let_def rbind_eq_Inr case_prod_unfold split: if_splits)
  let ?body = "fst (wi_seal w key iv header ?raw) @ snd (wi_seal w key iv header ?raw)"
  have l: "length (snd (wi_seal w key iv header ?raw)) = 16" "length (fst (wi_seal w key iv header ?raw)) = length ?raw"
    "wi_open w key iv header (fst (wi_seal w key iv header ?raw)) (snd (wi_seal w key iv header ?raw)) = Some ?raw"
    using assms(2) by (simp_all add: wire_ok_def)
  then show ?thesis using that [of mac_raw ?body header] m True by (simp add: decode_body_def needed_def)
next
  case False
  let ?body = "wi_cbc w key iv (wi_pad w (wi_zip w (wi_dumps w payload)))"
  from assms(1) False obtain mac_raw header where "length mac_raw = 6"
    "inform_header mac_raw gcm iv (int (length ?body)) = Inr header" "packet = header @ ?body"
    by (auto simp: encode_inform_def Let_def rbind_eq_Inr split: if_splits)
  then show ?thesis using that [of mac_raw ?body header] assms(2) False
    by (simp add: decode_body_def needed_def wire_ok_def)
qed

text \<open>C29. A frame decodes to the report it was made of, in both modes: with a cipher, compression and JSON
  text that invert what they produce, \<open>decode_inform\<close> undoes \<open>encode_inform\<close> under the same key.\<close>

theorem inform_roundtrip:
  assumes "encode_inform w payload mac key gcm iv = Inr packet" and "wire_ok w payload" and "length iv = 16"
  shows "decode_inform w packet key = Inr payload"
proof -
  obtain mac_raw header body where m: "length mac_raw = 6"
    and h: "inform_header mac_raw gcm iv (int (length body)) = Inr header" and p: "packet = header @ body"
    and d: "decode_body w key gcm iv header body = Inr (wi_zip w (wi_dumps w payload))"
    using encode_cases [OF assms(1,2)] by blast
  note r = header_read [OF h m assms(3)]
  have "(if gcm then 11 else 3 :: int) AND 8 \<noteq> 0 \<longleftrightarrow> gcm" "(if gcm then 11 else 3 :: int) AND 2 \<noteq> 0" by simp_all
  moreover have "Dhcptrace.slice 40 (40 + nat (int (length body))) (header @ body) = body"
    using r(1) by (simp add: Dhcptrace.slice_def)
  ultimately show ?thesis using r d assms(2)
    by (simp add: decode_inform_def p Let_def needed_def wire_ok_def)
qed

definition toy_wire :: wire where
  "toy_wire = \<lparr>wi_dumps = \<lambda>d. [123, int (length d), 125], wi_loads = \<lambda>_. Some (JObj [(''state'', JInt 2)]),
     wi_zip = rev, wi_unzip = \<lambda>xs. Some (rev xs), wi_pad = \<lambda>xs. xs @ [1], wi_unpad = \<lambda>xs. Some (butlast xs),
     wi_cbc = \<lambda>key iv xs. map (\<lambda>x. x + 1) xs, wi_uncbc = \<lambda>key iv xs. Some (map (\<lambda>x. x - 1) xs),
     wi_seal = \<lambda>key iv h xs. (xs, replicate 16 7), wi_open = \<lambda>key iv h xs tag. Some xs\<rparr>"

lemma toy_wire_ok: "wire_ok toy_wire [(''state'', JInt 2)]"
  by (simp add: wire_ok_def toy_wire_def o_def)

lemma inform_roundtrip_witness:
  "\<exists>packet. encode_inform toy_wire [(''state'', JInt 2)] ''02:00:00:00:00:01'' MASTER_KEY True (replicate 16 9) = Inr packet \<and>
     decode_inform toy_wire packet MASTER_KEY = Inr [(''state'', JInt 2)]"
proof -
  have "is_ok (encode_inform toy_wire [(''state'', JInt 2)] ''02:00:00:00:00:01'' MASTER_KEY True (replicate 16 9))"
    by code_simp
  then obtain packet where p: "encode_inform toy_wire [(''state'', JInt 2)] ''02:00:00:00:00:01'' MASTER_KEY True (replicate 16 9) = Inr packet"
    by (auto simp: is_ok_def split: sum.splits)
  from inform_roundtrip [OF this toy_wire_ok] p show ?thesis by simp
qed

subsection \<open>The state of the agent\<close>

text \<open>The key is absent or one the controller gave, an adopted gateway has one, and the list of what is not
  supported has no duplicates and at most 50 entries.\<close>

definition agent_ok :: "agent \<Rightarrow> bool" where
  "agent_ok a \<longleftrightarrow> (ua_authkey a = [] \<or> key_accepted (ua_authkey a)) \<and> (ua_adopted a \<longrightarrow> ua_authkey a \<noteq> []) \<and>
     distinct (ua_unsupported a) \<and> length (ua_unsupported a) \<le> UNSUPPORTED"

lemma is_hex_lower_char: "is_hex c \<Longrightarrow> is_hex (lower_char c)"
  by (auto simp: is_hex_def is_hex_lower_def is_digit_ascii_def in_range_def lower_char_def py_isupper_def is_upper_ascii_def)

lemma key_accepted_lower: "key_accepted v \<Longrightarrow> key_accepted (py_lower v)"
  by (simp add: key_accepted_def py_lower_def list_all_iff is_hex_lower_char)

lemma unsupported_ok: "agent_ok a \<Longrightarrow> agent_ok (unsupported c n a)"
  by (auto simp: agent_ok_def unsupported_def Let_def keep_last_length intro!: keep_last_distinct)

lemma unsupported_key [simp]: "ua_authkey (unsupported c n a) = ua_authkey a" "ua_adopted (unsupported c n a) = ua_adopted a"
  by (simp_all add: unsupported_def Let_def)

lemma mgmt_line_ok: "agent_ok a \<Longrightarrow> agent_ok (mgmt_line line a)"
proof (cases "py_partition CHR ''='' line")
  case (fields key sep v)
  assume a: "agent_ok a"
  have "key_accepted v \<Longrightarrow> py_lower v \<noteq> []" by (auto simp: key_accepted_def py_lower_def)
  then show ?thesis using a unsupported_ok [OF a]
    by (auto simp: mgmt_line_def fields agent_ok_def key_accepted_lower)
qed

lemma handle_response_ok: "agent_ok a \<Longrightarrow> agent_ok (fst (handle_response t response (a, bus)))"
proof -
  assume a: "agent_ok a"
  have f: "agent_ok (fold mgmt_line ls a)" for ls
    using a by (induction ls arbitrary: a) (simp_all add: mgmt_line_ok)
  have g: "agent_ok ((fold mgmt_line ls a)\<lparr>ua_adopted := True\<rparr>)" if "ua_authkey (fold mgmt_line ls a) \<noteq> []" for ls
    using f [of ls] that by (simp add: agent_ok_def)
  have "agent_ok (reset_agent a)" by (simp add: agent_ok_def reset_agent_def)
  then show ?thesis using a f g by (simp add: handle_response_def Let_def unsupported_ok)
qed

lemma agent_ok_frame:
  "agent_ok a \<Longrightarrow> agent_ok (a\<lparr>ua_last_inform := i, ua_last_response := r, ua_error := e\<rparr>)"
  "agent_ok a \<Longrightarrow> agent_ok (a\<lparr>ua_error := e\<rparr>)" "agent_ok a \<Longrightarrow> agent_ok (a\<lparr>ua_index := n\<rparr>)"
  by (simp_all add: agent_ok_def)

lemma inform_once_ok: "agent_ok a \<Longrightarrow> agent_ok (fst (snd (inform_once w rd post iv cfg live stats (a, bus))))"
  by (simp add: inform_once_def Let_def handle_response_ok agent_ok_frame split: sum.split)

lemma add_unless_distinct: "distinct xs \<Longrightarrow> distinct (foldl (\<lambda>xs e. if e \<in> set xs then xs else xs @ [e]) xs es)"
  by (induction es arbitrary: xs) simp_all

lemma note_sync_ok: "agent_ok a \<Longrightarrow> agent_ok (note_sync t es a)"
  by (simp add: agent_ok_def note_sync_def keep_last_length keep_last_distinct add_unless_distinct)

lemma sync_once_ok: "agent_ok a \<Longrightarrow> agent_ok (fst (snd (sync_once env fetch txid t cfg (a, st))))"
  by (simp add: sync_once_def note_sync_ok split: sum.split prod.split)

lemma send_discovery_ok: "agent_ok a \<Longrightarrow> agent_ok (snd (send_discovery rd send cfg a))"
  by (simp add: send_discovery_def Let_def agent_ok_frame split: sum.split)

lemma controller_cycle_ok:
  assumes "agent_ok a"
  shows "agent_ok (fst (controller_cycle env w rd post fetch send iv txid live stats (a, bus, st)))"
proof -
  let ?c = "sub ''controller'' (obj_of (running st))"
  obtain d a0 where d: "(if is_set ''discovery'' ?c \<and> \<not> ua_adopted a then send_discovery rd send (obj_of (running st)) a
    else (None, a)) = (d, a0)" by (metis surj_pair)
  then have a0: "agent_ok a0"
    using assms send_discovery_ok [OF assms, of rd send "obj_of (running st)"] by (auto split: if_splits)
  obtain r a1 bus1 where i: "inform_once w rd post iv (obj_of (running st)) live stats (a0, bus) = (r, a1, bus1)"
    by (metis prod_cases3)
  then have a1: "agent_ok a1" using inform_once_ok [OF a0] by (metis fst_conv snd_conv)
  obtain s a2 st2 where s: "sync_once env fetch txid (rd_now rd) (obj_of (running st)) (a1, st) = (s, a2, st2)"
    by (metis prod_cases3)
  then have a2: "agent_ok a2" using sync_once_ok [OF a1] by (metis fst_conv snd_conv)
  show ?thesis unfolding controller_cycle_def Let_def
    using assms a0 a1 a2 by (simp add: d i s failed_cycle_def agent_ok_frame split: option.split sum.split)
qed

text \<open>What one cycle sees of the world.\<close>

record moment =
  mo_wire :: wire
  mo_readings :: readings
  mo_post :: "int list \<Rightarrow> http_reply"
  mo_fetch :: "string \<Rightarrow> bool \<Rightarrow> string + json"
  mo_send :: "int list \<Rightarrow> unifi_error option"
  mo_iv :: "int list"
  mo_txid :: string
  mo_live :: "client list"
  mo_stats :: "(string \<times> unifi_stat list) list"

definition cycle :: "'w env \<Rightarrow> moment \<Rightarrow> agent \<times> event_bus option \<times> 'w store \<Rightarrow> agent \<times> event_bus option \<times> 'w store" where
  "cycle env m = controller_cycle env (mo_wire m) (mo_readings m) (mo_post m) (mo_fetch m) (mo_send m) (mo_iv m) (mo_txid m)
     (mo_live m) (mo_stats m)"

text \<open>Whatever the controller answers, and in whatever order: after any cycles the agent holds no key but
  one the controller gave as 32 to 64 hexadecimal digits, an adopted gateway holds one, and what it
  lists as unsupported has no duplicates and at most 50 entries.\<close>

theorem agent_stays_sound: "agent_ok (fst (fold (cycle env) moments (new_agent, bus, st)))"
proof -
  have "agent_ok (fst s) \<Longrightarrow> agent_ok (fst (fold (cycle env) moments s))" for s :: "agent \<times> event_bus option \<times> 'a store"
  proof (induction moments arbitrary: s)
    case (Cons m ms)
    then show ?case by (cases s) (simp add: cycle_def controller_cycle_ok)
  qed simp
  then show ?thesis by (simp add: agent_ok_def new_agent_def)
qed

text \<open>Every accepted key has at least 32 digits, but only 16, 24 or 32 bytes are a key of the cipher: any other
  length counts as adopted and goes on under the key that is printed in every client.\<close>

lemma odd_key_means_public_key:
  "agent_key (mgmt_line (''authkey='' @ replicate 40 CHR ''a'') new_agent) = MASTER_KEY \<and>
   ua_adopted (fst (handle_response t [(''_type'', JStr ''setparam''), (''mgmt_cfg'', JStr (''authkey='' @ replicate 40 CHR ''a''))]
     (new_agent, None)))"
  by (simp add: handle_response_def adopted_event_def) code_simp

subsection \<open>Only through the store\<close>

lemma sync_commit_reachable:
  assumes "reachable env init disk (st, fl)" and "sync_commit env txid t trial st = (r, st')"
  shows "reachable env init disk (st', fl)"
proof -
  obtain s st1 where s: "stage env (on_document (staged_change trial)) st = (s, st1)" by fastforce
  then have r1: "reachable env init disk (st1, fl)"
    using assms(1) by (blast intro: reachable.next_step sys_step.stage)
  obtain c st2 where c: "commit env sync_args txid t st1 = (c, st2)" by fastforce
  then have "reachable env init disk (st2, fl)" using r1 by (blast intro: reachable.next_step sys_step.commit)
  with r1 assms(2) show ?thesis by (auto simp: sync_commit_def s c split: sum.splits)
qed

lemma sync_once_reachable:
  assumes "reachable env init disk (st, fl)" and "sync_once env fetch txid t cfg (a, st) = (r, a', st')"
  shows "reachable env init disk (st', fl)"
  using assms sync_commit_reachable
  by (auto simp: sync_once_def split: sum.splits prod.splits if_splits)

text \<open>C17. The controller changes the configuration only the way a user does: one cycle of the agent, whatever
  the controller answers, takes the store from a reachable state to a reachable one, so only validated
  documents ever run.\<close>

theorem controller_uses_the_store:
  assumes "reachable env init disk (st, fl)" and "cycle env m (a, bus, st) = (a', bus', st')"
  shows "reachable env init disk (st', fl) \<and> accepted env init (running st')"
proof -
  let ?c = "sub ''controller'' (obj_of (running st))"
  obtain d a0 where d: "(if is_set ''discovery'' ?c \<and> \<not> ua_adopted a then send_discovery (mo_readings m) (mo_send m) (obj_of (running st)) a
    else (None, a)) = (d, a0)" by (metis surj_pair)
  obtain r a1 bus1 where i: "inform_once (mo_wire m) (mo_readings m) (mo_post m) (mo_iv m) (obj_of (running st)) (mo_live m) (mo_stats m) (a0, bus) =
    (r, a1, bus1)" by (metis prod_cases3)
  obtain s a2 st2 where s: "sync_once env (mo_fetch m) (mo_txid m) (rd_now (mo_readings m)) (obj_of (running st)) (a1, st) = (s, a2, st2)"
    by (metis prod_cases3)
  have "st' = st \<or> st' = st2"
    using assms(2) unfolding cycle_def controller_cycle_def Let_def
    by (auto simp: d i s split: if_splits option.splits sum.splits)
  then have "reachable env init disk (st', fl)" using assms(1) sync_once_reachable [OF assms(1) s] by blast
  moreover from reachable_sys_ok [OF this] have "accepted env init (running st')" by (simp add: sys_ok_def store_ok_def)
  ultimately show ?thesis by blast
qed

text \<open>The guard is that a document that has been accepted once: a start from a stored document and one cycle.\<close>

definition quiet_moment :: moment where
  "quiet_moment = \<lparr>mo_wire = toy_wire, mo_readings = \<lparr>rd_address = \<lambda>_. ''02:00:00:00:00:01'', rd_operstate = \<lambda>_. ''up'',
     rd_counter = \<lambda>_ _. 0, rd_epoch = ''1'', rd_digest = [], rd_uptime = 60, rd_now = 100\<rparr>,
     mo_post = \<lambda>_. NoConnection ''refused'', mo_fetch = \<lambda>_ _. Inl ''refused'', mo_send = \<lambda>_. None,
     mo_iv = replicate 16 9, mo_txid = ''tx9'', mo_live = [], mo_stats = []\<rparr>"

lemma controller_uses_the_store_witness:
  "\<exists>a' bus' st'. cycle idle_env quiet_moment (new_agent, None, booted) = (a', bus', st') \<and>
     accepted idle_env (JObj default_config) (running st')"
proof -
  obtain a' bus' st' where c: "cycle idle_env quiet_moment (new_agent, None, booted) = (a', bus', st')" by (metis prod_cases3)
  with controller_uses_the_store [OF booted_reachable c] show ?thesis by blast
qed

subsection \<open>What is staged goes with it\<close>

lemma inside_map_of: "inside k f d = Inr d' \<Longrightarrow> k' \<noteq> k \<Longrightarrow> map_of d' k' = map_of d k'"
  by (auto simp: inside_def rbind_eq_Inr map_of_dset split: option.splits json.splits)

lemma sync_mutate_frame:
  assumes "sync_mutate networks wifi records forwarders d = Inr m" and "k \<notin> set SYNCED"
  shows "map_of m k = map_of d k"
  using assms by (auto simp: SYNCED_def sync_mutate_def rbind_eq_Inr map_of_dset dest!: inside_map_of [where k' = k] split: option.splits)

lemma commit_unconfirmed:
  assumes "commit env sync_args txid t st = (Inr res, st')"
  shows "st_pending st' = None \<and>
    (diff_config (running st) (candidate st) [] = [] \<and> running st' = running st \<or>
     (\<exists>w. validate (env_caps env) (candidate st) = Inr (running st', w)))"
  using assms
  by (auto simp: commit_def Let_def apply_commit_def finish_commit_def fail_commit_def abort_commit_def sync_args_def
      checkpoint_def save_revision_def rollback_to_def audit_def emit_event_def split: option.splits sum.splits verr.splits prod.splits if_splits)

text \<open>C18. The synchronisation commits whatever an administrator has staged, without asking for confirmation:
  the change is made to the candidate, every section it does not replace comes from there, and what
  runs afterwards is that document, validated, with no rollback timer behind it.\<close>

theorem sync_commits_staged_edits:
  assumes "sync_commit env txid t trial st = (Inr res, st')" and "candidate st = JObj cand"
  shows "\<exists>m new w. staged_change trial cand = Inr m \<and>
    (\<forall>k. k \<in> set SYNCED \<or> map_of m k = map_of cand k) \<and>
    validate (env_caps env) (JObj m) = Inr (new, w) \<and> st_pending st' = None \<and>
    (diff_config (running st) new [] = [] \<and> running st' = running st \<or> (\<exists>w'. validate (env_caps env) new = Inr (running st', w')))"
proof -
  from assms obtain m new w where m: "staged_change trial cand = Inr m"
    and v: "validate (env_caps env) (JObj m) = Inr (new, w)"
    and c: "commit env sync_args txid t (st\<lparr>candidate := new, candidate_file := Some new\<rparr>) = (Inr res, st')"
    by (auto simp: sync_commit_def stage_def on_document_def rbind_eq_Inr split: sum.splits prod.splits if_splits)
  have "k \<in> set SYNCED \<or> map_of m k = map_of cand k" for k
    using sync_mutate_frame [OF m [unfolded staged_change_def]] by blast
  then show ?thesis using m v commit_unconfirmed [OF c] by auto
qed

definition staged_store :: "unit store" where
  "staged_store = (init_store None None ())\<lparr>candidate := JObj renamed_config\<rparr>"

definition synced_doc :: obj where
  "synced_doc = (case staged_change default_config renamed_config of Inr m \<Rightarrow> m | Inl _ \<Rightarrow> [])"

lemma synced_doc: "staged_change default_config renamed_config = Inr synced_doc"
proof -
  have "is_ok (staged_change default_config renamed_config)" by code_simp
  then show ?thesis by (auto simp: synced_doc_def is_ok_def split: sum.splits)
qed

lemma synced_doc_valid: "validate None (JObj synced_doc) = Inr (JObj synced_doc, [])"
  by code_simp

lemma sync_commits_staged_edits_witness:
  "\<exists>res st'. sync_commit idle_env ''tx2'' 10 default_config staged_store = (Inr res, st') \<and> st_pending st' = None \<and>
     (\<exists>m. staged_change default_config renamed_config = Inr m \<and> map_of m ''system'' = map_of renamed_config ''system'' \<and>
       map_of m ''system'' \<noteq> map_of default_config ''system'')"
proof -
  have "is_ok (fst (sync_commit idle_env ''tx2'' 10 default_config staged_store))"
    by (simp add: sync_commit_def stage_def on_document_def staged_store_def init_store_def load_running_def synced_doc synced_doc_valid
        idle_env_def commit_def
        Let_def apply_commit_def finish_commit_def checkpoint_def save_revision_def latest_revision_def is_ok_def)
  then obtain res st' where c: "sync_commit idle_env ''tx2'' 10 default_config staged_store = (Inr res, st')"
    by (cases "sync_commit idle_env ''tx2'' 10 default_config staged_store") (auto simp: is_ok_def split: sum.splits)
  have d: "map_of renamed_config ''system'' \<noteq> map_of default_config ''system''" by code_simp
  have "candidate staged_store = JObj renamed_config" by (simp add: staged_store_def)
  from sync_commits_staged_edits [OF c this] obtain m where m: "staged_change default_config renamed_config = Inr m"
    "''system'' \<in> set SYNCED \<or> map_of m ''system'' = map_of renamed_config ''system''"
    "st_pending st' = None" by blast
  have "''system'' \<notin> set SYNCED" by code_simp
  with m c d show ?thesis by metis
qed

text \<open>While a commit waits for its confirmation the change is only staged: it takes the place of the candidate and
  the next commit of anyone applies it.\<close>

lemma sync_stages_behind_a_pending_commit:
  assumes "st_pending st = Some p" and "stage env (on_document (staged_change trial)) st = (Inr w, st1)"
  shows "sync_commit env txid t trial st = (Inl (Refused (CommitError ''lock'' (pd_txid p) [])), st1)"
proof -
  have "st_pending st1 = Some p" using assms by (auto simp: stage_def split: sum.splits prod.splits)
  then show ?thesis by (simp add: sync_commit_def assms(2) commit_def)
qed

subsection \<open>Translation\<close>

text \<open>What a translated wireless network is made of.\<close>

lemma translate_wifi_parts:
  assumes "translate_wifi item ids previous = Inr (Some (ident, v))"
  obtains security mode passphrase network bands where
    "or_dict ''securityConfiguration'' item = Inr security" "wifi_passphrase security previous = Inr (Some passphrase)"
    "wifi_network item ids = Inr network" "v = wifi_value item security ident mode passphrase bands network"
proof -
  from assms obtain ident' security mode where s: "or_dict ''securityConfiguration'' item = Inr security"
    and m: "(case mode of None \<Rightarrow> Inr None | Some mode \<Rightarrow> translate_secured item ids previous ident' security mode) = Inr (Some (ident, v))"
    by (auto simp: translate_wifi_def rbind_eq_Inr split: if_splits)
  from m obtain mode' where "translate_secured item ids previous ident' security mode' = Inr (Some (ident, v))"
    by (cases mode) auto
  then obtain passphrase where p: "wifi_passphrase security previous = Inr passphrase"
    and w: "(case passphrase of None \<Rightarrow> Inr None | Some passphrase \<Rightarrow> rbind (wifi_network item ids) (\<lambda>network.
      rbind (wifi_bands item) (\<lambda>bands. Inr (Some (ident', wifi_value item security ident' mode' passphrase bands network))))) =
        Inr (Some (ident, v))"
    by (auto simp: translate_secured_def rbind_eq_Inr split: if_splits)
  then show ?thesis using that s by (cases passphrase) (auto simp: rbind_eq_Inr)
qed

text \<open>The redaction marker of the controller never becomes a passphrase: a wireless network whose passphrase
  the controller hides is translated only with the passphrase it had before, and without one not at all.\<close>

theorem redacted_passphrase_is_kept:
  assumes "translate_wifi item ids previous = Inr (Some (ident, v))"
    and "get_null ''passphrase'' (sub ''securityConfiguration'' item) = MASKED"
  shows "\<exists>old. previous = Some old \<and> old \<noteq> [] \<and>
    get_null ''passphrase'' (sub ''security'' v) = get_or (JStr []) ''passphrase'' (obj_of (get_or (JObj []) ''security'' old))"
proof -
  from translate_wifi_parts [OF assms(1)] obtain security mode passphrase network bands where
    s: "or_dict ''securityConfiguration'' item = Inr security"
    and p: "wifi_passphrase security previous = Inr (Some passphrase)"
    and v: "v = wifi_value item security ident mode passphrase bands network" by metis
  have "security = sub ''securityConfiguration'' item"
    using s by (cases "get_null ''securityConfiguration'' item")
      (simp_all add: or_dict_def is_set_def sub_def as_dict_def obj_of_def split: if_splits)
  then have "or_value ''passphrase'' (JStr []) security = MASKED"
    using assms(2) by (simp add: or_value_def is_set_def MASKED_def)
  with p obtain old where "previous = Some old" "old \<noteq> []"
    "passphrase = get_or (JStr []) ''passphrase'' (obj_of (get_or (JObj []) ''security'' old))"
    by (auto simp: wifi_passphrase_def as_dict_def obj_of_def rbind_eq_Inr split: option.splits list.splits json.splits)
  moreover have "get_null ''passphrase'' (sub ''security'' v) = passphrase"
    by (simp add: v wifi_value_def sub_def get_null_def get_or_def obj_of_def)
  ultimately show ?thesis by blast
qed

lemma redacted_passphrase_is_kept_witness:
  "\<exists>ident v. translate_wifi [(''type'', JStr ''STANDARD''), (''name'', JStr ''Home''), (''id'', JStr ''abc''),
      (''securityConfiguration'', JObj [(''type'', JStr ''WPA2_PERSONAL''), (''passphrase'', MASKED)])] []
      (Some [(''security'', JObj [(''passphrase'', JStr ''correct horse'')])]) = Inr (Some (ident, v)) \<and>
    get_null ''passphrase'' (sub ''security'' v) = JStr ''correct horse''"
proof -
  let ?item = "[(''type'', JStr ''STANDARD''), (''name'', JStr ''Home''), (''id'', JStr ''abc''),
      (''securityConfiguration'', JObj [(''type'', JStr ''WPA2_PERSONAL''), (''passphrase'', MASKED)])]"
  let ?old = "[(''security'', JObj [(''passphrase'', JStr ''correct horse'')])]"
  have "(case translate_wifi ?item [] (Some ?old) of Inr (Some _) \<Rightarrow> True | _ \<Rightarrow> False)" by code_simp
  then obtain ident v where t: "translate_wifi ?item [] (Some ?old) = Inr (Some (ident, v))"
    by (auto split: sum.splits option.splits)
  have "get_null ''passphrase'' (sub ''securityConfiguration'' ?item) = MASKED" by code_simp
  from redacted_passphrase_is_kept [OF t this]
  have "get_null ''passphrase'' (sub ''security'' v) = get_or (JStr []) ''passphrase'' (obj_of (get_or (JObj []) ''security'' ?old))"
    by (elim exE conjE) (simp only: option.inject)
  moreover have "get_or (JStr []) ''passphrase'' (obj_of (get_or (JObj []) ''security'' ?old)) = JStr ''correct horse''" by code_simp
  ultimately show ?thesis using t by metis
qed

text \<open>The ids of the networks that were translated come from rows that were.\<close>

lemma translate_networks_ids:
  assumes "translate_networks rows tr = Inr tr'" and "i \<in> fst ` set (tr_ids tr')" and "i \<notin> fst ` set (tr_ids tr)"
  shows "\<exists>row r. JObj row \<in> set rows \<and> translate_network row = Inr (Some r) \<and> text_of (get_null ''id'' row) = i"
  using assms
proof (induction rows arbitrary: tr)
  case (Cons x rows)
  from Cons.prems(1) obtain row r where x: "x = JObj row" and r: "translate_network row = Inr r"
    and rest: "translate_networks rows (case r of None \<Rightarrow> give_up ''network'' row tr
      | Some (ident, v) \<Rightarrow> tr\<lparr>tr_networks := dset ident (JObj v) (tr_networks tr),
          tr_ids := AList.update (text_of (get_null ''id'' row)) ident (tr_ids tr)\<rparr>) = Inr tr'"
    by (auto simp: rbind_eq_Inr as_dict_def split: json.splits)
  show ?case
  proof (cases "r \<noteq> None \<and> text_of (get_null ''id'' row) = i")
    case True
    then show ?thesis using x r by auto
  next
    case False
    then have "i \<notin> fst ` set (tr_ids (case r of None \<Rightarrow> give_up ''network'' row tr
      | Some (ident, v) \<Rightarrow> tr\<lparr>tr_networks := dset ident (JObj v) (tr_networks tr),
          tr_ids := AList.update (text_of (get_null ''id'' row)) ident (tr_ids tr)\<rparr>))"
      using False Cons.prems(3) by (cases r) (simp_all add: give_up_def dom_update case_prod_unfold)
    from Cons.IH [OF rest Cons.prems(2) this] show ?thesis by auto
  qed
qed simp

text \<open>A wireless network whose network could not be translated is put on the default network: when every
  network with the id it refers to is one the translation refuses (a network with IPv6, with a DHCP relay,
  or a disabled one), its clients join the default LAN, also when that network was isolated.\<close>

theorem untranslated_network_joins_default:
  assumes "translate_networks rows no_translation = Inr tr"
    and "list_all (\<lambda>j. text_of (get_null ''id'' (obj_of j)) = i \<longrightarrow> translate_network (obj_of j) = Inr None) rows"
    and "translate_wifi item (tr_ids tr) previous = Inr (Some (ident, v))"
    and "get_null ''networkId'' (sub ''network'' item) = JStr i"
  shows "get_null ''network'' v = JStr ''default''"
proof -
  from translate_wifi_parts [OF assms(3)] obtain security mode passphrase network bands where
    n: "wifi_network item (tr_ids tr) = Inr network" and v: "v = wifi_value item security ident mode passphrase bands network"
    by metis
  have "map_of (tr_ids tr) i = None"
  proof (rule ccontr)
    assume "map_of (tr_ids tr) i \<noteq> None"
    then have "i \<in> fst ` set (tr_ids tr)" by (simp add: map_of_eq_None_iff)
    from translate_networks_ids [OF assms(1) this] obtain row r where "JObj row \<in> set rows"
      "translate_network row = Inr (Some r)" "text_of (get_null ''id'' row) = i"
      by (auto simp: no_translation_def)
    with assms(2) show False by (auto simp: list_all_iff obj_of_def)
  qed
  moreover from n obtain ref where r: "or_dict ''network'' item = Inr ref"
    and l: "rbind (lookup_text (tr_ids tr) (get_null ''networkId'' ref)) (\<lambda>n. Inr (the_default ''default'' n)) = Inr network"
    by (auto simp: wifi_network_def rbind_eq_Inr)
  have "ref = sub ''network'' item"
    using r by (cases "get_null ''network'' item")
      (simp_all add: or_dict_def is_set_def sub_def as_dict_def obj_of_def split: if_splits)
  ultimately have "network = ''default''" using l assms(4)
    by (simp add: lookup_text_def hashable_def the_default_def)
  then show ?thesis by (simp add: v wifi_value_def get_null_def get_or_def)
qed

definition guest_row :: obj where
  "guest_row = [(''id'', JStr ''g1''), (''management'', JStr ''GATEWAY''), (''name'', JStr ''Guests''), (''isolationEnabled'', JBool True),
     (''vlanId'', JInt 30), (''ipv4Configuration'', JObj [(''hostIpAddress'', JStr ''10.30.0.1''), (''prefixLength'', JInt 24)]),
     (''ipv6Configuration'', JObj [(''mode'', JStr ''PREFIX_DELEGATION'')])]"

definition guest_wifi :: obj where
  "guest_wifi = [(''id'', JStr ''w1''), (''type'', JStr ''STANDARD''), (''name'', JStr ''Guests''),
     (''network'', JObj [(''networkId'', JStr ''g1'')]), (''securityConfiguration'', JObj [(''type'', JStr ''OPEN'')])]"

lemma untranslated_network_joins_default_witness:
  "\<exists>tr ident v. translate_networks [JObj guest_row] no_translation = Inr tr \<and>
     translate_wifi guest_wifi (tr_ids tr) None = Inr (Some (ident, v)) \<and> get_null ''network'' v = JStr ''default''"
proof -
  let ?tr = "give_up ''network'' guest_row no_translation"
  have refused: "translate_network guest_row = Inr None" by code_simp
  then have tr: "translate_networks [JObj guest_row] no_translation = Inr ?tr" by (simp add: as_dict_def)
  have "(case translate_wifi guest_wifi [] None of Inr (Some _) \<Rightarrow> True | _ \<Rightarrow> False)" by code_simp
  moreover have "tr_ids ?tr = []" by (simp add: give_up_def no_translation_def)
  ultimately obtain ident v where w: "translate_wifi guest_wifi (tr_ids ?tr) None = Inr (Some (ident, v))"
    by (auto split: sum.splits option.splits)
  have "list_all (\<lambda>j. text_of (get_null ''id'' (obj_of j)) = ''g1'' \<longrightarrow> translate_network (obj_of j) = Inr None) [JObj guest_row]"
    using refused by (simp add: obj_of_def)
  moreover have "get_null ''networkId'' (sub ''network'' guest_wifi) = JStr ''g1''" by code_simp
  ultimately have "get_null ''network'' v = JStr ''default''" by (rule untranslated_network_joins_default [OF tr _ w])
  with tr w show ?thesis by blast
qed

text \<open>A network with an IPv6 configuration is not translated, and the networks of the document become the
  translated ones: it is removed.\<close>

lemma ipv6_network_is_dropped:
  "is_set ''ipv6Configuration'' item \<Longrightarrow> translate_network item = Inr None"
  by (simp add: translate_network_def)

lemma sync_replaces_networks:
  assumes "sync_mutate networks wifi records forwarders d = Inr m"
  shows "get_null ''networks'' m = JObj networks"
  using assms by (auto simp: sync_mutate_def rbind_eq_Inr map_of_dset get_null_def get_or_def
      dest!: inside_map_of [where k' = "''networks''"] split: option.splits)

text \<open>A service record without a domain raises, which ends the synchronisation.\<close>

lemma srv_needs_domain:
  assumes "get_null ''type'' item = JStr ''SRV_RECORD''" and "on_by_default ''enabled'' item"
    and "list_all (\<lambda>k. k \<in> fst ` set item) SRV_KEYS" and "map_of item ''domain'' = None"
  shows "translate_dns item = Inl (Raised KeyError)"
  using assms by (simp add: translate_dns_def lookup_text_def hashable_def srv_record_def need_text_def RECORD_NAMES_def)

end
