(* ===== verification/IwText.thy ===== *)
theory IwText
  imports Doc PyNum MacAddr
begin

text \<open>
  The text that \<open>iw\<close> prints, as the adapter \<open>adapters/nl80211.py\<close> reads it: the regular expressions it
  searches with, written out, and the shape its line parsers share, a header line that opens an entry
  and lines that fill it in. \<open>\d\<close> is a decimal digit and \<open>\w\<close> a letter, digit or underscore of Latin-1.
\<close>

subsection \<open>Searching\<close>

text \<open>The suffixes of a text, longest first: the places where a search tries its pattern.\<close>

fun places :: "string \<Rightarrow> string list" where
  "places [] = [[]]"
| "places (c # s) = (c # s) # places s"

text \<open>The first place where a reader succeeds.\<close>

definition search :: "(string \<Rightarrow> 'a option) \<Rightarrow> string \<Rightarrow> 'a option" where
  "search f s = (case List.map_filter f (places s) of [] \<Rightarrow> None | x # _ \<Rightarrow> Some x)"

definition digits_at :: "string \<Rightarrow> (int \<times> string) option" where
  "digits_at s = (let ds = takeWhile is_digit_ascii s in
     if ds = [] then None else Some (int_of_digits ds, dropWhile is_digit_ascii s))"

text \<open>A literal, and then what follows it.\<close>

definition behind :: "string \<Rightarrow> string \<Rightarrow> string option" where
  "behind lit s = (if startswith s lit then Some (drop (length lit) s) else None)"

definition number_behind :: "string \<Rightarrow> string \<Rightarrow> int option" where
  "number_behind lit s = map_option fst (Option.bind (behind lit s) digits_at)"

text \<open>\<open>-?\d+\<close> and \<open>-?\d+(?:\.\d+)?\<close>.\<close>

definition first_int :: "string \<Rightarrow> int option" where
  "first_int = search (\<lambda>s. case digits_at s of Some (n, _) \<Rightarrow> Some n
     | None \<Rightarrow> map_option (\<lambda>(n, _). - n) (Option.bind (behind ''-'' s) digits_at))"

text \<open>Digits, with a fraction where a dot and more digits follow, and the rest.\<close>

definition decimal_at :: "string \<Rightarrow> (rat \<times> string) option" where
  "decimal_at s = (case digits_at s of None \<Rightarrow> None
     | Some (n, rest) \<Rightarrow> (case Option.bind (behind ''.'' rest) digits_at of
         None \<Rightarrow> Some (of_int n, rest)
       | Some (m, rest') \<Rightarrow> Some (of_int n + of_int m / 10 ^ (length rest - length rest' - 1), rest')))"

definition first_float :: "string \<Rightarrow> rat option" where
  "first_float = search (\<lambda>s. case decimal_at s of Some (q, _) \<Rightarrow> Some q
     | None \<Rightarrow> map_option (\<lambda>(q, _). - q) (Option.bind (behind ''-'' s) decimal_at))"

text \<open>\<open>float\<close> of a run of digits and dots; more than one dot, or no digit, is a \<open>ValueError\<close>.\<close>

definition dot_float :: "string \<Rightarrow> verr + rat" where
  "dot_float s = (case py_split CHR ''.'' s of
     [a] \<Rightarrow> if a = [] then Inl (Raised ValueError) else Inr (of_int (int_of_digits a))
   | [a, b] \<Rightarrow> if a = [] \<and> b = [] then Inl (Raised ValueError)
       else Inr (of_int (int_of_digits a) + of_int (int_of_digits b) / 10 ^ length b)
   | _ \<Rightarrow> Inl (Raised ValueError))"

definition is_decimal_char :: "char \<Rightarrow> bool" where
  "is_decimal_char c = (is_digit_ascii c \<or> c = CHR ''.'')"

text \<open>\<open>([\d.]+) dBm\<close>: a run with the unit behind it.\<close>

definition power_at :: "string \<Rightarrow> string \<Rightarrow> string option" where
  "power_at unit s = (let run = takeWhile is_decimal_char s in
     if run \<noteq> [] \<and> startswith (dropWhile is_decimal_char s) unit then Some run else None)"

text \<open>The same in parentheses.\<close>

definition power_in :: "string \<Rightarrow> string \<Rightarrow> string option" where
  "power_in unit s = Option.bind (behind ''('' s) (power_at (unit @ '')''))"

subsection \<open>Word boundaries\<close>

definition is_word :: "char \<Rightarrow> bool" where
  "is_word c = (py_isalnum c \<or> c = CHR ''_'')"

fun word_starts :: "bool \<Rightarrow> string \<Rightarrow> string list" where
  "word_starts prev [] = []"
| "word_starts prev (c # s) = (if \<not> prev \<and> is_word c then [c # s] else []) @ word_starts (is_word c) s"

definition search_word :: "(string \<Rightarrow> 'a option) \<Rightarrow> string \<Rightarrow> 'a option" where
  "search_word f s = (case List.map_filter f (word_starts False s) of [] \<Rightarrow> None | x # _ \<Rightarrow> Some x)"

text \<open>\<open>\b{token}-mcs|\b{token}\b\<close>.\<close>

definition has_token :: "string \<Rightarrow> string \<Rightarrow> bool" where
  "has_token token s = list_ex (\<lambda>w. startswith w (token @ ''-mcs'') \<or>
     (case behind token w of None \<Rightarrow> False | Some [] \<Rightarrow> True | Some (c # _) \<Rightarrow> \<not> is_word c)) (word_starts False s)"

subsection \<open>Fields of a line\<close>

text \<open>\<open>s.split(None, 1)[1]\<close> and \<open>s.split()[1]\<close> of a stripped line that starts with a word and a space.\<close>

definition after_word :: "string \<Rightarrow> string" where
  "after_word s = dropWhile py_isspace (dropWhile (\<lambda>c. \<not> py_isspace c) s)"

definition second_word :: "string \<Rightarrow> string" where
  "second_word s = (case py_words s of _ # w # _ \<Rightarrow> w | _ \<Rightarrow> [])"

text \<open>\<open>m.group(1)\<close> of six pairs of lower case hexadecimal digits.\<close>

definition mac_at :: "string \<Rightarrow> string option" where
  "mac_at s = (let m = take 17 s; ps = py_split CHR '':'' m in
     if length m = 17 \<and> length ps = 6 \<and> list_all (\<lambda>p. length p = 2 \<and> list_all is_hex_lower p) ps then Some m else None)"

subsection \<open>Blocks\<close>

text \<open>The loop of all these parsers: a header closes the entry in progress and opens the next, other lines
  fill in the entry, and lines before the first header belong to none.\<close>

definition block_step :: "('l \<Rightarrow> 'e option) \<Rightarrow> ('l \<Rightarrow> 'e \<Rightarrow> 'e) \<Rightarrow> 'l \<Rightarrow> 'e list \<times> 'e option \<Rightarrow> 'e list \<times> 'e option" where
  "block_step header fill line = (\<lambda>(out, entry).
     case header line of
       Some e \<Rightarrow> (case entry of None \<Rightarrow> out | Some e0 \<Rightarrow> out @ [e0], Some e)
     | None \<Rightarrow> (out, map_option (fill line) entry))"

definition parse_blocks :: "('l \<Rightarrow> 'e option) \<Rightarrow> ('l \<Rightarrow> 'e \<Rightarrow> 'e) \<Rightarrow> 'l list \<Rightarrow> 'e list" where
  "parse_blocks header fill lines = (case fold (block_step header fill) lines ([], None) of
     (out, None) \<Rightarrow> out | (out, Some e) \<Rightarrow> out @ [e])"

text \<open>The same text cut into blocks first: every header with the lines up to the next.\<close>

fun blocks :: "('l \<Rightarrow> 'e option) \<Rightarrow> 'l list \<Rightarrow> ('e \<times> 'l list) list" where
  "blocks header [] = []"
| "blocks header (l # ls) = (case header l of
     None \<Rightarrow> blocks header ls
   | Some e \<Rightarrow> (e, takeWhile (\<lambda>x. header x = None) ls) # blocks header ls)"

text \<open>
  The contract of a parser of this shape: it is determined by its headers and what a line does to the entry
  it belongs to, so every block is read by itself.
\<close>

locale block_parser =
  fixes parse :: "'l list \<Rightarrow> 'e list" and header :: "'l \<Rightarrow> 'e option" and fill :: "'l \<Rightarrow> 'e \<Rightarrow> 'e"
  assumes parse_fold: "parse lines = parse_blocks header fill lines"
begin

lemma block_step_simps:
  "header l = Some e \<Longrightarrow> block_step header fill l (out, None) = (out, Some e)"
  "header l = Some e \<Longrightarrow> block_step header fill l (out, Some e0) = (out @ [e0], Some e)"
  by (simp_all add: block_step_def)

lemma fold_out:
  "fold (block_step header fill) ls (out, entry) =
     (let (o1, e1) = fold (block_step header fill) ls ([], entry) in (out @ o1, e1))"
proof (induction ls arbitrary: out entry)
  case (Cons l ls)
  show ?case
  proof (cases "header l")
    case None
    then show ?thesis using Cons.IH [of out "map_option (fill l) entry"] by (simp add: block_step_def)
  next
    case (Some e)
    show ?thesis
    proof (cases entry)
      case None
      then show ?thesis using Cons.IH [of out "Some e"] Some by (simp add: block_step_def)
    next
      case e0: (Some e0)
      then show ?thesis using Cons.IH [of "out @ [e0]" "Some e"] Cons.IH [of "[e0]" "Some e"] Some
        by (simp add: block_step_def split_def Let_def)
    qed
  qed
qed simp

lemma fold_blocks:
  "(case fold (block_step header fill) ls ([], entry) of (out, None) \<Rightarrow> out | (out, Some e) \<Rightarrow> out @ [e]) =
     (case entry of None \<Rightarrow> [] | Some e \<Rightarrow> [fold fill (takeWhile (\<lambda>x. header x = None) ls) e]) @
     map (\<lambda>(e, b). fold fill b e) (blocks header ls)"
proof (induction ls arbitrary: entry)
  case Nil
  then show ?case by (simp split: option.split)
next
  case (Cons l ls)
  show ?case
  proof (cases "header l")
    case None
    then show ?thesis using Cons.IH [of "map_option (fill l) entry"]
      by (cases entry) (simp_all add: block_step_def)
  next
    case (Some e)
    have "(case fold (block_step header fill) ls (out, Some e) of (out, None) \<Rightarrow> out | (out, Some e) \<Rightarrow> out @ [e]) =
      out @ fold fill (takeWhile (\<lambda>x. header x = None) ls) e # map (\<lambda>(e, b). fold fill b e) (blocks header ls)" for out
      using Cons.IH [of "Some e"] by (subst fold_out) (auto simp: split_def Let_def split: option.splits prod.splits)
    then show ?thesis using Some by (cases entry) (simp_all add: block_step_simps)
  qed
qed

lemma parse_by_blocks: "parse lines = map (\<lambda>(e, b). fold fill b e) (blocks header lines)"
  using fold_blocks [of lines None] by (simp add: parse_fold parse_blocks_def)

lemma parse_append:
  assumes "header h = Some e"
  shows "parse (lines @ h # rest) = parse lines @ parse (h # rest)"
proof -
  have "takeWhile (\<lambda>x. header x = None) (ls @ h # rest) = takeWhile (\<lambda>x. header x = None) ls" for ls
    by (induction ls) (simp_all add: assms)
  then have "blocks header (ls @ h # rest) = blocks header ls @ blocks header (h # rest)" for ls
    by (induction ls) (auto split: option.split)
  then show ?thesis by (simp add: parse_by_blocks)
qed

lemma one_per_header: "length (parse lines) = length (filter (\<lambda>l. header l \<noteq> None) lines)"
proof -
  have "length (blocks header ls) = length (filter (\<lambda>l. header l \<noteq> None) ls)" for ls
    by (induction ls) (auto split: option.split)
  then show ?thesis by (simp add: parse_by_blocks)
qed

lemma parse_keeps:
  assumes "\<And>l e. f (fill l e) = f e"
  shows "map f (parse lines) = map f (List.map_filter header lines)"
proof -
  have k: "f (fold fill b e) = f e" for b e by (induction b arbitrary: e) (simp_all add: assms)
  have "map f (map (\<lambda>(e, b). fold fill b e) (blocks header ls)) = map f (List.map_filter header ls)" for ls
    by (induction ls) (auto simp: map_filter_simps k split: option.split)
  then show ?thesis by (simp add: parse_by_blocks)
qed

end

lemma block_parser_fold: "block_parser (parse_blocks header fill) header fill"
  by unfold_locales (rule refl)

end
