(* ===== verification/Iw.thy ===== *)
theory Iw
  imports IwText RfChannels
begin

text \<open>
  The adapter of \<open>iw\<close> (\<open>adapters/nl80211.py\<close>): interfaces, stations, surveys, scans and the capabilities of
  a wiphy, each from the text of one command, \<open>None\<close> when the command failed; and the netlink message that
  tells the driver which radios an interface may use. What sysfs holds is an argument.
\<close>

definition iw_lines :: "string option \<Rightarrow> string list" where
  "iw_lines answer = (case answer of None \<Rightarrow> [] | Some text \<Rightarrow> split_lines text)"

subsection \<open>Interfaces\<close>

record wif =
  wf_name :: string
  wf_phy :: "string option"
  wf_type :: "string option"
  wf_channel :: "int option"
  wf_width :: "int option"
  wf_frequency :: "int option"
  wf_mac :: "string option"
  wf_ssid :: "string option"
  wf_mld_mac :: "string option"
  wf_txpower :: "rat option"

text \<open>Every line with the wiphy it stands under.\<close>

fun with_phy :: "string option \<Rightarrow> string list \<Rightarrow> (string option \<times> string) list" where
  "with_phy phy [] = []"
| "with_phy phy (l # ls) =
     (let phy' = (if startswith l ''phy#'' then Some (''phy'' @ py_strip (drop 4 l)) else phy) in (phy', l) # with_phy phy' ls)"

definition wif_header :: "string option \<times> string \<Rightarrow> (verr + wif) option" where
  "wif_header = (\<lambda>(phy, line). if \<not> startswith line ''phy#'' \<and> startswith (py_strip line) ''Interface ''
     then Some (Inr \<lparr>wf_name = after_word (py_strip line), wf_phy = phy, wf_type = None, wf_channel = None, wf_width = None,
       wf_frequency = None, wf_mac = None, wf_ssid = None, wf_mld_mac = None, wf_txpower = None\<rparr>)
     else None)"

text \<open>\<open>channel (\d+) \((\d+) MHz\), width: (\d+)\<close> at the start of the line.\<close>

definition channel_line :: "string \<Rightarrow> (int \<times> int \<times> int) option" where
  "channel_line s = Option.bind (Option.bind (behind ''channel '' s) digits_at) (\<lambda>(c, s1).
     Option.bind (Option.bind (behind '' ('' s1) digits_at) (\<lambda>(f, s2).
     map_option (\<lambda>w. (c, f, w)) (number_behind '' MHz), width: '' s2)))"

definition wif_line :: "string \<Rightarrow> wif \<Rightarrow> verr + wif" where
  "wif_line s e =
     (if startswith s ''type '' then Inr (e\<lparr>wf_type := Some (after_word s)\<rparr>)
      else if startswith s ''addr '' then Inr (e\<lparr>wf_mac := Some (normalise_mac (after_word s))\<rparr>)
      else if startswith s ''ssid '' then Inr (e\<lparr>wf_ssid := Some (after_word s)\<rparr>)
      else if startswith s ''channel '' then Inr (case channel_line s of None \<Rightarrow> e
        | Some (c, f, w) \<Rightarrow> e\<lparr>wf_channel := Some c, wf_frequency := Some f, wf_width := Some w\<rparr>)
      else if startswith s ''txpower '' then (case search (power_at '' dBm'') s of None \<Rightarrow> Inr e
        | Some run \<Rightarrow> rbind (dot_float run) (\<lambda>q. Inr (e\<lparr>wf_txpower := Some q\<rparr>)))
      else if has_infix ''mld addr'' (py_lower s) \<or> startswith s ''multi-link''
      then Inr (case search mac_at (py_lower s) of None \<Rightarrow> e | Some m \<Rightarrow> e\<lparr>wf_mld_mac := Some m\<rparr>)
      else Inr e)"

definition wif_fill :: "string option \<times> string \<Rightarrow> verr + wif \<Rightarrow> verr + wif" where
  "wif_fill = (\<lambda>(_, line) e. if startswith line ''phy#'' then e else rbind e (wif_line (py_strip line)))"

definition wif_blocks :: "(string option \<times> string) list \<Rightarrow> (verr + wif) list" where
  "wif_blocks = parse_blocks wif_header wif_fill"

definition wireless_interfaces :: "string option \<Rightarrow> verr + wif list" where
  "wireless_interfaces answer = rmap id (wif_blocks (with_phy None (iw_lines answer)))"

subsection \<open>Stations\<close>

text \<open>Measurements of a link, or of the station itself; an absent key and \<open>None\<close> are not told apart by any
  reader. The counters are a dictionary.\<close>

record link =
  lk_id :: "int option"
  lk_rssi :: "int option"
  lk_rssi_avg :: "int option"
  lk_tx_rate :: "rat option"
  lk_rx_rate :: "rat option"
  lk_mcs :: "int option"
  lk_width :: "int option"
  lk_nss :: "int option"
  lk_phy_mode :: "string option"
  lk_beacon :: "int option"
  lk_counts :: "(string \<times> int) list"

definition new_link :: "int option \<Rightarrow> link" where
  "new_link i = \<lparr>lk_id = i, lk_rssi = None, lk_rssi_avg = None, lk_tx_rate = None, lk_rx_rate = None, lk_mcs = None,
     lk_width = None, lk_nss = None, lk_phy_mode = None, lk_beacon = None, lk_counts = []\<rparr>"

record iw_station =
  iw_mac :: string
  iw_interface :: string
  iw_links :: "link list"
  iw_mld_mac :: "string option"
  iw_is_mlo :: bool
  iw_own :: link
  iw_connected :: "int option"
  iw_authorized :: "bool option"
  iw_authenticated :: "bool option"
  iw_link_count :: "nat option"

definition newer :: "'a option \<Rightarrow> 'a option \<Rightarrow> 'a option" where
  "newer new old = (case new of None \<Rightarrow> old | Some x \<Rightarrow> Some x)"

text \<open>\<open>dict.update\<close> with the keys that were found.\<close>

definition rate_flags :: "string \<Rightarrow> link \<Rightarrow> link" where
  "rate_flags value l =
     (let low = py_lower value in
      l\<lparr>lk_mcs := newer (search_word (number_behind ''mcs '') low) (lk_mcs l),
           lk_width := newer (search_word (\<lambda>s. case digits_at s of None \<Rightarrow> None
             | Some (n, r) \<Rightarrow> if startswith r ''mhz'' then Some n else None) low) (lk_width l),
           lk_nss := newer (search_word (number_behind ''nss '') low) (lk_nss l),
           lk_phy_mode := newer (map_option snd (find (\<lambda>(token, _). has_token token low)
             [(''eht'', ''EHT''), (''he'', ''HE''), (''vht'', ''VHT''), (''ht'', ''HT'')])) (lk_phy_mode l)\<rparr>)"

definition COUNT_KEYS :: "(string \<times> string) list" where
  "COUNT_KEYS = [(''rx bytes'', ''rx_bytes''), (''tx bytes'', ''tx_bytes''), (''rx packets'', ''rx_packets''),
     (''tx packets'', ''tx_packets''), (''tx retries'', ''tx_retries''), (''tx failed'', ''tx_failed''),
     (''inactive time'', ''inactive_ms'')]"

definition or_zero :: "int option \<Rightarrow> int" where
  "or_zero n = (case n of None \<Rightarrow> 0 | Some x \<Rightarrow> x)"

definition measure_link :: "string \<Rightarrow> string \<Rightarrow> link \<Rightarrow> link" where
  "measure_link key value l =
     (if key = ''signal'' then l\<lparr>lk_rssi := first_int value\<rparr>
      else if key = ''signal avg'' then l\<lparr>lk_rssi_avg := first_int value\<rparr>
      else if key = ''tx bitrate'' then rate_flags value (l\<lparr>lk_tx_rate := first_float value\<rparr>)
      else if key = ''rx bitrate'' then l\<lparr>lk_rx_rate := first_float value\<rparr>
      else if key = ''beacon interval'' then l\<lparr>lk_beacon := first_int value\<rparr>
      else case map_of COUNT_KEYS key of None \<Rightarrow> l
        | Some k \<Rightarrow> l\<lparr>lk_counts := AList.update k (or_zero (first_int value)) (lk_counts l)\<rparr>)"

text \<open>\<open>target()\<close>: the last link, or the station while it has none.\<close>

definition on_target :: "(link \<Rightarrow> link) \<Rightarrow> iw_station \<Rightarrow> iw_station" where
  "on_target f s = (if iw_links s = [] then s\<lparr>iw_own := f (iw_own s)\<rparr>
     else s\<lparr>iw_links := butlast (iw_links s) @ [f (last (iw_links s))]\<rparr>)"

definition station_header :: "string \<Rightarrow> string \<Rightarrow> iw_station option" where
  "station_header iface raw = (let line = py_strip raw in
     if startswith line ''Station '' then Some \<lparr>iw_mac = normalise_mac (second_word line), iw_interface = iface, iw_links = [],
       iw_mld_mac = None, iw_is_mlo = False, iw_own = new_link None, iw_connected = None, iw_authorized = None,
       iw_authenticated = None, iw_link_count = None\<rparr>
     else None)"

definition station_fill :: "string \<Rightarrow> iw_station \<Rightarrow> iw_station" where
  "station_fill raw s = (let line = py_strip raw in
     case number_behind ''Link '' line of
       Some n \<Rightarrow> s\<lparr>iw_links := iw_links s @ [new_link (Some n)], iw_is_mlo := True\<rparr>
     | None \<Rightarrow>
         (case py_partition CHR '':'' line of (k, found, v) \<Rightarrow>
            let key = py_lower (py_strip k); value = py_strip v in
            if \<not> found then s
            else if key = ''connected time'' then s\<lparr>iw_connected := Some (or_zero (first_int value))\<rparr>
            else if key = ''authorized'' then s\<lparr>iw_authorized := Some (value = ''yes'')\<rparr>
            else if key = ''authenticated'' then s\<lparr>iw_authenticated := Some (value = ''yes'')\<rparr>
            else if key = ''mld address'' \<or> key = ''mld addr''
            then s\<lparr>iw_mld_mac := Some (normalise_mac value), iw_is_mlo := True\<rparr>
            else on_target (measure_link key value) s))"

definition SUM_KEYS :: "string list" where
  "SUM_KEYS = [''rx_bytes'', ''tx_bytes'', ''rx_packets'', ''tx_packets'', ''tx_retries'', ''tx_failed'']"

definition link_count :: "string \<Rightarrow> link \<Rightarrow> int" where
  "link_count k l = or_zero (map_of (lk_counts l) k)"

definition finalise_station :: "iw_station \<Rightarrow> iw_station" where
  "finalise_station s =
     (if iw_links s = [] then s
      else let own = iw_own s; links = iw_links s;
        counts = fold (\<lambda>k d. let total = (\<Sum>l \<leftarrow> links. link_count k l) in if total \<noteq> 0 then AList.update k total d else d)
          SUM_KEYS (lk_counts own);
        rssis = List.map_filter lk_rssi links;
        rates = map (\<lambda>l. case lk_tx_rate l of None \<Rightarrow> 0 | Some q \<Rightarrow> q) links
      in s\<lparr>iw_own := own\<lparr>lk_counts := counts,
             lk_rssi := (if rssis = [] then lk_rssi own else Some (Max (set rssis))),
             lk_tx_rate := (if list_ex (\<lambda>q. q \<noteq> 0) rates then Some (py_round 1 (sum_list rates)) else lk_tx_rate own)\<rparr>,
           iw_link_count := Some (length links)\<rparr>)"

definition station_blocks :: "string \<Rightarrow> string list \<Rightarrow> iw_station list" where
  "station_blocks iface = parse_blocks (station_header iface) station_fill"

definition station_dump :: "string \<Rightarrow> string option \<Rightarrow> iw_station list" where
  "station_dump iface answer = map finalise_station (station_blocks iface (iw_lines answer))"

subsection \<open>Surveys\<close>

record survey_entry =
  sy_interface :: string
  sy_in_use :: bool
  sy_frequency :: "int option"
  sy_noise :: "int option"
  sy_active :: "int option"
  sy_busy :: "int option"
  sy_rx :: "int option"
  sy_tx :: "int option"

definition survey_header :: "string \<Rightarrow> survey_entry option" where
  "survey_header raw = (let line = py_strip raw in
     if startswith line ''Survey data from'' then Some \<lparr>sy_interface = last (py_words line), sy_in_use = False, sy_frequency = None,
       sy_noise = None, sy_active = None, sy_busy = None, sy_rx = None, sy_tx = None\<rparr>
     else None)"

definition survey_fill :: "string \<Rightarrow> survey_entry \<Rightarrow> survey_entry" where
  "survey_fill raw e = (let line = py_strip raw in
     if line = ''in use'' then e\<lparr>sy_in_use := True\<rparr>
     else if startswith line ''frequency:''
     then e\<lparr>sy_frequency := first_int line, sy_in_use := (sy_in_use e \<or> has_infix ''in use'' line)\<rparr>
     else if startswith line ''noise:'' then e\<lparr>sy_noise := first_int line\<rparr>
     else if startswith line ''channel active time:'' then e\<lparr>sy_active := first_int line\<rparr>
     else if startswith line ''channel busy time:'' then e\<lparr>sy_busy := first_int line\<rparr>
     else if startswith line ''channel receive time:'' then e\<lparr>sy_rx := first_int line\<rparr>
     else if startswith line ''channel transmit time:'' then e\<lparr>sy_tx := first_int line\<rparr>
     else e)"

definition survey_utilisation :: "survey_entry \<Rightarrow> rat option" where
  "survey_utilisation e = (if or_zero (sy_active e) = 0 then None
     else Some (py_round 1 (of_int (or_zero (sy_busy e)) / of_int (or_zero (sy_active e)) * 100)))"

definition survey_blocks :: "string list \<Rightarrow> survey_entry list" where
  "survey_blocks = parse_blocks survey_header survey_fill"

definition survey :: "string option \<Rightarrow> (survey_entry \<times> rat option) list" where
  "survey answer = map (\<lambda>e. (e, survey_utilisation e)) (survey_blocks (iw_lines answer))"

subsection \<open>Scans\<close>

record bss_entry =
  be_bssid :: string
  be_ssid :: "string option"
  be_channel :: "int option"
  be_frequency :: "int option"
  be_rssi :: "int option"
  be_security :: string
  be_phy_modes :: "string list"
  be_utilisation :: "rat option"

definition channel_of_frequency :: "int option \<Rightarrow> int option" where
  "channel_of_frequency mhz = (case mhz of None \<Rightarrow> None
     | Some n \<Rightarrow> if n = 0 then None
         else if 2412 \<le> n \<and> n \<le> 2484 then Some (if n = 2484 then 14 else (n - 2407) div 5)
         else if 5150 \<le> n \<and> n \<le> 5895 then Some ((n - 5000) div 5)
         else if 5925 \<le> n \<and> n \<le> 7125 then Some ((n - 5950) div 5)
         else None)"

definition scan_header :: "string \<Rightarrow> bss_entry option" where
  "scan_header raw = (let line = py_strip raw in
     if startswith line ''BSS '' then Some \<lparr>be_bssid = normalise_mac (hd (py_split CHR ''('' (second_word line))), be_ssid = None,
       be_channel = None, be_frequency = None, be_rssi = None, be_security = ''open'', be_phy_modes = [], be_utilisation = None\<rparr>
     else None)"

definition scan_fill :: "string \<Rightarrow> bss_entry \<Rightarrow> bss_entry" where
  "scan_fill raw e = (let line = py_strip raw in
     if startswith line ''SSID:'' then e\<lparr>be_ssid := Some (py_strip (drop 5 line))\<rparr>
     else if startswith line ''freq:''
     then e\<lparr>be_frequency := first_int line, be_channel := channel_of_frequency (first_int line)\<rparr>
     else if startswith line ''signal:'' then e\<lparr>be_rssi := first_int line\<rparr>
     else if startswith line ''DS Parameter set: channel'' then e\<lparr>be_channel := first_int line\<rparr>
     else if has_infix ''RSN:'' line then e\<lparr>be_security := ''wpa2''\<rparr>
     else if has_infix ''WPA:'' line then e\<lparr>be_security := ''wpa''\<rparr>
     else if has_infix ''SAE'' line then e\<lparr>be_security := ''wpa3''\<rparr>
     else if has_infix ''HE capabilities'' line then e\<lparr>be_phy_modes := be_phy_modes e @ [''802.11ax'']\<rparr>
     else if has_infix ''EHT capabilities'' line then e\<lparr>be_phy_modes := be_phy_modes e @ [''802.11be'']\<rparr>
     else if has_infix ''VHT capabilities'' line then e\<lparr>be_phy_modes := be_phy_modes e @ [''802.11ac'']\<rparr>
     else if has_infix ''channel utilisation'' (py_lower line) \<or> has_infix ''channel utilization'' (py_lower line)
     then (case first_int line of None \<Rightarrow> e | Some n \<Rightarrow> e\<lparr>be_utilisation := Some (py_round 1 (of_int n / 255 * 100))\<rparr>)
     else e)"

definition scan_blocks :: "string list \<Rightarrow> bss_entry list" where
  "scan_blocks = parse_blocks scan_header scan_fill"

text \<open>The answer of the command: its output, or the text of its error.\<close>

definition scan_detail :: "string \<Rightarrow> string + string \<Rightarrow> bss_entry list \<times> string option" where
  "scan_detail iface answer = (case answer of
     Inl e \<Rightarrow> ([], Some (iface @ '': '' @ e)) | Inr text \<Rightarrow> (scan_blocks (split_lines text), None))"

definition reg_domain :: "string option \<Rightarrow> string option" where
  "reg_domain answer = Option.bind answer (search (\<lambda>s. case behind ''country '' s of
     Some (a # b # _) \<Rightarrow> if is_word a \<and> is_word b then Some [a, b] else None | _ \<Rightarrow> None))"

end
