(* ===== verification/IwCaps.thy ===== *)
theory IwCaps
  imports Iw
begin

text \<open>
  What a wiphy can do, from \<open>iw phy info\<close> (\<open>adapters/nl80211.py\<close>), and the netlink message that assigns an
  interface to radios. sysfs, module parameters and the socket are arguments.
\<close>

subsection \<open>Frequencies\<close>

definition BAND_RANGES :: "(string \<times> rat \<times> rat) list" where
  "BAND_RANGES = [(''2g'', 2400, 2500), (''5g'', 5100, 5900), (''6g'', 5925, 7125)]"

record chan_detail =
  cd_channel :: int
  cd_frequency :: rat
  cd_disabled :: bool
  cd_no_ir :: bool
  cd_dfs :: bool
  cd_power :: "rat option"
  cd_psc :: bool

text \<open>\<open>^\s*\* (\d+(?:\.\d+)?) MHz \[(\d+)\](.*)$\<close>, with the rest in lower case.\<close>

definition freq_line :: "string \<Rightarrow> (rat \<times> int \<times> string) option" where
  "freq_line line = Option.bind (Option.bind (behind ''* '' (dropWhile py_isspace line)) decimal_at) (\<lambda>(mhz, s1).
     Option.bind (Option.bind (behind '' MHz ['' s1) digits_at) (\<lambda>(channel, s2).
     map_option (\<lambda>flags. (mhz, channel, py_lower flags)) (behind '']'' s2)))"

definition band_in_range :: "rat \<Rightarrow> string option" where
  "band_in_range mhz = map_option fst (find (\<lambda>(_, low, high). low \<le> mhz \<and> mhz \<le> high) BAND_RANGES)"

text \<open>\<open>max\<close> takes the first of the bands with the most votes.\<close>

definition count_vote :: "string \<Rightarrow> (string \<times> nat) list \<Rightarrow> (string \<times> nat) list" where
  "count_vote name votes = AList.update name (Suc (the_default 0 (map_of votes name))) votes"

fun most_votes :: "(string \<times> nat) list \<Rightarrow> (string \<times> nat) option" where
  "most_votes [] = None"
| "most_votes (v # vs) = (case most_votes vs of None \<Rightarrow> Some v | Some b \<Rightarrow> Some (if snd v < snd b then b else v))"

definition classify_band :: "(rat \<times> int \<times> string) list \<Rightarrow> string option" where
  "classify_band freqs = map_option fst (most_votes
     (fold count_vote (List.map_filter (\<lambda>(mhz, _). band_in_range mhz) freqs) []))"

definition chan_detail_of :: "string option \<Rightarrow> rat \<times> int \<times> string \<Rightarrow> verr + chan_detail" where
  "chan_detail_of band = (\<lambda>(mhz, channel, flags).
     rbind (case search (power_in '' dbm'') flags of None \<Rightarrow> Inr None
        | Some run \<Rightarrow> rbind (dot_float run) (\<lambda>q. Inr (Some q))) (\<lambda>power.
     Inr \<lparr>cd_channel = channel, cd_frequency = mhz, cd_disabled = has_infix ''disabled'' flags,
       cd_no_ir = has_infix ''no ir'' flags, cd_dfs = has_infix ''radar detection'' flags, cd_power = power,
       cd_psc = (band = Some ''6g'' \<and> channel \<in> set PSC_CHANNELS)\<rparr>))"

subsection \<open>One band\<close>

record phy_caps =
  pc_phy :: string
  pc_index :: "int option"
  pc_mac :: "string option"
  pc_band :: "string option"
  pc_channels :: "int list"
  pc_details :: "chan_detail list"
  pc_widths :: "int list"
  pc_standards :: "string list"
  pc_ht :: bool
  pc_vht :: bool
  pc_he :: bool
  pc_eht :: bool
  pc_mlo :: bool
  pc_max_nss :: int
  pc_max_power :: "rat option"
  pc_dfs :: bool
  pc_afc :: bool
  pc_ap :: bool
  pc_max_bss :: int
  pc_raw :: bool
  pc_eht240 :: bool

text \<open>What the adapter reads beside the text: index and address of the wiphy, and the two driver facts.\<close>

record phy_facts =
  pf_name :: string
  pf_index :: "int option"
  pf_address :: string
  pf_mlo :: bool
  pf_eht240 :: bool

definition phy_mac :: "string \<Rightarrow> string option" where
  "phy_mac address = (let mac = py_strip address in if mac = [] then None else Some (normalise_mac mac))"

definition driver_mlo_capable :: "string \<Rightarrow> bool" where
  "driver_mlo_capable parameter = (let v = py_strip parameter in v \<noteq> [] \<and> v \<notin> {''0'', ''N'', ''n'', ''off''})"

text \<open>\<open>found\<close> is whether a module file of the driver holds the text \<open>EHT240\<close>.\<close>

definition driver_eht240_capable :: "string \<Rightarrow> bool \<Rightarrow> bool \<Rightarrow> bool" where
  "driver_eht240_capable override loaded found = (let v = py_lower (py_strip override) in
     if v \<in> {''1'', ''yes'', ''true'', ''on''} then True
     else if v \<in> {''0'', ''no'', ''false'', ''off''} then False
     else loaded \<and> found)"

definition no_caps :: "phy_facts \<Rightarrow> bool \<Rightarrow> phy_caps" where
  "no_caps pf raw = \<lparr>pc_phy = pf_name pf, pc_index = pf_index pf, pc_mac = phy_mac (pf_address pf), pc_band = None,
     pc_channels = [], pc_details = [], pc_widths = [20], pc_standards = [], pc_ht = False, pc_vht = False, pc_he = False,
     pc_eht = False, pc_mlo = False, pc_max_nss = 1, pc_max_power = None, pc_dfs = False, pc_afc = False, pc_ap = False,
     pc_max_bss = 1, pc_raw = raw, pc_eht240 = False\<rparr>"

text \<open>The widths, as the sorted list of a set.\<close>

definition band_widths :: "string option \<Rightarrow> bool \<Rightarrow> bool \<Rightarrow> bool \<Rightarrow> bool \<Rightarrow> bool \<Rightarrow> string \<Rightarrow> int list" where
  "band_widths band ht vht he eht eht240 lowered =
     (let w40 = ht \<or> he \<or> eht;
          w80 = (vht \<or> he) \<and> (has_infix ''80 mhz'' lowered \<or> band \<in> {Some ''5g'', Some ''6g''});
          w160 = (vht \<or> he) \<and> (has_infix ''160 mhz'' lowered \<or> has_infix ''160/8080'' lowered);
          w320 = eht \<and> band = Some ''6g'' \<and> has_infix ''320 mhz'' lowered;
          ws = filter (\<lambda>w. w = 20 \<or> w = 40 \<and> w40 \<or> w = 80 \<and> w80 \<or> w = 160 \<and> w160 \<or> w = 240 \<and> eht240 \<or> w = 320 \<and> w320)
            [20, 40, 80, 160, 240, 320]
      in if band = Some ''2g'' then filter (\<lambda>w. w \<in> {20, 40}) ws else ws)"

definition band_standards :: "string option \<Rightarrow> bool \<Rightarrow> bool \<Rightarrow> bool \<Rightarrow> bool \<Rightarrow> string list" where
  "band_standards band ht vht he eht =
     (if band = Some ''2g'' then [''802.11b'', ''802.11g''] else [''802.11a'']) @ (if ht then [''802.11n''] else []) @
     (if vht \<and> band \<noteq> Some ''2g'' then [''802.11ac''] else []) @ (if he then [''802.11ax''] else []) @
     (if eht then [''802.11be''] else [])"

text \<open>\<open>(\d+) streams?\<close> and \<open>rx mcs set.*?(\d)x(\d)\<close>, whose dot stays on the line.\<close>

definition streams_at :: "string \<Rightarrow> int option" where
  "streams_at s = (case digits_at s of None \<Rightarrow> None
     | Some (n, r) \<Rightarrow> if startswith r '' stream'' then Some n else None)"

definition pair_at :: "string \<Rightarrow> int option" where
  "pair_at s = (case s of a # x # b # _ \<Rightarrow> if is_digit_ascii a \<and> x = CHR ''x'' \<and> is_digit_ascii b then Some (digit_val b) else None
     | _ \<Rightarrow> None)"

definition mcs_set_at :: "string \<Rightarrow> int option" where
  "mcs_set_at s = Option.bind (behind ''rx mcs set'' s) (\<lambda>r. search pair_at (takeWhile (\<lambda>c. c \<noteq> newline) r))"

definition spatial_streams :: "string \<Rightarrow> int" where
  "spatial_streams lowered =
     fold max (List.map_filter streams_at (places lowered) @ List.map_filter mcs_set_at (places lowered)) 1"

text \<open>\<open>#\{ ap[^}]*\} <= (\d+)\<close>.\<close>

definition ap_limit_at :: "string \<Rightarrow> int option" where
  "ap_limit_at s = Option.bind (behind ''#{ ap'' s) (\<lambda>r. number_behind ''} <= '' (dropWhile (\<lambda>c. c \<noteq> CHR ''}'') r))"

definition max_ap_bss :: "string \<Rightarrow> int" where
  "max_ap_bss whole_lower = (case search ap_limit_at whole_lower of Some n \<Rightarrow> n
     | None \<Rightarrow> (case search (number_behind ''total <= '') whole_lower of Some n \<Rightarrow> n
       | None \<Rightarrow> if has_infix ''* ap'' whole_lower then 8 else 1))"

definition max_power :: "string \<Rightarrow> verr + rat option" where
  "max_power text = rbind (rmap dot_float (List.map_filter (power_in '' dBm'') (places text))) (\<lambda>ps.
     Inr (if ps = [] then None else Some (Max (set ps))))"

definition parse_band :: "phy_facts \<Rightarrow> string \<Rightarrow> string \<Rightarrow> verr + phy_caps" where
  "parse_band pf text whole =
     (let c0 = no_caps pf (whole \<noteq> []) in
      if text = [] then Inr c0
      else let freqs = List.map_filter freq_line (split_lines text); band = classify_band freqs in
      rbind (rmap (chan_detail_of band) freqs) (\<lambda>details.
      rbind (max_power text) (\<lambda>power.
      let lowered = py_lower text; whole_lower = py_lower whole;
          ht = has_infix ''ht20/ht40'' lowered \<or> has_infix ''ht capabilities'' lowered;
          vht = has_infix ''vht capabilities'' lowered \<and> band \<noteq> Some ''2g'';
          he = has_infix ''he iftypes'' lowered \<or> has_infix ''he mac capabilities'' lowered;
          eht = has_infix ''eht iftypes'' lowered \<or> has_infix ''eht mac capabilities'' lowered;
          eht240 = eht \<and> band = Some ''5g'' \<and> pf_eht240 pf in
      Inr (c0\<lparr>pc_band := band, pc_details := details, pc_dfs := list_ex cd_dfs details,
        pc_channels := map cd_channel (filter (\<lambda>d. \<not> cd_disabled d) details), pc_max_power := power,
        pc_ht := ht, pc_vht := vht, pc_he := he, pc_eht := eht,
        pc_mlo := has_infix ''mlo'' whole_lower \<or> has_infix ''multi-link'' whole_lower \<or> pf_mlo pf,
        pc_eht240 := eht240, pc_widths := band_widths band ht vht he eht eht240 lowered,
        pc_standards := band_standards band ht vht he eht, pc_max_nss := spatial_streams lowered,
        pc_ap := has_infix ''* ap'' whole_lower, pc_max_bss := max_ap_bss whole_lower, pc_afc := has_infix ''afc'' whole_lower\<rparr>))))"

subsection \<open>All bands of a wiphy\<close>

text \<open>\<open>^\tBand (\d+):\s*$\<close>.\<close>

definition band_header :: "string \<Rightarrow> string option" where
  "band_header line = (case Option.bind (behind (chr 9 # ''Band '') line) digits_at of
     None \<Rightarrow> None
   | Some (_, s) \<Rightarrow> (case behind '':'' s of None \<Rightarrow> None | Some r \<Rightarrow> if list_all py_isspace r then Some line else None))"

text \<open>A section runs up to the next header, its last line end included.\<close>

definition split_bands :: "string \<Rightarrow> string list" where
  "split_bands text =
     (let ss = map (\<lambda>(h, ls). py_join [newline] (h # ls)) (blocks band_header (py_split newline text))
      in if ss = [] then [] else map (\<lambda>s. s @ [newline]) (butlast ss) @ [last ss])"

definition phy_band_capabilities :: "phy_facts \<Rightarrow> string option \<Rightarrow> verr + phy_caps list" where
  "phy_band_capabilities pf answer = (let text = the_default [] answer in
     if text = [] then rmap (\<lambda>t. parse_band pf t []) [[]]
     else let sections = split_bands text in rmap (\<lambda>t. parse_band pf t text) (if sections = [] then [text] else sections))"

definition phys :: "string list \<Rightarrow> string list" where
  "phys all_phys = filter (\<lambda>p. \<not> startswith p ''phy-scan'') (sort all_phys)"

subsection \<open>The radio mask of an interface\<close>

text \<open>Native order is little endian here. \<open>struct.pack\<close> of a number that does not fit raises.\<close>

definition le_bytes :: "nat \<Rightarrow> int \<Rightarrow> int list" where
  "le_bytes k n = map (\<lambda>i. n div 256 ^ i mod 256) [0..<k]"

definition le16 :: "int list \<Rightarrow> nat \<Rightarrow> int" where
  "le16 bs i = bs ! i + 256 * bs ! (i + 1)"

definition le32 :: "int list \<Rightarrow> nat \<Rightarrow> int" where
  "le32 bs i = le16 bs i + 65536 * le16 bs (i + 2)"

definition signed32 :: "int \<Rightarrow> int" where
  "signed32 n = (if n < 2 ^ 31 then n else n - 2 ^ 32)"

definition nl_attr :: "int \<Rightarrow> int list \<Rightarrow> int list" where
  "nl_attr kind payload = (let body = le_bytes 2 (4 + int (length payload)) @ le_bytes 2 kind @ payload in
     body @ replicate (nat ((- int (length body)) mod 4)) 0)"

definition genl_message :: "int \<Rightarrow> int \<Rightarrow> int \<Rightarrow> int list \<Rightarrow> int \<Rightarrow> int list" where
  "genl_message pid family cmd payload flags = (let genl = [cmd, 1, 0, 0] @ payload in
     le_bytes 4 (16 + int (length genl)) @ le_bytes 2 family @ le_bytes 2 flags @ le_bytes 4 1 @ le_bytes 4 pid @ genl)"

text \<open>The walk over the attributes of the reply, from offset 20: the family, none, or an attribute cut short,
  whose \<open>struct.error\<close> nothing catches.\<close>

datatype family_search = Found int | NotFound | CutShort

function find_family :: "int list \<Rightarrow> nat \<Rightarrow> family_search" where
  "find_family reply offset =
     (if length reply < offset + 4 then NotFound
      else if le16 reply offset < 4 then NotFound
      else if le16 reply (offset + 2) = 1 then (if length reply < offset + 6 then CutShort else Found (le16 reply (offset + 4)))
      else find_family reply (offset + nat ((le16 reply offset + 3) div 4 * 4)))"
  by pat_completeness auto
termination
proof (relation "measure (\<lambda>(reply, offset). length reply - offset)", goal_cases)
  case (2 reply offset)
  then have "0 < nat ((le16 reply offset + 3) div 4 * 4)" by linarith
  with 2 show ?case by simp
qed simp

declare find_family.simps [simp del]

datatype mask_outcome = MaskSet | MaskRefused string | StructError

text \<open>\<open>talk\<close> is the kernel: the reply to a message, or an error with its text.\<close>

definition set_vif_radio_mask :: "(int list \<Rightarrow> string + int list) \<Rightarrow> (int \<Rightarrow> string) \<Rightarrow> int \<Rightarrow> string \<Rightarrow> string + int \<Rightarrow> int
    \<Rightarrow> mask_outcome" where
  "set_vif_radio_mask talk strerror pid ifname ifindex radio_mask =
     (case ifindex of
        Inl e \<Rightarrow> MaskRefused (ifname @ '': '' @ e)
      | Inr index \<Rightarrow>
          (case talk (genl_message pid 16 3 (nl_attr 2 (map code ''nl80211'' @ [0])) 1) of
             Inl e \<Rightarrow> MaskRefused (ifname @ '': '' @ e)
           | Inr reply \<Rightarrow>
               (case find_family reply 20 of
                  CutShort \<Rightarrow> StructError
                | NotFound \<Rightarrow> MaskRefused ''nl80211 generic netlink family not found''
                | Found family \<Rightarrow>
                    if radio_mask < 0 \<or> 2 ^ 32 \<le> radio_mask then StructError else
                    (case talk (genl_message pid family 6 (nl_attr 3 (le_bytes 4 index) @ nl_attr 333 (le_bytes 4 radio_mask)) 5) of
                       Inl e \<Rightarrow> MaskRefused (ifname @ '': '' @ e)
                     | Inr answer \<Rightarrow>
                         if length answer < 6 then StructError
                         else if le16 answer 4 = 2
                         then if length answer < 20 then StructError
                           else let err = signed32 (le32 answer 16) in
                             if err \<noteq> 0 then MaskRefused (ifname @ '': '' @ strerror (- err)) else MaskSet
                         else MaskSet))))"

end
