(* ===== verification/IwSafety.thy ===== *)
theory IwSafety
  imports IwCaps SchemaWifi
begin

text \<open>
  What the adapter of \<open>iw\<close> guarantees: the four line parsers read every block by itself, the numbers of a
  multi-link station add up, the widths a radio is said to support are ones the schema accepts for its
  band, and the netlink walk finds the family the kernel answered with.
\<close>

subsection \<open>Blocks\<close>

interpretation wifs: block_parser wif_blocks wif_header wif_fill
  unfolding wif_blocks_def by (rule block_parser_fold)

interpretation stations: block_parser "station_blocks iface" "station_header iface" station_fill for iface
  unfolding station_blocks_def by (rule block_parser_fold)

interpretation surveys: block_parser survey_blocks survey_header survey_fill
  unfolding survey_blocks_def by (rule block_parser_fold)

interpretation scans: block_parser scan_blocks scan_header scan_fill
  unfolding scan_blocks_def by (rule block_parser_fold)

lemma on_target_mac [simp]: "iw_mac (on_target f s) = iw_mac s"
  by (simp add: on_target_def)

lemma station_fill_mac: "iw_mac (station_fill l s) = iw_mac s"
  by (simp add: station_fill_def Let_def split: option.split prod.split)

lemma finalise_station_mac [simp]: "iw_mac (finalise_station s) = iw_mac s"
  by (simp add: finalise_station_def Let_def)

lemma station_headers:
  "map iw_mac (List.map_filter (station_header iface) lines) =
     map (\<lambda>l. normalise_mac (second_word (py_strip l))) (filter (\<lambda>l. startswith (py_strip l) ''Station '') lines)"
  by (induction lines) (simp_all add: station_header_def Let_def map_filter_simps)

text \<open>A station dump lists every station once and in order: one entry for each \<open>Station\<close> line, with its
  address, made of the lines up to the next one and of nothing else.\<close>

theorem stations_in_order:
  "map iw_mac (station_dump iface (Some text)) =
     map (\<lambda>l. normalise_mac (second_word (py_strip l))) (filter (\<lambda>l. startswith (py_strip l) ''Station '') (split_lines text)) \<and>
   station_dump iface (Some text) =
     map (\<lambda>(s, ls). finalise_station (fold station_fill ls s)) (blocks (station_header iface) (split_lines text))"
proof
  have "map iw_mac (station_blocks iface ls) = map iw_mac (List.map_filter (station_header iface) ls)" for ls
    by (rule stations.parse_keeps) (rule station_fill_mac)
  then show "map iw_mac (station_dump iface (Some text)) =
     map (\<lambda>l. normalise_mac (second_word (py_strip l))) (filter (\<lambda>l. startswith (py_strip l) ''Station '') (split_lines text))"
    by (simp add: station_dump_def iw_lines_def station_headers o_def)
  show "station_dump iface (Some text) =
     map (\<lambda>(s, ls). finalise_station (fold station_fill ls s)) (blocks (station_header iface) (split_lines text))"
    by (simp add: station_dump_def iw_lines_def stations.parse_by_blocks split_def)
qed

text \<open>The same for scans: one neighbour for each \<open>BSS\<close> line, and a failed scan is told from an empty one.\<close>

lemma scan_one_per_bss:
  "snd (scan_detail iface answer) = None \<longleftrightarrow> (\<exists>text. answer = Inr text \<and>
     length (fst (scan_detail iface answer)) = length (filter (\<lambda>l. startswith (py_strip l) ''BSS '') (split_lines text)))"
proof (cases answer)
  case (Inr out)
  have "(scan_header l \<noteq> None) = startswith (py_strip l) ''BSS ''" for l by (simp add: scan_header_def Let_def)
  then show ?thesis using scans.one_per_header [of "split_lines out"] by (simp add: scan_detail_def Inr)
qed (simp add: scan_detail_def)

subsection \<open>Multi-link stations\<close>

lemma sum_keys_distinct: "distinct SUM_KEYS"
  by code_simp

lemma fold_totals:
  assumes "distinct ks"
  shows "map_of (fold (\<lambda>k d. if f k \<noteq> (0 :: int) then AList.update k (f k) d else d) ks d) k =
    (if k \<in> set ks \<and> f k \<noteq> 0 then Some (f k) else map_of d k)"
  using assms
proof (induction ks arbitrary: d)
  case (Cons x ks)
  then show ?case by (auto simp: update_conv')
qed simp

lemma finalise_links [simp]: "iw_links (finalise_station s) = iw_links s"
  by (simp add: finalise_station_def Let_def)

lemma finalise_counter:
  assumes "iw_links s \<noteq> []" and "k \<in> set SUM_KEYS" and "(\<Sum>l \<leftarrow> iw_links s. link_count k l) \<noteq> 0"
  shows "link_count k (iw_own (finalise_station s)) = (\<Sum>l \<leftarrow> iw_links s. link_count k l)"
proof -
  let ?t = "\<lambda>k. \<Sum>l \<leftarrow> iw_links s. link_count k l"
  have "lk_counts (iw_own (finalise_station s)) =
      fold (\<lambda>k d. if ?t k \<noteq> 0 then AList.update k (?t k) d else d) SUM_KEYS (lk_counts (iw_own s))"
    using assms(1) by (simp add: finalise_station_def Let_def)
  with fold_totals [OF sum_keys_distinct, of ?t "lk_counts (iw_own s)" k] assms(2,3)
  have "map_of (lk_counts (iw_own (finalise_station s))) k = Some (?t k)" by simp
  then show ?thesis by (simp only: link_count_def [of k "iw_own (finalise_station s)"]) (simp add: or_zero_def)
qed

lemma finalise_signal:
  assumes "iw_links s \<noteq> []" and "list_ex (\<lambda>l. lk_rssi l \<noteq> None) (iw_links s)"
  shows "\<exists>r. lk_rssi (iw_own (finalise_station s)) = Some r \<and> list_ex (\<lambda>l. lk_rssi l = Some r) (iw_links s) \<and>
    list_all (\<lambda>l. case lk_rssi l of None \<Rightarrow> True | Some q \<Rightarrow> q \<le> r) (iw_links s)"
proof -
  let ?rs = "List.map_filter lk_rssi (iw_links s)"
  have set: "set ?rs = {r. \<exists>l \<in> set (iw_links s). lk_rssi l = Some r}"
    unfolding List.map_filter_def by force
  then have "?rs \<noteq> []" using assms(2) by (force simp: list_ex_iff)
  then have "Max (set ?rs) \<in> set ?rs" "q \<in> set ?rs \<Longrightarrow> q \<le> Max (set ?rs)" for q by simp_all
  moreover have "lk_rssi (iw_own (finalise_station s)) = Some (Max (set ?rs))"
    using assms(1) \<open>?rs \<noteq> []\<close> by (simp add: finalise_station_def Let_def)
  ultimately show ?thesis unfolding set list_ex_iff list_all_iff by (force split: option.split)
qed

text \<open>C28. In what the station dump returns, whatever \<open>iw\<close> printed, a multi-link station agrees with its links: each of
  its byte, packet, retry and failure counters is the sum over the links, unless that sum is zero; its
  signal, when any link has one, is that of a link and no link's is stronger; and its number of links is right.\<close>

theorem link_counters_add_up:
  assumes "s \<in> set (station_dump iface answer)" and "iw_links s \<noteq> []"
  shows "list_all (\<lambda>k. (\<Sum>l \<leftarrow> iw_links s. link_count k l) \<in> {0, link_count k (iw_own s)})
      [''rx_bytes'', ''tx_bytes'', ''rx_packets'', ''tx_packets'', ''tx_retries'', ''tx_failed''] \<and>
    (list_ex (\<lambda>l. lk_rssi l \<noteq> None) (iw_links s) \<longrightarrow>
      (\<exists>r. lk_rssi (iw_own s) = Some r \<and> list_ex (\<lambda>l. lk_rssi l = Some r) (iw_links s) \<and>
        list_all (\<lambda>l. case lk_rssi l of None \<Rightarrow> True | Some q \<Rightarrow> q \<le> r) (iw_links s))) \<and>
    iw_link_count s = Some (length (iw_links s))"
proof -
  obtain s0 where s: "s = finalise_station s0" using assms(1) by (auto simp: station_dump_def)
  then have links: "iw_links s0 \<noteq> []" using assms(2) by simp
  have keys: "set [''rx_bytes'', ''tx_bytes'', ''rx_packets'', ''tx_packets'', ''tx_retries'', ''tx_failed''] \<subseteq> set SUM_KEYS"
    by (simp add: SUM_KEYS_def)
  have "(\<Sum>l \<leftarrow> iw_links s. link_count k l) \<in> {0, link_count k (iw_own s)}" if "k \<in> set SUM_KEYS" for k
    using finalise_counter [OF links that] by (cases "(\<Sum>l \<leftarrow> iw_links s. link_count k l) = 0") (simp_all add: s)
  with keys have "list_all (\<lambda>k. (\<Sum>l \<leftarrow> iw_links s. link_count k l) \<in> {0, link_count k (iw_own s)})
      [''rx_bytes'', ''tx_bytes'', ''rx_packets'', ''tx_packets'', ''tx_retries'', ''tx_failed'']"
    unfolding list_all_iff by blast
  moreover have "iw_link_count s = Some (length (iw_links s))"
    using links by (simp add: s finalise_station_def Let_def)
  ultimately show ?thesis using finalise_signal [OF links] by (simp add: s)
qed

definition dump_text :: string where
  "dump_text = concat (map (\<lambda>l. l @ [newline])
     [''Station 02:00:00:00:00:01 (on wlan0)'', ''Link 0:'', ''rx bytes: 100'', ''signal: -60 dBm'',
      ''Link 1:'', ''rx bytes: 250'', ''signal: -48 dBm''])"

lemma link_counters_add_up_witness:
  "\<exists>s. station_dump ''wlan0'' (Some dump_text) = [s] \<and> link_count ''rx_bytes'' (iw_own s) = 350 \<and>
     lk_rssi (iw_own s) = Some (- 48) \<and> iw_link_count s = Some 2"
proof -
  have "case station_dump ''wlan0'' (Some dump_text) of [s] \<Rightarrow>
      map lk_rssi (iw_links s) = [Some (- 60), Some (- 48)] \<and> map (link_count ''rx_bytes'') (iw_links s) = [100, 250] | _ \<Rightarrow> False"
    by code_simp
  then obtain s where d: "station_dump ''wlan0'' (Some dump_text) = [s]"
    and r: "map lk_rssi (iw_links s) = [Some (- 60), Some (- 48)]" and b: "map (link_count ''rx_bytes'') (iw_links s) = [100, 250]"
    by (auto split: list.splits)
  obtain l m where l: "iw_links s = [l, m]" "lk_rssi l = Some (- 60)" "lk_rssi m = Some (- 48)"
    "link_count ''rx_bytes'' l = 100" "link_count ''rx_bytes'' m = 250"
    using r b by (auto simp: map_eq_Cons_conv)
  have "s \<in> set (station_dump ''wlan0'' (Some dump_text))" "iw_links s \<noteq> []" by (simp_all add: d l)
  from link_counters_add_up [OF this] d show ?thesis by (auto simp: l)
qed

subsection \<open>Capabilities\<close>

lemma band_widths_allowed:
  assumes "eht240 \<longrightarrow> band = Some ''5g''"
  shows "20 \<in> set (band_widths band ht vht he eht eht240 lowered)"
    and "sorted_wrt (<) (band_widths band ht vht he eht eht240 lowered)"
    and "band = Some b \<Longrightarrow> list_all (width_allowed b) (band_widths band ht vht he eht eht240 lowered)"
proof -
  have s1: "sorted_wrt (<) (filter P [20, 40, 80, 160, 240, 320 :: int])" for P
    by (rule sorted_wrt_filter) simp
  have s2: "sorted_wrt (<) (if two then filter P (filter Q [20, 40, 80, 160, 240, 320 :: int]) else filter Q [20, 40, 80, 160, 240, 320])"
    for two P Q
    by (cases two) (simp_all only: if_True if_False s1 sorted_wrt_filter)
  show "20 \<in> set (band_widths band ht vht he eht eht240 lowered)" by (simp add: band_widths_def Let_def)
  show "sorted_wrt (<) (band_widths band ht vht he eht eht240 lowered)"
    unfolding band_widths_def Let_def by (rule s2)
  have pick: "list_all (\<lambda>w. w \<in> (if two then {20, 40} else if five then {20, 40, 80, 160, 240} else {20, 40, 80, 160, 320}))
      (if two then filter (\<lambda>w. w \<in> {20, 40}) (filter P [20, 40, 80, 160, 240, 320 :: int]) else filter P [20, 40, 80, 160, 240, 320])"
    if "P 240 \<longrightarrow> five" "P 320 \<longrightarrow> \<not> five" for two five P
    using that by (cases two; cases five) simp_all
  have wa: "width_allowed b w = (w \<in> (if b = ''2g'' then {20, 40} else if b = ''5g'' then {20, 40, 80, 160, 240} else {20, 40, 80, 160, 320}))" for w
    by (simp add: width_allowed_def)
  have ne: "Some ''5g'' \<noteq> Some ''6g''" by simp
  show "list_all (width_allowed b) (band_widths band ht vht he eht eht240 lowered)" if "band = Some b"
    unfolding wa [abs_def] band_widths_def Let_def that option.inject
    by (rule pick) (use assms that ne in auto)
qed

text \<open>C32. The probe and the schema agree on widths: whatever \<open>iw\<close> prints, the widths reported for a band are in
  order, contain 20 MHz and are all widths the schema accepts for a radio of that band.\<close>

theorem parsed_widths_permitted:
  assumes "parse_band pf text whole = Inr c" and "pc_band c = Some b"
  shows "20 \<in> set (pc_widths c) \<and> sorted_wrt (<) (pc_widths c) \<and> list_all (width_allowed b) (pc_widths c)"
proof (cases "text = []")
  case False
  with assms(1) obtain band ht vht he eht eht240 lowered where
    "pc_widths c = band_widths band ht vht he eht eht240 lowered" "pc_band c = band" "eht240 \<longrightarrow> band = Some ''5g''"
    by (auto simp: parse_band_def Let_def rbind_eq_Inr)
  with band_widths_allowed assms(2) show ?thesis by auto
qed (use assms in \<open>auto simp: parse_band_def Let_def no_caps_def\<close>)

definition six_ghz_text :: string where
  "six_ghz_text = ''* 5955 MHz [1]'' @ [newline] @ ''HE Iftypes''"

definition plain_phy :: phy_facts where
  "plain_phy = \<lparr>pf_name = ''phy0'', pf_index = Some 0, pf_address = [], pf_mlo = False, pf_eht240 = True\<rparr>"

lemma parsed_widths_permitted_witness:
  "\<exists>c. parse_band plain_phy six_ghz_text six_ghz_text = Inr c \<and> pc_widths c = [20, 40, 80] \<and>
     list_all (width_allowed ''6g'') (pc_widths c)"
proof -
  have "(case parse_band plain_phy six_ghz_text six_ghz_text of Inr c \<Rightarrow> pc_widths c = [20, 40, 80] \<and> pc_band c = Some ''6g''
    | Inl _ \<Rightarrow> False)" by code_simp
  then obtain c where c: "parse_band plain_phy six_ghz_text six_ghz_text = Inr c" "pc_widths c = [20, 40, 80]" "pc_band c = Some ''6g''"
    by (auto split: sum.splits)
  from parsed_widths_permitted [OF c(1,3)] c show ?thesis by blast
qed

text \<open>The channels offered are those that are not disabled.\<close>

lemma channels_not_disabled:
  "parse_band pf text whole = Inr c \<Longrightarrow> pc_channels c = map cd_channel (filter (\<lambda>d. \<not> cd_disabled d) (pc_details c))"
  by (auto simp: parse_band_def Let_def rbind_eq_Inr no_caps_def split: if_splits)

text \<open>The two copies of the channel arithmetic agree; both give 6 GHz channel 2 a negative number.\<close>

lemma channel_copies_agree: "channel_of_frequency mhz = Option.bind mhz freq_to_channel"
  by (auto simp: channel_of_frequency_def freq_to_channel_def split: option.split)

lemma channel_two_of_6ghz: "channel_of_frequency (Some 5935) = Some (-3)"
  by (simp add: channel_of_frequency_def)

lemma utilisation_is_a_percentage:
  assumes "survey_utilisation e = Some u" and "0 \<le> or_zero (sy_busy e)" and "or_zero (sy_busy e) \<le> or_zero (sy_active e)"
  shows "0 \<le> u \<and> u \<le> 100"
proof -
  let ?x = "of_int (or_zero (sy_busy e)) / of_int (or_zero (sy_active e)) * 100 :: rat"
  from assms have u: "u = py_round 1 ?x" and a: "0 < or_zero (sy_active e)"
    by (auto simp: survey_utilisation_def split: if_splits)
  have "of_int 0 \<le> ?x" using assms(2) a by simp
  moreover have "?x \<le> of_int 100" using assms(3) a by (simp add: divide_le_eq)
  ultimately show ?thesis 
    using py_round_bounds(1) [where m = 0 and x = ?x and d = 1] py_round_bounds(2) [where n = 100 and x = ?x and d = 1] u by simp
qed

subsection \<open>The walk over netlink attributes\<close>

lemma length_le_bytes [simp]: "length (le_bytes k n) = k"
  by (simp add: le_bytes_def)

lemma le16_le_bytes: "0 \<le> n \<Longrightarrow> n < 65536 \<Longrightarrow> le16 (le_bytes 2 n) 0 = n"
  by (simp add: le16_def le_bytes_def upt_rec numeral_2_eq_2)

lemma le16_append: "le16 (xs @ ys) (length xs + i) = le16 ys i"
  by (simp add: le16_def nth_append)

lemma le16_prefix: "i + 1 < length xs \<Longrightarrow> le16 (xs @ ys) i = le16 xs i"
  by (simp add: le16_def nth_append)

lemma length_nl_attr: "length (nl_attr k p) = nat ((int (length p) + 7) div 4 * 4)"
proof -
  have "int (length (nl_attr k p)) = int (length p) + 4 + (- (int (length p) + 4)) mod 4"
    by (simp add: nl_attr_def Let_def) presburger
  also have "\<dots> = (int (length p) + 7) div 4 * 4" by presburger
  finally show ?thesis by linarith
qed

lemma nl_attr_read:
  assumes "0 \<le> k" and "k < 65536" and "length p < 65532"
  shows "le16 (pre @ nl_attr k p @ rest) (length pre) = int (length p) + 4"
    and "le16 (pre @ nl_attr k p @ rest) (length pre + 2) = k"
    and "1 < length p \<Longrightarrow> le16 (pre @ nl_attr k p @ rest) (length pre + 4) = le16 p 0"
proof -
  let ?L = "le_bytes 2 (4 + int (length p))" let ?K = "le_bytes 2 k"
  obtain tl where s: "pre @ nl_attr k p @ rest = pre @ ?L @ ?K @ p @ tl" by (simp add: nl_attr_def Let_def)
  have "le16 (pre @ ?L @ ?K @ p @ tl) (length pre + 0) = le16 ?L 0" by (simp only: le16_append) (simp add: le16_prefix)
  then show "le16 (pre @ nl_attr k p @ rest) (length pre) = int (length p) + 4" using assms(3) by (simp add: s le16_le_bytes)
  have "le16 ((pre @ ?L) @ ?K @ p @ tl) (length (pre @ ?L) + 0) = le16 ?K 0" by (simp only: le16_append) (simp add: le16_prefix)
  then show "le16 (pre @ nl_attr k p @ rest) (length pre + 2) = k" using assms(1,2) by (simp add: s le16_le_bytes)
  show "le16 (pre @ nl_attr k p @ rest) (length pre + 4) = le16 p 0" if "1 < length p"
  proof -
    have "le16 ((pre @ ?L @ ?K) @ p @ tl) (length (pre @ ?L @ ?K) + 0) = le16 p 0"
      using that by (simp only: le16_append) (simp add: le16_prefix)
    then show ?thesis by (simp add: s)
  qed
qed

text \<open>C38. The walk over the attributes of a reply finds the family: whatever attributes stand before it, of whatever
  lengths, the number the kernel put into its family attribute is the one that is used.\<close>

theorem family_found:
  assumes "length header = 20" and "list_all (\<lambda>(k, p). 0 \<le> k \<and> k < 65536 \<and> length p < 65532) attrs"
    and "find (\<lambda>(k, p). k = 1) attrs = Some (1, le_bytes 2 f @ more_bytes)" and "0 \<le> f" and "f < 65536"
  shows "find_family (header @ concat (map (\<lambda>(k, p). nl_attr k p) attrs)) 20 = Found f"
proof -
  have "find_family (pre @ concat (map (\<lambda>(k, p). nl_attr k p) attrs)) (length pre) = Found f" for pre
    using assms(2,3)
  proof (induction attrs arbitrary: pre)
    case (Cons a attrs)
    obtain k p where a: "a = (k, p)" by fastforce
    let ?rest = "concat (map (\<lambda>(k, p). nl_attr k p) attrs)"
    from Cons.prems(1) have b: "0 \<le> k" "k < 65536" "length p < 65532" by (simp_all add: a)
    note r = nl_attr_read [OF b, of pre ?rest]
    have len: "length p + 4 \<le> length (nl_attr k p)" by (simp add: nl_attr_def Let_def)
    show ?case
    proof (cases "k = 1")
      case True
      with Cons.prems(2) have p: "p = le_bytes 2 f @ more_bytes" by (simp add: a)
      then have "le16 p 0 = f" using assms(4,5) by (simp add: le16_prefix le16_le_bytes)
      with r True p len show ?thesis by (subst find_family.simps) (simp add: a)
    next
      case False
      have off: "length pre + nat ((int (length p) + 4 + 3) div 4 * 4) = length (pre @ nl_attr k p)"
        by (simp add: length_nl_attr add.commute)
      have "find_family ((pre @ nl_attr k p) @ ?rest) (length (pre @ nl_attr k p)) = Found f"
        using Cons.IH [of "pre @ nl_attr k p"] Cons.prems False by (simp add: a)
      then show ?thesis using r False len off by (subst find_family.simps) (simp add: a)
    qed
  qed simp
  from this [of header] assms(1) show ?thesis by simp
qed

lemma family_found_witness:
  "find_family (replicate 20 0 @ concat (map (\<lambda>(k, p). nl_attr k p) [(2, map code ''nl80211'' @ [0]), (1, [28, 0])])) 20 = Found 28"
proof -
  have "le_bytes 2 28 = [28, 0]" by code_simp
  then show ?thesis using family_found [of "replicate 20 0" "[(2, map code ''nl80211'' @ [0]), (1, [28, 0])]" 28 "[]"] by simp
qed

text \<open>A reply that ends inside the family attribute raises an exception that the caller does not catch.\<close>

lemma short_reply_raises: "find_family (replicate 20 0 @ [6, 0, 1, 0]) 20 = CutShort"
  by (subst find_family.simps) (simp add: le16_def nth_append)

end
