(* ===== verification/SysFs.thy ===== *)
theory SysFs
  imports Doc OsPath
begin

text \<open>
  The files the program reads below \<open>/sys\<close>, \<open>/proc\<close> and \<open>/etc\<close> as one argument, the readers of \<open>util.py\<close>
  on top of it. Writing a file is a pair of its path and the text.
\<close>

subsection \<open>Text\<close>

text \<open>\<open>s.replace(old, new)\<close> for a nonempty \<open>old\<close>.\<close>

function py_replace :: "string \<Rightarrow> string \<Rightarrow> string \<Rightarrow> string" where
  "py_replace old new s =
     (if s = [] \<or> old = [] then s
      else if startswith s old then new @ py_replace old new (drop (length old) s)
      else hd s # py_replace old new (tl s))"
  by pat_completeness auto
termination
  by (relation "measure (\<lambda>(old, new, s). length s)") auto

declare py_replace.simps [simp del]

subsection \<open>Numbers\<close>

text \<open>\<open>int(s, 0)\<close>: decimal without a leading zero, or with one of three prefixes.\<close>

definition digit_runs :: "(char \<Rightarrow> bool) \<Rightarrow> string \<Rightarrow> string option" where
  "digit_runs p s = (let gs = py_split CHR ''_'' s in
     if list_all (\<lambda>g. g \<noteq> [] \<and> list_all p g) gs then Some (concat gs) else None)"

definition prefixed :: "int \<Rightarrow> (char \<Rightarrow> bool) \<Rightarrow> string \<Rightarrow> int option" where
  "prefixed b p s = map_option (foldl (\<lambda>n c. b * n + hex_val c) 0)
     (digit_runs p (if startswith s ''_'' then tl s else s))"

definition unsigned_literal :: "string \<Rightarrow> int option" where
  "unsigned_literal s =
     (if startswith (py_lower s) ''0x'' then prefixed 16 is_hex (drop 2 s)
      else if startswith (py_lower s) ''0o'' then prefixed 8 (in_range 48 55) (drop 2 s)
      else if startswith (py_lower s) ''0b'' then prefixed 2 (in_range 48 49) (drop 2 s)
      else case digit_runs is_digit_ascii s of None \<Rightarrow> None
        | Some ds \<Rightarrow> if startswith ds ''0'' \<and> \<not> list_all (\<lambda>c. c = CHR ''0'') ds then None else Some (int_of_digits ds))"

definition py_int_literal :: "string \<Rightarrow> int option" where
  "py_int_literal s0 = (let s = py_strip s0 in
     if startswith s ''-'' then map_option uminus (unsigned_literal (tl s))
     else unsigned_literal (if startswith s ''+'' then tl s else s))"

subsection \<open>Files\<close>

record fs =
  fs_read :: "string \<Rightarrow> string option"
  fs_glob :: "string \<Rightarrow> string list"
  fs_exists :: "string \<Rightarrow> bool"
  fs_isdir :: "string \<Rightarrow> bool"

definition read_text :: "fs \<Rightarrow> string \<Rightarrow> string" where
  "read_text f path = the_default [] (fs_read f path)"

definition read_int :: "fs \<Rightarrow> string \<Rightarrow> int option" where
  "read_int f path = py_int_literal (py_strip (read_text f path))"

text \<open>\<open>sorted(glob.glob(pattern))\<close>.\<close>

definition sorted_glob :: "fs \<Rightarrow> string \<Rightarrow> string list" where
  "sorted_glob f pattern = sort (fs_glob f pattern)"

type_synonym file_write = "string \<times> string"

end
