(* ===== verification/Platform.thy ===== *)
theory Platform
  imports SysFs IwText PyNum
begin

text \<open>
  What the gateway reads about its own hardware (\<open>adapters/platform.py\<close>): temperatures, fans, LEDs,
  processor, memory, storage and the state of the accelerated datapath. The file system is an argument,
  and so are \<open>statvfs\<close> and the mount points.
\<close>

definition or_int :: "int option \<Rightarrow> int" where
  "or_int n = (case n of None \<Rightarrow> 0 | Some x \<Rightarrow> x)"

subsection \<open>Temperatures\<close>

record zone =
  zn_id :: string
  zn_type :: string
  zn_temp :: rat
  zn_trips :: "(string \<times> rat) list"

record fan =
  fn_hwmon :: string
  fn_id :: string
  fn_path :: string
  fn_rpm :: "int option"
  fn_duty :: "int option"
  fn_percent :: "int option"
  fn_enabled :: "int option"
  fn_cooling :: "int option"
  fn_status :: string
  fn_tacho :: bool

record thermal =
  th_zones :: "zone list"
  th_max :: "rat option"
  th_state :: string
  th_fans :: "fan list"

text \<open>\<open>trip_point_(\d+)_temp\<close> anywhere in the path.\<close>

definition trip_index :: "string \<Rightarrow> string option" where
  "trip_index = search (\<lambda>s. case behind ''trip_point_'' s of None \<Rightarrow> None
     | Some r \<Rightarrow> (let ds = takeWhile is_digit_ascii r in
         if ds \<noteq> [] \<and> startswith (dropWhile is_digit_ascii r) ''_temp'' then Some ds else None))"

definition add_trip :: "fs \<Rightarrow> string \<Rightarrow> (string \<times> rat) list \<Rightarrow> (string \<times> rat) list" where
  "add_trip f trip trips =
     (let trip_type = py_strip (read_text f (py_replace ''_temp'' ''_type'' trip)) in
      case (trip_index trip, read_int f trip) of
        (Some i, Some v) \<Rightarrow> if 0 < v
          then AList.update (if trip_type = [] then ''trip'' @ i else trip_type) (of_int v / 1000) trips else trips
      | _ \<Rightarrow> trips)"

definition zone_reading :: "fs \<Rightarrow> string \<Rightarrow> (rat \<times> zone) option" where
  "zone_reading f dir = map_option (\<lambda>t. let c = of_int t / 1000 in
     (c, \<lparr>zn_id = os_basename dir, zn_type = py_strip (read_text f (path_join dir ''type'')), zn_temp = py_round 1 c,
       zn_trips = fold (add_trip f) (sorted_glob f (path_join dir ''trip_point_*_temp'')) []\<rparr>))
     (read_int f (path_join dir ''temp''))"

definition round_percent :: "int \<Rightarrow> int \<Rightarrow> int" where
  "round_percent n whole = round_even (of_int n / of_int whole * 100)"

definition pwm_fan :: "fs \<Rightarrow> string \<Rightarrow> string \<Rightarrow> fan" where
  "pwm_fan f hwmon pwm_path =
     (let duty = read_int f pwm_path; index = drop 3 (os_basename pwm_path);
          rpm = read_int f (path_join hwmon (''fan'' @ index @ ''_input''))
      in \<lparr>fn_hwmon = py_strip (read_text f (path_join hwmon ''name'')), fn_id = os_basename pwm_path, fn_path = pwm_path,
           fn_rpm = rpm, fn_duty = duty, fn_percent = map_option (\<lambda>d. round_percent d 255) duty,
           fn_enabled = read_int f (path_join hwmon (''pwm'' @ index @ ''_enable'')), fn_cooling = None,
           fn_status = (if 0 < or_int rpm \<or> 0 < or_int duty then ''ok'' else if duty = Some 0 then ''stopped'' else ''unknown''),
           fn_tacho = (rpm \<noteq> None)\<rparr>)"

definition cooling_fan :: "fs \<Rightarrow> string \<Rightarrow> fan option" where
  "cooling_fan f dev =
     (let kind = py_strip (read_text f (path_join dev ''type''));
          cur = read_int f (path_join dev ''cur_state''); top = read_int f (path_join dev ''max_state'')
      in if \<not> has_infix ''fan'' (py_lower kind) then None
         else Some \<lparr>fn_hwmon = kind, fn_id = os_basename dev, fn_path = dev, fn_rpm = None, fn_duty = cur,
           fn_percent = (case (cur, top) of (Some c, Some t) \<Rightarrow> if t = 0 then None else Some (round_percent c t) | _ \<Rightarrow> None),
           fn_enabled = None, fn_cooling = cur, fn_status = (if 0 < or_int cur then ''ok'' else ''stopped''), fn_tacho = False\<rparr>)"

definition fans :: "fs \<Rightarrow> fan list" where
  "fans f = concat (map (\<lambda>hwmon. map (pwm_fan f hwmon) (sorted_glob f (path_join hwmon ''pwm[0-9]'')))
       (sorted_glob f ''/sys/class/hwmon/hwmon*'')) @
     List.map_filter (cooling_fan f) (sorted_glob f ''/sys/class/thermal/cooling_device*'')"

text \<open>A hottest zone at exactly zero degrees is falsy and reported as no reading.\<close>

definition thermal :: "fs \<Rightarrow> thermal" where
  "thermal f =
     (let rs = List.map_filter (zone_reading f) (sorted_glob f ''/sys/class/thermal/thermal_zone*'');
          worst = (if rs = [] then None else Some (Max (fst ` set rs)))
      in \<lparr>th_zones = map snd rs,
           th_max = (case worst of None \<Rightarrow> None | Some w \<Rightarrow> if w = 0 then None else Some (py_round 1 w)),
           th_state = (case worst of None \<Rightarrow> ''normal'' | Some w \<Rightarrow> if 105 \<le> w then ''critical'' else if 95 \<le> w then ''warning'' else ''normal''),
           th_fans = fans f\<rparr>)"

subsection \<open>LEDs\<close>

record led =
  ld_id :: string
  ld_path :: string
  ld_colour :: "string option"
  ld_brightness :: "int option"
  ld_max :: int
  ld_trigger :: "string option"

definition STATUS_COLOURS :: "string list" where
  "STATUS_COLOURS = [''red'', ''green'', ''blue'', ''amber'', ''orange'', ''white'']"

definition status_colour :: "string \<Rightarrow> string option" where
  "status_colour name = find (\<lambda>c. re_dollar (\<lambda>s. s = c @ '':status'') name) STATUS_COLOURS"

definition active_trigger :: "fs \<Rightarrow> string \<Rightarrow> string option" where
  "active_trigger f path = map_option (\<lambda>t. butlast (tl t))
     (find (\<lambda>t. hd t = CHR ''['' \<and> last t = CHR '']'') (py_words (read_text f (path_join path ''trigger''))))"

definition led_at :: "fs \<Rightarrow> string \<Rightarrow> led" where
  "led_at f path =
     (let m = or_int (read_int f (path_join path ''max_brightness'')) in
      \<lparr>ld_id = os_basename path, ld_path = path, ld_colour = status_colour (os_basename path),
        ld_brightness = read_int f (path_join path ''brightness''), ld_max = (if m = 0 then 255 else m),
        ld_trigger = active_trigger f path\<rparr>)"

definition leds :: "fs \<Rightarrow> led list" where
  "leds f = map (led_at f) (sorted_glob f ''/sys/class/leds/*'')"

subsection \<open>Processor and memory\<close>

definition need_int :: "string \<Rightarrow> verr + int" where
  "need_int s = (case py_int_of_string s of None \<Rightarrow> Inl (Raised ValueError) | Some n \<Rightarrow> Inr n)"

definition JIFFIES :: "string list" where
  "JIFFIES = [''user'', ''nice'', ''system'', ''idle'', ''iowait'', ''irq'', ''softirq'', ''steal'']"

definition cpu_jiffies :: "fs \<Rightarrow> verr + (string \<times> int) list" where
  "cpu_jiffies f = (case find (\<lambda>l. startswith l ''cpu '') (split_lines (read_text f ''/proc/stat'')) of
     None \<Rightarrow> Inr []
   | Some line \<Rightarrow> rbind (rmap need_int (tl (py_words line))) (\<lambda>parts. Inr (zip JIFFIES parts)))"

definition frequencies :: "fs \<Rightarrow> int list" where
  "frequencies f = List.map_filter (\<lambda>path. case read_int f path of None \<Rightarrow> None
     | Some khz \<Rightarrow> if khz = 0 then None else Some (round_even (of_int khz / 1000)))
     (sorted_glob f ''/sys/devices/system/cpu/cpu[0-9]*/cpufreq/scaling_cur_freq'')"

text \<open>One line of \<open>/proc/meminfo\<close>; \<open>isdigit\<close> also accepts superscripts, which \<open>int\<close> does not.\<close>

definition mem_line :: "string \<Rightarrow> (string \<times> int) list \<Rightarrow> verr + (string \<times> int) list" where
  "mem_line line d = (case py_partition CHR '':'' line of (key, _, rest) \<Rightarrow>
     let v = hd (py_split CHR '' '' (py_strip rest)) in
     if v \<noteq> [] \<and> list_all py_isdigit v then rbind (need_int v) (\<lambda>n. Inr (AList.update key n d)) else Inr d)"

fun mem_lines :: "string list \<Rightarrow> (string \<times> int) list \<Rightarrow> verr + (string \<times> int) list" where
  "mem_lines [] d = Inr d"
| "mem_lines (l # ls) d = rbind (mem_line l d) (mem_lines ls)"

definition oom_kills :: "fs \<Rightarrow> verr + int" where
  "oom_kills f = (case find (\<lambda>l. startswith l ''oom_kill '') (split_lines (read_text f ''/proc/vmstat'')) of
     None \<Rightarrow> Inr 0
   | Some line \<Rightarrow> (case py_words line of _ # w # _ \<Rightarrow> need_int w | _ \<Rightarrow> Inl (Raised IndexError)))"

record memory =
  my_total :: int
  my_available :: int
  my_used :: int
  my_percent :: rat
  my_swap_total :: int
  my_swap_free :: int
  my_oom :: int

definition memory :: "fs \<Rightarrow> verr + memory" where
  "memory f =
     rbind (mem_lines (split_lines (read_text f ''/proc/meminfo'')) []) (\<lambda>info.
     rbind (oom_kills f) (\<lambda>oom.
     let get = (\<lambda>k. or_int (map_of info k)); total = get ''MemTotal''; available = get ''MemAvailable'' in
     Inr \<lparr>my_total = total, my_available = available, my_used = max 0 (total - available),
       my_percent = (if total = 0 then 0 else py_round 1 (of_int (total - available) / of_int total * 100)),
       my_swap_total = get ''SwapTotal'', my_swap_free = get ''SwapFree'', my_oom = oom\<rparr>))"

subsection \<open>Storage\<close>

definition READ_ONLY_FSTYPES :: "string list" where
  "READ_ONLY_FSTYPES = [''squashfs'', ''erofs'', ''cramfs'', ''iso9660'', ''romfs'']"

definition mount_line :: "string \<Rightarrow> (string \<times> string \<times> bool) list \<Rightarrow> (string \<times> string \<times> bool) list" where
  "mount_line line table = (case py_words line of
     _ # mount # fstype # opts # _ \<Rightarrow>
       AList.update (py_replace [CHR 0x5C, CHR ''0'', CHR ''4'', CHR ''0''] '' '' mount) (fstype, ''ro'' \<in> set (py_split CHR '','' opts)) table
   | _ \<Rightarrow> table)"

definition mount_table :: "fs \<Rightarrow> (string \<times> string \<times> bool) list" where
  "mount_table f = fold mount_line (split_lines (read_text f ''/proc/mounts'')) []"

text \<open>\<open>statvfs\<close>: blocks, fragment size, available blocks, files and available files.\<close>

record vfs =
  vf_blocks :: int
  vf_frsize :: int
  vf_bavail :: int
  vf_files :: int
  vf_favail :: int

record store_entry =
  so_mount :: string
  so_fstype :: string
  so_writable :: bool
  so_total :: int
  so_free :: int
  so_percent :: rat
  so_inodes :: "(int \<times> int \<times> rat) option"

definition used_percent :: "int \<Rightarrow> int \<Rightarrow> rat" where
  "used_percent free whole = py_round 1 (of_int (whole - free) / of_int whole * 100)"

definition storage_entry :: "(string \<times> string \<times> bool) list \<Rightarrow> (string \<Rightarrow> bool) \<Rightarrow> (string \<Rightarrow> vfs option) \<Rightarrow> string \<Rightarrow> store_entry option" where
  "storage_entry table ismount statvfs mount =
     (if mount \<noteq> ''/'' \<and> (map_of table mount = None \<or> \<not> ismount mount) then None
      else case the_default (''unknown'', False) (map_of table mount) of (fstype, read_only) \<Rightarrow>
        (case statvfs mount of None \<Rightarrow> None
         | Some st \<Rightarrow>
             let total = vf_blocks st * vf_frsize st; free = vf_bavail st * vf_frsize st;
                 writable = (\<not> read_only \<and> fstype \<notin> set READ_ONLY_FSTYPES)
             in if total = 0 then None
                else Some \<lparr>so_mount = mount, so_fstype = fstype, so_writable = writable, so_total = total, so_free = free,
                  so_percent = used_percent free total,
                  so_inodes = (if writable \<and> vf_files st \<noteq> 0
                    then Some (vf_files st, vf_favail st, used_percent (vf_favail st) (vf_files st)) else None)\<rparr>))"

definition storage :: "fs \<Rightarrow> (string \<Rightarrow> bool) \<Rightarrow> (string \<Rightarrow> vfs option) \<Rightarrow> store_entry list" where
  "storage f ismount statvfs = List.map_filter (storage_entry (mount_table f) ismount statvfs)
     [''/data'', ''/var'', ''/tmp'', ''/run'', ''/'']"

subsection \<open>Accelerated flows\<close>

definition ECM_PATH :: string where "ECM_PATH = ''/sys/kernel/debug/ecm''"

text \<open>\<open>\s*([A-Za-z][A-Za-z0-9_ ./-]{0,80}?)\s*[:=]\s*(\d+)\s*$\<close>: the name is what stands before the separator,
  without the white space around it.\<close>

definition is_letter :: "char \<Rightarrow> bool" where
  "is_letter c = (is_lower_ascii c \<or> is_upper_ascii c)"

definition counter_line :: "string \<Rightarrow> (string \<times> int) option" where
  "counter_line line =
     (let s = dropWhile py_isspace line; name = py_strip (takeWhile (\<lambda>c. c \<notin> set '':='') s);
          rest = dropWhile (\<lambda>c. c \<notin> set '':='') s in
      if name = [] \<or> \<not> is_letter (hd name) \<or> 81 < length name \<or> rest = [] \<or>
         \<not> list_all (\<lambda>c. is_alnum_ascii c \<or> c \<in> set ''_ ./-'') name then None
      else case digits_at (dropWhile py_isspace (tl rest)) of None \<Rightarrow> None
        | Some (n, r) \<Rightarrow> if list_all py_isspace r then Some (name, n) else None)"

text \<open>\<open>re.sub(r"[^a-z0-9]+", "_", name.lower()).strip("_")\<close>.\<close>

fun squash :: "string \<Rightarrow> string" where
  "squash [] = []"
| "squash (c # s) = (if is_lower_ascii c \<or> is_digit_ascii c then c # squash s
     else case squash s of [] \<Rightarrow> ''_'' | d # t \<Rightarrow> if d = CHR ''_'' then d # t else CHR ''_'' # d # t)"

definition counter_key :: "string \<Rightarrow> string" where
  "counter_key name = py_strip_char CHR ''_'' (squash (py_lower name))"

fun named_counters :: "nat \<Rightarrow> string list \<Rightarrow> (string \<times> int) list \<Rightarrow> (string \<times> int) list" where
  "named_counters limit [] d = d"
| "named_counters limit (l # ls) d =
     (case counter_line l of
        None \<Rightarrow> named_counters limit ls d
      | Some (name, n) \<Rightarrow>
          let key = counter_key name; d' = (if key \<noteq> [] \<and> map_of d key = None then d @ [(key, n)] else d)
          in if limit \<le> length d' then d' else named_counters limit ls d')"

record flow_stats =
  fo_accelerated :: "int option"
  fo_software :: "int option"
  fo_sources :: "string list"
  fo_engine :: "string option"
  fo_managed :: "int option"
  fo_total :: "int option"

definition engine_counts :: "fs \<Rightarrow> string \<Rightarrow> (string \<times> int) list" where
  "engine_counts f engine = List.map_filter (\<lambda>family.
     let path = ECM_PATH @ ''/ecm_'' @ engine @ ''_'' @ family @ ''/accelerated_count'' in map_option (Pair path) (read_int f path))
     [''ipv4'', ''ipv6'']"

definition flow_statistics :: "fs \<Rightarrow> flow_stats" where
  "flow_statistics f =
     (let found = find (\<lambda>(e, vs). vs \<noteq> []) (map (\<lambda>e. (e, engine_counts f e)) [''ppe'', ''nss'', ''sfe'']);
          accelerated = map_option (\<lambda>(_, vs). sum_list (map snd vs)) found;
          total = read_int f ''/proc/sys/net/netfilter/nf_conntrack_count''
      in \<lparr>fo_accelerated = accelerated,
           fo_software = (case (total, accelerated) of (Some t, Some a) \<Rightarrow> Some (max 0 (t - a)) | _ \<Rightarrow> None),
           fo_sources = (case found of None \<Rightarrow> [] | Some (_, vs) \<Rightarrow> map fst vs), fo_engine = map_option fst found,
           fo_managed = read_int f (ECM_PATH @ ''/ecm_db/connection_count''), fo_total = total\<rparr>)"

definition module_loaded :: "fs \<Rightarrow> string \<Rightarrow> bool" where
  "module_loaded f name = fs_isdir f (''/sys/module/'' @ name)"

definition offload_enabled :: "fs \<Rightarrow> bool" where
  "offload_enabled f =
     (let stops = List.map_filter (read_int f) [ECM_PATH @ ''/front_end_ipv4_stop'', ECM_PATH @ ''/front_end_ipv6_stop'',
        ''/proc/sys/net/ecm/front_end_ipv4_stop'', ''/proc/sys/net/ecm/front_end_ipv6_stop'']
      in module_loaded f ''ecm'' \<and> module_loaded f ''qca_nss_drv'' \<and> list_ex (\<lambda>v. v = 0) stops)"

definition datapath_engine :: "fs \<Rightarrow> string" where
  "datapath_engine f = the_default ''software'' (find (\<lambda>e. fs_isdir f (ECM_PATH @ ''/ecm_'' @ e @ ''_ipv4'')) [''ppe'', ''nss'', ''sfe''])"

definition NSS_PATHS :: "string list" where
  "NSS_PATHS = [''/proc/net/nss'', ''/sys/kernel/debug/qca-nss-drv'', ''/sys/kernel/debug/nss'']"

definition PPEDS_PATHS :: "string list" where
  "PPEDS_PATHS = [''/sys/kernel/debug/ppe_ds'', ''/sys/kernel/debug/qca-nss-ppe/ppe_ds'', ''/sys/kernel/debug/ath12k/ppeds'']"

definition first_existing :: "fs \<Rightarrow> string list \<Rightarrow> string option" where
  "first_existing f = find (fs_exists f)"

definition fallback_reasons :: "fs \<Rightarrow> string list" where
  "fallback_reasons f =
     (if module_loaded f ''qca_nss_drv'' then [] else [''qca-nss-drv not loaded: flows stay in the Linux datapath'']) @
     (if module_loaded f ''ecm'' then [] else [''ECM not loaded: no connection manager to push flows to NSS'']) @
     (if first_existing f NSS_PATHS = None then [''no NSS debug/proc interface found: statistics unavailable''] else []) @
     (if first_existing f PPEDS_PATHS = None \<and> module_loaded f ''ath12k''
      then [''PPEDS interface not present: Wi-Fi frames take the host path''] else [])"

definition firmware_version :: "fs \<Rightarrow> string" where
  "firmware_version f =
     (if read_text f ''/etc/sbegw/version'' \<noteq> [] then py_strip (read_text f ''/etc/sbegw/version'')
      else case find (\<lambda>l. startswith l ''PRETTY_NAME='') (split_lines (read_text f ''/etc/os-release'')) of
          None \<Rightarrow> ''unknown'' | Some l \<Rightarrow> py_strip_char dquote (py_strip (drop 12 l)))"

subsection \<open>Bounds\<close>

lemma used_percent_bounds:
  assumes "0 \<le> free" and "free \<le> whole" and "0 < whole"
  shows "0 \<le> used_percent free whole \<and> used_percent free whole \<le> 100"
proof -
  let ?x = "of_int (whole - free) / of_int whole * 100 :: rat"
  have "of_int 0 \<le> ?x" "?x \<le> of_int 100" using assms by (simp_all add: divide_le_eq)
  then show ?thesis
    using py_round_bounds(1) [where m = 0 and x = ?x and d = 1] py_round_bounds(2) [where n = 100 and x = ?x and d = 1]
    by (simp add: used_percent_def)
qed

text \<open>A read-only image never counts as storage that can be written.\<close>

lemma read_only_not_writable:
  assumes "storage_entry table ismount statvfs mount = Some e" and "map_of table mount = Some (fstype, ro)"
    and "ro \<or> fstype \<in> set READ_ONLY_FSTYPES"
  shows "\<not> so_writable e \<and> so_inodes e = None"
  using assms by (auto simp: storage_entry_def the_default_def Let_def split: if_splits option.splits)

lemma named_counters_bounded:
  assumes "length d < limit" and "distinct (map fst d)"
  shows "length (named_counters limit ls d) \<le> limit \<and> distinct (map fst (named_counters limit ls d))"
  using assms
proof (induction ls arbitrary: d)
  case (Cons l ls)
  have new: "map_of d k = None \<Longrightarrow> distinct (map fst (d @ [(k, n)]))" for k n
    using Cons.prems(2) by (simp add: map_of_eq_None_iff)
  show ?case
  proof (cases "counter_line l")
    case (Some kn)
    obtain name n where kn: "kn = (name, n)" by fastforce
    define d' where "d' = (if counter_key name \<noteq> [] \<and> map_of d (counter_key name) = None then d @ [(counter_key name, n)] else d)"
    have d': "distinct (map fst d')" "length d' \<le> Suc (length d)" using new Cons.prems(2) by (auto simp: d'_def)
    have step: "named_counters limit (l # ls) d = (if limit \<le> length d' then d' else named_counters limit ls d')"
      by (simp add: Some kn d'_def Let_def)
    show ?thesis
    proof (cases "limit \<le> length d'")
      case True
      have "length d' \<le> limit" using d'(2) Cons.prems(1) by simp
      then show ?thesis unfolding step using True d'(1) by simp
    next
      case False
      then show ?thesis unfolding step using Cons.IH [of d'] d' by simp
    qed
  qed (use Cons in simp)
qed simp

end
