(* ===== verification/Hwd.thy ===== *)
theory Hwd
  imports Platform
begin

text \<open>
  The fan and status LED policy (\<open>hwd.py\<close>): the curves with their hysteresis, the duty that is written, the
  release to the kernel's governor, the state the LED shows, and the policy tick. The hardware is the
  reading of \<open>Platform\<close>; writes go to files, of which \<open>ok\<close> says whether they succeed.
\<close>

subsection \<open>Levels and curves\<close>

definition FAN_LEVELS :: "int list" where
  "FAN_LEVELS = [36, 72, 128, 255]"

definition FAN_LEVEL_PERCENT :: "int list" where
  "FAN_LEVEL_PERCENT = map (\<lambda>d. round_percent d 255) FAN_LEVELS"

type_synonym curve = "(rat \<times> nat) list"

definition FAN_CURVES :: "(string \<times> curve) list" where
  "FAN_CURVES = [(''balanced'', [(0, 0), (50, 1), (65, 2), (75, 3)]), (''cool'', [(0, 1), (50, 2), (65, 3)]),
     (''quiet'', [(0, 0), (65, 1), (80, 2), (90, 3)])]"

definition DTS_FAN_POLICY :: curve where
  "DTS_FAN_POLICY = [(0, 0), (50, 1), (65, 2), (80, 3)]"

definition FAN_HYSTERESIS :: rat where "FAN_HYSTERESIS = 4"
definition THERMAL_WARNING :: rat where "THERMAL_WARNING = 100"
definition THERMAL_CRITICAL :: rat where "THERMAL_CRITICAL = 110"
definition FAN_ZONE_HINTS :: "string list" where
  "FAN_ZONE_HINTS = [''cpu'', ''nss'', ''wcss'', ''ath12k'', ''top-glue'']"

fun curve_walk :: "nat \<Rightarrow> curve \<Rightarrow> rat \<Rightarrow> nat" where
  "curve_walk level [] t = level"
| "curve_walk level ((threshold, v) # c) t = (if threshold \<le> t then curve_walk v c t else level)"

definition curve_level :: "curve \<Rightarrow> rat \<Rightarrow> nat" where
  "curve_level c t = curve_walk (snd (hd c)) c t"

definition step_down_ok :: "curve \<Rightarrow> rat \<Rightarrow> nat \<Rightarrow> bool" where
  "step_down_ok c t current =
     (let holding = map fst (filter (\<lambda>(_, level). current \<le> level) c)
      in holding = [] \<or> t < Min (set holding) - FAN_HYSTERESIS)"

subsection \<open>State\<close>

record hardware =
  hw_duty :: "int option"
  hw_level :: "nat option"
  hw_pending :: "nat option"
  hw_raw :: "int option"
  hw_released :: bool
  hw_led :: "string option"
  hw_last_event :: rat
  hw_booted :: bool

definition new_hardware :: hardware where
  "new_hardware = \<lparr>hw_duty = None, hw_level = None, hw_pending = None, hw_raw = None, hw_released = False, hw_led = None,
     hw_last_event = 0, hw_booted = False\<rparr>"

text \<open>Once the first apply is through, before the loop that ticks is started, \<open>main.py\<close> notes that the system is up.\<close>

definition mark_booted :: "hardware \<Rightarrow> hardware" where
  "mark_booted h = h\<lparr>hw_booted := True\<rparr>"

definition pend :: "nat option \<Rightarrow> int option \<Rightarrow> hardware \<Rightarrow> hardware" where
  "pend level raw h = h\<lparr>hw_pending := level, hw_raw := raw\<rparr>"

subsection \<open>The fan\<close>

definition fan_hinted :: "zone \<Rightarrow> bool" where
  "fan_hinted z = list_ex (\<lambda>hint. has_infix hint (py_lower (zn_type z))) FAN_ZONE_HINTS"

definition control_temperature :: "thermal \<Rightarrow> rat option" where
  "control_temperature th = (let ts = map zn_temp (filter fan_hinted (th_zones th)) in
     if ts = [] then th_max th else Some (Max (set ts)))"

text \<open>The reason of a target, for the log and the interface.\<close>

datatype fan_reason = Governor | ForcedMaximum | RaisedToMinimum int | Manual | NoReading | HotTrip rat
  | Holding rat nat | AtLevel rat nat

definition fan_settings :: "obj \<Rightarrow> obj" where
  "fan_settings cfg = sub ''fan'' (sub ''system'' cfg)"

definition fan_mode :: "obj \<Rightarrow> string" where
  "fan_mode cfg = text_or ''auto'' ''mode'' (fan_settings cfg)"

definition clamp_duty :: "int \<Rightarrow> int" where
  "clamp_duty duty = max 0 (min 255 (round_even (of_int (duty * 255) / 100)))"

definition manual_target :: "int \<Rightarrow> hardware \<Rightarrow> (int option \<times> fan_reason) \<times> hardware" where
  "manual_target duty h =
     (if 0 < duty \<and> duty < FAN_LEVEL_PERCENT ! 0
      then ((Some (FAN_LEVEL_PERCENT ! 0), RaisedToMinimum duty), pend (Some 0) (Some (FAN_LEVELS ! 0)) h)
      else ((Some duty, Manual), pend None (Some (clamp_duty duty)) h))"

definition mode_curve :: "string \<Rightarrow> curve" where
  "mode_curve mode = the_default [(0, 0), (50, 1), (65, 2), (75, 3)] (map_of FAN_CURVES mode)"

definition curve_target :: "curve \<Rightarrow> rat \<Rightarrow> hardware \<Rightarrow> (int option \<times> fan_reason) \<times> hardware" where
  "curve_target c t h =
     (let level = curve_level c t; use = (\<lambda>l reason. ((Some (FAN_LEVEL_PERCENT ! l), reason), pend (Some l) (Some (FAN_LEVELS ! l)) h))
      in if THERMAL_WARNING \<le> t then ((Some 100, HotTrip t), pend (Some (length FAN_LEVELS - 1)) (Some 255) h)
         else case hw_level h of
             None \<Rightarrow> use level (AtLevel t level)
           | Some current \<Rightarrow> if level < current \<and> \<not> step_down_ok c t current then use current (Holding t current)
               else use level (AtLevel t level))"

text \<open>\<open>int(...)\<close> of a manual duty raises on a value that is no number, before anything is touched.\<close>

definition fan_target :: "obj \<Rightarrow> rat option \<Rightarrow> hardware \<Rightarrow> verr + (int option \<times> fan_reason) \<times> hardware" where
  "fan_target cfg temperature h =
     (let mode = fan_mode cfg; given = get_or (JInt 50) ''manual_percent'' (fan_settings cfg) in
      if mode = ''auto'' then Inr ((None, Governor), pend None None h)
      else if mode = ''max'' then Inr ((Some 100, ForcedMaximum), pend (Some (length FAN_LEVELS - 1)) (Some 255) h)
      else if mode = ''manual'' then rbind (if truthy given then py_int given else Inr 0) (\<lambda>duty. Inr (manual_target duty h))
      else case temperature of
          None \<Rightarrow> Inr ((Some (FAN_LEVEL_PERCENT ! 2), NoReading), pend (Some 2) (Some (FAN_LEVELS ! 2)) h)
        | Some t \<Rightarrow> Inr (curve_target (mode_curve mode) t h))"

text \<open>Fans with a duty of their own; a cooling device is told by its state.\<close>

definition controllable :: "thermal \<Rightarrow> fan list" where
  "controllable th = filter (\<lambda>f. fn_cooling f = None \<and> fn_path f \<noteq> []) (th_fans th)"

definition release_fan :: "thermal \<Rightarrow> hardware \<Rightarrow> hardware \<times> file_write list" where
  "release_fan th h =
     (h\<lparr>hw_duty := None, hw_level := None, hw_released := True\<rparr>,
      case control_temperature th of None \<Rightarrow> []
      | Some t \<Rightarrow> map (\<lambda>f. (fn_path f, show_int (FAN_LEVELS ! curve_level DTS_FAN_POLICY t))) (controllable th))"

definition enable_path :: "fan \<Rightarrow> string" where
  "enable_path f = path_join (os_dirname (fn_path f)) (fn_id f @ ''_enable'')"

definition set_fan :: "(string \<Rightarrow> bool) \<Rightarrow> int \<Rightarrow> fan \<Rightarrow> file_write list" where
  "set_fan exists raw f = (if exists (enable_path f) then [(enable_path f, ''1'')] else []) @ [(fn_path f, show_int raw)]"

definition apply_fan :: "(string \<Rightarrow> bool) \<Rightarrow> (string \<Rightarrow> bool) \<Rightarrow> obj \<Rightarrow> thermal \<Rightarrow> hardware
    \<Rightarrow> verr + string list \<times> hardware \<times> file_write list" where
  "apply_fan exists ok cfg th h =
     rbind (fan_target cfg (control_temperature th) h) (\<lambda>((target, _), h1).
       case target of
         None \<Rightarrow> if hw_duty h1 \<noteq> None \<or> \<not> hw_released h1 then Inr ([], release_fan th h1) else Inr ([], h1, [])
       | Some duty \<Rightarrow>
           let raw = (case hw_raw h1 of None \<Rightarrow> clamp_duty duty | Some r \<Rightarrow> r) in
           if controllable th = [] \<or> hw_duty h1 = Some duty then Inr ([], h1, [])
           else Inr (map (\<lambda>f. ''could not set '' @ fn_id f @ '' duty'') (filter (\<lambda>f. \<not> ok (fn_path f)) (controllable th)),
             h1\<lparr>hw_duty := Some duty, hw_level := hw_pending h1, hw_released := False\<rparr>,
             concat (map (set_fan exists raw) (controllable th))))"

subsection \<open>The status LED\<close>

record health =
  hl_fault :: bool
  hl_degraded :: bool
  hl_wan_up :: "bool option"
  hl_applying :: bool

definition LED_PATTERNS :: "(string \<times> (bool \<times> bool \<times> bool) \<times> int option) list" where
  "LED_PATTERNS = [(''off'', (False, False, False), None), (''booting'', (False, False, True), Some 500),
     (''applying'', (False, False, True), None), (''healthy'', (False, True, False), None),
     (''no-wan'', (True, True, False), None), (''degraded'', (True, True, False), Some 700),
     (''fault'', (True, False, False), None), (''thermal'', (True, False, False), Some 200),
     (''identify'', (False, False, True), Some 120)]"

definition led_settings :: "obj \<Rightarrow> obj" where
  "led_settings cfg = sub ''leds'' (sub ''system'' cfg)"

definition led_state :: "obj \<Rightarrow> rat option \<Rightarrow> health \<Rightarrow> bool \<Rightarrow> string" where
  "led_state cfg temperature health booted =
     (let mode = text_or ''status'' ''mode'' (led_settings cfg) in
      if mode = ''off'' then ''off''
      else if mode = ''identify'' then ''identify''
      else if (case temperature of None \<Rightarrow> False | Some t \<Rightarrow> THERMAL_WARNING \<le> t) then ''thermal''
      else if hl_fault health then ''fault''
      else if \<not> booted then ''booting''
      else if hl_applying health then ''applying''
      else if hl_wan_up health = Some False then ''no-wan''
      else if hl_degraded health then ''degraded''
      else ''healthy'')"

definition colour_on :: "bool \<times> bool \<times> bool \<Rightarrow> string option \<Rightarrow> bool" where
  "colour_on rgb colour = (case rgb of (r, g, b) \<Rightarrow>
     if colour = Some ''red'' then r else if colour = Some ''green'' then g else if colour = Some ''blue'' then b else False)"

definition set_led :: "led \<Rightarrow> int \<Rightarrow> int option \<Rightarrow> file_write list" where
  "set_led l level blink =
     (let leaf = path_join (ld_path l) in
      case blink of
        Some ms \<Rightarrow> if ms \<noteq> 0 \<and> level \<noteq> 0
          then [(leaf ''trigger'', ''timer''), (leaf ''delay_on'', show_int ms), (leaf ''delay_off'', show_int ms), (leaf ''brightness'', show_int level)]
          else (if ld_trigger l \<in> {None, Some ''none''} then [] else [(leaf ''trigger'', ''none'')]) @ [(leaf ''brightness'', show_int level)]
      | None \<Rightarrow> (if ld_trigger l \<in> {None, Some ''none''} then [] else [(leaf ''trigger'', ''none'')]) @ [(leaf ''brightness'', show_int level)])"

definition show_led :: "int \<Rightarrow> bool \<times> bool \<times> bool \<Rightarrow> int option \<Rightarrow> led \<Rightarrow> file_write list" where
  "show_led pct rgb blink l =
     (let on = colour_on rgb (ld_colour l) \<and> 0 < pct in
      set_led l (if on then max 1 (round_even (of_int (ld_max l * pct) / 100)) else 0) (if on then blink else None))"

text \<open>Nothing is done while the state stays the same.\<close>

definition apply_leds :: "led list \<Rightarrow> obj \<Rightarrow> rat option \<Rightarrow> health \<Rightarrow> hardware \<Rightarrow> verr + hardware \<times> file_write list" where
  "apply_leds lights cfg temperature health h =
     (let state = led_state cfg temperature health (hw_booted h); given = get_or (JInt 100) ''brightness'' (led_settings cfg) in
      if hw_led h = Some state then Inr (h, [])
      else rbind (if truthy given then py_int given else Inr 0) (\<lambda>pct.
        case the_default ((False, True, False), None) (map_of LED_PATTERNS state) of (rgb, blink) \<Rightarrow>
          Inr (h\<lparr>hw_led := Some state\<rparr>,
            concat (map (show_led pct rgb blink) (filter (\<lambda>l. ld_colour l \<noteq> None) lights)))))"

subsection \<open>The tick\<close>

record tick =
  tk_cfg :: obj
  tk_thermal :: "thermal option"
  tk_leds :: "led list"
  tk_health :: health
  tk_exists :: "string \<Rightarrow> bool"
  tk_ok :: "string \<Rightarrow> bool"
  tk_now :: rat

definition no_thermal :: thermal where
  "no_thermal = \<lparr>th_zones = [], th_max = None, th_state = ''normal'', th_fans = []\<rparr>"

definition tick_thermal :: "tick \<Rightarrow> thermal" where
  "tick_thermal k = the_default no_thermal (tk_thermal k)"

text \<open>\<open>THERMAL_WARNING\<close> with its severity, at most once in five minutes.\<close>

definition thermal_event :: "rat option \<Rightarrow> rat \<Rightarrow> hardware \<Rightarrow> string option \<times> hardware" where
  "thermal_event temperature now h = (case temperature of
     None \<Rightarrow> (None, h)
   | Some t \<Rightarrow> if THERMAL_WARNING \<le> t \<and> 300 < now - hw_last_event h
       then (Some (if THERMAL_CRITICAL \<le> t then ''error'' else ''warning''), h\<lparr>hw_last_event := now\<rparr>) else (None, h))"

record tick_result =
  tr_messages :: "string list"
  tr_writes :: "file_write list"
  tr_event :: "string option"

definition fan_tick :: "tick \<Rightarrow> hardware \<Rightarrow> string list \<times> hardware \<times> file_write list" where
  "fan_tick k h = (case apply_fan (tk_exists k) (tk_ok k) (tk_cfg k) (tick_thermal k) h of Inl _ \<Rightarrow> ([], h, []) | Inr r \<Rightarrow> r)"

definition led_tick :: "tick \<Rightarrow> hardware \<Rightarrow> hardware \<times> file_write list" where
  "led_tick k h = (case apply_leds (tk_leds k) (tk_cfg k) (th_max (tick_thermal k)) (tk_health k) h of Inl _ \<Rightarrow> (h, []) | Inr r \<Rightarrow> r)"

definition hwd_poll :: "tick \<Rightarrow> hardware \<Rightarrow> tick_result \<times> hardware" where
  "hwd_poll k h =
     (case fan_tick k h of (messages, h1, fan_writes) \<Rightarrow>
      case led_tick k h1 of (h2, led_writes) \<Rightarrow>
      case thermal_event (th_max (tick_thermal k)) (tk_now k) h2 of (event, h3) \<Rightarrow>
        (\<lparr>tr_messages = messages, tr_writes = fan_writes @ led_writes, tr_event = event\<rparr>, h3))"

text \<open>The status page asks for the target too, which overwrites the pending level.\<close>

definition status_target :: "obj \<Rightarrow> thermal \<Rightarrow> hardware \<Rightarrow> hardware" where
  "status_target cfg th h = (case fan_target cfg (control_temperature th) h of Inl _ \<Rightarrow> h | Inr (_, h') \<Rightarrow> h')"

end
