(* ===== verification/HwdSafety.thy ===== *)
theory HwdSafety
  imports Hwd
begin

text \<open>
  What the fan and LED policy guarantees: with a hysteresis of four degrees the fan does not hunt and is
  never slower than its curve asks, and a tick writes to the PWM fans and the status LEDs only; and what
  it misses: a change of mode at 28 percent, and a change of brightness.
\<close>

subsection \<open>Curves\<close>

lemma percents: "FAN_LEVEL_PERCENT = [14, 28, 50, 100]"
  by code_simp

lemma curves: "mode_curve m \<in> set [[(0, 0), (50, 1), (65, 2), (75, 3)], [(0, 1), (50, 2), (65, 3)], [(0, 0), (65, 1), (80, 2), (90, 3)]]"
  by (simp add: mode_curve_def FAN_CURVES_def the_default_def)

lemma curve_cases:
  obtains (balanced) "mode_curve m = [(0, 0), (50, 1), (65, 2), (75, 3)]" | (cool) "mode_curve m = [(0, 1), (50, 2), (65, 3)]"
    | (quiet) "mode_curve m = [(0, 0), (65, 1), (80, 2), (90, 3)]"
  using curves [of m] by auto

lemma curve_level_bound: "curve_level (mode_curve m) t \<le> 3"
  by (cases m rule: curve_cases) (simp_all add: curve_level_def)

lemma curve_level_hot: "100 \<le> t \<Longrightarrow> curve_level (mode_curve m) t = 3"
  by (cases m rule: curve_cases) (simp_all add: curve_level_def)

lemma curve_level_mono: "t \<le> t' \<Longrightarrow> curve_level (mode_curve m) t \<le> curve_level (mode_curve m) t'"
  by (cases m rule: curve_cases) (simp_all add: curve_level_def)

text \<open>Within four degrees a level that a temperature has justified is held.\<close>

lemma hysteresis_holds:
  assumes "curve_level (mode_curve m) t' < curve_level (mode_curve m) t" and "t \<le> t' + 4"
  shows "\<not> step_down_ok (mode_curve m) t' (curve_level (mode_curve m) t)"
proof (cases m rule: curve_cases)
  case balanced
  then show ?thesis using assms
    by (auto simp: curve_level_def step_down_ok_def FAN_HYSTERESIS_def split: if_splits)
next
  case cool
  then show ?thesis using assms
    by (auto simp: curve_level_def step_down_ok_def FAN_HYSTERESIS_def split: if_splits)
next
  case quiet
  then show ?thesis using assms
    by (auto simp: curve_level_def step_down_ok_def FAN_HYSTERESIS_def split: if_splits)
qed

lemma percent_inject: "i \<le> 3 \<Longrightarrow> j \<le> 3 \<Longrightarrow> FAN_LEVEL_PERCENT ! i = FAN_LEVEL_PERCENT ! j \<longleftrightarrow> i = j"
  using distinct_conv_nth [of FAN_LEVEL_PERCENT] by (simp add: percents nth_eq_iff_index_eq)

subsection \<open>No hunting\<close>

text \<open>A tick in a curve mode, with a fan and a temperature.\<close>

definition curve_tick :: "string \<Rightarrow> tick \<Rightarrow> rat \<Rightarrow> bool" where
  "curve_tick m k t \<longleftrightarrow> fan_mode (tk_cfg k) = m \<and> m \<notin> {''auto'', ''max'', ''manual''} \<and>
     control_temperature (tick_thermal k) = Some t \<and> controllable (tick_thermal k) \<noteq> []"

text \<open>The level is the one some temperature of the band justified.\<close>

definition held_level :: "string \<Rightarrow> rat \<Rightarrow> hardware \<Rightarrow> bool" where
  "held_level m a h \<longleftrightarrow> (\<exists>t. a \<le> t \<and> t \<le> a + 4 \<and> hw_level h = Some (curve_level (mode_curve m) t) \<and>
     hw_duty h = Some (FAN_LEVEL_PERCENT ! curve_level (mode_curve m) t))"

lemma fan_tick_curve:
  assumes "curve_tick m k t"
  shows "fan_tick k h = (case curve_target (mode_curve m) t h of ((target, _), h1) \<Rightarrow>
    if hw_duty h1 = target then ([], h1, [])
    else (map (\<lambda>f. ''could not set '' @ fn_id f @ '' duty'') (filter (\<lambda>f. \<not> tk_ok k (fn_path f)) (controllable (tick_thermal k))),
      h1\<lparr>hw_duty := target, hw_level := hw_pending h1, hw_released := False\<rparr>,
      concat (map (set_fan (tk_exists k) (the (hw_raw h1))) (controllable (tick_thermal k)))))"
  using assms
  by (auto simp: curve_tick_def fan_tick_def apply_fan_def fan_target_def curve_target_def Let_def pend_def split: option.splits)

lemma curve_tick_level:
  assumes "curve_tick m k t" and "a \<le> t" and "t \<le> a + 4" and "hw_duty h = None \<and> hw_level h = None \<or> held_level m a h"
  defines "h' \<equiv> fst (snd (fan_tick k h))"
  shows "held_level m a h'" and "the_default 0 (hw_level h) \<le> the_default 0 (hw_level h')"
    and "curve_level (mode_curve m) t \<le> the_default 0 (hw_level h')"
proof -
  let ?c = "mode_curve m" let ?l = "curve_level ?c t"
  have "\<exists>t'. a \<le> t' \<and> t' \<le> a + 4 \<and> ?l \<le> curve_level ?c t' \<and> the_default 0 (hw_level h) \<le> curve_level ?c t' \<and>
      hw_level h' = Some (curve_level ?c t') \<and> hw_duty h' = Some (FAN_LEVEL_PERCENT ! curve_level ?c t')"
  proof (cases "hw_level h")
    case None
    with assms(4) have "hw_duty h = None" by (simp add: held_level_def)
    with None show ?thesis using assms(2,3) curve_level_hot [of t m]
      by (intro exI [of _ t]) (auto simp: h'_def fan_tick_curve [OF assms(1)] curve_target_def Let_def pend_def the_default_def
        FAN_LEVELS_def percents THERMAL_WARNING_def)
  next
    case (Some l)
    with assms(4) obtain t0 where t0: "a \<le> t0" "t0 \<le> a + 4" "l = curve_level ?c t0" "hw_duty h = Some (FAN_LEVEL_PERCENT ! l)"
      by (auto simp: held_level_def)
    have l: "l \<le> 3" "?l \<le> 3" using curve_level_bound t0(3) by simp_all
    show ?thesis
    proof (cases "?l < l \<and> \<not> 100 \<le> t")
      case True
      then have "\<not> step_down_ok ?c t l" using hysteresis_holds [of m t t0] t0 assms(2,3) by simp
      with True Some t0 show ?thesis
        by (intro exI [of _ t0]) (simp add: h'_def fan_tick_curve [OF assms(1)] curve_target_def Let_def pend_def the_default_def
          THERMAL_WARNING_def)
    next
      case False
      then have ge: "l \<le> ?l" using curve_level_hot [of t m] l by force
      have "FAN_LEVEL_PERCENT ! l = 100 \<longleftrightarrow> l = 3" using percent_inject [of l 3] l by (simp add: percents)
      with ge Some t0(4) assms(2,3) show ?thesis using curve_level_hot [of t m] percent_inject [OF l]
        by (intro exI [of _ t]) (auto simp: h'_def fan_tick_curve [OF assms(1)] curve_target_def Let_def pend_def the_default_def
          FAN_LEVELS_def percents THERMAL_WARNING_def)
    qed
  qed
  then show "held_level m a h'" "the_default 0 (hw_level h) \<le> the_default 0 (hw_level h')" "?l \<le> the_default 0 (hw_level h')"
    by (auto simp: held_level_def the_default_def)
qed

text \<open>What the policy does over a sequence of ticks, each with its temperature: the level after every tick.\<close>

fun fan_log :: "(tick \<times> rat) list \<Rightarrow> hardware \<Rightarrow> (rat \<times> nat) list" where
  "fan_log [] h = []"
| "fan_log ((k, t) # ks) h = (let h' = snd (hwd_poll k h) in (t, the_default 0 (hw_level h')) # fan_log ks h')"

lemma poll_fan_frame:
  "hw_level (snd (hwd_poll k h)) = hw_level (fst (snd (fan_tick k h)))"
  "hw_duty (snd (hwd_poll k h)) = hw_duty (fst (snd (fan_tick k h)))"
  by (auto simp: hwd_poll_def led_tick_def apply_leds_def thermal_event_def Let_def rbind_eq_Inr
      split: prod.splits sum.splits option.splits if_splits)

lemma fan_log_held:
  assumes "list_all (\<lambda>(k, t). curve_tick m k t \<and> a \<le> t \<and> t \<le> a + 4) ks"
    and "hw_duty h = None \<and> hw_level h = None \<or> held_level m a h"
  shows "sorted (the_default 0 (hw_level h) # map snd (fan_log ks h)) \<and>
    list_all (\<lambda>(t, l). curve_level (mode_curve m) t \<le> l \<and> l \<le> 3) (fan_log ks h)"
  using assms
proof (induction ks arbitrary: h)
  case (Cons kt ks)
  obtain k t where kt: "kt = (k, t)" by fastforce
  let ?h = "snd (hwd_poll k h)"
  from Cons.prems(1) have p: "curve_tick m k t" "a \<le> t" "t \<le> a + 4" by (simp_all add: kt)
  note step = curve_tick_level [OF p Cons.prems(2)]
  have held: "held_level m a ?h" using step(1) by (simp add: held_level_def poll_fan_frame)
  then have "the_default 0 (hw_level ?h) \<le> 3" using curve_level_bound by (auto simp: held_level_def the_default_def)
  moreover have "the_default 0 (hw_level h) \<le> the_default 0 (hw_level ?h)" "curve_level (mode_curve m) t \<le> the_default 0 (hw_level ?h)"
    using step(2,3) by (simp_all add: poll_fan_frame)
  ultimately show ?case using Cons.IH [of ?h] Cons.prems(1) held by (auto simp: kt Let_def)
qed simp

text \<open>C34. The fan does not hunt: from a fresh start, while the temperature stays within any four degrees, the level
  only rises, whatever the order of the readings; and it is never below what the curve asks for the reading.\<close>

theorem fan_never_hunts:
  assumes "list_all (\<lambda>(k, t). curve_tick m k t \<and> a \<le> t \<and> t \<le> a + 4) ks" and "hw_duty h = None" and "hw_level h = None"
  shows "sorted (map snd (fan_log ks h)) \<and> list_all (\<lambda>(t, l). curve_level (mode_curve m) t \<le> l \<and> l \<le> 3) (fan_log ks h)"
  using fan_log_held [OF assms(1), of h] assms(2,3) by simp

definition one_fan :: "rat \<Rightarrow> thermal" where
  "one_fan t = \<lparr>th_zones = [\<lparr>zn_id = ''thermal_zone0'', zn_type = ''top-glue-thermal'', zn_temp = t, zn_trips = []\<rparr>],
     th_max = Some t, th_state = ''normal'',
     th_fans = [\<lparr>fn_hwmon = ''pwmfan'', fn_id = ''pwm1'', fn_path = ''/hwmon0/pwm1'', fn_rpm = None, fn_duty = None,
       fn_percent = None, fn_enabled = None, fn_cooling = None, fn_status = ''unknown'', fn_tacho = False\<rparr>]\<rparr>"

definition fan_doc :: "string \<Rightarrow> int \<Rightarrow> obj" where
  "fan_doc mode pct = [(''system'', JObj [(''fan'', JObj [(''mode'', JStr mode), (''manual_percent'', JInt pct)])])]"

definition plain_tick :: "obj \<Rightarrow> rat \<Rightarrow> tick" where
  "plain_tick cfg t = \<lparr>tk_cfg = cfg, tk_thermal = Some (one_fan t), tk_leds = [],
     tk_health = \<lparr>hl_fault = False, hl_degraded = False, hl_wan_up = Some True, hl_applying = False\<rparr>,
     tk_exists = (\<lambda>_. False), tk_ok = (\<lambda>_. True), tk_now = 0\<rparr>"

definition around_50 :: "(tick \<times> rat) list" where
  "around_50 = map (\<lambda>t. (plain_tick (fan_doc ''balanced'' 0) t, t)) [49, 50, 47, 51, 47]"

lemma fan_never_hunts_witness: "sorted (map snd (fan_log around_50 (mark_booted new_hardware))) \<and> map snd (fan_log around_50 (mark_booted new_hardware)) = [0, 1, 1, 1, 1]"
proof -
  have doc: "fan_mode (fan_doc ''balanced'' 0) = ''balanced''" by code_simp
  have t: "control_temperature (one_fan t) = Some t" "controllable (one_fan t) \<noteq> []" for t
  proof -
    have "fan_hinted (hd (th_zones (one_fan t)))" by (simp add: one_fan_def fan_hinted_def) code_simp
    then show "control_temperature (one_fan t) = Some t" by (simp add: control_temperature_def one_fan_def)
    show "controllable (one_fan t) \<noteq> []" by (simp add: controllable_def one_fan_def)
  qed
  have "list_all (\<lambda>(k, t). curve_tick ''balanced'' k t \<and> 47 \<le> t \<and> t \<le> 47 + 4) around_50"
    by (simp add: around_50_def curve_tick_def plain_tick_def tick_thermal_def doc t the_default_def)
  from fan_never_hunts [OF this, of "mark_booted new_hardware"] have "sorted (map snd (fan_log around_50 (mark_booted new_hardware)))"
    by (simp add: mark_booted_def new_hardware_def)
  moreover have "map snd (fan_log around_50 (mark_booted new_hardware)) = [0, 1, 1, 1, 1]" by code_simp
  ultimately show ?thesis by blast
qed

subsection \<open>What is written\<close>

lemma clamp_duty_range: "0 \<le> clamp_duty d" "clamp_duty d \<le> 255"
  by (simp_all add: clamp_duty_def)

lemma level_range: "l \<le> 3 \<Longrightarrow> 36 \<le> FAN_LEVELS ! l \<and> FAN_LEVELS ! l \<le> 255"
  by (simp add: FAN_LEVELS_def nth_Cons split: nat.split)

lemma dts_level_bound: "curve_level DTS_FAN_POLICY t \<le> 3"
  by (simp add: curve_level_def DTS_FAN_POLICY_def)

definition level_ok :: "hardware \<Rightarrow> bool" where
  "level_ok h \<longleftrightarrow> (case hw_level h of None \<Rightarrow> True | Some l \<Rightarrow> l \<le> 3)"

lemma fan_target_sound:
  assumes "fan_target cfg t h = Inr ((target, why), h')" and "level_ok h"
  shows "hw_level h' = hw_level h" and "case hw_pending h' of None \<Rightarrow> True | Some l \<Rightarrow> l \<le> 3"
    and "case hw_raw h' of None \<Rightarrow> True | Some r \<Rightarrow> 0 \<le> r \<and> r \<le> 255"
    and "fan_mode cfg \<noteq> ''manual'' \<Longrightarrow> case hw_raw h' of None \<Rightarrow> target = None | Some r \<Rightarrow> 36 \<le> r"
proof -
  have c: "curve_level (mode_curve m) t \<le> 3" for m t by (rule curve_level_bound)
  have lv: "l \<le> 3 \<Longrightarrow> 0 \<le> FAN_LEVELS ! l \<and> 36 \<le> FAN_LEVELS ! l \<and> FAN_LEVELS ! l \<le> 255" for l using level_range [of l] by auto
  note defs = fan_target_def manual_target_def curve_target_def Let_def pend_def rbind_eq_Inr level_ok_def
  show "hw_level h' = hw_level h"
    using assms by (auto simp: defs split: if_splits option.splits)
  show "case hw_pending h' of None \<Rightarrow> True | Some l \<Rightarrow> l \<le> 3"
    using assms by (auto simp: defs c FAN_LEVELS_def split: if_splits option.splits)
  show "case hw_raw h' of None \<Rightarrow> True | Some r \<Rightarrow> 0 \<le> r \<and> r \<le> 255"
    using assms lv [OF c] lv lv [of 0] lv [of 2] clamp_duty_range by (auto simp: defs split: if_splits option.splits)
  show "case hw_raw h' of None \<Rightarrow> target = None | Some r \<Rightarrow> 36 \<le> r" if "fan_mode cfg \<noteq> ''manual''"
    using assms that lv [OF c] lv lv [of 0] lv [of 2] by (auto simp: defs split: if_splits option.splits)
qed

text \<open>A fan that may be driven has a duty file and is no cooling device of the kernel, whose state it would show. It is
  switched to manual control in the file beside the duty, and gets a duty no less than the given one.\<close>

definition duty_write :: "thermal \<Rightarrow> int \<Rightarrow> file_write \<Rightarrow> bool" where
  "duty_write th least w \<longleftrightarrow> list_ex (\<lambda>f. fn_cooling f = None \<and> fn_path f \<noteq> [] \<and>
     (w = (path_join (os_dirname (fn_path f)) (fn_id f @ ''_enable''), ''1'') \<or>
      (\<exists>r. least \<le> r \<and> r \<le> 255 \<and> w = (fn_path f, show_int r)))) (th_fans th)"

lemma duty_write_iff: "duty_write th least w \<longleftrightarrow>
    list_ex (\<lambda>f. w = (enable_path f, ''1'') \<or> (\<exists>r. least \<le> r \<and> r \<le> 255 \<and> w = (fn_path f, show_int r))) (controllable th)"
  by (auto simp: duty_write_def list_ex_iff controllable_def enable_path_def)

definition LED_FILES :: "string list" where
  "LED_FILES = [''trigger'', ''delay_on'', ''delay_off'', ''brightness'']"

definition led_write :: "led list \<Rightarrow> file_write \<Rightarrow> bool" where
  "led_write lights w \<longleftrightarrow> list_ex (\<lambda>l. ld_colour l \<noteq> None \<and> fst w \<in> path_join (ld_path l) ` set LED_FILES) lights"

lemma set_led_files: "fst ` set (set_led l level blink) \<subseteq> path_join (ld_path l) ` set LED_FILES"
proof -
  have "path_join d ''trigger'' \<in> path_join d ` set LED_FILES" "path_join d ''delay_on'' \<in> path_join d ` set LED_FILES"
    "path_join d ''delay_off'' \<in> path_join d ` set LED_FILES" "path_join d ''brightness'' \<in> path_join d ` set LED_FILES" for d
    by (simp_all add: LED_FILES_def)
  then show ?thesis by (cases blink) (simp_all add: set_led_def Let_def del: image_eqI)
qed

lemma apply_fan_writes:
  assumes "apply_fan ex ok cfg th h = Inr (messages, h', ws)" and "level_ok h"
  shows "level_ok h'" and "list_all (duty_write th (if fan_mode cfg = ''manual'' then 0 else 36)) ws"
proof -
  obtain target why h1 where ft: "fan_target cfg (control_temperature th) h = Inr ((target, why), h1)"
    and rest: "apply_fan ex ok cfg th h = (case target of
         None \<Rightarrow> if hw_duty h1 \<noteq> None \<or> \<not> hw_released h1 then Inr ([], release_fan th h1) else Inr ([], h1, [])
       | Some duty \<Rightarrow>
           let raw = (case hw_raw h1 of None \<Rightarrow> clamp_duty duty | Some r \<Rightarrow> r) in
           if controllable th = [] \<or> hw_duty h1 = Some duty then Inr ([], h1, [])
           else Inr (map (\<lambda>f. ''could not set '' @ fn_id f @ '' duty'') (filter (\<lambda>f. \<not> ok (fn_path f)) (controllable th)),
             h1\<lparr>hw_duty := Some duty, hw_level := hw_pending h1, hw_released := False\<rparr>,
             concat (map (set_fan ex raw) (controllable th))))"
    using assms(1) by (auto simp: apply_fan_def rbind_eq_Inr)
  note ok1 = fan_target_sound [OF ft assms(2)]
  have h1: "level_ok h1" using ok1(1) assms(2) by (simp add: level_ok_def)
  let ?least = "if fan_mode cfg = ''manual'' then 0 else 36 :: int"
  show "level_ok h'"
    using assms(1) rest h1 ok1(2) by (auto simp: level_ok_def release_fan_def Let_def split: option.splits if_splits)
  show "list_all (duty_write th ?least) ws"
  proof (cases target)
    case None
    have "36 \<le> FAN_LEVELS ! curve_level DTS_FAN_POLICY t \<and> FAN_LEVELS ! curve_level DTS_FAN_POLICY t \<le> 255" for t
      by (rule level_range [OF dts_level_bound])
    then have "list_all (duty_write th ?least) (map (\<lambda>f. (fn_path f, show_int (FAN_LEVELS ! curve_level DTS_FAN_POLICY t))) (controllable th))" for t
      by (fastforce simp: list_all_iff duty_write_iff list_ex_iff)
    with None rest assms(1) show ?thesis by (auto simp: release_fan_def split: option.splits if_splits)
  next
    case (Some duty)
    define raw where "raw = (case hw_raw h1 of None \<Rightarrow> clamp_duty duty | Some r \<Rightarrow> r)"
    have "?least \<le> raw \<and> raw \<le> 255"
      using ok1(3,4) Some clamp_duty_range [of duty] by (auto simp: raw_def split: option.splits)
    then have "list_all (duty_write th ?least) (concat (map (set_fan ex raw) (controllable th)))"
      by (fastforce simp: list_all_iff duty_write_iff list_ex_iff set_fan_def split: if_splits)
    with Some rest assms(1) show ?thesis by (auto simp: raw_def [symmetric] Let_def split: if_splits)
  qed
qed

lemma apply_leds_writes:
  assumes "apply_leds lights cfg t health h = Inr (h', ws)"
  shows "hw_level h' = hw_level h" and "list_all (led_write lights) ws"
proof -
  have one: "list_all (led_write lights) (show_led pct rgb blink l)" if "l \<in> set lights" "ld_colour l \<noteq> None" for pct rgb blink l
  proof -
    have "fst w \<in> path_join (ld_path l) ` set LED_FILES" if "w \<in> set (show_led pct rgb blink l)" for w
      using that set_led_files unfolding show_led_def Let_def by blast
    with that show ?thesis unfolding list_all_iff led_write_def list_ex_iff by blast
  qed
  have all: "list_all (led_write lights) (concat (map (show_led pct rgb blink) (filter (\<lambda>l. ld_colour l \<noteq> None) lights)))" for pct rgb blink
    using one [where pct = pct and rgb = rgb and blink = blink] unfolding list_all_iff by auto
  from assms show "hw_level h' = hw_level h"
    by (auto simp: apply_leds_def Let_def rbind_eq_Inr split_def split: if_splits)
  let ?p = "the_default ((False, True, False), None) (map_of LED_PATTERNS (led_state cfg t health (hw_booted h)))"
  from assms all [where rgb = "fst ?p" and blink = "snd ?p"] show "list_all (led_write lights) ws"
    by (auto simp: apply_leds_def Let_def rbind_eq_Inr split_def split: if_splits)
qed

text \<open>What happens to the policy after the start: ticks and requests of the status page, in any order, with
  everything a tick wrote.\<close>

datatype hw_event = Tick tick | StatusRequest obj thermal

fun policy_run :: "hw_event list \<Rightarrow> hardware \<Rightarrow> (tick \<times> file_write list) list" where
  "policy_run [] h = []"
| "policy_run (Tick k # es) h = (case hwd_poll k h of (r, h') \<Rightarrow> (k, tr_writes r) # policy_run es h')"
| "policy_run (StatusRequest cfg th # es) h = policy_run es (status_target cfg th h)"

definition write_allowed :: "tick \<Rightarrow> file_write \<Rightarrow> bool" where
  "write_allowed k w \<longleftrightarrow> duty_write (tick_thermal k) (if fan_mode (tk_cfg k) = ''manual'' then 0 else 36) w \<or> led_write (tk_leds k) w"

lemma poll_writes:
  assumes "level_ok h"
  shows "level_ok (snd (hwd_poll k h))" and "list_all (write_allowed k) (tr_writes (fst (hwd_poll k h)))"
proof -
  obtain messages h1 fw where f: "fan_tick k h = (messages, h1, fw)" by (metis prod_cases3)
  obtain h2 lw where l: "led_tick k h1 = (h2, lw)" by fastforce
  have fan: "level_ok h1" "list_all (duty_write (tick_thermal k) (if fan_mode (tk_cfg k) = ''manual'' then 0 else 36)) fw"
    using f assms by (auto simp: fan_tick_def dest: apply_fan_writes split: sum.splits)
  have led: "hw_level h2 = hw_level h1" "list_all (led_write (tk_leds k)) lw"
    using l by (auto simp: led_tick_def dest: apply_leds_writes split: sum.splits)
  show "level_ok (snd (hwd_poll k h))"
    using fan(1) led(1) by (auto simp: hwd_poll_def f l thermal_event_def level_ok_def split: option.splits prod.splits)
  show "list_all (write_allowed k) (tr_writes (fst (hwd_poll k h)))"
    using fan(2) led(2) by (auto simp: hwd_poll_def f l list_all_iff write_allowed_def split: prod.splits)
qed

lemma target_pends:
  assumes "fan_target cfg t h = Inr (x, h')"
  shows "\<exists>l r. h' = pend l r h"
proof -
  have "\<exists>l r. snd (manual_target d h) = pend l r h" "\<exists>l r. snd (curve_target c u h) = pend l r h" for d c u
    by (auto simp: manual_target_def curve_target_def Let_def split: option.split)
  with assms show ?thesis
    unfolding fan_target_def Let_def by (auto simp: rbind_eq_Inr dest: arg_cong [where f = snd] split: if_splits option.splits) (metis snd_conv)+
qed

lemma status_level: "level_ok h \<Longrightarrow> level_ok (status_target cfg th h)"
  using target_pends by (fastforce simp: status_target_def level_ok_def pend_def split: sum.split prod.split)

text \<open>C30. From the moment the system is up, whatever the configuration, the readings and the requests of the status
  page, the policy writes to nothing but the duty files of the fans and the switches beside them, and the
  files of the status LEDs: never to a cooling device that shows its state, nor to a reserved LED. A duty
  is between 0 and 255, and at least the 36 below which the board never goes, except in the manual mode.\<close>

theorem hardware_writes_confined:
  "list_all (\<lambda>(k, ws). list_all (write_allowed k) ws) (policy_run es (mark_booted new_hardware))"
proof -
  have "list_all (\<lambda>(k, ws). list_all (write_allowed k) ws) (policy_run es h)" if "level_ok h" for h
    using that
  proof (induction es arbitrary: h)
    case (Cons e es)
    then show ?case by (cases e) (auto simp: split_def status_level poll_writes)
  qed simp
  then show ?thesis by (simp add: level_ok_def mark_booted_def new_hardware_def)
qed

text \<open>A manual duty of zero is written although the board's minimum is 36.\<close>

lemma manual_zero_stops_the_fan: "snd (manual_target 0 h) = pend None (Some 0) h"
  using round_even_mono [of 0 0] by (simp add: manual_target_def percents clamp_duty_def)

text \<open>After 28 percent by hand a change to a curve that asks for the same percentage writes nothing: the fan stays
  at 71 where the level is 72, and the policy holds no level, so there is no hysteresis.\<close>

lemma manual_28_loses_the_level:
  "(let h1 = snd (hwd_poll (plain_tick (fan_doc ''manual'' 28) 55) (mark_booted new_hardware));
        (r, h2) = hwd_poll (plain_tick (fan_doc ''balanced'' 28) 55) h1
    in hw_duty h1 = Some 28 \<and> hw_raw h1 = Some 71 \<and> tr_writes r = [] \<and> hw_raw h2 = Some 72 \<and> hw_level h2 = None)"
  by code_simp

text \<open>A changed brightness is not applied while the state of the LED stays the same.\<close>

lemma brightness_change_ignored:
  "hw_led h = Some (led_state cfg t health (hw_booted h)) \<Longrightarrow> apply_leds lights cfg t health h = Inr (h, [])"
  by (simp add: apply_leds_def)

text \<open>A status request between two ticks does not change what the next one does.\<close>

lemma status_request_harmless:
  "apply_fan ex ok cfg th (status_target cfg' th' h) = apply_fan ex ok cfg th h"
proof -
  have "manual_target d (pend l r h) = manual_target d h" "curve_target c t (pend l r h) = curve_target c t h"
    "pend l' r' (pend l r h) = pend l' r' h" for c t l r d l' r'
    by (simp_all add: manual_target_def curve_target_def pend_def Let_def cong: option.case_cong)
  then have "fan_target cfg t (pend l r h) = fan_target cfg t h" for t l r
    by (simp add: fan_target_def Let_def split: option.split)
  moreover have "status_target cfg' th' h = h \<or> (\<exists>l r. status_target cfg' th' h = pend l r h)"
    using target_pends by (fastforce simp: status_target_def split: sum.split prod.split)
  ultimately show ?thesis by (auto simp: apply_fan_def)
qed

text \<open>Warnings about the temperature are at least five minutes apart.\<close>

lemma thermal_events_spaced:
  "fst (thermal_event t now h) = Some sev \<Longrightarrow> 300 < now - hw_last_event h \<and> hw_last_event (snd (thermal_event t now h)) = now"
  by (auto simp: thermal_event_def split: option.splits if_splits)

end
