(* ===== verification/Art.thy ===== *)
theory Art
  imports OsPath MacAddr "HOL-Library.Word"
begin

text \<open>
  What the board knows about itself (\<open>adapters/art.py\<close>): the factory partition with addresses, calibration
  data and the identity block, the bootloader environment, and the identity shown to the owner. A
  partition is its size and its bytes; SHA-256, the files written and other readings are arguments.
\<close>

subsection \<open>Partitions\<close>

text \<open>The size sysfs gives, and the bytes, \<open>None\<close> when the device cannot be read.\<close>

record partition =
  pt_size :: "int option"
  pt_bytes :: "int list option"

definition read_region :: "partition \<Rightarrow> nat \<Rightarrow> nat \<Rightarrow> int list option" where
  "read_region p offset len =
     (if (case pt_size p of None \<Rightarrow> False | Some n \<Rightarrow> n < int (offset + len)) then None
      else case pt_bytes p of None \<Rightarrow> None
        | Some bs \<Rightarrow> let data = take len (drop offset bs) in if length data = len then Some data else None)"

definition is_blank :: "int list \<Rightarrow> bool" where
  "is_blank data = list_all (\<lambda>b. b = 0 \<or> b = 255) data"

subsection \<open>The identity block\<close>

text \<open>Decoding as ASCII; any other byte becomes the replacement character, which stands for U+FFFD here.\<close>

definition REPLACEMENT :: char where "REPLACEMENT = chr 255"

definition ascii_char :: "int \<Rightarrow> char" where
  "ascii_char b = (if b < 128 then chr b else REPLACEMENT)"

definition slot_text :: "int list \<Rightarrow> string option" where
  "slot_text blob = (let t = py_strip (map ascii_char (takeWhile (\<lambda>b. b \<noteq> 0 \<and> b \<noteq> 255) blob)) in if t = [] then None else Some t)"

definition VENDOR_BLOCK_OFFSET :: nat where "VENDOR_BLOCK_OFFSET = 999424"
definition VENDOR_SLOT_SIZE :: nat where "VENDOR_SLOT_SIZE = 64"

definition VENDOR_SLOTS :: "(nat \<times> string) list" where
  "VENDOR_SLOTS = enumerate 0 [''manufacturer'', ''oui'', ''model'', ''hardware_revision'', ''hardware_variant'', ''serial'',
     ''factory_ssid_2g'', ''factory_key_2g'', ''factory_ssid_5g'', ''factory_key_5g'', ''factory_ssid_6g'', ''factory_key_6g'',
     ''wps_pin'', ''region'']"

definition VENDOR_SECRET_FIELDS :: "string list" where
  "VENDOR_SECRET_FIELDS = [''factory_key_2g'', ''factory_key_5g'', ''factory_key_6g'', ''wps_pin'']"

definition REGION_NUMERIC :: "(string \<times> string) list" where
  "REGION_NUMERIC = [(''840'', ''US''), (''124'', ''CA''), (''484'', ''MX''), (''826'', ''GB''), (''276'', ''DE''), (''250'', ''FR''),
     (''724'', ''ES''), (''380'', ''IT''), (''528'', ''NL''), (''392'', ''JP''), (''410'', ''KR''), (''156'', ''CN''), (''036'', ''AU''),
     (''554'', ''NZ''), (''356'', ''IN''), (''076'', ''BR''), (''702'', ''SG''), (''158'', ''TW'')]"

datatype vendor_value = SlotText "string option" | SlotSet bool

datatype vendor_reason = NoPartition | OutsidePartition | BlankBlock

record vendor =
  vn_present :: bool
  vn_fields :: "(string \<times> vendor_value) list"
  vn_reason :: "vendor_reason option"

definition vendor_span :: nat where
  "vendor_span = (Max (fst ` set VENDOR_SLOTS) + 1) * VENDOR_SLOT_SIZE"

definition slot_of :: "int list \<Rightarrow> nat \<Rightarrow> int list" where
  "slot_of raw index = take VENDOR_SLOT_SIZE (drop (index * VENDOR_SLOT_SIZE) raw)"

definition slot_fields :: "bool \<Rightarrow> string \<Rightarrow> string option \<Rightarrow> (string \<times> vendor_value) list" where
  "slot_fields include_secrets name v =
     (if name \<in> set VENDOR_SECRET_FIELDS
      then (name @ ''_set'', SlotSet (v \<noteq> None)) # (if include_secrets then [(name, SlotText v)] else [])
      else [(name, SlotText v)])"

definition name_region :: "(string \<times> vendor_value) list \<Rightarrow> (string \<times> vendor_value) list" where
  "name_region fs = (case map_of fs ''region'' of
     Some (SlotText (Some region)) \<Rightarrow>
       AList.update ''region'' (SlotText (Some (case map_of REGION_NUMERIC region of None \<Rightarrow> region | Some c \<Rightarrow> c)))
         (AList.update ''region_numeric'' (SlotText (Some region)) fs)
   | _ \<Rightarrow> fs)"

definition vendor_block :: "partition option \<Rightarrow> bool \<Rightarrow> vendor" where
  "vendor_block art include_secrets =
     (case art of
        None \<Rightarrow> \<lparr>vn_present = False, vn_fields = [], vn_reason = Some NoPartition\<rparr>
      | Some p \<Rightarrow> (case read_region p VENDOR_BLOCK_OFFSET vendor_span of
          None \<Rightarrow> \<lparr>vn_present = False, vn_fields = [], vn_reason = Some OutsidePartition\<rparr>
        | Some raw \<Rightarrow>
            if is_blank raw then \<lparr>vn_present = False, vn_fields = [], vn_reason = Some BlankBlock\<rparr>
            else \<lparr>vn_present = True,
              vn_fields = name_region (concat (map (\<lambda>(i, name). slot_fields include_secrets name (slot_text (slot_of raw i))) VENDOR_SLOTS)),
              vn_reason = None\<rparr>))"

subsection \<open>Addresses\<close>

definition base_mac :: "partition option \<Rightarrow> string option" where
  "base_mac art = (case Option.bind art (\<lambda>p. read_region p 0 6) of
     None \<Rightarrow> None | Some raw \<Rightarrow> if is_blank raw then None else Some (format_mac raw))"

definition mac_cells :: "partition option \<Rightarrow> nat \<Rightarrow> string option list" where
  "mac_cells art count = (case Option.bind art (\<lambda>p. read_region p 0 (6 * count)) of
     None \<Rightarrow> []
   | Some raw \<Rightarrow> map (\<lambda>i. let chunk = take 6 (drop (i * 6) raw) in if is_blank chunk then None else Some (format_mac chunk)) [0..<count])"

text \<open>\<open>int.from_bytes(b, "big")\<close> and \<open>n.to_bytes(6, "big")\<close>, which raises outside of 48 bits.\<close>

definition from_bytes :: "int list \<Rightarrow> int" where
  "from_bytes bs = foldl (\<lambda>n b. 256 * n + b) 0 bs"

fun be_digits :: "nat \<Rightarrow> int \<Rightarrow> int list" where
  "be_digits 0 n = []"
| "be_digits (Suc k) n = be_digits k (n div 256) @ [n mod 256]"

datatype mac_error = BadMac verr | OverflowError

definition mac_at_index :: "string \<Rightarrow> int \<Rightarrow> mac_error + string" where
  "mac_at_index base index = (case mac_bytes base of
     Inl e \<Rightarrow> Inl (BadMac e)
   | Inr bs \<Rightarrow>
       if list_ex (\<lambda>b. b < 0 \<or> 255 < b) bs then Inl (BadMac (Raised ValueError))
       else let n = from_bytes bs + index in
         if n < 0 \<or> 2 ^ 48 \<le> n then Inl OverflowError else Inr (format_mac (be_digits 6 n)))"

record board_macs =
  bm_base :: string
  bm_cells :: "string option list"
  bm_wan :: string
  bm_lan :: string
  bm_radios :: "(string \<times> string) list"

definition derived_macs :: "partition option \<Rightarrow> mac_error + board_macs option" where
  "derived_macs art = (case base_mac art of
     None \<Rightarrow> Inr None
   | Some base \<Rightarrow>
       rbind (mac_at_index base 0) (\<lambda>wan.
       rbind (mac_at_index base 1) (\<lambda>lan.
       rbind (rmap (\<lambda>n. rbind (mac_at_index base (- n)) (\<lambda>m. Inr (''pcie'' @ show_int n, m))) [1, 2, 3]) (\<lambda>radios.
       Inr (Some \<lparr>bm_base = base, bm_cells = mac_cells art 5, bm_wan = wan, bm_lan = lan, bm_radios = radios\<rparr>)))))"

subsection \<open>Calibration data\<close>

definition CALDATA_REGIONS :: "(int \<times> nat \<times> nat) list" where
  "CALDATA_REGIONS = [(1, 362496, 184320), (2, 567296, 184320), (3, 772096, 184320)]"

definition CALDATA_MAGIC :: "int list" where
  "CALDATA_MAGIC = [1, 0, 4, 4]"

definition CALDATA_FIRMWARE_DIR :: string where
  "CALDATA_FIRMWARE_DIR = ''ath12k/QCN9274/hw2.0''"

definition caldata_name :: "int \<Rightarrow> string" where
  "caldata_name pci = ''cal-pci-'' @ replicate (4 - length (show_int pci)) CHR ''0'' @ show_int pci @ '':01:00.0.bin''"

datatype cal_reason = CalNoPartition | CalUnreadable | CalBlank | CalHeader

record cal_status =
  cs_domain :: int
  cs_offset :: nat
  cs_present :: bool
  cs_valid_header :: bool
  cs_blank :: "bool option"
  cs_programmed :: "nat option"
  cs_sha256 :: "string option"
  cs_reason :: "cal_reason option"

definition cal_entry :: "(int list \<Rightarrow> string) \<Rightarrow> partition option \<Rightarrow> int \<times> nat \<times> nat \<Rightarrow> cal_status" where
  "cal_entry sha256 art = (\<lambda>(pci, offset, len).
     let none = \<lparr>cs_domain = pci, cs_offset = offset, cs_present = False, cs_valid_header = False, cs_blank = None,
       cs_programmed = None, cs_sha256 = None, cs_reason = None\<rparr> in
     case art of
       None \<Rightarrow> none\<lparr>cs_reason := Some CalNoPartition\<rparr>
     | Some p \<Rightarrow> (case read_region p offset len of
         None \<Rightarrow> none\<lparr>cs_reason := Some CalUnreadable\<rparr>
       | Some blob \<Rightarrow> none\<lparr>cs_present := True, cs_blank := Some (is_blank blob), cs_valid_header := (take 4 blob = CALDATA_MAGIC),
           cs_programmed := Some (length (filter (\<lambda>b. b \<noteq> 0 \<and> b \<noteq> 255) blob)), cs_sha256 := Some (take 16 (sha256 blob)),
           cs_reason := (if is_blank blob then Some CalBlank else if take 4 blob \<noteq> CALDATA_MAGIC then Some CalHeader else None)\<rparr>))"

definition caldata_status :: "(int list \<Rightarrow> string) \<Rightarrow> partition option \<Rightarrow> cal_status list" where
  "caldata_status sha256 art = map (cal_entry sha256 art) CALDATA_REGIONS"

definition is_calibrated :: "cal_status \<Rightarrow> bool" where
  "is_calibrated c = (cs_valid_header c \<and> cs_blank c \<noteq> Some True)"

text \<open>What is written where, and the errors. \<open>mkdir\<close> is whether the directory can be made, \<open>ok\<close> whether a file
  can be written.\<close>

datatype cal_error = NoArt | NoDirectory | ReadFailed int | BlankRegion int | OddHeader int | WriteFailed string

record extraction =
  ex_written :: "(string \<times> int list \<times> int) list"
  ex_errors :: "cal_error list"

definition extract_one :: "(string \<Rightarrow> bool) \<Rightarrow> string \<Rightarrow> partition \<Rightarrow> int \<times> nat \<times> nat \<Rightarrow> extraction \<Rightarrow> extraction" where
  "extract_one ok directory p = (\<lambda>(pci, offset, len) r.
     case read_region p offset len of
       None \<Rightarrow> r\<lparr>ex_errors := ex_errors r @ [ReadFailed pci]\<rparr>
     | Some blob \<Rightarrow>
         if is_blank blob then r\<lparr>ex_errors := ex_errors r @ [BlankRegion pci]\<rparr>
         else let r1 = (if take 4 blob \<noteq> CALDATA_MAGIC then r\<lparr>ex_errors := ex_errors r @ [OddHeader pci]\<rparr> else r);
                  path = path_join directory (caldata_name pci)
           in if ok path then r1\<lparr>ex_written := ex_written r1 @ [(path, blob, pci)]\<rparr>
              else r1\<lparr>ex_errors := ex_errors r1 @ [WriteFailed (caldata_name pci)]\<rparr>)"

definition extract_caldata :: "(string \<Rightarrow> bool) \<Rightarrow> bool \<Rightarrow> string \<Rightarrow> partition option \<Rightarrow> extraction" where
  "extract_caldata ok mkdir target_dir art = (case art of
     None \<Rightarrow> \<lparr>ex_written = [], ex_errors = [NoArt]\<rparr>
   | Some p \<Rightarrow> if \<not> mkdir then \<lparr>ex_written = [], ex_errors = [NoDirectory]\<rparr>
       else fold (extract_one ok (path_join target_dir CALDATA_FIRMWARE_DIR) p) CALDATA_REGIONS \<lparr>ex_written = [], ex_errors = []\<rparr>)"

subsection \<open>The bootloader environment\<close>

text \<open>\<open>binascii.crc32\<close>, bit by bit.\<close>

definition crc_bit :: "32 word \<Rightarrow> 32 word" where
  "crc_bit c = (if c AND 1 = 1 then drop_bit 1 c XOR 0xEDB88320 else drop_bit 1 c)"

definition crc_byte :: "int \<Rightarrow> 32 word \<Rightarrow> 32 word" where
  "crc_byte b c = (crc_bit ^^ 8) (c XOR word_of_int b)"

definition crc32 :: "int list \<Rightarrow> int" where
  "crc32 bs = uint (NOT (fold crc_byte bs (NOT 0)))"

text \<open>\<open>s.split(b"\0")\<close>, and the place of the first two zero bytes.\<close>

fun split_zero :: "int list \<Rightarrow> int list list" where
  "split_zero [] = [[]]"
| "split_zero (b # bs) = (if b = 0 then [] # split_zero bs
     else case split_zero bs of [] \<Rightarrow> [[b]] | p # ps \<Rightarrow> (b # p) # ps)"

fun before_zeros :: "int list \<Rightarrow> int list option" where
  "before_zeros (a # b # bs) = (if a = 0 \<and> b = 0 then Some [] else map_option ((#) a) (before_zeros (b # bs)))"
| "before_zeros _ = None"

definition rstrip_blank :: "int list \<Rightarrow> int list" where
  "rstrip_blank bs = rev (dropWhile (\<lambda>b. b = 255 \<or> b = 0) (rev bs))"

record boot_env =
  be_crc_ok :: "bool option"
  be_variables :: "(string \<times> string) list"

text \<open>\<open>utf8\<close> decodes or raises, \<open>lossy\<close> puts replacement characters.\<close>

definition add_variable :: "(int list \<Rightarrow> string option) \<Rightarrow> (int list \<Rightarrow> string) \<Rightarrow> int list \<Rightarrow> (string \<times> string) list \<Rightarrow> (string \<times> string) list" where
  "add_variable utf8 lossy item vars =
     (if item = [] \<or> 61 \<notin> set item then vars
      else case utf8 (takeWhile (\<lambda>b. b \<noteq> 61) item) of None \<Rightarrow> vars
        | Some key \<Rightarrow> AList.update key (lossy (tl (dropWhile (\<lambda>b. b \<noteq> 61) item))) vars)"

definition env_payload :: "int list \<Rightarrow> int list" where
  "env_payload body = (case before_zeros body of Some payload \<Rightarrow> payload | None \<Rightarrow> rstrip_blank body)"

definition uboot_env :: "(int list \<Rightarrow> string option) \<Rightarrow> (int list \<Rightarrow> string) \<Rightarrow> partition option \<Rightarrow> boot_env" where
  "uboot_env utf8 lossy env =
     (let none = \<lparr>be_crc_ok = None, be_variables = []\<rparr> in
      case env of None \<Rightarrow> none
      | Some p \<Rightarrow> (case pt_bytes p of None \<Rightarrow> none
        | Some bytes \<Rightarrow>
            let extent = (case pt_size p of None \<Rightarrow> 262144 | Some n \<Rightarrow> if n = 0 then 262144 else n);
                raw = take (nat (min extent 262144)) bytes; body = drop 4 raw
            in if length raw < 8 then none
               else \<lparr>be_crc_ok = Some (crc32 body = from_bytes (rev (take 4 raw))),
                 be_variables = fold (add_variable utf8 lossy) (split_zero (env_payload body)) []\<rparr>))"

subsection \<open>Identity\<close>

definition text_field :: "string \<Rightarrow> vendor \<Rightarrow> string option" where
  "text_field k v = (case map_of (vn_fields v) k of Some (SlotText t) \<Rightarrow> t | _ \<Rightarrow> None)"

text \<open>The serial number and where it is from.\<close>

datatype serial_source = FactoryBlock | DeviceTree | SocInfo | EmmcCid | FromMac

definition upper_ascii :: "string \<Rightarrow> string" where
  "upper_ascii s = map (\<lambda>c. if is_lower_ascii c then chr (code c - 32) else c) s"

definition plain_mac :: "string \<Rightarrow> string" where
  "plain_mac mac = upper_ascii (filter (\<lambda>c. c \<noteq> CHR '':'') mac)"

definition best_serial :: "string option \<Rightarrow> string option \<Rightarrow> string option \<Rightarrow> string option \<Rightarrow> string option \<Rightarrow> (string \<times> serial_source) option" where
  "best_serial vendor_serial dt_serial soc_serial emmc_serial base =
     (case find (\<lambda>(c, _). c \<noteq> None \<and> c \<noteq> Some [])
         [(vendor_serial, FactoryBlock), (dt_serial, DeviceTree), (soc_serial, SocInfo), (emmc_serial, EmmcCid)] of
        Some (Some s, src) \<Rightarrow> Some (s, src)
      | _ \<Rightarrow> map_option (\<lambda>b. (plain_mac b, FromMac)) base)"

definition shown_model :: "vendor \<Rightarrow> string option \<Rightarrow> string \<times> string" where
  "shown_model v dt_model =
     (case text_field ''model'' v of
        Some m \<Rightarrow> (m, ''ART factory block'')
      | None \<Rightarrow> (case dt_model of Some m \<Rightarrow> m | None \<Rightarrow> ''Askey SBE1V1K'', ''device-tree''))"

definition oui_matches :: "vendor \<Rightarrow> string option \<Rightarrow> bool option" where
  "oui_matches v base = (case (text_field ''oui'' v, base) of
     (Some oui, Some b) \<Rightarrow> Some (upper_ascii oui = take 6 (plain_mac b)) | _ \<Rightarrow> None)"

end
