(* ===== verification/ArtSafety.thy ===== *)
theory ArtSafety
  imports Art
begin

text \<open>
  What reading the board's identity guarantees: the factory secrets leave no trace in the ordinary reading,
  calibration data is copied as it is, the derived addresses are apart, and the bootloader environment
  reads back.
\<close>

subsection \<open>Secrets\<close>

lemma slots_distinct: "distinct (map snd VENDOR_SLOTS)" "list_all (\<lambda>(i, n). i < 14) VENDOR_SLOTS"
  by code_simp+

text \<open>Two readings of the identity block that an observer without the secrets must not tell apart: the same bytes in
  every slot that is no secret, and the same secrets set.\<close>

definition same_but_secrets :: "int list \<Rightarrow> int list \<Rightarrow> bool" where
  "same_but_secrets raw raw' \<longleftrightarrow> is_blank raw = is_blank raw' \<and>
     list_all (\<lambda>(i, name). if name \<in> set VENDOR_SECRET_FIELDS
       then (slot_text (slot_of raw i) = None) = (slot_text (slot_of raw' i) = None) else slot_of raw i = slot_of raw' i) VENDOR_SLOTS"

lemma secrets_withheld_fields:
  assumes "same_but_secrets raw raw'"
  shows "concat (map (\<lambda>(i, name). slot_fields False name (slot_text (slot_of raw i))) VENDOR_SLOTS) =
    concat (map (\<lambda>(i, name). slot_fields False name (slot_text (slot_of raw' i))) VENDOR_SLOTS)"
proof -
  have "map (\<lambda>(i, name). slot_fields False name (slot_text (slot_of raw i))) VENDOR_SLOTS =
      map (\<lambda>(i, name). slot_fields False name (slot_text (slot_of raw' i))) VENDOR_SLOTS"
    using assms by (intro map_cong refl) (auto simp: same_but_secrets_def list_all_iff slot_fields_def split: if_splits)
  then show ?thesis by (rule arg_cong)
qed

text \<open>C31. The ordinary reading of the identity block does not depend on the factory passphrases and the WPS PIN: two
  boards that differ only in them, with the same ones set, read the same.\<close>

theorem secrets_withheld:
  assumes "read_region p VENDOR_BLOCK_OFFSET vendor_span = Some raw" and "read_region p' VENDOR_BLOCK_OFFSET vendor_span = Some raw'"
    and "same_but_secrets raw raw'"
  shows "vendor_block (Some p) False = vendor_block (Some p') False"
proof -
  have "is_blank raw = is_blank raw'" using assms(3) by (simp add: same_but_secrets_def)
  with secrets_withheld_fields [OF assms(3)] show ?thesis by (simp add: vendor_block_def assms(1,2))
qed

subsection \<open>Calibration data\<close>

lemma vendor_span_eq: "vendor_span = 896"
  by (simp add: vendor_span_def VENDOR_SLOTS_def VENDOR_SLOT_SIZE_def)

text \<open>The regions and the identity block lie apart, inside one MiB, behind the addresses.\<close>

lemma regions_apart:
  "sorted_wrt (\<lambda>(_, o1, n1) (_, o2, n2). o1 + n1 \<le> o2) (CALDATA_REGIONS @ [(0, VENDOR_BLOCK_OFFSET, vendor_span)]) \<and>
   list_all (\<lambda>(_, offs, n). 30 \<le> offs \<and> offs + n \<le> 1048576) (CALDATA_REGIONS @ [(0, VENDOR_BLOCK_OFFSET, vendor_span)])"
  by (simp add: CALDATA_REGIONS_def VENDOR_BLOCK_OFFSET_def vendor_span_eq)

lemma read_region_exact:
  assumes "read_region p offset len = Some data"
  shows "\<exists>bs. pt_bytes p = Some bs \<and> data = take len (drop offset bs) \<and> length data = len \<and> offset + len \<le> length bs \<or> len = 0"
  using assms by (auto simp: read_region_def Let_def split: option.splits if_splits)

definition copied :: "string \<Rightarrow> partition \<Rightarrow> string \<times> int list \<times> int \<Rightarrow> bool" where
  "copied directory p = (\<lambda>(path, blob, pci). list_ex (\<lambda>(d, offset, len).
     d = pci \<and> path = path_join directory (caldata_name d) \<and> read_region p offset len = Some blob \<and> \<not> is_blank blob) CALDATA_REGIONS)"

lemma extract_one_copies:
  assumes "list_all (copied directory p) (ex_written r)" and "x \<in> set CALDATA_REGIONS"
  shows "list_all (copied directory p) (ex_written (extract_one ok directory p x r))"
proof -
  obtain d offs len where x: "x = (d, offs, len)" by (metis prod_cases3)
  have "copied directory p (path_join directory (caldata_name d), blob, d)"
    if "read_region p offs len = Some blob" "\<not> is_blank blob" for blob
    using assms(2) that unfolding copied_def x list_ex_iff by blast
  with assms(1) show ?thesis by (auto simp: extract_one_def x Let_def split: option.split)
qed

text \<open>The calibration files hold exactly what the factory wrote: each is the bytes of its radio's region, read
  inside the partition and not blank, under the name the driver asks for.\<close>

theorem calibration_is_copied:
  "list_all (copied (path_join target CALDATA_FIRMWARE_DIR) p) (ex_written (extract_caldata ok mkdir target (Some p)))"
proof -
  have "list_all (copied d p) (ex_written (fold (extract_one ok d p) rs r))"
    if "set rs \<subseteq> set CALDATA_REGIONS" "list_all (copied d p) (ex_written r)" for d rs r
    using that by (induction rs arbitrary: r) (simp_all add: extract_one_copies)
  then show ?thesis by (simp add: extract_caldata_def)
qed

text \<open>A region with an unexpected header counts as not calibrated and is written all the same.\<close>

lemma odd_header_is_written:
  assumes "read_region p offs len = Some blob" and "\<not> is_blank blob" and "take 4 blob \<noteq> CALDATA_MAGIC" and "\<And>path. ok path"
  shows "\<not> is_calibrated (cal_entry sha256 (Some p) (d, offs, len)) \<and>
    ex_written (extract_one ok dir p (d, offs, len) r) = ex_written r @ [(path_join dir (caldata_name d), blob, d)]"
  using assms by (simp add: is_calibrated_def cal_entry_def extract_one_def)

subsection \<open>Addresses\<close>

lemma from_bytes_snoc: "from_bytes (bs @ [b]) = 256 * from_bytes bs + b"
  by (simp add: from_bytes_def)

lemma from_be_digits: "0 \<le> n \<Longrightarrow> n < 256 ^ k \<Longrightarrow> from_bytes (be_digits k n) = n"
proof (induction k arbitrary: n)
  case (Suc k)
  from Suc.prems have "0 \<le> n div 256" "n div 256 < 256 ^ k" by (simp, simp add: div_less_iff_less_mult mult.commute)
  then have "from_bytes (be_digits k (n div 256)) = n div 256" by (rule Suc.IH)
  then show ?case by (simp add: from_bytes_snoc)
qed (simp add: from_bytes_def)

lemma octets_be_digits: "octets (be_digits 6 n)"
  by (simp add: octets_def numeral_eq_Suc)

lemma from_bytes_bounds: "list_all (\<lambda>b. 0 \<le> b \<and> b < 256) bs \<Longrightarrow> 0 \<le> from_bytes bs \<and> from_bytes bs < 256 ^ length bs"
proof (induction bs rule: rev_induct)
  case (snoc b bs)
  then have "0 \<le> from_bytes bs" "from_bytes bs < 256 ^ length bs" "0 \<le> b" "b < 256" by simp_all
  then show ?case by (simp add: from_bytes_snoc)
qed (simp add: from_bytes_def)

lemma be_digits_from_bytes: "list_all (\<lambda>b. 0 \<le> b \<and> b < 256) bs \<Longrightarrow> be_digits (length bs) (from_bytes bs) = bs"
proof (induction bs rule: rev_induct)
  case (snoc b bs)
  then have "(256 * from_bytes bs + b) div 256 = from_bytes bs" "(256 * from_bytes bs + b) mod 256 = b" by simp_all
  with snoc show ?case by (simp add: from_bytes_snoc)
qed simp

lemma mac_at_index_eq:
  assumes "octets bs"
  shows "mac_at_index (format_mac bs) i =
    (let n = from_bytes bs + i in if n < 0 \<or> 2 ^ 48 \<le> n then Inl OverflowError else Inr (format_mac (be_digits 6 n)))"
proof -
  have "\<not> list_ex (\<lambda>b. b < 0 \<or> 255 < b) bs" using assms by (auto simp: octets_def list_ex_iff)
  then show ?thesis using mac_roundtrip_base [OF assms] by (simp add: mac_at_index_def Let_def)
qed

text \<open>Shifting an address by an index and back gives the address again, different indices give different addresses,
  and only an index that leaves the 48 bits raises.\<close>

theorem address_offsets_exact:
  assumes "octets bs" and "mac_at_index (format_mac bs) i = Inr m"
  shows "mac_at_index m (- i) = Inr (format_mac bs) \<and> (mac_at_index (format_mac bs) j = Inr m \<longleftrightarrow> j = i)"
proof (rule conjI)
  let ?n = "from_bytes bs"
  have r: "0 \<le> ?n + i" "?n + i < 2 ^ 48" "m = format_mac (be_digits 6 (?n + i))"
    using assms by (auto simp: mac_at_index_eq Let_def split: if_splits)
  have v: "from_bytes (be_digits 6 (?n + i)) = ?n + i" using from_be_digits [of "?n + i" 6] r by simp
  have n: "0 \<le> ?n" "?n < 2 ^ 48"
    using from_bytes_bounds [of bs] assms(1) by (simp_all add: octets_def list_all_iff)
  have "length bs = 6" "list_all (\<lambda>b. 0 \<le> b \<and> b < 256) bs" using assms(1) by (simp_all add: octets_def list_all_iff)
  then have canon: "be_digits 6 ?n = bs" using be_digits_from_bytes by metis
  show "mac_at_index m (- i) = Inr (format_mac bs)"
    unfolding r(3) mac_at_index_eq [OF octets_be_digits] v Let_def using n by (simp add: canon del: be_digits.simps)
  show "mac_at_index (format_mac bs) j = Inr m \<longleftrightarrow> j = i"
  proof
    assume "mac_at_index (format_mac bs) j = Inr m"
    then have j: "0 \<le> ?n + j" "?n + j < 2 ^ 48" "m = format_mac (be_digits 6 (?n + j))"
      by (auto simp: mac_at_index_eq [OF assms(1)] Let_def split: if_splits)
    then have "be_digits 6 (?n + j) = be_digits 6 (?n + i)" using r(3) format_mac_inject [OF octets_be_digits octets_be_digits] by metis
    moreover have "from_bytes (be_digits 6 (?n + j)) = ?n + j" using j by (intro from_be_digits) simp_all
    ultimately have "?n + j = ?n + i" using v by metis
    then show "j = i" by (simp only: add_left_cancel)
  qed (use assms(2) in simp)
qed

definition toy_base :: "int list" where
  "toy_base = [0x1c, 0x24, 0xcd, 0x3e, 0xfa, 0x00]"

lemma address_offsets_exact_witness:
  "mac_at_index ''1c:24:cd:3e:fa:00'' (- 1) = Inr ''1c:24:cd:3e:f9:ff'' \<and> mac_at_index ''1c:24:cd:3e:f9:ff'' 1 = Inr ''1c:24:cd:3e:fa:00''"
proof -
  have o: "octets toy_base" by (simp add: octets_def toy_base_def)
  have f: "format_mac toy_base = ''1c:24:cd:3e:fa:00''" by code_simp
  have "mac_at_index ''1c:24:cd:3e:fa:00'' (- 1) = Inr ''1c:24:cd:3e:f9:ff''" by code_simp
  with address_offsets_exact [OF o, of "- 1" "''1c:24:cd:3e:f9:ff''"] f show ?thesis by simp
qed

text \<open>An address at the edge of the range makes the reading of the identity fail with an \<open>OverflowError\<close>.\<close>

lemma low_base_overflows: "mac_at_index ''00:00:00:00:00:02'' (- 3) = Inl OverflowError"
  by code_simp

text \<open>A board that names its model nowhere is shown as a built-in name, said to come from the device tree.\<close>

lemma unknown_model_has_a_source: "text_field ''model'' v = None \<Longrightarrow> shown_model v None = (''Askey SBE1V1K'', ''device-tree'')"
  by (simp add: shown_model_def)

subsection \<open>The bootloader environment\<close>

definition clean_item :: "int list \<Rightarrow> bool" where
  "clean_item bs \<longleftrightarrow> list_all (\<lambda>b. b \<noteq> 0) bs"

definition env_item :: "int list \<times> int list \<Rightarrow> int list" where
  "env_item = (\<lambda>(k, v). k @ 61 # v)"

fun join_zero :: "int list list \<Rightarrow> int list" where
  "join_zero [] = []"
| "join_zero [x] = x"
| "join_zero (x # xs) = x @ 0 # join_zero xs"

lemma split_zero_clean: "clean_item s \<Longrightarrow> split_zero s = [s]"
  by (induction s) (auto simp: clean_item_def)

lemma split_zero_append: "clean_item s \<Longrightarrow> split_zero (s @ 0 # t) = s # split_zero t"
  by (induction s) (auto simp: clean_item_def)

lemma split_join_zero: "xs \<noteq> [] \<Longrightarrow> list_all clean_item xs \<Longrightarrow> split_zero (join_zero xs) = xs"
  by (induction xs rule: join_zero.induct) (simp_all add: split_zero_clean split_zero_append)

lemma before_zeros_clean: "clean_item s \<Longrightarrow> before_zeros (s @ 0 # 0 # t) = Some s"
proof (induction s)
  case (Cons a s)
  then show ?case by (cases s) (auto simp: clean_item_def)
qed simp

lemma before_zeros_step: "clean_item s \<Longrightarrow> t \<noteq> [] \<Longrightarrow> hd t \<noteq> 0 \<Longrightarrow> before_zeros (s @ 0 # t) = map_option (\<lambda>p. s @ 0 # p) (before_zeros t)"
proof (induction s)
  case Nil
  then show ?case by (cases t) auto
next
  case (Cons a s)
  then have ih: "before_zeros (s @ 0 # t) = map_option (\<lambda>p. s @ 0 # p) (before_zeros t)" by (simp add: clean_item_def)
  have "before_zeros (a # s @ 0 # t) = map_option ((#) a) (before_zeros (s @ 0 # t))"
    using Cons.prems(1) by (cases s) (auto simp: clean_item_def)
  then show ?case by (simp add: ih option.map_comp o_def)
qed

lemma before_zeros_join:
  assumes "xs \<noteq> []" and "list_all (\<lambda>x. clean_item x \<and> x \<noteq> []) xs"
  shows "before_zeros (join_zero xs @ 0 # 0 # pad) = Some (join_zero xs)"
  using assms
proof (induction xs rule: join_zero.induct)
  case (3 x y ys)
  have t: "join_zero (y # ys) @ 0 # 0 # pad \<noteq> []" by simp
  have "hd (join_zero (y # ys) @ 0 # 0 # pad) \<noteq> 0"
    using 3(3) by (cases ys; cases y) (auto simp: clean_item_def)
  with 3 before_zeros_step [OF _ t] show ?case by simp
qed (simp_all add: before_zeros_clean)

text \<open>C26. The bootloader environment reads back: variables with distinct names that are laid out with the checksum in
  front are read with the checksum confirmed and every variable with its value.\<close>

theorem environment_reads_back:
  assumes "vars \<noteq> []" and "list_all (\<lambda>(k, v). clean_item k \<and> 61 \<notin> set k \<and> clean_item v \<and> utf8 k \<noteq> None) vars"
    and "distinct (map (\<lambda>(k, v). the (utf8 k)) vars)"
    and "body = join_zero (map env_item vars) @ 0 # 0 # pad" and "8 \<le> 4 + length body \<and> 4 + length body \<le> 262144"
    and "length crc = 4" and "from_bytes (rev crc) = crc32 body"
  shows "uboot_env utf8 lossy (Some \<lparr>pt_size = Some (int (4 + length body)), pt_bytes = Some (crc @ body)\<rparr>) =
    \<lparr>be_crc_ok = Some True, be_variables = map (\<lambda>(k, v). (the (utf8 k), lossy v)) vars\<rparr>"
proof -
  let ?items = "map env_item vars"
  have items: "?items \<noteq> []" "list_all (\<lambda>x. clean_item x \<and> x \<noteq> []) ?items"
    using assms(1,2) by (auto simp: list_all_iff env_item_def clean_item_def)
  have "env_payload body = join_zero ?items" by (simp add: env_payload_def assms(4) before_zeros_join [OF items])
  moreover have "split_zero (join_zero ?items) = ?items"
    using items by (intro split_join_zero) (auto simp: list_all_iff)
  moreover have "fold (add_variable utf8 lossy) (map env_item vs) d = d @ map (\<lambda>(k, v). (the (utf8 k), lossy v)) vs"
    if "list_all (\<lambda>(k, v). clean_item k \<and> 61 \<notin> set k \<and> clean_item v \<and> utf8 k \<noteq> None) vs"
      "distinct (map fst d @ map (\<lambda>(k, v). the (utf8 k)) vs)" for vs d
    using that
  proof (induction vs arbitrary: d)
    case (Cons kv vs)
    obtain k v where kv: "kv = (k, v)" by fastforce
    obtain key where key: "utf8 k = Some key" using Cons.prems(1) by (auto simp: kv)
    have k: "takeWhile (\<lambda>b. b \<noteq> 61) (k @ 61 # v) = k" "dropWhile (\<lambda>b. b \<noteq> 61) (k @ 61 # v) = 61 # v"
      using Cons.prems(1) by (auto simp: kv takeWhile_append dropWhile_append)
    have "key \<notin> fst ` set d" using Cons.prems(2) by (auto simp: kv key)
    then have "AList.update key (lossy v) d = d @ [(key, lossy v)]" by (induction d) auto
    then have "add_variable utf8 lossy (env_item kv) d = d @ [(key, lossy v)]"
      by (simp add: kv env_item_def add_variable_def k key)
    with Cons.IH [of "d @ [(key, lossy v)]"] Cons.prems show ?case by (simp add: kv key)
  qed simp
  ultimately show ?thesis using assms(2,3,5,6,7) by (simp add: uboot_env_def Let_def)
qed

definition toy_body :: "int list" where
  "toy_body = join_zero [env_item ([97], [49]), env_item ([98], [50])] @ 0 # 0 # []"

definition toy_utf8 :: "int list \<Rightarrow> string option" where
  "toy_utf8 bs = (if list_all (\<lambda>b. b < 128) bs then Some (map chr bs) else None)"

lemma environment_reads_back_witness:
  "\<exists>crc. uboot_env toy_utf8 (map chr) (Some \<lparr>pt_size = Some 13, pt_bytes = Some (crc @ [97, 61, 49, 0, 98, 61, 50, 0, 0])\<rparr>) =
    \<lparr>be_crc_ok = Some True, be_variables = [(''a'', ''1''), (''b'', ''2'')]\<rparr>"
proof -
  let ?vars = "[([97], [49]), ([98], [50])] :: (int list \<times> int list) list"
  let ?crc = "rev (be_digits 4 (crc32 toy_body))"
  have body: "toy_body = [97, 61, 49, 0, 98, 61, 50, 0, 0]" by (simp add: toy_body_def env_item_def)
  have "0 \<le> crc32 toy_body" "crc32 toy_body < 256 ^ 4" using uint_lt2p [where 'a = 32] by (simp_all add: crc32_def)
  then have crc: "from_bytes (rev ?crc) = crc32 toy_body" by (simp only: rev_rev_ident from_be_digits)
  have len: "length ?crc = 4" by (simp add: numeral_eq_Suc)
  have vars: "list_all (\<lambda>(k, v). clean_item k \<and> 61 \<notin> set k \<and> clean_item v \<and> toy_utf8 k \<noteq> None) ?vars"
    "distinct (map (\<lambda>(k, v). the (toy_utf8 k)) ?vars)" "toy_body = join_zero (map env_item ?vars) @ 0 # 0 # []"
    "8 \<le> 4 + length toy_body \<and> 4 + length toy_body \<le> 262144"
    by (simp_all add: clean_item_def toy_utf8_def toy_body_def env_item_def) code_simp?
  from environment_reads_back [OF _ vars len crc, of "map chr"]
  have "uboot_env toy_utf8 (map chr) (Some \<lparr>pt_size = Some (int (4 + length toy_body)), pt_bytes = Some (?crc @ toy_body)\<rparr>) =
    \<lparr>be_crc_ok = Some True, be_variables = map (\<lambda>(k, v). (the (toy_utf8 k), map chr v)) ?vars\<rparr>" by simp
  moreover have "map (\<lambda>(k, v). (the (toy_utf8 k), map chr v)) ?vars = [(''a'', ''1''), (''b'', ''2'')]" by code_simp
  ultimately show ?thesis by (intro exI [of _ ?crc]) (simp add: body)
qed

subsection \<open>Two boards with different passphrases\<close>

lemma slot_of_concat:
  "list_all (\<lambda>s. length s = VENDOR_SLOT_SIZE) ss \<Longrightarrow> i < length ss \<Longrightarrow> slot_of (concat ss) i = ss ! i"
proof (induction ss arbitrary: i)
  case (Cons s ss)
  then show ?case by (cases i) (simp_all add: slot_of_def)
qed simp

definition board_slots :: "int \<Rightarrow> int list list" where
  "board_slots key = map (\<lambda>i. (if i = 7 then key else 65) # replicate 63 0) [0..<14]"

definition board_art :: "int \<Rightarrow> partition" where
  "board_art key = \<lparr>pt_size = None, pt_bytes = Some (replicate VENDOR_BLOCK_OFFSET 0 @ concat (board_slots key))\<rparr>"

lemma secrets_withheld_witness: "vendor_block (Some (board_art 66)) False = vendor_block (Some (board_art 67)) False"
proof -
  have len: "list_all (\<lambda>s. length s = VENDOR_SLOT_SIZE) (board_slots key)" "length (board_slots key) = 14" for key
    by (auto simp: board_slots_def VENDOR_SLOT_SIZE_def list_all_iff)
  have "length (concat (board_slots key)) = vendor_span" for key
    by (simp add: length_concat board_slots_def vendor_span_eq o_def sum_list_triv)
  then have read: "read_region (board_art key) VENDOR_BLOCK_OFFSET vendor_span = Some (concat (board_slots key))" for key
    by (simp add: read_region_def board_art_def Let_def)
  have slot: "i < 14 \<Longrightarrow> slot_of (concat (board_slots key)) i = (if i = 7 then key else 65) # replicate 63 0" for key i
    using slot_of_concat [OF len(1), of i key] len(2) by (simp only: board_slots_def nth_map_upt diff_zero add_0 length_map length_upt)
  have seven: "(7, name) \<in> set VENDOR_SLOTS \<Longrightarrow> name \<in> set VENDOR_SECRET_FIELDS" for name
    by (simp add: VENDOR_SLOTS_def VENDOR_SECRET_FIELDS_def)
  have "65 \<in> set (concat (board_slots key))" for key
    by (simp add: board_slots_def upt_rec [of 0])
  then have blank: "\<not> is_blank (concat (board_slots key))" for key by (force simp: is_blank_def list_all_iff)
  have set: "slot_text (66 # replicate 63 0) \<noteq> None" "slot_text (67 # replicate 63 0) \<noteq> None" by code_simp+
  have "if name \<in> set VENDOR_SECRET_FIELDS
      then (slot_text (slot_of (concat (board_slots 66)) i) = None) = (slot_text (slot_of (concat (board_slots 67)) i) = None)
      else slot_of (concat (board_slots 66)) i = slot_of (concat (board_slots 67)) i"
    if m: "(i, name) \<in> set VENDOR_SLOTS" for i name
  proof -
    have "i < 14" using slots_distinct(2) m by (auto simp: list_all_iff)
    from slot [OF this] show ?thesis using seven [of name] m set by (cases "i = 7") (auto simp del: replicate.simps)
  qed
  then have "same_but_secrets (concat (board_slots 66)) (concat (board_slots 67))"
    using blank unfolding same_but_secrets_def list_all_iff by auto
  then show ?thesis by (rule secrets_withheld [OF read read])
qed

end
