(* ===== verification/Spec2Isabelle.thy ===== *)
theory Spec2Isabelle
  imports Migration AuthSafety Gateway WanHealth EventSafety HostapdSafety WifiSafety
    ApiSafety OtadSafety Dhcptrace RfSafety DpiSafety Telemetry Traffic UnifiSafety IwSafety HwdSafety ArtSafety
begin

text \<open>
  Verification of the gateway software of debian-sbe1v1k (\<open>src/gateway/sbegw\<close>), the Python daemons that
  turn one configuration document into a running router and access point.

  The program. A document is a JSON value. \<open>schema.py\<close> checks and completes it; \<open>configd.py\<close> keeps the
  running one and a candidate, commits the candidate through a list of appliers, rolls back when an
  applier or a health check fails or nobody confirms in time, and keeps a history and an audit log;
  \<open>auth.py\<close> decides who may do that. The appliers are the network daemon \<open>netd.py\<close>, which renders the
  firewall (\<open>adapters/nft.py\<close>) and dnsmasq and watches the WANs, and the wireless daemon \<open>wifid.py\<close>, which
  plans BSSes and renders hostapd (\<open>adapters/hostapd.py\<close>). \<open>events.py\<close> records what happens. \<open>api.py\<close> is the
  front door: it authenticates a request, checks its permission and edits the candidate. Beside them
  \<open>otad.py\<close> installs firmware, \<open>rf.py\<close> recommends channels, \<open>dhcptrace.py\<close> listens to DHCP, \<open>clientd.py\<close> keeps
  the table of devices, \<open>dpi.py\<close> counts what they do, \<open>telemetry.py\<close> stores measurements and \<open>unifi.py\<close> takes desired state from a
  UniFi controller. What the radios say comes from \<open>iw\<close> through \<open>adapters/nl80211.py\<close>; \<open>hwd.py\<close> drives the fan and the status
  LED on the readings of \<open>adapters/platform.py\<close>.

  Representation. A document is the datatype \<open>json\<close> with dictionaries as association lists in insertion
  order. Python text is a HOL string of the characters up to code 255, a bytes value likewise;
  integers are \<open>int\<close>, floats \<open>rat\<close>. A raised exception is the left part of a sum: \<open>verr\<close> holds a
  validation error with its field path or the class of a Python exception. What the program reads
  from the system, and what external tools answer, are arguments; appliers act on a world of an
  arbitrary type. Every function of the program that mutates an object returns the new one.

  Theories, in the order of use.
  \<^item> \<open>Prelude\<close>, \<open>PyStr\<close>, \<open>Json\<close>, \<open>IpAddr\<close>: association lists and the error monad, Python's string methods
    and number syntax, JSON values with Python equality and truth, the part of \<open>ipaddress\<close> that is used.
  \<^item> \<open>SchemaPrim\<close>, \<open>SchemaCore\<close>, \<open>SchemaPolicy\<close>, \<open>SchemaWifi\<close>, \<open>Schema\<close>: \<open>schema.py\<close>, every validator, the
    default document and \<open>validate\<close>; \<open>RfChannels\<close>: the channel tables of \<open>rf.py\<close> it uses. \<open>SchemaSound\<close>: what
    an accepted document satisfies. The loops over a section are instances of the locales
    \<open>checked_loop\<close> (every entry left behind is good) and \<open>seen_loop\<close> (no two entries claim the same thing)
    of \<open>Json\<close>.
  \<^item> \<open>ConfigDiff\<close>, \<open>ConfigStore\<close>: \<open>configd.py\<close>. The timer's callback runs in two critical sections
    (\<open>timeout_begin\<close>, \<open>timeout_finish\<close>), as in the code. \<open>StoreSafety\<close>: the states reachable by any sequence of
    operations; \<open>Migration\<close>: the merge with the defaults.
  \<^item> \<open>Auth\<close>, \<open>AuthSafety\<close>: \<open>auth.py\<close>; the hash functions are a parameter.
  \<^item> \<open>Doc\<close>: reading accessors over a validated document, shared by the renderers.
  \<^item> \<open>Nft\<close>, \<open>NftSafety\<close>: the ruleset as rules and as text; a packet is what it answers to each match, and
    \<open>verdict\<close> is the first-match reading of a chain. \<open>NetPlan\<close>, \<open>NetSafety\<close>: zones, policy routing and
    the apply pipeline of \<open>netd.py\<close>; \<open>WanHealth\<close>: its WAN monitor; \<open>Dnsmasq\<close>: its dnsmasq configuration
    and leases; \<open>Traffic\<close>: its smart queues and routes, with the commands of \<open>adapters/rtnl.py\<close>. \<open>Gateway\<close>: the
    properties that join validation, the store and the network daemon.
  \<^item> \<open>Events\<close>, \<open>EventSafety\<close>: \<open>events.py\<close>.
  \<^item> \<open>MacAddr\<close>: address arithmetic of \<open>util.py\<close> and \<open>wifid.py\<close>. \<open>Hostapd\<close>, \<open>HostapdSafety\<close>: the rendered
    hostapd configuration. \<open>WifiPlan\<close>, \<open>WifiSafety\<close>: slots and the plan of \<open>wifid.py\<close>.
  \<^item> \<open>Api\<close>, \<open>ApiHandlers\<close>, \<open>ApiSafety\<close>: routing, sessions and CSRF, permissions and the handlers of \<open>api.py\<close> that
    change the configuration or the accounts, on the store of \<open>ConfigStore\<close> and the accounts of \<open>Auth\<close>;
    what the table of clients answers to \<open>put_client\<close> is an argument.
  \<^item> \<open>Otad\<close>, \<open>OtadSafety\<close>: \<open>otad.py\<close> on a state with the archive, the devices and the trace of what was done;
    \<open>Dhcptrace\<close>: the frame decoder of \<open>dhcptrace.py\<close>; \<open>PyNum\<close>, \<open>Rf\<close>, \<open>RfSafety\<close>: Python's rounding, and the
    scoring, recommendation and switching of \<open>rf.py\<close>.
  \<^item> \<open>Clients\<close>, \<open>ClientsSafety\<close>: \<open>clientd.py\<close>, whose poll joins leases, neighbours, the forwarding table and
    stations; \<open>Dpi\<close>, \<open>DpiSafety\<close>: \<open>dpi.py\<close>, from a line of Suricata's event file to the summary; \<open>Telemetry\<close>:
    the store of \<open>telemetry.py\<close>; \<open>Unifi\<close>, \<open>UnifiSync\<close>, \<open>UnifiSafety\<close>: \<open>unifi.py\<close>, the frames and the state of the
    agent, and the translation and commit of what a controller wants. Bounded logs share the locale \<open>bounded_log\<close>.
  \<^item> \<open>IwText\<close>, \<open>Iw\<close>, \<open>IwCaps\<close>, \<open>IwSafety\<close>: \<open>adapters/nl80211.py\<close>. Its regular expressions are functions on
    strings; its four line parsers are instances of the locale \<open>block_parser\<close>, which reads a text by blocks.
  \<^item> \<open>OsPath\<close>, \<open>SysFs\<close>: paths, and the files below \<open>/sys\<close> and \<open>/proc\<close> as an argument; \<open>Platform\<close>:
    \<open>adapters/platform.py\<close> on it; \<open>Hwd\<close>, \<open>HwdSafety\<close>: the fan and LED policy of \<open>hwd.py\<close>. \<open>Art\<close>, \<open>ArtSafety\<close>:
    \<open>adapters/art.py\<close>, the factory partition and the bootloader environment as bytes.

  What the lemmas show. Accepted documents are consistent (disjoint subnets, WPA3 on 6 GHz, radios
  on channels that exist, multi-link devices over distinct bands). The store never runs or restores
  a document that was not validated, always has a timer while a commit is pending, and undoes what
  fails. Logins are bounded and guarded. The input and the forward chain give every packet the
  verdict the document asks for, on every bridge, interface and tunnel, rendered rulesets only use sets they declare, DHCP ranges lie in
  their networks, and a commit that takes effect has its ruleset in the kernel. Slots and BSSIDs
  are stable and distinct. Only requests with the permission of their route reach a handler, and a refused
  edit leaves nothing behind; the accounts are out of reach of every handler but those for users, the restore of a
  backup and the rollback. Nothing is written to a partition unless the whole image is valid, and
  the device reboots only after the read-back agreed; on a sound medium every sound image is installed. The recommended channel is the best feasible one
  and does not flap. The change list of a commit names exactly the places where the documents part. A poll shows every device once and keeps what the owner set; flows are counted
  exactly, and the counters, histories and caches stay bounded; the rows of the metric store are bounded within one
  run of the service, and every start may add one. A controller changes the configuration only through
  the store, and its frames decode to what was sent. The widths read
  from \<open>iw\<close> are ones the schema accepts. The fan does not hunt and is
  never slower than its curve. The factory passphrases leave no trace in the ordinary reading of the
  identity block. Smart queues touch nothing but their own. Several theorems state where the code does not do what it means to: a
  commit can be lost to the timer, WAN events are never emitted, MAC filters are not enforced, the
  links of a multi-link device can end on different interfaces, an SSID can add lines.

  Bounds and fuel. Nothing is bounded by fuel: all loops of the program run over finite lists and are
  structural recursion or have a measure; the walks over tags and options of \<open>Dhcptrace\<close> recurse on the
  bytes that are left, and a property shows that they end. The dictionaries of a document have distinct keys, which
  \<open>wf_json\<close> states and reading JSON guarantees.

  Not modelled: the text of error messages and logs; \<open>str\<close> of floats and containers where the program
  would print them into a configuration; the stages of the network daemon that run \<open>bridge\<close>, WireGuard
  and DHCP clients (parameters of \<open>net_driver\<close>); starting and querying hostapd; radio discovery, the health
  and the actions of \<open>wifid.py\<close>; SQL and files beyond their contents; threads, save for the two halves of
  the timer; the streaming and read-only handlers of the HTTP API; the \<open>Sampler\<close> of \<open>telemetry.py\<close>, which
  reads every source once a period; the parsers of \<open>ethtool\<close> output; the
  device tree, socinfo and eMMC documents of \<open>adapters/art.py\<close>; the cipher, zlib
  and HTTP below \<open>unifi.py\<close>, which are arguments; \<open>main.py\<close>, which wires the processes, beyond the mark that the system is up. The entries of a change list hold the
  values themselves, where the code's entries alias the documents.
\<close>

end
